(* ===== verification/Prelude.thy ===== *)
theory Prelude
  imports Main "HOL-Library.Sublist" "HOL-Library.Word" "HOL-Library.Char_ord"
    "HOL-Library.List_Lexorder"
begin

text \<open>
  Shared vocabulary of the development.

  A Rust \<^verbatim>\<open>Result<T, E>\<close> is the sum \<^typ>\<open>'e + 'a\<close> with the error on the left, and
  \<open>try_then\<close> is the \<^verbatim>\<open>?\<close> operator.  A Rust \<^verbatim>\<open>String\<close> is the list of its UTF-8 bytes,
  an Isabelle \<^typ>\<open>string\<close>.  The string routines of the Rust standard library that
  the program calls (\<^verbatim>\<open>split\<close>, \<^verbatim>\<open>split_once\<close>, \<^verbatim>\<open>strip_prefix\<close>, \<^verbatim>\<open>strip_suffix\<close>,
  \<^verbatim>\<open>starts_with\<close>, \<^verbatim>\<open>ends_with\<close>, \<^verbatim>\<open>contains\<close>, decimal printing) are defined here once,
  with the laws the component theories use.
\<close>

named_theorems result_simps \<open>inversion of successful and failing Result pipelines\<close>
named_theorems str_simps \<open>laws of the Rust string routines\<close>

section \<open>Results\<close>

abbreviation Ok :: "'a \<Rightarrow> 'e + 'a" where "Ok \<equiv> Inr"
abbreviation Err :: "'e \<Rightarrow> 'e + 'a" where "Err \<equiv> Inl"

fun try_then :: "'e + 'a \<Rightarrow> ('a \<Rightarrow> 'e + 'b) \<Rightarrow> 'e + 'b" where
  "try_then (Inl e) k = Inl e"
| "try_then (Inr a) k = k a"

fun map_err :: "('e \<Rightarrow> 'f) \<Rightarrow> 'e + 'a \<Rightarrow> 'f + 'a" where
  "map_err f (Inl e) = Inl (f e)"
| "map_err f (Inr a) = Inr a"

fun map_ok :: "('a \<Rightarrow> 'b) \<Rightarrow> 'e + 'a \<Rightarrow> 'e + 'b" where
  "map_ok f (Inl e) = Inl e"
| "map_ok f (Inr a) = Inr (f a)"

definition ok_or :: "'e \<Rightarrow> 'a option \<Rightarrow> 'e + 'a" where
  "ok_or e x = (case x of None \<Rightarrow> Inl e | Some a \<Rightarrow> Inr a)"

fun is_ok :: "'e + 'a \<Rightarrow> bool" where
  "is_ok (Inl e) = False"
| "is_ok (Inr a) = True"

text \<open>\<^verbatim>\<open>iter().map(f).collect::<Result<Vec<_>, _>>()\<close>: the first error stops the walk.\<close>

fun collect_map :: "('a \<Rightarrow> 'e + 'b) \<Rightarrow> 'a list \<Rightarrow> 'e + 'b list" where
  "collect_map f [] = Inr []"
| "collect_map f (x # xs) =
     try_then (f x) (\<lambda>y. try_then (collect_map f xs) (\<lambda>ys. Inr (y # ys)))"

text \<open>A \<^verbatim>\<open>for\<close> loop whose body may leave with \<^verbatim>\<open>?\<close>.\<close>

fun try_fold :: "('s \<Rightarrow> 'a \<Rightarrow> 'e + 's) \<Rightarrow> 's \<Rightarrow> 'a list \<Rightarrow> 'e + 's" where
  "try_fold f s [] = Inr s"
| "try_fold f s (x # xs) = try_then (f s x) (\<lambda>s'. try_fold f s' xs)"

lemma try_then_Ok_iff [result_simps]:
  "try_then r k = Inr b \<longleftrightarrow> (\<exists>a. r = Inr a \<and> k a = Inr b)"
  by (cases r) auto

lemma try_then_Err_iff [result_simps]:
  "try_then r k = Inl e \<longleftrightarrow> r = Inl e \<or> (\<exists>a. r = Inr a \<and> k a = Inl e)"
  by (cases r) auto

lemma map_err_Ok_iff [result_simps]: "map_err f r = Inr a \<longleftrightarrow> r = Inr a"
  by (cases r) auto

lemma map_err_Err_iff [result_simps]: "map_err f r = Inl e \<longleftrightarrow> (\<exists>d. r = Inl d \<and> e = f d)"
  by (cases r) auto

lemma map_ok_Ok_iff [result_simps]: "map_ok f r = Inr b \<longleftrightarrow> (\<exists>a. r = Inr a \<and> b = f a)"
  by (cases r) auto

lemma map_ok_Err_iff [result_simps]: "map_ok f r = Inl e \<longleftrightarrow> r = Inl e"
  by (cases r) auto

lemma ok_or_Ok_iff [result_simps]: "ok_or e x = Inr a \<longleftrightarrow> x = Some a"
  by (cases x) (auto simp: ok_or_def)

lemma ok_or_Err_iff [result_simps]: "ok_or e x = Inl d \<longleftrightarrow> x = None \<and> d = e"
  by (cases x) (auto simp: ok_or_def)

lemma ok_or_simps [simp]: "ok_or e None = Inl e" "ok_or e (Some a) = Inr a"
  by (simp_all add: ok_or_def)

lemma is_ok_iff: "is_ok r \<longleftrightarrow> (\<exists>a. r = Inr a)"
  by (cases r) auto

lemma collect_map_Ok_iff:
  "collect_map f xs = Inr ys \<longleftrightarrow> list_all2 (\<lambda>x y. f x = Inr y) xs ys"
  by (induction xs arbitrary: ys) (auto simp: result_simps list_all2_Cons1)

lemma collect_map_cong:
  "(\<And>x. x \<in> set xs \<Longrightarrow> f x = g x) \<Longrightarrow> collect_map f xs = collect_map g xs"
  by (induction xs) auto

lemma collect_map_is_ok: "is_ok (collect_map f xs) \<longleftrightarrow> (\<forall>x\<in>set xs. is_ok (f x))"
  by (induction xs) (auto simp: is_ok_iff result_simps)

lemma collect_map_Err:
  "collect_map f xs = Inl e \<Longrightarrow>
     \<exists>pre x post. xs = pre @ x # post \<and> f x = Inl e \<and> (\<forall>y\<in>set pre. is_ok (f y))"
proof (induction xs)
  case (Cons a xs)
  show ?case
  proof (cases "f a")
    case (Inl d)
    with Cons.prems have "a # xs = [] @ a # xs \<and> f a = Inl e \<and> (\<forall>y\<in>set []. is_ok (f y))"
      by simp
    then show ?thesis by blast
  next
    case (Inr b)
    with Cons obtain pre x post where
      "xs = pre @ x # post" "f x = Inl e" "\<forall>y\<in>set pre. is_ok (f y)"
      by (auto simp: try_then_Err_iff)
    with Inr have "a # xs = (a # pre) @ x # post \<and> f x = Inl e \<and> (\<forall>y\<in>set (a # pre). is_ok (f y))"
      by simp
    then show ?thesis by blast
  qed
qed simp

lemma try_fold_append:
  "try_fold f s (xs @ ys) = try_then (try_fold f s xs) (\<lambda>s'. try_fold f s' ys)"
proof (induction xs arbitrary: s)
  case (Cons x xs)
  then show ?case by (cases "f s x") auto
qed simp

text \<open>A loop invariant of a \<^verbatim>\<open>for\<close> loop with \<^verbatim>\<open>?\<close>.\<close>

lemma try_fold_invariant:
  assumes "try_fold f s xs = Inr s'" and "I s"
    and "\<And>s x s'. I s \<Longrightarrow> x \<in> set xs \<Longrightarrow> f s x = Inr s' \<Longrightarrow> I s'"
  shows "I s'"
  using assms
proof (induction xs arbitrary: s)
  case (Cons x xs)
  from Cons.prems(1) obtain t where t: "f s x = Inr t" "try_fold f t xs = Inr s'"
    by (auto simp: try_then_Ok_iff)
  have "I t" by (rule Cons.prems(3) [OF Cons.prems(2) _ t(1)]) simp
  then show ?case
    by (rule Cons.IH [OF t(2)]) (rule Cons.prems(3), assumption, simp_all)
qed simp

section \<open>Computations with a trace\<close>

text \<open>A fallible computation that records the effects it had, in order, also when it fails.\<close>

type_synonym ('e, 'a, 'ev) traced = "('e + 'a) \<times> 'ev list"

definition traced_then ::
  "('e, 'a, 'ev) traced \<Rightarrow> ('a \<Rightarrow> ('e, 'b, 'ev) traced) \<Rightarrow> ('e, 'b, 'ev) traced" where
  "traced_then m k =
     (case m of (Inl e, ev) \<Rightarrow> (Inl e, ev)
      | (Inr a, ev) \<Rightarrow> (case k a of (r, ev') \<Rightarrow> (r, ev @ ev')))"

definition pure_result :: "'e + 'a \<Rightarrow> ('e, 'a, 'ev) traced" where
  "pure_result r = (r, [])"

fun traced_map :: "('x \<Rightarrow> ('e, 'a, 'ev) traced) \<Rightarrow> 'x list \<Rightarrow> ('e, 'a list, 'ev) traced" where
  "traced_map f [] = (Inr [], [])"
| "traced_map f (x # xs) =
     traced_then (f x) (\<lambda>y. traced_then (traced_map f xs) (\<lambda>ys. (Inr (y # ys), [])))"

lemma traced_then_simps [simp]:
  "traced_then (Inl e, ev) k = (Inl e, ev)"
  "traced_then (Inr a, ev) k = (fst (k a), ev @ snd (k a))"
  by (simp_all add: traced_then_def split: prod.splits)

lemma fst_traced_then: "fst (traced_then m k) = try_then (fst m) (\<lambda>a. fst (k a))"
  by (cases m; cases "fst m") auto

lemma snd_traced_then:
  "snd (traced_then m k) = snd m @ (case fst m of Inl _ \<Rightarrow> [] | Inr a \<Rightarrow> snd (k a))"
  by (cases m; cases "fst m") auto

lemma fst_traced_map: "fst (traced_map f xs) = collect_map (\<lambda>x. fst (f x)) xs"
  by (induction xs) (simp_all add: fst_traced_then)

lemma snd_traced_map_subset: "set (snd (traced_map f xs)) \<subseteq> (\<Union>x\<in>set xs. set (snd (f x)))"
  by (induction xs) (auto simp: snd_traced_then split: sum.splits)

section \<open>Nested loops\<close>

lemma try_fold_cong:
  "(\<And>s x. x \<in> set xs \<Longrightarrow> f s x = g s x) \<Longrightarrow> try_fold f s xs = try_fold g s xs"
proof (induction xs arbitrary: s)
  case (Cons x xs)
  then show ?case by (cases "g s x") auto
qed simp

lemma try_fold_map: "try_fold f s (map g xs) = try_fold (\<lambda>s x. f s (g x)) s xs"
proof (induction xs arbitrary: s)
  case (Cons x xs)
  then show ?case by (cases "f s (g x)") simp_all
qed simp

lemma try_fold_nested:
  "try_fold (\<lambda>s (k, xs). try_fold (\<lambda>s x. f k x s) s xs) s kxs =
     try_fold (\<lambda>s (k, x). f k x s) s (concat (map (\<lambda>(k, xs). map (Pair k) xs) kxs))"
proof (induction kxs arbitrary: s)
  case (Cons kx kxs)
  obtain k xs where "kx = (k, xs)" by (cases kx)
  with Cons show ?case by (simp add: try_fold_append try_fold_map)
qed simp

end
