(* ===== verification/Rust_Strings.thy ===== *)
theory Rust_Strings
  imports Prelude
begin

text \<open>
  The routines of Rust's \<^verbatim>\<open>str\<close> type the program calls, over UTF-8 byte strings:
  splitting on a separator, joining, prefixes and suffixes, and decimal printing, with
  the round trips between them.
\<close>

section \<open>Splitting and joining\<close>

text \<open>\<^verbatim>\<open>s.split(c).collect::<Vec<_>>()\<close>: never empty; \<^verbatim>\<open>"".split(c)\<close> is one empty piece.\<close>

fun split_on :: "'a \<Rightarrow> 'a list \<Rightarrow> 'a list list" where
  "split_on c [] = [[]]"
| "split_on c (x # xs) =
     (if x = c then [] # split_on c xs
      else (x # hd (split_on c xs)) # tl (split_on c xs))"

text \<open>\<^verbatim>\<open>pieces.join(c)\<close> for a one-byte separator.\<close>

fun join_on :: "'a \<Rightarrow> 'a list list \<Rightarrow> 'a list" where
  "join_on c [] = []"
| "join_on c [p] = p"
| "join_on c (p # q # ps) = p @ c # join_on c (q # ps)"

text \<open>\<^verbatim>\<open>pieces.join(sep)\<close> for a separator string.\<close>

fun join_str :: "string \<Rightarrow> string list \<Rightarrow> string" where
  "join_str sep [] = []"
| "join_str sep [p] = p"
| "join_str sep (p # q # ps) = p @ sep @ join_str sep (q # ps)"

text \<open>\<^verbatim>\<open>s.split_once(c)\<close>: the two sides of the first occurrence.\<close>

fun split_once :: "'a \<Rightarrow> 'a list \<Rightarrow> ('a list \<times> 'a list) option" where
  "split_once c [] = None"
| "split_once c (x # xs) =
     (if x = c then Some ([], xs)
      else map_option (\<lambda>(a, b). (x # a, b)) (split_once c xs))"

text \<open>\<^verbatim>\<open>s.splitn(2, sep)\<close> and \<^verbatim>\<open>s.split_once(sep)\<close> for a separator string.\<close>

fun split_once_str :: "string \<Rightarrow> string \<Rightarrow> (string \<times> string) option" where
  "split_once_str sep s =
     (if prefix sep s then Some ([], drop (length sep) s)
      else (case s of [] \<Rightarrow> None
            | x # xs \<Rightarrow> map_option (\<lambda>(a, b). (x # a, b)) (split_once_str sep xs)))"

declare split_once_str.simps [simp del]

lemma split_on_nonempty [simp]: "split_on c s \<noteq> []"
  by (cases s) auto

lemma hd_tl_split_on [simp]: "hd (split_on c s) # tl (split_on c s) = split_on c s"
  by (simp add: hd_Cons_tl)

lemma split_on_pieces [str_simps]: "p \<in> set (split_on c s) \<Longrightarrow> c \<notin> set p"
proof (induction s arbitrary: p)
  case (Cons x xs)
  have hd: "hd (split_on c xs) \<in> set (split_on c xs)" by simp
  have tl: "q \<in> set (split_on c xs)" if "q \<in> set (tl (split_on c xs))" for q
    using that by (meson list.set_sel(2) split_on_nonempty)
  show ?case
    using Cons.prems Cons.IH [OF hd] Cons.IH tl by (auto split: if_splits)
qed simp

lemma split_on_no_sep [str_simps]: "c \<notin> set s \<Longrightarrow> split_on c s = [s]"
  by (induction s) auto

lemma split_on_append [str_simps]:
  "c \<notin> set a \<Longrightarrow> split_on c (a @ c # b) = a # split_on c b"
  by (induction a) auto

lemma length_split_on: "length (split_on c s) = Suc (count_list s c)"
proof (induction s)
  case (Cons x xs)
  then have "length (tl (split_on c xs)) = count_list xs c" by simp
  with Cons show ?case by simp
qed simp

lemma split_on_singleton_iff: "split_on c s = [p] \<longleftrightarrow> c \<notin> set s \<and> p = s"
proof
  assume "split_on c s = [p]"
  then have "count_list s c = 0" using length_split_on [of c s] by simp
  then have "c \<notin> set s" by (simp add: count_list_0_iff)
  with \<open>split_on c s = [p]\<close> show "c \<notin> set s \<and> p = s" by (simp add: split_on_no_sep)
qed (simp add: split_on_no_sep)

lemma join_on_Cons: "ps \<noteq> [] \<Longrightarrow> join_on c (p # ps) = p @ c # join_on c ps"
  by (cases ps) auto

lemma join_split_on [simp]: "join_on c (split_on c s) = s"
proof (induction s)
  case (Cons x xs)
  obtain p ps where ps: "split_on c xs = p # ps" by (cases "split_on c xs") auto
  with Cons show ?case by (cases ps) auto
qed simp

lemma split_join_on [str_simps]:
  "ps \<noteq> [] \<Longrightarrow> \<forall>p\<in>set ps. c \<notin> set p \<Longrightarrow> split_on c (join_on c ps) = ps"
  by (induction c ps rule: join_on.induct) (auto simp: split_on_no_sep split_on_append)

lemma split_on_inject: "split_on c s = split_on c t \<longleftrightarrow> s = t"
  by (metis join_split_on)

lemma set_join_on: "p \<in> set ps \<Longrightarrow> set p \<subseteq> set (join_on c ps)"
  by (induction c ps rule: join_on.induct) auto

lemma set_split_on: "p \<in> set (split_on c s) \<Longrightarrow> set p \<subseteq> set s"
  using set_join_on [of p "split_on c s" c] by simp

lemma split_once_Some_iff [str_simps]:
  "split_once c s = Some (a, b) \<longleftrightarrow> s = a @ c # b \<and> c \<notin> set a"
proof (induction s arbitrary: a b)
  case (Cons x xs)
  then show ?case by (cases a) auto
qed simp

lemma split_once_None_iff [str_simps]: "split_once c s = None \<longleftrightarrow> c \<notin> set s"
  by (induction s) auto

section \<open>Prefixes, suffixes, trimming\<close>

definition strip_prefix :: "string \<Rightarrow> string \<Rightarrow> string option" where
  "strip_prefix p s = (if prefix p s then Some (drop (length p) s) else None)"

definition strip_suffix :: "string \<Rightarrow> string \<Rightarrow> string option" where
  "strip_suffix x s = (if suffix x s then Some (take (length s - length x) s) else None)"

lemma strip_prefix_Some_iff [str_simps]: "strip_prefix p s = Some r \<longleftrightarrow> s = p @ r"
  by (auto simp: strip_prefix_def prefix_def)

lemma strip_suffix_Some_iff [str_simps]: "strip_suffix x s = Some r \<longleftrightarrow> s = r @ x"
  by (auto simp: strip_suffix_def suffix_def)

lemma strip_prefix_None_iff [str_simps]: "strip_prefix p s = None \<longleftrightarrow> \<not> prefix p s"
  by (auto simp: strip_prefix_def)

lemma strip_suffix_None_iff [str_simps]: "strip_suffix x s = None \<longleftrightarrow> \<not> suffix x s"
  by (auto simp: strip_suffix_def)

section \<open>Decimal printing\<close>

definition digit :: "nat \<Rightarrow> char" where
  "digit n = char_of (48 + n)"

fun show_nat :: "nat \<Rightarrow> string" where
  "show_nat n = (if n < 10 then [digit n] else show_nat (n div 10) @ [digit (n mod 10)])"

declare show_nat.simps [simp del]

definition read_digits :: "string \<Rightarrow> nat" where
  "read_digits = foldl (\<lambda>acc c. 10 * acc + (of_char c - 48)) 0"

lemma of_char_digit: "n < 10 \<Longrightarrow> (of_char (digit n) :: nat) = 48 + n"
  by (simp add: digit_def of_char_of)

lemma read_show_nat [simp]: "read_digits (show_nat n) = n"
proof (induction n rule: show_nat.induct)
  case (1 n)
  then show ?case
    by (subst show_nat.simps) (auto simp: read_digits_def of_char_digit)
qed

lemma show_nat_inject [simp]: "show_nat m = show_nat n \<longleftrightarrow> m = n"
  by (metis read_show_nat)

text \<open>\<^verbatim>\<open>str::parse::<u64>()\<close>: an optional sign \<^verbatim>\<open>+\<close> and digits, read one by one.\<close>

definition u64_digit :: "nat \<Rightarrow> char \<Rightarrow> string + nat" where
  "u64_digit acc c =
     (if of_char c < (48 :: nat) \<or> (57 :: nat) < of_char c then Err ''invalid digit found in string''
      else if 2 ^ 64 \<le> 10 * acc + (of_char c - 48) then Err ''number too large to fit in target type''
      else Ok (10 * acc + (of_char c - 48)))"

definition parse_u64 :: "string \<Rightarrow> string + nat" where
  "parse_u64 s =
     (if s = [] then Err ''cannot parse integer from empty string''
      else if s = ''+'' then Err ''invalid digit found in string''
      else try_fold u64_digit 0 (case s of c # cs \<Rightarrow> if c = CHR ''+'' then cs else s | [] \<Rightarrow> s))"

lemma u64_digit_digit:
  "n < 10 \<Longrightarrow> 10 * acc + n < 2 ^ 64 \<Longrightarrow> u64_digit acc (digit n) = Ok (10 * acc + n)"
  by (simp add: u64_digit_def of_char_digit)

lemma parse_digits_show_nat: "n < 2 ^ 64 \<Longrightarrow> try_fold u64_digit 0 (show_nat n) = Ok n"
proof (induction n rule: show_nat.induct)
  case (1 n)
  show ?case
  proof (cases "n < 10")
    case True
    with 1(2) u64_digit_digit [of n 0] show ?thesis by (subst show_nat.simps) simp
  next
    case False
    have "n div 10 < 2 ^ 64" using 1(2) by (meson div_le_dividend le_less_trans)
    with 1(1) False have "try_fold u64_digit 0 (show_nat (n div 10)) = Ok (n div 10)" by blast
    moreover have "u64_digit (n div 10) (digit (n mod 10)) = Ok n"
      using u64_digit_digit [of "n mod 10" "n div 10"] 1(2) by simp
    ultimately show ?thesis using False by (subst show_nat.simps) (simp add: try_fold_append)
  qed
qed

lemma show_nat_Cons: "\<exists>c cs. show_nat n = c # cs \<and> (48 :: nat) \<le> of_char c"
proof (induction n rule: show_nat.induct)
  case (1 n)
  then show ?case
    using of_char_digit [of n] by (subst (1) show_nat.simps) (cases "n < 10"; auto)
qed

lemma parse_show_u64: "n < 2 ^ 64 \<Longrightarrow> parse_u64 (show_nat n) = Ok n"
proof -
  assume n: "n < 2 ^ 64"
  obtain c cs where c: "show_nat n = c # cs" "(48 :: nat) \<le> of_char c" using show_nat_Cons by blast
  then have "c \<noteq> CHR ''+''" by auto
  with c parse_digits_show_nat [OF n] show ?thesis by (simp add: parse_u64_def)
qed

lemma parse_u64_bound: "parse_u64 s = Ok n \<Longrightarrow> n < 2 ^ 64"
proof -
  assume "parse_u64 s = Ok n"
  then obtain cs where "try_fold u64_digit 0 cs = Ok n" by (auto simp: parse_u64_def split: if_splits)
  then show "n < 2 ^ 64"
    by (rule try_fold_invariant [where I = "\<lambda>n. n < 2 ^ 64"]) (auto simp: u64_digit_def split: if_splits)
qed

section \<open>Trimming white space\<close>

text \<open>
  \<^verbatim>\<open>str::trim\<close> removes the characters of the Unicode property White_Space at both ends;
  the list holds their UTF-8 encodings.
\<close>

definition white_space :: "string list" where
  "white_space =
     [[CHR 0x09], [CHR 0x0A], [CHR 0x0B], [CHR 0x0C], [CHR 0x0D], [CHR 0x20],
      [CHR 0xC2, CHR 0x85], [CHR 0xC2, CHR 0xA0], [CHR 0xE1, CHR 0x9A, CHR 0x80],
      [CHR 0xE2, CHR 0x80, CHR 0x80], [CHR 0xE2, CHR 0x80, CHR 0x81],
      [CHR 0xE2, CHR 0x80, CHR 0x82], [CHR 0xE2, CHR 0x80, CHR 0x83],
      [CHR 0xE2, CHR 0x80, CHR 0x84], [CHR 0xE2, CHR 0x80, CHR 0x85],
      [CHR 0xE2, CHR 0x80, CHR 0x86], [CHR 0xE2, CHR 0x80, CHR 0x87],
      [CHR 0xE2, CHR 0x80, CHR 0x88], [CHR 0xE2, CHR 0x80, CHR 0x89],
      [CHR 0xE2, CHR 0x80, CHR 0x8A], [CHR 0xE2, CHR 0x80, CHR 0xA8],
      [CHR 0xE2, CHR 0x80, CHR 0xA9], [CHR 0xE2, CHR 0x80, CHR 0xAF],
      [CHR 0xE2, CHR 0x81, CHR 0x9F], [CHR 0xE3, CHR 0x80, CHR 0x80]]"

function strip_words :: "'a list list \<Rightarrow> 'a list \<Rightarrow> 'a list" where
  "strip_words ws s =
     (case find (\<lambda>w. w \<noteq> [] \<and> prefix w s) ws of
        None \<Rightarrow> s
      | Some w \<Rightarrow> strip_words ws (drop (length w) s))"
  by pat_completeness auto
termination
  by (relation "measure (\<lambda>(ws, s). length s)") (auto simp: find_Some_iff prefix_def)

declare strip_words.simps [simp del]

definition trim_start :: "string \<Rightarrow> string" where
  "trim_start s = strip_words white_space s"

definition trim_end :: "string \<Rightarrow> string" where
  "trim_end s = rev (strip_words (map rev white_space) (rev s))"

definition trim :: "string \<Rightarrow> string" where
  "trim s = trim_end (trim_start s)"

lemma strip_words_suffix: "suffix (strip_words ws s) s"
proof (induction ws s rule: strip_words.induct)
  case (1 ws s)
  show ?case
  proof (cases "find (\<lambda>w. w \<noteq> [] \<and> prefix w s) ws")
    case None
    then show ?thesis by (simp add: strip_words.simps)
  next
    case (Some w)
    then have "suffix (strip_words ws s) (drop (length w) s)"
      using 1 by (subst strip_words.simps) simp
    then show ?thesis by (rule suffix_order.trans) (rule suffix_drop)
  qed
qed

lemma strip_words_free: "w \<in> set ws \<Longrightarrow> w \<noteq> [] \<Longrightarrow> \<not> prefix w (strip_words ws s)"
proof (induction ws s rule: strip_words.induct)
  case (1 ws s)
  then show ?case
    by (subst strip_words.simps) (auto split: option.splits simp: find_None_iff)
qed

lemma find_SomeD: "find P xs = Some x \<Longrightarrow> P x \<and> x \<in> set xs"
  by (auto simp: find_Some_iff)

lemma strip_words_id:
  "(\<And>w. w \<in> set ws \<Longrightarrow> w \<noteq> [] \<Longrightarrow> \<not> prefix w s) \<Longrightarrow> strip_words ws s = s"
  by (subst strip_words.simps) (auto simp: find_None_iff split: option.splits dest!: find_SomeD)

lemma trim_start_free: "w \<in> set white_space \<Longrightarrow> w \<noteq> [] \<Longrightarrow> \<not> prefix w (trim_start s)"
  unfolding trim_start_def by (rule strip_words_free)

lemma trim_end_prefix: "prefix (trim_end s) s"
  using strip_words_suffix [of "map rev white_space" "rev s"]
  by (simp add: trim_end_def suffix_to_prefix)

lemma trim_end_free: "w \<in> set white_space \<Longrightarrow> w \<noteq> [] \<Longrightarrow> \<not> suffix w (trim_end s)"
  using strip_words_free [of "rev w" "map rev white_space" "rev s"]
  by (simp add: trim_end_def suffix_to_prefix)

lemma trim_free:
  assumes "w \<in> set white_space" "w \<noteq> []"
  shows "\<not> prefix w (trim s)" "\<not> suffix w (trim s)"
  using trim_start_free [OF assms, of s] trim_end_free [OF assms, of "trim_start s"]
    trim_end_prefix [of "trim_start s"]
  by (auto simp: trim_def dest: prefix_order.trans)

lemma trim_id:
  assumes "\<And>w. w \<in> set white_space \<Longrightarrow> w \<noteq> [] \<Longrightarrow> \<not> prefix w s \<and> \<not> suffix w s"
  shows "trim s = s"
proof -
  have "trim_start s = s"
    unfolding trim_start_def using assms by (intro strip_words_id) auto
  moreover have "strip_words (map rev white_space) (rev s) = rev s"
    using assms by (intro strip_words_id) (auto simp: suffix_to_prefix)
  ultimately show ?thesis by (simp add: trim_def trim_end_def)
qed

lemma trim_idem [simp]: "trim (trim s) = trim s"
  using trim_free by (intro trim_id) auto

end
