(* ===== verification/Json.thy ===== *)
theory Json
  imports Rust_Strings
begin

text \<open>
  The JSON values (\<^verbatim>\<open>serde_json::Value\<close>) that requests, policy settings and Kubernetes
  objects are made of.  An object is the list of its members in the map's iteration
  order; a number is kept as its canonical text, since the program never computes with it.
\<close>

datatype json =
    JNull
  | JBool bool
  | JNumber string
  | JString string
  | JArray "json list"
  | JObject "(string \<times> json) list"

text \<open>\<^verbatim>\<open>Value::get(key)\<close> with a string key: only objects have members.\<close>

fun json_get :: "string \<Rightarrow> json \<Rightarrow> json option" where
  "json_get k (JObject ms) = map_of ms k"
| "json_get k _ = None"

fun json_as_str :: "json \<Rightarrow> string option" where
  "json_as_str (JString s) = Some s"
| "json_as_str _ = None"

text \<open>A well-formed value has no object with two members of one name, as in a map.\<close>

fun json_wf :: "json \<Rightarrow> bool" where
  "json_wf (JArray vs) = list_all json_wf vs"
| "json_wf (JObject ms) = (distinct (map fst ms) \<and> list_all (\<lambda>(k, v). json_wf v) ms)"
| "json_wf _ = True"

text \<open>The value at a path of member names.\<close>

fun json_at :: "string list \<Rightarrow> json \<Rightarrow> json option" where
  "json_at [] v = Some v"
| "json_at (k # ks) v = (case json_get k v of None \<Rightarrow> None | Some w \<Rightarrow> json_at ks w)"

lemma json_get_Some_member: "json_get k v = Some w \<Longrightarrow> \<exists>ms. v = JObject ms \<and> (k, w) \<in> set ms"
  by (cases v) (auto dest: map_of_SomeD)

lemma json_at_append:
  "json_at (ks @ ls) v = (case json_at ks v of None \<Rightarrow> None | Some w \<Rightarrow> json_at ls w)"
  by (induction ks arbitrary: v) (auto split: option.splits)

end
