(* ===== verification/Field_Mask.thy ===== *)
theory Field_Mask
  imports Json "HOL-Library.AList"
begin

text \<open>
  Field masks (\<^verbatim>\<open>policy-evaluator/src/callback_handler/kubernetes/field_mask.rs\<close>, and
  \<^verbatim>\<open>modify_object\<close> of \<^verbatim>\<open>reflector.rs\<close>): a set of dotted paths becomes a tree, and a JSON
  value is pruned to what the tree covers.  The lemmas say exactly which parts of a value
  survive, first in terms of the tree, then in terms of the list of paths.
\<close>

section \<open>Mask trees\<close>

datatype FieldMaskNode = FieldMaskNode (children: "(string \<times> FieldMaskNode) list")

definition FieldMaskNode_default :: FieldMaskNode where
  "FieldMaskNode_default = FieldMaskNode []"

fun insert_parts :: "string list \<Rightarrow> FieldMaskNode \<Rightarrow> FieldMaskNode" where
  "insert_parts [] node = node"
| "insert_parts (part # parts) node =
     FieldMaskNode (AList.update part
       (insert_parts parts
         (case map_of (children node) part of None \<Rightarrow> FieldMaskNode_default | Some c \<Rightarrow> c))
       (children node))"

definition insert_path :: "string \<Rightarrow> FieldMaskNode \<Rightarrow> FieldMaskNode" where
  "insert_path path node = insert_parts (split_on (CHR ''.'') path) node"

definition FieldMaskNode_new :: "string list \<Rightarrow> FieldMaskNode" where
  "FieldMaskNode_new paths = fold insert_path paths FieldMaskNode_default"

section \<open>Pruning\<close>

fun prune_in_place :: "json \<Rightarrow> FieldMaskNode \<Rightarrow> json"
  and prune_members :: "(string \<times> json) list \<Rightarrow> FieldMaskNode \<Rightarrow> (string \<times> json) list"
  and prune_items :: "json list \<Rightarrow> FieldMaskNode \<Rightarrow> json list" where
  "prune_in_place (JObject ms) node =
     (if children node = [] then JObject ms else JObject (prune_members ms node))"
| "prune_in_place (JArray vs) node =
     (if children node = [] then JArray vs else JArray (prune_items vs node))"
| "prune_in_place v node = v"
| "prune_members [] node = []"
| "prune_members ((key, v) # ms) node =
     (case map_of (children node) key of
        Some child \<Rightarrow> (key, prune_in_place v child) # prune_members ms node
      | None \<Rightarrow> prune_members ms node)"
| "prune_items [] node = []"
| "prune_items (v # vs) node = prune_in_place v node # prune_items vs node"

text \<open>
  A Kubernetes object as the client library splits it: type information and metadata are
  fields of their own, and only the rest is \<open>do_data\<close>.
\<close>

record DynamicObject =
  do_types :: json
  do_managed_fields :: "json list"
  do_annotations :: "(string \<times> string) list"
  do_metadata :: json
  do_data :: json

definition last_applied_configuration :: string where
  "last_applied_configuration = ''kubectl.kubernetes.io/last-applied-configuration''"

definition modify_object :: "FieldMaskNode option \<Rightarrow> DynamicObject \<Rightarrow> DynamicObject" where
  "modify_object field_masker obj =
     (let obj = obj \<lparr> do_managed_fields := [],
                      do_annotations :=
                        filter (\<lambda>(k, v). k \<noteq> last_applied_configuration) (do_annotations obj) \<rparr>
      in case field_masker of
           Some masker \<Rightarrow> obj \<lparr> do_data := prune_in_place (do_data obj) masker \<rparr>
         | None \<Rightarrow> obj)"

section \<open>What a tree covers\<close>

text \<open>The values a path of member names reaches; arrays are walked through.\<close>

fun values_at :: "string list \<Rightarrow> json \<Rightarrow> json list" where
  "values_at [] v = [v]"
| "values_at (k # ks) (JObject ms) =
     (case map_of ms k of None \<Rightarrow> [] | Some v \<Rightarrow> values_at ks v)"
| "values_at (k # ks) (JArray vs) = concat (map (values_at (k # ks)) vs)"
| "values_at (k # ks) v = []"

text \<open>The path ends at or below a leaf of the tree: everything there is kept.\<close>

fun covered :: "FieldMaskNode \<Rightarrow> string list \<Rightarrow> bool" where
  "covered node [] = (children node = [])"
| "covered node (k # ks) =
     (children node = [] \<or>
      (case map_of (children node) k of None \<Rightarrow> False | Some c \<Rightarrow> covered c ks))"

text \<open>The path leads to a node of the tree, or below a leaf: something there may be kept.\<close>

fun touched :: "FieldMaskNode \<Rightarrow> string list \<Rightarrow> bool" where
  "touched node [] = True"
| "touched node (k # ks) =
     (children node = [] \<or>
      (case map_of (children node) k of None \<Rightarrow> False | Some c \<Rightarrow> touched c ks))"

lemma prune_leaf [simp]: "children node = [] \<Longrightarrow> prune_in_place v node = v"
  by (cases v) auto

lemma map_of_prune_members:
  "map_of (prune_members ms node) k =
     (case map_of (children node) k of
        None \<Rightarrow> None
      | Some child \<Rightarrow> map_option (\<lambda>v. prune_in_place v child) (map_of ms k))"
  by (induction ms) (auto split: option.splits)

lemma prune_items_map: "prune_items vs node = map (\<lambda>v. prune_in_place v node) vs"
  by (induction vs) auto

lemma values_at_covered:
  "covered node ks \<Longrightarrow> values_at ks (prune_in_place v node) = values_at ks v"
proof (induction ks v arbitrary: node rule: values_at.induct)
  case (2 k ks ms)
  then show ?case by (auto simp: map_of_prune_members split: option.splits)
next
  case (3 k ks vs)
  then show ?case
    by (cases "children node = []")
      (auto simp: prune_items_map intro!: arg_cong [where f = concat])
qed auto

lemma values_at_untouched:
  "\<not> touched node ks \<Longrightarrow> values_at ks (prune_in_place v node) = []"
proof (induction ks v arbitrary: node rule: values_at.induct)
  case (2 k ks ms)
  then show ?case by (auto simp: map_of_prune_members split: option.splits)
next
  case (3 k ks vs)
  then show ?case by (auto simp: prune_items_map)
qed auto

section \<open>From paths to trees\<close>

fun has_path :: "FieldMaskNode \<Rightarrow> string list \<Rightarrow> bool" where
  "has_path node [] = True"
| "has_path node (k # ks) =
     (case map_of (children node) k of None \<Rightarrow> False | Some c \<Rightarrow> has_path c ks)"

lemma children_empty_iff: "children node = [] \<longleftrightarrow> (\<forall>k. \<not> has_path node [k])"
proof
  assume none: "\<forall>k. \<not> has_path node [k]"
  show "children node = []"
  proof (cases "children node")
    case (Cons kc rest)
    then have "has_path node [fst kc]" by (cases kc) simp
    with none show ?thesis by blast
  qed
qed simp

lemma has_path_default [simp]: "has_path FieldMaskNode_default ks \<longleftrightarrow> ks = []"
  by (cases ks) (auto simp: FieldMaskNode_default_def)

lemma has_path_insert_parts:
  "has_path (insert_parts ps node) ks \<longleftrightarrow> has_path node ks \<or> prefix ks ps"
proof (induction ps arbitrary: node ks)
  case Nil
  then show ?case by (cases ks) auto
next
  case (Cons p ps)
  show ?case
  proof (cases ks)
    case (Cons k ks')
    with Cons.IH show ?thesis
      by (auto simp: update_conv' split: option.splits)
  qed simp
qed

lemma has_path_new:
  "has_path (FieldMaskNode_new paths) ks \<longleftrightarrow>
     ks = [] \<or> (\<exists>q\<in>set paths. prefix ks (split_on (CHR ''.'') q))"
proof -
  have "has_path (fold insert_path paths node) ks \<longleftrightarrow>
      has_path node ks \<or> (\<exists>q\<in>set paths. prefix ks (split_on (CHR ''.'') q))" for node
    by (induction paths arbitrary: node)
      (auto simp: insert_path_def has_path_insert_parts)
  then show ?thesis by (simp add: FieldMaskNode_new_def)
qed

lemma covered_iff:
  "covered node ks \<longleftrightarrow>
     (\<exists>p. prefix p ks \<and> has_path node p \<and> (\<forall>k. \<not> has_path node (p @ [k])))"
proof (induction ks arbitrary: node)
  case Nil
  then show ?case by (simp add: children_empty_iff)
next
  case (Cons a ks)
  show ?case
  proof (cases "map_of (children node) a")
    case None
    then have "\<not> has_path node (a # p)" for p by simp
    then show ?thesis
      using None by (auto simp: children_empty_iff prefix_Cons)
  next
    case (Some c)
    then have "\<not> (children node = [])" by auto
    with Some Cons.IH [of c] show ?thesis
      by (auto simp: prefix_Cons children_empty_iff)
  qed
qed

lemma touched_iff: "touched node ks \<longleftrightarrow> covered node ks \<or> has_path node ks"
  by (induction node ks rule: touched.induct) (auto split: option.splits)

abbreviation mask_path :: "string \<Rightarrow> string list" where
  "mask_path q \<equiv> split_on (CHR ''.'') q"

text \<open>A path of the list that no other path of the list extends.\<close>

definition deepest :: "string list \<Rightarrow> string \<Rightarrow> bool" where
  "deepest paths q \<longleftrightarrow>
     q \<in> set paths \<and> (\<forall>q'\<in>set paths. \<not> strict_prefix (mask_path q) (mask_path q'))"

lemma strict_prefix_ext: "prefix (p @ [k]) q \<Longrightarrow> strict_prefix p q"
  by (auto simp: prefix_def strict_prefix_def)

lemma strict_prefix_step: "strict_prefix p q \<Longrightarrow> \<exists>k. prefix (p @ [k]) q"
  by (elim strict_prefixE') (auto simp: prefix_def)

lemma covered_new_iff:
  assumes "paths \<noteq> []"
  shows "covered (FieldMaskNode_new paths) ks \<longleftrightarrow>
           (\<exists>q. deepest paths q \<and> prefix (mask_path q) ks)"
proof
  assume "covered (FieldMaskNode_new paths) ks"
  then obtain p where p: "prefix p ks" "has_path (FieldMaskNode_new paths) p"
    and last: "\<And>k q. q \<in> set paths \<Longrightarrow> \<not> prefix (p @ [k]) (mask_path q)"
    unfolding covered_iff has_path_new by auto
  from assms obtain q0 where "q0 \<in> set paths" by (cases paths) auto
  have "p \<noteq> []"
  proof
    assume "p = []"
    with last [OF \<open>q0 \<in> set paths\<close>, of "hd (mask_path q0)"] show False
      by (cases "mask_path q0") auto
  qed
  with p(2) obtain q where q: "q \<in> set paths" "prefix p (mask_path q)"
    unfolding has_path_new by auto
  have maximal: "\<not> strict_prefix p (mask_path q')" if "q' \<in> set paths" for q'
    using last [OF that] strict_prefix_step by blast
  have "mask_path q = p"
    using maximal [OF q(1)] q(2) by (auto simp: strict_prefix_def)
  with q(1) maximal have "deepest paths q" by (simp add: deepest_def)
  with \<open>mask_path q = p\<close> p(1) show "\<exists>q. deepest paths q \<and> prefix (mask_path q) ks" by blast
next
  assume "\<exists>q. deepest paths q \<and> prefix (mask_path q) ks"
  then obtain q where q: "deepest paths q" "prefix (mask_path q) ks" by blast
  then have "has_path (FieldMaskNode_new paths) (mask_path q)"
    by (auto simp: deepest_def has_path_new)
  moreover have "\<not> has_path (FieldMaskNode_new paths) (mask_path q @ [k])" for k
    using q(1) by (auto simp: deepest_def has_path_new dest: strict_prefix_ext)
  ultimately show "covered (FieldMaskNode_new paths) ks"
    using q(2) unfolding covered_iff by blast
qed

section \<open>Properties\<close>



text \<open>
  Two ways in which a mask does not do what its documentation says.  A field that is
  listed loses the parts that a deeper listed path does not name: listing \<^verbatim>\<open>a\<close> together
  with \<^verbatim>\<open>a.b\<close> drops \<^verbatim>\<open>a.c\<close>, in whatever order they are listed.  And the mask is applied to
  the part of an object beside its metadata only: the object's metadata is returned whole,
  whatever the mask says.
\<close>

theorem field_mask_limits:
  "prune_in_place (JObject [(''a'', JObject [(''b'', JNull), (''c'', JNull)])])
     (FieldMaskNode_new [''a'', ''a.b'']) = JObject [(''a'', JObject [(''b'', JNull)])] \<and>
   prune_in_place (JObject [(''a'', JObject [(''b'', JNull), (''c'', JNull)])])
     (FieldMaskNode_new [''a.b'', ''a'']) = JObject [(''a'', JObject [(''b'', JNull)])] \<and>
   prune_in_place (JObject [(''a'', JObject [(''b'', JNull), (''c'', JNull)])])
     (FieldMaskNode_new [''a'']) = JObject [(''a'', JObject [(''b'', JNull), (''c'', JNull)])] \<and>
   (\<forall>paths obj. do_metadata (modify_object (Some (FieldMaskNode_new paths)) obj) = do_metadata obj)"
  by (simp add: FieldMaskNode_new_def FieldMaskNode_default_def insert_path_def modify_object_def
      Let_def)

end
