(* ===== verification/Policy_Store.thy ===== *)
theory Policy_Store
  imports Rust_Strings
begin

text \<open>
  The local store of policies (\<^verbatim>\<open>policy-fetcher/src/store/\<close>, \<^verbatim>\<open>policy.rs\<close>): the path a policy has
  in the store, looking policies up by URI and by digest, listing them.  The URL parser, the
  file system, the hash and the base64 codec of the Windows variant are parameters.  A path is
  its string; \<open>path_join\<close> is \<^verbatim>\<open>PathBuf::push\<close> on Unix.
\<close>

section \<open>URLs\<close>

datatype url_parse_error = RelativeUrlWithoutBase | OtherUrlError string

record 'u url_library =
  ul_parse :: "string \<Rightarrow> url_parse_error + 'u"
  ul_scheme :: "'u \<Rightarrow> string"
  ul_host_str :: "'u \<Rightarrow> string option"
  ul_port :: "'u \<Rightarrow> 16 word option"
  ul_path :: "'u \<Rightarrow> string"
  ul_path_segments :: "'u \<Rightarrow> string list option"
  ul_to_string :: "'u \<Rightarrow> string"
  ul_to_file_path :: "'u \<Rightarrow> string option"

section \<open>Paths\<close>

definition path_join :: "string \<Rightarrow> string \<Rightarrow> string" where
  "path_join a b =
     (if b \<noteq> [] \<and> hd b = CHR ''/'' then b
      else if a = [] \<or> last a = CHR ''/'' then a @ b
      else a @ CHR ''/'' # b)"

definition path_collect :: "string list \<Rightarrow> string" where
  "path_collect parts = foldl path_join [] parts"

text \<open>Subtraction on \<^verbatim>\<open>usize\<close>, which wraps around in a release build.\<close>

definition usize_sub :: "nat \<Rightarrow> nat \<Rightarrow> nat" where
  "usize_sub a b = (if b \<le> a then a - b else 2 ^ 64 + a - b)"

section \<open>Policies and errors\<close>

record Policy =
  po_uri :: string
  po_local_path :: string

datatype StoreError =
    ST_UrlParserError url_parse_error
  | ST_VerificationFileReadError string
  | ST_FailedToReadPolicyInLocalStorageError string
  | ST_PolicyStoragePathError string
  | ST_UnknownSchemeError string
  | ST_MultiplePoliciesFoundError string
  | ST_DigestError string
  | ST_DecoderError string

definition KNOWN_REMOTE_SCHEMES :: "string list" where
  "KNOWN_REMOTE_SCHEMES = [''http'', ''https'', ''registry'']"

definition is_known_remote_scheme :: "string \<Rightarrow> bool" where
  "is_known_remote_scheme scheme \<longleftrightarrow> scheme \<in> set KNOWN_REMOTE_SCHEMES"

section \<open>Encodings\<close>

text \<open>
  The encoding of paths depends on the platform: none on Unix, base64 of every component but
  the schemes on Windows.
\<close>

record path_codec =
  pc_encode_path :: "string \<Rightarrow> string"
  pc_encode_filename :: "string \<Rightarrow> string"
  pc_decode_path :: "string \<Rightarrow> StoreError + string"

definition unix_codec :: path_codec where
  "unix_codec = \<lparr> pc_encode_path = (\<lambda>p. p), pc_encode_filename = (\<lambda>f. f), pc_decode_path = Ok \<rparr>"

section \<open>The store\<close>

text \<open>
  \<open>sb_read_dir\<close> lists the names in a directory, \<open>sb_walk\<close> all paths below one, relative to it.
  Names in the store are valid UTF-8 (the name of a host that is not makes the program panic).
\<close>

record 'u store_library =
  sb_url :: "'u url_library"
  sb_codec :: path_codec
  sb_exists :: "string \<Rightarrow> bool"
  sb_read_dir :: "string \<Rightarrow> string + string list"
  sb_walk :: "string \<Rightarrow> (string + string) list"
  sb_is_file :: "string \<Rightarrow> string + bool"
  sb_digest :: "string \<Rightarrow> string + string"

datatype PolicyPath = PrefixOnly | PrefixAndFilename

definition url_host_and_port :: "'u url_library \<Rightarrow> 'u \<Rightarrow> string" where
  "url_host_and_port lib url =
     (case ul_host_str lib url of
        None \<Rightarrow> []
      | Some host \<Rightarrow>
          (case ul_port lib url of
             Some port \<Rightarrow> host @ '':'' @ show_nat (unat port)
           | None \<Rightarrow> host))"

definition policy_file_name :: "'u store_library \<Rightarrow> 'u \<Rightarrow> string" where
  "policy_file_name lib url =
     pc_encode_filename (sb_codec lib) (last (split_on (CHR ''/'') (ul_path (sb_url lib) url)))"

definition policy_prefix :: "'u store_library \<Rightarrow> 'u \<Rightarrow> string" where
  "policy_prefix lib url =
     (let elements = split_on (CHR ''/'') (ul_path (sb_url lib) url);
          path = path_collect (take (usize_sub (length elements) 2) (drop 1 elements))
      in pc_encode_path (sb_codec lib)
           (path_join (path_join (ul_scheme (sb_url lib) url) (url_host_and_port (sb_url lib) url)) path))"

definition policy_path :: "'u store_library \<Rightarrow> string \<Rightarrow> PolicyPath \<Rightarrow> StoreError + string" where
  "policy_path lib url mode =
     try_then (map_err ST_UrlParserError (ul_parse (sb_url lib) url)) (\<lambda>url.
       (let filename = policy_file_name lib url;
            prefix = policy_prefix lib url
        in Ok (case mode of
                 PrefixOnly \<Rightarrow> prefix
               | PrefixAndFilename \<Rightarrow> path_join prefix filename)))"

definition policy_full_path ::
  "'u store_library \<Rightarrow> string \<Rightarrow> string \<Rightarrow> PolicyPath \<Rightarrow> StoreError + string" where
  "policy_full_path lib root url mode =
     try_then (policy_path lib url mode) (\<lambda>path. Ok (path_join root path))"

text \<open>The directory that \<^verbatim>\<open>ensure\<close> creates.\<close>

definition ensured_path :: "string \<Rightarrow> string \<Rightarrow> string" where
  "ensured_path root path = path_join root path"

definition get_policy_by_uri :: "'u store_library \<Rightarrow> string \<Rightarrow> string \<Rightarrow> StoreError + Policy option" where
  "get_policy_by_uri lib root uri =
     try_then (map_err ST_UrlParserError (ul_parse (sb_url lib) uri)) (\<lambda>url.
       if \<not> is_known_remote_scheme (ul_scheme (sb_url lib) url)
       then Err (ST_UnknownSchemeError (ul_scheme (sb_url lib) url))
       else
         try_then (policy_full_path lib root (ul_to_string (sb_url lib) url) PrefixAndFilename) (\<lambda>path.
           if sb_exists lib path
           then Ok (Some \<lparr> po_uri = ul_to_string (sb_url lib) url, po_local_path = path \<rparr>)
           else Ok None))"

definition list_file ::
  "'u store_library \<Rightarrow> string \<Rightarrow> string \<Rightarrow> string \<Rightarrow> string + string \<Rightarrow> StoreError + Policy list" where
  "list_file lib scheme host host_dir entry =
     try_then (map_err ST_FailedToReadPolicyInLocalStorageError entry) (\<lambda>relative.
       (let path = path_join host_dir relative in
        try_then (map_err ST_VerificationFileReadError (sb_is_file lib path)) (\<lambda>is_file.
          if is_file then
            try_then (pc_decode_path (sb_codec lib) host) (\<lambda>host.
            try_then (pc_decode_path (sb_codec lib) (path_join ''/'' relative)) (\<lambda>store_path.
              Ok [\<lparr> po_uri = scheme @ ''://'' @ host @ store_path, po_local_path = path \<rparr>]))
          else Ok [])))"

definition list_host ::
  "'u store_library \<Rightarrow> string \<Rightarrow> string \<Rightarrow> string \<Rightarrow> StoreError + Policy list" where
  "list_host lib root scheme host =
     (let host_dir = path_join (path_join root scheme) host in
      map_ok concat (collect_map (list_file lib scheme host host_dir) (sb_walk lib host_dir)))"

definition list_scheme ::
  "'u store_library \<Rightarrow> string \<Rightarrow> string \<Rightarrow> StoreError + Policy list" where
  "list_scheme lib root scheme =
     (if \<not> is_known_remote_scheme scheme then Ok []
      else
        try_then (map_err ST_VerificationFileReadError
                    (sb_read_dir lib (path_join root scheme))) (\<lambda>hosts.
          map_ok concat (collect_map (list_host lib root scheme) hosts)))"

definition store_list :: "'u store_library \<Rightarrow> string \<Rightarrow> StoreError + Policy list" where
  "store_list lib root =
     (if \<not> sb_exists lib root then Ok []
      else
        try_then (map_err ST_VerificationFileReadError (sb_read_dir lib root)) (\<lambda>schemes.
          map_ok concat (collect_map (list_scheme lib root) schemes)))"

definition sha_prefix_step ::
  "'u store_library \<Rightarrow> string \<Rightarrow> Policy option \<Rightarrow> Policy \<Rightarrow> StoreError + Policy option" where
  "sha_prefix_step lib sha_prefix acc policy =
     try_then (map_err ST_DigestError (sb_digest lib (po_local_path policy))) (\<lambda>digest.
       if \<not> prefix sha_prefix digest then Ok acc
       else if acc \<noteq> None then Err (ST_MultiplePoliciesFoundError sha_prefix)
       else Ok (Some policy))"

definition get_policy_by_sha_prefix ::
  "'u store_library \<Rightarrow> string \<Rightarrow> string \<Rightarrow> StoreError + Policy option" where
  "get_policy_by_sha_prefix lib root sha_prefix =
     try_then (store_list lib root) (try_fold (sha_prefix_step lib sha_prefix) None)"

section \<open>Components\<close>

text \<open>The components of a path; repeated and trailing separators do not count.\<close>

definition comps :: "string \<Rightarrow> string list" where
  "comps p = filter (\<lambda>c. c \<noteq> []) (split_on (CHR ''/'') p)"

lemma split_on_append_sep: "split_on c (a @ c # b) = split_on c a @ split_on c b"
  by (induction a) auto

lemma comps_simps [simp]:
  "comps [] = []"
  "comps (a @ CHR ''/'' # b) = comps a @ comps b"
  "comps (CHR ''/'' # b) = comps b"
  by (simp_all add: comps_def split_on_append_sep)

lemma comps_no_sep: "CHR ''/'' \<notin> set p \<Longrightarrow> comps p = (if p = [] then [] else [p])"
  by (simp add: comps_def split_on_no_sep)

lemma comps_join:
  assumes "\<not> (b \<noteq> [] \<and> hd b = CHR ''/'')"
  shows "comps (path_join a b) = comps a @ comps b"
proof (cases "a \<noteq> [] \<and> last a = CHR ''/''")
  case True
  then have "a @ b = butlast a @ CHR ''/'' # b" "comps a = comps (butlast a)"
    using comps_simps(2) [of "butlast a" "[]"]
    by (metis append_butlast_last_id append.assoc append_Cons append_Nil,
        metis append_butlast_last_id comps_simps(1) append_Nil2)
  moreover have "path_join a b = a @ b" using assms True by (simp add: path_join_def)
  ultimately show ?thesis by (simp only: comps_simps)
next
  case False
  with assms show ?thesis by (auto simp: path_join_def)
qed

lemma comps_collect:
  "\<forall>p\<in>set parts. CHR ''/'' \<notin> set p \<Longrightarrow> comps (path_collect parts) = filter (\<lambda>c. c \<noteq> []) parts"
proof (induction parts rule: rev_induct)
  case (snoc p parts)
  then have "\<not> (p \<noteq> [] \<and> hd p = CHR ''/'')" by (auto dest: hd_in_set)
  with snoc show ?case by (simp add: path_collect_def comps_join comps_no_sep)
qed (simp add: path_collect_def)

lemma path_collect_relative:
  "\<forall>p\<in>set parts. CHR ''/'' \<notin> set p \<Longrightarrow> \<not> (path_collect parts \<noteq> [] \<and> hd (path_collect parts) = CHR ''/'')"
proof (induction parts rule: rev_induct)
  case (snoc p parts)
  then have "\<not> (p \<noteq> [] \<and> hd p = CHR ''/'')" by (auto dest: hd_in_set)
  with snoc show ?case by (auto simp: path_collect_def path_join_def hd_append split: if_splits)
qed (simp add: path_collect_def)

text \<open>
  Where a path leads, read component by component from a directory \<open>d\<close> levels below the
  root of the store: never above the root.
\<close>

fun stays_below :: "nat \<Rightarrow> string list \<Rightarrow> bool" where
  "stays_below d [] = True"
| "stays_below d (c # cs) =
     (if c = ''.'' then stays_below d cs
      else if c = ''..'' then (case d of 0 \<Rightarrow> False | Suc d' \<Rightarrow> stays_below d' cs)
      else stays_below (Suc d) cs)"

lemma stays_below_no_parent: "''..'' \<notin> set cs \<Longrightarrow> stays_below d cs"
  by (induction cs arbitrary: d) auto

section \<open>The place of a policy\<close>

text \<open>The elements of a URL path are those of the prefix and the file name.\<close>

lemma url_path_elements:
  assumes "ul_path (sb_url lib) url = CHR ''/'' # rest"
  shows "take (usize_sub (length (split_on (CHR ''/'') (ul_path (sb_url lib) url))) 2)
           (drop 1 (split_on (CHR ''/'') (ul_path (sb_url lib) url))) @
         [last (split_on (CHR ''/'') (ul_path (sb_url lib) url))] = split_on (CHR ''/'') rest"
proof -
  let ?e = "split_on (CHR ''/'') rest"
  have "length ?e \<ge> 1" by (simp add: length_split_on)
  then have "usize_sub (Suc (length ?e)) 2 = length ?e - 1" by (simp add: usize_sub_def)
  then show ?thesis
    using assms append_butlast_last_id [of ?e] by (simp add: butlast_conv_take)
qed

lemma store_path_components:
  assumes "ul_path (sb_url lib) url = CHR ''/'' # rest" and "sb_codec lib = unix_codec"
    and "CHR ''/'' \<notin> set (ul_scheme (sb_url lib) url)" and "ul_scheme (sb_url lib) url \<noteq> []"
    and "CHR ''/'' \<notin> set (url_host_and_port (sb_url lib) url)"
  shows "comps (path_join (policy_prefix lib url) (policy_file_name lib url)) =
     ul_scheme (sb_url lib) url # comps (url_host_and_port (sb_url lib) url) @ comps (ul_path (sb_url lib) url)"
proof -
  let ?e = "split_on (CHR ''/'') (ul_path (sb_url lib) url)"
  let ?mid = "take (usize_sub (length ?e) 2) (drop 1 ?e)"
  have sep: "CHR ''/'' \<notin> set p" if "p \<in> set ?e" for p using that by (rule split_on_pieces)
  then have mid: "\<forall>p\<in>set ?mid. CHR ''/'' \<notin> set p" by (meson in_set_dropD in_set_takeD)
  have fl: "CHR ''/'' \<notin> set (last ?e)" by (rule sep) simp
  then have f: "\<not> (last ?e \<noteq> [] \<and> hd (last ?e) = CHR ''/'')" by (auto dest: hd_in_set)
  have h: "\<not> (url_host_and_port (sb_url lib) url \<noteq> [] \<and> hd (url_host_and_port (sb_url lib) url) = CHR ''/'')"
    using assms(5) by (auto dest: hd_in_set)
  have "comps (path_join (policy_prefix lib url) (policy_file_name lib url)) =
      [ul_scheme (sb_url lib) url] @ comps (url_host_and_port (sb_url lib) url) @
      filter (\<lambda>c. c \<noteq> []) ?mid @ comps (last ?e)"
    using assms(2-4) comps_join [OF f] comps_join [OF path_collect_relative [OF mid]] comps_join [OF h]
      comps_collect [OF mid]
    by (simp add: policy_prefix_def policy_file_name_def unix_codec_def Let_def comps_no_sep)
  also have "filter (\<lambda>c. c \<noteq> []) ?mid @ comps (last ?e) = filter (\<lambda>c. c \<noteq> []) (?mid @ [last ?e])"
    using comps_no_sep [OF fl] by simp
  also have "\<dots> = comps (ul_path (sb_url lib) url)"
    by (simp only: url_path_elements [of lib, OF assms(1)]) (simp add: assms(1), simp add: comps_def)
  finally show ?thesis by simp
qed

section \<open>Looking policies up by digest\<close>

definition has_sha_prefix :: "'u store_library \<Rightarrow> string \<Rightarrow> Policy \<Rightarrow> bool" where
  "has_sha_prefix lib sha_prefix p \<longleftrightarrow>
     (\<exists>d. sb_digest lib (po_local_path p) = Ok d \<and> prefix sha_prefix d)"

lemma sha_prefix_fold:
  "try_fold (sha_prefix_step lib s) acc ps = Ok r \<Longrightarrow>
     (\<forall>p\<in>set ps. is_ok (sb_digest lib (po_local_path p))) \<and>
     (case acc of
        None \<Rightarrow> filter (has_sha_prefix lib s) ps = (case r of None \<Rightarrow> [] | Some p \<Rightarrow> [p])
      | Some q \<Rightarrow> filter (has_sha_prefix lib s) ps = [] \<and> r = Some q)"
proof (induction ps arbitrary: acc)
  case Nil
  then show ?case by (simp split: option.splits)
next
  case (Cons p ps)
  obtain d where d: "sb_digest lib (po_local_path p) = Ok d"
    using Cons.prems by (auto simp: sha_prefix_step_def [of lib s acc p] result_simps)
  show ?case
  proof (cases "prefix s d")
    case False
    with Cons.prems d have "try_fold (sha_prefix_step lib s) acc ps = Ok r"
      by (simp add: sha_prefix_step_def [of lib s acc p])
    from Cons.IH [OF this] d False show ?thesis by (auto simp: has_sha_prefix_def [of lib s p] split: option.splits)
  next
    case True
    with Cons.prems d have acc: "acc = None" and "try_fold (sha_prefix_step lib s) (Some p) ps = Ok r"
      by (auto simp: sha_prefix_step_def [of lib s acc p] split: if_splits)
    from Cons.IH [OF this(2)] d True acc show ?thesis by (auto simp: has_sha_prefix_def [of lib s p])
  qed
qed

lemma get_policy_by_sha_prefix_exact:
  "get_policy_by_sha_prefix lib root s = Ok r \<Longrightarrow>
     \<exists>ps. store_list lib root = Ok ps \<and>
       filter (has_sha_prefix lib s) ps = (case r of None \<Rightarrow> [] | Some p \<Rightarrow> [p])"
  by (auto simp: get_policy_by_sha_prefix_def result_simps dest: sha_prefix_fold)

section \<open>Properties\<close>


text \<open>A URL library good for one URL.\<close>

definition one_url :: "string \<Rightarrow> string \<Rightarrow> string \<Rightarrow> unit store_library" where
  "one_url scheme host path =
     \<lparr> sb_url = \<lparr> ul_parse = (\<lambda>_. Ok ()), ul_scheme = (\<lambda>_. scheme), ul_host_str = (\<lambda>_. Some host),
         ul_port = (\<lambda>_. None), ul_path = (\<lambda>_. path), ul_path_segments = (\<lambda>_. None),
         ul_to_string = (\<lambda>_. scheme @ ''://'' @ host @ path), ul_to_file_path = (\<lambda>_. None) \<rparr>,
       sb_codec = unix_codec, sb_exists = (\<lambda>_. False), sb_read_dir = (\<lambda>_. Ok []),
       sb_walk = (\<lambda>_. []), sb_is_file = (\<lambda>_. Ok True), sb_digest = (\<lambda>_. Ok []) \<rparr>"


end
