(* ===== verification/Fetcher_Sources.thy ===== *)
theory Fetcher_Sources
  imports Rust_Strings
begin

text \<open>
  Where policies may be fetched from and how the clients that fetch them are configured
  (\<^verbatim>\<open>policy-fetcher/src/{proxy,sources,fetcher,https}.rs\<close> and the conversions of
  \<^verbatim>\<open>registry/mod.rs\<close>): insecure sources, certificate authorities per host, proxies.  The
  environment variables, the certificate parsers and the file system are parameters; an error
  of a library is carried by its message.
\<close>

section \<open>Errors\<close>

datatype InvalidURLError = InvalidURLError string

datatype SourceError =
    SE_InvalidURLError InvalidURLError
  | SE_OCIRegistryError string
  | SE_InvalidOCIImageReferenceError string
  | SE_EmptyLayersError string
  | SE_InvalidCertificateError string
  | SE_CannotReadCertificateError string
  | SE_FailedToParseYamlDataError string
  | SE_FailedToCreateHttpClientError string

section \<open>Proxies\<close>

record ProxyConfig =
  px_http_proxy :: "string option"
  px_https_proxy :: "string option"
  px_no_proxy :: "string option"

text \<open>Reads an environment variable, or a second one if the first is not set.\<close>

definition env_or_else :: "(string \<rightharpoonup> string) \<Rightarrow> string \<Rightarrow> string \<Rightarrow> string option" where
  "env_or_else env first second = (case env first of Some v \<Rightarrow> Some v | None \<Rightarrow> env second)"

definition get_proxy_env_vars ::
  "(string \<rightharpoonup> string) \<Rightarrow> string option \<times> string option \<times> string option" where
  "get_proxy_env_vars env =
     (env_or_else env ''HTTP_PROXY'' ''http_proxy'', env_or_else env ''HTTPS_PROXY'' ''https_proxy'',
      env_or_else env ''NO_PROXY'' ''no_proxy'')"

definition ProxyConfig_from_env :: "(string \<rightharpoonup> string) \<Rightarrow> ProxyConfig" where
  "ProxyConfig_from_env env =
     (case get_proxy_env_vars env of (http, https, no) \<Rightarrow>
        \<lparr> px_http_proxy = http, px_https_proxy = https, px_no_proxy = no \<rparr>)"

section \<open>Sources\<close>

datatype Certificate = Der string | Pem string

record Sources =
  so_insecure_sources :: "string set"
  so_source_authorities :: "(string \<times> Certificate list) list"
  so_proxies :: "ProxyConfig option"

definition Sources_default :: Sources where
  "Sources_default = \<lparr> so_insecure_sources = {}, so_source_authorities = [], so_proxies = None \<rparr>"

datatype RawSourceAuthority = AuthorityData string | AuthorityPath string

record RawSources =
  rs_insecure_sources :: "string set"
  rs_source_authorities :: "(string \<times> RawSourceAuthority list) list"
  rs_proxies :: "ProxyConfig option"

record source_library =
  sr_read_file :: "string \<Rightarrow> string + string"
  sr_is_pem :: "string \<Rightarrow> bool"
  sr_is_der :: "string \<Rightarrow> bool"
  sr_from_yaml :: "string \<Rightarrow> string + RawSources"

fun RawCertificate_try_from :: "source_library \<Rightarrow> RawSourceAuthority \<Rightarrow> SourceError + string" where
  "RawCertificate_try_from lib (AuthorityData data) = Ok data"
| "RawCertificate_try_from lib (AuthorityPath path) =
     map_err SE_CannotReadCertificateError (sr_read_file lib path)"

definition Certificate_try_from :: "source_library \<Rightarrow> string \<Rightarrow> SourceError + Certificate" where
  "Certificate_try_from lib data =
     (if sr_is_pem lib data then Ok (Pem data)
      else if sr_is_der lib data then Ok (Der data)
      else Err (SE_InvalidCertificateError ''Raw certificate is not in PEM nor in DER encoding''))"

definition SourceAuthorities_try_from ::
  "source_library \<Rightarrow> (string \<times> RawSourceAuthority list) list \<Rightarrow>
   SourceError + (string \<times> Certificate list) list" where
  "SourceAuthorities_try_from lib raw =
     collect_map (\<lambda>(host, authorities).
       try_then (collect_map (\<lambda>a. try_then (RawCertificate_try_from lib a) (Certificate_try_from lib))
                   authorities) (\<lambda>certs. Ok (host, certs))) raw"

definition Sources_try_from :: "source_library \<Rightarrow> RawSources \<Rightarrow> SourceError + Sources" where
  "Sources_try_from lib raw =
     try_then (SourceAuthorities_try_from lib (rs_source_authorities raw)) (\<lambda>authorities.
       Ok \<lparr> so_insecure_sources = rs_insecure_sources raw, so_source_authorities = authorities,
            so_proxies = rs_proxies raw \<rparr>)"

definition read_sources_file :: "source_library \<Rightarrow> string \<Rightarrow> SourceError + Sources" where
  "read_sources_file lib path =
     try_then (map_err SE_CannotReadCertificateError (sr_read_file lib path)) (\<lambda>contents.
     try_then (map_err SE_FailedToParseYamlDataError (sr_from_yaml lib contents))
       (Sources_try_from lib))"

definition is_insecure_source :: "Sources \<Rightarrow> string \<Rightarrow> bool" where
  "is_insecure_source s host \<longleftrightarrow> host \<in> so_insecure_sources s"

definition source_authority :: "Sources \<Rightarrow> string \<Rightarrow> Certificate list option" where
  "source_authority s host = map_of (so_source_authorities s) host"

definition effective_proxies :: "(string \<rightharpoonup> string) \<Rightarrow> Sources \<Rightarrow> ProxyConfig" where
  "effective_proxies env s =
     (case so_proxies s of Some p \<Rightarrow> p | None \<Rightarrow> ProxyConfig_from_env env)"

section \<open>Clients\<close>

datatype TlsVerificationMode =
    CustomCaCertificates "Certificate list"
  | SystemCa
  | NoTlsVerification

datatype ClientProtocol = Http | Https TlsVerificationMode

fun TlsVerificationMode_to_string :: "TlsVerificationMode \<Rightarrow> string" where
  "TlsVerificationMode_to_string (CustomCaCertificates _) = ''CustomCaCertificates''"
| "TlsVerificationMode_to_string SystemCa = ''SystemCa''"
| "TlsVerificationMode_to_string NoTlsVerification = ''NoTlsVerification''"

fun ClientProtocol_to_string :: "ClientProtocol \<Rightarrow> string" where
  "ClientProtocol_to_string Http = ''HTTP''"
| "ClientProtocol_to_string (Https mode) = ''HTTPS('' @ TlsVerificationMode_to_string mode @ '')''"

text \<open>The client of the OCI library, with the options the program sets.\<close>

datatype OciClientProtocol = OciHttp | OciHttps | OciHttpsExcept "string set"

record ClientConfig =
  cc_protocol :: OciClientProtocol
  cc_accept_invalid_certificates :: bool
  cc_extra_root_certificates :: "Certificate list"
  cc_http_proxy :: "string option"
  cc_https_proxy :: "string option"
  cc_no_proxy :: "string option"

fun OciClientProtocol_from :: "ClientProtocol \<Rightarrow> OciClientProtocol" where
  "OciClientProtocol_from Http = OciHttp"
| "OciClientProtocol_from (Https _) = OciHttps"

definition client_config :: "(string \<rightharpoonup> string) \<Rightarrow> ClientProtocol \<Rightarrow> Sources \<Rightarrow> ClientConfig" where
  "client_config env protocol sources =
     (let proxy = effective_proxies env sources;
          base = \<lparr> cc_protocol = OciClientProtocol_from protocol,
                   cc_accept_invalid_certificates = False, cc_extra_root_certificates = [],
                   cc_http_proxy = px_http_proxy proxy, cc_https_proxy = px_https_proxy proxy,
                   cc_no_proxy = px_no_proxy proxy \<rparr>
      in case protocol of
           Http \<Rightarrow> base
         | Https SystemCa \<Rightarrow> base
         | Https (CustomCaCertificates certificates) \<Rightarrow> base \<lparr> cc_extra_root_certificates := certificates \<rparr>
         | Https NoTlsVerification \<Rightarrow> base \<lparr> cc_accept_invalid_certificates := True \<rparr>)"

text \<open>
  The client that fetches signatures has one configuration for all hosts.  The same
  conversion exists for the OCI client, without the proxies.
\<close>

definition signature_client_config :: "(string \<rightharpoonup> string) \<Rightarrow> Sources \<Rightarrow> ClientConfig" where
  "signature_client_config env sources =
     (let proxy = effective_proxies env sources in
      \<lparr> cc_protocol = (if so_insecure_sources sources = {} then OciHttps
                       else OciHttpsExcept (so_insecure_sources sources)),
        cc_accept_invalid_certificates = False,
        cc_extra_root_certificates = concat (map snd (so_source_authorities sources)),
        cc_http_proxy = px_http_proxy proxy, cc_https_proxy = px_https_proxy proxy,
        cc_no_proxy = px_no_proxy proxy \<rparr>)"

definition oci_client_config :: "Sources \<Rightarrow> ClientConfig" where
  "oci_client_config sources =
     \<lparr> cc_protocol = (if so_insecure_sources sources = {} then OciHttps
                      else OciHttpsExcept (so_insecure_sources sources)),
       cc_accept_invalid_certificates = False,
       cc_extra_root_certificates = concat (map snd (so_source_authorities sources)),
       cc_http_proxy = None, cc_https_proxy = None, cc_no_proxy = None \<rparr>"

text \<open>The HTTP client of policies that are not in a registry.\<close>

record http_client =
  hc_https_only :: bool
  hc_accept_invalid_certs :: bool
  hc_extra_certs :: "string list"
  hc_https_proxy :: "(string \<times> string option) option"
  hc_http_proxy :: "(string \<times> string option) option"

record http_library =
  ht_from_der :: "string \<Rightarrow> string + string"
  ht_from_pem :: "string \<Rightarrow> string + string"
  ht_https_proxy :: "string \<Rightarrow> string + string"
  ht_http_proxy :: "string \<Rightarrow> string + string"
  ht_no_proxy :: "string \<Rightarrow> string option"
  ht_build :: "http_client \<Rightarrow> string + http_client"
  ht_get :: "http_client \<Rightarrow> string \<Rightarrow> string + string"

fun reqwest_certificate :: "http_library \<Rightarrow> Certificate \<Rightarrow> SourceError + string" where
  "reqwest_certificate lib (Der c) =
     map_err (\<lambda>e. SE_InvalidCertificateError (''could not load certificate as DER encoded: '' @ e))
       (ht_from_der lib c)"
| "reqwest_certificate lib (Pem c) =
     map_err (\<lambda>e. SE_InvalidCertificateError (''could not load certificate as PEM encoded: '' @ e))
       (ht_from_pem lib c)"

definition http_client_tls :: "http_library \<Rightarrow> ClientProtocol \<Rightarrow> SourceError + http_client" where
  "http_client_tls lib protocol =
     (let base = \<lparr> hc_https_only = False, hc_accept_invalid_certs = False, hc_extra_certs = [],
                   hc_https_proxy = None, hc_http_proxy = None \<rparr> in
      case protocol of
        Http \<Rightarrow> Ok base
      | Https mode \<Rightarrow>
          (case mode of
             SystemCa \<Rightarrow> Ok (base \<lparr> hc_https_only := True \<rparr>)
           | CustomCaCertificates certs \<Rightarrow>
               try_then (collect_map (reqwest_certificate lib) certs) (\<lambda>certs.
                 Ok (base \<lparr> hc_https_only := True, hc_extra_certs := certs \<rparr>))
           | NoTlsVerification \<Rightarrow>
               Ok (base \<lparr> hc_https_only := True, hc_accept_invalid_certs := True \<rparr>)))"

definition optional_proxy ::
  "http_library \<Rightarrow> (string \<Rightarrow> string + string) \<Rightarrow> string option \<Rightarrow> string option \<Rightarrow>
   SourceError + (string \<times> string option) option" where
  "optional_proxy lib mk proxy_url no_proxy =
     (case proxy_url of
        None \<Rightarrow> Ok None
      | Some url \<Rightarrow>
          try_then (map_err SE_FailedToCreateHttpClientError (mk url)) (\<lambda>proxy.
            Ok (Some (proxy, Option.bind no_proxy (ht_no_proxy lib)))))"

definition https_fetch ::
  "http_library \<Rightarrow> (string \<rightharpoonup> string) \<Rightarrow> string \<Rightarrow> ClientProtocol \<Rightarrow> Sources \<Rightarrow> SourceError + string" where
  "https_fetch lib env url protocol sources =
     try_then (http_client_tls lib protocol) (\<lambda>client.
       (let proxies = effective_proxies env sources in
        try_then (optional_proxy lib (ht_https_proxy lib) (px_https_proxy proxies) (px_no_proxy proxies)) (\<lambda>https.
        try_then (optional_proxy lib (ht_http_proxy lib) (px_http_proxy proxies) (px_no_proxy proxies)) (\<lambda>http.
        try_then (map_err SE_FailedToCreateHttpClientError
          (ht_build lib (client \<lparr> hc_https_proxy := https, hc_http_proxy := http \<rparr>))) (\<lambda>client.
          map_err SE_FailedToCreateHttpClientError (ht_get lib client url))))))"

section \<open>What the clients verify\<close>

text \<open>A protocol that authenticates the server.\<close>

fun authenticated :: "ClientProtocol \<Rightarrow> bool" where
  "authenticated Http = False"
| "authenticated (Https NoTlsVerification) = False"
| "authenticated (Https _) = True"

lemma client_config_authenticated:
  "cc_protocol (client_config env p s) = OciHttps \<and>
     \<not> cc_accept_invalid_certificates (client_config env p s) \<longleftrightarrow> authenticated p"
  by (cases p rule: authenticated.cases) (simp_all add: client_config_def Let_def)

lemma http_client_authenticated:
  "http_client_tls lib p = Ok c \<Longrightarrow> hc_https_only c \<and> \<not> hc_accept_invalid_certs c \<longleftrightarrow> authenticated p"
  by (cases p rule: authenticated.cases) (auto simp: http_client_tls_def result_simps Let_def)

lemma Certificate_try_from_Ok:
  "Certificate_try_from lib data = Ok c \<Longrightarrow>
     c = Pem data \<and> sr_is_pem lib data \<or> c = Der data \<and> \<not> sr_is_pem lib data \<and> sr_is_der lib data"
  by (auto simp: Certificate_try_from_def split: if_splits)

text \<open>Authorities are all loaded or none: no certificate is dropped silently.\<close>

lemma SourceAuthorities_complete:
  "SourceAuthorities_try_from lib raw = Ok auths \<Longrightarrow>
     map fst auths = map fst raw \<and> list_all2 (\<lambda>a r. length (snd a) = length (snd r)) auths raw"
  by (simp add: SourceAuthorities_try_from_def collect_map_Ok_iff, induction raw arbitrary: auths)
    (auto simp: list_all2_Cons1 result_simps collect_map_Ok_iff dest: list_all2_lengthD split: prod.splits)

end
