(* ===== verification/Policy_Fetcher.thy ===== *)
theory Policy_Fetcher
  imports Policy_Store Fetcher_Sources Json
begin

text \<open>
  Fetching policies (\<^verbatim>\<open>policy-fetcher/src/lib.rs\<close>, \<^verbatim>\<open>registry/mod.rs\<close>): the interpretation of the
  URL, the choice of the destination, the local copy, and the protocols that are tried, from
  verified TLS down to plain HTTP for the sources that are marked as insecure.  The network, the
  file system and the parser of image references are parameters; the attempts to connect and
  the writes are recorded in a trace.
\<close>

section \<open>Errors\<close>

datatype RegistryError =
    RE_OCIRegistryError string
  | RE_InvalidOCIImageReferenceError string
  | RE_BuildImmutableReferenceError string
  | RE_InvalidDestinationError
  | RE_UrlParserError url_parse_error
  | RE_InvalidURLError InvalidURLError
  | RE_JSONParseError string

datatype FetcherError =
    FE_InvalidFilePathError string
  | FE_InvalidWasmFileError
  | FE_CannotWriteWasmModuleFile string string
  | FE_PolicyError string
  | FE_VerifyError string
  | FE_RegistryError RegistryError
  | FE_UrlParserError url_parse_error
  | FE_SourceError SourceError
  | FE_StoreError StoreError
  | FE_InvalidURLError InvalidURLError
  | FE_CannotCreateStoragePathError string

section \<open>The world outside\<close>

record Reference =
  rf_registry :: string
  rf_repository :: string
  rf_tag :: "string option"
  rf_digest :: "string option"

datatype DockerCredential = IdentityToken string | UsernamePassword string string

datatype RegistryAuth = Anonymous | Basic string string | Bearer string

record manifest_layer =
  ml_media_type :: string
  ml_digest :: string

datatype OciManifest = Image "manifest_layer list" | ImageIndex

record image_push =
  ip_layers :: "(string \<times> string) list"
  ip_config :: "string \<times> string"
  ip_annotations :: "(string \<rightharpoonup> string) option"

record 'u fetch_library =
  fl_store :: "'u store_library"
  fl_default_root :: string
  fl_is_dir :: "string \<Rightarrow> bool"
  fl_create_dir_all :: "string \<Rightarrow> string + unit"
  fl_write :: "string \<Rightarrow> string \<Rightarrow> string + unit"
  fl_env :: "string \<rightharpoonup> string"
  fl_http :: http_library
  fl_reference :: "string \<Rightarrow> string + Reference"
  fl_reference_to_string :: "Reference \<Rightarrow> string"
  fl_credential :: "string \<Rightarrow> string + DockerCredential"
  fl_pull :: "ClientConfig \<Rightarrow> Reference \<Rightarrow> RegistryAuth \<Rightarrow> string list \<Rightarrow> string + string list"
  fl_pull_manifest :: "ClientConfig \<Rightarrow> Reference \<Rightarrow> RegistryAuth \<Rightarrow> string + OciManifest"
  fl_manifest_digest :: "ClientConfig \<Rightarrow> Reference \<Rightarrow> RegistryAuth \<Rightarrow> string + string"
  fl_pull_manifest_and_config ::
    "ClientConfig \<Rightarrow> Reference \<Rightarrow> RegistryAuth \<Rightarrow> string + manifest_layer list \<times> string \<times> string"
  fl_json_from_str :: "string \<Rightarrow> string + json"
  fl_wasm_layer_media_type :: string
  fl_wasm_config_media_type :: string
  fl_push :: "ClientConfig \<Rightarrow> Reference \<Rightarrow> RegistryAuth \<Rightarrow> image_push \<Rightarrow> string + string"

abbreviation url_lib :: "'u fetch_library \<Rightarrow> 'u url_library" where
  "url_lib lib \<equiv> sb_url (fl_store lib)"

datatype fetch_event = Attempt ClientProtocol | Ensured string | Wrote string string

section \<open>URLs\<close>

definition KNOWN_SCHEMES :: "string set" where
  "KNOWN_SCHEMES = {''file'', ''http'', ''https'', ''registry''}"

text \<open>
  The recursion ends after one step: the prefixed URL contains \<^verbatim>\<open>://\<close>.
\<close>

function parse_url :: "'u url_library \<Rightarrow> string \<Rightarrow> url_parse_error + 'u" where
  "parse_url lib url =
     (case ul_parse lib url of
        Inr u \<Rightarrow>
          (if ul_scheme lib u \<notin> KNOWN_SCHEMES \<and> \<not> sublist ''://'' url
           then parse_url lib (''registry://'' @ url)
           else Ok u)
      | Inl RelativeUrlWithoutBase \<Rightarrow> ul_parse lib (''registry://'' @ url)
      | Inl e \<Rightarrow> Err e)"
  by pat_completeness auto
termination
proof (relation "measure (\<lambda>(_, url). if sublist ''://'' url then 0 else 1)")
  have "sublist ''://'' (''registry://'' @ url)" for url
    unfolding sublist_def by (rule exI [of _ "''registry''"], rule exI [of _ url]) simp
  then show "((lib, ''registry://'' @ url), (lib, url))
      \<in> measure (\<lambda>(_ :: 'u url_library, url). if sublist ''://'' url then 0 else 1)"
    if "ul_scheme lib u \<notin> KNOWN_SCHEMES \<and> \<not> sublist ''://'' url" for lib url u
    using that by simp
qed simp

declare parse_url.simps [simp del]

definition host_and_port :: "'u url_library \<Rightarrow> 'u \<Rightarrow> InvalidURLError + string" where
  "host_and_port lib url =
     try_then (ok_or (InvalidURLError (ul_to_string lib url)) (ul_host_str lib url)) (\<lambda>host.
       Ok (host @ (case ul_port lib url of None \<Rightarrow> [] | Some port \<Rightarrow> '':'' @ show_nat (unat port))))"

definition client_protocol ::
  "'u url_library \<Rightarrow> 'u \<Rightarrow> Sources \<Rightarrow> InvalidURLError + ClientProtocol" where
  "client_protocol lib url sources =
     try_then (host_and_port lib url) (\<lambda>host.
       (case source_authority sources host of
          Some certificates \<Rightarrow> Ok (Https (CustomCaCertificates certificates))
        | None \<Rightarrow> Ok (Https SystemCa)))"

section \<open>Registries\<close>

definition registry_auth :: "'u fetch_library \<Rightarrow> string \<Rightarrow> RegistryAuth" where
  "registry_auth lib registry =
     (case fl_credential lib registry of
        Inr (IdentityToken _) \<Rightarrow> Anonymous
      | Inr (UsernamePassword user_name password) \<Rightarrow> Basic user_name password
      | Inl _ \<Rightarrow> Anonymous)"

definition build_fully_resolved_reference :: "'u fetch_library \<Rightarrow> string \<Rightarrow> RegistryError + Reference" where
  "build_fully_resolved_reference lib url =
     (let image = (case strip_prefix ''registry://'' url of None \<Rightarrow> url | Some i \<Rightarrow> i) in
      map_err RE_InvalidOCIImageReferenceError (fl_reference lib image))"

definition try_with_protocols ::
  "'u fetch_library \<Rightarrow> 'u \<Rightarrow> Sources \<Rightarrow> (ClientProtocol \<Rightarrow> RegistryError + 'a) \<Rightarrow>
   (RegistryError, 'a, fetch_event) traced" where
  "try_with_protocols lib url sources operation =
     traced_then (pure_result (map_err RE_InvalidURLError (client_protocol (url_lib lib) url sources))) (\<lambda>protocol.
       (case operation protocol of
          Inr result \<Rightarrow> (Ok result, [Attempt protocol])
        | Inl err \<Rightarrow>
            traced_then (map_err RE_InvalidURLError (host_and_port (url_lib lib) url), [Attempt protocol]) (\<lambda>host.
              if \<not> is_insecure_source sources host then (Err err, [])
              else
                (case operation (Https NoTlsVerification) of
                   Inr result \<Rightarrow> (Ok result, [Attempt (Https NoTlsVerification)])
                 | Inl _ \<Rightarrow> (operation Http, [Attempt (Https NoTlsVerification), Attempt Http])))))"

text \<open>
  The operations on a registry share their preamble: the reference, the URL of the
  registry and the credentials.
\<close>

definition registry_operation ::
  "'u fetch_library \<Rightarrow> string \<Rightarrow> Sources option \<Rightarrow>
   (ClientConfig \<Rightarrow> Reference \<Rightarrow> RegistryAuth \<Rightarrow> string + 'a) \<Rightarrow> (RegistryError, 'a, fetch_event) traced" where
  "registry_operation lib url sources operation =
     traced_then (pure_result (build_fully_resolved_reference lib url)) (\<lambda>reference.
     traced_then (pure_result (map_err RE_UrlParserError
        (ul_parse (url_lib lib) (''registry://'' @ fl_reference_to_string lib reference)))) (\<lambda>url.
       (let auth = registry_auth lib (rf_registry reference);
            sources = (case sources of None \<Rightarrow> Sources_default | Some s \<Rightarrow> s)
        in try_with_protocols lib url sources (\<lambda>protocol.
             map_err RE_OCIRegistryError
               (operation (client_config (fl_env lib) protocol sources) reference auth)))))"

definition registry_manifest ::
  "'u fetch_library \<Rightarrow> string \<Rightarrow> Sources option \<Rightarrow> (RegistryError, OciManifest, fetch_event) traced" where
  "registry_manifest lib url sources = registry_operation lib url sources (fl_pull_manifest lib)"

definition registry_manifest_digest ::
  "'u fetch_library \<Rightarrow> string \<Rightarrow> Sources option \<Rightarrow> (RegistryError, string, fetch_event) traced" where
  "registry_manifest_digest lib url sources = registry_operation lib url sources (fl_manifest_digest lib)"

definition registry_fetch ::
  "'u fetch_library \<Rightarrow> 'u \<Rightarrow> ClientProtocol \<Rightarrow> Sources \<Rightarrow> SourceError + string" where
  "registry_fetch lib url protocol sources =
     (let text = ul_to_string (url_lib lib) url in
      try_then (map_err SE_InvalidOCIImageReferenceError
        (fl_reference lib (case strip_prefix ''registry://'' text of None \<Rightarrow> [] | Some i \<Rightarrow> i))) (\<lambda>reference.
      try_then (map_err SE_InvalidURLError (host_and_port (url_lib lib) url)) (\<lambda>host.
      try_then (map_err SE_OCIRegistryError
        (fl_pull lib (client_config (fl_env lib) protocol sources) reference (registry_auth lib host)
           [fl_wasm_layer_media_type lib])) (\<lambda>layers.
        (case layers of
           [] \<Rightarrow> Err (SE_EmptyLayersError text)
         | layer # _ \<Rightarrow> Ok layer)))))"

definition manifest_and_config ::
  "'u fetch_library \<Rightarrow> string \<Rightarrow> Sources option \<Rightarrow>
   (RegistryError, manifest_layer list \<times> string \<times> json, fetch_event) traced" where
  "manifest_and_config lib url sources =
     traced_then (registry_operation lib url sources (fl_pull_manifest_and_config lib)) (\<lambda>(manifest, digest, config).
     traced_then (pure_result (map_err RE_JSONParseError (fl_json_from_str lib config))) (\<lambda>config_json.
       (Ok (manifest, digest, config_json), [])))"

definition do_push ::
  "'u fetch_library \<Rightarrow> string \<Rightarrow> 'u \<Rightarrow> (string \<rightharpoonup> string) option \<Rightarrow> ClientProtocol \<Rightarrow> Sources \<Rightarrow>
   RegistryError + string" where
  "do_push lib policy url annotations protocol sources =
     try_then (map_err RE_InvalidOCIImageReferenceError
       (fl_reference lib (case strip_prefix ''registry://'' (ul_to_string (url_lib lib) url) of
                            None \<Rightarrow> [] | Some i \<Rightarrow> i))) (\<lambda>reference.
       map_err RE_OCIRegistryError
         (fl_push lib (client_config (fl_env lib) protocol sources) reference
            (registry_auth lib (rf_registry reference))
            \<lparr> ip_layers = [(policy, fl_wasm_layer_media_type lib)],
              ip_config = (''{}'', fl_wasm_config_media_type lib), ip_annotations = annotations \<rparr>))"

text \<open>
  \<^verbatim>\<open>is_match\<close> of \<^verbatim>\<open>[A-Fa-f0-9]{n}\<close>, which is not anchored: some run of hexadecimal digits is long enough.
\<close>

definition hex_digit :: "char \<Rightarrow> bool" where
  "hex_digit c \<longleftrightarrow> (CHR ''0'' \<le> c \<and> c \<le> CHR ''9'') \<or> (CHR ''A'' \<le> c \<and> c \<le> CHR ''F'') \<or>
     (CHR ''a'' \<le> c \<and> c \<le> CHR ''f'')"

definition has_hex_run :: "nat \<Rightarrow> string \<Rightarrow> bool" where
  "has_hex_run n s \<longleftrightarrow> list_ex (\<lambda>t. n \<le> length (takeWhile hex_digit t)) (suffixes s)"

text \<open>\<^verbatim>\<open>rsplit_once('/')\<close>, of which only the second half is used.\<close>

definition after_last_slash :: "string \<Rightarrow> string option" where
  "after_last_slash s =
     (if CHR ''/'' \<in> set s then Some (last (split_on (CHR ''/'') s)) else None)"

definition digest_valid :: "string \<Rightarrow> string \<Rightarrow> string \<Rightarrow> RegistryError + bool" where
  "digest_valid algorithm checksum manifest_digest =
     (if algorithm = ''sha256'' then Ok (has_hex_run 64 checksum)
      else if algorithm = ''sha512'' then Ok (has_hex_run 128 checksum)
      else Err (RE_BuildImmutableReferenceError (''unknown algorithm '' @ [CHR 39] @ algorithm @ [CHR 39] @
             '' for manifest '' @ manifest_digest)))"

definition build_immutable_ref ::
  "'u fetch_library \<Rightarrow> string \<Rightarrow> string \<Rightarrow> RegistryError + string" where
  "build_immutable_ref lib image_ref manifest_url =
     try_then (ok_or (RE_BuildImmutableReferenceError
         (''Cannot extract manifest digest from the OCI registry response: '' @ manifest_url))
       (after_last_slash manifest_url)) (\<lambda>manifest_digest.
     try_then (ok_or (RE_BuildImmutableReferenceError (''Invalid digest: '' @ manifest_digest))
       (split_once (CHR '':'') manifest_digest)) (\<lambda>(digest, checksum).
     try_then (digest_valid digest checksum manifest_digest) (\<lambda>valid.
       if \<not> valid then
         Err (RE_BuildImmutableReferenceError
           (''The digest of the returned manifest is not valid: '' @ manifest_digest))
       else
         try_then (map_err RE_InvalidOCIImageReferenceError (fl_reference lib image_ref)) (\<lambda>r.
           Ok ((if rf_registry r = [] then rf_repository r
                else rf_registry r @ ''/'' @ rf_repository r) @ ''@'' @ manifest_digest)))))"

definition registry_push ::
  "'u fetch_library \<Rightarrow> string \<Rightarrow> string \<Rightarrow> Sources option \<Rightarrow> (string \<rightharpoonup> string) option \<Rightarrow>
   (RegistryError, string, fetch_event) traced" where
  "registry_push lib policy destination sources annotations =
     traced_then (pure_result (map_err (\<lambda>_. RE_InvalidURLError (InvalidURLError destination))
       (ul_parse (url_lib lib) destination))) (\<lambda>url.
     (let sources = (case sources of None \<Rightarrow> Sources_default | Some s \<Rightarrow> s) in
      traced_then (pure_result (ok_or RE_InvalidDestinationError
        (strip_prefix ''registry://'' destination))) (\<lambda>destination.
      traced_then (try_with_protocols lib url sources (\<lambda>protocol.
        do_push lib policy url annotations protocol sources)) (\<lambda>manifest_url.
        pure_result (build_immutable_ref lib destination manifest_url)))))"

section \<open>Fetching a policy\<close>

datatype PullDestination = MainStore | Store string | LocalFile string

definition pull_destination ::
  "'u fetch_library \<Rightarrow> 'u \<Rightarrow> PullDestination \<Rightarrow> FetcherError + string option \<times> string" where
  "pull_destination lib url destination =
     (let full = (\<lambda>root. map_err FE_StoreError
            (policy_full_path (fl_store lib) root (ul_to_string (url_lib lib) url) PrefixAndFilename)) in
      case destination of
        MainStore \<Rightarrow>
          try_then (full (fl_default_root lib)) (\<lambda>path. Ok (Some (fl_default_root lib), path))
      | Store root \<Rightarrow> try_then (full root) (\<lambda>path. Ok (Some root, path))
      | LocalFile path \<Rightarrow>
          (if fl_is_dir lib path
           then Ok (None, path_join path (last (split_on (CHR ''/'') (ul_path (url_lib lib) url))))
           else Ok (None, path)))"

datatype policy_fetcher = Https_fetcher | Registry_fetcher

definition url_fetcher :: "string \<Rightarrow> StoreError + policy_fetcher" where
  "url_fetcher scheme =
     (if scheme = ''http'' \<or> scheme = ''https'' then Ok Https_fetcher
      else if scheme = ''registry'' then Ok Registry_fetcher
      else Err (ST_UnknownSchemeError scheme))"

definition WASM_MAGIC_NUMBER :: string where
  "WASM_MAGIC_NUMBER = CHR 0x00 # ''asm''"

definition create_file_if_valid ::
  "'u fetch_library \<Rightarrow> string \<Rightarrow> string \<Rightarrow> string \<Rightarrow> (FetcherError, Policy, fetch_event) traced" where
  "create_file_if_valid lib bytes destination url =
     (if \<not> prefix WASM_MAGIC_NUMBER bytes then (Err FE_InvalidWasmFileError, [])
      else
        traced_then (map_err (FE_CannotWriteWasmModuleFile destination) (fl_write lib destination bytes),
                     [Wrote destination bytes]) (\<lambda>_.
          (Ok \<lparr> po_uri = url, po_local_path = destination \<rparr>, [])))"

definition fetch_with ::
  "'u fetch_library \<Rightarrow> policy_fetcher \<Rightarrow> 'u \<Rightarrow> ClientProtocol \<Rightarrow> Sources \<Rightarrow> SourceError + string" where
  "fetch_with lib fetcher url protocol sources =
     (case fetcher of
        Https_fetcher \<Rightarrow> https_fetch (fl_http lib) (fl_env lib) (ul_to_string (url_lib lib) url) protocol sources
      | Registry_fetcher \<Rightarrow> registry_fetch lib url protocol sources)"

text \<open>The attempts: verified TLS, then for insecure sources TLS without verification, then HTTP.\<close>

definition fetch_remote ::
  "'u fetch_library \<Rightarrow> 'u \<Rightarrow> string \<Rightarrow> Sources \<Rightarrow> (FetcherError, Policy, fetch_event) traced" where
  "fetch_remote lib url destination sources =
     traced_then (pure_result (map_err FE_StoreError (url_fetcher (ul_scheme (url_lib lib) url)))) (\<lambda>fetcher.
     traced_then (pure_result (map_err FE_InvalidURLError (client_protocol (url_lib lib) url sources))) (\<lambda>protocol.
       (let create = (\<lambda>bytes. create_file_if_valid lib bytes destination (ul_to_string (url_lib lib) url)) in
        case fetch_with lib fetcher url protocol sources of
          Inr bytes \<Rightarrow> traced_then (Ok (), [Attempt protocol]) (\<lambda>_. create bytes)
        | Inl err \<Rightarrow>
            traced_then (map_err FE_InvalidURLError (host_and_port (url_lib lib) url), [Attempt protocol]) (\<lambda>host.
              if \<not> is_insecure_source sources host then (Err (FE_SourceError err), [])
              else
                (case fetch_with lib fetcher url (Https NoTlsVerification) sources of
                   Inr bytes \<Rightarrow> traced_then (Ok (), [Attempt (Https NoTlsVerification)]) (\<lambda>_. create bytes)
                 | Inl _ \<Rightarrow>
                     traced_then (map_err FE_SourceError (fetch_with lib fetcher url Http sources),
                                  [Attempt (Https NoTlsVerification), Attempt Http]) create)))))"

text \<open>The copy that is already there, or the file to fetch the policy to.\<close>

definition local_copy ::
  "'u fetch_library \<Rightarrow> 'u \<Rightarrow> string \<Rightarrow> FetcherError + (Policy + string)" where
  "local_copy lib url destination =
     (let text = ul_to_string (url_lib lib) url;
          here = Inl \<lparr> po_uri = text, po_local_path = destination \<rparr>
      in if ul_scheme (url_lib lib) url = ''registry'' then
           try_then (map_err FE_RegistryError (build_fully_resolved_reference lib text)) (\<lambda>reference.
             if rf_tag reference \<noteq> Some ''latest'' \<and> sb_exists (fl_store lib) destination then Ok here
             else if rf_tag reference = Some ''latest'' \<and> \<not> suffix '':latest'' text
             then Ok (Inr (destination @ '':latest''))
             else Ok (Inr destination))
         else if sb_exists (fl_store lib) destination then Ok here
         else Ok (Inr destination))"

definition ensure_store ::
  "'u fetch_library \<Rightarrow> 'u \<Rightarrow> string option \<Rightarrow> (FetcherError, unit, fetch_event) traced" where
  "ensure_store lib url store =
     (case store of
        None \<Rightarrow> (Ok (), [])
      | Some root \<Rightarrow>
          traced_then (pure_result (map_err FE_StoreError
            (policy_full_path (fl_store lib) root (ul_to_string (url_lib lib) url) PrefixOnly))) (\<lambda>path.
            (map_err FE_CannotCreateStoragePathError (fl_create_dir_all lib (ensured_path root path)),
             [Ensured (ensured_path root path)])))"

definition fetch_policy ::
  "'u fetch_library \<Rightarrow> string \<Rightarrow> PullDestination \<Rightarrow> Sources option \<Rightarrow>
   (FetcherError, Policy, fetch_event) traced" where
  "fetch_policy lib url destination sources =
     traced_then (pure_result (map_err FE_UrlParserError (parse_url (url_lib lib) url))) (\<lambda>url.
       (let scheme = ul_scheme (url_lib lib) url; text = ul_to_string (url_lib lib) url in
        if scheme = ''file'' then
          pure_result (try_then (ok_or (FE_InvalidFilePathError text) (ul_to_file_path (url_lib lib) url)) (\<lambda>path.
            Ok \<lparr> po_uri = text, po_local_path = path \<rparr>))
        else if scheme \<notin> {''registry'', ''http'', ''https''} then
          pure_result (Err (FE_StoreError (ST_UnknownSchemeError scheme)))
        else
          traced_then (pure_result (pull_destination lib url destination)) (\<lambda>(store, destination).
          traced_then (ensure_store lib url store) (\<lambda>_.
          traced_then (pure_result (local_copy lib url destination)) (\<lambda>c.
            (case c of
               Inl policy \<Rightarrow> (Ok policy, [])
             | Inr destination \<Rightarrow>
                 fetch_remote lib url destination
                   (case sources of None \<Rightarrow> Sources_default | Some s \<Rightarrow> s)))))))"

section \<open>Attempts\<close>

lemma client_protocol_authenticated: "client_protocol lib url sources = Ok p \<Longrightarrow> authenticated p"
  by (auto simp: client_protocol_def result_simps split: option.splits)

text \<open>
  The contract of everything that talks to a registry or a server: a connection whose peer is
  not authenticated is opened only to a source that is marked as insecure.
\<close>

locale guarded_attempts =
  fixes run :: "Sources \<Rightarrow> ('e, 'a, fetch_event) traced"
    and host :: "InvalidURLError + string"
  assumes unauthenticated_guarded:
    "Attempt p \<in> set (snd (run s)) \<Longrightarrow> \<not> authenticated p \<Longrightarrow> \<exists>h. host = Ok h \<and> is_insecure_source s h"
begin

lemma secure_sources_authenticated:
  "so_insecure_sources s = {} \<Longrightarrow> Attempt p \<in> set (snd (run s)) \<Longrightarrow> authenticated p"
  using unauthenticated_guarded [of p s] by (auto simp: is_insecure_source_def)

lemma only_this_host:
  "Attempt p \<in> set (snd (run s)) \<Longrightarrow> \<not> authenticated p \<Longrightarrow> host = Ok h \<Longrightarrow> h \<in> so_insecure_sources s"
  using unauthenticated_guarded [of p s] by (auto simp: is_insecure_source_def)

end

lemma create_attempts [simp]: "Attempt p \<notin> set (snd (create_file_if_valid lib bytes destination url))"
  by (auto simp: create_file_if_valid_def snd_traced_then split: sum.splits)

interpretation registry_attempts: guarded_attempts
  "\<lambda>sources. try_with_protocols lib url sources operation" "host_and_port (url_lib lib) url"
  for lib url operation
proof
  fix p s
  assume "Attempt p \<in> set (snd (try_with_protocols lib url s operation))" "\<not> authenticated p"
  then show "\<exists>h. host_and_port (url_lib lib) url = Ok h \<and> is_insecure_source s h"
    using client_protocol_authenticated [of "url_lib lib" url s]
    by (cases "client_protocol (url_lib lib) url s"; cases "operation (projr (client_protocol (url_lib lib) url s))";
        cases "host_and_port (url_lib lib) url"; cases "operation (Https NoTlsVerification)")
      (auto simp: try_with_protocols_def pure_result_def split: if_splits)
qed

interpretation fetch_attempts: guarded_attempts
  "\<lambda>sources. fetch_remote lib url destination sources" "host_and_port (url_lib lib) url"
  for lib url destination
proof
  fix p s
  assume "Attempt p \<in> set (snd (fetch_remote lib url destination s))" "\<not> authenticated p"
  then show "\<exists>h. host_and_port (url_lib lib) url = Ok h \<and> is_insecure_source s h"
    using client_protocol_authenticated [of "url_lib lib" url s]
    by (cases "url_fetcher (ul_scheme (url_lib lib) url)"; cases "client_protocol (url_lib lib) url s";
        cases "fetch_with lib (projr (url_fetcher (ul_scheme (url_lib lib) url))) url
                 (projr (client_protocol (url_lib lib) url s)) s";
        cases "host_and_port (url_lib lib) url")
      (auto simp: fetch_remote_def pure_result_def snd_traced_then Let_def split: if_splits)
qed

lemma ensure_store_events: "e \<in> set (snd (ensure_store lib url store)) \<Longrightarrow> \<exists>d. e = Ensured d"
  by (auto simp: ensure_store_def snd_traced_then pure_result_def split: option.splits sum.splits)

text \<open>What a fetch does to the network and the disk it does in \<open>fetch_remote\<close>.\<close>

lemma fetch_policy_events:
  assumes "e \<in> set (snd (fetch_policy lib url destination sources))" and "\<And>d. e \<noteq> Ensured d"
  shows "\<exists>u d. parse_url (url_lib lib) url = Ok u \<and>
     ul_scheme (url_lib lib) u \<in> {''registry'', ''http'', ''https''} \<and>
     e \<in> set (snd (fetch_remote lib u d (case sources of None \<Rightarrow> Sources_default | Some s \<Rightarrow> s)))"
proof -
  from assms(1) obtain u where u: "parse_url (url_lib lib) url = Ok u"
    by (cases "parse_url (url_lib lib) url") (auto simp: fetch_policy_def snd_traced_then pure_result_def)
  let ?s = "ul_scheme (url_lib lib) u"
  have scheme: "?s \<noteq> ''file''" "?s \<in> {''registry'', ''http'', ''https''}"
    using assms(1) u by (auto simp: fetch_policy_def pure_result_def Let_def split: if_splits)
  have run: "fetch_policy lib url destination sources =
      traced_then (pull_destination lib u destination, []) (\<lambda>(store, d).
      traced_then (ensure_store lib u store) (\<lambda>_.
      traced_then (local_copy lib u d, []) (\<lambda>c. (case c of Inl policy \<Rightarrow> (Ok policy, [])
        | Inr d \<Rightarrow> fetch_remote lib u d (case sources of None \<Rightarrow> Sources_default | Some s \<Rightarrow> s)))))"
    using u scheme by (simp add: fetch_policy_def pure_result_def)
  with assms(1) obtain store d where d: "pull_destination lib u destination = Ok (store, d)"
    by (cases "pull_destination lib u destination") auto
  obtain r ev where ens: "ensure_store lib u store = (r, ev)" by (cases "ensure_store lib u store")
  have "e \<notin> set ev" using ensure_store_events [of e lib u store] assms(2) ens by auto
  with assms(1) run d ens obtain c where "local_copy lib u d = Ok c"
    by (cases r; cases "local_copy lib u d") auto
  with assms(1) run d ens \<open>e \<notin> set ev\<close>
  have "e \<in> set (snd (case c of Inl policy \<Rightarrow> (Ok policy, [])
      | Inr d \<Rightarrow> fetch_remote lib u d (case sources of None \<Rightarrow> Sources_default | Some s \<Rightarrow> s)))"
    by (cases r) auto
  with u scheme show ?thesis by (cases c) auto
qed

lemma create_writes:
  "Wrote d bytes \<in> set (snd (create_file_if_valid lib contents destination url)) \<Longrightarrow>
     d = destination \<and> prefix WASM_MAGIC_NUMBER bytes"
  by (cases "fl_write lib destination contents") (auto simp: create_file_if_valid_def split: if_splits)

lemma fetch_remote_writes:
  "Wrote d bytes \<in> set (snd (fetch_remote lib url destination s)) \<Longrightarrow>
     d = destination \<and> prefix WASM_MAGIC_NUMBER bytes"
  using create_writes [of d bytes lib _ destination]
  by (cases "url_fetcher (ul_scheme (url_lib lib) url)"; cases "client_protocol (url_lib lib) url s";
      cases "fetch_with lib (projr (url_fetcher (ul_scheme (url_lib lib) url))) url
               (projr (client_protocol (url_lib lib) url s)) s";
      cases "host_and_port (url_lib lib) url";
      cases "fetch_with lib (projr (url_fetcher (ul_scheme (url_lib lib) url))) url (Https NoTlsVerification) s";
      cases "fetch_with lib (projr (url_fetcher (ul_scheme (url_lib lib) url))) url Http s")
    (auto simp: fetch_remote_def pure_result_def Let_def split: if_splits)

section \<open>Properties\<close>

text \<open>
  C21: no silent downgrade.  While a policy is fetched, a connection without TLS or with
  certificates left unchecked is opened only if the sources list the host and port of the URL
  as insecure, so never without a sources file; and only bytes that begin with the magic number of
  WebAssembly are written to the disk.
\<close>

theorem no_silent_downgrade:
  "(\<forall>p. Attempt p \<in> set (snd (fetch_policy lib url destination sources)) \<longrightarrow> \<not> authenticated p \<longrightarrow>
      (\<exists>u h s. parse_url (url_lib lib) url = Ok u \<and> host_and_port (url_lib lib) u = Ok h \<and>
         sources = Some s \<and> h \<in> so_insecure_sources s)) \<and>
   (\<forall>d bytes. Wrote d bytes \<in> set (snd (fetch_policy lib url destination sources)) \<longrightarrow>
      prefix WASM_MAGIC_NUMBER bytes)"
proof (intro conjI allI impI)
  fix p assume p: "Attempt p \<in> set (snd (fetch_policy lib url destination sources))" "\<not> authenticated p"
  then obtain u d where u: "parse_url (url_lib lib) url = Ok u"
    "Attempt p \<in> set (snd (fetch_remote lib u d (case sources of None \<Rightarrow> Sources_default | Some s \<Rightarrow> s)))"
    using fetch_policy_events [OF p(1)] by auto
  from fetch_attempts.unauthenticated_guarded [OF this(2) p(2)] u(1)
  show "\<exists>u h s. parse_url (url_lib lib) url = Ok u \<and> host_and_port (url_lib lib) u = Ok h \<and>
      sources = Some s \<and> h \<in> so_insecure_sources s"
    by (cases sources) (auto simp: is_insecure_source_def Sources_default_def)
next
  fix d bytes assume "Wrote d bytes \<in> set (snd (fetch_policy lib url destination sources))"
  from fetch_policy_events [OF this] show "prefix WASM_MAGIC_NUMBER bytes"
    by (auto dest: fetch_remote_writes)
qed

text \<open>A host that only speaks HTTP, and a file system that accepts every write.\<close>

definition plain_http :: "unit fetch_library" where
  "plain_http =
     \<lparr> fl_store = one_url ''http'' ''lab'' ''/p.wasm'', fl_default_root = ''/store'', fl_is_dir = (\<lambda>_. False),
       fl_create_dir_all = (\<lambda>_. Ok ()), fl_write = (\<lambda>_ _. Ok ()), fl_env = Map.empty,
       fl_http = \<lparr> ht_from_der = Ok, ht_from_pem = Ok, ht_https_proxy = Ok, ht_http_proxy = Ok,
         ht_no_proxy = Some, ht_build = Ok,
         ht_get = (\<lambda>c _. if hc_https_only c then Err ''refused'' else Ok (CHR 0x00 # ''asm...'')) \<rparr>,
       fl_reference = (\<lambda>_. Err ''reference''), fl_reference_to_string = (\<lambda>_. []),
       fl_credential = (\<lambda>_. Err ''none''), fl_pull = (\<lambda>_ _ _ _. Ok []),
       fl_pull_manifest = (\<lambda>_ _ _. Ok (Image [])), fl_manifest_digest = (\<lambda>_ _ _. Ok []),
       fl_pull_manifest_and_config = (\<lambda>_ _ _. Err ''none''), fl_json_from_str = (\<lambda>_. Err ''json''),
       fl_wasm_layer_media_type = ''wasm'', fl_wasm_config_media_type = ''config'',
       fl_push = (\<lambda>_ _ _ _. Err ''push'') \<rparr>"

theorem no_silent_downgrade_witness:
  "let sources = Sources_default \<lparr> so_insecure_sources := {''lab''} \<rparr>;
       run = fetch_policy plain_http ''http://lab/p.wasm'' (LocalFile ''/tmp/p'') (Some sources)
   in snd run = [Attempt (Https SystemCa), Attempt (Https NoTlsVerification), Attempt Http,
                 Wrote ''/tmp/p'' (CHR 0x00 # ''asm...'')] \<and>
      (\<exists>h. host_and_port (url_lib plain_http) () = Ok h \<and> h \<in> so_insecure_sources sources) \<and>
      prefix WASM_MAGIC_NUMBER (CHR 0x00 # ''asm...'')"
proof -
  let ?s = "Sources_default \<lparr> so_insecure_sources := {''lab''} \<rparr>"
  let ?run = "fetch_policy plain_http ''http://lab/p.wasm'' (LocalFile ''/tmp/p'') (Some ?s)"
  have run: "snd ?run = [Attempt (Https SystemCa), Attempt (Https NoTlsVerification), Attempt Http,
                 Wrote ''/tmp/p'' (CHR 0x00 # ''asm...'')]"
    by (simp add: fetch_policy_def parse_url.simps KNOWN_SCHEMES_def pure_result_def pull_destination_def
        ensure_store_def local_copy_def fetch_remote_def url_fetcher_def client_protocol_def host_and_port_def
        fetch_with_def https_fetch_def http_client_tls_def optional_proxy_def effective_proxies_def
        ProxyConfig_from_env_def get_proxy_env_vars_def env_or_else_def create_file_if_valid_def
        source_authority_def is_insecure_source_def Sources_default_def plain_http_def one_url_def
        WASM_MAGIC_NUMBER_def Let_def)
  note guard = no_silent_downgrade [of plain_http "''http://lab/p.wasm''" "LocalFile ''/tmp/p''" "Some ?s"]
  from conjunct1 [OF guard] run have "\<exists>u h s. host_and_port (url_lib plain_http) u = Ok h \<and>
      Some ?s = Some s \<and> h \<in> so_insecure_sources s"
    by (metis authenticated.simps(1) list.set_intros(1,2))
  moreover from conjunct2 [OF guard] run have "prefix WASM_MAGIC_NUMBER (CHR 0x00 # ''asm...'')"
    by (metis list.set_intros(1,2))
  ultimately show ?thesis using run by (auto simp: Let_def)
qed

text \<open>
  Interpreting a URL terminates after at most one retry.  A URL the parser gives an unknown
  scheme, or none at all, is read as an image of a registry, and what the second reading gives is
  the answer.
\<close>

theorem parse_url_retries_once:
  "parse_url lib url =
     (let again = ul_parse lib (''registry://'' @ url) in
      case ul_parse lib url of
        Inr u \<Rightarrow>
          (if ul_scheme lib u \<in> KNOWN_SCHEMES \<or> sublist ''://'' url then Ok u
           else (case again of
                   Inl RelativeUrlWithoutBase \<Rightarrow> ul_parse lib (''registry://registry://'' @ url)
                 | _ \<Rightarrow> again))
      | Inl RelativeUrlWithoutBase \<Rightarrow> again
      | Inl e \<Rightarrow> Err e)"
proof -
  have "sublist ''://'' (''registry://'' @ url)"
    unfolding sublist_def by (rule exI [of _ "''registry''"], rule exI [of _ url]) simp
  then have "parse_url lib (''registry://'' @ url) =
      (case ul_parse lib (''registry://'' @ url) of
         Inl RelativeUrlWithoutBase \<Rightarrow> ul_parse lib (''registry://registry://'' @ url)
       | r \<Rightarrow> r)"
    by (subst parse_url.simps) (simp split: sum.splits url_parse_error.splits)
  then show ?thesis
    by (subst parse_url.simps) (simp add: Let_def split: sum.splits url_parse_error.splits)
qed

text \<open>
  The directory that is created for a policy is its parent in the store exactly if the root is
  absolute: \<^verbatim>\<open>ensure\<close> joins the root to a path that already starts with it.
\<close>

theorem relative_store_root_not_ensured:
  "hd root = CHR ''/'' \<Longrightarrow> root \<noteq> [] \<Longrightarrow> ensured_path root (path_join root p) = path_join root p"
  "ensured_path ''policies'' (path_join ''policies'' ''registry/ghcr.io/org'') =
     ''policies/policies/registry/ghcr.io/org''"
  by (auto simp: ensured_path_def path_join_def)

end
