(* ===== verification/Signature_Verification.thy ===== *)
theory Signature_Verification
  imports Policy_Fetcher
begin

text \<open>
  Verifying the signatures of a policy (\<^verbatim>\<open>policy-fetcher/src/verify/\<close>): the three kinds of
  signature constraints, the verification configuration and its validation, the decision on the
  trusted signature layers of an image, and the check of the local file against the signed
  manifest.  Sigstore is a parameter: it delivers the trusted layers, verifies keys and
  annotations, and combines constraints; so are the YAML parser and the URL parser.
\<close>

section \<open>Errors\<close>

datatype VerifyError =
    VE_VerificationFileReadError string
  | VE_ChecksumVerificationError string
  | VE_ImageVerificationError string
  | VE_InvalidVerifyFileError string
  | VE_InvalidOCIImageReferenceError string
  | VE_KeyVerificationError string
  | VE_FailedToFetchTrustedLayersError string
  | VE_MissingWasmFileError string
  | VE_DigestErrors string
  | VE_RegistryError RegistryError
  | VE_GithubUrlParserError string
  | VE_FailedToParseYamlDataError string

section \<open>Signature layers\<close>

datatype CertificateSubject = Email string | Uri string

record CertificateSignature =
  cs_issuer :: "string option"
  cs_subject :: CertificateSubject
  cs_github_workflow_repository :: "string option"

text \<open>What the program looks at in a layer; the library sees more.\<close>

record SignatureLayer =
  sl_certificate_signature :: "CertificateSignature option"

type_synonym annotations = "string \<rightharpoonup> string"

text \<open>
  The library.  \<open>sg_key\<close> reads a public key, \<open>sg_verify_key\<close> and \<open>sg_verify_annotations\<close> are the
  verifiers, \<open>sg_verify_constraints\<close> combines constraints and tells whether all were satisfied.
\<close>

record ('u, 'k, 'x) sigstore_library =
  sg_url :: "'u url_library"
  sg_set_path :: "'u \<Rightarrow> string \<Rightarrow> 'u"
  sg_key :: "string \<Rightarrow> string + 'k"
  sg_verify_key :: "'k \<Rightarrow> 'x SignatureLayer_scheme \<Rightarrow> string + bool"
  sg_verify_annotations :: "annotations \<Rightarrow> 'x SignatureLayer_scheme \<Rightarrow> string + bool"
  sg_verify_constraints ::
    "'x SignatureLayer_scheme list \<Rightarrow> ('x SignatureLayer_scheme \<Rightarrow> string + bool) list \<Rightarrow> bool"

section \<open>Constraints\<close>

record 'k PublicKeyAndAnnotationsVerifier =
  pk_owner :: "string option"
  pk_pub_key_verifier :: 'k
  pk_annotation_verifier :: "annotations option"

text \<open>The key is read with \<^verbatim>\<open>?\<close>, which converts a Sigstore error.\<close>

definition PublicKeyAndAnnotationsVerifier_new ::
  "('u, 'k, 'x) sigstore_library \<Rightarrow> string option \<Rightarrow> string \<Rightarrow> annotations option \<Rightarrow>
   VerifyError + 'k PublicKeyAndAnnotationsVerifier" where
  "PublicKeyAndAnnotationsVerifier_new lib owner key annotations =
     try_then (map_err VE_FailedToFetchTrustedLayersError (sg_key lib key)) (\<lambda>pub_key_verifier.
       Ok \<lparr> pk_owner = owner, pk_pub_key_verifier = pub_key_verifier,
            pk_annotation_verifier = annotations \<rparr>)"

definition PublicKey_verify ::
  "('u, 'k, 'x) sigstore_library \<Rightarrow> 'k PublicKeyAndAnnotationsVerifier \<Rightarrow> 'x SignatureLayer_scheme \<Rightarrow>
   string + bool" where
  "PublicKey_verify lib v sl =
     (case pk_annotation_verifier v of
        Some av \<Rightarrow>
          try_then (sg_verify_key lib (pk_pub_key_verifier v) sl) (\<lambda>ok.
            if ok then sg_verify_annotations lib av sl else Ok False)
      | None \<Rightarrow> sg_verify_key lib (pk_pub_key_verifier v) sl)"

datatype 'u Subject = Equal string | UrlPrefix 'u

record 'u GenericIssuerSubjectVerifier =
  gi_issuer :: string
  gi_subject :: "'u Subject"
  gi_annotation_verifier :: "annotations option"

text \<open>The branch that is expected never to fail panics in the code; it is an error here.\<close>

definition GenericIssuerSubjectVerifier_new ::
  "('u, 'k, 'x) sigstore_library \<Rightarrow> string \<Rightarrow> 'u Subject \<Rightarrow> annotations option \<Rightarrow>
   VerifyError + 'u GenericIssuerSubjectVerifier" where
  "GenericIssuerSubjectVerifier_new lib issuer subject annotations =
     try_then
       (case subject of
          Equal _ \<Rightarrow> Ok subject
        | UrlPrefix url \<Rightarrow>
            (let text = ul_to_string (sg_url lib) url in
             if suffix ''/'' text then Ok subject
             else map_err (\<lambda>_. VE_InvalidVerifyFileError ''This should never fail'')
                    (map_ok UrlPrefix (ul_parse (sg_url lib) (text @ ''/''))))) (\<lambda>s.
       Ok \<lparr> gi_issuer = issuer, gi_subject = s, gi_annotation_verifier = annotations \<rparr>)"

fun subject_text :: "CertificateSubject \<Rightarrow> string" where
  "subject_text (Email e) = e"
| "subject_text (Uri u) = u"

definition verify_subject_equal ::
  "'u GenericIssuerSubjectVerifier \<Rightarrow> string \<Rightarrow> CertificateSignature \<Rightarrow> bool" where
  "verify_subject_equal v expected c \<longleftrightarrow>
     Some (gi_issuer v) = cs_issuer c \<and> expected = subject_text (cs_subject c)"

definition verify_subject_url_prefix ::
  "('u, 'k, 'x) sigstore_library \<Rightarrow> 'u GenericIssuerSubjectVerifier \<Rightarrow> 'u \<Rightarrow> CertificateSignature \<Rightarrow> bool" where
  "verify_subject_url_prefix lib v p c \<longleftrightarrow>
     Some (gi_issuer v) = cs_issuer c \<and>
     prefix (ul_to_string (sg_url lib) p) (subject_text (cs_subject c))"

definition GenericIssuer_verify ::
  "('u, 'k, 'x) sigstore_library \<Rightarrow> 'u GenericIssuerSubjectVerifier \<Rightarrow> 'x SignatureLayer_scheme \<Rightarrow> string + bool" where
  "GenericIssuer_verify lib v sl =
     (case sl_certificate_signature sl of
        None \<Rightarrow> Ok False
      | Some certificate_signature \<Rightarrow>
          (let basic_check =
             (case gi_subject v of
                Equal expected \<Rightarrow> verify_subject_equal v expected certificate_signature
              | UrlPrefix p \<Rightarrow> verify_subject_url_prefix lib v p certificate_signature)
           in case gi_annotation_verifier v of
                Some av \<Rightarrow> (if basic_check then sg_verify_annotations lib av sl else Ok False)
              | None \<Rightarrow> Ok basic_check))"

record GitHubRepo =
  gr_owner :: string
  gr_repo :: string

definition url_error_message :: "url_parse_error \<Rightarrow> string" where
  "url_error_message e =
     (case e of RelativeUrlWithoutBase \<Rightarrow> ''relative URL without a base'' | OtherUrlError m \<Rightarrow> m)"

definition GitHubRepo_try_from ::
  "('u, 'k, 'x) sigstore_library \<Rightarrow> string \<Rightarrow> VerifyError + GitHubRepo" where
  "GitHubRepo_try_from lib text =
     try_then (map_err (\<lambda>e. VE_GithubUrlParserError (''Cannot parse github url: '' @ url_error_message e))
       (ul_parse (sg_url lib) text)) (\<lambda>u.
     if ul_host_str (sg_url lib) u \<noteq> Some ''github.com''
     then Err (VE_GithubUrlParserError (''Not a GitHub url: host doesn'' @ [CHR 39] @ ''t match''))
     else
       try_then (ok_or (VE_GithubUrlParserError ''Cannot parse GitHub url: no path segments'')
         (ul_path_segments (sg_url lib) u)) (\<lambda>segments.
       (case segments of
          [] \<Rightarrow> Err (VE_GithubUrlParserError ''cannot parse github url: owner not found'')
        | [_] \<Rightarrow> Err (VE_GithubUrlParserError ''cannot parse github url: repo not found'')
        | owner # repo # _ \<Rightarrow> Ok \<lparr> gr_owner = owner, gr_repo = repo \<rparr>)))"

record GitHubVerifier =
  gv_owner :: string
  gv_repo :: "string option"
  gv_annotation_verifier :: "annotations option"

definition GITHUB_ACTION_ISSUER :: string where
  "GITHUB_ACTION_ISSUER = ''https://token.actions.githubusercontent.com''"

definition GitHubVerifier_new :: "string \<Rightarrow> string option \<Rightarrow> annotations option \<Rightarrow> GitHubVerifier" where
  "GitHubVerifier_new owner repo annotations =
     \<lparr> gv_owner = owner, gv_repo = repo, gv_annotation_verifier = annotations \<rparr>"

text \<open>The part of \<^verbatim>\<open>verify\<close> behind the checks of issuer and subject.\<close>

definition GitHub_verify_workflow ::
  "('u, 'k, 'x) sigstore_library \<Rightarrow> GitHubVerifier \<Rightarrow> CertificateSignature \<Rightarrow> 'x SignatureLayer_scheme \<Rightarrow>
   string + bool" where
  "GitHub_verify_workflow lib v c sl =
     try_then (ok_or ''The certificate is missing the github_workflow_repository extension despite being a GitHub Action one''
       (cs_github_workflow_repository c)) (\<lambda>repository.
     try_then (map_err (\<lambda>_. ''The certificate doesn'' @ [CHR 39] @
         ''t have a valid github_workflow_repository extension, despite the issuer being the GitHub Action one: '' @
         repository)
       (GitHubRepo_try_from lib (''https://github.com/'' @ repository))) (\<lambda>signature_repo.
       if gr_owner signature_repo \<noteq> gv_owner v then Ok False
       else if (case gv_repo v of Some repo \<Rightarrow> gr_repo signature_repo \<noteq> repo | None \<Rightarrow> False) then Ok False
       else (case gv_annotation_verifier v of
               Some av \<Rightarrow> sg_verify_annotations lib av sl
             | None \<Rightarrow> Ok True)))"

definition GitHub_verify ::
  "('u, 'k, 'x) sigstore_library \<Rightarrow> GitHubVerifier \<Rightarrow> 'x SignatureLayer_scheme \<Rightarrow> string + bool" where
  "GitHub_verify lib v sl =
     (case sl_certificate_signature sl of
        None \<Rightarrow> Ok False
      | Some c \<Rightarrow>
          (case cs_issuer c of
             None \<Rightarrow> Ok False
           | Some issuer \<Rightarrow>
               if issuer \<noteq> GITHUB_ACTION_ISSUER then Ok False
               else
                 (case cs_subject c of
                    Email _ \<Rightarrow> Ok False
                  | Uri signature_subject \<Rightarrow>
                      try_then (map_err (\<lambda>_. ''The certificate subject url doesn'' @ [CHR 39] @
                          ''t seem a GitHub valid one, despite the issuer being the GitHub Action one: '' @
                          signature_subject)
                        (GitHubRepo_try_from lib signature_subject)) (\<lambda>_.
                        GitHub_verify_workflow lib v c sl))))"

section \<open>The configuration\<close>

datatype 'u Signature =
    PubKey "string option" string "annotations option"
  | GenericIssuer string "'u Subject" "annotations option"
  | GithubAction string "string option" "annotations option"

record 'u AnyOf =
  ao_minimum_matches :: "8 word"
  ao_signatures :: "'u Signature list"

record 'u VerificationConfigV1 =
  vc_all_of :: "'u Signature list option"
  vc_any_of :: "'u AnyOf option"

datatype 'u VersionedVerificationConfig = V1 "'u VerificationConfigV1" | Unsupported

datatype yaml =
    YNull | YBool bool | YNumber string | YString string
  | YSequence "yaml list" | YMapping "(yaml \<times> yaml) list" | YTagged string yaml

datatype 'u VerificationConfig = Versioned "'u VersionedVerificationConfig" | Invalid yaml

text \<open>The value of a \<^verbatim>\<open>minimumMatches\<close> that is left out.\<close>

definition default_minimum_matches :: "8 word" where
  "default_minimum_matches = 1"

text \<open>Applied by the deserializer to a \<^verbatim>\<open>urlPrefix\<close>.\<close>

definition deserialize_subject_url_prefix :: "('u, 'k, 'x) sigstore_library \<Rightarrow> 'u \<Rightarrow> 'u" where
  "deserialize_subject_url_prefix lib url =
     (if \<not> suffix ''/'' (ul_path (sg_url lib) url)
      then sg_set_path lib url (ul_path (sg_url lib) url @ ''/'')
      else url)"

definition Signature_verifier ::
  "('u, 'k, 'x) sigstore_library \<Rightarrow> 'u Signature \<Rightarrow> VerifyError + ('x SignatureLayer_scheme \<Rightarrow> string + bool)" where
  "Signature_verifier lib s =
     (case s of
        PubKey owner key annotations \<Rightarrow>
          map_ok (PublicKey_verify lib) (PublicKeyAndAnnotationsVerifier_new lib owner key annotations)
      | GenericIssuer issuer subject annotations \<Rightarrow>
          map_ok (GenericIssuer_verify lib) (GenericIssuerSubjectVerifier_new lib issuer subject annotations)
      | GithubAction owner repo annotations \<Rightarrow>
          Ok (GitHub_verify lib (GitHubVerifier_new owner repo annotations)))"

section \<open>Reading the configuration\<close>

datatype SigstoreError = RegistryPullManifestError | OtherSigstoreError string

definition SigstoreError_message :: "SigstoreError \<Rightarrow> string" where
  "SigstoreError_message e =
     (case e of RegistryPullManifestError \<Rightarrow> ''failed to pull manifest'' | OtherSigstoreError m \<Rightarrow> m)"

text \<open>
  The libraries of the verifier: those of Sigstore and of the fetcher, the YAML parser (which
  decides between versioned and invalid configurations), and the Cosign client, with the lookup
  of the digest of an image and of its trusted signature layers.
\<close>

record ('u, 'k, 'x, 'c) verify_library =
  vl_sigstore :: "('u, 'k, 'x) sigstore_library"
  vl_fetch :: "'u fetch_library"
  vl_read_to_string :: "string \<Rightarrow> string + string"
  vl_from_str :: "string \<Rightarrow> string + 'u VerificationConfig"
  vl_from_value :: "yaml \<Rightarrow> string + 'u VerificationConfigV1"
  vl_to_yaml :: "'u Signature \<Rightarrow> string + string"
  vl_build_client :: "ClientConfig \<Rightarrow> string option \<Rightarrow> SigstoreError + 'c"
  vl_oci_reference :: "string \<Rightarrow> SigstoreError + string"
  vl_triangulate :: "'c \<Rightarrow> string \<Rightarrow> RegistryAuth \<Rightarrow> SigstoreError + string"
  vl_trusted_layers :: "'c \<Rightarrow> string \<Rightarrow> RegistryAuth \<Rightarrow> SigstoreError + 'x SignatureLayer_scheme list"

text \<open>Removing a key of a mapping moves the last entry to its place.\<close>

fun swap_remove :: "yaml \<Rightarrow> (yaml \<times> yaml) list \<Rightarrow> (yaml \<times> yaml) list" where
  "swap_remove k [] = []"
| "swap_remove k (e # es) =
     (if fst e = k then (if es = [] then [] else last es # butlast es) else e # swap_remove k es)"

definition sanitized_value :: "yaml \<Rightarrow> yaml" where
  "sanitized_value v =
     (case v of YMapping m \<Rightarrow> YMapping (swap_remove (YString ''apiVersion'') m) | _ \<Rightarrow> v)"

definition check_verification_config ::
  "'u VerificationConfigV1 \<Rightarrow> VerifyError + 'u VerificationConfigV1" where
  "check_verification_config config =
     (if vc_all_of config = None \<and> vc_any_of config = None then
        Err (VE_InvalidVerifyFileError ''config is missing signatures in both allOf and anyOff list'')
      else if vc_all_of config = Some [] then
        Err (VE_InvalidVerifyFileError (''config'' @ [CHR 39] @ ''s allOf list is empty''))
      else
        (case vc_any_of config of
           None \<Rightarrow> Ok config
         | Some any_of \<Rightarrow>
             if ao_signatures any_of = [] then
               Err (VE_InvalidVerifyFileError (''config'' @ [CHR 39] @ ''s anyOf.signatures list is empty''))
             else if ao_minimum_matches any_of = 0 then
               Err (VE_InvalidVerifyFileError
                 (''config'' @ [CHR 39] @ ''s anyOf.minimumMatches must be greater than 0''))
             else if length (ao_signatures any_of) < unat (ao_minimum_matches any_of) then
               Err (VE_InvalidVerifyFileError
                 (''config'' @ [CHR 39] @ ''s anyOf.minimumMatches ('' @
                  show_nat (unat (ao_minimum_matches any_of)) @
                  '') cannot be greater than the number of signatures ('' @
                  show_nat (length (ao_signatures any_of)) @ '')''))
             else Ok config))"

definition build_latest_verification_config ::
  "('u, 'k, 'x, 'c) verify_library \<Rightarrow> string \<Rightarrow> VerifyError + 'u VerificationConfigV1" where
  "build_latest_verification_config lib config_str =
     try_then (map_err VE_FailedToParseYamlDataError (vl_from_str lib config_str)) (\<lambda>vc.
       (case vc of
          Versioned (V1 config) \<Rightarrow> check_verification_config config
        | Versioned Unsupported \<Rightarrow>
            Err (VE_InvalidVerifyFileError ''Not a supported configuration version: Unsupported'')
        | Invalid value \<Rightarrow>
            map_err (\<lambda>err. VE_InvalidVerifyFileError (''Not a valid configuration file: '' @ err))
              (vl_from_value lib (sanitized_value value))))"

definition read_verification_file ::
  "('u, 'k, 'x, 'c) verify_library \<Rightarrow> string \<Rightarrow> VerifyError + 'u VerificationConfigV1" where
  "read_verification_file lib path =
     try_then (map_err VE_VerificationFileReadError (vl_read_to_string lib path))
       (build_latest_verification_config lib)"

section \<open>Verifying\<close>

text \<open>
  A signature of the configuration is unsatisfied if its verifier cannot be made or no
  trusted layer passes it.
\<close>

definition signature_unsatisfied ::
  "('u, 'k, 'x, 'c) verify_library \<Rightarrow> 'x SignatureLayer_scheme list \<Rightarrow> 'u Signature \<Rightarrow> bool" where
  "signature_unsatisfied lib trusted_layers signature =
     (case Signature_verifier (vl_sigstore lib) signature of
        Inr verifier \<Rightarrow> \<not> sg_verify_constraints (vl_sigstore lib) trusted_layers [verifier]
      | Inl _ \<Rightarrow> True)"

text \<open>The message of a failed verification lists the unsatisfied signatures.\<close>

definition unsatisfied_error ::
  "('u, 'k, 'x, 'c) verify_library \<Rightarrow> string \<Rightarrow> 'u Signature list \<Rightarrow> VerifyError + unit" where
  "unsatisfied_error lib preamble unsatisfied =
     try_then (map_err VE_FailedToParseYamlDataError (collect_map (vl_to_yaml lib) unsatisfied)) (\<lambda>texts.
       Err (VE_ImageVerificationError
         (preamble @ ''The following constraints were not satisfied:'' @ [CHR 10] @ concat texts)))"

definition verify_signatures_against_config ::
  "('u, 'k, 'x, 'c) verify_library \<Rightarrow> 'u VerificationConfigV1 \<Rightarrow> 'x SignatureLayer_scheme list \<Rightarrow>
   VerifyError + unit" where
  "verify_signatures_against_config lib config trusted_layers =
     (if vc_all_of config = None \<and> vc_any_of config = None then
        Err (VE_ImageVerificationError ''Image verification failed: no signatures to verify'')
      else
        try_then
          (case vc_all_of config of
             None \<Rightarrow> Ok ()
           | Some signatures \<Rightarrow>
               (let unsatisfied = filter (signature_unsatisfied lib trusted_layers) signatures in
                if unsatisfied \<noteq> [] then
                  unsatisfied_error lib (''Image verification failed: missing signatures'' @ [CHR 10]) unsatisfied
                else Ok ())) (\<lambda>_.
        (case vc_any_of config of
           None \<Rightarrow> Ok ()
         | Some any_of \<Rightarrow>
             (let unsatisfied = filter (signature_unsatisfied lib trusted_layers) (ao_signatures any_of);
                  satisfied = length (ao_signatures any_of) - length unsatisfied
              in if satisfied < unat (ao_minimum_matches any_of) then
                   unsatisfied_error lib
                     (''Image verification failed: minimum number of signatures not reached: needed '' @
                      show_nat (unat (ao_minimum_matches any_of)) @ '', got '' @ show_nat satisfied @ [CHR 10])
                     unsatisfied
                 else Ok ()))))"

record 'c Verifier =
  vf_cosign_client :: 'c
  vf_sources :: "Sources option"

definition Verifier_new ::
  "('u, 'k, 'x, 'c) verify_library \<Rightarrow> Sources option \<Rightarrow> string option \<Rightarrow> VerifyError + 'c Verifier" where
  "Verifier_new lib sources trust_root =
     (let config = signature_client_config (fl_env (vl_fetch lib))
            (case sources of None \<Rightarrow> Sources_default | Some s \<Rightarrow> s) in
      try_then (map_err (\<lambda>e. VE_FailedToFetchTrustedLayersError (SigstoreError_message e))
        (vl_build_client lib config trust_root)) (\<lambda>client.
        Ok \<lparr> vf_cosign_client = client, vf_sources = sources \<rparr>))"

definition fetch_sigstore_remote_data ::
  "('u, 'k, 'x, 'c) verify_library \<Rightarrow> 'c \<Rightarrow> string \<Rightarrow>
   VerifyError + string \<times> 'x SignatureLayer_scheme list" where
  "fetch_sigstore_remote_data lib client image_url =
     (let failed = (\<lambda>e. VE_FailedToFetchTrustedLayersError (SigstoreError_message e)) in
      try_then (map_err VE_RegistryError (build_fully_resolved_reference (vl_fetch lib) image_url)) (\<lambda>reference.
      (let auth = registry_auth (vl_fetch lib) (rf_registry reference);
           image_name = fl_reference_to_string (vl_fetch lib) reference
       in
       try_then (map_err failed (vl_oci_reference lib image_name)) (\<lambda>image_oci_ref.
       try_then (map_err failed (vl_triangulate lib client image_oci_ref auth)) (\<lambda>source_image_digest.
       try_then (map_err (\<lambda>e. case e of
            RegistryPullManifestError \<Rightarrow>
              VE_ImageVerificationError (''no signatures found for image: '' @ image_name @ '' '')
          | _ \<Rightarrow> failed e) (vl_trusted_layers lib client image_oci_ref auth)) (\<lambda>layers.
         Ok (source_image_digest, layers)))))))"

definition Verifier_verify ::
  "('u, 'k, 'x, 'c) verify_library \<Rightarrow> 'c Verifier \<Rightarrow> string \<Rightarrow> 'u VerificationConfigV1 \<Rightarrow> VerifyError + string" where
  "Verifier_verify lib verifier image_url config =
     try_then (fetch_sigstore_remote_data lib (vf_cosign_client verifier) image_url) (\<lambda>(digest, trusted_layers).
     try_then (verify_signatures_against_config lib config trusted_layers) (\<lambda>_. Ok digest))"

text \<open>
  The digest of the only WebAssembly layer of a manifest.  An image index
  cannot come back there (the code marks the branch unreachable); it is an error here.
\<close>

definition wasm_layer_digest ::
  "('u, 'k, 'x, 'c) verify_library \<Rightarrow> OciManifest \<Rightarrow> VerifyError + string" where
  "wasm_layer_digest lib manifest =
     (case manifest of
        ImageIndex \<Rightarrow> Err (VE_ChecksumVerificationError ''unreachable'')
      | Image layers \<Rightarrow>
          (let digests = map ml_digest
                 (filter (\<lambda>l. ml_media_type l = fl_wasm_layer_media_type (vl_fetch lib)) layers)
           in if length digests \<noteq> 1 then
                Err (VE_ChecksumVerificationError
                  (''Cannot verify local file integrity, the remote manifest doesn'' @ [CHR 39] @
                   ''t have only one WASM layer''))
              else
                ok_or (VE_ChecksumVerificationError
                  ''The checksum inside of the remote manifest is not using the sha256 hashing algorithm as expected.'')
                  (strip_prefix ''sha256:'' (digests ! 0))))"

text \<open>The manifest at the verified digest.\<close>

definition signed_manifest ::
  "('u, 'k, 'x, 'c) verify_library \<Rightarrow> 'c Verifier \<Rightarrow> string \<Rightarrow> string \<Rightarrow> VerifyError + OciManifest" where
  "signed_manifest lib verifier image_name verified_manifest_digest =
     try_then (map_err VE_InvalidOCIImageReferenceError (fl_reference (vl_fetch lib) image_name)) (\<lambda>reference.
       map_err VE_RegistryError (fst (registry_manifest (vl_fetch lib)
         (''registry://'' @ rf_registry reference @ ''/'' @ rf_repository reference @ ''@'' @
          verified_manifest_digest) (vf_sources verifier))))"

definition verify_local_file_checksum ::
  "('u, 'k, 'x, 'c) verify_library \<Rightarrow> 'c Verifier \<Rightarrow> Policy \<Rightarrow> string \<Rightarrow> VerifyError + unit" where
  "verify_local_file_checksum lib verifier policy verified_manifest_digest =
     (let image_name = (case strip_prefix ''registry://'' (po_uri policy) of
                          None \<Rightarrow> po_uri policy | Some url \<Rightarrow> url) in
      try_then (map_err VE_InvalidOCIImageReferenceError (fl_reference (vl_fetch lib) image_name)) (\<lambda>_.
      if \<not> sb_exists (fl_store (vl_fetch lib)) (po_local_path policy) then
        Err (VE_MissingWasmFileError (po_local_path policy))
      else
        try_then (signed_manifest lib verifier image_name verified_manifest_digest) (\<lambda>manifest.
        try_then (wasm_layer_digest lib manifest) (\<lambda>expected_digest.
        try_then (map_err VE_DigestErrors
          (sb_digest (fl_store (vl_fetch lib)) (po_local_path policy))) (\<lambda>file_digest.
          if file_digest \<noteq> expected_digest then
            Err (VE_ChecksumVerificationError
              (''The digest of the local file doesn'' @ [CHR 39] @
               ''t match with the one reported inside of the signed manifest. Got '' @ file_digest @
               '' instead of '' @ expected_digest))
          else Ok ())))))"

section \<open>What a signature stands for\<close>

definition annotations_hold ::
  "('u, 'k, 'x) sigstore_library \<Rightarrow> annotations option \<Rightarrow> 'x SignatureLayer_scheme \<Rightarrow> bool" where
  "annotations_hold lib annotations sl \<longleftrightarrow>
     (\<forall>a. annotations = Some a \<longrightarrow> sg_verify_annotations lib a sl = Ok True)"

definition with_slash :: "string \<Rightarrow> string" where
  "with_slash s = (if suffix ''/'' s then s else s @ ''/'')"

text \<open>
  The meaning of the three kinds of signatures, for one layer: signed with the key; or by a certificate of the
  given issuer for exactly this subject or one below the URL; or by a workflow of the repository
  or owner on GitHub.
\<close>

fun signature_holds ::
  "('u, 'k, 'x) sigstore_library \<Rightarrow> 'u Signature \<Rightarrow> 'x SignatureLayer_scheme \<Rightarrow> bool" where
  "signature_holds lib (PubKey owner key annotations) sl \<longleftrightarrow>
     (\<exists>k. sg_key lib key = Ok k \<and> sg_verify_key lib k sl = Ok True) \<and> annotations_hold lib annotations sl"
| "signature_holds lib (GenericIssuer issuer subject annotations) sl \<longleftrightarrow>
     (\<exists>c. sl_certificate_signature sl = Some c \<and> cs_issuer c = Some issuer \<and>
        (case subject of
           Equal e \<Rightarrow> subject_text (cs_subject c) = e
         | UrlPrefix u \<Rightarrow>
             prefix (with_slash (ul_to_string (sg_url lib) u)) (subject_text (cs_subject c)))) \<and>
     annotations_hold lib annotations sl"
| "signature_holds lib (GithubAction owner repo annotations) sl \<longleftrightarrow>
     (\<exists>c uri workflow r. sl_certificate_signature sl = Some c \<and> cs_issuer c = Some GITHUB_ACTION_ISSUER \<and>
        cs_subject c = Uri uri \<and> is_ok (GitHubRepo_try_from lib uri) \<and>
        cs_github_workflow_repository c = Some workflow \<and>
        GitHubRepo_try_from lib (''https://github.com/'' @ workflow) = Ok r \<and>
        gr_owner r = owner \<and> (\<forall>n. repo = Some n \<longrightarrow> gr_repo r = n)) \<and>
     annotations_hold lib annotations sl"

text \<open>What the program relies on: a slash can be put behind every URL, and stays there.\<close>

definition urls_take_slash :: "'u url_library \<Rightarrow> bool" where
  "urls_take_slash lib \<longleftrightarrow>
     (\<forall>u. \<not> suffix ''/'' (ul_to_string lib u) \<longrightarrow>
        (\<exists>v. ul_parse lib (ul_to_string lib u @ ''/'') = Ok v \<and>
             ul_to_string lib v = ul_to_string lib u @ ''/''))"

text \<open>And: a constraint is satisfied if one of the layers passes it.\<close>

definition constraints_by_layer :: "('u, 'k, 'x) sigstore_library \<Rightarrow> bool" where
  "constraints_by_layer lib \<longleftrightarrow>
     (\<forall>layers c. sg_verify_constraints lib layers [c] \<longleftrightarrow> (\<exists>sl\<in>set layers. c sl = Ok True))"

lemma PublicKey_verify_iff:
  "PublicKeyAndAnnotationsVerifier_new lib owner key ann = Ok v \<Longrightarrow>
     PublicKey_verify lib v sl = Ok True \<longleftrightarrow> signature_holds lib (PubKey owner key ann) sl"
  by (cases "sg_key lib key"; cases ann; cases "sg_verify_key lib (projr (sg_key lib key)) sl")
    (auto simp: PublicKeyAndAnnotationsVerifier_new_def PublicKey_verify_def annotations_hold_def
      split: if_splits)

lemma GenericIssuer_new:
  assumes "urls_take_slash (sg_url lib)"
  shows "\<exists>s. GenericIssuerSubjectVerifier_new lib issuer subject ann =
      Ok \<lparr> gi_issuer = issuer, gi_subject = s, gi_annotation_verifier = ann \<rparr> \<and>
    (case subject of
       Equal e \<Rightarrow> s = Equal e
     | UrlPrefix u \<Rightarrow> \<exists>v. s = UrlPrefix v \<and>
         ul_to_string (sg_url lib) v = with_slash (ul_to_string (sg_url lib) u))"
proof (cases subject)
  case (UrlPrefix u)
  then show ?thesis
    using assms
    by (cases "suffix ''/'' (ul_to_string (sg_url lib) u)")
      (auto simp: GenericIssuerSubjectVerifier_new_def with_slash_def urls_take_slash_def Let_def)
qed (simp add: GenericIssuerSubjectVerifier_new_def)

lemma GenericIssuer_verify_iff:
  assumes "urls_take_slash (sg_url lib)"
    and "GenericIssuerSubjectVerifier_new lib issuer subject ann = Ok v"
  shows "GenericIssuer_verify lib v sl = Ok True \<longleftrightarrow>
     signature_holds lib (GenericIssuer issuer subject ann) sl"
proof -
  obtain s where s: "v = \<lparr> gi_issuer = issuer, gi_subject = s, gi_annotation_verifier = ann \<rparr>"
    "case subject of Equal e \<Rightarrow> s = Equal e
     | UrlPrefix u \<Rightarrow> \<exists>w. s = UrlPrefix w \<and>
         ul_to_string (sg_url lib) w = with_slash (ul_to_string (sg_url lib) u)"
    using GenericIssuer_new [OF assms(1), of issuer subject ann] assms(2) by auto
  then show ?thesis
    by (cases subject; cases "sl_certificate_signature sl"; cases ann)
      (auto simp: GenericIssuer_verify_def verify_subject_equal_def verify_subject_url_prefix_def
        annotations_hold_def Let_def)
qed

lemma GitHub_workflow_iff:
  "GitHub_verify_workflow lib v c sl = Ok True \<longleftrightarrow>
     (\<exists>workflow r. cs_github_workflow_repository c = Some workflow \<and>
        GitHubRepo_try_from lib (''https://github.com/'' @ workflow) = Ok r \<and>
        gr_owner r = gv_owner v \<and> (\<forall>n. gv_repo v = Some n \<longrightarrow> gr_repo r = n)) \<and>
     annotations_hold lib (gv_annotation_verifier v) sl"
  by (cases "gv_repo v"; cases "gv_annotation_verifier v")
    (auto simp: GitHub_verify_workflow_def annotations_hold_def result_simps)

lemma GitHub_verify_iff:
  "GitHub_verify lib (GitHubVerifier_new owner repo ann) sl = Ok True \<longleftrightarrow>
     signature_holds lib (GithubAction owner repo ann) sl"
proof (cases "sl_certificate_signature sl")
  case (Some c)
  then show ?thesis
    by (cases "cs_issuer c"; cases "cs_subject c")
      (auto simp: GitHub_verify_def try_then_Ok_iff GitHub_workflow_iff map_err_Ok_iff is_ok_iff GitHubVerifier_new_def)
qed (simp add: GitHub_verify_def)

lemma signature_satisfied_iff:
  assumes "urls_take_slash (sg_url (vl_sigstore lib))" and "constraints_by_layer (vl_sigstore lib)"
  shows "signature_unsatisfied lib layers s \<longleftrightarrow>
     \<not> (\<exists>sl\<in>set layers. signature_holds (vl_sigstore lib) s sl)"
proof (cases s)
  case (PubKey owner key ann)
  then show ?thesis
    using assms(2) PublicKey_verify_iff [of "vl_sigstore lib" owner key ann]
    by (cases "sg_key (vl_sigstore lib) key")
      (simp_all add: signature_unsatisfied_def Signature_verifier_def constraints_by_layer_def
        PublicKeyAndAnnotationsVerifier_new_def)
next
  case (GenericIssuer issuer subject ann)
  obtain v where "GenericIssuerSubjectVerifier_new (vl_sigstore lib) issuer subject ann = Ok v"
    using GenericIssuer_new [OF assms(1)] by blast
  then show ?thesis
    using assms(2) GenericIssuer GenericIssuer_verify_iff [OF assms(1)]
    by (simp add: signature_unsatisfied_def Signature_verifier_def constraints_by_layer_def)
next
  case (GithubAction owner repo ann)
  then show ?thesis
    using assms(2)
    by (simp add: signature_unsatisfied_def Signature_verifier_def constraints_by_layer_def GitHub_verify_iff)
qed

lemma unsatisfied_error_Ok [simp]: "unsatisfied_error lib preamble ss \<noteq> Ok r"
  by (auto simp: unsatisfied_error_def result_simps)

lemma length_satisfied:
  "length xs - length (filter P xs) = length (filter (\<lambda>x. \<not> P x) xs)"
  using sum_length_filter_compl [of P xs] by linarith

lemma all_of_Ok_iff:
  assumes "signature_unsatisfied lib layers = (\<lambda>s. \<not> H s)"
  shows "(case all_of of
             None \<Rightarrow> Ok ()
           | Some signatures \<Rightarrow>
               (let unsatisfied = filter (signature_unsatisfied lib layers) signatures in
                if unsatisfied \<noteq> [] then unsatisfied_error lib m unsatisfied else Ok ())) = Ok () \<longleftrightarrow>
     (\<forall>ss. all_of = Some ss \<longrightarrow> (\<forall>s\<in>set ss. H s))"
proof (cases all_of)
  case (Some ss)
  then show ?thesis
    by (cases "filter (\<lambda>s. \<not> H s) ss = []") (auto simp: assms filter_empty_conv Let_def)
qed simp

lemma any_of_Ok_iff:
  assumes "signature_unsatisfied lib layers = (\<lambda>s. \<not> H s)"
  shows "(case any_of of
           None \<Rightarrow> Ok ()
         | Some a \<Rightarrow>
             (let unsatisfied = filter (signature_unsatisfied lib layers) (ao_signatures a);
                  satisfied = length (ao_signatures a) - length unsatisfied
              in if satisfied < unat (ao_minimum_matches a)
                 then unsatisfied_error lib (m a satisfied) unsatisfied else Ok ())) = Ok () \<longleftrightarrow>
     (\<forall>a. any_of = Some a \<longrightarrow> unat (ao_minimum_matches a) \<le> length (filter H (ao_signatures a)))"
proof (cases any_of)
  case (Some a)
  then show ?thesis by (simp add: assms length_satisfied Let_def not_less)
qed simp

lemma try_then_unit_iff: "try_then r k = Ok b \<longleftrightarrow> r = Ok () \<and> k () = Ok b"
  by (auto simp: try_then_Ok_iff)

lemma verify_Ok_iff:
  assumes "urls_take_slash (sg_url (vl_sigstore lib))" and "constraints_by_layer (vl_sigstore lib)"
    and "H = (\<lambda>s. \<exists>sl\<in>set layers. signature_holds (vl_sigstore lib) s sl)"
  shows "verify_signatures_against_config lib config layers = Ok () \<longleftrightarrow>
     (vc_all_of config \<noteq> None \<or> vc_any_of config \<noteq> None) \<and>
     (\<forall>ss. vc_all_of config = Some ss \<longrightarrow> (\<forall>s\<in>set ss. H s)) \<and>
     (\<forall>a. vc_any_of config = Some a \<longrightarrow>
        unat (ao_minimum_matches a) \<le> length (filter H (ao_signatures a)))"
proof -
  have "signature_unsatisfied lib layers = (\<lambda>s. \<not> H s)"
    unfolding assms(3) by (rule ext) (rule signature_satisfied_iff [OF assms(1,2)])
  note parts = all_of_Ok_iff [OF this] any_of_Ok_iff [OF this]
  show ?thesis
  proof (cases "vc_all_of config = None \<and> vc_any_of config = None")
    case False
    then have "verify_signatures_against_config lib config layers = Ok () \<longleftrightarrow>
        (\<forall>ss. vc_all_of config = Some ss \<longrightarrow> (\<forall>s\<in>set ss. H s)) \<and>
        (\<forall>a. vc_any_of config = Some a \<longrightarrow>
           unat (ao_minimum_matches a) \<le> length (filter H (ao_signatures a)))"
      unfolding verify_signatures_against_config_def
      by (simp only: if_False try_then_unit_iff parts)
    with False show ?thesis by simp
  qed (simp add: verify_signatures_against_config_def)
qed

section \<open>Properties\<close>

text \<open>
  C13: which images pass.  The trusted layers of an image satisfy a verification configuration
  exactly if every signature of \<^verbatim>\<open>allOf\<close> holds for one of the layers and at least
  \<^verbatim>\<open>minimumMatches\<close> of the signatures of \<^verbatim>\<open>anyOf\<close> do; with neither list, no image passes.  What a
  signature stands for is spelled out: in particular a URL prefix always ends with a slash when it is compared, so
  the prefix of one organization does not match another whose name merely begins alike.
\<close>

theorem verification_exact:
  assumes "urls_take_slash (sg_url (vl_sigstore lib))" and "constraints_by_layer (vl_sigstore lib)"
  shows "verify_signatures_against_config lib config layers = Ok () \<longleftrightarrow>
     (vc_all_of config \<noteq> None \<or> vc_any_of config \<noteq> None) \<and>
     (\<forall>ss. vc_all_of config = Some ss \<longrightarrow>
        (\<forall>s\<in>set ss. \<exists>sl\<in>set layers. signature_holds (vl_sigstore lib) s sl)) \<and>
     (\<forall>a. vc_any_of config = Some a \<longrightarrow>
        unat (ao_minimum_matches a) \<le>
          length (filter (\<lambda>s. \<exists>sl\<in>set layers. signature_holds (vl_sigstore lib) s sl) (ao_signatures a)))"
  by (rule verify_Ok_iff [OF assms refl])

text \<open>A library for the tests: the key is the text, and a layer is signed with the keys it lists.\<close>

definition text_sigstore :: "(string, string, string list) sigstore_library" where
  "text_sigstore =
     \<lparr> sg_url = \<lparr> ul_parse = Ok, ul_scheme = (\<lambda>_. ''https''), ul_host_str = (\<lambda>_. None), ul_port = (\<lambda>_. None),
         ul_path = (\<lambda>u. u), ul_path_segments = (\<lambda>_. None), ul_to_string = (\<lambda>u. u),
         ul_to_file_path = (\<lambda>_. None) \<rparr>,
       sg_set_path = (\<lambda>_ p. p), sg_key = Ok, sg_verify_key = (\<lambda>k sl. Ok (k \<in> set (SignatureLayer.more sl))),
       sg_verify_annotations = (\<lambda>_ _. Ok True),
       sg_verify_constraints = (\<lambda>layers cs. list_all (\<lambda>c. list_ex (\<lambda>sl. c sl = Ok True) layers) cs) \<rparr>"

definition text_library :: "'u VerificationConfig \<Rightarrow> 'u VerificationConfigV1 \<Rightarrow>
    ('u, 'k, 'x) sigstore_library \<Rightarrow> 'u fetch_library \<Rightarrow> ('u, 'k, 'x, unit) verify_library" where
  "text_library parsed direct sigstore fetch =
     \<lparr> vl_sigstore = sigstore, vl_fetch = fetch, vl_read_to_string = Ok, vl_from_str = (\<lambda>_. Ok parsed),
       vl_from_value = (\<lambda>_. Ok direct), vl_to_yaml = (\<lambda>_. Ok ''signature''), vl_build_client = (\<lambda>_ _. Ok ()),
       vl_oci_reference = Ok, vl_triangulate = (\<lambda>_ _ _. Ok ''sha256:manifest''),
       vl_trusted_layers = (\<lambda>_ _ _. Ok []) \<rparr>"

lemma text_sigstore_ok:
  "urls_take_slash (sg_url text_sigstore)" "constraints_by_layer text_sigstore"
  by (auto simp: urls_take_slash_def constraints_by_layer_def text_sigstore_def list_ex_iff)

theorem verification_exact_witness:
  "let lib = text_library (Versioned Unsupported) \<lparr> vc_all_of = None, vc_any_of = None \<rparr> text_sigstore undefined;
       config = \<lparr> vc_all_of = Some [PubKey None ''k1'' None],
                  vc_any_of = Some \<lparr> ao_minimum_matches = 1,
                    ao_signatures = [PubKey None ''k2'' None, PubKey None ''k3'' None] \<rparr> \<rparr>;
       layer = (\<lambda>keys. \<lparr> sl_certificate_signature = None, \<dots> = keys \<rparr>)
   in verify_signatures_against_config lib config [layer [''k1''], layer [''k3'']] = Ok () \<and>
      verify_signatures_against_config lib config [layer [''k1'']] \<noteq> Ok ()"
proof -
  let ?lib = "text_library (Versioned Unsupported) \<lparr> vc_all_of = None, vc_any_of = None \<rparr> text_sigstore undefined"
  have lib: "vl_sigstore ?lib = text_sigstore" by (simp add: text_library_def)
  have key: "signature_holds text_sigstore (PubKey owner k None) sl \<longleftrightarrow> k \<in> set (SignatureLayer.more sl)" for owner k sl
    by (simp add: text_sigstore_def annotations_hold_def)
  note exact = verification_exact [of ?lib, unfolded lib, OF text_sigstore_ok]
  show ?thesis
    unfolding Let_def exact by (simp add: key del: signature_holds.simps)
qed

text \<open>
  C27: a validated configuration always asks for a signature.  When a configuration with a
  supported version is accepted, an image passes it only if one of the configured signatures
  holds for one of its trusted layers; an image without trusted layers never passes.
\<close>

theorem accepted_config_requires_signature:
  assumes "urls_take_slash (sg_url (vl_sigstore lib))" and "constraints_by_layer (vl_sigstore lib)"
    and "vl_from_str lib text = Ok (Versioned v)" and "build_latest_verification_config lib text = Ok config"
    and "verify_signatures_against_config lib config layers = Ok ()"
  shows "\<exists>s sl. sl \<in> set layers \<and> signature_holds (vl_sigstore lib) s sl \<and>
     (s \<in> set (case vc_all_of config of None \<Rightarrow> [] | Some ss \<Rightarrow> ss) \<or>
      s \<in> set (case vc_any_of config of None \<Rightarrow> [] | Some a \<Rightarrow> ao_signatures a))"
proof -
  have checked: "check_verification_config config = Ok config"
    using assms(3,4) by (cases v)
      (auto simp: build_latest_verification_config_def check_verification_config_def split: if_splits option.splits)
  note exact = assms(5) [unfolded verify_Ok_iff [OF assms(1,2) refl]]
  show ?thesis
  proof (cases "vc_all_of config")
    case (Some ss)
    with checked obtain s where "s \<in> set ss"
      by (cases ss) (auto simp: check_verification_config_def split: if_splits)
    with exact Some obtain sl where "sl \<in> set layers" "signature_holds (vl_sigstore lib) s sl" by blast
    with Some \<open>s \<in> set ss\<close> show ?thesis by auto
  next
    case None
    with checked obtain a where a: "vc_any_of config = Some a" "ao_minimum_matches a \<noteq> 0"
      by (auto simp: check_verification_config_def split: if_splits option.splits)
    have "0 < unat (ao_minimum_matches a)" using a(2) by (simp add: unat_gt_0)
    moreover have "unat (ao_minimum_matches a) \<le>
        length (filter (\<lambda>s. \<exists>sl\<in>set layers. signature_holds (vl_sigstore lib) s sl) (ao_signatures a))"
      using exact a(1) by blast
    ultimately have "filter (\<lambda>s. \<exists>sl\<in>set layers. signature_holds (vl_sigstore lib) s sl) (ao_signatures a) \<noteq> []"
      by auto
    with a(1) show ?thesis by (auto simp: filter_empty_conv)
  qed
qed

theorem accepted_config_requires_signature_witness:
  "let config = \<lparr> vc_all_of = Some [PubKey None ''k1'' None], vc_any_of = None \<rparr>;
       lib = text_library (Versioned (V1 config)) config text_sigstore undefined;
       layers = [\<lparr> sl_certificate_signature = None, \<dots> = [''k1''] \<rparr>]
   in build_latest_verification_config lib ''text'' = Ok config \<and>
      verify_signatures_against_config lib config layers = Ok () \<and>
      (\<exists>s sl. sl \<in> set layers \<and> signature_holds text_sigstore s sl)"
proof -
  let ?config = "\<lparr> vc_all_of = Some [PubKey None ''k1'' None], vc_any_of = None \<rparr>"
  let ?lib = "text_library (Versioned (V1 ?config)) ?config text_sigstore undefined"
  let ?layers = "[\<lparr> sl_certificate_signature = None, \<dots> = [''k1''] \<rparr>]"
  have lib: "vl_sigstore ?lib = text_sigstore" "vl_from_str ?lib ''text'' = Ok (Versioned (V1 ?config))"
    by (simp_all add: text_library_def)
  then have build: "build_latest_verification_config ?lib ''text'' = Ok ?config"
    by (simp add: build_latest_verification_config_def check_verification_config_def)
  have "signature_holds text_sigstore (PubKey None ''k1'' None) (hd ?layers)"
    by (simp add: text_sigstore_def annotations_hold_def)
  then have verify: "verify_signatures_against_config ?lib ?config ?layers = Ok ()"
    using verify_Ok_iff [of ?lib, unfolded lib(1), OF text_sigstore_ok refl, of ?config ?layers] by simp
  from accepted_config_requires_signature [of ?lib, unfolded lib(1), OF text_sigstore_ok lib(2) build verify]
  have "\<exists>s sl. sl \<in> set ?layers \<and> signature_holds text_sigstore s sl" by blast
  with build verify show ?thesis by (simp add: Let_def)
qed

text \<open>
  A configuration that does not parse as a versioned one is read directly, to obtain a better
  error message; when that succeeds (as it does without \<^verbatim>\<open>apiVersion\<close>) the result is returned
  unchecked.  An empty \<^verbatim>\<open>allOf\<close> is accepted this way, and every image passes it.
\<close>

theorem unversioned_config_unchecked:
  assumes "vl_from_str lib text = Ok (Invalid value)"
    and "vl_from_value lib (sanitized_value value) = Ok \<lparr> vc_all_of = Some [], vc_any_of = None \<rparr>"
  shows "\<exists>config. build_latest_verification_config lib text = Ok config \<and>
     (\<forall>layers. verify_signatures_against_config lib config layers = Ok ())"
  using assms by (simp add: build_latest_verification_config_def verify_signatures_against_config_def)

text \<open>
  A key that cannot be read is reported as a failure to fetch the trusted layers, not as the
  key verification failure the comment on the errors announces.
\<close>

theorem bad_key_error:
  "sg_key lib key = Err e \<Longrightarrow>
     Signature_verifier lib (PubKey owner key annotations) = Err (VE_FailedToFetchTrustedLayersError e)"
  by (simp add: Signature_verifier_def PublicKeyAndAnnotationsVerifier_new_def)

section \<open>The signed file\<close>

lemma wasm_layer_digest_Ok:
  assumes "wasm_layer_digest lib manifest = Ok d"
  shows "\<exists>layers layer. manifest = Image layers \<and>
     filter (\<lambda>l. ml_media_type l = fl_wasm_layer_media_type (vl_fetch lib)) layers = [layer] \<and>
     ml_digest layer = ''sha256:'' @ d"
proof -
  obtain layers where layers: "manifest = Image layers"
    using assms by (cases manifest) (auto simp: wasm_layer_digest_def)
  let ?wasm = "filter (\<lambda>l. ml_media_type l = fl_wasm_layer_media_type (vl_fetch lib)) layers"
  from assms layers have "length ?wasm = 1" "strip_prefix ''sha256:'' (map ml_digest ?wasm ! 0) = Some d"
    by (auto simp: wasm_layer_digest_def Let_def result_simps split: if_splits)
  then obtain layer where "?wasm = [layer]" "ml_digest layer = ''sha256:'' @ d"
    by (auto simp: length_Suc_conv strip_prefix_Some_iff)
  with layers show ?thesis by blast
qed

lemma checksum_matches:
  assumes "verify_local_file_checksum lib verifier policy digest = Ok ()"
    and "image_name = (case strip_prefix ''registry://'' (po_uri policy) of None \<Rightarrow> po_uri policy | Some url \<Rightarrow> url)"
  shows "\<exists>d layers layer. sb_digest (fl_store (vl_fetch lib)) (po_local_path policy) = Ok d \<and>
     signed_manifest lib verifier image_name digest = Ok (Image layers) \<and>
     filter (\<lambda>l. ml_media_type l = fl_wasm_layer_media_type (vl_fetch lib)) layers = [layer] \<and>
     ml_digest layer = ''sha256:'' @ d"
proof -
  obtain manifest d where "signed_manifest lib verifier image_name digest = Ok manifest"
    "wasm_layer_digest lib manifest = Ok d" "sb_digest (fl_store (vl_fetch lib)) (po_local_path policy) = Ok d"
    using assms by (auto simp: verify_local_file_checksum_def Let_def result_simps split: if_splits)
  with wasm_layer_digest_Ok show ?thesis by metis
qed

end
