(* ===== verification/Fetcher_Errors.thy ===== *)
theory Fetcher_Errors
  imports Signature_Verification
begin

text \<open>
  The messages of the errors of the policy fetcher (the \<^verbatim>\<open>#[error(...)]\<close> attributes of
  \<^verbatim>\<open>errors.rs\<close>, \<^verbatim>\<open>sources.rs\<close>, \<^verbatim>\<open>store/errors.rs\<close>, \<^verbatim>\<open>registry/errors.rs\<close> and \<^verbatim>\<open>verify/errors.rs\<close>).
  Errors of libraries are carried by their own message.
\<close>

fun InvalidURLError_to_string :: "InvalidURLError \<Rightarrow> string" where
  "InvalidURLError_to_string (InvalidURLError u) = ''invalid URL: '' @ u"

fun SourceError_to_string :: "SourceError \<Rightarrow> string" where
  "SourceError_to_string (SE_InvalidURLError e) = InvalidURLError_to_string e"
| "SourceError_to_string (SE_OCIRegistryError m) = ''Fail to interact with OCI registry: '' @ m"
| "SourceError_to_string (SE_InvalidOCIImageReferenceError m) = ''Invalid OCI image reference: '' @ m"
| "SourceError_to_string (SE_EmptyLayersError m) = ''could not pull policy '' @ m @ '': empty layers''"
| "SourceError_to_string (SE_InvalidCertificateError m) = ''Invalid certificate: '' @ m"
| "SourceError_to_string (SE_CannotReadCertificateError m) = ''Cannot read certificate from file: '' @ m"
| "SourceError_to_string (SE_FailedToParseYamlDataError m) = m"
| "SourceError_to_string (SE_FailedToCreateHttpClientError m) = ''failed to create the http client: '' @ m"

definition DigestError_to_string :: "string \<Rightarrow> string" where
  "DigestError_to_string m = ''cannot retrieve path from uri: '' @ m"

fun StoreError_to_string :: "StoreError \<Rightarrow> string" where
  "StoreError_to_string (ST_UrlParserError e) = url_error_message e"
| "StoreError_to_string (ST_VerificationFileReadError m) = ''failed to read verification file: '' @ m"
| "StoreError_to_string (ST_FailedToReadPolicyInLocalStorageError m) =
     ''cannot read policy in local storage: '' @ m"
| "StoreError_to_string (ST_PolicyStoragePathError m) = m"
| "StoreError_to_string (ST_UnknownSchemeError m) = ''unknown scheme: '' @ m"
| "StoreError_to_string (ST_MultiplePoliciesFoundError m) =
     ''multiple policies found with the same prefix: '' @ m"
| "StoreError_to_string (ST_DigestError m) = DigestError_to_string m"
| "StoreError_to_string (ST_DecoderError m) = m"

fun RegistryError_to_string :: "RegistryError \<Rightarrow> string" where
  "RegistryError_to_string (RE_OCIRegistryError m) = ''Fail to interact with OCI registry: '' @ m"
| "RegistryError_to_string (RE_InvalidOCIImageReferenceError m) = ''Invalid OCI image reference: '' @ m"
| "RegistryError_to_string (RE_BuildImmutableReferenceError m) = m"
| "RegistryError_to_string RE_InvalidDestinationError = ''Invalid destination format''"
| "RegistryError_to_string (RE_UrlParserError e) = url_error_message e"
| "RegistryError_to_string (RE_InvalidURLError e) = InvalidURLError_to_string e"
| "RegistryError_to_string (RE_JSONParseError m) = m"

fun VerifyError_to_string :: "VerifyError \<Rightarrow> string" where
  "VerifyError_to_string (VE_VerificationFileReadError m) = ''failed to read verification file: '' @ m"
| "VerifyError_to_string (VE_ChecksumVerificationError m) = m"
| "VerifyError_to_string (VE_ImageVerificationError m) = m"
| "VerifyError_to_string (VE_InvalidVerifyFileError m) = m"
| "VerifyError_to_string (VE_InvalidOCIImageReferenceError m) =
     ''Verification only works with OCI images: Not a valid oci image: '' @ m"
| "VerifyError_to_string (VE_KeyVerificationError m) = ''key verification failure: '' @ m @ '' ''"
| "VerifyError_to_string (VE_FailedToFetchTrustedLayersError m) = ''failed to get image trusted layers: '' @ m"
| "VerifyError_to_string (VE_MissingWasmFileError m) =
     ''Policy cannot be verified, local wasm file doesn'' @ [CHR 39] @ ''t exist: '' @ m"
| "VerifyError_to_string (VE_DigestErrors m) = DigestError_to_string m"
| "VerifyError_to_string (VE_RegistryError e) = RegistryError_to_string e"
| "VerifyError_to_string (VE_GithubUrlParserError m) = m"
| "VerifyError_to_string (VE_FailedToParseYamlDataError m) = m"

text \<open>\<open>dbg\<close> prints a string the way \<^verbatim>\<open>{:?}\<close> does.\<close>

fun FetcherError_to_string :: "(string \<Rightarrow> string) \<Rightarrow> FetcherError \<Rightarrow> string" where
  "FetcherError_to_string dbg (FE_InvalidFilePathError m) = ''cannot retrieve path from uri: '' @ m"
| "FetcherError_to_string dbg FE_InvalidWasmFileError = ''invalid wasm file''"
| "FetcherError_to_string dbg (FE_CannotWriteWasmModuleFile p m) =
     ''wasm module cannot be save to '' @ dbg p @ '': '' @ m"
| "FetcherError_to_string dbg (FE_PolicyError m) = DigestError_to_string m"
| "FetcherError_to_string dbg (FE_VerifyError m) = m"
| "FetcherError_to_string dbg (FE_RegistryError e) = RegistryError_to_string e"
| "FetcherError_to_string dbg (FE_UrlParserError e) = url_error_message e"
| "FetcherError_to_string dbg (FE_SourceError e) = SourceError_to_string e"
| "FetcherError_to_string dbg (FE_StoreError e) = StoreError_to_string e"
| "FetcherError_to_string dbg (FE_InvalidURLError e) = InvalidURLError_to_string e"
| "FetcherError_to_string dbg (FE_CannotCreateStoragePathError m) = ''invalid URL: '' @ m"

end
