(* ===== verification/Policy_Id.thy ===== *)
theory Policy_Id
  imports Rust_Strings
begin

text \<open>
  Policy identifiers, policy modes and evaluation errors
  (\<^verbatim>\<open>policy-evaluator/src/admission_response_handler/{policy_id,policy_mode,errors}.rs\<close>):
  the identifier type, its printing and parsing, and the round trip between the two.
\<close>

section \<open>Errors\<close>

datatype EvaluationError =
    InvalidPolicyId string
  | PolicyInitialization string
  | PolicyNotFound string
  | BootstrapFailure string
  | WebAssemblyError string
  | CannotRehydratePolicyGroup string

fun EvaluationError_to_string :: "EvaluationError \<Rightarrow> string" where
  "EvaluationError_to_string (InvalidPolicyId s) = ''Not a valid Policy ID: '' @ s"
| "EvaluationError_to_string (PolicyInitialization s) = s"
| "EvaluationError_to_string (PolicyNotFound s) = ''unknown policy: '' @ s"
| "EvaluationError_to_string (BootstrapFailure s) = ''bootstrap failure: '' @ s"
| "EvaluationError_to_string (WebAssemblyError s) = ''WebAssembly failure: '' @ s"
| "EvaluationError_to_string (CannotRehydratePolicyGroup s) =
     ''Attempted to rehydrated policy group '' @ [CHR 39] @ s @ [CHR 39]"

section \<open>Modes\<close>

datatype PolicyMode = Monitor | Protect

definition PolicyMode_default :: PolicyMode where
  "PolicyMode_default = Protect"

fun PolicyMode_to_string :: "PolicyMode \<Rightarrow> string" where
  "PolicyMode_to_string Monitor = ''monitor''"
| "PolicyMode_to_string Protect = ''protect''"

section \<open>Identifiers\<close>

datatype PolicyID =
    Policy string
  | PolicyGroupPolicy (pid_group: string) (pid_name: string)

fun PolicyID_to_string :: "PolicyID \<Rightarrow> string" where
  "PolicyID_to_string (Policy name) = name"
| "PolicyID_to_string (PolicyGroupPolicy grp name) = grp @ ''/'' @ name"

definition PolicyID_from_str :: "string \<Rightarrow> EvaluationError + PolicyID" where
  "PolicyID_from_str s =
     (if s = [] then Err (InvalidPolicyId s)
      else (let parts = split_on (CHR ''/'') s in
            if length parts = 1 then Ok (Policy s)
            else if length parts = 2 then Ok (PolicyGroupPolicy (parts ! 0) (parts ! 1))
            else Err (InvalidPolicyId s)))"

text \<open>The identifiers that parsing can produce.\<close>

fun wf_policy_id :: "PolicyID \<Rightarrow> bool" where
  "wf_policy_id (Policy name) = (name \<noteq> [] \<and> CHR ''/'' \<notin> set name)"
| "wf_policy_id (PolicyGroupPolicy grp name) =
     (CHR ''/'' \<notin> set grp \<and> CHR ''/'' \<notin> set name)"

lemma from_str_to_string [simp]:
  "wf_policy_id i \<Longrightarrow> PolicyID_from_str (PolicyID_to_string i) = Ok i"
  by (cases i) (auto simp: PolicyID_from_str_def split_on_no_sep split_on_append)

lemma from_str_OkD:
  assumes "PolicyID_from_str s = Ok i"
  shows "PolicyID_to_string i = s" and "wf_policy_id i"
proof -
  let ?c = "CHR ''/''"
  have ne: "s \<noteq> []" using assms by (auto simp: PolicyID_from_str_def)
  consider (one) p where "split_on ?c s = [p]" "i = Policy s"
    | (two) p q where "split_on ?c s = [p, q]" "i = PolicyGroupPolicy p q"
    using assms
    by (auto simp: PolicyID_from_str_def Let_def length_Suc_conv numeral_2_eq_2 split: if_splits)
  then have "PolicyID_to_string i = s \<and> wf_policy_id i"
  proof cases
    case one
    then show ?thesis using ne by (auto simp: split_on_singleton_iff)
  next
    case two
    have "p @ ?c # q = s" using join_split_on [of ?c s] two(1) by simp
    moreover have "?c \<notin> set p" "?c \<notin> set q" using two(1) split_on_pieces [of _ ?c s] by auto
    ultimately show ?thesis using two(2) by simp
  qed
  then show "PolicyID_to_string i = s" "wf_policy_id i" by auto
qed

lemma from_str_Ok_iff:
  "PolicyID_from_str s = Ok i \<longleftrightarrow> PolicyID_to_string i = s \<and> wf_policy_id i"
  using from_str_OkD from_str_to_string by metis

lemma from_str_Err:
  "PolicyID_from_str s = Err e \<Longrightarrow>
     e = InvalidPolicyId s \<and> (s = [] \<or> 1 < count_list s (CHR ''/''))"
  by (auto simp: PolicyID_from_str_def Let_def length_split_on split: if_splits)

lemma from_str_error_iff:
  "(\<exists>e. PolicyID_from_str s = Err e) \<longleftrightarrow> s = [] \<or> 1 < count_list s (CHR ''/'')"
  by (auto simp: PolicyID_from_str_def Let_def length_split_on)

lemma to_string_inject:
  "wf_policy_id i \<Longrightarrow> wf_policy_id j \<Longrightarrow>
     PolicyID_to_string i = PolicyID_to_string j \<longleftrightarrow> i = j"
  by (metis from_str_to_string sum.inject(2))

section \<open>Properties\<close>

text \<open>
  C34: parsing and printing policy identifiers are inverse to each other.  A string parses
  to an identifier exactly if the identifier prints as that string and its parts are free of
  \<^verbatim>\<open>/\<close> (and the name of an individual policy is not empty); every other string, the empty one or one with two
  slashes or more, is rejected with an error that carries the string.
\<close>

theorem policy_id_roundtrip:
  "(PolicyID_from_str s = Ok i \<longleftrightarrow> PolicyID_to_string i = s \<and> wf_policy_id i) \<and>
   (PolicyID_from_str s = Err e \<longleftrightarrow>
      e = InvalidPolicyId s \<and> (s = [] \<or> 1 < count_list s (CHR ''/'')))"
  using from_str_Ok_iff from_str_error_iff from_str_Err by blast

end
