(* ===== verification/Callback_Requests.thy ===== *)
theory Callback_Requests
  imports Json
begin

text \<open>
  The requests a policy can make to the host (\<^verbatim>\<open>policy-evaluator/src/callback_requests.rs\<close>)
  and the conversions from the policy SDK's request types.  The SDK types carry the
  fields the conversions read; a Kubernetes access review is kept as a JSON value, an
  instant as a number of clock ticks, a \<^verbatim>\<open>BTreeMap<String, String>\<close> as its key-ordered list.
\<close>

type_synonym bytes = "8 word list"
type_synonym annotations = "(string \<times> string) list"
type_synonym instant = nat

section \<open>Types of the policy SDK\<close>

record KeylessInfo =
  ki_issuer :: string
  ki_subject :: string

record KeylessPrefixInfo =
  kp_issuer :: string
  kp_url_prefix :: string

datatype CertificateEncoding = Pem | Der

record Certificate =
  cert_encoding :: CertificateEncoding
  cert_data :: bytes

record CertificateVerificationRequest =
  cv_cert :: Certificate
  cv_cert_chain :: "Certificate list option"
  cv_not_after :: "string option"

datatype SigstoreVerificationInputV1 =
    V1_SigstorePubKeyVerify string "string list" "annotations option"
  | V1_SigstoreKeylessVerify string "KeylessInfo list" "annotations option"

datatype SigstoreVerificationInputV2 =
    V2_SigstorePubKeyVerify string "string list" "annotations option"
  | V2_SigstoreKeylessVerify string "KeylessInfo list" "annotations option"
  | V2_SigstoreKeylessPrefixVerify string "KeylessPrefixInfo list" "annotations option"
  | V2_SigstoreGithubActionsVerify string string "string option" "annotations option"
  | V2_SigstoreCertificateVerify string bytes "bytes list option" bool "annotations option"

record ListResourcesByNamespaceRequest =
  ln_api_version :: string
  ln_kind :: string
  ln_namespace :: string
  ln_label_selector :: "string option"
  ln_field_selector :: "string option"
  ln_field_masks :: "string set option"

record ListAllResourcesRequest =
  la_api_version :: string
  la_kind :: string
  la_label_selector :: "string option"
  la_field_selector :: "string option"
  la_field_masks :: "string set option"

record GetResourceRequest =
  gr_api_version :: string
  gr_kind :: string
  gr_name :: string
  gr_namespace :: "string option"
  gr_disable_cache :: bool
  gr_field_masks :: "string set option"

record CanIRequest =
  ci_subject_access_review :: json
  ci_disable_cache :: bool

section \<open>Requests to the host\<close>

datatype CallbackRequestType =
    OciManifestDigest (cr_image: string)
  | OciManifest (cr_image: string)
  | OciManifestAndConfig (cr_image: string)
  | SigstorePubKeyVerify (cr_image: string) (cr_pub_keys: "string list")
      (cr_annotations: "annotations option")
  | SigstoreKeylessVerify (cr_image: string) (cr_keyless: "KeylessInfo list")
      (cr_annotations: "annotations option")
  | SigstoreKeylessPrefixVerify (cr_image: string) (cr_keyless_prefix: "KeylessPrefixInfo list")
      (cr_annotations: "annotations option")
  | SigstoreGithubActionsVerify (cr_image: string) (cr_owner: string) (cr_repo: "string option")
      (cr_annotations: "annotations option")
  | SigstoreCertificateVerify (cr_image: string) (cr_certificate: bytes)
      (cr_certificate_chain: "bytes list option") (cr_require_rekor_bundle: bool)
      (cr_annotations: "annotations option")
  | DNSLookupHost (cr_host: string)
  | KubernetesListResourceNamespace (cr_api_version: string) (cr_kind: string)
      (cr_list_namespace: string) (cr_label_selector: "string option")
      (cr_field_selector: "string option") (cr_field_masks: "string set option")
  | KubernetesListResourceAll (cr_api_version: string) (cr_kind: string)
      (cr_label_selector: "string option") (cr_field_selector: "string option")
      (cr_field_masks: "string set option")
  | KubernetesGetResource (cr_api_version: string) (cr_kind: string) (cr_name: string)
      (cr_namespace: "string option") (cr_disable_cache: bool) (cr_field_masks: "string set option")
  | KubernetesGetResourcePluralName (cr_api_version: string) (cr_kind: string)
  | HasKubernetesListResourceAllResultChangedSinceInstant (cr_api_version: string)
      (cr_kind: string) (cr_label_selector: "string option") (cr_field_selector: "string option")
      (cr_field_masks: "string set option") (cr_since: instant)
  | KubernetesCanI (cr_review: json) (cr_disable_cache: bool)
  | CryptoIsCertificateTrusted (cr_cert_request: CertificateVerificationRequest)

section \<open>Conversions\<close>

fun from_sigstore_v1 :: "SigstoreVerificationInputV1 \<Rightarrow> CallbackRequestType" where
  "from_sigstore_v1 (V1_SigstorePubKeyVerify img pub_keys annotations) =
     SigstorePubKeyVerify img pub_keys annotations"
| "from_sigstore_v1 (V1_SigstoreKeylessVerify img keyless annotations) =
     SigstoreKeylessVerify img keyless annotations"

fun from_sigstore_v2 :: "SigstoreVerificationInputV2 \<Rightarrow> CallbackRequestType" where
  "from_sigstore_v2 (V2_SigstorePubKeyVerify img pub_keys annotations) =
     SigstorePubKeyVerify img pub_keys annotations"
| "from_sigstore_v2 (V2_SigstoreKeylessVerify img keyless annotations) =
     SigstoreKeylessVerify img keyless annotations"
| "from_sigstore_v2 (V2_SigstoreKeylessPrefixVerify img keyless_prefix annotations) =
     SigstoreKeylessPrefixVerify img keyless_prefix annotations"
| "from_sigstore_v2 (V2_SigstoreGithubActionsVerify img owner repo annotations) =
     SigstoreGithubActionsVerify img owner repo annotations"
| "from_sigstore_v2 (V2_SigstoreCertificateVerify img certificate chain rekor annotations) =
     SigstoreCertificateVerify img certificate chain rekor annotations"

definition from_list_by_namespace :: "ListResourcesByNamespaceRequest \<Rightarrow> CallbackRequestType" where
  "from_list_by_namespace req =
     KubernetesListResourceNamespace (ln_api_version req) (ln_kind req) (ln_namespace req)
       (ln_label_selector req) (ln_field_selector req) (ln_field_masks req)"

definition from_list_all :: "ListAllResourcesRequest \<Rightarrow> CallbackRequestType" where
  "from_list_all req =
     KubernetesListResourceAll (la_api_version req) (la_kind req)
       (la_label_selector req) (la_field_selector req) (la_field_masks req)"

definition from_get_resource :: "GetResourceRequest \<Rightarrow> CallbackRequestType" where
  "from_get_resource req =
     KubernetesGetResource (gr_api_version req) (gr_kind req) (gr_name req) (gr_namespace req)
       (gr_disable_cache req) (gr_field_masks req)"

definition from_can_i :: "CanIRequest \<Rightarrow> CallbackRequestType" where
  "from_can_i req = KubernetesCanI (ci_subject_access_review req) (ci_disable_cache req)"

definition from_certificate_verification ::
  "CertificateVerificationRequest \<Rightarrow> CallbackRequestType" where
  "from_certificate_verification request = CryptoIsCertificateTrusted request"

text \<open>Sending an instant as the time elapsed since it, and reading it back at time \<open>now\<close>.\<close>

definition serialize_instant :: "instant \<Rightarrow> instant \<Rightarrow> nat" where
  "serialize_instant now i = now - i"

definition deserialize_instant :: "instant \<Rightarrow> nat \<Rightarrow> string + instant" where
  "deserialize_instant now duration =
     (if duration \<le> now then Ok (now - duration) else Err ''Error checked_sub'')"

lemma instant_roundtrip:
  "i \<le> sent \<Longrightarrow> sent \<le> received \<Longrightarrow>
     deserialize_instant received (serialize_instant sent i) = Ok (i + (received - sent))"
  by (auto simp: deserialize_instant_def serialize_instant_def)

end
