(* ===== verification/Host_Capabilities.thy ===== *)
theory Host_Capabilities
  imports Rust_Strings
begin

text \<open>
  The allow list of host capabilities a policy may call
  (\<^verbatim>\<open>policy-evaluator/src/host_capabilities.rs\<close>): the tree of known operations, the
  validation of patterns against it, the parser of allow lists, and the check
  \<open>is_allowed\<close> that guards every host callback.
\<close>

section \<open>The tree of known capabilities\<close>

text \<open>A child is a leaf (\<^term>\<open>None\<close>) or an inner node; children are in the order of the
  \<^verbatim>\<open>BTreeMap\<close>'s keys.\<close>

datatype CapabilityNode = CapabilityNode "(string \<times> CapabilityNode option) list"

definition CAPABILITY_TREE :: CapabilityNode where
  "CAPABILITY_TREE = CapabilityNode
     [(''crypto'', Some (CapabilityNode
        [(''v1'', Some (CapabilityNode [(''is_certificate_trusted'', None)]))])),
      (''kubernetes'', Some (CapabilityNode
        [(''can_i'', None), (''get_resource'', None), (''list_resources_all'', None),
         (''list_resources_by_namespace'', None)])),
      (''net'', Some (CapabilityNode
        [(''v1'', Some (CapabilityNode [(''dns_lookup_host'', None)]))])),
      (''oci'', Some (CapabilityNode
        [(''v1'', Some (CapabilityNode
           [(''manifest_digest'', None), (''oci_manifest'', None),
            (''oci_manifest_config'', None), (''verify'', None)])),
         (''v2'', Some (CapabilityNode [(''verify'', None)]))]))]"

datatype HostCapabilitiesPatternError =
    InvalidWildcard string
  | EmptyPattern
  | UnknownSegment (us_pattern: string) (us_segment: string) (us_valid_options: string)
  | IncompleteCapabilityPath (ic_pattern: string) (ic_suggestion: string)

text \<open>\<open>dbg\<close> prints a string the way \<^verbatim>\<open>{:?}\<close> does.\<close>

fun HostCapabilitiesPatternError_to_string ::
  "(string \<Rightarrow> string) \<Rightarrow> HostCapabilitiesPatternError \<Rightarrow> string" where
  "HostCapabilitiesPatternError_to_string dbg (InvalidWildcard pattern) =
     ''invalid pattern '' @ dbg pattern @ '': wildcard '' @ [CHR 39] @ ''*'' @ [CHR 39] @
     '' must be the entire last path segment (e.g. '' @ [CHR 39] @ ''oci/*'' @ [CHR 39] @
     ''), not a partial match''"
| "HostCapabilitiesPatternError_to_string dbg EmptyPattern =
     ''invalid pattern: pattern must not be empty''"
| "HostCapabilitiesPatternError_to_string dbg (UnknownSegment pattern segment valid_options) =
     ''invalid pattern '' @ dbg pattern @ '': unknown segment '' @ dbg segment @
     '', valid options at this level are: '' @ valid_options"
| "HostCapabilitiesPatternError_to_string dbg (IncompleteCapabilityPath pattern suggestion) =
     ''invalid pattern '' @ dbg pattern @ '': not a complete capability path; use '' @ dbg suggestion @
     '' to allow all capabilities under it''"

section \<open>Validation of a pattern\<close>

fun validate_parts ::
  "string \<Rightarrow> CapabilityNode \<Rightarrow> string list \<Rightarrow> HostCapabilitiesPatternError + unit" where
  "validate_parts pattern node [] = Ok ()"
| "validate_parts pattern (CapabilityNode children) (part # rest) =
     (if part = ''*'' then Ok ()
      else (case map_of children part of
              None \<Rightarrow> Err (UnknownSegment pattern part (join_str '', '' (map fst children)))
            | Some None \<Rightarrow>
                (if rest \<noteq> [] then Err (UnknownSegment pattern (hd rest) [])
                 else Ok ())
            | Some (Some child) \<Rightarrow>
                (if rest = [] then
                   Err (IncompleteCapabilityPath pattern (pattern @ ''/*''))
                 else validate_parts pattern child rest)))"

definition validate_against_tree :: "string \<Rightarrow> HostCapabilitiesPatternError + unit" where
  "validate_against_tree pattern =
     validate_parts pattern CAPABILITY_TREE (split_on (CHR ''/'') pattern)"

section \<open>The allow list\<close>

datatype HostCapabilities =
    DenyAll
  | AllowAll
  | Patterns (hc_prefixes: "string set") (hc_exact: "string set")

text \<open>Walking the tree: every leaf with its path.\<close>

function (sequential) walk_leaves :: "string list \<Rightarrow> CapabilityNode \<Rightarrow> string list list" where
  "walk_leaves path (CapabilityNode []) = []"
| "walk_leaves path (CapabilityNode ((segment, None) # rest)) =
     (path @ [segment]) # walk_leaves path (CapabilityNode rest)"
| "walk_leaves path (CapabilityNode ((segment, Some inner) # rest)) =
     walk_leaves (path @ [segment]) inner @ walk_leaves path (CapabilityNode rest)"
  by pat_completeness auto
termination
  by (relation "measure (\<lambda>(p, n). size n)") auto

definition enumerate_operations :: "(string \<times> string) list" where
  "enumerate_operations =
     sort_key (\<lambda>(n, opn). [n, opn])
       (map (\<lambda>path. (hd path, join_on (CHR ''/'') (tl path))) (walk_leaves [] CAPABILITY_TREE))"

fun host_capabilities_loop ::
  "string set \<Rightarrow> string set \<Rightarrow> string list \<Rightarrow> HostCapabilitiesPatternError + HostCapabilities" where
  "host_capabilities_loop prefs exact [] =
     (if prefs = {} \<and> exact = {} then Ok DenyAll else Ok (Patterns prefs exact))"
| "host_capabilities_loop prefs exact (pattern # patterns) =
     (let trimmed = trim pattern in
      if trimmed = [] then Err EmptyPattern
      else if trimmed = ''*'' then Ok AllowAll
      else if CHR ''*'' \<in> set trimmed \<and> \<not> suffix ''/*'' trimmed then Err (InvalidWildcard pattern)
      else try_then (validate_against_tree trimmed) (\<lambda>_.
        (case strip_suffix ''*'' trimmed of
           Some pre \<Rightarrow> host_capabilities_loop (insert pre prefs) exact patterns
         | None \<Rightarrow> host_capabilities_loop prefs (insert trimmed exact) patterns)))"

definition HostCapabilities_new :: "string list \<Rightarrow> HostCapabilitiesPatternError + HostCapabilities" where
  "HostCapabilities_new patterns = host_capabilities_loop {} {} patterns"

fun is_allowed :: "HostCapabilities \<Rightarrow> string \<Rightarrow> bool" where
  "is_allowed AllowAll capability_path = True"
| "is_allowed DenyAll capability_path = False"
| "is_allowed (Patterns prefs exact) capability_path =
     (capability_path \<in> exact \<or> (\<exists>p\<in>prefs. prefix p capability_path))"

text \<open>The patterns of an allow list, prefixes first, each group in the set's order.\<close>

fun HostCapabilities_into :: "HostCapabilities \<Rightarrow> string list" where
  "HostCapabilities_into AllowAll = [''*'']"
| "HostCapabilities_into DenyAll = []"
| "HostCapabilities_into (Patterns prefs exact) =
     map (\<lambda>p. p @ ''*'') (sorted_list_of_set prefs) @ sorted_list_of_set exact"

definition HostCapabilities_to_string :: "HostCapabilities \<Rightarrow> string" where
  "HostCapabilities_to_string caps =
     (case caps of AllowAll \<Rightarrow> ''[*]'' | DenyAll \<Rightarrow> ''[]''
      | Patterns prefs exact \<Rightarrow>
          ''['' @ join_str '', '' (HostCapabilities_into (Patterns prefs exact)) @ '']'')"

section \<open>What the validation accepts\<close>

text \<open>The specification: a path that leads from the root to a leaf.\<close>

fun leaf_at :: "CapabilityNode \<Rightarrow> string list \<Rightarrow> bool" where
  "leaf_at node [] = False"
| "leaf_at (CapabilityNode children) (p # ps) =
     (case map_of children p of
        None \<Rightarrow> False
      | Some None \<Rightarrow> ps = []
      | Some (Some child) \<Rightarrow> leaf_at child ps)"

function (sequential) distinct_keys :: "CapabilityNode \<Rightarrow> bool" where
  "distinct_keys (CapabilityNode []) = True"
| "distinct_keys (CapabilityNode ((k, c) # rest)) =
     (k \<notin> fst ` set rest \<and> (case c of None \<Rightarrow> True | Some inner \<Rightarrow> distinct_keys inner) \<and>
      distinct_keys (CapabilityNode rest))"
  by pat_completeness auto
termination
  by (relation "measure size") auto

lemma leaf_at_empty [simp]: "\<not> leaf_at (CapabilityNode []) q"
  by (cases q) auto

lemma leaf_at_Cons:
  "k \<notin> fst ` set rest \<Longrightarrow>
   leaf_at (CapabilityNode ((k, c) # rest)) q \<longleftrightarrow>
     (\<exists>q'. q = k # q' \<and> (case c of None \<Rightarrow> q' = [] | Some inner \<Rightarrow> leaf_at inner q')) \<or>
     leaf_at (CapabilityNode rest) q"
proof (cases q)
  case (Cons p ps)
  assume "k \<notin> fst ` set rest"
  then have "map_of rest k = None" by (simp add: map_of_eq_None_iff)
  with Cons show ?thesis by (auto split: option.splits)
qed simp

lemma walk_leaves_leaf_at:
  "distinct_keys node \<Longrightarrow>
     x \<in> set (walk_leaves path node) \<longleftrightarrow> (\<exists>q. x = path @ q \<and> leaf_at node q)"
proof (induction path node rule: walk_leaves.induct)
  case (2 path segment rest)
  then show ?case by (auto simp: leaf_at_Cons)
next
  case (3 path segment inner rest)
  then show ?case by (auto simp: leaf_at_Cons)
qed simp

lemma validate_parts_Ok_iff:
  "''*'' \<notin> set parts \<Longrightarrow> parts \<noteq> [] \<Longrightarrow>
     validate_parts pattern node parts = Ok () \<longleftrightarrow> leaf_at node parts"
proof (induction parts arbitrary: node)
  case (Cons p ps)
  obtain children where node: "node = CapabilityNode children" by (cases node)
  show ?case
    using Cons node by (cases ps) (auto split: option.splits)
qed simp

lemma CAPABILITY_TREE_distinct: "distinct_keys CAPABILITY_TREE"
  by (simp add: CAPABILITY_TREE_def)

lemma CAPABILITY_TREE_leaves:
  "walk_leaves [] CAPABILITY_TREE =
     [[''crypto'', ''v1'', ''is_certificate_trusted''],
      [''kubernetes'', ''can_i''], [''kubernetes'', ''get_resource''],
      [''kubernetes'', ''list_resources_all''], [''kubernetes'', ''list_resources_by_namespace''],
      [''net'', ''v1'', ''dns_lookup_host''],
      [''oci'', ''v1'', ''manifest_digest''], [''oci'', ''v1'', ''oci_manifest''],
      [''oci'', ''v1'', ''oci_manifest_config''], [''oci'', ''v1'', ''verify''],
      [''oci'', ''v2'', ''verify'']]"
  by (simp add: CAPABILITY_TREE_def)

definition known_capability :: "string \<Rightarrow> bool" where
  "known_capability path \<longleftrightarrow> (\<exists>(n, opn) \<in> set enumerate_operations. path = n @ ''/'' @ opn)"

lemma leaf_shape:
  "l \<in> set (walk_leaves [] CAPABILITY_TREE) \<Longrightarrow>
     l \<noteq> [] \<and> tl l \<noteq> [] \<and> (\<forall>p\<in>set l. CHR ''/'' \<notin> set p)"
proof -
  have "list_all (\<lambda>l. l \<noteq> [] \<and> tl l \<noteq> [] \<and> (\<forall>p\<in>set l. CHR ''/'' \<notin> set p))
          (walk_leaves [] CAPABILITY_TREE)"
    unfolding CAPABILITY_TREE_leaves by simp
  then show "l \<in> set (walk_leaves [] CAPABILITY_TREE) \<Longrightarrow> ?thesis"
    by (simp add: list_all_iff)
qed

lemma leaf_segments:
  assumes "l \<in> set (walk_leaves [] CAPABILITY_TREE)"
  shows "split_on (CHR ''/'') (hd l @ ''/'' @ join_on (CHR ''/'') (tl l)) = l"
proof -
  have "hd l @ ''/'' @ join_on (CHR ''/'') (tl l) = join_on (CHR ''/'') l"
    using leaf_shape [OF assms] join_on_Cons [of "tl l" "CHR ''/''" "hd l"] by simp
  with leaf_shape [OF assms] show ?thesis by (simp add: split_join_on)
qed

lemma known_capability_iff_leaf:
  "known_capability path \<longleftrightarrow> leaf_at CAPABILITY_TREE (split_on (CHR ''/'') path)"
proof -
  have "known_capability path \<longleftrightarrow>
      (\<exists>l \<in> set (walk_leaves [] CAPABILITY_TREE).
         path = hd l @ ''/'' @ join_on (CHR ''/'') (tl l))"
    by (auto simp: known_capability_def enumerate_operations_def)
  also have "\<dots> \<longleftrightarrow> split_on (CHR ''/'') path \<in> set (walk_leaves [] CAPABILITY_TREE)"
    by (metis leaf_segments split_on_inject)
  also have "\<dots> \<longleftrightarrow> leaf_at CAPABILITY_TREE (split_on (CHR ''/'') path)"
    by (simp add: walk_leaves_leaf_at [OF CAPABILITY_TREE_distinct])
  finally show ?thesis .
qed

lemma star_segment: "CHR ''*'' \<notin> set s \<Longrightarrow> ''*'' \<notin> set (split_on (CHR ''/'') s)"
  using set_split_on [of "''*''" "CHR ''/''" s] by auto

lemma validate_exact_iff_known:
  "CHR ''*'' \<notin> set s \<Longrightarrow> validate_against_tree s = Ok () \<longleftrightarrow> known_capability s"
  by (simp add: validate_against_tree_def validate_parts_Ok_iff star_segment
      known_capability_iff_leaf)

section \<open>The meaning of an allow list\<close>

definition pattern_matches :: "string \<Rightarrow> string \<Rightarrow> bool" where
  "pattern_matches pattern path \<longleftrightarrow>
     (case strip_suffix ''*'' pattern of Some pre \<Rightarrow> prefix pre path | None \<Rightarrow> path = pattern)"

lemma pattern_matches_star [simp]: "pattern_matches ''*'' path"
  by (simp add: pattern_matches_def strip_suffix_def)

lemma host_capabilities_loop_allowed:
  "host_capabilities_loop P E ps = Ok caps \<Longrightarrow>
     is_allowed caps path \<longleftrightarrow>
       path \<in> E \<or> (\<exists>p\<in>P. prefix p path) \<or> (\<exists>q\<in>set ps. pattern_matches (trim q) path)"
proof (induction ps arbitrary: P E)
  case (Cons q ps)
  show ?case
  proof (cases "trim q = ''*''")
    case True
    with Cons.prems show ?thesis by (auto simp: Let_def)
  next
    case False
    with Cons.prems have "trim q \<noteq> []" "validate_against_tree (trim q) = Ok ()"
      by (auto simp: Let_def result_simps split: if_splits)
    with False Cons show ?thesis
      by (cases "strip_suffix ''*'' (trim q)")
        (auto simp: Let_def pattern_matches_def split: if_splits)
  qed
qed (auto split: if_splits)

lemma host_capabilities_loop_validated:
  "host_capabilities_loop P E ps = Ok caps \<Longrightarrow> caps \<noteq> AllowAll \<Longrightarrow> q \<in> set ps \<Longrightarrow>
     trim q \<noteq> [] \<and> trim q \<noteq> ''*'' \<and> validate_against_tree (trim q) = Ok () \<and>
     (CHR ''*'' \<in> set (trim q) \<longrightarrow> suffix ''/*'' (trim q))"
  by (induction ps arbitrary: P E)
    (auto simp: Let_def result_simps split: if_splits option.splits)

section \<open>Accepted patterns name something\<close>

text \<open>No inner node of the tree is empty.\<close>

function (sequential) no_empty_node :: "CapabilityNode \<Rightarrow> bool" where
  "no_empty_node (CapabilityNode []) = False"
| "no_empty_node (CapabilityNode [(k, c)]) =
     (case c of None \<Rightarrow> True | Some inner \<Rightarrow> no_empty_node inner)"
| "no_empty_node (CapabilityNode ((k, c) # rest)) =
     ((case c of None \<Rightarrow> True | Some inner \<Rightarrow> no_empty_node inner) \<and>
      no_empty_node (CapabilityNode rest))"
  by pat_completeness auto
termination
  by (relation "measure size") auto

lemma CAPABILITY_TREE_no_empty_node: "no_empty_node CAPABILITY_TREE"
  by (simp add: CAPABILITY_TREE_def)

lemma no_empty_node_child:
  "no_empty_node (CapabilityNode cs) \<Longrightarrow> map_of cs k = Some (Some child) \<Longrightarrow> no_empty_node child"
proof (induction cs)
  case (Cons kc cs)
  then show ?case by (cases kc; cases cs) (auto split: if_splits option.splits)
qed simp

lemma no_empty_node_has_leaf: "no_empty_node node \<Longrightarrow> \<exists>q. leaf_at node q"
proof (induction node rule: measure_induct_rule [of size])
  case (less node)
  obtain cs where node: "node = CapabilityNode cs" by (cases node)
  with less.prems obtain k c rest where cs: "cs = (k, c) # rest"
    by (cases cs) auto
  show ?case
  proof (cases c)
    case None
    then have "leaf_at node [k]" by (simp add: node cs)
    then show ?thesis ..
  next
    case (Some inner)
    then have "no_empty_node inner"
      using less.prems no_empty_node_child [of cs k inner] by (simp add: node cs)
    moreover have "size inner < size node" by (simp add: node cs Some)
    ultimately obtain q where "leaf_at inner q" using less.IH by blast
    then have "leaf_at node (k # q)" by (simp add: node cs Some)
    then show ?thesis ..
  qed
qed

lemma validate_parts_wildcard:
  "no_empty_node node \<Longrightarrow> ''*'' \<notin> set segs \<Longrightarrow>
   validate_parts pattern node (segs @ [''*'']) = Ok () \<Longrightarrow> \<exists>q. q \<noteq> [] \<and> leaf_at node (segs @ q)"
proof (induction segs arbitrary: node)
  case Nil
  then obtain q where "leaf_at node q" using no_empty_node_has_leaf by blast
  then show ?case by (cases q) auto
next
  case (Cons s segs)
  obtain cs where node: "node = CapabilityNode cs" by (cases node)
  with Cons.prems obtain child where child: "map_of cs s = Some (Some child)"
    and ok: "validate_parts pattern child (segs @ [''*'']) = Ok ()"
    by (auto split: option.splits if_splits)
  have "no_empty_node child" using Cons.prems(1) child node no_empty_node_child by simp
  with Cons.IH [OF this _ ok] Cons.prems(2) show ?case by (simp add: node child)
qed

lemma split_on_wildcard:
  assumes "suffix ''/*'' s"
  shows "\<exists>pre. s = pre @ ''/*'' \<and> split_on (CHR ''/'') s = split_on (CHR ''/'') pre @ [''*'']"
proof -
  have "split_on (CHR ''/'') (pre @ ''/*'') = split_on (CHR ''/'') pre @ [''*'']" for pre
  proof (induction pre)
    case (Cons x pre)
    have "hd (split_on (CHR ''/'') pre @ [''*'']) = hd (split_on (CHR ''/'') pre)"
      "tl (split_on (CHR ''/'') pre @ [''*'']) = tl (split_on (CHR ''/'') pre) @ [''*'']"
      by (simp_all add: tl_append2)
    with Cons show ?case by (auto simp del: hd_append2 tl_append2)
  qed simp
  with assms show ?thesis by (auto simp: suffix_def)
qed

lemma join_on_append:
  "xs \<noteq> [] \<Longrightarrow> ys \<noteq> [] \<Longrightarrow> join_on c (xs @ ys) = join_on c xs @ c # join_on c ys"
proof (induction xs)
  case (Cons x xs)
  then show ?case by (cases "xs = []") (simp_all add: join_on_Cons)
qed simp

lemma wildcard_covers_known:
  assumes "suffix ''/*'' s" "count_list s (CHR ''*'') \<le> 1" "validate_against_tree s = Ok ()"
  shows "\<exists>path. known_capability path \<and> pattern_matches s path"
proof -
  let ?c = "CHR ''/''"
  from split_on_wildcard [OF assms(1)] obtain pre where
    pre: "s = pre @ ''/*''" "split_on ?c s = split_on ?c pre @ [''*'']" by blast
  have "CHR ''*'' \<notin> set pre" using assms(2) by (simp add: pre(1) count_list_0_iff)
  then have "''*'' \<notin> set (split_on ?c pre)" by (rule star_segment)
  with assms(3) pre(2) obtain q where
    q: "q \<noteq> []" "leaf_at CAPABILITY_TREE (split_on ?c pre @ q)"
    using validate_parts_wildcard [OF CAPABILITY_TREE_no_empty_node, of "split_on ?c pre" s]
    by (auto simp: validate_against_tree_def)
  let ?l = "split_on ?c pre @ q"
  have "?l \<in> set (walk_leaves [] CAPABILITY_TREE)"
    using q(2) by (simp add: walk_leaves_leaf_at [OF CAPABILITY_TREE_distinct])
  then have "split_on ?c (join_on ?c ?l) = ?l" using leaf_shape by (intro split_join_on) auto
  then have known: "known_capability (join_on ?c ?l)"
    using q(2) by (simp add: known_capability_iff_leaf)
  have "join_on ?c ?l = (pre @ ''/'') @ join_on ?c q"
    using q(1) by (simp add: join_on_append)
  moreover have "strip_suffix ''*'' s = Some (pre @ ''/'')"
    by (simp add: strip_suffix_Some_iff pre(1))
  ultimately have "pattern_matches s (join_on ?c ?l)"
    by (simp add: pattern_matches_def)
  with known show ?thesis by blast
qed

section \<open>Printing an allow list and reading it back\<close>

definition accepted_pattern :: "string \<Rightarrow> bool" where
  "accepted_pattern s \<longleftrightarrow>
     trim s = s \<and> s \<noteq> [] \<and> s \<noteq> ''*'' \<and> (CHR ''*'' \<in> set s \<longrightarrow> suffix ''/*'' s) \<and>
     validate_against_tree s = Ok ()"

fun wf_capabilities :: "HostCapabilities \<Rightarrow> bool" where
  "wf_capabilities (Patterns P E) \<longleftrightarrow>
     finite P \<and> finite E \<and> (P \<noteq> {} \<or> E \<noteq> {}) \<and>
     (\<forall>p\<in>P. accepted_pattern (p @ ''*'')) \<and>
     (\<forall>e\<in>E. accepted_pattern e \<and> CHR ''*'' \<notin> set e)"
| "wf_capabilities _ = True"

lemma suffix_star: "suffix ''/*'' s \<Longrightarrow> suffix ''*'' s"
  by (auto simp: suffix_def)

lemma host_capabilities_loop_wf:
  assumes "host_capabilities_loop P E ps = Ok caps" "finite P" "finite E"
    and "\<forall>p\<in>P. accepted_pattern (p @ ''*'')"
    and "\<forall>e\<in>E. accepted_pattern e \<and> CHR ''*'' \<notin> set e"
  shows "wf_capabilities caps"
  using assms
proof (induction ps arbitrary: P E)
  case (Cons q ps)
  show ?case
  proof (cases "trim q = ''*''")
    case True
    with Cons.prems(1) show ?thesis by (auto simp: Let_def)
  next
    case False
    with Cons.prems(1) have acc: "accepted_pattern (trim q)"
      by (auto simp: Let_def result_simps accepted_pattern_def split: if_splits)
    show ?thesis
    proof (cases "strip_suffix ''*'' (trim q)")
      case None
      then have "CHR ''*'' \<notin> set (trim q)"
        using acc suffix_star by (auto simp: accepted_pattern_def strip_suffix_None_iff)
      with None acc False Cons show ?thesis
        by (auto simp: Let_def accepted_pattern_def split: if_splits)
    next
      case (Some pre)
      then have "trim q = pre @ ''*''" by (simp add: strip_suffix_Some_iff)
      with Some acc False Cons show ?thesis
        by (auto simp: Let_def accepted_pattern_def split: if_splits)
    qed
  qed
qed (auto split: if_splits)

lemma host_capabilities_loop_prefixes:
  "\<forall>p\<in>set ps. accepted_pattern (p @ ''*'') \<Longrightarrow>
   host_capabilities_loop P E (map (\<lambda>p. p @ ''*'') ps @ rest) =
     host_capabilities_loop (P \<union> set ps) E rest"
proof (induction ps arbitrary: P)
  case (Cons p ps)
  have "strip_suffix ''*'' (p @ ''*'') = Some p" by (simp add: strip_suffix_Some_iff)
  with Cons show ?case by (simp add: Let_def accepted_pattern_def insert_commute)
qed simp

lemma host_capabilities_loop_exact:
  "\<forall>e\<in>set es. accepted_pattern e \<and> CHR ''*'' \<notin> set e \<Longrightarrow>
   host_capabilities_loop P E es =
     (if P = {} \<and> E \<union> set es = {} then Ok DenyAll else Ok (Patterns P (E \<union> set es)))"
proof (induction es arbitrary: E)
  case (Cons e es)
  then have "strip_suffix ''*'' e = None"
    by (auto simp: strip_suffix_None_iff suffix_def)
  with Cons show ?case by (auto simp: Let_def accepted_pattern_def)
qed simp

lemma HostCapabilities_into_new:
  "wf_capabilities caps \<Longrightarrow> HostCapabilities_new (HostCapabilities_into caps) = Ok caps"
proof (cases caps)
  case AllowAll
  have "trim ''*'' = ''*''" by code_simp
  with AllowAll show ?thesis by (simp add: HostCapabilities_new_def)
next
  case (Patterns P E)
  moreover assume "wf_capabilities caps"
  ultimately show ?thesis
    by (simp add: HostCapabilities_new_def host_capabilities_loop_prefixes
        host_capabilities_loop_exact)
qed (simp add: HostCapabilities_new_def)

lemma HostCapabilities_new_wf: "HostCapabilities_new ps = Ok caps \<Longrightarrow> wf_capabilities caps"
  using host_capabilities_loop_wf [of "{}" "{}" ps caps] by (simp add: HostCapabilities_new_def)

section \<open>Properties\<close>

text \<open>
  C16: an allow list means what its patterns say.  A list that parses lets a capability
  through exactly if one of its patterns, trimmed, is the capability's path, is \<^verbatim>\<open>*\<close>, or
  ends in a wildcard whose prefix the path has.
\<close>

theorem allow_list_semantics:
  assumes "HostCapabilities_new ps = Ok caps"
  shows "is_allowed caps path \<longleftrightarrow> (\<exists>q\<in>set ps. pattern_matches (trim q) path)"
  using host_capabilities_loop_allowed [of "{}" "{}" ps caps path] assms
  by (simp add: HostCapabilities_new_def)

theorem allow_list_semantics_witness:
  "HostCapabilities_new ['' oci/v1/* ''] = Ok (Patterns {''oci/v1/''} {}) \<and>
   (is_allowed (Patterns {''oci/v1/''} {}) ''oci/v1/verify'' \<longleftrightarrow>
     (\<exists>q\<in>set ['' oci/v1/* '']. pattern_matches (trim q) ''oci/v1/verify''))"
proof -
  have run: "HostCapabilities_new ['' oci/v1/* ''] = Ok (Patterns {''oci/v1/''} {})"
    by code_simp
  show ?thesis using run allow_list_semantics [OF run, of "''oci/v1/verify''"] by blast
qed

text \<open>
  An accepted pattern is never dead.  In a list that does not contain \<^verbatim>\<open>*\<close>, every
  pattern with at most one wildcard character matches an operation of the capability
  tree; so a pattern without a wildcard is exactly one of the known operations.
\<close>

theorem accepted_patterns_match_known:
  assumes "HostCapabilities_new ps = Ok caps" and "caps \<noteq> AllowAll"
    and "q \<in> set ps" and "count_list (trim q) (CHR ''*'') \<le> 1"
  shows "\<exists>path. known_capability path \<and> is_allowed caps path \<and> pattern_matches (trim q) path \<and>
           (CHR ''*'' \<notin> set (trim q) \<longrightarrow> path = trim q)"
proof -
  have loop: "host_capabilities_loop {} {} ps = Ok caps"
    using assms(1) by (simp add: HostCapabilities_new_def)
  note val = host_capabilities_loop_validated [OF loop assms(2,3)]
  have allowed: "is_allowed caps path" if "pattern_matches (trim q) path" for path
    using host_capabilities_loop_allowed [OF loop, of path] assms(3) that by auto
  show ?thesis
  proof (cases "CHR ''*'' \<in> set (trim q)")
    case True
    with val wildcard_covers_known [OF _ assms(4)] allowed show ?thesis by blast
  next
    case False
    then have "strip_suffix ''*'' (trim q) = None"
      by (auto simp: strip_suffix_None_iff suffix_def)
    then have "pattern_matches (trim q) (trim q)" by (simp add: pattern_matches_def)
    with False val allowed validate_exact_iff_known [of "trim q"] show ?thesis by auto
  qed
qed

theorem accepted_patterns_match_known_witness:
  "\<exists>path. known_capability path \<and> is_allowed (Patterns {} {''oci/v2/verify''}) path \<and>
     pattern_matches (trim ''oci/v2/verify'') path \<and>
     (CHR ''*'' \<notin> set (trim ''oci/v2/verify'') \<longrightarrow> path = trim ''oci/v2/verify'')"
proof -
  have run: "HostCapabilities_new [''oci/v2/verify''] = Ok (Patterns {} {''oci/v2/verify''})"
    by code_simp
  have one: "count_list (trim ''oci/v2/verify'') (CHR ''*'') \<le> 1" by code_simp
  show ?thesis
    by (rule accepted_patterns_match_known [OF run _ _ one]) simp_all
qed

text \<open>
  C33: an allow list survives being written out and read back: the list of patterns made
  from a parsed allow list parses to the same allow list.
\<close>

theorem allow_list_roundtrip:
  assumes "HostCapabilities_new ps = Ok caps"
  shows "HostCapabilities_new (HostCapabilities_into caps) = Ok caps"
  by (rule HostCapabilities_into_new [OF HostCapabilities_new_wf [OF assms]])

theorem allow_list_roundtrip_witness:
  "HostCapabilities_new [''net/*'', ''oci/v2/verify''] = Ok (Patterns {''net/''} {''oci/v2/verify''}) \<and>
   HostCapabilities_new (HostCapabilities_into (Patterns {''net/''} {''oci/v2/verify''})) =
     Ok (Patterns {''net/''} {''oci/v2/verify''})"
proof -
  have run: "HostCapabilities_new [''net/*'', ''oci/v2/verify''] =
      Ok (Patterns {''net/''} {''oci/v2/verify''})"
    by code_simp
  show ?thesis using run allow_list_roundtrip [OF run] by blast
qed

text \<open>
  The two gaps of the validation.  A pattern with a wildcard inside is accepted with
  unknown segments behind it, although the comments promise that unknown segments are
  rejected and that the wildcard is the last segment, and it grants nothing; and a list is
  no longer validated after \<^verbatim>\<open>*\<close>, so that the order of two patterns decides whether the
  list is accepted.
\<close>

theorem pattern_validation_gaps:
  "HostCapabilities_new [''oci/*/bogus/*''] = Ok (Patterns {''oci/*/bogus/''} {}) \<and>
   list_all (\<lambda>(n, opn). \<not> is_allowed (Patterns {''oci/*/bogus/''} {}) (n @ ''/'' @ opn))
     enumerate_operations \<and>
   HostCapabilities_new [''*'', ''bogus''] = Ok AllowAll \<and>
   \<not> is_ok (HostCapabilities_new [''bogus'', ''*''])"
proof (intro conjI)
  show "HostCapabilities_new [''oci/*/bogus/*''] = Ok (Patterns {''oci/*/bogus/''} {})"
    by code_simp
  have "list_all (\<lambda>l. \<not> is_allowed (Patterns {''oci/*/bogus/''} {})
          (hd l @ ''/'' @ join_on (CHR ''/'') (tl l))) (walk_leaves [] CAPABILITY_TREE)"
    unfolding CAPABILITY_TREE_leaves by simp
  then show "list_all (\<lambda>(n, opn). \<not> is_allowed (Patterns {''oci/*/bogus/''} {}) (n @ ''/'' @ opn))
     enumerate_operations"
    by (simp add: enumerate_operations_def list_all_iff)
  show "HostCapabilities_new [''*'', ''bogus''] = Ok AllowAll" by code_simp
  show "\<not> is_ok (HostCapabilities_new [''bogus'', ''*''])" by code_simp
qed

end
