(* ===== verification/Evaluation_Context.thy ===== *)
theory Evaluation_Context
  imports Callback_Requests Host_Capabilities
begin

text \<open>
  What a policy may do while it runs (\<^verbatim>\<open>policy-evaluator/src/evaluation_context.rs\<close>): its
  identifier, the channel to the callback handler, the Kubernetes resources and host
  capabilities it was granted, and its deadline.  The type \<open>'ch\<close> stands for the sending
  half of the channel.
\<close>

datatype ContextAwareResource =
  ContextAwareResource (car_api_version: string) (car_kind: string)

text \<open>The derived order: by API version, then by kind.  It is the iteration order of the
  \<^verbatim>\<open>BTreeSet\<close>s and \<^verbatim>\<open>BTreeMap\<close>s of resources.\<close>

instantiation ContextAwareResource :: linorder
begin

definition less_eq_ContextAwareResource :: "ContextAwareResource \<Rightarrow> ContextAwareResource \<Rightarrow> bool" where
  "less_eq_ContextAwareResource r s \<longleftrightarrow>
     car_api_version r < car_api_version s \<or>
     car_api_version r = car_api_version s \<and> car_kind r \<le> car_kind s"

definition less_ContextAwareResource :: "ContextAwareResource \<Rightarrow> ContextAwareResource \<Rightarrow> bool" where
  "less_ContextAwareResource r s \<longleftrightarrow> r \<le> s \<and> \<not> s \<le> (r :: ContextAwareResource)"

instance
proof
  fix x y z :: ContextAwareResource
  show "x < y \<longleftrightarrow> x \<le> y \<and> \<not> y \<le> x" by (simp add: less_ContextAwareResource_def)
  show "x \<le> x" by (simp add: less_eq_ContextAwareResource_def)
  show "x \<le> y \<Longrightarrow> y \<le> z \<Longrightarrow> x \<le> z"
    by (auto simp: less_eq_ContextAwareResource_def)
  show "x \<le> y \<Longrightarrow> y \<le> x \<Longrightarrow> x = y"
    by (cases x; cases y) (auto simp: less_eq_ContextAwareResource_def)
  show "x \<le> y \<or> y \<le> x"
    by (auto simp: less_eq_ContextAwareResource_def)
qed

end

record 'ch EvaluationContext =
  ec_policy_id :: string
  ec_callback_channel :: "'ch option"
  ec_ctx_aware_resources_allow_list :: "ContextAwareResource set"
  ec_epoch_deadline :: "64 word option"
  ec_host_capabilities :: HostCapabilities

definition can_access_kubernetes_resource ::
  "'ch EvaluationContext \<Rightarrow> string \<Rightarrow> string \<Rightarrow> bool" where
  "can_access_kubernetes_resource ctx api_version kind \<longleftrightarrow>
     ContextAwareResource api_version kind \<in> ec_ctx_aware_resources_allow_list ctx"

definition can_access_host_capability :: "'ch EvaluationContext \<Rightarrow> string \<Rightarrow> bool" where
  "can_access_host_capability ctx capability_path =
     is_allowed (ec_host_capabilities ctx) capability_path"

end
