(* ===== verification/Callback_Gate.thy ===== *)
theory Callback_Gate
  imports Evaluation_Context
begin

text \<open>
  The entry points through which a running policy reaches the host
  (\<^verbatim>\<open>policy-evaluator/src/runtimes/callback.rs\<close>): the authorization checks, the dispatch of
  \<^verbatim>\<open>{namespace}/{operation}\<close> calls, and the exchange over the callback channel.  A call
  returns its result together with the trace of its effects: payloads decoded, messages
  logged, requests put on the channel.  The JSON decoders and the channel are parameters.
\<close>

section \<open>Effects\<close>

datatype callback_event =
    EvLog bytes
  | EvDecode bytes
  | EvSend CallbackRequestType

type_synonym 'a call = "(string, 'a, callback_event) traced"

section \<open>Messages\<close>

definition unknown_operation :: "string \<Rightarrow> string + bytes" where
  "unknown_operation operation = Err (''unknown operation: '' @ operation)"

definition unknown_namespace :: "string \<Rightarrow> string + bytes" where
  "unknown_namespace namespace = Err (''unknown namespace: '' @ namespace)"

definition host_capability_denied_message :: "string \<Rightarrow> string" where
  "host_capability_denied_message capability_path =
     ''Policy has not been granted access to the '' @ [CHR 39] @ capability_path @ [CHR 39] @
     '' host capability. The violation has been reported.''"

definition kubernetes_resource_denied_message :: "string \<Rightarrow> string \<Rightarrow> string" where
  "kubernetes_resource_denied_message api_version kind =
     ''Policy has not been granted access to Kubernetes '' @ api_version @ ''/'' @ kind @
     '' resources. The violation has been reported.''"

section \<open>Authorization checks\<close>

definition check_host_capability ::
  "'ch EvaluationContext \<Rightarrow> string \<Rightarrow> string \<Rightarrow> string + unit" where
  "check_host_capability ctx namespace operation =
     (if namespace \<noteq> ''tracing'' then
        (let capability_path = namespace @ ''/'' @ operation in
         if \<not> can_access_host_capability ctx capability_path
         then Err (host_capability_denied_message capability_path)
         else Ok ())
      else Ok ())"

fun requested_resource :: "CallbackRequestType \<Rightarrow> (string \<times> string) option" where
  "requested_resource (KubernetesListResourceNamespace api_version kind _ _ _ _) =
     Some (api_version, kind)"
| "requested_resource (KubernetesListResourceAll api_version kind _ _ _) = Some (api_version, kind)"
| "requested_resource (KubernetesGetResource api_version kind _ _ _ _) = Some (api_version, kind)"
| "requested_resource _ = None"

definition check_kubernetes_resource ::
  "'ch EvaluationContext \<Rightarrow> CallbackRequestType \<Rightarrow> string + unit" where
  "check_kubernetes_resource ctx req =
     (case requested_resource req of
        Some (api_version, kind) \<Rightarrow>
          (if \<not> can_access_kubernetes_resource ctx api_version kind
           then Err (kubernetes_resource_denied_message api_version kind)
           else Ok ())
      | None \<Rightarrow> Ok ())"

definition check_authorization ::
  "'ch EvaluationContext \<Rightarrow> string \<Rightarrow> string \<Rightarrow> CallbackRequestType \<Rightarrow> string + unit" where
  "check_authorization ctx namespace operation req =
     try_then (check_host_capability ctx namespace operation) (\<lambda>_.
     try_then (check_kubernetes_resource ctx req) (\<lambda>_. Ok ()))"

section \<open>The callback channel\<close>

text \<open>What the channel does with a request: \<^verbatim>\<open>try_send\<close> fails, the handler answers with a
  payload or an error, or the answering half is dropped.\<close>

datatype transport_outcome = SendFailed string | Answer "string + bytes" | NoAnswer

definition send_request_and_wait_for_response ::
  "('ch \<Rightarrow> CallbackRequestType \<Rightarrow> transport_outcome) \<Rightarrow> 'ch EvaluationContext \<Rightarrow>
   CallbackRequestType \<Rightarrow> bytes call" where
  "send_request_and_wait_for_response transport ctx req =
     (case ec_callback_channel ctx of
        None \<Rightarrow>
          (Err ''Cannot process Wasm guest request: callback channel not provided'', [])
      | Some c \<Rightarrow>
          (case transport c req of
             SendFailed e \<Rightarrow> Err (''Error sending request over callback channel: '' @ e)
           | Answer (Inr payload) \<Rightarrow> Ok payload
           | Answer (Inl e) \<Rightarrow> Err (''Callback evaluation failure: '' @ e)
           | NoAnswer \<Rightarrow> Err ''Error obtaining response over callback channel'',
           [EvSend req]))"

definition host_callback_typed ::
  "('ch \<Rightarrow> CallbackRequestType \<Rightarrow> transport_outcome) \<Rightarrow> string \<Rightarrow> string \<Rightarrow>
   CallbackRequestType \<Rightarrow> 'ch EvaluationContext \<Rightarrow> bytes call" where
  "host_callback_typed transport namespace operation req ctx =
     traced_then (pure_result (check_authorization ctx namespace operation req)) (\<lambda>_.
       send_request_and_wait_for_response transport ctx req)"

section \<open>Dispatch of an untyped call\<close>

record decoders =
  d_sigstore_v1 :: "bytes \<Rightarrow> string + SigstoreVerificationInputV1"
  d_sigstore_v2 :: "bytes \<Rightarrow> string + SigstoreVerificationInputV2"
  d_string :: "bytes \<Rightarrow> string + string"
  d_certificate :: "bytes \<Rightarrow> string + CertificateVerificationRequest"
  d_list_by_namespace :: "bytes \<Rightarrow> string + ListResourcesByNamespaceRequest"
  d_list_all :: "bytes \<Rightarrow> string + ListAllResourcesRequest"
  d_get_resource :: "bytes \<Rightarrow> string + GetResourceRequest"
  d_can_i :: "bytes \<Rightarrow> string + CanIRequest"

text \<open>The arms of the match on \<^verbatim>\<open>(namespace, operation)\<close> that build a request.\<close>

definition request_decoder ::
  "decoders \<Rightarrow> string \<Rightarrow> string \<Rightarrow> (bytes \<Rightarrow> string + CallbackRequestType) option" where
  "request_decoder d namespace operation =
     map_of
      [((''oci'', ''v1/verify''), \<lambda>p. map_ok from_sigstore_v1 (d_sigstore_v1 d p)),
       ((''oci'', ''v2/verify''), \<lambda>p. map_ok from_sigstore_v2 (d_sigstore_v2 d p)),
       ((''oci'', ''v1/manifest_digest''), \<lambda>p. map_ok OciManifestDigest (d_string d p)),
       ((''oci'', ''v1/oci_manifest''), \<lambda>p. map_ok OciManifest (d_string d p)),
       ((''oci'', ''v1/oci_manifest_config''), \<lambda>p. map_ok OciManifestAndConfig (d_string d p)),
       ((''net'', ''v1/dns_lookup_host''), \<lambda>p. map_ok DNSLookupHost (d_string d p)),
       ((''crypto'', ''v1/is_certificate_trusted''),
          \<lambda>p. map_ok from_certificate_verification (d_certificate d p)),
       ((''kubernetes'', ''list_resources_by_namespace''),
          \<lambda>p. map_ok from_list_by_namespace (d_list_by_namespace d p)),
       ((''kubernetes'', ''list_resources_all''), \<lambda>p. map_ok from_list_all (d_list_all d p)),
       ((''kubernetes'', ''get_resource''), \<lambda>p. map_ok from_get_resource (d_get_resource d p)),
       ((''kubernetes'', ''can_i''), \<lambda>p. map_ok from_can_i (d_can_i d p))]
      (namespace, operation)"

definition host_callback ::
  "decoders \<Rightarrow> ('ch \<Rightarrow> CallbackRequestType \<Rightarrow> transport_outcome) \<Rightarrow>
   string \<Rightarrow> string \<Rightarrow> string \<Rightarrow> bytes \<Rightarrow> 'ch EvaluationContext \<Rightarrow> bytes call" where
  "host_callback d transport binding namespace operation payload ctx =
     (if binding \<noteq> ''kubewarden'' then (Err (''unknown binding: '' @ binding), [])
      else if namespace = ''tracing'' then
        (if operation = ''log'' then (Ok [], [EvLog payload])
         else (unknown_operation operation, []))
      else
        traced_then (pure_result (check_host_capability ctx namespace operation)) (\<lambda>_.
          (case request_decoder d namespace operation of
             Some dec \<Rightarrow>
               traced_then (dec payload, [EvDecode payload]) (\<lambda>req.
                 host_callback_typed transport namespace operation req ctx)
           | None \<Rightarrow>
               (if namespace \<in> {''oci'', ''net'', ''crypto'', ''kubernetes''}
                then (unknown_operation operation, [])
                else (unknown_namespace namespace, [])))))"

section \<open>The contract of a gate\<close>

text \<open>
  A gate answers a query with success exactly if the query is permitted.  Work put behind
  a gate happens only for permitted queries, and not at all for the others.
\<close>

locale authorization_gate =
  fixes gate :: "'q \<Rightarrow> string + unit" and permitted :: "'q \<Rightarrow> bool"
  assumes gate_iff: "gate q = Ok () \<longleftrightarrow> permitted q"
begin

lemma guarded_work:
  "snd (traced_then (pure_result (gate q)) (\<lambda>_. work)) = (if permitted q then snd work else [])"
  using gate_iff [of q] by (cases "gate q") (auto simp: pure_result_def)

lemma guarded_result:
  "permitted q \<Longrightarrow> traced_then (pure_result (gate q)) (\<lambda>_. work) = work"
  using gate_iff [of q] by (cases "gate q") (auto simp: pure_result_def)

lemma refused: "\<not> permitted q \<Longrightarrow> \<exists>e. gate q = Err e"
  using gate_iff [of q] by (cases "gate q") auto

end

interpretation capability_gate:
  authorization_gate "\<lambda>(ctx, namespace, operation). check_host_capability ctx namespace operation"
    "\<lambda>(ctx, namespace, operation). namespace = ''tracing'' \<or>
       is_allowed (ec_host_capabilities ctx) (namespace @ ''/'' @ operation)"
  by unfold_locales (auto simp: check_host_capability_def can_access_host_capability_def Let_def
      split: if_splits)

interpretation resource_gate:
  authorization_gate "\<lambda>(ctx, req). check_kubernetes_resource ctx req"
    "\<lambda>(ctx, req). \<forall>api_version kind. requested_resource req = Some (api_version, kind) \<longrightarrow>
       can_access_kubernetes_resource ctx api_version kind"
  by unfold_locales (auto simp: check_kubernetes_resource_def split: option.splits if_splits)

interpretation full_gate:
  authorization_gate
    "\<lambda>(ctx, namespace, operation, req). check_authorization ctx namespace operation req"
    "\<lambda>(ctx, namespace, operation, req).
       (namespace = ''tracing'' \<or> is_allowed (ec_host_capabilities ctx) (namespace @ ''/'' @ operation)) \<and>
       (\<forall>api_version kind. requested_resource req = Some (api_version, kind) \<longrightarrow>
          can_access_kubernetes_resource ctx api_version kind)"
proof unfold_locales
  fix q :: "'a EvaluationContext \<times> string \<times> string \<times> CallbackRequestType"
  obtain ctx n opn req where q: "q = (ctx, n, opn, req)" by (cases q)
  show "(case q of (ctx, n, opn, req) \<Rightarrow> check_authorization ctx n opn req) = Ok () \<longleftrightarrow>
    (case q of (ctx, n, opn, req) \<Rightarrow>
       (n = ''tracing'' \<or> is_allowed (ec_host_capabilities ctx) (n @ ''/'' @ opn)) \<and>
       (\<forall>api_version kind. requested_resource req = Some (api_version, kind) \<longrightarrow>
          can_access_kubernetes_resource ctx api_version kind))"
    using capability_gate.gate_iff [of "(ctx, n, opn)"] resource_gate.gate_iff [of "(ctx, req)"]
    by (simp add: q check_authorization_def result_simps)
qed

definition authorized :: "'ch EvaluationContext \<Rightarrow> string \<Rightarrow> string \<Rightarrow> CallbackRequestType \<Rightarrow> bool" where
  "authorized ctx namespace operation req \<longleftrightarrow>
     (namespace = ''tracing'' \<or> is_allowed (ec_host_capabilities ctx) (namespace @ ''/'' @ operation)) \<and>
     (\<forall>api_version kind. requested_resource req = Some (api_version, kind) \<longrightarrow>
        can_access_kubernetes_resource ctx api_version kind)"

lemma check_authorization_iff [simp]:
  "check_authorization ctx n opn req = Ok () \<longleftrightarrow> authorized ctx n opn req"
  using full_gate.gate_iff [of "(ctx, n, opn, req)"] by (simp add: authorized_def)

lemma send_events:
  "snd (send_request_and_wait_for_response transport ctx req) =
     (if ec_callback_channel ctx = None then [] else [EvSend req])"
  by (auto simp: send_request_and_wait_for_response_def split: option.splits)

lemma host_callback_typed_events:
  "snd (host_callback_typed transport n opn req ctx) =
     (if authorized ctx n opn req \<and> ec_callback_channel ctx \<noteq> None then [EvSend req] else [])"
  using full_gate.guarded_work [of "(ctx, n, opn, req)"
      "send_request_and_wait_for_response transport ctx req"]
  by (simp add: host_callback_typed_def send_events authorized_def)

lemma host_callback_typed_authorized:
  "authorized ctx n opn req \<Longrightarrow>
     host_callback_typed transport n opn req ctx =
       send_request_and_wait_for_response transport ctx req"
  using full_gate.guarded_result [of "(ctx, n, opn, req)"
      "send_request_and_wait_for_response transport ctx req"]
  by (simp add: host_callback_typed_def authorized_def)

section \<open>The dispatch table and the capability tree\<close>

lemma request_decoder_None_iff:
  "request_decoder d n opn = None \<longleftrightarrow>
     (n, opn) \<notin> set [(''oci'', ''v1/verify''), (''oci'', ''v2/verify''),
       (''oci'', ''v1/manifest_digest''), (''oci'', ''v1/oci_manifest''),
       (''oci'', ''v1/oci_manifest_config''), (''net'', ''v1/dns_lookup_host''),
       (''crypto'', ''v1/is_certificate_trusted''), (''kubernetes'', ''list_resources_by_namespace''),
       (''kubernetes'', ''list_resources_all''), (''kubernetes'', ''get_resource''),
       (''kubernetes'', ''can_i'')]"
  unfolding request_decoder_def map_of_eq_None_iff by simp

lemma dispatch_table_complete:
  "set [(''oci'', ''v1/verify''), (''oci'', ''v2/verify''),
       (''oci'', ''v1/manifest_digest''), (''oci'', ''v1/oci_manifest''),
       (''oci'', ''v1/oci_manifest_config''), (''net'', ''v1/dns_lookup_host''),
       (''crypto'', ''v1/is_certificate_trusted''), (''kubernetes'', ''list_resources_by_namespace''),
       (''kubernetes'', ''list_resources_all''), (''kubernetes'', ''get_resource''),
       (''kubernetes'', ''can_i'')] = set enumerate_operations"
  by code_simp

lemma request_decoder_known:
  "request_decoder d n opn \<noteq> None \<longleftrightarrow> (n, opn) \<in> set enumerate_operations"
  unfolding request_decoder_None_iff dispatch_table_complete by simp

lemma host_callback_denied:
  "n \<noteq> ''tracing'' \<Longrightarrow> \<not> is_allowed (ec_host_capabilities ctx) (n @ ''/'' @ opn) \<Longrightarrow>
     host_callback d transport ''kubewarden'' n opn payload ctx =
       (Err (host_capability_denied_message (n @ ''/'' @ opn)), [])"
  by (simp add: host_callback_def check_host_capability_def can_access_host_capability_def
      pure_result_def)

lemma host_callback_dispatched:
  assumes "n \<noteq> ''tracing''" and "is_allowed (ec_host_capabilities ctx) (n @ ''/'' @ opn)"
  shows "host_callback d transport ''kubewarden'' n opn payload ctx =
     (case request_decoder d n opn of
        Some dec \<Rightarrow> traced_then (dec payload, [EvDecode payload])
                      (\<lambda>req. host_callback_typed transport n opn req ctx)
      | None \<Rightarrow> (if n \<in> {''oci'', ''net'', ''crypto'', ''kubernetes''}
                 then unknown_operation opn else unknown_namespace n, []))"
  using assms
  by (simp add: host_callback_def check_host_capability_def can_access_host_capability_def
      pure_result_def split: option.splits)

lemma host_callback_binding:
  "snd (host_callback d transport b n opn payload ctx) \<noteq> [] \<Longrightarrow> b = ''kubewarden''"
  by (auto simp: host_callback_def split: if_splits)

section \<open>Properties\<close>



text \<open>
  C20: a denied policy gets nothing done.  If the allow list does not cover the operation,
  the call is answered with the denial message, and neither is its payload decoded nor
  anything sent.
\<close>

theorem denied_before_decoding:
  assumes "n \<noteq> ''tracing''" and "\<not> is_allowed (ec_host_capabilities ctx) (n @ ''/'' @ opn)"
  shows "host_callback d transport ''kubewarden'' n opn payload ctx =
     (Err (''Policy has not been granted access to the '' @ [CHR 39] @ n @ ''/'' @ opn @ [CHR 39] @
           '' host capability. The violation has been reported.''), [])"
  using host_callback_denied [OF assms] by (simp add: host_capability_denied_message_def)

theorem denied_before_decoding_witness:
  "let ctx = \<lparr> ec_policy_id = ''p'', ec_callback_channel = Some (),
               ec_ctx_aware_resources_allow_list = {}, ec_epoch_deadline = None,
               ec_host_capabilities = DenyAll \<rparr>
   in \<forall>d transport. host_callback d transport ''kubewarden'' ''net'' ''v1/dns_lookup_host'' [] ctx =
     (Err (''Policy has not been granted access to the '' @ [CHR 39] @ ''net'' @ ''/'' @
           ''v1/dns_lookup_host'' @ [CHR 39] @
           '' host capability. The violation has been reported.''), [])"
  unfolding Let_def
proof (intro allI)
  fix d :: decoders and transport :: "unit \<Rightarrow> CallbackRequestType \<Rightarrow> transport_outcome"
  show "host_callback d transport ''kubewarden'' ''net'' ''v1/dns_lookup_host'' []
      \<lparr> ec_policy_id = ''p'', ec_callback_channel = Some (),
        ec_ctx_aware_resources_allow_list = {}, ec_epoch_deadline = None,
        ec_host_capabilities = DenyAll \<rparr> =
     (Err (''Policy has not been granted access to the '' @ [CHR 39] @ ''net'' @ ''/'' @
           ''v1/dns_lookup_host'' @ [CHR 39] @
           '' host capability. The violation has been reported.''), [])"
    by (rule denied_before_decoding) simp_all
qed

text \<open>
  The dispatcher and the capability tree name the same operations.  A call that
  passes the allow list is decoded exactly if the tree lists its operation; otherwise it is
  refused as unknown, and nothing is decoded or sent.
\<close>

theorem dispatch_agrees_with_tree:
  "(request_decoder d n opn \<noteq> None \<longleftrightarrow> (n, opn) \<in> set enumerate_operations) \<and>
   ((n, opn) \<in> set enumerate_operations \<or>
    host_callback d transport ''kubewarden'' n opn payload (ctx \<lparr> ec_host_capabilities := AllowAll \<rparr>)
      \<in> {(Err (''unknown operation: '' @ opn), []), (Err (''unknown namespace: '' @ n), []),
         (Ok [], [EvLog payload])})"
proof (cases "n = ''tracing''")
  case True
  have "host_callback d transport ''kubewarden'' n opn payload (ctx \<lparr> ec_host_capabilities := AllowAll \<rparr>)
      \<in> {(Err (''unknown operation: '' @ opn), []), (Ok [], [EvLog payload])}"
    unfolding True by (simp add: host_callback_def unknown_operation_def)
  then show ?thesis using request_decoder_known [of d n opn] by blast
next
  case False
  let ?call = "host_callback d transport ''kubewarden'' n opn payload
                 (ctx \<lparr> ec_host_capabilities := AllowAll \<rparr>)"
  have call: "?call = (if n \<in> {''oci'', ''net'', ''crypto'', ''kubernetes''}
      then unknown_operation opn else unknown_namespace n, [])"
    if "request_decoder d n opn = None"
    using host_callback_dispatched [OF False, of "ctx \<lparr> ec_host_capabilities := AllowAll \<rparr>" opn] that
    by simp
  have "?call \<in> {(Err (''unknown operation: '' @ opn), []), (Err (''unknown namespace: '' @ n), [])}"
    if "request_decoder d n opn = None"
    unfolding call [OF that] unknown_operation_def unknown_namespace_def
    by (cases "n \<in> {''oci'', ''net'', ''crypto'', ''kubernetes''}") simp_all
  then show ?thesis using request_decoder_known [of d n opn] by blast
qed

end
