(* ===== verification/Admission_Response.thy ===== *)
theory Admission_Response
  imports Json
begin

text \<open>
  The admission response returned to Kubernetes
  (\<^verbatim>\<open>policy-evaluator/src/admission_response.rs\<close>): its data, the constructors of
  rejections, and the translation of a policy's verdict into a response with a JSON patch.
  \<^verbatim>\<open>json_patch::diff\<close>, the serializer of patches and the base64 encoder are libraries: they
  are the parameters \<open>diff\<close>, \<open>to_json\<close> and \<open>encode\<close>.
\<close>

section \<open>Data\<close>

datatype PatchType = JSONPatch

datatype AdmissionResponseStatusValue = Success | Failure

datatype StatusReason =
    SR_Unknown | SR_Unauthorized | SR_Forbidden | SR_NotFound | SR_AlreadyExists
  | SR_Conflict | SR_Gone | SR_Invalid | SR_ServerTimeout | SR_Timeout
  | SR_TooManyRequests | SR_BadRequest | SR_MethodNotAllowed | SR_NotAcceptable
  | SR_RequestEntityTooLarge | SR_UnsupportedMediaType | SR_InternalError | SR_Expired
  | SR_ServiceUnavailable

datatype CauseType =
    CT_FieldValueNotFound | CT_FieldValueRequired | CT_FieldValueDuplicate
  | CT_FieldValueInvalid | CT_FieldValueNotSupported | CT_FieldValueForbidden
  | CT_FieldValueTooLong | CT_FieldValueTooMany | CT_InternalError
  | CT_FieldValueTypeInvalid | CT_UnexpectedServerResponse | CT_FieldManagerConflict
  | CT_ResourceVersionTooLarge

record StatusCause =
  sc_reason :: "CauseType option"
  sc_message :: "string option"
  sc_field :: "string option"

record StatusDetails =
  sd_name :: "string option"
  sd_group :: "string option"
  sd_kind :: "string option"
  sd_uid :: "string option"
  sd_causes :: "StatusCause list"
  sd_retry_after_seconds :: "32 word option"

record AdmissionResponseStatus =
  st_status :: "AdmissionResponseStatusValue option"
  st_message :: "string option"
  st_reason :: "StatusReason option"
  st_details :: "StatusDetails option"
  st_code :: "16 word option"

record AdmissionResponse =
  ar_uid :: string
  ar_allowed :: bool
  ar_patch_type :: "PatchType option"
  ar_patch :: "string option"
  ar_status :: "AdmissionResponseStatus option"
  ar_audit_annotations :: "(string \<rightharpoonup> string) option"
  ar_warnings :: "string list option"

text \<open>The verdict of a policy (\<^verbatim>\<open>ValidationResponse\<close> of the policy SDK).\<close>

record PolicyValidationResponse =
  pv_accepted :: bool
  pv_message :: "string option"
  pv_code :: "16 word option"
  pv_mutated_object :: "json option"
  pv_audit_annotations :: "(string \<rightharpoonup> string) option"
  pv_warnings :: "string list option"

datatype 'se ResponseError = Deserialize 'se

section \<open>Default values\<close>

definition StatusCause_default :: StatusCause where
  "StatusCause_default = \<lparr> sc_reason = None, sc_message = None, sc_field = None \<rparr>"

definition StatusDetails_default :: StatusDetails where
  "StatusDetails_default =
     \<lparr> sd_name = None, sd_group = None, sd_kind = None, sd_uid = None, sd_causes = [],
       sd_retry_after_seconds = None \<rparr>"

definition AdmissionResponseStatus_default :: AdmissionResponseStatus where
  "AdmissionResponseStatus_default =
     \<lparr> st_status = None, st_message = None, st_reason = None, st_details = None,
       st_code = None \<rparr>"

definition AdmissionResponse_default :: AdmissionResponse where
  "AdmissionResponse_default =
     \<lparr> ar_uid = [], ar_allowed = False, ar_patch_type = None, ar_patch = None,
       ar_status = None, ar_audit_annotations = None, ar_warnings = None \<rparr>"

lemmas default_defs =
  StatusCause_default_def StatusDetails_default_def
  AdmissionResponseStatus_default_def AdmissionResponse_default_def

section \<open>Operations\<close>

definition reject :: "string \<Rightarrow> string \<Rightarrow> 16 word \<Rightarrow> AdmissionResponse" where
  "reject uid message code =
     AdmissionResponse_default
       \<lparr> ar_uid := uid, ar_allowed := False,
         ar_status := Some (AdmissionResponseStatus_default
           \<lparr> st_message := Some message, st_code := Some code \<rparr>) \<rparr>"

definition reject_internal_server_error :: "string \<Rightarrow> string \<Rightarrow> AdmissionResponse" where
  "reject_internal_server_error uid message =
     reject uid (''internal server error: '' @ message) 500"

definition mutation_of_null_message :: string where
  "mutation_of_null_message =
     ''Incoming object is null, which happens only with DELETE operations, but the policy is attempting a mutation. This is not allowed''"

definition response_patch ::
  "(json \<Rightarrow> json \<Rightarrow> 'op list) \<Rightarrow> ('op list \<Rightarrow> 'se + string) \<Rightarrow> (string \<Rightarrow> string) \<Rightarrow>
   json option \<Rightarrow> PolicyValidationResponse \<Rightarrow> 'se ResponseError + string option" where
  "response_patch diff to_json encode req_obj resp =
     (case pv_mutated_object resp of
        Some mut_obj \<Rightarrow>
          (let d = diff (the req_obj) mut_obj in
           if d = [] then Ok None
           else map_ok Some (map_err Deserialize (map_ok encode (to_json d))))
      | None \<Rightarrow> Ok None)"

definition response_status :: "PolicyValidationResponse \<Rightarrow> AdmissionResponseStatus option" where
  "response_status resp =
     (if pv_message resp \<noteq> None \<or> pv_code resp \<noteq> None
      then Some (AdmissionResponseStatus_default
             \<lparr> st_message := pv_message resp, st_code := pv_code resp \<rparr>)
      else None)"

definition from_policy_validation_response ::
  "(json \<Rightarrow> json \<Rightarrow> 'op list) \<Rightarrow> ('op list \<Rightarrow> 'se + string) \<Rightarrow> (string \<Rightarrow> string) \<Rightarrow>
   string \<Rightarrow> json option \<Rightarrow> PolicyValidationResponse \<Rightarrow>
   'se ResponseError + AdmissionResponse" where
  "from_policy_validation_response diff to_json encode uid req_obj resp =
     (if pv_mutated_object resp \<noteq> None \<and> req_obj = None then
        Ok \<lparr> ar_uid = uid, ar_allowed = False, ar_patch_type = None, ar_patch = None,
             ar_status = Some (AdmissionResponseStatus_default
               \<lparr> st_message := Some mutation_of_null_message, st_code := None \<rparr>),
             ar_audit_annotations = None, ar_warnings = None \<rparr>
      else
        try_then (response_patch diff to_json encode req_obj resp) (\<lambda>patch.
        Ok \<lparr> ar_uid = uid, ar_allowed = pv_accepted resp,
             ar_patch_type = (if patch \<noteq> None then Some JSONPatch else None),
             ar_patch = patch, ar_status = response_status resp,
             ar_audit_annotations = pv_audit_annotations resp,
             ar_warnings = pv_warnings resp \<rparr>))"

section \<open>Well-formed responses\<close>

text \<open>Kubernetes requires a patch and its type to come together.\<close>

definition wf_response :: "AdmissionResponse \<Rightarrow> bool" where
  "wf_response r \<longleftrightarrow> (ar_patch_type r = None \<longleftrightarrow> ar_patch r = None)"

lemma wf_reject [simp, intro]: "wf_response (reject uid message code)"
  by (simp add: wf_response_def reject_def default_defs)

lemma reject_simps [simp]:
  "ar_uid (reject uid message code) = uid"
  "ar_allowed (reject uid message code) = False"
  "ar_patch (reject uid message code) = None"
  "ar_patch_type (reject uid message code) = None"
  "ar_status (reject uid message code) =
     Some (AdmissionResponseStatus_default \<lparr> st_message := Some message, st_code := Some code \<rparr>)"
  "ar_warnings (reject uid message code) = None"
  "ar_audit_annotations (reject uid message code) = None"
  by (simp_all add: reject_def default_defs)

lemma from_policy_validation_response_wf:
  "from_policy_validation_response diff to_json encode uid req_obj resp = Ok r \<Longrightarrow>
     wf_response r \<and> ar_uid r = uid"
  by (auto simp: from_policy_validation_response_def wf_response_def result_simps
      split: if_splits)

lemma from_policy_validation_response_patch:
  "from_policy_validation_response diff to_json encode uid (Some obj) resp = Ok r \<Longrightarrow>
     response_patch diff to_json encode (Some obj) resp = Ok (ar_patch r)"
  by (auto simp: from_policy_validation_response_def result_simps)

lemma from_policy_validation_response_error:
  "from_policy_validation_response diff to_json encode uid req_obj resp = Err e \<Longrightarrow>
     \<exists>obj m d. req_obj = Some obj \<and> pv_mutated_object resp = Some m \<and>
       to_json (diff obj m) = Err d \<and> e = Deserialize d"
  by (cases req_obj)
    (auto simp: from_policy_validation_response_def response_patch_def result_simps Let_def
      split: if_splits option.splits)

section \<open>Properties\<close>

text \<open>
  The verdict of a policy is reported as it was given.  The response carries the
  request's uid and the policy's decision, a patch type comes exactly with a patch, and
  the request is let through only if the policy accepted it; a policy that mutates a
  request without an object (a DELETE) is turned into a rejection without any patch.
\<close>

theorem verdict_reported:
  assumes "from_policy_validation_response diff to_json encode uid req_obj resp = Ok r"
  shows "ar_uid r = uid \<and> wf_response r \<and>
         (ar_allowed r \<longleftrightarrow>
           pv_accepted resp \<and> \<not> (pv_mutated_object resp \<noteq> None \<and> req_obj = None)) \<and>
         (ar_patch r \<noteq> None \<longrightarrow> pv_mutated_object resp \<noteq> None \<and> req_obj \<noteq> None)"
  using assms
  by (auto simp: from_policy_validation_response_def response_patch_def wf_response_def
      result_simps Let_def split: if_splits option.splits)

theorem verdict_reported_witness:
  "let resp = \<lparr> pv_accepted = True, pv_message = None, pv_code = None,
                pv_mutated_object = Some (JBool True), pv_audit_annotations = None,
                pv_warnings = None \<rparr>;
       r = \<lparr> ar_uid = ''u1'', ar_allowed = True, ar_patch_type = Some JSONPatch,
             ar_patch = Some ''x!'', ar_status = None, ar_audit_annotations = None,
             ar_warnings = None \<rparr>
   in ar_uid r = ''u1'' \<and> wf_response r \<and> (ar_allowed r \<longleftrightarrow> pv_accepted resp) \<and>
      pv_mutated_object resp \<noteq> None"
proof -
  let ?resp = "\<lparr> pv_accepted = True, pv_message = None, pv_code = None,
                pv_mutated_object = Some (JBool True), pv_audit_annotations = None,
                pv_warnings = None \<rparr>"
  let ?r = "\<lparr> ar_uid = ''u1'', ar_allowed = True, ar_patch_type = Some JSONPatch,
             ar_patch = Some ''x!'', ar_status = None, ar_audit_annotations = None,
             ar_warnings = None \<rparr>"
  have run: "from_policy_validation_response (\<lambda>a b. if a = b then [] else [b])
          (\<lambda>d. (Ok ''x'' :: unit + string)) (\<lambda>s. s @ ''!'') ''u1'' (Some JNull) ?resp = Ok ?r"
    by (simp add: from_policy_validation_response_def response_patch_def response_status_def Let_def)
  show ?thesis
    using verdict_reported [OF run] by (simp add: Let_def)
qed

text \<open>
  C32: the patch is faithful.  Whoever applies the patch of the response to the object
  under review, decoding it and reading it back, gets exactly the object the policy asked
  for; when there is no patch, the policy asked for the object as it was.  The three
  libraries are used as documented: a patch computed by \<open>diff\<close> leads from the one value
  to the other, the empty patch changes nothing, and serialization and encoding can be
  undone.
\<close>

theorem patch_roundtrip:
  assumes "apply_patch (diff obj m) obj = Some m"
    and "apply_patch [] obj = Some obj"
    and "\<And>s. to_json (diff obj m) = Ok s \<Longrightarrow> of_json s = Some (diff obj m)"
    and "\<And>s. decode (encode s) = Some s"
    and "pv_mutated_object resp = Some m"
    and "from_policy_validation_response diff to_json encode uid (Some obj) resp = Ok r"
  shows "(case ar_patch r of None \<Rightarrow> Some obj
          | Some p \<Rightarrow> Option.bind (decode p) (\<lambda>s. Option.bind (of_json s) (\<lambda>d. apply_patch d obj)))
         = Some m"
  using from_policy_validation_response_patch [OF assms(6)] assms(1-5)
  by (auto simp: response_patch_def result_simps Let_def split: if_splits option.splits)

theorem patch_roundtrip_witness:
  "let resp = \<lparr> pv_accepted = True, pv_message = None, pv_code = None,
                pv_mutated_object = Some (JBool True), pv_audit_annotations = None,
                pv_warnings = None \<rparr>
   in \<exists>r. from_policy_validation_response (\<lambda>a b. if a = b then [] else [b])
            (\<lambda>d. (Ok (if d = [] then ''E'' else ''T'') :: unit + string)) (\<lambda>s. s @ ''='') ''u1''
            (Some JNull) resp = Ok r \<and>
        (case ar_patch r of None \<Rightarrow> Some JNull
         | Some p \<Rightarrow> Option.bind (Some (butlast p)) (\<lambda>s. Option.bind (Some [JBool True])
             (\<lambda>d. Some (last (JNull # d))))) = Some (JBool True)"
proof -
  let ?resp = "\<lparr> pv_accepted = True, pv_message = None, pv_code = None,
                pv_mutated_object = Some (JBool True), pv_audit_annotations = None,
                pv_warnings = None \<rparr>"
  let ?diff = "\<lambda>a b. if a = b then [] else [b :: json]"
  let ?to = "\<lambda>d. (Ok (if d = [] then ''E'' else ''T'') :: unit + string)"
  let ?r = "\<lparr> ar_uid = ''u1'', ar_allowed = True, ar_patch_type = Some JSONPatch,
             ar_patch = Some ''T='', ar_status = None, ar_audit_annotations = None,
             ar_warnings = None \<rparr>"
  have run: "from_policy_validation_response ?diff ?to (\<lambda>s. s @ ''='') ''u1'' (Some JNull) ?resp
             = Ok ?r"
    by (simp add: from_policy_validation_response_def response_patch_def response_status_def Let_def)
  have "(case ar_patch ?r of None \<Rightarrow> Some JNull
         | Some p \<Rightarrow> Option.bind (Some (butlast p)) (\<lambda>s. Option.bind (Some [JBool True])
             (\<lambda>d. Some (last (JNull # d))))) = Some (JBool True)"
    by (rule patch_roundtrip [where diff = ?diff and to_json = ?to and encode = "\<lambda>s. s @ ''=''"
          and apply_patch = "\<lambda>d a. Some (last (a # d))" and of_json = "\<lambda>_. Some [JBool True]"
          and decode = "\<lambda>p. Some (butlast p)" and obj = JNull, OF _ _ _ _ _ run]) simp_all
  with run show ?thesis unfolding Let_def by blast
qed

end
