(* ===== verification/Policy_Request.thy ===== *)
theory Policy_Request
  imports Admission_Response
begin

text \<open>
  What a policy is asked (\<^verbatim>\<open>policy-evaluator/src/admission_request.rs\<close> and
  \<^verbatim>\<open>policy_evaluator.rs\<close>): the admission request with its JSON form, raw requests, the
  execution modes and the settings of a policy.
\<close>

section \<open>Admission requests\<close>

record GroupVersionKind =
  gvk_group :: string
  gvk_version :: string
  gvk_kind :: string

record GroupVersionResource =
  gvr_group :: string
  gvr_version :: string
  gvr_resource :: string

record AdmissionRequest =
  rq_uid :: string
  rq_kind :: GroupVersionKind
  rq_resource :: GroupVersionResource
  rq_sub_resource :: "string option"
  rq_request_kind :: "GroupVersionKind option"
  rq_request_resource :: "GroupVersionResource option"
  rq_request_sub_resource :: "string option"
  rq_name :: "string option"
  rq_namespace :: "string option"
  rq_operation :: string
  rq_user_info :: json
  rq_object :: "json option"
  rq_old_object :: "json option"
  rq_dry_run :: "bool option"
  rq_options :: "json option"

definition GroupVersionKind_to_json :: "GroupVersionKind \<Rightarrow> json" where
  "GroupVersionKind_to_json g =
     JObject [(''group'', JString (gvk_group g)), (''version'', JString (gvk_version g)),
              (''kind'', JString (gvk_kind g))]"

definition GroupVersionResource_to_json :: "GroupVersionResource \<Rightarrow> json" where
  "GroupVersionResource_to_json g =
     JObject [(''group'', JString (gvr_group g)), (''version'', JString (gvr_version g)),
              (''resource'', JString (gvr_resource g))]"

text \<open>A member that is left out when the value is absent
  (\<^verbatim>\<open>skip_serializing_if = "Option::is_none"\<close>).\<close>

fun optional_member :: "string \<Rightarrow> ('a \<Rightarrow> json) \<Rightarrow> 'a option \<Rightarrow> (string \<times> json) list" where
  "optional_member k f None = []"
| "optional_member k f (Some a) = [(k, f a)]"

definition AdmissionRequest_to_json :: "AdmissionRequest \<Rightarrow> json" where
  "AdmissionRequest_to_json r = JObject
     ([(''uid'', JString (rq_uid r)), (''kind'', GroupVersionKind_to_json (rq_kind r)),
       (''resource'', GroupVersionResource_to_json (rq_resource r))] @
      optional_member ''subResource'' JString (rq_sub_resource r) @
      optional_member ''requestKind'' GroupVersionKind_to_json (rq_request_kind r) @
      optional_member ''requestResource'' GroupVersionResource_to_json (rq_request_resource r) @
      optional_member ''requestSubResource'' JString (rq_request_sub_resource r) @
      optional_member ''name'' JString (rq_name r) @
      optional_member ''namespace'' JString (rq_namespace r) @
      [(''operation'', JString (rq_operation r)), (''userInfo'', rq_user_info r)] @
      optional_member ''object'' id (rq_object r) @
      optional_member ''oldObject'' id (rq_old_object r) @
      optional_member ''dryRun'' JBool (rq_dry_run r) @
      optional_member ''options'' id (rq_options r))"

datatype ValidateRequest = Raw json | AdmissionReq AdmissionRequest

fun ValidateRequest_to_json :: "ValidateRequest \<Rightarrow> json" where
  "ValidateRequest_to_json (Raw v) = v"
| "ValidateRequest_to_json (AdmissionReq r) = AdmissionRequest_to_json r"

fun request_uid :: "ValidateRequest \<Rightarrow> string" where
  "request_uid (Raw raw_req) =
     (case Option.bind (json_get ''uid'' raw_req) json_as_str of None \<Rightarrow> [] | Some s \<Rightarrow> s)"
| "request_uid (AdmissionReq adm_req) = rq_uid adm_req"

lemma map_of_optional_member [simp]:
  "map_of (optional_member k f x) j = (if j = k then map_option f x else None)"
  by (cases x) auto

lemma AdmissionRequest_object:
  "json_get ''object'' (AdmissionRequest_to_json r) = rq_object r"
  by (simp add: AdmissionRequest_to_json_def map_add_def option.map_id split: option.splits)

section \<open>Execution modes and settings\<close>

datatype PolicyExecutionMode = KubewardenWapc | Opa | OpaGatekeeper | Wasi | Ferricel

fun PolicyExecutionMode_to_string :: "PolicyExecutionMode \<Rightarrow> string" where
  "PolicyExecutionMode_to_string KubewardenWapc = ''kubewarden-wapc''"
| "PolicyExecutionMode_to_string Opa = ''opa''"
| "PolicyExecutionMode_to_string OpaGatekeeper = ''gatekeeper''"
| "PolicyExecutionMode_to_string Wasi = ''wasi''"
| "PolicyExecutionMode_to_string Ferricel = ''ferricel''"

datatype RegoPolicyExecutionMode = RegoOpa | RegoGatekeeper

datatype InvalidUserInputError =
    FileAndContents
  | FileAndModule
  | ContentsAndModule
  | OneOfFileContentsModule
  | EngineForModule
  | ExecutionModeMissing

text \<open>Errors of the libraries are carried by their message.\<close>

datatype PolicyEvaluatorBuilderError =
    ConvertPath
  | ExecutionModeNotRegoCompatible
  | UnsupportedExecutionMode PolicyExecutionMode
  | BuilderInvokeWapcProtocolVersion string
  | InvalidUserInput InvalidUserInputError
  | WasmtimeEngineBuild string
  | WasmModuleBuild string
  | NewWapcStackPre string
  | NewWasiStackPre string
  | NewRegoStackPre string
  | NewFerricelStackPre string
  | ReadPolicyFileForVapVariables string
  | ReadVapVariables string
  | FerricelAbiVersion string

fun rego_mode :: "PolicyExecutionMode \<Rightarrow> PolicyEvaluatorBuilderError + RegoPolicyExecutionMode" where
  "rego_mode Opa = Ok RegoOpa"
| "rego_mode OpaGatekeeper = Ok RegoGatekeeper"
| "rego_mode KubewardenWapc = Err ExecutionModeNotRegoCompatible"
| "rego_mode Wasi = Err ExecutionModeNotRegoCompatible"
| "rego_mode Ferricel = Err ExecutionModeNotRegoCompatible"

text \<open>Settings are the members of a JSON object.\<close>

type_synonym PolicySettings = "(string \<times> json) list"

fun PolicySettings_try_from :: "json \<Rightarrow> string + PolicySettings" where
  "PolicySettings_try_from JNull = Ok []"
| "PolicySettings_try_from (JObject obj) = Ok obj"
| "PolicySettings_try_from _ = Err ''Invalid settings in CRD, not an object''"

record SettingsValidationResponse =
  sv_valid :: bool
  sv_message :: "string option"

end
