(* ===== verification/Runtimes.thy ===== *)
theory Runtimes
  imports Policy_Request "HOL-Library.AList"
begin

text \<open>
  How each runtime turns a request and the settings into a call of the policy, and the
  policy's answer into an admission response: waPC (\<^verbatim>\<open>runtimes/wapc/runtime.rs\<close>), WASI
  (\<^verbatim>\<open>runtimes/wasi_cli/runtime.rs\<close>) and Rego (\<^verbatim>\<open>runtimes/rego/runtime.rs\<close>).  The guest and
  the serialization libraries are parameters: \<open>codec\<close> collects the serializers and parsers
  (library errors are the strings they print, and \<open>cd_debug\<close> is their \<^verbatim>\<open>Debug\<close> form),
  a guest is a function from its input to its answer or error.
\<close>

section \<open>Libraries\<close>

record 'op codec =
  cd_to_string :: "json \<Rightarrow> string + string"
  cd_from_pvr :: "string \<Rightarrow> string + PolicyValidationResponse"
  cd_from_svr :: "string \<Rightarrow> string + SettingsValidationResponse"
  cd_from_admission_response :: "json \<Rightarrow> string + AdmissionResponse"
  cd_from_violations :: "json \<Rightarrow> string + string option list"
  cd_diff :: "json \<Rightarrow> json \<Rightarrow> 'op list"
  cd_patch_to_string :: "'op list \<Rightarrow> string + string"
  cd_base64 :: "string \<Rightarrow> string"
  cd_debug :: "string \<Rightarrow> string"

definition response_of_verdict ::
  "'op codec \<Rightarrow> string \<Rightarrow> json option \<Rightarrow> PolicyValidationResponse \<Rightarrow>
   string ResponseError + AdmissionResponse" where
  "response_of_verdict cd uid req_obj pvr =
     from_policy_validation_response (cd_diff cd) (cd_patch_to_string cd) (cd_base64 cd)
       uid req_obj pvr"

fun ResponseError_to_string :: "string ResponseError \<Rightarrow> string" where
  "ResponseError_to_string (Deserialize e) = ''cannot deserialize JSONPatch: '' @ e"

definition validate_params :: "ValidateRequest \<Rightarrow> PolicySettings \<Rightarrow> json" where
  "validate_params request settings =
     JObject [(''request'', ValidateRequest_to_json request), (''settings'', JObject settings)]"

text \<open>The object under review; a DELETE request has none.\<close>

fun reviewed_object :: "ValidateRequest \<Rightarrow> json option" where
  "reviewed_object (Raw v) = Some v"
| "reviewed_object (AdmissionReq r) = json_get ''object'' (AdmissionRequest_to_json r)"

definition deadline_message :: string where
  "deadline_message =
     ''Policy execution interrupted because it exceeded the allowed execution time''"

section \<open>waPC\<close>

datatype WapcRuntimeError =
    InvalidResponseFormat string
  | InvalidResponseWithError string
  | CreateProtocolVersion string string
  | InvokeProtocolVersion string

fun WapcRuntimeError_to_string :: "WapcRuntimeError \<Rightarrow> string" where
  "WapcRuntimeError_to_string (InvalidResponseFormat e) = ''invalid response format: '' @ e"
| "WapcRuntimeError_to_string (InvalidResponseWithError e) = ''invalid response from policy: '' @ e"
| "WapcRuntimeError_to_string (CreateProtocolVersion res e) =
     ''cannot create ProtocolVersion object from '' @ res @ '': '' @ e"
| "WapcRuntimeError_to_string (InvokeProtocolVersion e) =
     ''cannot invoke '' @ [CHR 39] @ ''protocol_version'' @ [CHR 39] @ '' waPC function : '' @ e"

definition WAPC_EPOCH_INTERRUPTION_ERR_MSG :: string where
  "WAPC_EPOCH_INTERRUPTION_ERR_MSG = ''guest code interrupted, execution deadline exceeded''"

text \<open>The second component tells whether the waPC host was reset.\<close>

definition wapc_validate ::
  "'op codec \<Rightarrow> (string \<Rightarrow> string \<Rightarrow> string + string) \<Rightarrow> PolicySettings \<Rightarrow> ValidateRequest \<Rightarrow>
   AdmissionResponse \<times> bool" where
  "wapc_validate cd guest settings request =
     (let uid = request_uid request; req_obj = reviewed_object request in
      case cd_to_string cd (validate_params request settings) of
        Inl e \<Rightarrow> (reject_internal_server_error uid e, False)
      | Inr validate_str \<Rightarrow>
          (case guest ''validate'' validate_str of
             Inr res \<Rightarrow>
               (case try_then (map_err InvalidResponseWithError (cd_from_pvr cd res)) (\<lambda>pvr.
                       map_err (\<lambda>e. InvalidResponseFormat (ResponseError_to_string e))
                         (response_of_verdict cd uid req_obj pvr)) of
                  Inr r \<Rightarrow> (r, False)
                | Inl e \<Rightarrow> (reject_internal_server_error uid (WapcRuntimeError_to_string e), False))
           | Inl e \<Rightarrow>
               (if sublist WAPC_EPOCH_INTERRUPTION_ERR_MSG e
                then (reject uid deadline_message 500, True)
                else (reject_internal_server_error uid e, False))))"

definition wapc_validate_settings ::
  "'op codec \<Rightarrow> (string \<Rightarrow> string \<Rightarrow> string + string) \<Rightarrow> string \<Rightarrow> SettingsValidationResponse" where
  "wapc_validate_settings cd guest settings =
     (case guest ''validate_settings'' settings of
        Inr res \<Rightarrow>
          (case cd_from_svr cd res of
             Inr vr \<Rightarrow> vr
           | Inl e \<Rightarrow> \<lparr> sv_valid = False,
                       sv_message = Some (''error: InvalidResponseWithError('' @ cd_debug cd e @ '')'') \<rparr>)
      | Inl err \<Rightarrow> \<lparr> sv_valid = False,
          sv_message = Some (''Error invoking settings validation callback: '' @ cd_debug cd err) \<rparr>)"

section \<open>WASI\<close>

definition wasi_validate ::
  "'op codec \<Rightarrow> (string \<Rightarrow> string list \<Rightarrow> string + string \<times> string) \<Rightarrow> PolicySettings \<Rightarrow>
   ValidateRequest \<Rightarrow> AdmissionResponse" where
  "wasi_validate cd run settings request =
     (let uid = request_uid request in
      case cd_to_string cd (validate_params request settings) of
        Inl e \<Rightarrow> reject_internal_server_error uid e
      | Inr input \<Rightarrow>
          (case run input [''policy.wasm'', ''validate''] of
             Inr (stdout, stderr) \<Rightarrow>
               (case cd_from_pvr cd stdout of
                  Inr pvr \<Rightarrow>
                    (case response_of_verdict cd uid (reviewed_object request) pvr of
                       Inr r \<Rightarrow> r
                     | Inl e \<Rightarrow> reject_internal_server_error uid
                         (''Cannot convert policy validation response: '' @ ResponseError_to_string e))
                | Inl e \<Rightarrow> reject_internal_server_error uid
                    (''Cannot deserialize policy validation response: '' @ e))
           | Inl e \<Rightarrow> reject uid e 500))"

definition wasi_validate_settings ::
  "'op codec \<Rightarrow> (string \<Rightarrow> string list \<Rightarrow> string + string \<times> string) \<Rightarrow> string \<Rightarrow>
   SettingsValidationResponse" where
  "wasi_validate_settings cd run settings =
     (case run settings [''policy.wasm'', ''validate-settings''] of
        Inr (stdout, stderr) \<Rightarrow>
          (case cd_from_svr cd stdout of
             Inr vr \<Rightarrow> vr
           | Inl e \<Rightarrow> \<lparr> sv_valid = False,
               sv_message = Some (''Cannot deserialize settings validation response: '' @ e) \<rparr>)
      | Inl e \<Rightarrow> \<lparr> sv_valid = False, sv_message = Some e \<rparr>)"

section \<open>Rego\<close>

datatype BurregoError =
    MissingRegoBuiltins string
  | WasmEngineError string
  | RegoWasmError string
  | JSONError string string
  | EvaluatorBuilderError string
  | BuiltinError string string
  | BuiltinNotImplementedError string
  | ExecutionDeadlineExceeded

fun BurregoError_to_string :: "'op codec \<Rightarrow> BurregoError \<Rightarrow> string" where
  "BurregoError_to_string cd (MissingRegoBuiltins s) = ''Missing Rego builtins: '' @ s"
| "BurregoError_to_string cd (WasmEngineError s) = ''wasm engine error: '' @ s"
| "BurregoError_to_string cd (RegoWasmError s) = ''Rego wasm error: '' @ s"
| "BurregoError_to_string cd (JSONError msg source) = msg @ '': '' @ source"
| "BurregoError_to_string cd (EvaluatorBuilderError s) = ''Evaluator builder error: '' @ s"
| "BurregoError_to_string cd (BuiltinError name message) =
     ''Builtin error ['' @ cd_debug cd name @ '']: '' @ cd_debug cd message"
| "BurregoError_to_string cd (BuiltinNotImplementedError s) = ''Builtin not implemented: '' @ s"
| "BurregoError_to_string cd ExecutionDeadlineExceeded =
     ''guest code interrupted, execution deadline exceeded''"

datatype KubernetesContext =
    KC_Empty
  | KC_Opa json
  | KC_Gatekeeper string

fun json_get_index :: "nat \<Rightarrow> json \<Rightarrow> json option" where
  "json_get_index i (JArray vs) = (if i < length vs then Some (vs ! i) else None)"
| "json_get_index i _ = None"

definition evaluate_opa ::
  "'op codec \<Rightarrow> (json \<Rightarrow> string \<Rightarrow> BurregoError + json) \<Rightarrow> PolicySettings \<Rightarrow> ValidateRequest \<Rightarrow>
   KubernetesContext \<Rightarrow> BurregoError + json" where
  "evaluate_opa cd evaluate settings request ctx_data =
     (let input = JObject [(''request'', ValidateRequest_to_json request)];
          data = (case ctx_data of
                    KC_Opa ctx \<Rightarrow> JObject (AList.update ''kubernetes'' ctx settings)
                  | _ \<Rightarrow> JObject settings)
      in try_then (map_err (JSONError ''cannot convert OPA data to JSON'') (cd_to_string cd data))
           (\<lambda>data_raw. evaluate input data_raw))"

text \<open>The Gatekeeper entry point is never called with OPA data: the context is built for the
  policy's own mode.  That arm of the match (\<^verbatim>\<open>unreachable!()\<close>) is mapped to no data.\<close>

definition evaluate_gatekeeper ::
  "(json \<Rightarrow> string \<Rightarrow> BurregoError + json) \<Rightarrow> PolicySettings \<Rightarrow> AdmissionRequest \<Rightarrow>
   KubernetesContext \<Rightarrow> BurregoError + json" where
  "evaluate_gatekeeper evaluate settings request ctx_data =
     (let input = JObject [(''parameters'', JObject settings),
                           (''review'', AdmissionRequest_to_json request)];
          data_raw = (case ctx_data of KC_Gatekeeper ctx \<Rightarrow> ctx | KC_Empty \<Rightarrow> ''{}'' | KC_Opa _ \<Rightarrow> [])
      in evaluate input data_raw)"

definition opa_response :: "'op codec \<Rightarrow> string \<Rightarrow> json \<Rightarrow> AdmissionResponse" where
  "opa_response cd uid evaluation_result =
     (case Option.bind (Option.bind (json_get_index 0 evaluation_result) (json_get ''result''))
             (json_get ''response'') of
        Some result \<Rightarrow>
          (case cd_from_admission_response cd result of
             Inr r \<Rightarrow> r \<lparr> ar_uid := uid \<rparr>
           | Inl err \<Rightarrow> reject_internal_server_error uid err)
      | None \<Rightarrow> reject_internal_server_error uid ''cannot interpret OPA policy result'')"

definition gatekeeper_response :: "'op codec \<Rightarrow> string \<Rightarrow> json \<Rightarrow> AdmissionResponse" where
  "gatekeeper_response cd uid evaluation_result =
     (case json_get_index 0 evaluation_result of
        None \<Rightarrow> reject_internal_server_error uid ''invalid response from policy''
      | Some response \<Rightarrow>
          (case cd_from_violations cd response of
             Inl err \<Rightarrow> reject_internal_server_error uid (''invalid response from policy: '' @ err)
           | Inr violations \<Rightarrow>
               (if violations = [] then
                  AdmissionResponse_default \<lparr> ar_uid := uid, ar_allowed := True \<rparr>
                else
                  AdmissionResponse_default \<lparr> ar_uid := uid, ar_allowed := False,
                    ar_status := Some (AdmissionResponseStatus_default
                      \<lparr> st_message := Some (join_str '', '' (List.map_filter id violations)) \<rparr>) \<rparr>)))"

text \<open>The second component tells whether the evaluator was reset after a deadline.\<close>

definition rego_validate ::
  "'op codec \<Rightarrow> RegoPolicyExecutionMode \<Rightarrow> (json \<Rightarrow> string \<Rightarrow> BurregoError + json) \<Rightarrow>
   PolicySettings \<Rightarrow> ValidateRequest \<Rightarrow> KubernetesContext \<Rightarrow> AdmissionResponse \<times> bool" where
  "rego_validate cd mode evaluate settings request ctx_data =
     (let uid = request_uid request;
          failed = (\<lambda>err. (reject_internal_server_error uid (BurregoError_to_string cd err),
                           err = ExecutionDeadlineExceeded))
      in case mode of
           RegoOpa \<Rightarrow>
             (case evaluate_opa cd evaluate settings request ctx_data of
                Inr v \<Rightarrow> (opa_response cd uid v, False)
              | Inl err \<Rightarrow> failed err)
         | RegoGatekeeper \<Rightarrow>
             (case request of
                Raw _ \<Rightarrow>
                  (reject_internal_server_error uid
                     ''Gatekeeper does not support raw validation requests'', False)
              | AdmissionReq adm_req \<Rightarrow>
                  (case evaluate_gatekeeper evaluate settings adm_req ctx_data of
                     Inr v \<Rightarrow> (gatekeeper_response cd uid v, False)
                   | Inl err \<Rightarrow> failed err)))"

definition rego_validate_settings :: "string \<Rightarrow> SettingsValidationResponse" where
  "rego_validate_settings settings = \<lparr> sv_valid = True, sv_message = None \<rparr>"

section \<open>Every answer is an answer to the request, and failures reject\<close>

lemma reject_internal_simps [simp]:
  "ar_uid (reject_internal_server_error uid m) = uid"
  "\<not> ar_allowed (reject_internal_server_error uid m)"
  "ar_patch (reject_internal_server_error uid m) = None"
  "ar_patch_type (reject_internal_server_error uid m) = None"
  "wf_response (reject_internal_server_error uid m)"
  by (simp_all add: reject_internal_server_error_def)

lemma response_of_verdict_uid:
  "response_of_verdict cd uid obj pvr = Ok r \<Longrightarrow> ar_uid r = uid \<and> wf_response r"
  unfolding response_of_verdict_def using from_policy_validation_response_wf by blast

lemma response_of_verdict_allowed:
  "response_of_verdict cd uid obj pvr = Ok r \<Longrightarrow> ar_allowed r \<Longrightarrow> pv_accepted pvr"
  by (auto simp: response_of_verdict_def from_policy_validation_response_def result_simps
      split: if_splits)

lemma wapc_validate_uid: "ar_uid (fst (wapc_validate cd guest settings request)) = request_uid request"
  by (auto simp: wapc_validate_def Let_def result_simps response_of_verdict_uid
      split: sum.splits)

lemma wasi_validate_uid: "ar_uid (wasi_validate cd run settings request) = request_uid request"
  by (auto simp: wasi_validate_def Let_def response_of_verdict_uid split: sum.splits)

lemma rego_validate_uid:
  "ar_uid (fst (rego_validate cd mode evaluate settings request ctx)) = request_uid request"
  by (auto simp: rego_validate_def opa_response_def gatekeeper_response_def Let_def
      AdmissionResponse_default_def
      split: sum.splits option.splits RegoPolicyExecutionMode.splits ValidateRequest.splits)

end
