(* ===== verification/Rego_Context.thy ===== *)
theory Rego_Context
  imports Callback_Gate Runtimes
begin

text \<open>
  The Kubernetes data Rego policies see (\<^verbatim>\<open>policy-evaluator/src/runtimes/rego/\<close>): the
  queries over the callback channel (\<^verbatim>\<open>context_aware.rs\<close>), the inventories in the layouts of
  OPA (\<^verbatim>\<open>opa_inventory.rs\<close>) and Gatekeeper (\<^verbatim>\<open>gatekeeper_inventory.rs\<close>), the cache of
  Gatekeeper inventories (\<^verbatim>\<open>gatekeeper_inventory_cache.rs\<close>) and \<^verbatim>\<open>build_kubernetes_context\<close>
  (\<^verbatim>\<open>stack.rs\<close>).  The contract both inventories keep is the locale \<open>inventory\<close>.
\<close>

section \<open>Queries over the callback channel\<close>

datatype RegoRuntimeError =
    CallbackChannelNotSet
  | CallbackConvertList string
  | CallbackConvertBool string
  | CallbackSend string
  | CallbackResponseError string
  | CallbackRequestError string
  | CallbackGetPluralName string
  | GatekeeperInventoryMissingName
  | GatekeeperInventoryMissingNamespace
  | GatekeeperInventorySerializationError string
  | OpaInventoryMissingName
  | OpaInventoryMissingNamespace
  | OpaInventoryAddNamespacedRes
  | OpaInventoryAddClusterwideRes
  | OpaInventoryMissingPluralName ContextAwareResource

fun RegoRuntimeError_to_string :: "(ContextAwareResource \<Rightarrow> string) \<Rightarrow> RegoRuntimeError \<Rightarrow> string" where
  "RegoRuntimeError_to_string dbg CallbackChannelNotSet =
     ''cannot build Rego context aware data: callback channel is not set''"
| "RegoRuntimeError_to_string dbg (CallbackConvertList e) =
     ''cannot convert callback response into a list of kubernetes objects: '' @ e"
| "RegoRuntimeError_to_string dbg (CallbackConvertBool e) =
     ''cannot convert callback response into a boolean: '' @ e"
| "RegoRuntimeError_to_string dbg (CallbackSend e) =
     ''error sending request over callback channel: '' @ e"
| "RegoRuntimeError_to_string dbg (CallbackResponseError e) =
     ''error obtaining response from callback channel: '' @ e"
| "RegoRuntimeError_to_string dbg (CallbackRequestError e) =
     ''cannot perform a request via callback channel: '' @ e"
| "RegoRuntimeError_to_string dbg (CallbackGetPluralName e) =
     ''get plural name failure, cannot convert callback response: '' @ e"
| "RegoRuntimeError_to_string dbg GatekeeperInventoryMissingName =
     ''DynamicObject does not have a name''"
| "RegoRuntimeError_to_string dbg GatekeeperInventoryMissingNamespace =
     ''DynamicObject does not have a namespace''"
| "RegoRuntimeError_to_string dbg (GatekeeperInventorySerializationError e) =
     ''cannot convert Gatekeeper inventory to JSON: '' @ e"
| "RegoRuntimeError_to_string dbg OpaInventoryMissingName = ''DynamicObject does not have a name''"
| "RegoRuntimeError_to_string dbg OpaInventoryMissingNamespace =
     ''DynamicObject does not have a namespace''"
| "RegoRuntimeError_to_string dbg OpaInventoryAddNamespacedRes =
     ''trying to add a namespaced resource to a list of clusterwide resources''"
| "RegoRuntimeError_to_string dbg OpaInventoryAddClusterwideRes =
     ''trying to add a clusterwide resource to a list of namespaced resources''"
| "RegoRuntimeError_to_string dbg (OpaInventoryMissingPluralName r) =
     ''cannot find plural name for resource '' @ dbg r"

text \<open>A Kubernetes object: its name and namespace, and its JSON form.\<close>

record kube_object =
  ko_name :: "string option"
  ko_namespace :: "string option"
  ko_json :: json

record rego_parsers =
  rp_list :: "bytes \<Rightarrow> string + kube_object list"
  rp_bool :: "bytes \<Rightarrow> string + bool"
  rp_string :: "bytes \<Rightarrow> string + string"

type_synonym channel = "CallbackRequestType \<Rightarrow> transport_outcome"
type_synonym 'a rego_call = "(RegoRuntimeError, 'a, CallbackRequestType) traced"

definition make_request_via_callback_channel :: "CallbackRequestType \<Rightarrow> channel \<Rightarrow> bytes rego_call" where
  "make_request_via_callback_channel request_type chan =
     (case chan request_type of
        SendFailed e \<Rightarrow> Err (CallbackSend e)
      | Answer (Inr payload) \<Rightarrow> Ok payload
      | Answer (Inl e) \<Rightarrow> Err (CallbackRequestError e)
      | NoAnswer \<Rightarrow> Err (CallbackResponseError ''channel closed''), [request_type])"

definition get_all_resources_by_type ::
  "rego_parsers \<Rightarrow> channel \<Rightarrow> ContextAwareResource \<Rightarrow> kube_object list rego_call" where
  "get_all_resources_by_type rp chan resource_type =
     traced_then (make_request_via_callback_channel
         (KubernetesListResourceAll (car_api_version resource_type) (car_kind resource_type)
            None None None) chan)
       (\<lambda>payload. pure_result (map_err CallbackConvertList (rp_list rp payload)))"

definition get_allowed_resources ::
  "rego_parsers \<Rightarrow> channel \<Rightarrow> ContextAwareResource set \<Rightarrow>
   (ContextAwareResource \<times> kube_object list) list rego_call" where
  "get_allowed_resources rp chan allowed_resources =
     traced_map (\<lambda>resource. traced_then (get_all_resources_by_type rp chan resource)
                              (\<lambda>l. (Ok (resource, l), [])))
       (sorted_list_of_set allowed_resources)"

definition has_resource_changed_since ::
  "rego_parsers \<Rightarrow> channel \<Rightarrow> ContextAwareResource \<Rightarrow> instant \<Rightarrow> bool rego_call" where
  "has_resource_changed_since rp chan resource_type since =
     traced_then (make_request_via_callback_channel
         (HasKubernetesListResourceAllResultChangedSinceInstant (car_api_version resource_type)
            (car_kind resource_type) None None None since) chan)
       (\<lambda>payload. pure_result (map_err CallbackConvertBool (rp_bool rp payload)))"

fun changed_loop ::
  "rego_parsers \<Rightarrow> channel \<Rightarrow> instant \<Rightarrow> ContextAwareResource list \<Rightarrow> bool rego_call" where
  "changed_loop rp chan since [] = (Ok False, [])"
| "changed_loop rp chan since (resource # resources) =
     traced_then (has_resource_changed_since rp chan resource since) (\<lambda>changed.
       if changed then (Ok True, []) else changed_loop rp chan since resources)"

definition have_allowed_resources_changed_since_instant ::
  "rego_parsers \<Rightarrow> channel \<Rightarrow> ContextAwareResource set \<Rightarrow> instant \<Rightarrow> bool rego_call" where
  "have_allowed_resources_changed_since_instant rp chan allowed_resources since =
     changed_loop rp chan since (sorted_list_of_set allowed_resources)"

definition get_plural_names ::
  "rego_parsers \<Rightarrow> channel \<Rightarrow> ContextAwareResource set \<Rightarrow>
   (ContextAwareResource \<times> string) list rego_call" where
  "get_plural_names rp chan allowed_resources =
     traced_map (\<lambda>resource.
         traced_then (make_request_via_callback_channel
             (KubernetesGetResourcePluralName (car_api_version resource) (car_kind resource)) chan)
           (\<lambda>payload. pure_result (map_ok (Pair resource)
              (map_err CallbackGetPluralName (rp_string rp payload)))))
       (sorted_list_of_set allowed_resources)"

section \<open>Inventories\<close>

text \<open>\<^verbatim>\<open>map.entry(k).or_default()\<close> followed by an operation on the entry.\<close>

definition with_entry :: "'k \<Rightarrow> 'v \<Rightarrow> ('v \<Rightarrow> 'e + 'v) \<Rightarrow> ('k \<rightharpoonup> 'v) \<Rightarrow> 'e + ('k \<rightharpoonup> 'v)" where
  "with_entry k d f m = map_ok (\<lambda>v. m(k \<mapsto> v)) (f (case m k of None \<Rightarrow> d | Some v \<Rightarrow> v))"

type_synonym ResourcesByName = "string \<rightharpoonup> kube_object"

definition by_name_register ::
  "RegoRuntimeError \<Rightarrow> kube_object \<Rightarrow> ResourcesByName \<Rightarrow> RegoRuntimeError + ResourcesByName" where
  "by_name_register missing obj m =
     try_then (ok_or missing (ko_name obj)) (\<lambda>name. Ok (m(name \<mapsto> obj)))"

subsection \<open>OPA\<close>

type_synonym opa_by_namespace = "string \<rightharpoonup> ResourcesByName"

datatype ResourcesByScope =
    ScopeCluster ResourcesByName
  | ScopeNamespace opa_by_namespace

type_synonym OpaInventory = "string \<rightharpoonup> ResourcesByScope"

definition opa_by_namespace_register ::
  "kube_object \<Rightarrow> opa_by_namespace \<Rightarrow> RegoRuntimeError + opa_by_namespace" where
  "opa_by_namespace_register obj m =
     try_then (ok_or OpaInventoryMissingNamespace (ko_namespace obj)) (\<lambda>namespace.
       with_entry namespace Map.empty (by_name_register OpaInventoryMissingName obj) m)"

fun by_scope_register :: "kube_object \<Rightarrow> ResourcesByScope \<Rightarrow> RegoRuntimeError + ResourcesByScope" where
  "by_scope_register obj (ScopeCluster m) =
     map_ok ScopeCluster (by_name_register OpaInventoryMissingName obj m)"
| "by_scope_register obj (ScopeNamespace m) =
     map_ok ScopeNamespace (opa_by_namespace_register obj m)"

definition opa_register ::
  "string \<Rightarrow> kube_object \<Rightarrow> OpaInventory \<Rightarrow> RegoRuntimeError + OpaInventory" where
  "opa_register plural_name obj inventory =
     (let obj_namespaced = (ko_namespace obj \<noteq> None) in
      case inventory plural_name of
        Some scope \<Rightarrow>
          (case scope of
             ScopeCluster _ \<Rightarrow> if obj_namespaced then Err OpaInventoryAddNamespacedRes
                              else map_ok (\<lambda>s. inventory(plural_name \<mapsto> s)) (by_scope_register obj scope)
           | ScopeNamespace _ \<Rightarrow> if \<not> obj_namespaced then Err OpaInventoryAddClusterwideRes
                              else map_ok (\<lambda>s. inventory(plural_name \<mapsto> s)) (by_scope_register obj scope))
      | None \<Rightarrow>
          map_ok (\<lambda>s. inventory(plural_name \<mapsto> s))
            (by_scope_register obj
              (if obj_namespaced then ScopeNamespace Map.empty else ScopeCluster Map.empty)))"

definition opa_inventory_new ::
  "(ContextAwareResource \<times> kube_object list) list \<Rightarrow> (ContextAwareResource \<times> string) list \<Rightarrow>
   RegoRuntimeError + OpaInventory" where
  "opa_inventory_new kube_resources plural_names =
     try_fold (\<lambda>inventory (resource, resources_list).
         try_then (ok_or (OpaInventoryMissingPluralName resource) (map_of plural_names resource))
           (\<lambda>plural_name. try_fold (\<lambda>ivt obj. opa_register plural_name obj ivt) inventory resources_list))
       Map.empty kube_resources"

fun opa_lookup :: "OpaInventory \<Rightarrow> string \<Rightarrow> string option \<Rightarrow> string \<Rightarrow> kube_object option" where
  "opa_lookup ivt plural None name =
     (case ivt plural of Some (ScopeCluster m) \<Rightarrow> m name | _ \<Rightarrow> None)"
| "opa_lookup ivt plural (Some ns) name =
     (case ivt plural of
        Some (ScopeNamespace m) \<Rightarrow> (case m ns of None \<Rightarrow> None | Some m' \<Rightarrow> m' name)
      | _ \<Rightarrow> None)"

subsection \<open>Gatekeeper\<close>

type_synonym ResourcesByKind = "string \<rightharpoonup> ResourcesByName"
type_synonym ResourcesByGroupVersion = "string \<rightharpoonup> ResourcesByKind"
type_synonym gk_by_namespace = "string \<rightharpoonup> ResourcesByGroupVersion"

record GatekeeperInventory =
  gk_cluster_resources :: ResourcesByGroupVersion
  gk_namespaced_resources :: gk_by_namespace

definition by_kind_register ::
  "ContextAwareResource \<Rightarrow> kube_object \<Rightarrow> ResourcesByKind \<Rightarrow> RegoRuntimeError + ResourcesByKind" where
  "by_kind_register resource obj =
     with_entry (car_kind resource) Map.empty (by_name_register GatekeeperInventoryMissingName obj)"

definition by_group_version_register ::
  "ContextAwareResource \<Rightarrow> kube_object \<Rightarrow> ResourcesByGroupVersion \<Rightarrow>
   RegoRuntimeError + ResourcesByGroupVersion" where
  "by_group_version_register resource obj =
     with_entry (car_api_version resource) Map.empty (by_kind_register resource obj)"

definition gk_by_namespace_register ::
  "ContextAwareResource \<Rightarrow> kube_object \<Rightarrow> gk_by_namespace \<Rightarrow> RegoRuntimeError + gk_by_namespace" where
  "gk_by_namespace_register resource obj m =
     try_then (ok_or GatekeeperInventoryMissingNamespace (ko_namespace obj)) (\<lambda>namespace.
       with_entry namespace Map.empty (by_group_version_register resource obj) m)"

definition gatekeeper_register ::
  "ContextAwareResource \<Rightarrow> kube_object \<Rightarrow> GatekeeperInventory \<Rightarrow>
   RegoRuntimeError + GatekeeperInventory" where
  "gatekeeper_register resource obj inventory =
     (case ko_namespace obj of
        Some _ \<Rightarrow> map_ok (\<lambda>m. inventory \<lparr> gk_namespaced_resources := m \<rparr>)
                    (gk_by_namespace_register resource obj (gk_namespaced_resources inventory))
      | None \<Rightarrow> map_ok (\<lambda>m. inventory \<lparr> gk_cluster_resources := m \<rparr>)
                    (by_group_version_register resource obj (gk_cluster_resources inventory)))"

definition GatekeeperInventory_default :: GatekeeperInventory where
  "GatekeeperInventory_default =
     \<lparr> gk_cluster_resources = Map.empty, gk_namespaced_resources = Map.empty \<rparr>"

definition gatekeeper_inventory_new ::
  "(ContextAwareResource \<times> kube_object list) list \<Rightarrow> RegoRuntimeError + GatekeeperInventory" where
  "gatekeeper_inventory_new kube_resources =
     try_fold (\<lambda>inventory (resource, resources_list).
         try_fold (\<lambda>ivt obj. gatekeeper_register resource obj ivt) inventory resources_list)
       GatekeeperInventory_default kube_resources"

definition by_group_version_lookup ::
  "ResourcesByGroupVersion \<Rightarrow> ContextAwareResource \<Rightarrow> string \<Rightarrow> kube_object option" where
  "by_group_version_lookup m resource name =
     Option.bind (Option.bind (m (car_api_version resource)) (\<lambda>k. k (car_kind resource))) (\<lambda>n. n name)"

fun gatekeeper_lookup ::
  "GatekeeperInventory \<Rightarrow> ContextAwareResource \<Rightarrow> string option \<Rightarrow> string \<Rightarrow> kube_object option" where
  "gatekeeper_lookup ivt resource None name =
     by_group_version_lookup (gk_cluster_resources ivt) resource name"
| "gatekeeper_lookup ivt resource (Some ns) name =
     Option.bind (gk_namespaced_resources ivt ns) (\<lambda>m. by_group_version_lookup m resource name)"

section \<open>The contract of an inventory\<close>

text \<open>
  Registering an object under a key makes exactly that object visible under its namespace
  and name, and changes nothing else; an object without a name is refused.  It follows that
  an inventory filled from a list shows, for each key, namespace and name, the last such
  object of the list, and nothing that is not in the list.
\<close>

text \<open>Where a named object is found.\<close>

definition obj_key :: "'k \<times> kube_object \<Rightarrow> 'k \<times> string option \<times> string" where
  "obj_key ko = (fst ko, ko_namespace (snd ko), the (ko_name (snd ko)))"

locale inventory =
  fixes register :: "'k \<Rightarrow> kube_object \<Rightarrow> 'ivt \<Rightarrow> RegoRuntimeError + 'ivt"
    and lookup_obj :: "'ivt \<Rightarrow> 'k \<Rightarrow> string option \<Rightarrow> string \<Rightarrow> kube_object option"
    and empty_inv :: 'ivt
  assumes lookup_empty: "lookup_obj empty_inv k ns n = None"
    and register_lookup: "register k obj ivt = Ok ivt' \<Longrightarrow>
      \<exists>name. ko_name obj = Some name \<and>
        (\<forall>k' ns n. lookup_obj ivt' k' ns n =
           (if k' = k \<and> ns = ko_namespace obj \<and> n = name then Some obj
            else lookup_obj ivt k' ns n))"
begin

lemma register_all_lookup:
  "try_fold (\<lambda>ivt (k, obj). register k obj ivt) ivt objs = Ok ivt' \<Longrightarrow>
   lookup_obj ivt' k ns n =
     (case map_of (rev (map (\<lambda>ko. (obj_key ko, snd ko)) objs)) (k, ns, n) of
        None \<Rightarrow> lookup_obj ivt k ns n
      | Some obj \<Rightarrow> Some obj)"
proof (induction objs arbitrary: ivt)
  case (Cons ko objs)
  obtain k0 obj where ko: "ko = (k0, obj)" by (cases ko)
  from Cons.prems obtain ivt1 where
    reg: "register k0 obj ivt = Ok ivt1"
    and rest: "try_fold (\<lambda>ivt (k, obj). register k obj ivt) ivt1 objs = Ok ivt'"
    by (auto simp: ko result_simps)
  from register_lookup [OF reg] obtain name where name: "ko_name obj = Some name"
    "\<And>k' ns n. lookup_obj ivt1 k' ns n =
       (if k' = k0 \<and> ns = ko_namespace obj \<and> n = name then Some obj else lookup_obj ivt k' ns n)"
    by blast
  show ?case
    using Cons.IH [OF rest] name
    by (auto simp: ko obj_key_def map_add_def split: option.splits)
qed simp

lemma filled_lookup:
  assumes "try_fold (\<lambda>ivt (k, obj). register k obj ivt) empty_inv objs = Ok ivt"
  shows "lookup_obj ivt k ns n = map_of (rev (map (\<lambda>ko. (obj_key ko, snd ko)) objs)) (k, ns, n)"
  using register_all_lookup [OF assms, of k ns n] by (simp add: lookup_empty split: option.splits)

lemma filled_sound:
  assumes "try_fold (\<lambda>ivt (k, obj). register k obj ivt) empty_inv objs = Ok ivt"
    and "lookup_obj ivt k ns n = Some obj"
  shows "(k, obj) \<in> set objs \<and> ko_namespace obj = ns \<and> the (ko_name obj) = n"
  using assms(2) unfolding filled_lookup [OF assms(1)]
  by (auto dest!: map_of_SomeD simp: obj_key_def)

lemma filled_named:
  "try_fold (\<lambda>ivt (k, obj). register k obj ivt) ivt objs = Ok ivt' \<Longrightarrow>
     (k, obj) \<in> set objs \<Longrightarrow> \<exists>name. ko_name obj = Some name"
proof (induction objs arbitrary: ivt)
  case (Cons ko objs)
  obtain k0 obj0 where ko: "ko = (k0, obj0)" by (cases ko)
  with Cons.prems(1) obtain ivt1 where first: "register k0 obj0 ivt = Ok ivt1"
    and rest: "try_fold (\<lambda>ivt (k, obj). register k obj ivt) ivt1 objs = Ok ivt'"
    by (auto simp: result_simps)
  have "\<exists>name. ko_name obj0 = Some name" using register_lookup [OF first] by blast
  with Cons.IH [OF rest] Cons.prems(2) ko show ?case by auto
qed simp

lemma filled_complete:
  assumes fill: "try_fold (\<lambda>ivt (k, obj). register k obj ivt) empty_inv objs = Ok ivt"
    and "(k, obj) \<in> set objs"
  shows "\<exists>name obj'. ko_name obj = Some name \<and>
           lookup_obj ivt k (ko_namespace obj) name = Some obj'"
proof -
  from filled_named [OF assms] obtain name where name: "ko_name obj = Some name" by blast
  let ?t = "map (\<lambda>ko. (obj_key ko, snd ko)) objs"
  have "obj_key (k, obj) \<in> fst ` set (rev ?t)" using assms(2) by force
  then have "map_of (rev ?t) (obj_key (k, obj)) \<noteq> None"
    by (simp add: map_of_eq_None_iff)
  with name show ?thesis
    unfolding filled_lookup [OF fill] by (simp add: obj_key_def)
qed

end

section \<open>Both inventories keep the contract\<close>

lemma with_entry_Ok_iff:
  "with_entry k d f m = Ok m' \<longleftrightarrow>
     (\<exists>v. f (case m k of None \<Rightarrow> d | Some v \<Rightarrow> v) = Ok v \<and> m' = m(k \<mapsto> v))"
  by (auto simp: with_entry_def result_simps)

lemma by_name_register_Ok_iff:
  "by_name_register e obj m = Ok m' \<longleftrightarrow> (\<exists>n. ko_name obj = Some n \<and> m' = m(n \<mapsto> obj))"
  by (auto simp: by_name_register_def result_simps)

lemma opa_register_lookup:
  assumes "opa_register k obj ivt = Ok ivt'"
  shows "\<exists>name. ko_name obj = Some name \<and>
     (\<forall>k' ns n. opa_lookup ivt' k' ns n =
        (if k' = k \<and> ns = ko_namespace obj \<and> n = name then Some obj else opa_lookup ivt k' ns n))"
proof (cases "ko_namespace obj")
  case None
  with assms obtain m name where
    m: "(ivt k = None \<and> m = Map.empty) \<or> ivt k = Some (ScopeCluster m)"
    and name: "ko_name obj = Some name" "ivt' = ivt(k \<mapsto> ScopeCluster (m(name \<mapsto> obj)))"
    by (auto simp: opa_register_def result_simps by_name_register_Ok_iff
        split: option.splits ResourcesByScope.splits)
  have "opa_lookup ivt' k' ns n =
      (if k' = k \<and> ns = ko_namespace obj \<and> n = name then Some obj else opa_lookup ivt k' ns n)" for k' ns n
    using m by (cases ns) (auto simp: name None split: option.splits)
  with name show ?thesis by blast
next
  case (Some s)
  with assms obtain m m1 name where
    m: "(ivt k = None \<and> m = Map.empty) \<or> ivt k = Some (ScopeNamespace m)"
    and m1: "m1 = (case m s of None \<Rightarrow> Map.empty | Some v \<Rightarrow> v)"
    and name: "ko_name obj = Some name"
      "ivt' = ivt(k \<mapsto> ScopeNamespace (m(s \<mapsto> m1(name \<mapsto> obj))))"
    by (auto simp: opa_register_def result_simps by_name_register_Ok_iff with_entry_Ok_iff
        opa_by_namespace_register_def split: option.splits ResourcesByScope.splits)
  have "opa_lookup ivt' k' ns n =
      (if k' = k \<and> ns = ko_namespace obj \<and> n = name then Some obj else opa_lookup ivt k' ns n)" for k' ns n
    using m by (cases ns) (auto simp: name Some m1 split: option.splits)
  with name show ?thesis by blast
qed

interpretation opa: inventory opa_register opa_lookup Map.empty
proof unfold_locales
  fix k ns n
  show "opa_lookup Map.empty k ns n = None" by (cases ns) auto
qed (rule opa_register_lookup)

lemma by_group_version_register_lookup:
  assumes "by_group_version_register r obj m = Ok m'"
  shows "\<exists>name. ko_name obj = Some name \<and>
     (\<forall>r' n. by_group_version_lookup m' r' n =
        (if r' = r \<and> n = name then Some obj else by_group_version_lookup m r' n))"
proof -
  define ks where "ks = (case m (car_api_version r) of None \<Rightarrow> Map.empty | Some v \<Rightarrow> v)"
  define objs where "objs = (case ks (car_kind r) of None \<Rightarrow> Map.empty | Some v \<Rightarrow> v)"
  from assms obtain name where name: "ko_name obj = Some name"
    and m': "m' = m(car_api_version r \<mapsto> ks(car_kind r \<mapsto> objs(name \<mapsto> obj)))"
    unfolding objs_def ks_def
    by (auto simp: by_group_version_register_def by_kind_register_def with_entry_Ok_iff
        by_name_register_Ok_iff)
  have "by_group_version_lookup m' r' n =
      (if r' = r \<and> n = name then Some obj else by_group_version_lookup m r' n)" for r' n
    by (cases r; cases r')
      (auto simp: by_group_version_lookup_def m' ks_def objs_def split: option.splits)
  with name show ?thesis by blast
qed

lemma gatekeeper_register_lookup:
  assumes "gatekeeper_register k obj ivt = Ok ivt'"
  shows "\<exists>name. ko_name obj = Some name \<and>
     (\<forall>k' ns n. gatekeeper_lookup ivt' k' ns n =
        (if k' = k \<and> ns = ko_namespace obj \<and> n = name then Some obj else gatekeeper_lookup ivt k' ns n))"
proof (cases "ko_namespace obj")
  case None
  with assms obtain m where
    m: "by_group_version_register k obj (gk_cluster_resources ivt) = Ok m"
      "ivt' = ivt \<lparr> gk_cluster_resources := m \<rparr>"
    by (auto simp: gatekeeper_register_def result_simps)
  from by_group_version_register_lookup [OF m(1)] obtain name where
    name: "ko_name obj = Some name"
      "\<And>r' n. by_group_version_lookup m r' n =
        (if r' = k \<and> n = name then Some obj
         else by_group_version_lookup (gk_cluster_resources ivt) r' n)" by blast
  have "gatekeeper_lookup ivt' k' ns n =
      (if k' = k \<and> ns = ko_namespace obj \<and> n = name then Some obj
       else gatekeeper_lookup ivt k' ns n)" for k' ns n
    by (cases ns) (auto simp: m(2) None name(2))
  with name(1) show ?thesis by blast
next
  case (Some s)
  let ?old = "case gk_namespaced_resources ivt s of None \<Rightarrow> Map.empty | Some v \<Rightarrow> v"
  from assms Some obtain m where
    m: "by_group_version_register k obj ?old = Ok m"
      "ivt' = ivt \<lparr> gk_namespaced_resources := (gk_namespaced_resources ivt)(s \<mapsto> m) \<rparr>"
    by (auto simp: gatekeeper_register_def gk_by_namespace_register_def result_simps with_entry_Ok_iff)
  from by_group_version_register_lookup [OF m(1)] obtain name where
    name: "ko_name obj = Some name"
      "\<And>r' n. by_group_version_lookup m r' n =
        (if r' = k \<and> n = name then Some obj else by_group_version_lookup ?old r' n)" by blast
  have old: "by_group_version_lookup ?old r n =
      Option.bind (gk_namespaced_resources ivt s) (\<lambda>m. by_group_version_lookup m r n)" for r n
    by (cases "gk_namespaced_resources ivt s") (auto simp: by_group_version_lookup_def)
  have "gatekeeper_lookup ivt' k' ns n =
      (if k' = k \<and> ns = ko_namespace obj \<and> n = name then Some obj
       else gatekeeper_lookup ivt k' ns n)" for k' ns n
    by (cases ns) (auto simp: m(2) Some name(2) old)
  with name(1) show ?thesis by blast
qed

interpretation gatekeeper: inventory gatekeeper_register gatekeeper_lookup GatekeeperInventory_default
proof unfold_locales
  fix k ns n
  show "gatekeeper_lookup GatekeeperInventory_default k ns n = None"
    by (cases ns) (auto simp: GatekeeperInventory_default_def by_group_version_lookup_def)
qed (rule gatekeeper_register_lookup)

section \<open>The cache of Gatekeeper inventories\<close>

record CachedInventory =
  ci_data :: string
  ci_cache_time :: instant

type_synonym GateKeeperInventoryCache = "ContextAwareResource set \<rightharpoonup> CachedInventory"

text \<open>The argument \<open>now\<close> is the clock when the call starts; \<open>ser\<close> is the serializer of the
  inventory.  The updated cache is part of a successful result: a failing call leaves the
  cache as it was.\<close>

definition create_and_register_inventory ::
  "rego_parsers \<Rightarrow> (GatekeeperInventory \<Rightarrow> string + string) \<Rightarrow> instant \<Rightarrow> channel \<Rightarrow>
   ContextAwareResource set \<Rightarrow> GateKeeperInventoryCache \<Rightarrow>
   (CachedInventory \<times> GateKeeperInventoryCache) rego_call" where
  "create_and_register_inventory rp ser now chan ctx_aware_resources cache =
     traced_then (get_allowed_resources rp chan ctx_aware_resources) (\<lambda>cluster_resources.
     traced_then (pure_result (gatekeeper_inventory_new cluster_resources)) (\<lambda>inventory.
     traced_then (pure_result (map_err GatekeeperInventorySerializationError (ser inventory))) (\<lambda>data.
       let cached = \<lparr> ci_data = data, ci_cache_time = now \<rparr>
       in (Ok (cached, cache(ctx_aware_resources \<mapsto> cached)), []))))"

definition get_inventory ::
  "rego_parsers \<Rightarrow> (GatekeeperInventory \<Rightarrow> string + string) \<Rightarrow> instant \<Rightarrow> channel \<Rightarrow>
   ContextAwareResource set \<Rightarrow> GateKeeperInventoryCache \<Rightarrow>
   (string \<times> GateKeeperInventoryCache) rego_call" where
  "get_inventory rp ser now chan ctx_aware_resources cache =
     (let create = create_and_register_inventory rp ser now chan ctx_aware_resources cache in
      traced_then
        (case cache ctx_aware_resources of
           None \<Rightarrow> create
         | Some cached \<Rightarrow>
             traced_then (have_allowed_resources_changed_since_instant rp chan ctx_aware_resources
                            (ci_cache_time cached)) (\<lambda>changed.
               if changed then create else (Ok (cached, cache), [])))
        (\<lambda>(inventory, cache'). (Ok (ci_data inventory, cache'), [])))"

section \<open>The Kubernetes context of an evaluation\<close>

definition build_kubernetes_context ::
  "rego_parsers \<Rightarrow> (GatekeeperInventory \<Rightarrow> string + string) \<Rightarrow> (OpaInventory \<Rightarrow> json) \<Rightarrow> instant \<Rightarrow>
   RegoPolicyExecutionMode \<Rightarrow> channel option \<Rightarrow> ContextAwareResource set \<Rightarrow>
   GateKeeperInventoryCache \<Rightarrow> (KubernetesContext \<times> GateKeeperInventoryCache) rego_call" where
  "build_kubernetes_context rp ser opa_json now mode callback_channel allow_list cache =
     (if allow_list = {} then (Ok (KC_Empty, cache), [])
      else case callback_channel of
        None \<Rightarrow> (Err CallbackChannelNotSet, [])
      | Some chan \<Rightarrow>
          (case mode of
             RegoOpa \<Rightarrow>
               traced_then (get_allowed_resources rp chan allow_list) (\<lambda>cluster_resources.
               traced_then (get_plural_names rp chan allow_list) (\<lambda>plural_names.
               traced_then (pure_result (opa_inventory_new cluster_resources plural_names)) (\<lambda>inventory.
                 (Ok (KC_Opa (opa_json inventory), cache), []))))
           | RegoGatekeeper \<Rightarrow>
               traced_then (get_inventory rp ser now chan allow_list cache) (\<lambda>(data, cache').
                 (Ok (KC_Gatekeeper data, cache'), []))))"

section \<open>Lemmas\<close>

lemma opa_inventory_new_flat:
  assumes "opa_inventory_new krs pns = Ok ivt"
  shows "try_fold (\<lambda>ivt (k, obj). opa_register k obj ivt) Map.empty
           (concat (map (\<lambda>(r, l). map (Pair (the (map_of pns r))) l) krs)) = Ok ivt"
    and "(r, l) \<in> set krs \<Longrightarrow> map_of pns r \<noteq> None"
proof -
  let ?step = "\<lambda>inventory (resource, resources_list).
         try_then (ok_or (OpaInventoryMissingPluralName resource) (map_of pns resource))
           (\<lambda>plural_name. try_fold (\<lambda>ivt obj. opa_register plural_name obj ivt) inventory resources_list)"
  let ?reg = "\<lambda>ivt (k, obj). opa_register k obj ivt"
  have "try_fold ?step s krs = Ok t \<Longrightarrow>
      try_fold ?reg s (concat (map (\<lambda>(r, l). map (Pair (the (map_of pns r))) l) krs)) = Ok t \<and>
      (\<forall>(r, l)\<in>set krs. map_of pns r \<noteq> None)" for s t
  proof (induction krs arbitrary: s)
    case (Cons kr krs)
    then show ?case
    proof (cases kr)
      case (Pair r l)
      with Cons.prems obtain pl u where
        "map_of pns r = Some pl" "try_fold (\<lambda>ivt obj. opa_register pl obj ivt) s l = Ok u"
        and rest: "try_fold ?step u krs = Ok t"
        by (auto simp: result_simps)
      with Cons.IH [OF rest] Pair show ?thesis
        by (simp add: try_fold_append try_fold_map)
    qed
  qed simp
  with assms show "try_fold ?reg Map.empty
      (concat (map (\<lambda>(r, l). map (Pair (the (map_of pns r))) l) krs)) = Ok ivt"
    and "(r, l) \<in> set krs \<Longrightarrow> map_of pns r \<noteq> None"
    unfolding opa_inventory_new_def by blast+
qed

lemma gatekeeper_inventory_new_flat:
  "gatekeeper_inventory_new krs =
     try_fold (\<lambda>ivt (k, obj). gatekeeper_register k obj ivt) GatekeeperInventory_default
       (concat (map (\<lambda>(r, l). map (Pair r) l) krs))"
  unfolding gatekeeper_inventory_new_def by (rule try_fold_nested)

text \<open>Which requests the queries put on the channel.\<close>

definition query_about :: "ContextAwareResource \<Rightarrow> CallbackRequestType \<Rightarrow> bool" where
  "query_about r req \<longleftrightarrow>
     req = KubernetesListResourceAll (car_api_version r) (car_kind r) None None None \<or>
     req = KubernetesGetResourcePluralName (car_api_version r) (car_kind r) \<or>
     (\<exists>since. req = HasKubernetesListResourceAllResultChangedSinceInstant (car_api_version r)
                      (car_kind r) None None None since)"

lemma snd_make_request [simp]: "snd (make_request_via_callback_channel req chan) = [req]"
  by (simp add: make_request_via_callback_channel_def)

lemma snd_pure_result [simp]: "snd (pure_result r) = []" "fst (pure_result r) = r"
  by (simp_all add: pure_result_def)

lemma get_all_resources_by_type_trace:
  "set (snd (get_all_resources_by_type rp chan r)) \<subseteq> {req. query_about r req}"
  by (auto simp: get_all_resources_by_type_def snd_traced_then query_about_def split: sum.splits)

lemma get_allowed_resources_trace:
  assumes "finite R"
  shows "set (snd (get_allowed_resources rp chan R)) \<subseteq> {req. \<exists>r\<in>R. query_about r req}"
proof -
  have "set (snd (get_allowed_resources rp chan R)) \<subseteq>
      (\<Union>r\<in>set (sorted_list_of_set R).
        set (snd (traced_then (get_all_resources_by_type rp chan r) (\<lambda>l. (Ok (r, l), [])))))"
    unfolding get_allowed_resources_def by (rule snd_traced_map_subset)
  also have "\<dots> \<subseteq> {req. \<exists>r\<in>R. query_about r req}"
    using assms get_all_resources_by_type_trace [of rp chan]
    by (auto simp: snd_traced_then split: sum.splits)
  finally show ?thesis .
qed

lemma get_plural_names_trace:
  assumes "finite R"
  shows "set (snd (get_plural_names rp chan R)) \<subseteq> {req. \<exists>r\<in>R. query_about r req}"
proof -
  let ?f = "\<lambda>r. traced_then (make_request_via_callback_channel
             (KubernetesGetResourcePluralName (car_api_version r) (car_kind r)) chan)
           (\<lambda>payload. pure_result (map_ok (Pair r)
              (map_err CallbackGetPluralName (rp_string rp payload))))"
  have "set (snd (get_plural_names rp chan R)) \<subseteq>
      (\<Union>r\<in>set (sorted_list_of_set R). set (snd (?f r)))"
    unfolding get_plural_names_def by (rule snd_traced_map_subset)
  also have "\<dots> \<subseteq> {req. \<exists>r\<in>R. query_about r req}"
    using assms by (auto simp: snd_traced_then query_about_def split: sum.splits)
  finally show ?thesis .
qed

lemma changed_loop_trace:
  "set (snd (changed_loop rp chan since rs)) \<subseteq> {req. \<exists>r\<in>set rs. query_about r req}"
  by (induction rs)
    (auto simp: snd_traced_then has_resource_changed_since_def query_about_def
      split: sum.splits if_splits)

lemma create_trace:
  "finite R \<Longrightarrow> set (snd (create_and_register_inventory rp ser now chan R cache))
     \<subseteq> {req. \<exists>r\<in>R. query_about r req}"
  using get_allowed_resources_trace [of R rp chan]
  by (auto simp: create_and_register_inventory_def snd_traced_then Let_def split: sum.splits)

lemma get_inventory_trace:
  "finite R \<Longrightarrow> set (snd (get_inventory rp ser now chan R cache))
     \<subseteq> {req. \<exists>r\<in>R. query_about r req}"
  using create_trace [of R rp ser now chan cache]
    changed_loop_trace [of rp chan "ci_cache_time (the (cache R))" "sorted_list_of_set R"]
  by (auto simp: get_inventory_def snd_traced_then Let_def
      have_allowed_resources_changed_since_instant_def
      split: sum.splits option.splits prod.splits if_splits)

lemma changed_loop_False:
  "fst (changed_loop rp chan since rs) = Ok False \<longleftrightarrow>
     (\<forall>r\<in>set rs. fst (has_resource_changed_since rp chan r since) = Ok False)"
  by (induction rs) (auto simp: fst_traced_then result_simps split: if_splits)

lemma create_Ok_iff:
  "fst (create_and_register_inventory rp ser now chan R cache) = Ok (c, cache') \<longleftrightarrow>
     (\<exists>krs ivt data. fst (get_allowed_resources rp chan R) = Ok krs \<and>
        gatekeeper_inventory_new krs = Ok ivt \<and> ser ivt = Ok data \<and>
        c = \<lparr> ci_data = data, ci_cache_time = now \<rparr> \<and> cache' = cache(R \<mapsto> c))"
  by (auto simp: create_and_register_inventory_def fst_traced_then result_simps Let_def)

lemma get_allowed_resources_cong:
  assumes "finite R"
    and "\<And>r. r \<in> R \<Longrightarrow> fst (get_all_resources_by_type rp chan r) = fst (get_all_resources_by_type rp chan' r)"
  shows "fst (get_allowed_resources rp chan R) = fst (get_allowed_resources rp chan' R)"
  unfolding get_allowed_resources_def fst_traced_map
  using assms by (intro collect_map_cong) (simp add: fst_traced_then)

section \<open>Properties\<close>

text \<open>
  C28: the inventory shows the cluster as it was listed.  A Gatekeeper inventory holds at
  an API version, kind, namespace and name only an object listed for that resource with
  that namespace and name, and it holds one for every object that was listed.
\<close>

theorem gatekeeper_inventory_exact:
  assumes "gatekeeper_inventory_new krs = Ok ivt"
  shows "(\<forall>r ns n obj. gatekeeper_lookup ivt r ns n = Some obj \<longrightarrow>
            (\<exists>l. (r, l) \<in> set krs \<and> obj \<in> set l \<and> ko_namespace obj = ns \<and> ko_name obj = Some n)) \<and>
         (\<forall>r l obj. (r, l) \<in> set krs \<longrightarrow> obj \<in> set l \<longrightarrow>
            (\<exists>n obj'. ko_name obj = Some n \<and>
               gatekeeper_lookup ivt r (ko_namespace obj) n = Some obj'))"
proof (intro conjI allI impI)
  note fill = assms [unfolded gatekeeper_inventory_new_flat]
  fix r ns n obj
  assume found: "gatekeeper_lookup ivt r ns n = Some obj"
  note sound = gatekeeper.filled_sound [OF fill found]
  with gatekeeper.filled_named [OF fill, of r obj]
  show "\<exists>l. (r, l) \<in> set krs \<and> obj \<in> set l \<and> ko_namespace obj = ns \<and> ko_name obj = Some n"
    by auto
next
  note fill = assms [unfolded gatekeeper_inventory_new_flat]
  fix r l obj
  assume "(r, l) \<in> set krs" "obj \<in> set l"
  then have "(r, obj) \<in> set (concat (map (\<lambda>(r, l). map (Pair r) l) krs))" by force
  then show "\<exists>n obj'. ko_name obj = Some n \<and>
      gatekeeper_lookup ivt r (ko_namespace obj) n = Some obj'"
    by (rule gatekeeper.filled_complete [OF fill])
qed

theorem gatekeeper_inventory_exact_witness:
  "let pod = \<lparr> ko_name = Some ''web'', ko_namespace = Some ''prod'', ko_json = JNull \<rparr>;
       krs = [(ContextAwareResource ''v1'' ''Pod'', [pod])]
   in \<exists>ivt. gatekeeper_inventory_new krs = Ok ivt \<and>
        (\<exists>obj'. gatekeeper_lookup ivt (ContextAwareResource ''v1'' ''Pod'') (Some ''prod'') ''web'' = Some obj')"
proof -
  let ?pod = "\<lparr> ko_name = Some ''web'', ko_namespace = Some ''prod'', ko_json = JNull \<rparr>"
  let ?krs = "[(ContextAwareResource ''v1'' ''Pod'', [?pod])]"
  have "is_ok (gatekeeper_inventory_new ?krs)"
    by (simp add: gatekeeper_inventory_new_def gatekeeper_register_def gk_by_namespace_register_def
        by_group_version_register_def by_kind_register_def by_name_register_def with_entry_def
        GatekeeperInventory_default_def)
  then obtain ivt where ivt: "gatekeeper_inventory_new ?krs = Ok ivt" by (auto simp: is_ok_iff)
  then show ?thesis
    using gatekeeper_inventory_exact [OF ivt] by (simp add: Let_def)
qed

text \<open>
  The same for OPA policies, whose inventory is keyed by the plural name of the
  resource: it shows only listed objects, each under its resource's plural name, namespace
  and name, and misses none; and it exists only if every listed resource has a plural name.
\<close>

theorem opa_inventory_exact:
  assumes "opa_inventory_new krs pns = Ok ivt"
  shows "(\<forall>r l. (r, l) \<in> set krs \<longrightarrow> map_of pns r \<noteq> None) \<and>
         (\<forall>p ns n obj. opa_lookup ivt p ns n = Some obj \<longrightarrow>
            (\<exists>r l. (r, l) \<in> set krs \<and> map_of pns r = Some p \<and> obj \<in> set l \<and>
                   ko_namespace obj = ns \<and> ko_name obj = Some n)) \<and>
         (\<forall>r l p obj. (r, l) \<in> set krs \<longrightarrow> map_of pns r = Some p \<longrightarrow> obj \<in> set l \<longrightarrow>
            (\<exists>n obj'. ko_name obj = Some n \<and> opa_lookup ivt p (ko_namespace obj) n = Some obj'))"
proof (intro conjI allI impI)
  fix r l
  assume "(r, l) \<in> set krs"
  then show "map_of pns r \<noteq> None" by (rule opa_inventory_new_flat(2) [OF assms])
next
  note fill = opa_inventory_new_flat(1) [OF assms]
  fix p ns n obj
  assume found: "opa_lookup ivt p ns n = Some obj"
  from opa.filled_sound [OF fill found] have
    "(p, obj) \<in> set (concat (map (\<lambda>(r, l). map (Pair (the (map_of pns r))) l) krs))"
    "ko_namespace obj = ns" "the (ko_name obj) = n" by auto
  with opa.filled_named [OF fill, of p obj] opa_inventory_new_flat(2) [OF assms]
  show "\<exists>r l. (r, l) \<in> set krs \<and> map_of pns r = Some p \<and> obj \<in> set l \<and>
      ko_namespace obj = ns \<and> ko_name obj = Some n"
    by fastforce
next
  note fill = opa_inventory_new_flat(1) [OF assms]
  fix r l p obj
  assume "(r, l) \<in> set krs" "map_of pns r = Some p" "obj \<in> set l"
  then have "(p, obj) \<in> set (concat (map (\<lambda>(r, l). map (Pair (the (map_of pns r))) l) krs))"
    by force
  then show "\<exists>n obj'. ko_name obj = Some n \<and> opa_lookup ivt p (ko_namespace obj) n = Some obj'"
    by (rule opa.filled_complete [OF fill])
qed

theorem opa_inventory_exact_witness:
  "let ns = \<lparr> ko_name = Some ''prod'', ko_namespace = None, ko_json = JNull \<rparr>;
       krs = [(ContextAwareResource ''v1'' ''Namespace'', [ns])];
       pns = [(ContextAwareResource ''v1'' ''Namespace'', ''namespaces'')]
   in \<exists>ivt. opa_inventory_new krs pns = Ok ivt \<and>
        (\<exists>obj'. opa_lookup ivt ''namespaces'' None ''prod'' = Some obj')"
proof -
  let ?ns = "\<lparr> ko_name = Some ''prod'', ko_namespace = None, ko_json = JNull \<rparr>"
  let ?krs = "[(ContextAwareResource ''v1'' ''Namespace'', [?ns])]"
  let ?pns = "[(ContextAwareResource ''v1'' ''Namespace'', ''namespaces'')]"
  have "is_ok (opa_inventory_new ?krs ?pns)"
    by (simp add: opa_inventory_new_def opa_register_def by_name_register_def Let_def)
  then obtain ivt where ivt: "opa_inventory_new ?krs ?pns = Ok ivt" by (auto simp: is_ok_iff)
  then show ?thesis
    using opa_inventory_exact [OF ivt] by (simp add: Let_def)
qed

text \<open>An entry of the cache is what building the inventory at its time gave.\<close>

definition cache_coherent ::
  "rego_parsers \<Rightarrow> (GatekeeperInventory \<Rightarrow> string + string) \<Rightarrow> (instant \<Rightarrow> channel) \<Rightarrow>
   GateKeeperInventoryCache \<Rightarrow> bool" where
  "cache_coherent rp ser chan_at cache \<longleftrightarrow>
     (\<forall>R c. cache R = Some c \<longrightarrow>
        (\<exists>krs ivt. fst (get_allowed_resources rp (chan_at (ci_cache_time c)) R) = Ok krs \<and>
           gatekeeper_inventory_new krs = Ok ivt \<and> ser ivt = Ok (ci_data c)))"

lemma get_inventory_cases:
  assumes "fst (get_inventory rp ser now chan R cache) = Ok (data, cache')" "finite R"
  shows "(\<exists>c. fst (create_and_register_inventory rp ser now chan R cache) = Ok (c, cache') \<and>
             ci_data c = data) \<or>
         (\<exists>c. cache R = Some c \<and> ci_data c = data \<and> cache' = cache \<and>
             (\<forall>r\<in>R. fst (has_resource_changed_since rp chan r (ci_cache_time c)) = Ok False))"
  using assms
  by (auto simp: get_inventory_def fst_traced_then result_simps Let_def changed_loop_False
      have_allowed_resources_changed_since_instant_def split: option.splits if_splits prod.splits)

text \<open>
  C23: the cache of Gatekeeper inventories is transparent.  As long as an answer ``not
  changed since'' of the cluster means that the listing is the same as then, a cached
  inventory is exactly what building it now would give, and the cache stays in that state.
\<close>

theorem inventory_cache_transparent:
  assumes "cache_coherent rp ser chan_at cache" and "finite R"
    and unchanged: "\<And>r t. fst (has_resource_changed_since rp (chan_at now) r t) = Ok False \<Longrightarrow>
          fst (get_all_resources_by_type rp (chan_at now) r) =
          fst (get_all_resources_by_type rp (chan_at t) r)"
    and "fst (get_inventory rp ser now (chan_at now) R cache) = Ok (data, cache')"
  shows "cache_coherent rp ser chan_at cache' \<and>
         (\<exists>krs ivt. fst (get_allowed_resources rp (chan_at now) R) = Ok krs \<and>
            gatekeeper_inventory_new krs = Ok ivt \<and> ser ivt = Ok data)"
  using get_inventory_cases [OF assms(4,2)]
proof (elim disjE exE conjE)
  fix c
  assume "fst (create_and_register_inventory rp ser now (chan_at now) R cache) = Ok (c, cache')"
    and "ci_data c = data"
  with assms(1) show ?thesis
    by (auto simp: create_Ok_iff cache_coherent_def split: if_splits)
next
  fix c
  assume c: "cache R = Some c" "ci_data c = data" "cache' = cache"
    and same: "\<forall>r\<in>R. fst (has_resource_changed_since rp (chan_at now) r (ci_cache_time c)) = Ok False"
  have "fst (get_allowed_resources rp (chan_at now) R) =
      fst (get_allowed_resources rp (chan_at (ci_cache_time c)) R)"
    using same by (intro get_allowed_resources_cong [OF assms(2)] unchanged) auto
  with assms(1) c show ?thesis by (auto simp: cache_coherent_def)
qed

theorem inventory_cache_transparent_witness:
  "let rp = \<lparr> rp_list = (\<lambda>_. Ok []), rp_bool = (\<lambda>_. Ok False), rp_string = (\<lambda>_. Ok []) \<rparr>;
       R = {ContextAwareResource ''v1'' ''Pod''};
       chan_at = (\<lambda>_ _. Answer (Ok []));
       cache = [R \<mapsto> \<lparr> ci_data = ''{}'', ci_cache_time = 3 \<rparr>]
   in fst (get_inventory rp (\<lambda>_. Ok ''{}'') 7 (chan_at 7) R cache) = Ok (''{}'', cache) \<and>
      (\<exists>krs ivt. fst (get_allowed_resources rp (chan_at 7) R) = Ok krs \<and>
         gatekeeper_inventory_new krs = Ok ivt)"
proof -
  let ?rp = "\<lparr> rp_list = (\<lambda>_. Ok []), rp_bool = (\<lambda>_. Ok False), rp_string = (\<lambda>_. Ok []) \<rparr>"
  let ?R = "{ContextAwareResource ''v1'' ''Pod''}"
  let ?chan = "\<lambda>_ :: instant. \<lambda>_ :: CallbackRequestType. Answer (Ok [])"
  let ?cache = "[?R \<mapsto> \<lparr> ci_data = ''{}'', ci_cache_time = 3 \<rparr>]"
  have run: "fst (get_inventory ?rp (\<lambda>_. Ok ''{}'') 7 (?chan 7) ?R ?cache) = Ok (''{}'', ?cache)"
    by (simp add: get_inventory_def have_allowed_resources_changed_since_instant_def
        has_resource_changed_since_def make_request_via_callback_channel_def pure_result_def Let_def)
  have "fst (get_allowed_resources ?rp (?chan t) ?R) = Ok [(ContextAwareResource ''v1'' ''Pod'', [])]" for t
    by (simp add: get_allowed_resources_def get_all_resources_by_type_def
        make_request_via_callback_channel_def pure_result_def)
  then have coh: "cache_coherent ?rp (\<lambda>_. Ok ''{}'') ?chan ?cache"
    by (simp add: cache_coherent_def gatekeeper_inventory_new_def)
  have "\<exists>krs ivt. fst (get_allowed_resources ?rp (?chan 7) ?R) = Ok krs \<and>
      gatekeeper_inventory_new krs = Ok ivt \<and> (Ok ''{}'' :: string + string) = Ok ''{}''"
    by (rule inventory_cache_transparent [OF coh _ _ run, THEN conjunct2]) simp_all
  with run show ?thesis unfolding Let_def by blast
qed

text \<open>
  C31: a Rego policy asks the cluster only about the resources it was granted, and nothing
  at all if it was granted none.
\<close>

theorem rego_context_asks_only_granted:
  assumes "finite allow_list"
    and "req \<in> set (snd (build_kubernetes_context rp ser opa_json now mode chan allow_list cache))"
  shows "\<exists>r\<in>allow_list.
     req = KubernetesListResourceAll (car_api_version r) (car_kind r) None None None \<or>
     req = KubernetesGetResourcePluralName (car_api_version r) (car_kind r) \<or>
     (\<exists>since. req = HasKubernetesListResourceAllResultChangedSinceInstant (car_api_version r)
                      (car_kind r) None None None since)"
proof -
  have "\<exists>r\<in>allow_list. query_about r req"
  proof (cases chan)
    case None
    with assms show ?thesis by (auto simp: build_kubernetes_context_def split: if_splits)
  next
    case (Some c)
    with assms(2) show ?thesis
      using get_allowed_resources_trace [OF assms(1), of rp c]
        get_plural_names_trace [OF assms(1), of rp c]
        get_inventory_trace [OF assms(1), of rp ser now c cache]
      by (cases mode)
        (auto simp: build_kubernetes_context_def snd_traced_then
          split: if_splits sum.splits prod.splits)
  qed
  then show ?thesis by (simp add: query_about_def)
qed

theorem rego_context_asks_only_granted_witness:
  "let rp = \<lparr> rp_list = (\<lambda>_. Ok []), rp_bool = (\<lambda>_. Ok False), rp_string = (\<lambda>_. Ok []) \<rparr>;
       R = {ContextAwareResource ''v1'' ''Pod''};
       req = KubernetesListResourceAll ''v1'' ''Pod'' None None None
   in req \<in> set (snd (build_kubernetes_context rp (\<lambda>_. Ok []) (\<lambda>_. JNull) 0 RegoOpa
                        (Some (\<lambda>_. NoAnswer)) R Map.empty)) \<and>
      (\<exists>r\<in>R. req = KubernetesListResourceAll (car_api_version r) (car_kind r) None None None)"
proof -
  let ?rp = "\<lparr> rp_list = (\<lambda>_. Ok []), rp_bool = (\<lambda>_. Ok False), rp_string = (\<lambda>_. Ok []) \<rparr>"
  let ?R = "{ContextAwareResource ''v1'' ''Pod''}"
  let ?req = "KubernetesListResourceAll ''v1'' ''Pod'' None None None"
  have sent: "?req \<in> set (snd (build_kubernetes_context ?rp (\<lambda>_. Ok []) (\<lambda>_. JNull) 0 RegoOpa
      (Some (\<lambda>_. NoAnswer)) ?R Map.empty))"
    by (simp add: build_kubernetes_context_def get_allowed_resources_def
        get_all_resources_by_type_def make_request_via_callback_channel_def)
  show ?thesis
    using sent rego_context_asks_only_granted [OF _ sent] by (simp add: Let_def)
qed

text \<open>
  The queries of Rego policies do not pass the authorization gate.  The gate is
  documented as the one gate shared by every caller of the callback channel; a Rego policy
  to which the host capability \<^verbatim>\<open>kubernetes/list_resources_all\<close> is denied still lists the
  resources on its allow list over that channel, where the same request made through the
  gate is refused.
\<close>

theorem rego_queries_bypass_capability_gate:
  "let ctx = \<lparr> ec_policy_id = ''p'', ec_callback_channel = Some (),
               ec_ctx_aware_resources_allow_list = {ContextAwareResource ''v1'' ''Pod''},
               ec_epoch_deadline = None, ec_host_capabilities = DenyAll \<rparr>;
       req = KubernetesListResourceAll ''v1'' ''Pod'' None None None
   in snd (host_callback_typed (\<lambda>_ _. NoAnswer) ''kubernetes'' ''list_resources_all'' req ctx) = [] \<and>
      req \<in> set (snd (build_kubernetes_context
        \<lparr> rp_list = (\<lambda>_. Ok []), rp_bool = (\<lambda>_. Ok False), rp_string = (\<lambda>_. Ok []) \<rparr>
        (\<lambda>_. Ok []) (\<lambda>_. JNull) 0 RegoOpa (Some (\<lambda>_. NoAnswer))
        (ec_ctx_aware_resources_allow_list ctx) Map.empty))"
  by (simp add: Let_def host_callback_typed_events authorized_def build_kubernetes_context_def
      get_allowed_resources_def get_all_resources_by_type_def make_request_via_callback_channel_def)

end
