(* ===== verification/Ferricel.thy ===== *)
theory Ferricel
  imports Runtimes Evaluation_Context
begin

text \<open>
  The runtime of compiled ValidatingAdmissionPolicies
  (\<^verbatim>\<open>policy-evaluator/src/runtimes/ferricel/runtime.rs\<close>, \<^verbatim>\<open>errors.rs\<close>): the failure policy,
  the bindings handed to the compiled module, the handling of its errors, and the
  validation of the settings the runtime consumes.  The compiled module, the JSON parser
  and the label selector libraries are parameters.
\<close>

section \<open>Failure policy\<close>

datatype FailurePolicy = Fail | Ignore

definition INVALID_VALUE_MESSAGE :: string where
  "INVALID_VALUE_MESSAGE =
     ''failurePolicy must be either '' @ [CHR 39] @ ''Fail'' @ [CHR 39] @ '' or '' @
     [CHR 39] @ ''Ignore'' @ [CHR 39]"

definition FailurePolicy_from_value :: "json option \<Rightarrow> string + FailurePolicy" where
  "FailurePolicy_from_value value =
     (case value of
        None \<Rightarrow> Ok Fail
      | Some JNull \<Rightarrow> Ok Fail
      | Some (JString s) \<Rightarrow>
          (if s = ''Fail'' then Ok Fail
           else if s = ''Ignore'' then Ok Ignore
           else Err INVALID_VALUE_MESSAGE)
      | Some _ \<Rightarrow> Err INVALID_VALUE_MESSAGE)"

definition FailurePolicy_from_settings :: "PolicySettings \<Rightarrow> string + FailurePolicy" where
  "FailurePolicy_from_settings settings = FailurePolicy_from_value (map_of settings ''failurePolicy'')"

fun FailurePolicy_as_str :: "FailurePolicy \<Rightarrow> string" where
  "FailurePolicy_as_str Fail = ''Fail''"
| "FailurePolicy_as_str Ignore = ''Ignore''"

section \<open>Errors\<close>

record CelRuntimeError =
  cel_origin :: "string option"
  cel_message :: string

definition format_cel_error :: "CelRuntimeError \<Rightarrow> string" where
  "format_cel_error err =
     (case cel_origin err of
        Some origin \<Rightarrow> origin @ '': '' @ cel_message err
      | None \<Rightarrow> cel_message err)"

datatype FerricelRuntimeError =
    FR_ExecutionDeadlineExceeded
  | FR_CelRuntimeError CelRuntimeError
  | FR_EvalFailed string

text \<open>What the engine reports about a failed evaluation.\<close>

datatype engine_error = TrapInterrupt | CelError CelRuntimeError | OtherError string

fun classify_engine_error :: "engine_error \<Rightarrow> FerricelRuntimeError" where
  "classify_engine_error TrapInterrupt = FR_ExecutionDeadlineExceeded"
| "classify_engine_error (CelError e) = FR_CelRuntimeError e"
| "classify_engine_error (OtherError e) = FR_EvalFailed e"

definition stack_eval :: "(string \<Rightarrow> engine_error + string) \<Rightarrow> string \<Rightarrow> FerricelRuntimeError + string" where
  "stack_eval engine bindings = map_err classify_engine_error (engine bindings)"

section \<open>Validation of a request\<close>

fun option_to_json :: "json option \<Rightarrow> json" where
  "option_to_json None = JNull"
| "option_to_json (Some v) = v"

fun build_bindings ::
  "PolicySettings \<Rightarrow> ValidateRequest \<Rightarrow> FailurePolicy \<Rightarrow> AdmissionResponse + json" where
  "build_bindings settings (AdmissionReq r) failure_policy =
     Ok (JObject [(''object'', option_to_json (rq_object r)),
                  (''oldObject'', option_to_json (rq_old_object r)),
                  (''request'', AdmissionRequest_to_json r),
                  (''paramRef'', option_to_json (map_of settings ''paramRef'')),
                  (''failurePolicy'', JString (FailurePolicy_as_str failure_policy))])"
| "build_bindings settings (Raw v) failure_policy =
     Err (reject_internal_server_error (request_uid (Raw v))
            ''ferricel runtime does not support raw validation requests'')"

definition handle_cel_runtime_error ::
  "string \<Rightarrow> ValidateRequest \<Rightarrow> CelRuntimeError \<Rightarrow> FailurePolicy \<Rightarrow> AdmissionResponse" where
  "handle_cel_runtime_error policy_id request cel_err failure_policy =
     (let message = format_cel_error cel_err in
      case failure_policy of
        Fail \<Rightarrow> reject_internal_server_error (request_uid request) (''CEL runtime error: '' @ message)
      | Ignore \<Rightarrow>
          AdmissionResponse_default \<lparr> ar_uid := request_uid request, ar_allowed := True,
            ar_warnings := Some [''policy '' @ policy_id @
              '' skipped (failurePolicy is Ignore): CEL runtime error: '' @ message] \<rparr>)"

definition ferricel_validate ::
  "'op codec \<Rightarrow> string \<Rightarrow> (string \<Rightarrow> engine_error + string) \<Rightarrow> PolicySettings \<Rightarrow> ValidateRequest \<Rightarrow>
   AdmissionResponse" where
  "ferricel_validate cd policy_id engine settings request =
     (let uid = request_uid request;
          failure_policy = (case FailurePolicy_from_settings settings of Inr f \<Rightarrow> f | Inl _ \<Rightarrow> Fail)
      in case build_bindings settings request failure_policy of
           Inl response \<Rightarrow> response
         | Inr bindings \<Rightarrow>
           (case cd_to_string cd bindings of
              Inl e \<Rightarrow> reject_internal_server_error uid e
            | Inr bindings_str \<Rightarrow>
              (case stack_eval engine bindings_str of
                 Inr result_str \<Rightarrow>
                   (case cd_from_pvr cd result_str of
                      Inr pvr \<Rightarrow>
                        (case response_of_verdict cd uid
                                (json_get ''object'' (ValidateRequest_to_json request)) pvr of
                           Inr r \<Rightarrow> r
                         | Inl e \<Rightarrow> reject_internal_server_error uid
                             (''Cannot convert policy validation response: '' @ ResponseError_to_string e))
                    | Inl e \<Rightarrow> reject_internal_server_error uid
                        (''Cannot deserialize ferricel response: '' @ e))
               | Inl FR_ExecutionDeadlineExceeded \<Rightarrow> reject uid deadline_message 500
               | Inl (FR_CelRuntimeError cel_err) \<Rightarrow>
                   handle_cel_runtime_error policy_id request cel_err failure_policy
               | Inl (FR_EvalFailed e) \<Rightarrow>
                   reject_internal_server_error uid (''ferricel evaluation failed: '' @ e))))"

section \<open>Validation of settings\<close>

fun optional_str_field :: "(string \<times> json) list \<Rightarrow> string \<Rightarrow> string \<Rightarrow> string + string option" where
  "optional_str_field obj path key =
     (case map_of obj key of
        None \<Rightarrow> Ok None
      | Some JNull \<Rightarrow> Ok None
      | Some (JString s) \<Rightarrow> Ok (Some s)
      | Some _ \<Rightarrow> Err (path @ ''.'' @ key @ '' must be a string''))"

fun nonempty_str :: "string option \<Rightarrow> string option" where
  "nonempty_str None = None"
| "nonempty_str (Some s) = (if s = [] then None else Some s)"

definition validate_param_kind :: "json \<Rightarrow> string + string \<times> string" where
  "validate_param_kind value =
     (case value of
        JObject obj \<Rightarrow>
          try_then (optional_str_field obj ''paramKind'' ''apiVersion'') (\<lambda>api_version.
          try_then (optional_str_field obj ''paramKind'' ''kind'') (\<lambda>kind.
            (case (nonempty_str api_version, nonempty_str kind) of
               (Some a, Some k) \<Rightarrow> Ok (a, k)
             | _ \<Rightarrow> Err ''paramKind must have both apiVersion and kind specified'')))
      | _ \<Rightarrow> Err ''paramKind must be an object'')"

record LabelSelectorRequirement =
  lsr_key :: string
  lsr_operator :: string
  lsr_values :: "string list option"

type_synonym LabelSelector = "LabelSelectorRequirement list option"

record 'sel selector_library =
  sl_from_value :: "json \<Rightarrow> string + LabelSelector"
  sl_try_from :: "LabelSelector \<Rightarrow> string + 'sel"

definition requirement_path :: "nat \<Rightarrow> string" where
  "requirement_path i = ''paramRef.selector.matchExpressions['' @ show_nat i @ '']''"

definition check_requirement :: "nat \<Rightarrow> LabelSelectorRequirement \<Rightarrow> string + unit" where
  "check_requirement i r =
     (if lsr_key r = [] then Err (requirement_path i @ ''.key must be a non-empty string'')
      else
        (let has_values = (case lsr_values r of None \<Rightarrow> False | Some v \<Rightarrow> v \<noteq> []);
             operator = lsr_operator r
         in if operator \<in> {''In'', ''NotIn''} \<and> \<not> has_values then
              Err (requirement_path i @ ''.values must be non-empty when operator is '' @ operator)
            else if operator \<in> {''Exists'', ''DoesNotExist''} \<and> has_values then
              Err (requirement_path i @ ''.values must be empty when operator is '' @ operator)
            else Ok ()))"

definition validate_label_selector :: "'sel selector_library \<Rightarrow> json \<Rightarrow> string + unit" where
  "validate_label_selector sl value =
     try_then (map_err (\<lambda>e. ''paramRef.selector is not a valid LabelSelector: '' @ e)
                 (sl_from_value sl value)) (\<lambda>selector.
     try_then (try_fold (\<lambda>_ (i, r). check_requirement i r) ()
                 (let rs = (case selector of None \<Rightarrow> [] | Some rs \<Rightarrow> rs) in zip [0..<length rs] rs)) (\<lambda>_.
       map_err (\<lambda>e. ''paramRef.selector is not a valid LabelSelector: '' @ e)
         (map_ok (\<lambda>_. ()) (sl_try_from sl selector))))"

definition param_ref_selector :: "(string \<times> json) list \<Rightarrow> string + json option" where
  "param_ref_selector obj =
     (case map_of obj ''selector'' of
        None \<Rightarrow> Ok None
      | Some JNull \<Rightarrow> Ok None
      | Some (JObject ms) \<Rightarrow> Ok (Some (JObject ms))
      | Some _ \<Rightarrow> Err ''paramRef.selector must be an object'')"

definition validate_param_ref :: "'sel selector_library \<Rightarrow> json \<Rightarrow> string + unit" where
  "validate_param_ref sl value =
     (case value of
        JObject obj \<Rightarrow>
          try_then (optional_str_field obj ''paramRef'' ''name'') (\<lambda>name.
          try_then (param_ref_selector obj) (\<lambda>selector.
          try_then
            (case (nonempty_str name, selector) of
               (None, None) \<Rightarrow> Err ''paramRef must have either name or selector specified''
             | (Some _, Some _) \<Rightarrow> Err ''paramRef cannot have both name and selector specified''
             | (None, Some s) \<Rightarrow> validate_label_selector sl s
             | (Some _, None) \<Rightarrow> Ok ()) (\<lambda>_.
          try_then (optional_str_field obj ''paramRef'' ''parameterNotFoundAction'') (\<lambda>action.
            (if action = Some ''Allow'' \<or> action = Some ''Deny'' then Ok ()
             else Err (''parameterNotFoundAction must be '' @ [CHR 39] @ ''Deny'' @ [CHR 39] @ '' or '' @
                       [CHR 39] @ ''Allow'' @ [CHR 39] @ '' if paramRef is specified''))))))
      | _ \<Rightarrow> Err ''paramRef must be an object'')"

definition present :: "json option \<Rightarrow> json option" where
  "present v = (if v = Some JNull then None else v)"

definition ferricel_validate_params :: "'sel selector_library \<Rightarrow> json \<Rightarrow> string + unit" where
  "ferricel_validate_params sl settings =
     (case (present (json_get ''paramKind'' settings), present (json_get ''paramRef'' settings)) of
        (None, None) \<Rightarrow> Ok ()
      | (Some param_kind, Some param_ref) \<Rightarrow>
          try_then (validate_param_kind param_kind) (\<lambda>_. validate_param_ref sl param_ref)
      | _ \<Rightarrow> Err ''Both paramKind and paramRef must be present together, or both absent'')"

definition validate_settings_json ::
  "(string \<Rightarrow> string + json) \<Rightarrow> 'sel selector_library \<Rightarrow> string \<Rightarrow> string + unit" where
  "validate_settings_json parse sl settings =
     try_then (map_err (\<lambda>e. ''cannot parse policy settings as JSON: '' @ e) (parse settings)) (\<lambda>settings_json.
     try_then (FailurePolicy_from_value (json_get ''failurePolicy'' settings_json)) (\<lambda>_.
       ferricel_validate_params sl settings_json))"

definition ferricel_validate_settings ::
  "(string \<Rightarrow> string + json) \<Rightarrow> 'sel selector_library \<Rightarrow> string \<Rightarrow> SettingsValidationResponse" where
  "ferricel_validate_settings parse sl settings =
     (case validate_settings_json parse sl settings of
        Inr _ \<Rightarrow> \<lparr> sv_valid = True, sv_message = None \<rparr>
      | Inl message \<Rightarrow> \<lparr> sv_valid = False, sv_message = Some message \<rparr>)"

section \<open>Lemmas\<close>

lemma FailurePolicy_from_value_Ok_iff:
  "FailurePolicy_from_value v = Ok f \<longleftrightarrow>
     (f = Fail \<and> (v = None \<or> v = Some JNull \<or> v = Some (JString ''Fail''))) \<or>
     (f = Ignore \<and> v = Some (JString ''Ignore''))"
proof (cases v)
  case None
  then show ?thesis by (auto simp: FailurePolicy_from_value_def)
next
  case (Some j)
  show ?thesis
  proof (cases j)
    case (JString s)
    with Some show ?thesis
      by (cases "s = ''Fail''"; cases "s = ''Ignore''") (auto simp: FailurePolicy_from_value_def)
  qed (use Some in \<open>auto simp: FailurePolicy_from_value_def\<close>)
qed

lemma FailurePolicy_as_str_roundtrip [simp]:
  "FailurePolicy_from_value (Some (JString (FailurePolicy_as_str f))) = Ok f"
  by (cases f) (simp_all add: FailurePolicy_from_value_def)

lemma build_bindings_Err:
  "build_bindings settings request f = Err r \<Longrightarrow>
     \<not> ar_allowed r \<and> ar_uid r = request_uid request \<and> wf_response r"
  by (cases request) auto

lemma classify_engine_error_iff:
  "FR_ExecutionDeadlineExceeded = classify_engine_error d \<longleftrightarrow> d = TrapInterrupt"
  "FR_CelRuntimeError e = classify_engine_error d \<longleftrightarrow> d = CelError e"
  by (cases d; auto)+

lemma stack_eval_iff:
  "stack_eval engine b = Ok s \<longleftrightarrow> engine b = Ok s"
  "stack_eval engine b = Err FR_ExecutionDeadlineExceeded \<longleftrightarrow> engine b = Err TrapInterrupt"
  "stack_eval engine b = Err (FR_CelRuntimeError e) \<longleftrightarrow> engine b = Err (CelError e)"
proof -
  show "stack_eval engine b = Ok s \<longleftrightarrow> engine b = Ok s"
    by (simp add: stack_eval_def result_simps)
  show "stack_eval engine b = Err FR_ExecutionDeadlineExceeded \<longleftrightarrow> engine b = Err TrapInterrupt"
    by (auto simp: stack_eval_def result_simps classify_engine_error_iff)
  show "stack_eval engine b = Err (FR_CelRuntimeError e) \<longleftrightarrow> engine b = Err (CelError e)"
    by (auto simp: stack_eval_def result_simps classify_engine_error_iff)
qed

lemma handle_cel_runtime_error_Fail:
  "handle_cel_runtime_error p request e Fail =
     reject_internal_server_error (request_uid request) (''CEL runtime error: '' @ format_cel_error e)"
  by (simp add: handle_cel_runtime_error_def)

lemma handle_cel_runtime_error_Ignore:
  "\<exists>w. handle_cel_runtime_error p request e Ignore =
     \<lparr> ar_uid = request_uid request, ar_allowed = True, ar_patch_type = None, ar_patch = None,
       ar_status = None, ar_audit_annotations = None, ar_warnings = Some [w] \<rparr>"
  unfolding handle_cel_runtime_error_def Let_def AdmissionResponse_default_def by simp

lemma handle_cel_runtime_error_simps [simp]:
  shows "ar_uid (handle_cel_runtime_error p request e f) = request_uid request"
    and "ar_allowed (handle_cel_runtime_error p request e f) \<longleftrightarrow> f = Ignore"
    and "ar_patch (handle_cel_runtime_error p request e f) = None"
    and "wf_response (handle_cel_runtime_error p request e f)"
proof -
  obtain w where w: "handle_cel_runtime_error p request e Ignore =
     \<lparr> ar_uid = request_uid request, ar_allowed = True, ar_patch_type = None, ar_patch = None,
       ar_status = None, ar_audit_annotations = None, ar_warnings = Some [w] \<rparr>"
    using handle_cel_runtime_error_Ignore by blast
  show "ar_uid (handle_cel_runtime_error p request e f) = request_uid request"
    by (cases f) (simp_all add: w handle_cel_runtime_error_Fail)
  show "ar_allowed (handle_cel_runtime_error p request e f) \<longleftrightarrow> f = Ignore"
    by (cases f) (simp_all add: w handle_cel_runtime_error_Fail)
  show "ar_patch (handle_cel_runtime_error p request e f) = None"
    by (cases f) (simp_all add: w handle_cel_runtime_error_Fail)
  show "wf_response (handle_cel_runtime_error p request e f)"
    by (cases f) (simp_all add: w handle_cel_runtime_error_Fail wf_response_def)
qed

lemma ferricel_validate_uid:
  "ar_uid (ferricel_validate cd p engine settings request) = request_uid request \<and>
   wf_response (ferricel_validate cd p engine settings request)"
  unfolding ferricel_validate_def Let_def
  by (simp split: sum.splits FerricelRuntimeError.splits)
    (blast dest: response_of_verdict_uid build_bindings_Err)

lemma ferricel_allowed:
  assumes "ar_allowed (ferricel_validate cd policy_id engine settings request)"
  shows "\<exists>bindings input. build_bindings settings request
        (case FailurePolicy_from_settings settings of Inr f \<Rightarrow> f | Inl _ \<Rightarrow> Fail) = Ok bindings \<and>
      cd_to_string cd bindings = Ok input \<and>
      ((\<exists>out pvr. engine input = Ok out \<and> cd_from_pvr cd out = Ok pvr \<and> pv_accepted pvr) \<or>
       (\<exists>e. engine input = Err (CelError e) \<and>
            map_of settings ''failurePolicy'' = Some (JString ''Ignore'') \<and>
            ar_warnings (ferricel_validate cd policy_id engine settings request) \<noteq> None))"
proof -
  let ?f = "case FailurePolicy_from_settings settings of Inr f \<Rightarrow> f | Inl _ \<Rightarrow> Fail"
  have ignore: "map_of settings ''failurePolicy'' = Some (JString ''Ignore'')" if "?f = Ignore"
    using that FailurePolicy_from_value_Ok_iff [of "map_of settings ''failurePolicy''" Ignore]
    by (auto simp: FailurePolicy_from_settings_def split: sum.splits)
  from assms obtain bindings input where
    b: "build_bindings settings request ?f = Ok bindings" "cd_to_string cd bindings = Ok input"
    by (auto simp: ferricel_validate_def Let_def dest: build_bindings_Err split: sum.splits)
  show ?thesis
  proof (cases "stack_eval engine input")
    case (Inr out)
    then have "engine input = Ok out" by (simp add: stack_eval_iff)
    with assms b Inr show ?thesis
      by (auto simp: ferricel_validate_def Let_def dest: response_of_verdict_allowed split: sum.splits)
  next
    case (Inl err)
    with assms b obtain e where err: "err = FR_CelRuntimeError e" and "?f = Ignore"
      by (auto simp: ferricel_validate_def Let_def split: FerricelRuntimeError.splits)
    have "ferricel_validate cd policy_id engine settings request =
        handle_cel_runtime_error policy_id request e Ignore"
      using b Inl err \<open>?f = Ignore\<close> by (simp add: ferricel_validate_def Let_def)
    moreover have "ar_warnings (handle_cel_runtime_error policy_id request e Ignore) \<noteq> None"
      by (simp add: handle_cel_runtime_error_def Let_def)
    ultimately show ?thesis using b Inl err ignore \<open>?f = Ignore\<close> by (auto simp: stack_eval_iff)
  qed
qed

section \<open>Properties\<close>

text \<open>
  C29: a compiled policy fails closed.  A request is admitted only if the module ran to
  the end and returned an accepting verdict, or the module stopped with a CEL runtime error
  and the settings say that failures are ignored; then the response carries a warning.  A
  deadline, any other trap, an unreadable answer or a raw request always reject.
\<close>

theorem ferricel_fails_closed:
  assumes "ar_allowed (ferricel_validate cd policy_id engine settings request)"
  shows "\<exists>bindings input. build_bindings settings request
        (case FailurePolicy_from_settings settings of Inr f \<Rightarrow> f | Inl _ \<Rightarrow> Fail) = Ok bindings \<and>
      cd_to_string cd bindings = Ok input \<and>
      ((\<exists>out pvr. engine input = Ok out \<and> cd_from_pvr cd out = Ok pvr \<and> pv_accepted pvr) \<or>
       (\<exists>e. engine input = Err (CelError e) \<and>
            map_of settings ''failurePolicy'' = Some (JString ''Ignore'') \<and>
            ar_warnings (ferricel_validate cd policy_id engine settings request) \<noteq> None))"
  by (rule ferricel_allowed [OF assms])

theorem ferricel_fails_closed_witness:
  "let cd = \<lparr> cd_to_string = (\<lambda>_. Ok ''b''), cd_from_pvr = (\<lambda>_. Err ''e''), cd_from_svr = (\<lambda>_. Err ''e''),
              cd_from_admission_response = (\<lambda>_. Err ''e''), cd_from_violations = (\<lambda>_. Err ''e''),
              cd_diff = (\<lambda>_ _. []), cd_patch_to_string = (\<lambda>_ :: nat list. Err ''e''),
              cd_base64 = id, cd_debug = id \<rparr>;
       r = \<lparr> rq_uid = ''u'', rq_kind = \<lparr> gvk_group = [], gvk_version = ''v1'', gvk_kind = ''Pod'' \<rparr>,
             rq_resource = \<lparr> gvr_group = [], gvr_version = ''v1'', gvr_resource = ''pods'' \<rparr>,
             rq_sub_resource = None, rq_request_kind = None, rq_request_resource = None,
             rq_request_sub_resource = None, rq_name = None, rq_namespace = None,
             rq_operation = ''CREATE'', rq_user_info = JNull, rq_object = None, rq_old_object = None,
             rq_dry_run = None, rq_options = None \<rparr>;
       engine = (\<lambda>_. Err (CelError \<lparr> cel_origin = None, cel_message = ''no params'' \<rparr>));
       settings = [(''failurePolicy'', JString ''Ignore'')]
   in ar_allowed (ferricel_validate cd ''p'' engine settings (AdmissionReq r)) \<and>
      ar_warnings (ferricel_validate cd ''p'' engine settings (AdmissionReq r)) \<noteq> None"
proof -
  let ?cd = "\<lparr> cd_to_string = (\<lambda>_. Ok ''b''), cd_from_pvr = (\<lambda>_. Err ''e''), cd_from_svr = (\<lambda>_. Err ''e''),
              cd_from_admission_response = (\<lambda>_. Err ''e''), cd_from_violations = (\<lambda>_. Err ''e''),
              cd_diff = (\<lambda>_ _. []), cd_patch_to_string = (\<lambda>_ :: nat list. Err ''e''),
              cd_base64 = id, cd_debug = id \<rparr>"
  let ?r = "\<lparr> rq_uid = ''u'', rq_kind = \<lparr> gvk_group = [], gvk_version = ''v1'', gvk_kind = ''Pod'' \<rparr>,
             rq_resource = \<lparr> gvr_group = [], gvr_version = ''v1'', gvr_resource = ''pods'' \<rparr>,
             rq_sub_resource = None, rq_request_kind = None, rq_request_resource = None,
             rq_request_sub_resource = None, rq_name = None, rq_namespace = None,
             rq_operation = ''CREATE'', rq_user_info = JNull, rq_object = None, rq_old_object = None,
             rq_dry_run = None, rq_options = None \<rparr>"
  let ?engine = "\<lambda>_ :: string. Err (CelError \<lparr> cel_origin = None, cel_message = ''no params'' \<rparr>) :: engine_error + string"
  let ?settings = "[(''failurePolicy'', JString ''Ignore'')]"
  have allowed: "ar_allowed (ferricel_validate ?cd ''p'' ?engine ?settings (AdmissionReq ?r))"
    by (simp add: ferricel_validate_def Let_def FailurePolicy_from_settings_def
        FailurePolicy_from_value_def stack_eval_def)
  from ferricel_fails_closed [OF allowed]
  have "ar_warnings (ferricel_validate ?cd ''p'' ?engine ?settings (AdmissionReq ?r)) \<noteq> None"
    by blast
  with allowed show ?thesis unfolding Let_def by blast
qed

text \<open>
  Settings accepted when the policy is loaded always carry a failure policy the
  runtime understands, so the fallback to \<^verbatim>\<open>Fail\<close> during evaluation is never taken; and the
  value handed to the compiled module reads back as the one in force.  The JSON library is
  used as documented: parsing what it printed gives the printed value.
\<close>

theorem validated_settings_have_failure_policy:
  assumes "\<And>s. cd_to_string cd (JObject settings) = Ok s \<Longrightarrow> parse s = Ok (JObject settings)"
    and "cd_to_string cd (JObject settings) = Ok text"
    and "sv_valid (ferricel_validate_settings parse sl text)"
  shows "\<exists>f. FailurePolicy_from_settings settings = Ok f \<and>
           (\<forall>r. \<exists>bindings. build_bindings settings (AdmissionReq r) f = Ok bindings \<and>
              FailurePolicy_from_value (json_get ''failurePolicy'' bindings) = Ok f)"
proof -
  have "parse text = Ok (JObject settings)" using assms(1,2) by blast
  with assms(3) obtain f where "FailurePolicy_from_settings settings = Ok f"
    by (auto simp: ferricel_validate_settings_def validate_settings_json_def
        FailurePolicy_from_settings_def result_simps split: sum.splits)
  then show ?thesis by auto
qed

theorem validated_settings_have_failure_policy_witness:
  "let cd = \<lparr> cd_to_string = (\<lambda>_. Ok ''{}''), cd_from_pvr = (\<lambda>_. Err ''e''), cd_from_svr = (\<lambda>_. Err ''e''),
              cd_from_admission_response = (\<lambda>_. Err ''e''), cd_from_violations = (\<lambda>_. Err ''e''),
              cd_diff = (\<lambda>_ _. []), cd_patch_to_string = (\<lambda>_ :: nat list. Err ''e''),
              cd_base64 = id, cd_debug = id \<rparr>
   in cd_to_string cd (JObject []) = Ok ''{}'' \<and>
      (\<exists>f. FailurePolicy_from_settings [] = Ok f)"
proof -
  let ?cd = "\<lparr> cd_to_string = (\<lambda>_. Ok ''{}''), cd_from_pvr = (\<lambda>_. Err ''e''), cd_from_svr = (\<lambda>_. Err ''e''),
              cd_from_admission_response = (\<lambda>_. Err ''e''), cd_from_violations = (\<lambda>_. Err ''e''),
              cd_diff = (\<lambda>_ _. []), cd_patch_to_string = (\<lambda>_ :: nat list. Err ''e''),
              cd_base64 = id, cd_debug = id \<rparr>"
  let ?sl = "\<lparr> sl_from_value = (\<lambda>_. Err ''e''), sl_try_from = (\<lambda>_. Ok ()) \<rparr>"
  have valid: "sv_valid (ferricel_validate_settings (\<lambda>_. Ok (JObject [])) ?sl ''{}'')"
    by (simp add: ferricel_validate_settings_def validate_settings_json_def
        FailurePolicy_from_value_def ferricel_validate_params_def present_def)
  show ?thesis
    using validated_settings_have_failure_policy [of ?cd "[]" "\<lambda>_. Ok (JObject [])" "''{}''" ?sl] valid
    by (auto simp: Let_def)
qed

end
