(* ===== verification/Policy_Evaluator.thy ===== *)
theory Policy_Evaluator
  imports Rego_Context Ferricel
begin

text \<open>
  The evaluator of a single policy (\<^verbatim>\<open>policy-evaluator/src/policy_evaluator/\<close>): the
  pre-initialized stacks, \<^verbatim>\<open>rehydrate\<close>, and the dispatch of \<^verbatim>\<open>validate\<close> and
  \<^verbatim>\<open>validate_settings\<close> to the four runtimes.  What the policy server and the policy groups
  rely on is the locale \<open>policy_runtime\<close>.  A guest is the function wasmtime runs, given the
  evaluation context it was instantiated with.
\<close>

section \<open>Stacks\<close>

type_synonym eval_context = "channel EvaluationContext"
type_synonym wapc_guest = "string \<Rightarrow> string \<Rightarrow> string + string"
type_synonym wasi_guest = "string \<Rightarrow> string list \<Rightarrow> string + string \<times> string"
type_synonym rego_guest = "json \<Rightarrow> string \<Rightarrow> BurregoError + json"
type_synonym ferricel_guest = "string \<Rightarrow> engine_error + string"

datatype StackPre =
    SP_Wapc "eval_context \<Rightarrow> string + wapc_guest"
  | SP_Wasi "eval_context \<Rightarrow> wasi_guest"
  | SP_Rego RegoPolicyExecutionMode "eval_context \<Rightarrow> string + rego_guest"
  | SP_Ferricel "eval_context \<Rightarrow> ferricel_guest"

datatype PolicyRuntime =
    RT_Wapc wapc_guest
  | RT_Rego RegoPolicyExecutionMode rego_guest
  | RT_Cli wasi_guest
  | RT_Ferricel ferricel_guest

datatype PolicyEvaluatorPreError = RehydrateWapc string | RehydrateRego string

record PolicyEvaluator =
  pe_runtime :: PolicyRuntime
  pe_eval_ctx :: eval_context

fun rehydrate :: "StackPre \<Rightarrow> eval_context \<Rightarrow> PolicyEvaluatorPreError + PolicyEvaluator" where
  "rehydrate (SP_Wapc pre) eval_ctx =
     try_then (map_err RehydrateWapc (pre eval_ctx)) (\<lambda>g.
       Ok \<lparr> pe_runtime = RT_Wapc g, pe_eval_ctx = eval_ctx \<rparr>)"
| "rehydrate (SP_Wasi pre) eval_ctx =
     Ok \<lparr> pe_runtime = RT_Cli (pre eval_ctx), pe_eval_ctx = eval_ctx \<rparr>"
| "rehydrate (SP_Rego mode pre) eval_ctx =
     try_then (map_err RehydrateRego (pre eval_ctx)) (\<lambda>g.
       Ok \<lparr> pe_runtime = RT_Rego mode g, pe_eval_ctx = eval_ctx \<rparr>)"
| "rehydrate (SP_Ferricel pre) eval_ctx =
     Ok \<lparr> pe_runtime = RT_Ferricel (pre eval_ctx), pe_eval_ctx = eval_ctx \<rparr>"

section \<open>Evaluation\<close>

text \<open>The libraries and services of the process a policy runs in.\<close>

record ('op, 'sel) host_env =
  he_codec :: "'op codec"
  he_parsers :: rego_parsers
  he_serialize :: "GatekeeperInventory \<Rightarrow> string + string"
  he_opa_json :: "OpaInventory \<Rightarrow> json"
  he_now :: instant
  he_debug_resource :: "ContextAwareResource \<Rightarrow> string"
  he_parse :: "string \<Rightarrow> string + json"
  he_selectors :: "'sel selector_library"

definition PolicyEvaluator_validate ::
  "('op, 'sel) host_env \<Rightarrow> GateKeeperInventoryCache \<Rightarrow> PolicyEvaluator \<Rightarrow> ValidateRequest \<Rightarrow>
   PolicySettings \<Rightarrow> AdmissionResponse \<times> GateKeeperInventoryCache" where
  "PolicyEvaluator_validate he cache ev request settings =
     (case pe_runtime ev of
        RT_Wapc g \<Rightarrow> (fst (wapc_validate (he_codec he) g settings request), cache)
      | RT_Rego mode g \<Rightarrow>
          (case fst (build_kubernetes_context (he_parsers he) (he_serialize he) (he_opa_json he)
                       (he_now he) mode (ec_callback_channel (pe_eval_ctx ev))
                       (ec_ctx_aware_resources_allow_list (pe_eval_ctx ev)) cache) of
             Inr (ctx, cache') \<Rightarrow>
               (fst (rego_validate (he_codec he) mode g settings request ctx), cache')
           | Inl e \<Rightarrow>
               (reject (request_uid request)
                  (RegoRuntimeError_to_string (he_debug_resource he) e) 500, cache))
      | RT_Cli run \<Rightarrow> (wasi_validate (he_codec he) run settings request, cache)
      | RT_Ferricel engine \<Rightarrow>
          (ferricel_validate (he_codec he) (ec_policy_id (pe_eval_ctx ev)) engine settings request,
           cache))"

definition PolicyEvaluator_validate_settings ::
  "('op, 'sel) host_env \<Rightarrow> PolicyEvaluator \<Rightarrow> PolicySettings \<Rightarrow> SettingsValidationResponse" where
  "PolicyEvaluator_validate_settings he ev settings =
     (case cd_to_string (he_codec he) (JObject settings) of
        Inl err \<Rightarrow> \<lparr> sv_valid = False, sv_message = Some (''could not marshal settings: '' @ err) \<rparr>
      | Inr settings_str \<Rightarrow>
          (case pe_runtime ev of
             RT_Wapc g \<Rightarrow> wapc_validate_settings (he_codec he) g settings_str
           | RT_Rego mode g \<Rightarrow> rego_validate_settings settings_str
           | RT_Cli run \<Rightarrow> wasi_validate_settings (he_codec he) run settings_str
           | RT_Ferricel engine \<Rightarrow>
               ferricel_validate_settings (he_parse he) (he_selectors he) settings_str))"

section \<open>The interface of the evaluator\<close>

record 'pre policy_runtime =
  rt_validate :: "'pre \<Rightarrow> eval_context \<Rightarrow> ValidateRequest \<Rightarrow> PolicySettings \<Rightarrow>
                  PolicyEvaluatorPreError + AdmissionResponse"
  rt_validate_settings :: "'pre \<Rightarrow> eval_context \<Rightarrow> PolicySettings \<Rightarrow>
                  PolicyEvaluatorPreError + SettingsValidationResponse"

locale policy_runtime_laws =
  fixes rt :: "'pre policy_runtime"
  assumes answers_request: "rt_validate rt pre ctx request settings = Ok r \<Longrightarrow>
            ar_uid r = request_uid request"
    and same_rehydration: "(\<exists>r. rt_validate rt pre ctx request settings = Ok r) \<longleftrightarrow>
            (\<exists>v. rt_validate_settings rt pre ctx settings' = Ok v)"

text \<open>The evaluator of the model, in a given state of the inventory cache.\<close>

definition evaluator_runtime ::
  "('op, 'sel) host_env \<Rightarrow> GateKeeperInventoryCache \<Rightarrow> StackPre policy_runtime" where
  "evaluator_runtime he cache =
     \<lparr> rt_validate = (\<lambda>pre ctx request settings.
         map_ok (\<lambda>ev. fst (PolicyEvaluator_validate he cache ev request settings)) (rehydrate pre ctx)),
       rt_validate_settings = (\<lambda>pre ctx settings.
         map_ok (\<lambda>ev. PolicyEvaluator_validate_settings he ev settings) (rehydrate pre ctx)) \<rparr>"

lemma PolicyEvaluator_validate_uid:
  "ar_uid (fst (PolicyEvaluator_validate he cache ev request settings)) = request_uid request"
  by (simp add: PolicyEvaluator_validate_def wapc_validate_uid wasi_validate_uid rego_validate_uid
      ferricel_validate_uid split: PolicyRuntime.splits sum.splits prod.splits)

interpretation evaluator: policy_runtime_laws "evaluator_runtime he cache" for he cache
proof unfold_locales
  fix pre ctx request settings r
  show "rt_validate (evaluator_runtime he cache) pre ctx request settings = Ok r \<Longrightarrow>
      ar_uid r = request_uid request"
    by (auto simp: evaluator_runtime_def result_simps PolicyEvaluator_validate_uid)
next
  fix pre ctx request settings settings'
  show "(\<exists>r. rt_validate (evaluator_runtime he cache) pre ctx request settings = Ok r) \<longleftrightarrow>
      (\<exists>v. rt_validate_settings (evaluator_runtime he cache) pre ctx settings' = Ok v)"
    by (auto simp: evaluator_runtime_def result_simps)
qed

section \<open>Failing closed\<close>

lemma wapc_validate_allowed:
  assumes "ar_allowed (fst (wapc_validate cd g settings request))"
  shows "\<exists>input out pvr. g ''validate'' input = Ok out \<and> cd_from_pvr cd out = Ok pvr \<and> pv_accepted pvr"
  using assms
  by (auto simp: wapc_validate_def Let_def result_simps dest: response_of_verdict_allowed
      split: sum.splits if_splits)

lemma wasi_validate_allowed:
  assumes "ar_allowed (wasi_validate cd run settings request)"
  shows "\<exists>input out err pvr. run input [''policy.wasm'', ''validate''] = Ok (out, err) \<and>
     cd_from_pvr cd out = Ok pvr \<and> pv_accepted pvr"
  using assms
  by (auto simp: wasi_validate_def Let_def dest: response_of_verdict_allowed
      split: sum.splits prod.splits)

lemma rego_validate_allowed:
  assumes "ar_allowed (fst (rego_validate cd mode g settings request ctx))"
  shows "\<exists>input data v. g input data = Ok v \<and>
     (mode = RegoOpa \<longrightarrow> (\<exists>j r. cd_from_admission_response cd j = Ok r \<and> ar_allowed r)) \<and>
     (mode = RegoGatekeeper \<longrightarrow> (\<exists>j. json_get_index 0 v = Some j \<and> cd_from_violations cd j = Ok []))"
proof (cases mode)
  case RegoOpa
  with assms obtain v where v: "evaluate_opa cd g settings request ctx = Ok v"
    "ar_allowed (opa_response cd (request_uid request) v)"
    by (auto simp: rego_validate_def Let_def split: sum.splits)
  from v(1) obtain input data where "g input data = Ok v"
    by (auto simp: evaluate_opa_def Let_def result_simps)
  with v(2) RegoOpa show ?thesis
    by (auto simp: opa_response_def split: option.splits sum.splits)
next
  case RegoGatekeeper
  with assms obtain adm v where v: "evaluate_gatekeeper g settings adm ctx = Ok v"
    "ar_allowed (gatekeeper_response cd (request_uid request) v)"
    by (auto simp: rego_validate_def Let_def split: sum.splits ValidateRequest.splits)
  then have "\<exists>input data. g input data = Ok v" by (auto simp: evaluate_gatekeeper_def Let_def)
  with v(2) RegoGatekeeper show ?thesis
    by (auto simp: gatekeeper_response_def split: option.splits sum.splits if_splits)
qed

fun PolicyEvaluatorPreError_to_string :: "PolicyEvaluatorPreError \<Rightarrow> string" where
  "PolicyEvaluatorPreError_to_string (RehydrateWapc e) = ''unable to rehydrate wapc module: '' @ e"
| "PolicyEvaluatorPreError_to_string (RehydrateRego e) = ''unable to rehydrate rego module: '' @ e"

section \<open>Properties\<close>



end
