(* ===== verification/Policy_Group.thy ===== *)
theory Policy_Group
  imports Policy_Evaluator
begin

text \<open>
  Policy groups (\<^verbatim>\<open>policy-evaluator/src/policy_group_evaluator.rs\<close> and
  \<^verbatim>\<open>policy_group_evaluator/evaluator.rs\<close>): the members with their settings, the evaluation
  of a request by a boolean expression over the members, and the validation of the group's
  settings.  The Rhai engine is a library: what it does with an expression is a decision
  tree of calls of the registered member functions (\<open>rhai_run\<close>), and the tree of a boolean
  expression with short-circuit operators is \<open>rhai_tree\<close>.
\<close>

section \<open>Members\<close>

record PolicyGroupMemberSettings =
  gm_settings :: PolicySettings
  gm_ctx_aware_resources_allow_list :: "ContextAwareResource set"
  gm_epoch_deadline :: "64 word option"
  gm_host_capabilities :: HostCapabilities

text \<open>The members of the custom resources; a timeout is an \<^verbatim>\<open>i32\<close> cast to \<^verbatim>\<open>u64\<close>.\<close>

record crd_group_member =
  cm_settings :: json
  cm_context_aware_resources :: "ContextAwareResource list"
  cm_timeout_eval_seconds :: "32 word option"

definition member_with_context_settings :: "crd_group_member \<Rightarrow> string + PolicyGroupMemberSettings" where
  "member_with_context_settings m =
     try_then (PolicySettings_try_from (cm_settings m)) (\<lambda>settings.
       Ok \<lparr> gm_settings = settings,
            gm_ctx_aware_resources_allow_list = set (cm_context_aware_resources m),
            gm_epoch_deadline = map_option scast (cm_timeout_eval_seconds m),
            gm_host_capabilities = DenyAll \<rparr>)"

definition member_settings :: "crd_group_member \<Rightarrow> string + PolicyGroupMemberSettings" where
  "member_settings m =
     try_then (PolicySettings_try_from (cm_settings m)) (\<lambda>settings.
       Ok \<lparr> gm_settings = settings,
            gm_ctx_aware_resources_allow_list = {},
            gm_epoch_deadline = map_option scast (cm_timeout_eval_seconds m),
            gm_host_capabilities = DenyAll \<rparr>)"

record PolicyGroupMemberEvaluationResult =
  mr_allowed :: bool
  mr_message :: "string option"

definition member_result_from :: "AdmissionResponse \<Rightarrow> PolicyGroupMemberEvaluationResult" where
  "member_result_from response =
     \<lparr> mr_allowed = ar_allowed response,
       mr_message = Option.bind (ar_status response) st_message \<rparr>"

definition member_result_to_string :: "PolicyGroupMemberEvaluationResult \<Rightarrow> string" where
  "member_result_to_string r =
     (if mr_allowed r then ''[ALLOWED]'' else ''[DENIED]'') @
     (case mr_message r of Some message \<Rightarrow> '' - '' @ message | None \<Rightarrow> [])"

datatype GroupEvaluationError =
    EvaluatorPreNotFound string
  | SettingsNotFound string
  | SettingsNotValid string
  | GroupPolicyNotFound string
  | CannotRehydratePolicyGroupMember string PolicyEvaluatorPreError
  | PolicyGroupRuntimeError string

fun GroupEvaluationError_to_string :: "GroupEvaluationError \<Rightarrow> string" where
  "GroupEvaluationError_to_string (EvaluatorPreNotFound s) = ''EvaluatorPre not found: '' @ s"
| "GroupEvaluationError_to_string (SettingsNotFound s) = ''settings not found policy: '' @ s"
| "GroupEvaluationError_to_string (SettingsNotValid s) = ''settings not valid: '' @ s"
| "GroupEvaluationError_to_string (GroupPolicyNotFound s) = ''unknown policy: '' @ s"
| "GroupEvaluationError_to_string (CannotRehydratePolicyGroupMember p e) =
     ''Attempted to rehydrated policy '' @ [CHR 39] @ p @ [CHR 39] @ '': '' @
     PolicyEvaluatorPreError_to_string e"
| "GroupEvaluationError_to_string (PolicyGroupRuntimeError e) =
     ''Policy group evaluation error: '' @ [CHR 39] @ e @ [CHR 39]"

section \<open>The Rhai engine\<close>

datatype rhai_run =
    RDone bool
  | RFail string
  | RCall string "bool \<Rightarrow> rhai_run"

text \<open>\<open>re_eval names expression\<close> is the run of an expression when functions with these names
  are registered; \<open>re_error_system\<close> prints the error of a function that failed.\<close>

record rhai_engine =
  re_eval :: "string list \<Rightarrow> string \<Rightarrow> rhai_run"
  re_error_system :: "string \<Rightarrow> GroupEvaluationError \<Rightarrow> string"

primrec run_expression :: "(string \<Rightarrow> 's \<Rightarrow> (string + bool) \<times> 's) \<Rightarrow> rhai_run \<Rightarrow> 's \<Rightarrow> (string + bool) \<times> 's" where
  "run_expression call (RDone b) s = (Ok b, s)"
| "run_expression call (RFail e) s = (Err e, s)"
| "run_expression call (RCall f k) s =
     (case call f s of
        (Inl e, s') \<Rightarrow> (Err e, s')
      | (Inr b, s') \<Rightarrow> run_expression call (k b) s')"

section \<open>The evaluator of a group\<close>

record 'pre PolicyGroupEvaluator =
  pg_policy_id :: string
  pg_message :: string
  pg_expression :: string
  pg_policy_members :: "(string \<times> 'pre) list"
  pg_policy_members_settings :: "(string \<times> PolicyGroupMemberSettings) list"
  pg_callback_channel :: "channel option"

definition PolicyGroupEvaluator_new ::
  "string \<Rightarrow> string \<Rightarrow> string \<Rightarrow> channel option \<Rightarrow> 'pre PolicyGroupEvaluator" where
  "PolicyGroupEvaluator_new i message expression callback_channel =
     \<lparr> pg_policy_id = i, pg_message = message, pg_expression = expression,
       pg_policy_members = [], pg_policy_members_settings = [],
       pg_callback_channel = callback_channel \<rparr>"

definition add_policy_member ::
  "string \<Rightarrow> 'pre \<Rightarrow> PolicyGroupMemberSettings \<Rightarrow> 'pre PolicyGroupEvaluator \<Rightarrow>
   'pre PolicyGroupEvaluator" where
  "add_policy_member name pre settings g =
     g \<lparr> pg_policy_members_settings := AList.update name settings (pg_policy_members_settings g),
         pg_policy_members := AList.update name pre (pg_policy_members g) \<rparr>"

definition member_context ::
  "'pre PolicyGroupEvaluator \<Rightarrow> string \<Rightarrow> PolicyGroupMemberSettings \<Rightarrow> eval_context" where
  "member_context g policy_id settings =
     \<lparr> ec_policy_id = policy_id,
       ec_callback_channel = pg_callback_channel g,
       ec_ctx_aware_resources_allow_list = gm_ctx_aware_resources_allow_list settings,
       ec_epoch_deadline = gm_epoch_deadline settings,
       ec_host_capabilities = gm_host_capabilities settings \<rparr>"

definition group_validate_policy ::
  "'pre policy_runtime \<Rightarrow> 'pre PolicyGroupEvaluator \<Rightarrow> string \<Rightarrow> ValidateRequest \<Rightarrow>
   GroupEvaluationError + AdmissionResponse" where
  "group_validate_policy rt g policy_id req =
     try_then (ok_or (EvaluatorPreNotFound policy_id) (map_of (pg_policy_members g) policy_id)) (\<lambda>pre.
     try_then (ok_or (SettingsNotFound policy_id) (map_of (pg_policy_members_settings g) policy_id)) (\<lambda>settings.
       map_err (CannotRehydratePolicyGroupMember policy_id)
         (rt_validate rt pre (member_context g policy_id settings) req (gm_settings settings))))"

type_synonym member_results = "(string \<times> PolicyGroupMemberEvaluationResult) list"

text \<open>The function registered for a member: it evaluates the member and records the result.\<close>

definition member_call ::
  "'pre policy_runtime \<Rightarrow> rhai_engine \<Rightarrow> 'pre PolicyGroupEvaluator \<Rightarrow> ValidateRequest \<Rightarrow>
   string \<Rightarrow> member_results \<Rightarrow> (string + bool) \<times> member_results" where
  "member_call rt engine g request sub_policy_name results =
     (case group_validate_policy rt g sub_policy_name request of
        Inl e \<Rightarrow>
          (Err (re_error_system engine
                  (''error invoking '' @ pg_policy_id g @ ''/'' @ sub_policy_name) e), results)
      | Inr response \<Rightarrow>
          (if ar_patch response \<noteq> None then
             (Ok False, AList.update sub_policy_name
                \<lparr> mr_allowed = False,
                  mr_message = Some ''mutation is not allowed inside of policy group'' \<rparr> results)
           else (Ok (ar_allowed response),
                 AList.update sub_policy_name (member_result_from response) results)))"

definition member_cause :: "member_results \<Rightarrow> string \<Rightarrow> StatusCause option" where
  "member_cause results policy_id =
     (case map_of results policy_id of
        Some result \<Rightarrow>
          (if \<not> mr_allowed result then
             Some (StatusCause_default \<lparr> sc_field := Some (''spec.policies.'' @ policy_id),
                                         sc_message := mr_message result \<rparr>)
           else None)
      | None \<Rightarrow> None)"

definition group_validate ::
  "'pre policy_runtime \<Rightarrow> rhai_engine \<Rightarrow> 'pre PolicyGroupEvaluator \<Rightarrow> ValidateRequest \<Rightarrow>
   AdmissionResponse" where
  "group_validate rt engine g request =
     (let policy_ids = map fst (pg_policy_members g) in
      case run_expression (member_call rt engine g request)
             (re_eval engine policy_ids (pg_expression g)) [] of
        (Inl e, results) \<Rightarrow>
          reject (request_uid request) (''error evaluating policy group expression: '' @ e) 500
      | (Inr allowed, results) \<Rightarrow>
          (let status_causes = List.map_filter (member_cause results) policy_ids;
               status = (if allowed then None
                         else Some (AdmissionResponseStatus_default
                           \<lparr> st_message := Some (pg_message g), st_code := None,
                             st_details := Some (StatusDetails_default
                               \<lparr> sd_causes := status_causes \<rparr>) \<rparr>))
           in \<lparr> ar_uid = request_uid request, ar_allowed = allowed, ar_patch_type = None,
                ar_patch = None, ar_status = status, ar_audit_annotations = None,
                ar_warnings = None \<rparr>))"

section \<open>Validation of a group's settings\<close>

definition validate_policy_settings ::
  "'pre policy_runtime \<Rightarrow> 'pre PolicyGroupEvaluator \<Rightarrow> string \<Rightarrow> GroupEvaluationError + unit" where
  "validate_policy_settings rt g policy_id =
     try_then (ok_or (EvaluatorPreNotFound policy_id) (map_of (pg_policy_members g) policy_id)) (\<lambda>pre.
     try_then (ok_or (SettingsNotFound policy_id) (map_of (pg_policy_members_settings g) policy_id)) (\<lambda>settings.
     try_then (map_err (CannotRehydratePolicyGroupMember policy_id)
         (rt_validate_settings rt pre (member_context g policy_id settings) (gm_settings settings))) (\<lambda>v.
       if sv_valid v then Ok ()
       else Err (SettingsNotValid (''Policy settings are invalid: '' @
              (case sv_message v of Some m \<Rightarrow> m | None \<Rightarrow> ''no message''))))))"

definition member_settings_errors ::
  "'pre policy_runtime \<Rightarrow> 'pre PolicyGroupEvaluator \<Rightarrow> (string \<times> string) list" where
  "member_settings_errors rt g =
     List.map_filter (\<lambda>name.
       (case validate_policy_settings rt g name of
          Inl e \<Rightarrow> Some (pg_policy_id g @ ''/'' @ name, GroupEvaluationError_to_string e)
        | Inr _ \<Rightarrow> None)) (map fst (pg_policy_members g))"

definition group_validate_settings ::
  "'pre policy_runtime \<Rightarrow> rhai_engine \<Rightarrow> 'pre PolicyGroupEvaluator \<Rightarrow> SettingsValidationResponse" where
  "group_validate_settings rt engine g =
     (let member_errors = member_settings_errors rt g;
          errors = (case fst (run_expression (\<lambda>_ s. (Ok True, s))
                           (re_eval engine (map fst (pg_policy_members g)) (pg_expression g)) ()) of
                      Inl e \<Rightarrow> AList.update (pg_policy_id g) e member_errors
                    | Inr _ \<Rightarrow> member_errors)
      in if errors = [] then \<lparr> sv_valid = True, sv_message = None \<rparr>
         else \<lparr> sv_valid = False,
                sv_message = Some (join_str '', '' (map (\<lambda>(i, e). i @ '': '' @ e) errors)) \<rparr>)"

section \<open>Boolean expressions over the members\<close>

text \<open>
  The expressions a group is written with: calls of members, literals and the
  short-circuit operators \<^verbatim>\<open>!\<close>, \<^verbatim>\<open>&&\<close> and \<^verbatim>\<open>||\<close>.  \<open>rhai_tree\<close> is the run the language reference
  gives such an expression: operands from left to right, the right one only when the left
  one does not decide, and an error for a function that is not registered.
\<close>

datatype bexpr = BLit bool | BCall string | BNot bexpr | BAnd bexpr bexpr | BOr bexpr bexpr

primrec rhai_tree :: "string list \<Rightarrow> (string \<Rightarrow> string) \<Rightarrow> bexpr \<Rightarrow> (bool \<Rightarrow> rhai_run) \<Rightarrow> rhai_run" where
  "rhai_tree names missing (BLit b) k = k b"
| "rhai_tree names missing (BCall f) k =
     (if f \<in> set names then RCall f k else RFail (missing f))"
| "rhai_tree names missing (BNot e) k = rhai_tree names missing e (\<lambda>b. k (\<not> b))"
| "rhai_tree names missing (BAnd e1 e2) k =
     rhai_tree names missing e1 (\<lambda>b. if b then rhai_tree names missing e2 k else k False)"
| "rhai_tree names missing (BOr e1 e2) k =
     rhai_tree names missing e1 (\<lambda>b. if b then k True else rhai_tree names missing e2 k)"

primrec calls :: "bexpr \<Rightarrow> string set" where
  "calls (BLit b) = {}"
| "calls (BCall f) = {f}"
| "calls (BNot e) = calls e"
| "calls (BAnd e1 e2) = calls e1 \<union> calls e2"
| "calls (BOr e1 e2) = calls e1 \<union> calls e2"

primrec beval :: "(string \<Rightarrow> bool) \<Rightarrow> bexpr \<Rightarrow> bool" where
  "beval v (BLit b) = b"
| "beval v (BCall f) = v f"
| "beval v (BNot e) = (\<not> beval v e)"
| "beval v (BAnd e1 e2) = (beval v e1 \<and> beval v e2)"
| "beval v (BOr e1 e2) = (beval v e1 \<or> beval v e2)"

text \<open>The members a run asks, in order.\<close>

primrec consulted :: "(string \<Rightarrow> bool) \<Rightarrow> bexpr \<Rightarrow> string list" where
  "consulted v (BLit b) = []"
| "consulted v (BCall f) = [f]"
| "consulted v (BNot e) = consulted v e"
| "consulted v (BAnd e1 e2) = consulted v e1 @ (if beval v e1 then consulted v e2 else [])"
| "consulted v (BOr e1 e2) = consulted v e1 @ (if beval v e1 then [] else consulted v e2)"

definition member_outcome :: "AdmissionResponse \<Rightarrow> PolicyGroupMemberEvaluationResult" where
  "member_outcome response =
     (if ar_patch response \<noteq> None
      then \<lparr> mr_allowed = False, mr_message = Some ''mutation is not allowed inside of policy group'' \<rparr>
      else member_result_from response)"

definition admits :: "AdmissionResponse \<Rightarrow> bool" where
  "admits response \<longleftrightarrow> ar_allowed response \<and> ar_patch response = None"

lemma mr_allowed_member_outcome [simp]: "mr_allowed (member_outcome response) = admits response"
  by (simp add: member_outcome_def member_result_from_def admits_def)

lemma member_call_answered:
  "group_validate_policy rt g n request = Ok response \<Longrightarrow>
     member_call rt engine g request n results =
       (Ok (admits response), AList.update n (member_outcome response) results)"
  by (simp add: member_call_def member_outcome_def admits_def)

lemma map_of_record:
  "map_of (fold (\<lambda>n. AList.update n (out n)) ns results) m =
     (if m \<in> set ns then Some (out m) else map_of results m)"
  by (induction ns arbitrary: results) (auto simp: update_conv')

lemma run_rhai_tree:
  assumes "\<forall>n\<in>calls e. group_validate_policy rt g n request = Ok (resp n)"
    and "calls e \<subseteq> set names"
  shows "run_expression (member_call rt engine g request) (rhai_tree names missing e k) results =
         run_expression (member_call rt engine g request) (k (beval (admits \<circ> resp) e))
           (fold (\<lambda>n. AList.update n (member_outcome (resp n))) (consulted (admits \<circ> resp) e) results)"
  using assms
proof (induction e arbitrary: k results)
  case (BCall f)
  then show ?case by (simp add: member_call_answered)
qed simp_all

lemma run_rhai_tree_true:
  assumes "calls e \<subseteq> set names"
  shows "run_expression (\<lambda>_ s. (Ok True, s)) (rhai_tree names missing e k) s =
         run_expression (\<lambda>_ s. (Ok True, s)) (k (beval (\<lambda>_. True) e)) s"
  using assms by (induction e arbitrary: k) simp_all

lemma map_filter_member_cause:
  assumes "\<And>n. map_of results n = (if n \<in> A then Some (member_outcome (resp n)) else None)"
  shows "List.map_filter (member_cause results) names =
     map (\<lambda>n. StatusCause_default \<lparr> sc_field := Some (''spec.policies.'' @ n),
                                    sc_message := mr_message (member_outcome (resp n)) \<rparr>)
       (filter (\<lambda>n. n \<in> A \<and> \<not> admits (resp n)) names)"
  using assms by (induction names) (auto simp: map_filter_simps member_cause_def)

section \<open>Validated settings\<close>

lemma update_not_Nil [simp]: "AList.update k v al \<noteq> []"
  by (cases al) auto

lemma map_filter_Nil_iff: "List.map_filter f xs = [] \<longleftrightarrow> (\<forall>x\<in>set xs. f x = None)"
  by (induction xs) (auto simp: map_filter_simps split: option.splits)

lemma case_Err_None_iff: "(case r of Inl e \<Rightarrow> Some (f e) | Inr _ \<Rightarrow> None) = None \<longleftrightarrow> is_ok r"
  by (cases r) auto

lemma group_settings_valid_iff:
  "sv_valid (group_validate_settings rt engine g) \<longleftrightarrow>
     (\<forall>n\<in>set (map fst (pg_policy_members g)). is_ok (validate_policy_settings rt g n)) \<and>
     is_ok (fst (run_expression (\<lambda>_ s. (Ok True, s))
                   (re_eval engine (map fst (pg_policy_members g)) (pg_expression g)) ()))"
proof -
  have "member_settings_errors rt g = [] \<longleftrightarrow>
      (\<forall>n\<in>set (map fst (pg_policy_members g)). is_ok (validate_policy_settings rt g n))"
    by (simp add: member_settings_errors_def map_filter_Nil_iff case_Err_None_iff)
  then show ?thesis
    by (auto simp: group_validate_settings_def Let_def is_ok_iff split: sum.split)
qed

context policy_runtime_laws
begin

lemma validated_member_answers:
  assumes "is_ok (validate_policy_settings rt g n)"
  shows "\<exists>r. group_validate_policy rt g n request = Ok r"
proof -
  obtain pre s v where
    "map_of (pg_policy_members g) n = Some pre"
    "map_of (pg_policy_members_settings g) n = Some s"
    "rt_validate_settings rt pre (member_context g n s) (gm_settings s) = Ok v"
    using assms by (auto simp: validate_policy_settings_def is_ok_iff result_simps)
  moreover then obtain r where "rt_validate rt pre (member_context g n s) request (gm_settings s) = Ok r"
    using same_rehydration by blast
  ultimately show ?thesis by (simp add: group_validate_policy_def)
qed

lemma validated_members_answer:
  assumes "sv_valid (group_validate_settings rt engine g)"
  obtains resp where
    "\<forall>n\<in>set (map fst (pg_policy_members g)). group_validate_policy rt g n request = Ok (resp n)"
proof -
  have "\<forall>n\<in>set (map fst (pg_policy_members g)). \<exists>r. group_validate_policy rt g n request = Ok r"
    using assms validated_member_answers by (simp add: group_settings_valid_iff)
  then show thesis using that by metis
qed

end

section \<open>Properties\<close>

lemma group_validate_boolean:
  assumes "re_eval engine (map fst (pg_policy_members g)) (pg_expression g) =
           rhai_tree (map fst (pg_policy_members g)) missing e RDone"
    and "calls e \<subseteq> set (map fst (pg_policy_members g))"
    and "\<forall>n\<in>calls e. group_validate_policy rt g n request = Ok (resp n)"
  shows "group_validate rt engine g request =
    \<lparr> ar_uid = request_uid request, ar_allowed = beval (admits \<circ> resp) e, ar_patch_type = None,
      ar_patch = None,
      ar_status =
        (if beval (admits \<circ> resp) e then None
         else Some (AdmissionResponseStatus_default
           \<lparr> st_message := Some (pg_message g),
             st_details := Some (StatusDetails_default \<lparr> sd_causes :=
               map (\<lambda>n. StatusCause_default
                      \<lparr> sc_field := Some (''spec.policies.'' @ n),
                        sc_message := mr_message (member_outcome (resp n)) \<rparr>)
                 (filter (\<lambda>n. n \<in> set (consulted (admits \<circ> resp) e) \<and> \<not> admits (resp n))
                   (map fst (pg_policy_members g))) \<rparr>) \<rparr>)),
      ar_audit_annotations = None, ar_warnings = None \<rparr>"
proof -
  let ?results = "fold (\<lambda>n. AList.update n (member_outcome (resp n)))
                    (consulted (admits \<circ> resp) e) []"
  have causes: "List.map_filter (member_cause ?results) names =
     map (\<lambda>n. StatusCause_default \<lparr> sc_field := Some (''spec.policies.'' @ n),
                                    sc_message := mr_message (member_outcome (resp n)) \<rparr>)
       (filter (\<lambda>n. n \<in> set (consulted (admits \<circ> resp) e) \<and> \<not> admits (resp n)) names)" for names
    by (rule map_filter_member_cause) (simp add: map_of_record)
  have "run_expression (member_call rt engine g request)
      (re_eval engine (map fst (pg_policy_members g)) (pg_expression g)) [] =
      (Ok (beval (admits \<circ> resp) e), ?results)"
    unfolding assms(1) run_rhai_tree [OF assms(3,2)] by simp
  then show ?thesis
    by (simp add: group_validate_def causes AdmissionResponseStatus_default_def)
qed

text \<open>
  C15: a policy group decides by its expression.  When the expression is a boolean
  expression over members that can be evaluated, the group admits the request exactly if the
  expression holds with each member read as "admits the request without mutating it".
  The response never carries a patch.  A rejection carries the message of the group and,
  as causes, exactly the members that were asked and did not admit the request, each with
  its own message.
\<close>

theorem group_decides_by_expression:
  assumes "re_eval engine (map fst (pg_policy_members g)) (pg_expression g) =
           rhai_tree (map fst (pg_policy_members g)) missing e RDone"
    and "calls e \<subseteq> set (map fst (pg_policy_members g))"
    and "\<forall>n\<in>calls e. group_validate_policy rt g n request = Ok (resp n)"
  shows "let response = group_validate rt engine g request in
     (ar_allowed response \<longleftrightarrow> beval (admits \<circ> resp) e) \<and>
     ar_patch response = None \<and> ar_uid response = request_uid request \<and>
     (\<not> ar_allowed response \<longrightarrow> (\<exists>st d. ar_status response = Some st \<and>
        st_message st = Some (pg_message g) \<and> st_details st = Some d \<and>
        (\<forall>c. c \<in> set (sd_causes d) \<longleftrightarrow>
          (\<exists>n. n \<in> set (consulted (admits \<circ> resp) e) \<and> n \<in> set (map fst (pg_policy_members g)) \<and>
             \<not> admits (resp n) \<and>
             c = StatusCause_default \<lparr> sc_field := Some (''spec.policies.'' @ n),
                   sc_message := mr_message (member_outcome (resp n)) \<rparr>))))"
  unfolding group_validate_boolean [OF assms] Let_def by auto

theorem group_decides_by_expression_witness:
  "let yes = \<lparr> ar_uid = [], ar_allowed = True, ar_patch_type = None, ar_patch = None, ar_status = None,
               ar_audit_annotations = None, ar_warnings = None \<rparr>;
       no = yes \<lparr> ar_allowed := False \<rparr>;
       rt = \<lparr> rt_validate = (\<lambda>pre _ _ _. Ok pre),
              rt_validate_settings = (\<lambda>_ _ _. Ok \<lparr> sv_valid = True, sv_message = None \<rparr>) \<rparr>;
       e = BAnd (BCall ''a'') (BNot (BCall ''b''));
       engine = \<lparr> re_eval = (\<lambda>names _. rhai_tree names id e RDone), re_error_system = (\<lambda>s _. s) \<rparr>;
       ms = \<lparr> gm_settings = [], gm_ctx_aware_resources_allow_list = {}, gm_epoch_deadline = None,
              gm_host_capabilities = DenyAll \<rparr>;
       g = add_policy_member ''b'' no ms (add_policy_member ''a'' yes ms
             (PolicyGroupEvaluator_new ''g'' ''denied'' ''a() && !b()'' None))
   in ar_allowed (group_validate rt engine g (Raw JNull))"
proof -
  define yes where "yes = \<lparr> ar_uid = [], ar_allowed = True, ar_patch_type = None, ar_patch = None,
      ar_status = None, ar_audit_annotations = None, ar_warnings = None \<rparr>"
  define no where "no = yes \<lparr> ar_allowed := False \<rparr>"
  define rt :: "AdmissionResponse policy_runtime" where
    "rt = \<lparr> rt_validate = (\<lambda>pre _ _ _. Ok pre),
            rt_validate_settings = (\<lambda>_ _ _. Ok \<lparr> sv_valid = True, sv_message = None \<rparr>) \<rparr>"
  define e where "e = BAnd (BCall ''a'') (BNot (BCall ''b''))"
  define engine where "engine = \<lparr> re_eval = (\<lambda>names _. rhai_tree names id e RDone),
      re_error_system = (\<lambda>s _. s) \<rparr>"
  define ms where "ms = \<lparr> gm_settings = [], gm_ctx_aware_resources_allow_list = {},
      gm_epoch_deadline = None, gm_host_capabilities = DenyAll \<rparr>"
  define g where "g = add_policy_member ''b'' no ms (add_policy_member ''a'' yes ms
      (PolicyGroupEvaluator_new ''g'' ''denied'' ''a() && !b()'' None))"
  define resp where "resp n = (if n = ''a'' then yes else no)" for n
  have members: "pg_policy_members g = [(''a'', yes), (''b'', no)]"
    "pg_policy_members_settings g = [(''a'', ms), (''b'', ms)]"
    by (simp_all add: g_def add_policy_member_def PolicyGroupEvaluator_new_def)
  have "let response = group_validate rt engine g (Raw JNull) in
      ar_allowed response \<longleftrightarrow> beval (admits \<circ> resp) e"
    using group_decides_by_expression [of engine g id e rt "Raw JNull" resp]
    unfolding Let_def
    by (simp add: engine_def members e_def group_validate_policy_def rt_def resp_def)
  then have "ar_allowed (group_validate rt engine g (Raw JNull))"
    by (simp add: e_def resp_def admits_def yes_def no_def)
  then show ?thesis
    unfolding Let_def g_def ms_def engine_def e_def rt_def no_def yes_def .
qed



text \<open>
  Validating the settings does not make sure that the expression is valid.  The
  expression is tried with every member answering true, so what stands behind a true
  operand of \<^verbatim>\<open>||\<close> is never looked at: \<^verbatim>\<open>a() || missing()\<close> is accepted although no member
  \<^verbatim>\<open>missing\<close> exists.  Each request that \<^verbatim>\<open>a\<close> does not admit is then rejected with the error 500.
\<close>

theorem group_settings_skip_untaken_operands:
  assumes "pg_policy_members g = [(''a'', pre)]"
    and "re_eval engine [''a''] (pg_expression g) =
           rhai_tree [''a''] missing (BOr (BCall ''a'') (BCall ''missing'')) RDone"
    and "is_ok (validate_policy_settings rt g ''a'')"
    and "group_validate_policy rt g ''a'' request = Ok r" and "\<not> admits r"
  shows "sv_valid (group_validate_settings rt engine g) \<and>
         group_validate rt engine g request =
           reject (request_uid request)
             (''error evaluating policy group expression: '' @ missing ''missing'') 500"
  using assms by (simp add: group_settings_valid_iff group_validate_def member_call_answered)


theorem group_settings_skip_untaken_operands_witness:
  "let no = \<lparr> ar_uid = [], ar_allowed = False, ar_patch_type = None, ar_patch = None, ar_status = None,
              ar_audit_annotations = None, ar_warnings = None \<rparr>;
       rt = \<lparr> rt_validate = (\<lambda>pre _ _ _. Ok pre),
              rt_validate_settings = (\<lambda>_ _ _. Ok \<lparr> sv_valid = True, sv_message = None \<rparr>) \<rparr>;
       engine = \<lparr> re_eval = (\<lambda>names _. rhai_tree names (\<lambda>f. f)
                    (BOr (BCall ''a'') (BCall ''missing'')) RDone), re_error_system = (\<lambda>s _. s) \<rparr>;
       ms = \<lparr> gm_settings = [], gm_ctx_aware_resources_allow_list = {}, gm_epoch_deadline = None,
              gm_host_capabilities = DenyAll \<rparr>;
       g = \<lparr> pg_policy_id = ''g'', pg_message = ''denied'', pg_expression = ''a() || missing()'',
             pg_policy_members = [(''a'', no)], pg_policy_members_settings = [(''a'', ms)],
             pg_callback_channel = None \<rparr>
   in sv_valid (group_validate_settings rt engine g) \<and>
      group_validate rt engine g (Raw JNull) =
        reject (request_uid (Raw JNull))
          (''error evaluating policy group expression: '' @ ''missing'') 500"
  unfolding Let_def
  by (rule group_settings_skip_untaken_operands [where missing = "\<lambda>f. f"
        and pre = "\<lparr> ar_uid = [], ar_allowed = False, ar_patch_type = None, ar_patch = None,
          ar_status = None, ar_audit_annotations = None, ar_warnings = None \<rparr>"
        and r = "\<lparr> ar_uid = [], ar_allowed = False, ar_patch_type = None, ar_patch = None,
          ar_status = None, ar_audit_annotations = None, ar_warnings = None \<rparr>"])
     (simp_all add: validate_policy_settings_def group_validate_policy_def admits_def)

end
