(* ===== verification/Config.thy ===== *)
theory Config
  imports Policy_Id Policy_Group Fetcher_Sources
begin

text \<open>
  The configuration of the policy server (\<^verbatim>\<open>policy-server/src/config.rs\<close>): the policies and
  policy groups of \<^verbatim>\<open>policies.yml\<close>, their validation, and the configuration built from the
  command line.  The command line parser, the file readers and the parser of socket addresses
  are parameters.
\<close>

section \<open>Policies and policy groups\<close>

datatype PolicyOrPolicyGroupSettings =
    Set_Policy PolicySettings
  | Set_PolicyGroup string string "string list"

record PolicyGroupMember =
  gmc_module :: string
  gmc_settings :: "PolicySettings option"
  gmc_context_aware_resources :: "ContextAwareResource set"
  gmc_timeout_eval_seconds :: "64 word option"
  gmc_host_capabilities :: "string list"

record PolicyConfig =
  pc_module :: string
  pc_policy_mode :: PolicyMode
  pc_allowed_to_mutate :: "bool option"
  pc_settings :: "PolicySettings option"
  pc_context_aware_resources :: "ContextAwareResource set"
  pc_message :: "string option"
  pc_timeout_eval_seconds :: "64 word option"
  pc_host_capabilities :: "string list"

record PolicyGroupConfig =
  gc_policy_mode :: PolicyMode
  gc_policies :: "(string \<times> PolicyGroupMember) list"
  gc_expression :: string
  gc_message :: string

datatype PolicyOrPolicyGroup = Individual PolicyConfig | Grouped PolicyGroupConfig

definition settings_or_default :: "PolicySettings option \<Rightarrow> PolicySettings" where
  "settings_or_default s = (case s of None \<Rightarrow> [] | Some x \<Rightarrow> x)"

definition PolicyGroupMember_settings :: "PolicyGroupMember \<Rightarrow> string + PolicyOrPolicyGroupSettings" where
  "PolicyGroupMember_settings m = Ok (Set_Policy (settings_or_default (gmc_settings m)))"

fun PolicyOrPolicyGroup_settings :: "PolicyOrPolicyGroup \<Rightarrow> string + PolicyOrPolicyGroupSettings" where
  "PolicyOrPolicyGroup_settings (Individual p) = Ok (Set_Policy (settings_or_default (pc_settings p)))"
| "PolicyOrPolicyGroup_settings (Grouped g) =
     Ok (Set_PolicyGroup (gc_expression g) (gc_message g) (map fst (gc_policies g)))"

type_synonym policies_config = "(string \<times> PolicyOrPolicyGroup) list"

fun has_timeout :: "PolicyOrPolicyGroup \<Rightarrow> bool" where
  "has_timeout (Individual p) = (pc_timeout_eval_seconds p \<noteq> None)"
| "has_timeout (Grouped g) = list_ex (\<lambda>(_, m). gmc_timeout_eval_seconds m \<noteq> None) (gc_policies g)"

definition any_policy_has_timeout :: "policies_config \<Rightarrow> bool" where
  "any_policy_has_timeout policies = list_ex (\<lambda>(_, p). has_timeout p) policies"

text \<open>\<open>dbg\<close> prints a list of names the way \<^verbatim>\<open>{:?}\<close> does.\<close>

definition validate_policy_names ::
  "(string list \<Rightarrow> string) \<Rightarrow> unit \<Rightarrow> string \<times> PolicyOrPolicyGroup \<Rightarrow> string + unit" where
  "validate_policy_names dbg _ np =
     (case np of (name, policy) \<Rightarrow>
        if CHR ''/'' \<in> set name then
          Err (''policy name '' @ [CHR 39] @ name @ [CHR 39] @ '' contains a '' @ [CHR 39] @ ''/'' @ [CHR 39] @
               '' character'')
        else
          (case policy of
             Grouped g \<Rightarrow>
               (let policies_with_invalid_name = filter (\<lambda>i. CHR ''/'' \<in> set i) (map fst (gc_policies g)) in
                if policies_with_invalid_name \<noteq> [] then
                  Err (''policy group '' @ [CHR 39] @ name @ [CHR 39] @
                       '' contains policies with invalid names: '' @ dbg policies_with_invalid_name)
                else Ok ())
           | Individual _ \<Rightarrow> Ok ()))"

definition validate_policies :: "(string list \<Rightarrow> string) \<Rightarrow> policies_config \<Rightarrow> string + unit" where
  "validate_policies dbg policies = try_fold (validate_policy_names dbg) () policies"

section \<open>The command line\<close>

text \<open>
  The options of \<^verbatim>\<open>cli.rs\<close>: identifier (which is the long name but for \<^verbatim>\<open>address\<close>), environment variable, default, whether the
  option is a flag, and the values it may have (any, if none is listed).  Help texts are left out.
\<close>

record arg_spec =
  as_id :: string
  as_long :: string
  as_env :: string
  as_default :: "string option"
  as_flag :: bool
  as_values :: "string list"

definition opt :: "string \<Rightarrow> string \<Rightarrow> arg_spec" where
  "opt name env = \<lparr> as_id = name, as_long = name, as_env = env, as_default = None, as_flag = False,
     as_values = [] \<rparr>"

definition opt_default :: "string \<Rightarrow> string \<Rightarrow> string \<Rightarrow> arg_spec" where
  "opt_default name env d = (opt name env) \<lparr> as_default := Some d \<rparr>"

definition flag :: "string \<Rightarrow> string \<Rightarrow> arg_spec" where
  "flag name env = (opt name env) \<lparr> as_flag := True \<rparr>"

definition build_cli :: "arg_spec list" where
  "build_cli =
    [(opt_default ''log-level'' ''KUBEWARDEN_LOG_LEVEL'' ''info'')
       \<lparr> as_values := [''trace'', ''debug'', ''info'', ''warn'', ''error''] \<rparr>,
     (opt_default ''log-fmt'' ''KUBEWARDEN_LOG_FMT'' ''text'') \<lparr> as_values := [''text'', ''json'', ''otlp''] \<rparr>,
     flag ''log-no-color'' ''NO_COLOR'',
     (opt_default ''address'' ''KUBEWARDEN_BIND_ADDRESS'' ''0.0.0.0'') \<lparr> as_long := ''addr'' \<rparr>,
     opt_default ''port'' ''KUBEWARDEN_PORT'' ''3000'',
     opt_default ''readiness-probe-port'' ''KUBEWARDEN_READINESS_PROBE_PORT'' ''8081'',
     opt ''workers'' ''KUBEWARDEN_WORKERS'',
     opt ''cert-file'' ''KUBEWARDEN_CERT_FILE'',
     opt ''key-file'' ''KUBEWARDEN_KEY_FILE'',
     opt ''client-ca-file'' ''KUBEWARDEN_CLIENT_CA_FILE'',
     opt_default ''policies'' ''KUBEWARDEN_POLICIES'' ''policies.yml'',
     opt_default ''policies-download-dir'' ''KUBEWARDEN_POLICIES_DOWNLOAD_DIR'' ''.'',
     opt_default ''sigstore-cache-dir'' ''KUBEWARDEN_SIGSTORE_CACHE_DIR'' ''sigstore-data'',
     opt ''sigstore-trust-config'' ''KUBEWARDEN_SIGSTORE_TRUST_CONFIG_PATH'',
     opt ''sources-path'' ''KUBEWARDEN_SOURCES_PATH'',
     opt ''verification-path'' ''KUBEWARDEN_VERIFICATION_CONFIG_PATH'',
     opt ''docker-config-json-path'' ''KUBEWARDEN_DOCKER_CONFIG_JSON_PATH'',
     flag ''enable-metrics'' ''KUBEWARDEN_ENABLE_METRICS'',
     opt ''always-accept-admission-reviews-on-namespace''
       ''KUBEWARDEN_ALWAYS_ACCEPT_ADMISSION_REVIEWS_ON_NAMESPACE'',
     flag ''disable-timeout-protection'' ''KUBEWARDEN_DISABLE_TIMEOUT_PROTECTION'',
     opt_default ''policy-timeout'' ''KUBEWARDEN_POLICY_TIMEOUT'' ''2'',
     flag ''disable-memory-limit'' ''KUBEWARDEN_DISABLE_MEMORY_LIMIT'',
     opt_default ''policy-memory-limit'' ''KUBEWARDEN_POLICY_MEMORY_LIMIT'' ''256'',
     flag ''daemon'' ''KUBEWARDEN_DAEMON'',
     opt_default ''daemon-pid-file'' ''KUBEWARDEN_DAEMON_PID_FILE'' ''policy-server.pid'',
     opt ''daemon-stdout-file'' ''KUBEWARDEN_DAEMON_STDOUT_FILE'',
     opt ''daemon-stderr-file'' ''KUBEWARDEN_DAEMON_STDERR_FILE'',
     flag ''ignore-kubernetes-connection-failure'' ''KUBEWARDEN_IGNORE_KUBERNETES_CONNECTION_FAILURE'',
     flag ''enable-pprof'' ''KUBEWARDEN_ENABLE_PPROF'',
     flag ''continue-on-errors'' ''KUBEWARDEN_CONTINUE_ON_ERRORS'']"

text \<open>
  What the option parser hands over: the value of an option, that of a flag, the list of values
  of an option that takes several.
\<close>

record ArgMatches =
  am_value :: "string \<Rightarrow> string option"
  am_flag :: "string \<Rightarrow> bool option"
  am_many :: "string \<Rightarrow> string list option"

text \<open>
  How the parser fills it, as documented: what was given on the command line or in the
  environment, the default otherwise; a flag always has a value; nothing for an unknown
  identifier.
\<close>

definition clap_matches :: "arg_spec list \<Rightarrow> (string \<rightharpoonup> string list) \<Rightarrow> string set \<Rightarrow> ArgMatches" where
  "clap_matches specs given flags =
     \<lparr> am_value = (\<lambda>i. case find (\<lambda>s. as_id s = i) specs of
           None \<Rightarrow> None
         | Some s \<Rightarrow> (if as_flag s then None
                      else case given i of Some (v # _) \<Rightarrow> Some v | _ \<Rightarrow> as_default s)),
       am_flag = (\<lambda>i. case find (\<lambda>s. as_id s = i) specs of
           None \<Rightarrow> None
         | Some s \<Rightarrow> (if as_flag s then Some (i \<in> flags) else None)),
       am_many = (\<lambda>i. case find (\<lambda>s. as_id s = i) specs of
           None \<Rightarrow> None
         | Some s \<Rightarrow> (if as_flag s then None else given i)) \<rparr>"

section \<open>The configuration\<close>

text \<open>Reading the configuration fails with a message, or panics where it expects a value.\<close>

datatype config_error = Failed string | Panicked string

definition expect :: "string \<Rightarrow> 'a option \<Rightarrow> config_error + 'a" where
  "expect message x = ok_or (Panicked message) x"

definition expect_flag :: "string \<Rightarrow> ArgMatches \<Rightarrow> string \<Rightarrow> config_error + bool" where
  "expect_flag verb matches i = expect (''clap should have '' @ verb @ '' a default value'') (am_flag matches i)"

record TlsConfig =
  tls_cert_file :: string
  tls_key_file :: string
  tls_client_ca_file :: "string list"

definition build_tls_config :: "ArgMatches \<Rightarrow> config_error + TlsConfig option" where
  "build_tls_config matches =
     (case (am_value matches ''cert-file'', am_value matches ''key-file'', am_many matches ''client-ca-file'') of
        (Some cert_file, Some key_file, client_ca_file) \<Rightarrow>
          Ok (Some \<lparr> tls_cert_file = cert_file, tls_key_file = key_file,
                     tls_client_ca_file = (case client_ca_file of None \<Rightarrow> [] | Some ps \<Rightarrow> ps) \<rparr>)
      | (None, None, None) \<Rightarrow> Ok None
      | (None, None, Some _) \<Rightarrow>
          Err (Failed ''client CA certificate requires server certificate and key to be specified'')
      | _ \<Rightarrow> Err (Failed ''both certificate and key must be provided together''))"

definition policy_evaluation_limit :: "ArgMatches \<Rightarrow> config_error + 64 word option" where
  "policy_evaluation_limit matches =
     try_then (expect_flag ''set'' matches ''disable-timeout-protection'') (\<lambda>disabled.
       if disabled then Ok None
       else
         try_then (expect ''policy-timeout should always be set'' (am_value matches ''policy-timeout'')) (\<lambda>timeout.
           map_ok (\<lambda>n. Some (of_nat n)) (map_err Failed (parse_u64 timeout))))"

definition BYTES_PER_MIB :: "64 word" where
  "BYTES_PER_MIB = 1024 * 1024"

definition policy_memory_limit :: "ArgMatches \<Rightarrow> config_error + 64 word option" where
  "policy_memory_limit matches =
     try_then (expect_flag ''set'' matches ''disable-memory-limit'') (\<lambda>disabled.
       if disabled then Ok None
       else
         try_then (expect ''policy-memory-limit should always be set''
           (am_value matches ''policy-memory-limit'')) (\<lambda>limit.
         try_then (map_err Failed (parse_u64 limit)) (\<lambda>policy_memory_limit_mib.
           if policy_memory_limit_mib = 0 then
             Err (Failed (''policy-memory-limit must be greater than 0, or the limit must be disabled '' @
                  ''via --disable-memory-limit''))
           else Ok (Some (of_nat policy_memory_limit_mib * BYTES_PER_MIB)))))"

text \<open>The readers of files and addresses, the number of processors, the environment.\<close>

record ('addr, 'ver) config_library =
  cfl_parse_addr :: "string \<Rightarrow> string + 'addr"
  cfl_read_policies :: "string \<Rightarrow> string + policies_config"
  cfl_debug_names :: "string list \<Rightarrow> string"
  cfl_debug_path :: "string \<Rightarrow> string"
  cfl_read_sources :: "string \<Rightarrow> string + Sources"
  cfl_read_verification :: "string \<Rightarrow> string + 'ver"
  cfl_num_cpus :: nat
  cfl_env :: "string \<rightharpoonup> string"

definition bind_address ::
  "('addr, 'ver) config_library \<Rightarrow> ArgMatches \<Rightarrow> string \<Rightarrow> config_error + 'addr" where
  "bind_address lib matches port =
     try_then (expect ''called `Option::unwrap()` on a `None` value'' (am_value matches ''address'')) (\<lambda>address.
     try_then (expect ''called `Option::unwrap()` on a `None` value'' (am_value matches port)) (\<lambda>port.
       map_err (\<lambda>e. Failed (''error parsing arguments: '' @ e)) (cfl_parse_addr lib (address @ '':'' @ port))))"

definition api_bind_address :: "('addr, 'ver) config_library \<Rightarrow> ArgMatches \<Rightarrow> config_error + 'addr" where
  "api_bind_address lib matches = bind_address lib matches ''port''"

definition readiness_probe_bind_address ::
  "('addr, 'ver) config_library \<Rightarrow> ArgMatches \<Rightarrow> config_error + 'addr" where
  "readiness_probe_bind_address lib matches = bind_address lib matches ''readiness-probe-port''"

definition config_policies ::
  "('addr, 'ver) config_library \<Rightarrow> ArgMatches \<Rightarrow> config_error + policies_config" where
  "config_policies lib matches =
     try_then (expect ''called `Option::unwrap()` on a `None` value'' (am_value matches ''policies'')) (\<lambda>path.
     try_then (map_err (\<lambda>e. Failed (''error while loading policies from '' @ cfl_debug_path lib path @ '': '' @ e))
               (cfl_read_policies lib path)) (\<lambda>policies.
     try_then (map_err Failed (validate_policies (cfl_debug_names lib) policies)) (\<lambda>_. Ok policies)))"

text \<open>The sources, and the environment with the place of the registry credentials.\<close>

definition DOCKER_CONFIG_ENV_VAR :: string where
  "DOCKER_CONFIG_ENV_VAR = ''DOCKER_CONFIG''"

definition remote_server_options ::
  "('addr, 'ver) config_library \<Rightarrow> ArgMatches \<Rightarrow> config_error + Sources option \<times> (string \<rightharpoonup> string)" where
  "remote_server_options lib matches =
     try_then (case am_value matches ''sources-path'' of
                 Some f \<Rightarrow> map_ok Some (map_err (\<lambda>e. Failed (''error while loading sources from '' @ f @ '': '' @ e))
                                        (cfl_read_sources lib f))
               | None \<Rightarrow> Ok None) (\<lambda>sources.
       Ok (map_option (\<lambda>s. s \<lparr> so_proxies := Some (ProxyConfig_from_env (cfl_env lib)) \<rparr>) sources,
           (case am_value matches ''docker-config-json-path'' of
              Some path \<Rightarrow> (cfl_env lib)(DOCKER_CONFIG_ENV_VAR \<mapsto> path)
            | None \<Rightarrow> cfl_env lib)))"

definition verification_config ::
  "('addr, 'ver) config_library \<Rightarrow> ArgMatches \<Rightarrow> config_error + 'ver option" where
  "verification_config lib matches =
     (case am_value matches ''verification-path'' of
        None \<Rightarrow> Ok None
      | Some path \<Rightarrow> map_ok Some (map_err Failed (cfl_read_verification lib path)))"

definition config_pool_size :: "('addr, 'ver) config_library \<Rightarrow> ArgMatches \<Rightarrow> config_error + nat" where
  "config_pool_size lib matches =
     (case am_value matches ''workers'' of
        None \<Rightarrow> Ok (cfl_num_cpus lib)
      | Some v \<Rightarrow> map_err (\<lambda>_. Panicked ''error parsing the number of workers'') (parse_u64 v))"

record ('addr, 'ver) Config =
  cf_addr :: 'addr
  cf_readiness_probe_addr :: 'addr
  cf_sources :: "Sources option"
  cf_policies :: policies_config
  cf_policies_download_dir :: string
  cf_ignore_kubernetes_connection_failure :: bool
  cf_always_accept_admission_reviews_on_namespace :: "string option"
  cf_policy_evaluation_limit_seconds :: "64 word option"
  cf_policy_memory_limit_bytes :: "64 word option"
  cf_tls_config :: "TlsConfig option"
  cf_pool_size :: nat
  cf_metrics_enabled :: bool
  cf_sigstore_cache_dir :: string
  cf_sigstore_trust_config_path :: "string option"
  cf_verification_config :: "'ver option"
  cf_log_level :: string
  cf_log_fmt :: string
  cf_log_no_color :: bool
  cf_daemon :: bool
  cf_enable_pprof :: bool
  cf_daemon_pid_file :: string
  cf_daemon_stdout_file :: "string option"
  cf_daemon_stderr_file :: "string option"
  cf_continue_on_errors :: bool

definition expect_default :: "ArgMatches \<Rightarrow> string \<Rightarrow> config_error + string" where
  "expect_default matches i =
     expect (''This should not happen, there'' @ [CHR 39] @ ''s a default value for '' @ i) (am_value matches i)"

text \<open>The configuration, and the environment that is left behind.\<close>

definition Config_from_args ::
  "('addr, 'ver) config_library \<Rightarrow> ArgMatches \<Rightarrow> config_error + ('addr, 'ver) Config \<times> (string \<rightharpoonup> string)" where
  "Config_from_args lib matches =
     try_then (api_bind_address lib matches) (\<lambda>addr.
     try_then (readiness_probe_bind_address lib matches) (\<lambda>probe_addr.
     try_then (config_policies lib matches) (\<lambda>policies.
     try_then (expect_default matches ''policies-download-dir'') (\<lambda>download_dir.
     try_then (policy_evaluation_limit matches) (\<lambda>limit_seconds.
     try_then (policy_memory_limit matches) (\<lambda>limit_bytes.
     try_then (remote_server_options lib matches) (\<lambda>(sources, env).
     try_then (config_pool_size lib matches) (\<lambda>pool_size.
     try_then (expect_flag ''set'' matches ''enable-metrics'') (\<lambda>metrics_enabled.
     try_then (expect_flag ''set'' matches ''ignore-kubernetes-connection-failure'') (\<lambda>ignore_failure.
     try_then (verification_config lib matches) (\<lambda>ver.
     try_then (expect_default matches ''sigstore-cache-dir'') (\<lambda>cache_dir.
     try_then (expect_flag ''set'' matches ''daemon'') (\<lambda>daemon.
     try_then (expect_default matches ''daemon-pid-file'') (\<lambda>pid_file.
     try_then (expect_default matches ''log-level'') (\<lambda>log_level.
     try_then (expect_default matches ''log-fmt'') (\<lambda>log_fmt.
     try_then (expect_flag ''assigned'' matches ''log-no-color'') (\<lambda>log_no_color.
     try_then (build_tls_config matches) (\<lambda>tls.
     try_then (expect_flag ''assigned'' matches ''enable-pprof'') (\<lambda>enable_pprof.
     try_then (expect_flag ''assigned'' matches ''continue-on-errors'') (\<lambda>continue_on_errors.
       Ok (\<lparr> cf_addr = addr, cf_readiness_probe_addr = probe_addr, cf_sources = sources,
            cf_policies = policies, cf_policies_download_dir = download_dir,
            cf_ignore_kubernetes_connection_failure = ignore_failure,
            cf_always_accept_admission_reviews_on_namespace =
              am_value matches ''always-accept-admission-reviews-on-namespace'',
            cf_policy_evaluation_limit_seconds = limit_seconds,
            cf_policy_memory_limit_bytes = limit_bytes, cf_tls_config = tls,
            cf_pool_size = pool_size, cf_metrics_enabled = metrics_enabled,
            cf_sigstore_cache_dir = cache_dir,
            cf_sigstore_trust_config_path = am_value matches ''sigstore-trust-config'',
            cf_verification_config = ver, cf_log_level = log_level, cf_log_fmt = log_fmt,
            cf_log_no_color = log_no_color, cf_daemon = daemon, cf_enable_pprof = enable_pprof,
            cf_daemon_pid_file = pid_file,
            cf_daemon_stdout_file = am_value matches ''daemon-stdout-file'',
            cf_daemon_stderr_file = am_value matches ''daemon-stderr-file'',
            cf_continue_on_errors = continue_on_errors \<rparr>, env)))))))))))))))))))))"

section \<open>Lemmas\<close>

text \<open>Names without a slash, as \<^verbatim>\<open>validate_policies\<close> wants them.\<close>

definition slash_free :: "policies_config \<Rightarrow> bool" where
  "slash_free policies \<longleftrightarrow>
     (\<forall>(name, p)\<in>set policies. CHR ''/'' \<notin> set name \<and>
        (case p of Grouped g \<Rightarrow> (\<forall>m\<in>set (map fst (gc_policies g)). CHR ''/'' \<notin> set m)
                 | Individual _ \<Rightarrow> True))"

lemma validate_policy_names_Ok_iff:
  "validate_policy_names dbg u (name, p) = Ok v \<longleftrightarrow>
     CHR ''/'' \<notin> set name \<and>
     (case p of Grouped g \<Rightarrow> (\<forall>m\<in>set (map fst (gc_policies g)). CHR ''/'' \<notin> set m) | Individual _ \<Rightarrow> True)"
  by (auto simp: validate_policy_names_def Let_def filter_empty_conv split: PolicyOrPolicyGroup.splits)

lemma validate_policies_iff: "validate_policies dbg policies = Ok u \<longleftrightarrow> slash_free policies"
  unfolding validate_policies_def slash_free_def
proof (induction policies)
  case (Cons p ps)
  obtain n q where "p = (n, q)" by (cases p)
  with Cons show ?case by (auto simp: try_then_Ok_iff validate_policy_names_Ok_iff)
qed simp


text \<open>What the options of the command line guarantee.\<close>

definition cli_find :: "string \<Rightarrow> arg_spec option" where
  "cli_find i = find (\<lambda>s. as_id s = i) build_cli"

lemma clap_matches_simps:
  "am_value (clap_matches build_cli given flags) i =
     (case cli_find i of None \<Rightarrow> None
      | Some s \<Rightarrow> (if as_flag s then None
                   else case given i of Some (v # _) \<Rightarrow> Some v | _ \<Rightarrow> as_default s))"
  "am_flag (clap_matches build_cli given flags) i =
     (case cli_find i of None \<Rightarrow> None | Some s \<Rightarrow> (if as_flag s then Some (i \<in> flags) else None))"
  by (simp_all add: clap_matches_def cli_find_def)

text \<open>The options with a default, and the flags.\<close>

definition defaulted_options :: "string list" where
  "defaulted_options =
     map as_id (filter (\<lambda>s. \<not> as_flag s \<and> as_default s \<noteq> None) build_cli)"

definition flag_options :: "string list" where
  "flag_options = map as_id (filter as_flag build_cli)"

lemma cli_find_defaulted:
  "list_all (\<lambda>i. case cli_find i of Some s \<Rightarrow> \<not> as_flag s \<and> as_default s \<noteq> None | None \<Rightarrow> False)
     defaulted_options"
  by code_simp

lemma cli_find_flag:
  "list_all (\<lambda>i. case cli_find i of Some s \<Rightarrow> as_flag s | None \<Rightarrow> False) flag_options"
  by code_simp

lemma cli_default:
  assumes "i \<in> set defaulted_options"
  shows "\<exists>v. am_value (clap_matches build_cli given flags) i = Some v"
proof -
  have "case cli_find i of Some s \<Rightarrow> \<not> as_flag s \<and> as_default s \<noteq> None | None \<Rightarrow> False"
    using cli_find_defaulted assms unfolding list_all_iff by (rule bspec)
  then obtain s where "cli_find i = Some s" "\<not> as_flag s" "as_default s \<noteq> None"
    by (cases "cli_find i") auto
  then show ?thesis by (auto simp: clap_matches_simps split: option.splits list.splits)
qed

lemma cli_flag:
  assumes "i \<in> set flag_options"
  shows "am_flag (clap_matches build_cli given flags) i = Some (i \<in> flags)"
proof -
  have "case cli_find i of Some s \<Rightarrow> as_flag s | None \<Rightarrow> False"
    using cli_find_flag assms unfolding list_all_iff by (rule bspec)
  then obtain s where "cli_find i = Some s" "as_flag s" by (cases "cli_find i") auto
  then show ?thesis by (simp add: clap_matches_simps)
qed

lemma expected_options:
  "list_all (\<lambda>i. i \<in> set defaulted_options)
     [''log-level'', ''log-fmt'', ''address'', ''port'', ''readiness-probe-port'', ''policies'',
      ''policies-download-dir'', ''sigstore-cache-dir'', ''policy-timeout'', ''policy-memory-limit'',
      ''daemon-pid-file'']"
  "list_all (\<lambda>i. i \<in> set flag_options)
     [''log-no-color'', ''enable-metrics'', ''disable-timeout-protection'', ''disable-memory-limit'',
      ''daemon'', ''ignore-kubernetes-connection-failure'', ''enable-pprof'', ''continue-on-errors'']"
  by code_simp+

lemmas expected_option = expected_options [unfolded list.pred_inject simp_thms]

lemma cli_workers:
  "am_value (clap_matches build_cli given flags) ''workers'' =
     (case given ''workers'' of Some (v # _) \<Rightarrow> Some v | _ \<Rightarrow> None)"
proof -
  have "cli_find ''workers'' = Some (opt ''workers'' ''KUBEWARDEN_WORKERS'')" by code_simp
  then show ?thesis by (simp add: clap_matches_simps opt_def split: option.splits list.splits)
qed

definition panics :: "config_error + 'a \<Rightarrow> bool" where
  "panics r \<longleftrightarrow> (\<exists>m. r = Err (Panicked m))"

lemma panics_simps [simp]:
  "\<not> panics (Ok a)" "\<not> panics (Err (Failed m))" "panics (Err (Panicked m))"
  "\<not> panics (map_err Failed r)" "\<not> panics (map_ok f (map_err Failed r))"
  "\<not> panics (map_err (\<lambda>e. Failed (g e)) r)" "\<not> panics (map_ok f (map_err (\<lambda>e. Failed (g e)) r))"
  by (auto simp: panics_def result_simps)

lemma panics_try_then: "panics (try_then r k) \<longleftrightarrow> panics r \<or> (\<exists>a. r = Ok a \<and> panics (k a))"
  by (auto simp: panics_def try_then_Err_iff)

lemma panics_expect: "panics (expect m x) \<longleftrightarrow> x = None"
  by (cases x) (simp_all add: expect_def)

lemma expect_defaulted [simp]:
  "i \<in> set defaulted_options \<Longrightarrow> \<not> panics (expect m (am_value (clap_matches build_cli given flags) i))"
  using cli_default [of i given flags] by (auto simp: panics_expect)

lemma expect_flagged [simp]:
  "i \<in> set flag_options \<Longrightarrow> \<not> panics (expect_flag w (clap_matches build_cli given flags) i)"
  by (simp add: expect_flag_def panics_expect cli_flag)

lemma no_panic_parts:
  fixes lib given flags defines "m \<equiv> clap_matches build_cli given flags"
  shows "\<not> panics (api_bind_address lib m)" "\<not> panics (readiness_probe_bind_address lib m)"
    "\<not> panics (config_policies lib m)" "\<not> panics (policy_evaluation_limit m)"
    "\<not> panics (policy_memory_limit m)"
  by (simp_all add: m_def api_bind_address_def readiness_probe_bind_address_def bind_address_def
      config_policies_def policy_evaluation_limit_def policy_memory_limit_def panics_try_then expected_option)

lemma no_panic_options:
  "\<not> panics (remote_server_options lib m)" "\<not> panics (verification_config lib m)"
  "\<not> panics (build_tls_config m)"
  by (auto simp: remote_server_options_def verification_config_def build_tls_config_def panics_try_then
      split: option.splits)

lemma no_panic_expectations:
  fixes given flags defines "m \<equiv> clap_matches build_cli given flags"
  shows "\<not> panics (expect_default m ''policies-download-dir'')" "\<not> panics (expect_default m ''sigstore-cache-dir'')"
    "\<not> panics (expect_default m ''daemon-pid-file'')" "\<not> panics (expect_default m ''log-level'')"
    "\<not> panics (expect_default m ''log-fmt'')" "\<not> panics (expect_flag w m ''enable-metrics'')"
    "\<not> panics (expect_flag w m ''ignore-kubernetes-connection-failure'')" "\<not> panics (expect_flag w m ''daemon'')"
    "\<not> panics (expect_flag w m ''log-no-color'')" "\<not> panics (expect_flag w m ''enable-pprof'')"
    "\<not> panics (expect_flag w m ''continue-on-errors'')"
  by (simp_all add: m_def expect_default_def expected_option)

section \<open>Properties\<close>

text \<open>
  The memory limit is the one asked for, up to \<^verbatim>\<open>2^44\<close> MiB.  A limit of at least one and
  less than \<^verbatim>\<open>2^44\<close> MiB gives exactly that many bytes, and zero is refused.  The
  multiplication is not checked: \<^verbatim>\<open>2^44\<close> MiB wraps around to a limit of zero bytes, the value
  the guard wants to exclude.
\<close>

theorem policy_memory_limit_bytes:
  assumes "am_flag matches ''disable-memory-limit'' = Some False"
    and "am_value matches ''policy-memory-limit'' = Some limit" and "parse_u64 limit = Ok mib"
  shows "if mib = 0 then \<exists>e. policy_memory_limit matches = Err e
         else \<exists>bytes. policy_memory_limit matches = Ok (Some bytes) \<and>
                (mib < 2 ^ 44 \<longrightarrow> unat bytes = mib * 2 ^ 20) \<and> (mib = 2 ^ 44 \<longrightarrow> bytes = 0)"
proof (cases "mib = 0")
  case True
  with assms show ?thesis by (simp add: policy_memory_limit_def expect_def expect_flag_def)
next
  case False
  let ?bytes = "of_nat mib * BYTES_PER_MIB"
  have bytes: "?bytes = of_nat (mib * 2 ^ 20)" by (simp add: BYTES_PER_MIB_def)
  have run: "policy_memory_limit matches = Ok (Some ?bytes)"
    using assms False by (simp add: policy_memory_limit_def expect_def expect_flag_def)
  have "unat ?bytes = mib * 2 ^ 20" if "mib < 2 ^ 44"
  proof -
    have "mib * 2 ^ 20 < 2 ^ 64" using that by simp
    then show ?thesis unfolding bytes unat_of_nat by simp
  qed
  moreover have "?bytes = 0" if "mib = 2 ^ 44"
  proof -
    have "unat ?bytes = 0" unfolding bytes unat_of_nat by (simp add: that)
    then show ?thesis by (simp only: unat_eq_zero)
  qed
  ultimately have "\<exists>bytes. policy_memory_limit matches = Ok (Some bytes) \<and>
      (mib < 2 ^ 44 \<longrightarrow> unat bytes = mib * 2 ^ 20) \<and> (mib = 2 ^ 44 \<longrightarrow> bytes = 0)"
    using run by blast
  with False show ?thesis by (simp only: if_False)
qed

theorem policy_memory_limit_bytes_witness:
  "policy_memory_limit (clap_matches build_cli [''policy-memory-limit'' \<mapsto> [show_nat (2 ^ 44)]] {}) =
     Ok (Some 0)"
proof -
  define matches where
    "matches = clap_matches build_cli [''policy-memory-limit'' \<mapsto> [show_nat (2 ^ 44)]] {}"
  have "am_flag matches ''disable-memory-limit'' = Some False"
    by (simp add: matches_def cli_flag expected_option)
  moreover have "cli_find ''policy-memory-limit'' =
      Some (opt_default ''policy-memory-limit'' ''KUBEWARDEN_POLICY_MEMORY_LIMIT'' ''256'')"
    by code_simp
  then have "am_value matches ''policy-memory-limit'' = Some (show_nat (2 ^ 44))"
    by (simp add: matches_def clap_matches_simps opt_default_def opt_def)
  moreover have "parse_u64 (show_nat (2 ^ 44)) = Ok (2 ^ 44)" by (rule parse_show_u64) simp
  ultimately have "policy_memory_limit matches = Ok (Some 0)"
    using policy_memory_limit_bytes [of matches "show_nat (2 ^ 44)" "2 ^ 44"] by auto
  then show ?thesis unfolding matches_def .
qed

text \<open>
  Reading the command line does not panic.  Every value the configuration expects to be
  there has a default or is a flag in the option table, so the only input that makes the server
  panic is a number of workers that is not a number; every other mistake is reported as an
  error.
\<close>

theorem config_panics_only_on_workers:
  "panics (Config_from_args lib (clap_matches build_cli given flags)) \<longrightarrow>
     (\<exists>v vs e. given ''workers'' = Some (v # vs) \<and> parse_u64 v = Err e)"
proof
  let ?m = "clap_matches build_cli given flags"
  assume "panics (Config_from_args lib ?m)"
  then have "panics (config_pool_size lib ?m)"
    unfolding Config_from_args_def
    by (simp only: panics_try_then no_panic_parts no_panic_options no_panic_expectations panics_simps split_beta
        simp_thms) blast
  then show "\<exists>v vs e. given ''workers'' = Some (v # vs) \<and> parse_u64 v = Err e"
    by (auto simp: config_pool_size_def cli_workers panics_def result_simps split: option.splits list.splits)
qed

theorem config_panics_only_on_workers_witness:
  "\<exists>(lib :: (string, unit) config_library) given flags.
     panics (Config_from_args lib (clap_matches build_cli given flags)) \<and>
     (\<exists>v vs e. given ''workers'' = Some (v # vs) \<and> parse_u64 v = Err e)"
proof -
  define lib :: "(string, unit) config_library" where
    "lib = \<lparr> cfl_parse_addr = Ok, cfl_read_policies = (\<lambda>_. Ok []), cfl_debug_names = concat,
       cfl_debug_path = (\<lambda>p. p), cfl_read_sources = (\<lambda>_. Ok Sources_default), cfl_read_verification = (\<lambda>_. Ok ()),
       cfl_num_cpus = 4, cfl_env = Map.empty \<rparr>"
  define given where "given = [''workers'' \<mapsto> [''x'']]"
  define flags where "flags = {''disable-timeout-protection'', ''disable-memory-limit''}"
  let ?m = "clap_matches build_cli given flags"
  have val: "\<exists>v. am_value ?m i = Some v" if "i \<in> set defaulted_options" for i
    using cli_default that by blast
  have opts: "''address'' \<in> set defaulted_options" "''port'' \<in> set defaulted_options"
    "''readiness-probe-port'' \<in> set defaulted_options" "''policies'' \<in> set defaulted_options"
    "''policies-download-dir'' \<in> set defaulted_options"
    by (simp_all add: expected_option)
  have bad: "parse_u64 ''x'' = Err ''invalid digit found in string''"
    by (simp add: parse_u64_def u64_digit_def)
  have "config_pool_size lib ?m = Err (Panicked ''error parsing the number of workers'')"
    by (simp add: config_pool_size_def cli_workers given_def bad)
  moreover have "\<exists>a. bind_address lib ?m i = Ok a" if "i \<in> set defaulted_options" for i
    using val [OF that] val [OF opts(1)] by (auto simp: bind_address_def expect_def lib_def)
  from this [OF opts(2)] this [OF opts(3)]
  obtain a b where "api_bind_address lib ?m = Ok a" "readiness_probe_bind_address lib ?m = Ok b"
    by (auto simp: api_bind_address_def readiness_probe_bind_address_def)
  moreover obtain ps where "config_policies lib ?m = Ok ps"
    using val [OF opts(4)]
    by (auto simp: config_policies_def expect_def lib_def validate_policies_def)
  moreover obtain d where "expect_default ?m ''policies-download-dir'' = Ok d"
    using val [OF opts(5)] by (auto simp: expect_default_def expect_def)
  moreover have "policy_evaluation_limit ?m = Ok None" "policy_memory_limit ?m = Ok None"
    by (simp_all add: policy_evaluation_limit_def policy_memory_limit_def expect_flag_def expect_def cli_flag
        expected_option flags_def)
  moreover obtain s env where "remote_server_options lib ?m = Ok (s, env)"
    by (cases "am_value ?m ''sources-path''") (simp_all add: remote_server_options_def lib_def)
  ultimately have "panics (Config_from_args lib ?m)" by (simp add: Config_from_args_def)
  with config_panics_only_on_workers [of lib given flags] show ?thesis by blast
qed

text \<open>
  The proxies a sources file asks for are not used by the server: they are always replaced by
  those of the environment.
\<close>

theorem sources_file_proxies_replaced:
  "remote_server_options lib matches = Ok (Some s, env) \<Longrightarrow>
     so_proxies s = Some (ProxyConfig_from_env (cfl_env lib))"
  by (auto simp: remote_server_options_def result_simps)

section \<open>Telemetry\<close>

text \<open>
  The TLS settings of the telemetry exporters (\<^verbatim>\<open>build_client_tls_config_from_env\<close>): a certificate
  authority and an identity, from files named by environment variables.
\<close>

record ClientTlsConfig =
  ct_ca_certificate :: "string option"
  ct_identity :: "(string \<times> string) option"

definition read_optional :: "(string \<Rightarrow> string + string) \<Rightarrow> string option \<Rightarrow> string + string option" where
  "read_optional read path = (case path of None \<Rightarrow> Ok None | Some p \<Rightarrow> map_ok Some (read p))"

definition build_client_tls_config_from_env ::
  "(string \<rightharpoonup> string) \<Rightarrow> (string \<Rightarrow> string + string) \<Rightarrow> string \<Rightarrow> string + ClientTlsConfig" where
  "build_client_tls_config_from_env env read px =
     (let var = (\<lambda>name. env_or_else env (''OTEL_EXPORTER_OTLP_'' @ px @ name) (''OTEL_EXPORTER_OTLP_'' @ name)) in
      try_then (read_optional read (var ''CERTIFICATE'')) (\<lambda>ca.
        (case (var ''CLIENT_CERTIFICATE'', var ''CLIENT_KEY'') of
           (Some cert_path, Some key_path) \<Rightarrow>
             try_then (read cert_path) (\<lambda>cert.
             try_then (read key_path) (\<lambda>key.
               Ok \<lparr> ct_ca_certificate = ca, ct_identity = Some (cert, key) \<rparr>))
         | _ \<Rightarrow> Ok \<lparr> ct_ca_certificate = ca, ct_identity = None \<rparr>)))"

text \<open>
  The exporter of metrics passes the prefix \<^verbatim>\<open>METRICS\<close> without an underscore, so that the
  variable for metrics of the OpenTelemetry specification is never looked at.
\<close>

theorem metrics_certificate_variable_ignored:
  "build_client_tls_config_from_env [''OTEL_EXPORTER_OTLP_METRICS_CERTIFICATE'' \<mapsto> path] read ''METRICS'' =
     Ok \<lparr> ct_ca_certificate = None, ct_identity = None \<rparr>"
  by (simp add: build_client_tls_config_from_env_def env_or_else_def read_optional_def Let_def)

end
