(* ===== verification/Policy_Metadata.thy ===== *)
theory Policy_Metadata
  imports Policy_Request Evaluation_Context
begin

text \<open>
  The metadata a policy carries in a custom section of its module
  (\<^verbatim>\<open>policy-evaluator/src/policy_metadata.rs\<close>) and what the policy server checks of it before it
  compiles the module (\<^verbatim>\<open>policy-server/src/evaluation/precompiled_policy.rs\<close>).  The parser of
  modules, the JSON reader, the compiler and the hash function are parameters.
\<close>

section \<open>Rules\<close>

datatype Operation = Op_Create | Op_Update | Op_Delete | Op_Connect | Op_All

definition Operation_try_from :: "string \<Rightarrow> string + Operation" where
  "Operation_try_from opn =
     (if opn = ''CREATE'' then Ok Op_Create
      else if opn = ''UPDATE'' then Ok Op_Update
      else if opn = ''DELETE'' then Ok Op_Delete
      else if opn = ''CONNECT'' then Ok Op_Connect
      else if opn = ''*'' then Ok Op_All
      else Err ''unknown operation'')"

datatype Scope = Sc_Cluster | Sc_Namespaced | Sc_All

definition Scope_try_from :: "string \<Rightarrow> string + Scope" where
  "Scope_try_from scope =
     (if scope = ''Cluster'' then Ok Sc_Cluster
      else if scope = ''Namespaced'' then Ok Sc_Namespaced
      else if scope = ''*'' then Ok Sc_All
      else Err ''unknown scope'')"

record Rule =
  ru_api_groups :: "string list"
  ru_api_versions :: "string list"
  ru_resources :: "string list"
  ru_operations :: "Operation list"
  ru_scope :: "Scope option"

definition validate_asterisk_usage :: "string list \<Rightarrow> string + unit" where
  "validate_asterisk_usage data =
     (if ''*'' \<in> set data \<and> length data > 1
      then Err (''No other elements can be defined when '' @ [CHR 39] @ ''*'' @ [CHR 39] @ '' is used'')
      else Ok ())"

definition validate_asterisk_usage_inside_of_operations :: "Operation list \<Rightarrow> string + unit" where
  "validate_asterisk_usage_inside_of_operations data =
     (if Op_All \<in> set data \<and> length data > 1
      then Err (''No other elements can be defined when '' @ [CHR 39] @ ''*'' @ [CHR 39] @ '' is used'')
      else Ok ())"

text \<open>The variables of the loop of \<^verbatim>\<open>validate_resources\<close>.\<close>

record resource_scan =
  rs_with_wildcard_subresources :: "string set"
  rs_with_wildcard_resource :: "string set"
  rs_double_wildcard :: bool
  rs_single_wildcard :: bool
  rs_without_subresource :: bool

definition resource_scan_start :: resource_scan where
  "resource_scan_start =
     \<lparr> rs_with_wildcard_subresources = {}, rs_with_wildcard_resource = {},
       rs_double_wildcard = False, rs_single_wildcard = False, rs_without_subresource = False \<rparr>"

definition scan_resource :: "resource_scan \<Rightarrow> string \<Rightarrow> string + resource_scan" where
  "scan_resource st resource =
     (if resource = [] then Err ''empty resource is not allowed''
      else
        (let st = st \<lparr> rs_double_wildcard := rs_double_wildcard st \<or> resource = ''*/*'',
                       rs_single_wildcard := rs_single_wildcard st \<or> resource = ''*'' \<rparr>
         in case split_once (CHR ''/'') resource of
              None \<Rightarrow> Ok (st \<lparr> rs_without_subresource := resource \<noteq> ''*'' \<rparr>)
            | Some (res, sub) \<Rightarrow>
                (if res \<in> rs_with_wildcard_subresources st then
                   Err (''if '' @ [CHR 39] @ resource @ ''/*'' @ [CHR 39] @
                        '' is present, must not specify '' @ res)
                 else if sub \<in> rs_with_wildcard_resource st then
                   Err (''if '' @ [CHR 39] @ ''*/'' @ sub @ [CHR 39] @
                        '' is present, must not specify '' @ resource)
                 else
                   Ok (st \<lparr> rs_with_wildcard_subresources :=
                              (if sub = ''*'' then insert res (rs_with_wildcard_subresources st)
                               else rs_with_wildcard_subresources st),
                            rs_with_wildcard_resource :=
                              (if res = ''*'' then insert sub (rs_with_wildcard_resource st)
                               else rs_with_wildcard_resource st) \<rparr>))))"

definition validate_resources :: "string list \<Rightarrow> string + unit" where
  "validate_resources data =
     try_then (try_fold scan_resource resource_scan_start data) (\<lambda>st.
       if length data > 1 \<and> rs_double_wildcard st then
         Err (''if '' @ [CHR 39] @ ''*/*'' @ [CHR 39] @ '' is present, must not specify other resources'')
       else if rs_single_wildcard st \<and> rs_without_subresource st then
         Err (''if '' @ [CHR 39] @ ''*'' @ [CHR 39] @
              '' is present, must not specify other resources without subresources'')
       else Ok ())"

text \<open>The checks the \<^verbatim>\<open>#[validate]\<close> attributes of a rule ask for.\<close>

definition Rule_valid :: "Rule \<Rightarrow> bool" where
  "Rule_valid r \<longleftrightarrow>
     1 \<le> length (ru_api_groups r) \<and> is_ok (validate_asterisk_usage (ru_api_groups r)) \<and>
     1 \<le> length (ru_api_versions r) \<and> is_ok (validate_asterisk_usage (ru_api_versions r)) \<and>
     1 \<le> length (ru_resources r) \<and> is_ok (validate_resources (ru_resources r)) \<and>
     1 \<le> length (ru_operations r) \<and>
     is_ok (validate_asterisk_usage_inside_of_operations (ru_operations r))"

record NamedRuleWithOperations =
  nr_api_groups :: "string list option"
  nr_api_versions :: "string list option"
  nr_resources :: "string list option"
  nr_operations :: "string list option"
  nr_scope :: "string option"

definition unwrap_or_default :: "'a list option \<Rightarrow> 'a list" where
  "unwrap_or_default x = (case x of None \<Rightarrow> [] | Some xs \<Rightarrow> xs)"

definition Rule_try_from :: "NamedRuleWithOperations \<Rightarrow> string + Rule" where
  "Rule_try_from rule =
     try_then (case nr_operations rule of
                 Some operations \<Rightarrow> collect_map Operation_try_from operations
               | None \<Rightarrow> Ok []) (\<lambda>operations.
     try_then (case nr_scope rule of
                 Some s \<Rightarrow> map_ok Some (Scope_try_from s)
               | None \<Rightarrow> Ok None) (\<lambda>scope.
       Ok \<lparr> ru_api_groups = unwrap_or_default (nr_api_groups rule),
            ru_api_versions = unwrap_or_default (nr_api_versions rule),
            ru_resources = unwrap_or_default (nr_resources rule),
            ru_operations = operations, ru_scope = scope \<rparr>))"

section \<open>Metadata\<close>

datatype PolicyType = Pt_Kubernetes | Pt_Raw

fun PolicyType_to_string :: "PolicyType \<Rightarrow> string" where
  "PolicyType_to_string Pt_Kubernetes = ''kubernetes''"
| "PolicyType_to_string Pt_Raw = ''raw''"

datatype ProtocolVersion = Pv_Unknown | Pv_V1

record Version =
  v_major :: nat
  v_minor :: nat
  v_patch :: nat
  v_pre :: string
  v_build :: string

record Metadata =
  md_protocol_version :: "ProtocolVersion option"
  md_rules :: "Rule list"
  md_annotations :: "(string \<times> string) list option"
  md_mutating :: bool
  md_background_audit :: bool
  md_execution_mode :: PolicyExecutionMode
  md_policy_type :: PolicyType
  md_context_aware_resources :: "ContextAwareResource set"
  md_host_capabilities :: "string set option"
  md_minimum_kubewarden_version :: "Version option"

definition Metadata_default :: Metadata where
  "Metadata_default =
     \<lparr> md_protocol_version = None, md_rules = [], md_annotations = Some [], md_mutating = False,
       md_background_audit = True, md_execution_mode = KubewardenWapc,
       md_policy_type = Pt_Kubernetes, md_context_aware_resources = {},
       md_host_capabilities = None, md_minimum_kubewarden_version = None \<rparr>"

datatype MetadataError =
    ME_Path string
  | ME_WasmPayload string
  | ME_Deserialize string string

text \<open>What the module parser yields: payloads, of which only custom sections matter, or an error.\<close>

datatype wasm_payload = CustomSection string string | OtherPayload

definition KUBEWARDEN_CUSTOM_SECTION_METADATA :: string where
  "KUBEWARDEN_CUSTOM_SECTION_METADATA = ''io.kubewarden.metadata''"

fun metadata_loop ::
  "(string \<Rightarrow> string + Metadata) \<Rightarrow> (string + wasm_payload) list \<Rightarrow> MetadataError + Metadata option" where
  "metadata_loop from_slice [] = Ok None"
| "metadata_loop from_slice (Inl e # ps) = Err (ME_WasmPayload e)"
| "metadata_loop from_slice (Inr (CustomSection name data) # ps) =
     (if name = KUBEWARDEN_CUSTOM_SECTION_METADATA
      then map_ok Some (map_err (ME_Deserialize name) (from_slice data))
      else metadata_loop from_slice ps)"
| "metadata_loop from_slice (Inr OtherPayload # ps) = metadata_loop from_slice ps"

definition Metadata_from_contents ::
  "(string \<Rightarrow> (string + wasm_payload) list) \<Rightarrow> (string \<Rightarrow> string + Metadata) \<Rightarrow> string \<Rightarrow>
   MetadataError + Metadata option" where
  "Metadata_from_contents parse_all from_slice policy = metadata_loop from_slice (parse_all policy)"

definition validate_metadata :: "Metadata \<Rightarrow> string + unit" where
  "validate_metadata md =
     (if md_execution_mode md = KubewardenWapc \<and> md_protocol_version md = Some Pv_Unknown
      then Err ''Must specify a valid protocol version'' else Ok ())"

text \<open>The checks the \<^verbatim>\<open>#[validate]\<close> attributes of the metadata ask for.\<close>

definition Metadata_valid :: "Metadata \<Rightarrow> bool" where
  "Metadata_valid md \<longleftrightarrow>
     md_protocol_version md \<noteq> None \<and> list_all Rule_valid (md_rules md) \<and>
     (\<forall>r\<in>md_context_aware_resources md. 1 \<le> length (car_api_version r) \<and> 1 \<le> length (car_kind r)) \<and>
     is_ok (validate_metadata md)"

section \<open>Precompiled policies\<close>

text \<open>The version without patch, pre-release and build information.\<close>

definition sanitized :: "Version \<Rightarrow> Version" where
  "sanitized v = v \<lparr> v_patch := 0, v_pre := [], v_build := [] \<rparr>"

text \<open>Order and printing of versions that have neither pre-release nor build information.\<close>

definition release_less :: "Version \<Rightarrow> Version \<Rightarrow> bool" where
  "release_less v w \<longleftrightarrow>
     v_major v < v_major w \<or>
     v_major v = v_major w \<and> (v_minor v < v_minor w \<or> v_minor v = v_minor w \<and> v_patch v < v_patch w)"

definition release_to_string :: "Version \<Rightarrow> string" where
  "release_to_string v = show_nat (v_major v) @ ''.'' @ show_nat (v_minor v) @ ''.'' @ show_nat (v_patch v)"

definition has_minimum_kubewarden_version :: "Version \<Rightarrow> Metadata \<Rightarrow> string + unit" where
  "has_minimum_kubewarden_version package_version md =
     (let kubewarden_version = sanitized package_version in
      case md_minimum_kubewarden_version md of
        Some minimum \<Rightarrow>
          (if release_less kubewarden_version (sanitized minimum)
           then Err (''Policy required Kubewarden version '' @ release_to_string (sanitized minimum) @
                     '' but is running on '' @ release_to_string kubewarden_version)
           else Ok ())
      | None \<Rightarrow> Ok ())"

fun ProtocolVersion_debug :: "ProtocolVersion \<Rightarrow> string" where
  "ProtocolVersion_debug Pv_Unknown = ''Unknown''"
| "ProtocolVersion_debug Pv_V1 = ''V1''"

definition has_valid_protocol_version :: "Metadata \<Rightarrow> string + unit" where
  "has_valid_protocol_version md =
     (if md_execution_mode md = KubewardenWapc then
        (case md_protocol_version md of
           Some Pv_V1 \<Rightarrow> Ok ()
         | Some other \<Rightarrow> Err (''Policy uses protocol version '' @ ProtocolVersion_debug other @
                             '' but only V1 is supported'')
         | None \<Rightarrow> Err (''Policy is missing protocol version, which is required for '' @
                        ''KubewardenWapc execution mode''))
      else Ok ())"

record PrecompiledPolicy =
  pp_precompiled_module :: string
  pp_execution_mode :: PolicyExecutionMode
  pp_digest :: string

text \<open>The libraries \<^verbatim>\<open>PrecompiledPolicy::new\<close> calls.\<close>

record module_library =
  ml_parse_all :: "string \<Rightarrow> (string + wasm_payload) list"
  ml_from_slice :: "string \<Rightarrow> string + Metadata"
  ml_check_abi_version :: "string \<Rightarrow> string + unit"
  ml_precompile :: "string \<Rightarrow> string + string"
  ml_sha256_hex :: "string \<Rightarrow> string"
  ml_metadata_error :: "MetadataError \<Rightarrow> string"

definition PrecompiledPolicy_new ::
  "module_library \<Rightarrow> Version \<Rightarrow> string + string \<Rightarrow> string + PrecompiledPolicy" where
  "PrecompiledPolicy_new ml package_version file =
     try_then file (\<lambda>policy_contents.
     try_then (map_err (ml_metadata_error ml)
       (Metadata_from_contents (ml_parse_all ml) (ml_from_slice ml) policy_contents)) (\<lambda>policy_metadata.
     (let metadata = (case policy_metadata of Some md \<Rightarrow> md | None \<Rightarrow> Metadata_default);
          execution_mode = md_execution_mode metadata
      in
     try_then (has_minimum_kubewarden_version package_version metadata) (\<lambda>_.
     try_then (has_valid_protocol_version metadata) (\<lambda>_.
     try_then (if execution_mode = Ferricel then ml_check_abi_version ml policy_contents else Ok ()) (\<lambda>_.
     try_then (ml_precompile ml policy_contents) (\<lambda>precompiled_module.
       Ok \<lparr> pp_precompiled_module = precompiled_module, pp_execution_mode = execution_mode,
            pp_digest = ml_sha256_hex ml precompiled_module \<rparr>)))))))"

section \<open>What the validation of resources accepts\<close>

text \<open>\<open>covers r r'\<close>: the rule for \<open>r\<close> already covers \<open>r'\<close> (\<^verbatim>\<open>x/*\<close> covers \<^verbatim>\<open>x/y\<close>, \<^verbatim>\<open>*/y\<close> covers \<^verbatim>\<open>x/y\<close>).\<close>

definition covers :: "string \<Rightarrow> string \<Rightarrow> bool" where
  "covers r r' \<longleftrightarrow>
     (case (split_once (CHR ''/'') r, split_once (CHR ''/'') r') of
        (Some (res, sub), Some (res', sub')) \<Rightarrow> sub = ''*'' \<and> res = res' \<or> res = ''*'' \<and> sub = sub'
      | _ \<Rightarrow> False)"

definition plain :: "string list \<Rightarrow> string list" where
  "plain data = filter (\<lambda>r. CHR ''/'' \<notin> set r) data"

definition scanned :: "string list \<Rightarrow> resource_scan" where
  "scanned data =
     \<lparr> rs_with_wildcard_subresources = {res. \<exists>r\<in>set data. split_once (CHR ''/'') r = Some (res, ''*'')},
       rs_with_wildcard_resource = {sub. \<exists>r\<in>set data. split_once (CHR ''/'') r = Some (''*'', sub)},
       rs_double_wildcard = (''*/*'' \<in> set data),
       rs_single_wildcard = (''*'' \<in> set data),
       rs_without_subresource = (plain data \<noteq> [] \<and> last (plain data) \<noteq> ''*'') \<rparr>"

lemma resource_covered_iff:
  assumes "split_once (CHR ''/'') r = Some (res, sub)"
  shows "(\<exists>x\<in>set data. covers x r) \<longleftrightarrow>
     res \<in> rs_with_wildcard_subresources (scanned data) \<or>
     sub \<in> rs_with_wildcard_resource (scanned data)"
  using assms by (fastforce simp: covers_def scanned_def split: option.splits prod.splits)

lemma not_covered_plain: "split_once (CHR ''/'') r = None \<Longrightarrow> \<not> covers x r"
  by (simp add: covers_def split: option.splits)

lemma scanned_snoc_plain:
  assumes "split_once (CHR ''/'') r = None"
  shows "scanned (data @ [r]) = (scanned data)
     \<lparr> rs_double_wildcard := rs_double_wildcard (scanned data) \<or> r = ''*/*'',
       rs_single_wildcard := rs_single_wildcard (scanned data) \<or> r = ''*'',
       rs_without_subresource := r \<noteq> ''*'' \<rparr>"
proof -
  have "CHR ''/'' \<notin> set r" using assms by (simp add: split_once_None_iff)
  with assms show ?thesis by (auto simp: scanned_def plain_def)
qed

lemma scanned_snoc_split:
  assumes "split_once (CHR ''/'') r = Some (res, sub)"
  shows "scanned (data @ [r]) = (scanned data)
     \<lparr> rs_double_wildcard := rs_double_wildcard (scanned data) \<or> r = ''*/*'',
       rs_single_wildcard := rs_single_wildcard (scanned data) \<or> r = ''*'',
       rs_with_wildcard_subresources :=
         (if sub = ''*'' then insert res (rs_with_wildcard_subresources (scanned data))
          else rs_with_wildcard_subresources (scanned data)),
       rs_with_wildcard_resource :=
         (if res = ''*'' then insert sub (rs_with_wildcard_resource (scanned data))
          else rs_with_wildcard_resource (scanned data)) \<rparr>"
proof -
  have "CHR ''/'' \<in> set r" using assms by (auto simp: split_once_Some_iff)
  with assms show ?thesis by (auto simp: scanned_def plain_def)
qed

lemma scan_resource_step:
  "scan_resource (scanned data) r = Ok st \<longleftrightarrow>
     r \<noteq> [] \<and> (\<forall>x\<in>set data. \<not> covers x r) \<and> st = scanned (data @ [r])"
proof (cases "split_once (CHR ''/'') r")
  case None
  then show ?thesis
    by (auto simp: scan_resource_def Let_def not_covered_plain scanned_snoc_plain)
next
  case (Some p)
  obtain res sub where p: "p = (res, sub)" by (cases p)
  have "r \<noteq> []" using Some by auto
  with Some p resource_covered_iff [of r res sub data] show ?thesis
    unfolding scan_resource_def Let_def scanned_snoc_split [OF Some [unfolded p]] by auto
qed

lemma scan_resources:
  "try_fold scan_resource resource_scan_start data = Ok st \<longleftrightarrow>
     [] \<notin> set data \<and> sorted_wrt (\<lambda>r r'. \<not> covers r r') data \<and> st = scanned data"
proof (induction data arbitrary: st rule: rev_induct)
  case Nil
  then show ?case by (auto simp: scanned_def resource_scan_start_def plain_def)
next
  case (snoc r data)
  then show ?case
    by (auto simp: try_fold_append try_then_Ok_iff scan_resource_step sorted_wrt_append)
qed


section \<open>Properties\<close>

text \<open>
  What the validation of the resources of a rule accepts.  A list of resources is
  accepted exactly if no entry is empty, no entry is followed by one it covers (\<^verbatim>\<open>x/*\<close> by
  \<^verbatim>\<open>x/y\<close>, \<^verbatim>\<open>*/y\<close> by \<^verbatim>\<open>x/y\<close>), \<^verbatim>\<open>*/*\<close> stands alone, and if \<^verbatim>\<open>*\<close> is listed, then the last of
  the resources without a subresource is \<^verbatim>\<open>*\<close>.
\<close>

theorem resource_rules_exact:
  "validate_resources data = Ok () \<longleftrightarrow>
     [] \<notin> set data \<and> sorted_wrt (\<lambda>r r'. \<not> covers r r') data \<and>
     \<not> (''*/*'' \<in> set data \<and> length data > 1) \<and>
     \<not> (''*'' \<in> set data \<and> last (plain data) \<noteq> ''*'')"
proof -
  have "plain data \<noteq> []" if "''*'' \<in> set data"
  proof -
    have "''*'' \<in> set (plain data)" using that by (simp add: plain_def)
    then show ?thesis by auto
  qed
  then show ?thesis
    by (auto simp: validate_resources_def try_then_Ok_iff scan_resources scanned_def)
qed

text \<open>
  The validation of resources depends on their order.  \<^verbatim>\<open>*\<close> together with another
  resource is refused when \<^verbatim>\<open>*\<close> comes first and accepted when it comes last, and a
  subresource is refused after the wildcard that covers it and accepted before it.
\<close>

theorem resource_rules_depend_on_order:
  "validate_resources [''*'', ''pods''] \<noteq> Ok () \<and> validate_resources [''pods'', ''*''] = Ok () \<and>
   validate_resources [''pods/*'', ''pods/status''] \<noteq> Ok () \<and>
   validate_resources [''pods/status'', ''pods/*''] = Ok ()"
  by (simp add: validate_resources_def scan_resource_def resource_scan_start_def Let_def)

lemma has_minimum_version_iff:
  "has_minimum_kubewarden_version v md = Ok () \<longleftrightarrow>
     (case md_minimum_kubewarden_version md of
        None \<Rightarrow> True
      | Some m \<Rightarrow> v_major m < v_major v \<or> v_major m = v_major v \<and> v_minor m \<le> v_minor v)"
  by (auto simp: has_minimum_kubewarden_version_def release_less_def sanitized_def Let_def
      split: option.splits)

lemma has_valid_protocol_iff:
  "has_valid_protocol_version md = Ok () \<longleftrightarrow>
     md_execution_mode md \<noteq> KubewardenWapc \<or> md_protocol_version md = Some Pv_V1"
  by (cases "md_protocol_version md" rule: option.exhaust)
     (auto simp: has_valid_protocol_version_def split: ProtocolVersion.splits)

text \<open>
  Only modules the server can run are compiled.  A precompiled policy comes from a
  module that carries metadata, whose minimum version of Kubewarden is not above the running
  one (patch level and pre-release aside), whose protocol is V1 if it is a waPC policy, and
  whose ABI was checked if it is a compiled CEL policy; its execution mode is the one of the
  metadata and its digest the hash of the compiled module.
\<close>

theorem precompiled_policy_checked:
  assumes "PrecompiledPolicy_new ml v file = Ok p"
  shows "\<exists>contents md. file = Ok contents \<and>
     Metadata_from_contents (ml_parse_all ml) (ml_from_slice ml) contents = Ok (Some md) \<and>
     (case md_minimum_kubewarden_version md of
        None \<Rightarrow> True
      | Some m \<Rightarrow> v_major m < v_major v \<or> v_major m = v_major v \<and> v_minor m \<le> v_minor v) \<and>
     (md_execution_mode md = KubewardenWapc \<longrightarrow> md_protocol_version md = Some Pv_V1) \<and>
     (md_execution_mode md = Ferricel \<longrightarrow> ml_check_abi_version ml contents = Ok ()) \<and>
     pp_execution_mode p = md_execution_mode md \<and>
     ml_precompile ml contents = Ok (pp_precompiled_module p) \<and>
     pp_digest p = ml_sha256_hex ml (pp_precompiled_module p)"
proof -
  obtain contents omd md m where c: "file = Ok contents"
    "Metadata_from_contents (ml_parse_all ml) (ml_from_slice ml) contents = Ok omd"
    "md = (case omd of Some md \<Rightarrow> md | None \<Rightarrow> Metadata_default)"
    "has_minimum_kubewarden_version v md = Ok ()" "has_valid_protocol_version md = Ok ()"
    "(if md_execution_mode md = Ferricel then ml_check_abi_version ml contents else Ok ()) = Ok ()"
    "ml_precompile ml contents = Ok m"
    "p = \<lparr> pp_precompiled_module = m, pp_execution_mode = md_execution_mode md,
           pp_digest = ml_sha256_hex ml m \<rparr>"
    using assms by (auto simp: PrecompiledPolicy_new_def Let_def result_simps)
  have "omd = Some md"
    using c(3,5) by (cases omd) (auto simp: has_valid_protocol_iff Metadata_default_def)
  then show ?thesis
    using c by (auto simp: has_minimum_version_iff has_valid_protocol_iff)
qed

theorem precompiled_policy_checked_witness:
  "let md = Metadata_default \<lparr> md_protocol_version := Some Pv_V1,
         md_minimum_kubewarden_version := Some \<lparr> v_major = 1, v_minor = 30, v_patch = 7, v_pre = [], v_build = [] \<rparr> \<rparr>;
       ml = \<lparr> ml_parse_all = (\<lambda>_. [Ok (CustomSection ''io.kubewarden.metadata'' [])]),
              ml_from_slice = (\<lambda>_. Ok md), ml_check_abi_version = (\<lambda>_. Err ''abi''),
              ml_precompile = (\<lambda>s. Ok s), ml_sha256_hex = (\<lambda>s. s), ml_metadata_error = (\<lambda>_. []) \<rparr>;
       v = \<lparr> v_major = 1, v_minor = 30, v_patch = 0, v_pre = ''rc1'', v_build = [] \<rparr>
   in \<exists>p. PrecompiledPolicy_new ml v (Ok ''wasm'') = Ok p \<and> pp_digest p = ''wasm''"
proof -
  define md where "md = Metadata_default \<lparr> md_protocol_version := Some Pv_V1,
      md_minimum_kubewarden_version := Some \<lparr> v_major = 1, v_minor = 30, v_patch = 7, v_pre = [], v_build = [] \<rparr> \<rparr>"
  define ml where "ml = \<lparr> ml_parse_all = (\<lambda>_. [Ok (CustomSection ''io.kubewarden.metadata'' [])]),
      ml_from_slice = (\<lambda>_. Ok md), ml_check_abi_version = (\<lambda>_. Err ''abi''),
      ml_precompile = (\<lambda>s. Ok s), ml_sha256_hex = (\<lambda>s. s), ml_metadata_error = (\<lambda>_. []) \<rparr>"
  define v where "v = \<lparr> v_major = 1, v_minor = 30, v_patch = 0, v_pre = ''rc1'', v_build = [] \<rparr>"
  obtain p where run: "PrecompiledPolicy_new ml v (Ok ''wasm'') = Ok p"
    by (simp add: PrecompiledPolicy_new_def ml_def md_def v_def Metadata_from_contents_def
        KUBEWARDEN_CUSTOM_SECTION_METADATA_def Metadata_default_def has_minimum_kubewarden_version_def
        has_valid_protocol_version_def release_less_def sanitized_def)
  have "pp_digest p = ''wasm''"
    using precompiled_policy_checked [OF run] by (auto simp: ml_def)
  with run show ?thesis unfolding Let_def ml_def md_def v_def by blast
qed

end
