(* ===== verification/Evaluator_Builder.thy ===== *)
theory Evaluator_Builder
  imports Policy_Evaluator
begin

text \<open>
  The builder of policy evaluators
  (\<^verbatim>\<open>policy-evaluator/src/policy_evaluator/policy_evaluator_builder.rs\<close>): the checks of its
  input and the choice of the runtime.  The engine, the modules and the constructors of the
  runtimes, which wrap them, are parameters.
\<close>

record ResourceLimits =
  rl_max_memory_size :: "64 word option"
  rl_max_table_elements :: "64 word option"

record ('e, 'm) PolicyEvaluatorBuilder =
  bu_engine :: "'e option"
  bu_policy_file :: "string option"
  bu_policy_contents :: "string option"
  bu_policy_module :: "'m option"
  bu_execution_mode :: "PolicyExecutionMode option"
  bu_wasmtime_cache :: bool
  bu_epoch_deadlines :: "(64 word \<times> 64 word) option"
  bu_resource_limits :: "ResourceLimits option"

definition PolicyEvaluatorBuilder_new :: "('e, 'm) PolicyEvaluatorBuilder" where
  "PolicyEvaluatorBuilder_new =
     \<lparr> bu_engine = None, bu_policy_file = None, bu_policy_contents = None, bu_policy_module = None,
       bu_execution_mode = None, bu_wasmtime_cache = False, bu_epoch_deadlines = None,
       bu_resource_limits = None \<rparr>"

text \<open>The runtimes and the WebAssembly library.\<close>

record ('e, 'm) stack_library =
  sl_engine_new :: "bool \<Rightarrow> bool \<Rightarrow> string + 'e"
  sl_module_from_file :: "'e \<Rightarrow> string \<Rightarrow> string + 'm"
  sl_module_new :: "'e \<Rightarrow> string \<Rightarrow> string + 'm"
  sl_wapc_new :: "'e \<Rightarrow> 'm \<Rightarrow> ResourceLimits option \<Rightarrow> string + (eval_context \<Rightarrow> string + wapc_guest)"
  sl_wasi_new :: "'e \<Rightarrow> 'm \<Rightarrow> ResourceLimits option \<Rightarrow> string + (eval_context \<Rightarrow> wasi_guest)"
  sl_rego_new :: "'e \<Rightarrow> 'm \<Rightarrow> int \<Rightarrow> ResourceLimits option \<Rightarrow> eval_context \<Rightarrow> string + rego_guest"
  sl_ferricel_new :: "'e \<Rightarrow> 'm \<Rightarrow> string set option \<Rightarrow> ResourceLimits option \<Rightarrow>
                      string + (eval_context \<Rightarrow> ferricel_guest)"
  sl_read :: "string \<Rightarrow> string + string"
  sl_check_abi_version :: "string \<Rightarrow> string + unit"
  sl_vap_variables_used :: "string \<Rightarrow> string + string set"

definition validate_user_input :: "('e, 'm) PolicyEvaluatorBuilder \<Rightarrow> InvalidUserInputError + unit" where
  "validate_user_input b =
     (if bu_policy_file b \<noteq> None \<and> bu_policy_contents b \<noteq> None then Err FileAndContents
      else if bu_policy_file b \<noteq> None \<and> bu_policy_module b \<noteq> None then Err FileAndModule
      else if bu_policy_contents b \<noteq> None \<and> bu_policy_module b \<noteq> None then Err ContentsAndModule
      else if bu_policy_file b = None \<and> bu_policy_contents b = None \<and> bu_policy_module b = None
      then Err OneOfFileContentsModule
      else if bu_engine b = None \<and> bu_policy_module b \<noteq> None then Err EngineForModule
      else Ok ())"

text \<open>A new engine is configured by whether it caches and whether it interrupts by epochs.\<close>

definition build_engine ::
  "('e, 'm) stack_library \<Rightarrow> ('e, 'm) PolicyEvaluatorBuilder \<Rightarrow> PolicyEvaluatorBuilderError + 'e" where
  "build_engine sl b =
     map_err WasmtimeEngineBuild
       (case bu_engine b of
          None \<Rightarrow> sl_engine_new sl (bu_wasmtime_cache b) (bu_epoch_deadlines b \<noteq> None)
        | Some e \<Rightarrow> Ok e)"

text \<open>The contents are unwrapped: \<open>validate_user_input\<close> has made sure that one source is given.\<close>

definition build_module ::
  "('e, 'm) stack_library \<Rightarrow> ('e, 'm) PolicyEvaluatorBuilder \<Rightarrow> 'e \<Rightarrow>
   PolicyEvaluatorBuilderError + 'm" where
  "build_module sl b engine =
     (case bu_policy_module b of
        Some m \<Rightarrow> Ok m
      | None \<Rightarrow>
          map_err WasmModuleBuild
            (case bu_policy_file b of
               Some file \<Rightarrow> sl_module_from_file sl engine file
             | None \<Rightarrow> sl_module_new sl engine (the (bu_policy_contents b))))"

definition ferricel_module_info ::
  "('e, 'm) stack_library \<Rightarrow> ('e, 'm) PolicyEvaluatorBuilder \<Rightarrow>
   PolicyEvaluatorBuilderError + string set option" where
  "ferricel_module_info sl b =
     try_then (case (bu_policy_contents b, bu_policy_file b) of
                 (Some contents, _) \<Rightarrow> Ok (Some contents)
               | (None, Some file) \<Rightarrow>
                   map_ok Some (map_err ReadPolicyFileForVapVariables (sl_read sl file))
               | (None, None) \<Rightarrow> Ok None) (\<lambda>bytes.
       case bytes of
         None \<Rightarrow> Ok None
       | Some wasm_bytes \<Rightarrow>
           try_then (map_err FerricelAbiVersion (sl_check_abi_version sl wasm_bytes)) (\<lambda>_.
           try_then (map_err ReadVapVariables (sl_vap_variables_used sl wasm_bytes)) (\<lambda>vars.
             Ok (Some vars))))"

definition build_pre ::
  "('e, 'm) stack_library \<Rightarrow> ('e, 'm) PolicyEvaluatorBuilder \<Rightarrow> PolicyEvaluatorBuilderError + StackPre" where
  "build_pre sl b =
     try_then (map_err InvalidUserInput (validate_user_input b)) (\<lambda>_.
     try_then (build_engine sl b) (\<lambda>engine.
     try_then (build_module sl b engine) (\<lambda>m.
       case (case bu_execution_mode b of None \<Rightarrow> KubewardenWapc | Some mode \<Rightarrow> mode) of
         KubewardenWapc \<Rightarrow>
           try_then (map_err NewWapcStackPre (sl_wapc_new sl engine m (bu_resource_limits b))) (\<lambda>pre.
             Ok (SP_Wapc pre))
       | Wasi \<Rightarrow>
           try_then (map_err NewWasiStackPre (sl_wasi_new sl engine m (bu_resource_limits b))) (\<lambda>pre.
             Ok (SP_Wasi pre))
       | Opa \<Rightarrow>
           try_then (rego_mode Opa) (\<lambda>mode.
             Ok (SP_Rego mode (sl_rego_new sl engine m 0 (bu_resource_limits b))))
       | OpaGatekeeper \<Rightarrow>
           try_then (rego_mode OpaGatekeeper) (\<lambda>mode.
             Ok (SP_Rego mode (sl_rego_new sl engine m 0 (bu_resource_limits b))))
       | Ferricel \<Rightarrow>
           try_then (ferricel_module_info sl b) (\<lambda>vap_variables.
           try_then (map_err NewFerricelStackPre
                       (sl_ferricel_new sl engine m vap_variables (bu_resource_limits b))) (\<lambda>pre.
             Ok (SP_Ferricel pre))))))"

fun InvalidUserInputError_to_string :: "InvalidUserInputError \<Rightarrow> string" where
  "InvalidUserInputError_to_string FileAndContents =
     ''cannot specify '' @ [CHR 39] @ ''policy_file'' @ [CHR 39] @ '' and '' @ [CHR 39] @
     ''policy_contents'' @ [CHR 39] @ '' at the same time''"
| "InvalidUserInputError_to_string FileAndModule =
     ''cannot specify '' @ [CHR 39] @ ''policy_file'' @ [CHR 39] @ '' and '' @ [CHR 39] @
     ''policy_module'' @ [CHR 39] @ '' at the same time''"
| "InvalidUserInputError_to_string ContentsAndModule =
     ''cannot specify '' @ [CHR 39] @ ''policy_contents'' @ [CHR 39] @ '' and '' @ [CHR 39] @
     ''policy_module'' @ [CHR 39] @ '' at the same time''"
| "InvalidUserInputError_to_string OneOfFileContentsModule =
     ''must specify one among: `policy_file`, `policy_contents` and `policy_module`''"
| "InvalidUserInputError_to_string EngineForModule =
     ''you must provide the `engine` that was used to instantiate the given `policy_module`''"
| "InvalidUserInputError_to_string ExecutionModeMissing = ''must specify execution mode''"

fun PolicyEvaluatorBuilderError_to_string :: "PolicyEvaluatorBuilderError \<Rightarrow> string" where
  "PolicyEvaluatorBuilderError_to_string ConvertPath = ''cannot convert given path to String''"
| "PolicyEvaluatorBuilderError_to_string ExecutionModeNotRegoCompatible =
     ''execution mode not convertible to a Rego based execution mode''"
| "PolicyEvaluatorBuilderError_to_string (UnsupportedExecutionMode m) =
     ''execution mode '' @ [CHR 39] @ PolicyExecutionMode_to_string m @ [CHR 39] @
     '' is not supported for direct evaluation''"
| "PolicyEvaluatorBuilderError_to_string (BuilderInvokeWapcProtocolVersion e) =
     ''protocol_version is only applicable to a Kubewarden policy''"
| "PolicyEvaluatorBuilderError_to_string (InvalidUserInput e) = InvalidUserInputError_to_string e"
| "PolicyEvaluatorBuilderError_to_string (WasmtimeEngineBuild e) =
     ''error when creating wasmtime engine: '' @ e"
| "PolicyEvaluatorBuilderError_to_string (WasmModuleBuild e) =
     ''error when building wasm module: '' @ e"
| "PolicyEvaluatorBuilderError_to_string (NewWapcStackPre e) =
     ''error when building wapc precompiled stack: '' @ e"
| "PolicyEvaluatorBuilderError_to_string (NewWasiStackPre e) =
     ''error when building wasi precompiled stack: '' @ e"
| "PolicyEvaluatorBuilderError_to_string (NewRegoStackPre e) =
     ''error when building rego precompiled stack''"
| "PolicyEvaluatorBuilderError_to_string (NewFerricelStackPre e) =
     ''error when building ferricel precompiled stack: '' @ e"
| "PolicyEvaluatorBuilderError_to_string (ReadPolicyFileForVapVariables e) =
     ''cannot read policy file to inspect ferricel VAP variables: '' @ e"
| "PolicyEvaluatorBuilderError_to_string (ReadVapVariables e) =
     ''cannot read VAP variables referenced by the compiled ferricel module: '' @ e"
| "PolicyEvaluatorBuilderError_to_string (FerricelAbiVersion e) = e"

section \<open>Lemmas\<close>

text \<open>The input is accepted exactly if one source is given, and an engine with a module.\<close>

lemma validate_user_input_iff:
  "validate_user_input b = Ok () \<longleftrightarrow>
     length (filter id [bu_policy_file b \<noteq> None, bu_policy_contents b \<noteq> None,
                        bu_policy_module b \<noteq> None]) = 1 \<and>
     (bu_policy_module b \<noteq> None \<longrightarrow> bu_engine b \<noteq> None)"
  by (auto simp: validate_user_input_def)

text \<open>The runtime of a built evaluator is the one of its execution mode.\<close>

fun runtime_of_mode :: "PolicyExecutionMode \<Rightarrow> StackPre \<Rightarrow> bool" where
  "runtime_of_mode KubewardenWapc pre = (\<exists>f. pre = SP_Wapc f)"
| "runtime_of_mode Wasi pre = (\<exists>f. pre = SP_Wasi f)"
| "runtime_of_mode Opa pre = (\<exists>f. pre = SP_Rego RegoOpa f)"
| "runtime_of_mode OpaGatekeeper pre = (\<exists>f. pre = SP_Rego RegoGatekeeper f)"
| "runtime_of_mode Ferricel pre = (\<exists>f. pre = SP_Ferricel f)"

lemma build_pre_runtime:
  assumes "build_pre sl b = Ok pre"
  shows "runtime_of_mode (case bu_execution_mode b of None \<Rightarrow> KubewardenWapc | Some m \<Rightarrow> m) pre"
  using assms
  by (cases "case bu_execution_mode b of None \<Rightarrow> KubewardenWapc | Some m \<Rightarrow> m")
     (auto simp: build_pre_def result_simps)

end
