(* ===== verification/Evaluation_Environment.thy ===== *)
theory Evaluation_Environment
  imports Config Policy_Metadata Evaluator_Builder
begin

text \<open>
  The evaluation environment of the policy server
  (\<^verbatim>\<open>policy-server/src/evaluation/evaluation_environment.rs\<close>): how it is built from the
  configured policies and the precompiled modules, and how it evaluates a request.  The
  libraries behind the runtimes and the Rhai engine are parameters, as in the theories of
  the evaluator and of the groups.  The branches the code marks \<^verbatim>\<open>unreachable!()\<close> are errors
  here; the theorems on built environments show that they are not taken.
\<close>

section \<open>The environment\<close>

record PolicyEvaluationSettings =
  es_policy_mode :: PolicyMode
  es_allowed_to_mutate :: bool
  es_settings :: PolicyOrPolicyGroupSettings
  es_custom_rejection_message :: "string option"
  es_timeout_eval_seconds :: "64 word option"

definition epoch_deadline_for :: "64 word option \<Rightarrow> 64 word option \<Rightarrow> 64 word option" where
  "epoch_deadline_for timeout_eval_seconds global_limit =
     map_option (\<lambda>global. case timeout_eval_seconds of None \<Rightarrow> global | Some t \<Rightarrow> t) global_limit"

record EvaluationEnvironment =
  ee_always_accept_admission_reviews_on_namespace :: "string option"
  ee_module_digest_to_policy_evaluator_pre :: "string \<rightharpoonup> StackPre"
  ee_policy_id_to_ctx_aware_allowed_resources :: "PolicyID \<rightharpoonup> ContextAwareResource set"
  ee_policy_id_to_host_capabilities :: "PolicyID \<rightharpoonup> HostCapabilities"
  ee_policy_id_to_module_digest :: "PolicyID \<rightharpoonup> string"
  ee_policy_id_to_settings :: "PolicyID \<rightharpoonup> PolicyEvaluationSettings"
  ee_policy_initialization_errors :: "PolicyID \<rightharpoonup> string"
  ee_policy_groups :: "PolicyID set"
  ee_callback_handler_tx :: "channel option"
  ee_global_policy_evaluation_limit_seconds :: "64 word option"
  ee_policy_memory_limit_bytes :: "64 word option"

text \<open>
  What the environment is built with.  \<open>ps_deserialize\<close> is the library's \<^verbatim>\<open>Module::deserialize\<close>;
  \<open>ps_debug\<close> prints a string the way \<^verbatim>\<open>{:?}\<close> does.
\<close>

record ('e, 'm) server_library =
  ps_stack :: "('e, 'm) stack_library"
  ps_engine :: 'e
  ps_deserialize :: "'e \<Rightarrow> string \<Rightarrow> string + 'm"
  ps_runtime :: "StackPre policy_runtime"
  ps_rhai :: rhai_engine
  ps_debug :: "string \<Rightarrow> string"

record EvaluationEnvironmentBuilder =
  eb_precompiled_policies :: "string \<rightharpoonup> (string + PrecompiledPolicy)"
  eb_callback_handler_tx :: channel
  eb_continue_on_errors :: bool
  eb_global_policy_evaluation_limit_seconds :: "64 word option"
  eb_policy_memory_limit_bytes :: "64 word option"
  eb_always_accept_admission_reviews_on_namespace :: "string option"

definition EvaluationEnvironmentBuilder_new ::
  "(string \<rightharpoonup> (string + PrecompiledPolicy)) \<Rightarrow> channel \<Rightarrow> EvaluationEnvironmentBuilder" where
  "EvaluationEnvironmentBuilder_new precompiled tx =
     \<lparr> eb_precompiled_policies = precompiled, eb_callback_handler_tx = tx,
       eb_continue_on_errors = False, eb_global_policy_evaluation_limit_seconds = None,
       eb_policy_memory_limit_bytes = None,
       eb_always_accept_admission_reviews_on_namespace = None \<rparr>"

definition should_always_accept_requests_made_inside_of_namespace ::
  "EvaluationEnvironment \<Rightarrow> string \<Rightarrow> bool" where
  "should_always_accept_requests_made_inside_of_namespace env namespace \<longleftrightarrow>
     ee_always_accept_admission_reviews_on_namespace env = Some namespace"

section \<open>Registration\<close>

definition create_wasmtime_module ::
  "('e, 'm) server_library \<Rightarrow> PolicyID \<Rightarrow> PrecompiledPolicy \<Rightarrow> EvaluationError + 'm" where
  "create_wasmtime_module lib policy_id precompiled =
     map_err (\<lambda>e. WebAssemblyError (''could not rehydrate wasmtime::Module '' @
                     PolicyID_to_string policy_id @ '': '' @ e))
       (ps_deserialize lib (ps_engine lib) (pp_precompiled_module precompiled))"

definition create_policy_evaluator_pre ::
  "('e, 'm) server_library \<Rightarrow> 'm \<Rightarrow> PolicyExecutionMode \<Rightarrow> 64 word option \<Rightarrow> EvaluationError + StackPre" where
  "create_policy_evaluator_pre lib m mode policy_memory_limit_bytes =
     map_err (\<lambda>e. WebAssemblyError (''cannot build PolicyEvaluatorPre '' @
                     PolicyEvaluatorBuilderError_to_string e))
       (build_pre (ps_stack lib)
          (PolicyEvaluatorBuilder_new
             \<lparr> bu_engine := Some (ps_engine lib), bu_policy_module := Some m,
               bu_execution_mode := Some mode,
               bu_resource_limits := Some \<lparr> rl_max_memory_size = policy_memory_limit_bytes,
                                            rl_max_table_elements = None \<rparr> \<rparr>))"

definition ensure_evaluator_pre ::
  "('e, 'm) server_library \<Rightarrow> EvaluationEnvironment \<Rightarrow> PolicyID \<Rightarrow> PrecompiledPolicy \<Rightarrow>
   EvaluationError + EvaluationEnvironment" where
  "ensure_evaluator_pre lib env policy_id precompiled =
     (let module_digest = pp_digest precompiled in
      if ee_module_digest_to_policy_evaluator_pre env module_digest = None then
        try_then (create_wasmtime_module lib policy_id precompiled) (\<lambda>m.
        try_then (create_policy_evaluator_pre lib m (pp_execution_mode precompiled)
                    (ee_policy_memory_limit_bytes env)) (\<lambda>pre.
          Ok (env \<lparr> ee_module_digest_to_policy_evaluator_pre :=
                      (ee_module_digest_to_policy_evaluator_pre env)(module_digest \<mapsto> pre) \<rparr>)))
      else Ok env)"

definition env_register ::
  "('e, 'm) server_library \<Rightarrow> EvaluationEnvironment \<Rightarrow> PolicyID \<Rightarrow> PolicyEvaluationSettings \<Rightarrow>
   eval_context \<Rightarrow> PrecompiledPolicy \<Rightarrow> EvaluationError + EvaluationEnvironment" where
  "env_register lib env policy_id settings eval_ctx precompiled =
     try_then (ensure_evaluator_pre lib env policy_id precompiled) (\<lambda>env.
       Ok (env \<lparr> ee_policy_id_to_module_digest :=
                   (ee_policy_id_to_module_digest env)(policy_id \<mapsto> pp_digest precompiled),
                 ee_policy_id_to_settings := (ee_policy_id_to_settings env)(policy_id \<mapsto> settings),
                 ee_policy_id_to_ctx_aware_allowed_resources :=
                   (ee_policy_id_to_ctx_aware_allowed_resources env)
                     (policy_id \<mapsto> ec_ctx_aware_resources_allow_list eval_ctx),
                 ee_policy_id_to_host_capabilities :=
                   (ee_policy_id_to_host_capabilities env)
                     (policy_id \<mapsto> ec_host_capabilities eval_ctx) \<rparr>))"

definition register_policy_group ::
  "EvaluationEnvironment \<Rightarrow> PolicyID \<Rightarrow> PolicyEvaluationSettings \<Rightarrow> EvaluationEnvironment" where
  "register_policy_group env policy_id settings =
     env \<lparr> ee_policy_id_to_settings := (ee_policy_id_to_settings env)(policy_id \<mapsto> settings),
           ee_policy_groups := insert policy_id (ee_policy_groups env) \<rparr>"

section \<open>Lookups\<close>

definition get_policy_settings ::
  "EvaluationEnvironment \<Rightarrow> PolicyID \<Rightarrow> EvaluationError + PolicyEvaluationSettings" where
  "get_policy_settings env policy_id =
     ok_or (PolicyNotFound (PolicyID_to_string policy_id)) (ee_policy_id_to_settings env policy_id)"

definition get_policy_mode :: "EvaluationEnvironment \<Rightarrow> PolicyID \<Rightarrow> EvaluationError + PolicyMode" where
  "get_policy_mode env policy_id =
     ok_or (PolicyNotFound (PolicyID_to_string policy_id))
       (map_option es_policy_mode (ee_policy_id_to_settings env policy_id))"

definition get_policy_custom_rejection_message ::
  "EvaluationEnvironment \<Rightarrow> PolicyID \<Rightarrow> EvaluationError + string option" where
  "get_policy_custom_rejection_message env policy_id =
     ok_or (PolicyNotFound (PolicyID_to_string policy_id))
       (map_option es_custom_rejection_message (ee_policy_id_to_settings env policy_id))"

definition get_policy_allowed_to_mutate :: "EvaluationEnvironment \<Rightarrow> PolicyID \<Rightarrow> EvaluationError + bool" where
  "get_policy_allowed_to_mutate env policy_id =
     ok_or (PolicyNotFound (PolicyID_to_string policy_id))
       (map_option es_allowed_to_mutate (ee_policy_id_to_settings env policy_id))"

section \<open>Evaluation\<close>

text \<open>
  What \<^verbatim>\<open>rehydrate\<close> looks up before it calls the evaluator: the prepared runtime and the
  context it is instantiated with.
\<close>

definition env_rehydrate ::
  "EvaluationEnvironment \<Rightarrow> PolicyID \<Rightarrow> EvaluationError + StackPre \<times> eval_context" where
  "env_rehydrate env policy_id =
     (let not_found = PolicyNotFound (PolicyID_to_string policy_id) in
      if policy_id \<in> ee_policy_groups env
      then Err (CannotRehydratePolicyGroup (PolicyID_to_string policy_id))
      else
        try_then (ok_or not_found (ee_policy_id_to_module_digest env policy_id)) (\<lambda>module_digest.
        try_then (get_policy_settings env policy_id) (\<lambda>policy_settings.
        try_then (ok_or not_found
          (ee_module_digest_to_policy_evaluator_pre env module_digest)) (\<lambda>pre.
        try_then (ok_or not_found
          (ee_policy_id_to_ctx_aware_allowed_resources env policy_id)) (\<lambda>allow_list.
          Ok (pre,
              \<lparr> ec_policy_id = PolicyID_to_string policy_id,
                ec_callback_channel = ee_callback_handler_tx env,
                ec_ctx_aware_resources_allow_list = allow_list,
                ec_epoch_deadline = epoch_deadline_for (es_timeout_eval_seconds policy_settings)
                                      (ee_global_policy_evaluation_limit_seconds env),
                ec_host_capabilities =
                  (case ee_policy_id_to_host_capabilities env policy_id of
                     None \<Rightarrow> DenyAll | Some h \<Rightarrow> h) \<rparr>))))))"

definition rehydration_error :: "PolicyEvaluatorPreError \<Rightarrow> EvaluationError" where
  "rehydration_error e =
     WebAssemblyError (''cannot rehydrate PolicyEvaluatorPre: '' @ PolicyEvaluatorPreError_to_string e)"

text \<open>The loop of \<^verbatim>\<open>build_policy_group_evaluator\<close>.\<close>

definition add_group_member ::
  "EvaluationEnvironment \<Rightarrow> PolicyID \<Rightarrow> StackPre PolicyGroupEvaluator \<Rightarrow> string \<Rightarrow>
   EvaluationError + StackPre PolicyGroupEvaluator" where
  "add_group_member env group_id evaluator sub_policy_name =
     (let policy_id = PolicyGroupPolicy (PolicyID_to_string group_id) sub_policy_name;
          not_found = PolicyNotFound (PolicyID_to_string policy_id)
      in
        try_then (ok_or not_found (ee_policy_id_to_module_digest env policy_id)) (\<lambda>module_digest.
        try_then (ok_or not_found
          (ee_module_digest_to_policy_evaluator_pre env module_digest)) (\<lambda>pre.
        try_then (ok_or not_found
          (ee_policy_id_to_ctx_aware_allowed_resources env policy_id)) (\<lambda>allow_list.
        try_then (get_policy_settings env policy_id) (\<lambda>policy_settings.
          (case es_settings policy_settings of
             Set_Policy settings \<Rightarrow>
               Ok (add_policy_member sub_policy_name pre
                     \<lparr> gm_settings = settings,
                       gm_ctx_aware_resources_allow_list = allow_list,
                       gm_epoch_deadline = epoch_deadline_for (es_timeout_eval_seconds policy_settings)
                                             (ee_global_policy_evaluation_limit_seconds env),
                       gm_host_capabilities =
                         (case ee_policy_id_to_host_capabilities env policy_id of
                            None \<Rightarrow> DenyAll | Some h \<Rightarrow> h) \<rparr> evaluator)
           | Set_PolicyGroup _ _ _ \<Rightarrow> Err (PolicyInitialization ''unreachable'')))))))"

definition build_policy_group_evaluator ::
  "EvaluationEnvironment \<Rightarrow> PolicyID \<Rightarrow> EvaluationError + StackPre PolicyGroupEvaluator" where
  "build_policy_group_evaluator env policy_id =
     try_then (get_policy_settings env policy_id) (\<lambda>s.
       (case es_settings s of
          Set_PolicyGroup expression message policies \<Rightarrow>
            try_fold (add_group_member env policy_id)
              (PolicyGroupEvaluator_new (PolicyID_to_string policy_id) message expression
                 (ee_callback_handler_tx env)) policies
        | Set_Policy _ \<Rightarrow> Err (PolicyInitialization ''unreachable'')))"

definition env_validate_policy ::
  "('e, 'm) server_library \<Rightarrow> EvaluationEnvironment \<Rightarrow> PolicyID \<Rightarrow> ValidateRequest \<Rightarrow>
   EvaluationError + AdmissionResponse" where
  "env_validate_policy lib env policy_id req =
     (case ee_policy_initialization_errors env policy_id of
        Some error \<Rightarrow> Err (PolicyInitialization error)
      | None \<Rightarrow>
          try_then (get_policy_settings env policy_id) (\<lambda>s.
            (case es_settings s of
               Set_Policy settings \<Rightarrow>
                 try_then (env_rehydrate env policy_id) (\<lambda>(pre, ctx).
                   map_err rehydration_error (rt_validate (ps_runtime lib) pre ctx req settings))
             | Set_PolicyGroup _ _ _ \<Rightarrow> Err (PolicyInitialization ''unreachable''))))"

definition env_validate_policy_group ::
  "('e, 'm) server_library \<Rightarrow> EvaluationEnvironment \<Rightarrow> PolicyID \<Rightarrow> ValidateRequest \<Rightarrow>
   EvaluationError + AdmissionResponse" where
  "env_validate_policy_group lib env policy_id req =
     try_then (build_policy_group_evaluator env policy_id) (\<lambda>g.
       Ok (group_validate (ps_runtime lib) (ps_rhai lib) g req))"

definition env_validate ::
  "('e, 'm) server_library \<Rightarrow> EvaluationEnvironment \<Rightarrow> PolicyID \<Rightarrow> ValidateRequest \<Rightarrow>
   EvaluationError + AdmissionResponse" where
  "env_validate lib env policy_id req =
     (if policy_id \<in> ee_policy_groups env then env_validate_policy_group lib env policy_id req
      else env_validate_policy lib env policy_id req)"

definition env_validate_settings ::
  "('e, 'm) server_library \<Rightarrow> EvaluationEnvironment \<Rightarrow> PolicyID \<Rightarrow> EvaluationError + unit" where
  "env_validate_settings lib env policy_id =
     try_then (get_policy_settings env policy_id) (\<lambda>s.
       (case es_settings s of
          Set_Policy settings \<Rightarrow>
            try_then (env_rehydrate env policy_id) (\<lambda>(pre, ctx).
            try_then (map_err rehydration_error
                        (rt_validate_settings (ps_runtime lib) pre ctx settings)) (\<lambda>v.
              if sv_valid v then Ok ()
              else Err (PolicyInitialization (''Policy settings are invalid: '' @
                     (case sv_message v of None \<Rightarrow> ''no message'' | Some m \<Rightarrow> m)))))
        | Set_PolicyGroup _ _ _ \<Rightarrow>
            try_then (build_policy_group_evaluator env policy_id) (\<lambda>g.
              (let v = group_validate_settings (ps_runtime lib) (ps_rhai lib) g in
               if \<not> sv_valid v then
                 Err (PolicyInitialization
                   (case sv_message v of
                      None \<Rightarrow> PolicyID_to_string policy_id @ '' settings are not valid''
                    | Some m \<Rightarrow> m))
               else Ok ()))))"

section \<open>Building the environment\<close>

text \<open>
  Bootstrapping a policy changes the environment also when it fails after the registration,
  so it returns the environment along with the result.
\<close>

definition bootstrap_policy ::
  "('e, 'm) server_library \<Rightarrow> EvaluationEnvironmentBuilder \<Rightarrow> EvaluationEnvironment \<Rightarrow> PolicyID \<Rightarrow>
   string \<Rightarrow> PolicyEvaluationSettings \<Rightarrow> eval_context \<Rightarrow>
   (EvaluationError + unit) \<times> EvaluationEnvironment" where
  "bootstrap_policy lib b env i url settings eval_ctx =
     (case try_then (ok_or (BootstrapFailure (''cannot find precompiled policy of '' @ PolicyID_to_string i))
                       (eb_precompiled_policies b url))
             (map_err (\<lambda>e. BootstrapFailure (PolicyID_to_string i @ '': '' @ e))) of
        Inl e \<Rightarrow> (Err e, env)
      | Inr precompiled \<Rightarrow>
          (case map_err (\<lambda>e. BootstrapFailure (EvaluationError_to_string e))
                  (env_register lib env i settings eval_ctx precompiled) of
             Inl e \<Rightarrow> (Err e, env)
           | Inr env \<Rightarrow> (env_validate_settings lib env i, env)))"

definition builder_host_capabilities ::
  "('e, 'm) server_library \<Rightarrow> PolicyID \<Rightarrow> string list \<Rightarrow> EvaluationError + HostCapabilities" where
  "builder_host_capabilities lib i patterns =
     map_err (\<lambda>e. BootstrapFailure (''invalid hostCapabilities pattern for policy '' @
                     PolicyID_to_string i @ '': '' @
                     HostCapabilitiesPatternError_to_string (ps_debug lib) e))
       (HostCapabilities_new patterns)"

definition keep_or_abort ::
  "EvaluationEnvironmentBuilder \<Rightarrow> PolicyID \<Rightarrow> (EvaluationError + unit) \<times> EvaluationEnvironment \<Rightarrow>
   EvaluationError + EvaluationEnvironment" where
  "keep_or_abort b i r =
     (case r of
        (Inr _, env) \<Rightarrow> Ok env
      | (Inl e, env) \<Rightarrow>
          (if \<not> eb_continue_on_errors b then Err e
           else Ok (env \<lparr> ee_policy_initialization_errors :=
                  (ee_policy_initialization_errors env)(i \<mapsto> EvaluationError_to_string e) \<rparr>)))"

definition individual_settings :: "PolicyConfig \<Rightarrow> PolicyOrPolicyGroupSettings \<Rightarrow> PolicyEvaluationSettings" where
  "individual_settings p settings =
     \<lparr> es_policy_mode = pc_policy_mode p,
       es_allowed_to_mutate = (case pc_allowed_to_mutate p of None \<Rightarrow> False | Some a \<Rightarrow> a),
       es_settings = settings, es_custom_rejection_message = pc_message p,
       es_timeout_eval_seconds = pc_timeout_eval_seconds p \<rparr>"

definition member_evaluation_settings ::
  "PolicyGroupMember \<Rightarrow> PolicyOrPolicyGroupSettings \<Rightarrow> PolicyEvaluationSettings" where
  "member_evaluation_settings m settings =
     \<lparr> es_policy_mode = Protect, es_allowed_to_mutate = False, es_settings = settings,
       es_custom_rejection_message = None, es_timeout_eval_seconds = gmc_timeout_eval_seconds m \<rparr>"

definition group_settings :: "PolicyGroupConfig \<Rightarrow> PolicyOrPolicyGroupSettings \<Rightarrow> PolicyEvaluationSettings" where
  "group_settings g settings =
     \<lparr> es_policy_mode = gc_policy_mode g, es_allowed_to_mutate = False, es_settings = settings,
       es_custom_rejection_message = None, es_timeout_eval_seconds = None \<rparr>"

definition builder_context ::
  "EvaluationEnvironmentBuilder \<Rightarrow> PolicyID \<Rightarrow> ContextAwareResource set \<Rightarrow> 64 word option \<Rightarrow>
   HostCapabilities \<Rightarrow> eval_context" where
  "builder_context b i resources timeout host_capabilities =
     \<lparr> ec_policy_id = PolicyID_to_string i,
       ec_callback_channel = Some (eb_callback_handler_tx b),
       ec_ctx_aware_resources_allow_list = resources,
       ec_epoch_deadline = epoch_deadline_for timeout (eb_global_policy_evaluation_limit_seconds b),
       ec_host_capabilities = host_capabilities \<rparr>"

definition bootstrap_individual ::
  "('e, 'm) server_library \<Rightarrow> EvaluationEnvironmentBuilder \<Rightarrow> EvaluationEnvironment \<Rightarrow> PolicyID \<Rightarrow>
   PolicyConfig \<Rightarrow> PolicyOrPolicyGroupSettings \<Rightarrow> EvaluationError + EvaluationEnvironment" where
  "bootstrap_individual lib b env i p settings =
     try_then (builder_host_capabilities lib i (pc_host_capabilities p)) (\<lambda>host_capabilities.
       keep_or_abort b i
         (bootstrap_policy lib b env i (pc_module p) (individual_settings p settings)
            (builder_context b i (pc_context_aware_resources p) (pc_timeout_eval_seconds p)
               host_capabilities)))"

definition bootstrap_member ::
  "('e, 'm) server_library \<Rightarrow> EvaluationEnvironmentBuilder \<Rightarrow> PolicyID \<Rightarrow> EvaluationEnvironment \<Rightarrow>
   string \<times> PolicyGroupMember \<Rightarrow> EvaluationError + EvaluationEnvironment" where
  "bootstrap_member lib b group_id env nm =
     (case nm of (policy_name, m) \<Rightarrow>
        (let policy_id = PolicyGroupPolicy (PolicyID_to_string group_id) policy_name in
         case PolicyGroupMember_settings m of
           Inl e \<Rightarrow>
             (if \<not> eb_continue_on_errors b
              then Err (BootstrapFailure (''cannot extract settings from policy: '' @ e))
              else Ok (env \<lparr> ee_policy_initialization_errors :=
                     (ee_policy_initialization_errors env)(policy_id \<mapsto> e) \<rparr>))
         | Inr settings \<Rightarrow>
             try_then (builder_host_capabilities lib group_id (gmc_host_capabilities m)) (\<lambda>host_capabilities.
               keep_or_abort b policy_id
                 (bootstrap_policy lib b env policy_id (gmc_module m)
                    (member_evaluation_settings m settings)
                    (builder_context b policy_id (gmc_context_aware_resources m)
                       (gmc_timeout_eval_seconds m) host_capabilities)))))"

definition bootstrap_entry ::
  "('e, 'm) server_library \<Rightarrow> EvaluationEnvironmentBuilder \<Rightarrow> EvaluationEnvironment \<Rightarrow>
   string \<times> PolicyOrPolicyGroup \<Rightarrow> EvaluationError + EvaluationEnvironment" where
  "bootstrap_entry lib b env np =
     (case np of (policy_name, policy) \<Rightarrow>
        try_then (PolicyID_from_str policy_name) (\<lambda>i.
          (case PolicyOrPolicyGroup_settings policy of
             Inl e \<Rightarrow>
               (if \<not> eb_continue_on_errors b
                then Err (BootstrapFailure (''cannot extract settings from policy: '' @ e))
                else Ok (env \<lparr> ee_policy_initialization_errors :=
                       (ee_policy_initialization_errors env)(i \<mapsto> e) \<rparr>))
           | Inr settings \<Rightarrow>
               (case policy of
                  Individual p \<Rightarrow> bootstrap_individual lib b env i p settings
                | Grouped g \<Rightarrow>
                    try_fold (bootstrap_member lib b i)
                      (register_policy_group env i (group_settings g settings)) (gc_policies g)))))"

definition empty_environment :: "EvaluationEnvironmentBuilder \<Rightarrow> EvaluationEnvironment" where
  "empty_environment b =
     \<lparr> ee_always_accept_admission_reviews_on_namespace = eb_always_accept_admission_reviews_on_namespace b,
       ee_module_digest_to_policy_evaluator_pre = Map.empty,
       ee_policy_id_to_ctx_aware_allowed_resources = Map.empty,
       ee_policy_id_to_host_capabilities = Map.empty, ee_policy_id_to_module_digest = Map.empty,
       ee_policy_id_to_settings = Map.empty, ee_policy_initialization_errors = Map.empty,
       ee_policy_groups = {}, ee_callback_handler_tx = Some (eb_callback_handler_tx b),
       ee_global_policy_evaluation_limit_seconds = eb_global_policy_evaluation_limit_seconds b,
       ee_policy_memory_limit_bytes = eb_policy_memory_limit_bytes b \<rparr>"

definition build_evaluation_environment ::
  "('e, 'm) server_library \<Rightarrow> EvaluationEnvironmentBuilder \<Rightarrow> policies_config \<Rightarrow>
   EvaluationError + EvaluationEnvironment" where
  "build_evaluation_environment lib b policies =
     try_fold (bootstrap_entry lib b) (empty_environment b) policies"

end
