(* ===== verification/Environment_Refinement.thy ===== *)
theory Environment_Refinement
  imports Evaluation_Environment
begin

text \<open>
  What a built environment promises, stated over the configuration alone, and the proof that
  the environment with its maps and its sharing of modules keeps the promise.  \<open>serve_individual\<close>
  and \<open>serve_group\<close> say how a request for a configured policy or group is answered without
  any environment; the refinement goes through one predicate, \<open>served\<close>, for the entries of a
  policy, and one, \<open>step_ok\<close>, for what a step of the bootstrap may change.
\<close>

section \<open>The promise\<close>

definition make_pre ::
  "('e, 'm) server_library \<Rightarrow> EvaluationEnvironmentBuilder \<Rightarrow> PolicyID \<Rightarrow> PrecompiledPolicy \<Rightarrow>
   EvaluationError + StackPre" where
  "make_pre lib b i pp =
     try_then (create_wasmtime_module lib i pp) (\<lambda>m.
       create_policy_evaluator_pre lib m (pp_execution_mode pp) (eb_policy_memory_limit_bytes b))"

text \<open>The evaluator of the module at a URL.\<close>

definition configured_pre ::
  "('e, 'm) server_library \<Rightarrow> EvaluationEnvironmentBuilder \<Rightarrow> PolicyID \<Rightarrow> string \<Rightarrow>
   EvaluationError + StackPre" where
  "configured_pre lib b i url =
     try_then (try_then (ok_or (BootstrapFailure (''cannot find precompiled policy of '' @ PolicyID_to_string i))
                           (eb_precompiled_policies b url))
                 (map_err (\<lambda>e. BootstrapFailure (PolicyID_to_string i @ '': '' @ e)))) (\<lambda>pp.
       map_err (\<lambda>e. BootstrapFailure (EvaluationError_to_string e)) (make_pre lib b i pp))"

definition check_settings ::
  "('e, 'm) server_library \<Rightarrow> StackPre \<Rightarrow> eval_context \<Rightarrow> PolicySettings \<Rightarrow> EvaluationError + unit" where
  "check_settings lib pre ctx settings =
     try_then (map_err rehydration_error
                 (rt_validate_settings (ps_runtime lib) pre ctx settings)) (\<lambda>v.
       if sv_valid v then Ok ()
       else Err (PolicyInitialization (''Policy settings are invalid: '' @
              (case sv_message v of None \<Rightarrow> ''no message'' | Some m \<Rightarrow> m))))"

definition granted :: "string list \<Rightarrow> HostCapabilities" where
  "granted patterns = (case HostCapabilities_new patterns of Inr h \<Rightarrow> h | Inl _ \<Rightarrow> DenyAll)"

text \<open>The answer of one policy, given its module, its grants, its timeout and its settings.\<close>

definition serve_one ::
  "('e, 'm) server_library \<Rightarrow> EvaluationEnvironmentBuilder \<Rightarrow> PolicyID \<Rightarrow> string \<Rightarrow>
   ContextAwareResource set \<Rightarrow> 64 word option \<Rightarrow> string list \<Rightarrow> PolicySettings \<Rightarrow> ValidateRequest \<Rightarrow>
   EvaluationError + AdmissionResponse" where
  "serve_one lib b i url resources timeout patterns settings req =
     (let ctx = builder_context b i resources timeout (granted patterns) in
      case try_then (configured_pre lib b i url) (\<lambda>pre.
             try_then (check_settings lib pre ctx settings) (\<lambda>_. Ok pre)) of
        Inl e \<Rightarrow> Err (PolicyInitialization (EvaluationError_to_string e))
      | Inr pre \<Rightarrow> map_err rehydration_error (rt_validate (ps_runtime lib) pre ctx req settings))"

definition serve_individual ::
  "('e, 'm) server_library \<Rightarrow> EvaluationEnvironmentBuilder \<Rightarrow> string \<Rightarrow> PolicyConfig \<Rightarrow> ValidateRequest \<Rightarrow>
   EvaluationError + AdmissionResponse" where
  "serve_individual lib b name p req =
     serve_one lib b (Policy name) (pc_module p) (pc_context_aware_resources p)
       (pc_timeout_eval_seconds p) (pc_host_capabilities p) (settings_or_default (pc_settings p)) req"

definition serve_member ::
  "('e, 'm) server_library \<Rightarrow> EvaluationEnvironmentBuilder \<Rightarrow> string \<Rightarrow> string \<Rightarrow> PolicyGroupMember \<Rightarrow>
   ValidateRequest \<Rightarrow> EvaluationError + AdmissionResponse" where
  "serve_member lib b gname n m req =
     serve_one lib b (PolicyGroupPolicy gname n) (gmc_module m) (gmc_context_aware_resources m)
       (gmc_timeout_eval_seconds m) (gmc_host_capabilities m) (settings_or_default (gmc_settings m)) req"

definition configured_member ::
  "('e, 'm) server_library \<Rightarrow> EvaluationEnvironmentBuilder \<Rightarrow> string \<Rightarrow> StackPre PolicyGroupEvaluator \<Rightarrow>
   string \<times> PolicyGroupMember \<Rightarrow> EvaluationError + StackPre PolicyGroupEvaluator" where
  "configured_member lib b gname evaluator nm =
     (case nm of (n, m) \<Rightarrow>
        (case configured_pre lib b (PolicyGroupPolicy gname n) (gmc_module m) of
           Inl _ \<Rightarrow> Err (PolicyNotFound (gname @ ''/'' @ n))
         | Inr pre \<Rightarrow>
             Ok (add_policy_member n pre
                   \<lparr> gm_settings = settings_or_default (gmc_settings m),
                     gm_ctx_aware_resources_allow_list = gmc_context_aware_resources m,
                     gm_epoch_deadline = epoch_deadline_for (gmc_timeout_eval_seconds m)
                                           (eb_global_policy_evaluation_limit_seconds b),
                     gm_host_capabilities = granted (gmc_host_capabilities m) \<rparr> evaluator)))"

definition serve_group ::
  "('e, 'm) server_library \<Rightarrow> EvaluationEnvironmentBuilder \<Rightarrow> string \<Rightarrow> PolicyGroupConfig \<Rightarrow>
   ValidateRequest \<Rightarrow> EvaluationError + AdmissionResponse" where
  "serve_group lib b gname g req =
     try_then (try_fold (configured_member lib b gname)
                 (PolicyGroupEvaluator_new gname (gc_message g) (gc_expression g)
                    (Some (eb_callback_handler_tx b))) (gc_policies g)) (\<lambda>ev.
       Ok (group_validate (ps_runtime lib) (ps_rhai lib) ev req))"

text \<open>The answer to a request for any identifier, from the configuration.\<close>

fun serve ::
  "('e, 'm) server_library \<Rightarrow> EvaluationEnvironmentBuilder \<Rightarrow> policies_config \<Rightarrow> PolicyID \<Rightarrow>
   ValidateRequest \<Rightarrow> EvaluationError + AdmissionResponse" where
  "serve lib b policies (Policy name) req =
     (case map_of policies name of
        Some (Individual p) \<Rightarrow> serve_individual lib b name p req
      | Some (Grouped g) \<Rightarrow> serve_group lib b name g req
      | None \<Rightarrow> Err (PolicyNotFound name))"
| "serve lib b policies (PolicyGroupPolicy gname n) req =
     (case map_of policies gname of
        Some (Grouped g) \<Rightarrow>
          (case map_of (gc_policies g) n of
             Some m \<Rightarrow> serve_member lib b gname n m req
           | None \<Rightarrow> Err (PolicyNotFound (gname @ ''/'' @ n)))
      | _ \<Rightarrow> Err (PolicyNotFound (gname @ ''/'' @ n)))"

text \<open>
  The digest of a precompiled module identifies it, together with its execution mode.
\<close>

definition digests_identify :: "EvaluationEnvironmentBuilder \<Rightarrow> bool" where
  "digests_identify b \<longleftrightarrow>
     (\<forall>u v pp qq. eb_precompiled_policies b u = Some (Ok pp) \<longrightarrow>
        eb_precompiled_policies b v = Some (Ok qq) \<longrightarrow> pp_digest pp = pp_digest qq \<longrightarrow> pp = qq)"

section \<open>Steps of the bootstrap\<close>

definition same_slot :: "PolicyID \<Rightarrow> EvaluationEnvironment \<Rightarrow> EvaluationEnvironment \<Rightarrow> bool" where
  "same_slot i env env' \<longleftrightarrow>
     ee_policy_id_to_module_digest env' i = ee_policy_id_to_module_digest env i \<and>
     ee_policy_id_to_settings env' i = ee_policy_id_to_settings env i \<and>
     ee_policy_id_to_ctx_aware_allowed_resources env' i = ee_policy_id_to_ctx_aware_allowed_resources env i \<and>
     ee_policy_id_to_host_capabilities env' i = ee_policy_id_to_host_capabilities env i \<and>
     ee_policy_initialization_errors env' i = ee_policy_initialization_errors env i \<and>
     (i \<in> ee_policy_groups env' \<longleftrightarrow> i \<in> ee_policy_groups env)"

definition built_by :: "EvaluationEnvironmentBuilder \<Rightarrow> EvaluationEnvironment \<Rightarrow> bool" where
  "built_by b env \<longleftrightarrow>
     ee_always_accept_admission_reviews_on_namespace env =
       eb_always_accept_admission_reviews_on_namespace b \<and>
     ee_callback_handler_tx env = Some (eb_callback_handler_tx b) \<and>
     ee_global_policy_evaluation_limit_seconds env = eb_global_policy_evaluation_limit_seconds b \<and>
     ee_policy_memory_limit_bytes env = eb_policy_memory_limit_bytes b"

text \<open>The evaluators in the environment are those of precompiled modules.\<close>

definition pres_ok ::
  "('e, 'm) server_library \<Rightarrow> EvaluationEnvironmentBuilder \<Rightarrow> EvaluationEnvironment \<Rightarrow> bool" where
  "pres_ok lib b env \<longleftrightarrow>
     (\<forall>d pre. ee_module_digest_to_policy_evaluator_pre env d = Some pre \<longrightarrow>
        (\<exists>u pp i. eb_precompiled_policies b u = Some (Ok pp) \<and> pp_digest pp = d \<and>
           make_pre lib b i pp = Ok pre))"

definition env_inv where
  "env_inv lib b env \<longleftrightarrow> built_by b env \<and> pres_ok lib b env"

text \<open>A step that touches only the entries of the policies in \<open>A\<close>.\<close>

definition step_ok where
  "step_ok lib b A env env' \<longleftrightarrow>
     (env_inv lib b env \<longrightarrow> env_inv lib b env') \<and>
     ee_module_digest_to_policy_evaluator_pre env \<subseteq>\<^sub>m ee_module_digest_to_policy_evaluator_pre env' \<and>
     (\<forall>j. j \<notin> A \<longrightarrow> same_slot j env env')"

lemma step_ok_refl [simp]: "step_ok lib b A env env"
  by (simp add: step_ok_def same_slot_def)

lemma step_ok_trans:
  "step_ok lib b A e1 e2 \<Longrightarrow> step_ok lib b B e2 e3 \<Longrightarrow> step_ok lib b (A \<union> B) e1 e3"
  unfolding step_ok_def same_slot_def by (auto intro: map_le_trans)

lemma step_ok_mono: "step_ok lib b A e1 e2 \<Longrightarrow> A \<subseteq> B \<Longrightarrow> step_ok lib b B e1 e2"
  unfolding step_ok_def by blast

lemma step_ok_fold:
  assumes "\<And>e x e'. x \<in> set xs \<Longrightarrow> f e x = Ok e' \<Longrightarrow> step_ok lib b (A x) e e'"
    and "try_fold f env xs = Ok env'"
  shows "step_ok lib b (\<Union>x\<in>set xs. A x) env env'"
  using assms
proof (induction xs arbitrary: env)
  case (Cons x xs)
  from Cons.prems(2) obtain e where e: "f env x = Ok e" "try_fold f e xs = Ok env'"
    by (auto simp: try_then_Ok_iff)
  have "step_ok lib b (A x) env e" using Cons.prems(1) e(1) by simp
  moreover have "step_ok lib b (\<Union>x\<in>set xs. A x) e env'"
    using Cons.IH [OF Cons.prems(1) e(2)] by simp
  ultimately show ?case using step_ok_trans by fastforce
qed simp

lemma make_pre_id: "make_pre lib b i pp = Ok pre \<Longrightarrow> make_pre lib b j pp = Ok pre"
  by (auto simp: make_pre_def create_wasmtime_module_def result_simps)

text \<open>Sharing of modules is invisible: the evaluator found is the one that would be made.\<close>

lemma ensure_evaluator_pre_shared:
  assumes inv: "env_inv lib b env" and ident: "digests_identify b"
    and pp: "eb_precompiled_policies b u = Some (Ok pp)"
    and made: "make_pre lib b i pp = Ok pre"
  obtains pres where
    "ensure_evaluator_pre lib env i pp = Ok (env \<lparr> ee_module_digest_to_policy_evaluator_pre := pres \<rparr>)"
    "ee_module_digest_to_policy_evaluator_pre env \<subseteq>\<^sub>m pres" "pres (pp_digest pp) = Some pre"
    "env_inv lib b (env \<lparr> ee_module_digest_to_policy_evaluator_pre := pres \<rparr>)"
proof (cases "ee_module_digest_to_policy_evaluator_pre env (pp_digest pp)")
  case None
  define pres where "pres = (ee_module_digest_to_policy_evaluator_pre env)(pp_digest pp \<mapsto> pre)"
  have "ensure_evaluator_pre lib env i pp = Ok (env \<lparr> ee_module_digest_to_policy_evaluator_pre := pres \<rparr>)"
    using made inv None
    by (auto simp: ensure_evaluator_pre_def make_pre_def env_inv_def built_by_def pres_def result_simps)
  moreover have "ee_module_digest_to_policy_evaluator_pre env \<subseteq>\<^sub>m pres"
    using None by (auto simp: pres_def map_le_def)
  moreover have "pres (pp_digest pp) = Some pre" by (simp add: pres_def)
  moreover have "env_inv lib b (env \<lparr> ee_module_digest_to_policy_evaluator_pre := pres \<rparr>)"
    using inv pp made by (auto simp: env_inv_def built_by_def pres_ok_def pres_def)
  ultimately show ?thesis using that by blast
next
  case (Some pre')
  obtain v qq j where "eb_precompiled_policies b v = Some (Ok qq)" "pp_digest qq = pp_digest pp"
    "make_pre lib b j qq = Ok pre'"
    using inv Some unfolding env_inv_def pres_ok_def by blast
  moreover from this have "qq = pp" using ident pp unfolding digests_identify_def by metis
  ultimately have "pre' = pre" using made make_pre_id by fastforce
  moreover have "ensure_evaluator_pre lib env i pp = Ok env"
    using Some by (simp add: ensure_evaluator_pre_def)
  moreover have same: "env \<lparr> ee_module_digest_to_policy_evaluator_pre :=
      ee_module_digest_to_policy_evaluator_pre env \<rparr> = env"
    by simp
  ultimately show ?thesis
    using that [of "ee_module_digest_to_policy_evaluator_pre env"] Some inv by simp
qed

lemma ensure_evaluator_pre_fails:
  assumes inv: "env_inv lib b env" and ident: "digests_identify b"
    and pp: "eb_precompiled_policies b u = Some (Ok pp)"
    and fails: "make_pre lib b i pp = Err e"
  shows "ensure_evaluator_pre lib env i pp = Err e"
proof (cases "ee_module_digest_to_policy_evaluator_pre env (pp_digest pp)")
  case None
  then show ?thesis
    using fails inv
    by (auto simp: ensure_evaluator_pre_def make_pre_def env_inv_def built_by_def result_simps)
next
  case (Some pre')
  obtain v qq j where q: "eb_precompiled_policies b v = Some (Ok qq)" "pp_digest qq = pp_digest pp"
    "make_pre lib b j qq = Ok pre'"
    using inv Some unfolding env_inv_def pres_ok_def by blast
  then have "qq = pp" using ident pp unfolding digests_identify_def by metis
  with q(3) fails make_pre_id show ?thesis by fastforce
qed

section \<open>The entries of a policy\<close>

definition served ::
  "('e, 'm) server_library \<Rightarrow> EvaluationEnvironmentBuilder \<Rightarrow> PolicyID \<Rightarrow> string \<Rightarrow>
   PolicyEvaluationSettings \<Rightarrow> eval_context \<Rightarrow> PolicySettings \<Rightarrow> EvaluationEnvironment \<Rightarrow> bool" where
  "served lib b i url s ctx settings env \<longleftrightarrow>
     i \<notin> ee_policy_groups env \<and>
     (case configured_pre lib b i url of
        Inl e \<Rightarrow>
          ee_policy_id_to_module_digest env i = None \<and>
          ee_policy_initialization_errors env i = Some (EvaluationError_to_string e)
      | Inr pre \<Rightarrow>
          (\<exists>d. ee_policy_id_to_module_digest env i = Some d \<and>
               ee_module_digest_to_policy_evaluator_pre env d = Some pre) \<and>
          ee_policy_id_to_settings env i = Some s \<and>
          ee_policy_id_to_ctx_aware_allowed_resources env i = Some (ec_ctx_aware_resources_allow_list ctx) \<and>
          ee_policy_id_to_host_capabilities env i = Some (ec_host_capabilities ctx) \<and>
          ee_policy_initialization_errors env i =
            (case check_settings lib pre ctx settings of
               Inl e \<Rightarrow> Some (EvaluationError_to_string e) | Inr _ \<Rightarrow> None))"

lemma served_frame:
  assumes "served lib b i url s ctx settings env" "step_ok lib b A env env'" "i \<notin> A"
  shows "served lib b i url s ctx settings env'"
proof -
  have "same_slot i env env'" using assms(2,3) by (simp add: step_ok_def)
  moreover have "ee_module_digest_to_policy_evaluator_pre env' d = Some pre"
    if "ee_module_digest_to_policy_evaluator_pre env d = Some pre" for d pre
    using that assms(2) by (auto simp: step_ok_def map_le_def dom_def)
  ultimately show ?thesis
    using assms(1) by (auto simp: served_def same_slot_def split: sum.splits)
qed

text \<open>Nothing is known yet of a policy.\<close>

definition fresh :: "PolicyID \<Rightarrow> EvaluationEnvironment \<Rightarrow> bool" where
  "fresh i env \<longleftrightarrow>
     ee_policy_id_to_module_digest env i = None \<and> ee_policy_initialization_errors env i = None \<and>
     i \<notin> ee_policy_groups env"

lemma fresh_frame: "fresh i env \<Longrightarrow> step_ok lib b A env env' \<Longrightarrow> i \<notin> A \<Longrightarrow> fresh i env'"
  by (auto simp: fresh_def step_ok_def same_slot_def)

lemma ensure_step:
  assumes "eb_precompiled_policies b u = Some (Ok pp)" "ensure_evaluator_pre lib env i pp = Ok env'"
  shows "step_ok lib b A env env' \<and> (\<exists>pres. env' = env \<lparr> ee_module_digest_to_policy_evaluator_pre := pres \<rparr>)"
proof (cases "ee_module_digest_to_policy_evaluator_pre env (pp_digest pp)")
  case None
  obtain m pre where m: "create_wasmtime_module lib i pp = Ok m"
    "create_policy_evaluator_pre lib m (pp_execution_mode pp) (ee_policy_memory_limit_bytes env) = Ok pre"
    "env' = env \<lparr> ee_module_digest_to_policy_evaluator_pre :=
               (ee_module_digest_to_policy_evaluator_pre env)(pp_digest pp \<mapsto> pre) \<rparr>"
    using assms(2) None by (auto simp: ensure_evaluator_pre_def result_simps)
  have "env_inv lib b env'" if "env_inv lib b env"
  proof -
    have "make_pre lib b i pp = Ok pre"
      using m that by (simp add: make_pre_def env_inv_def built_by_def)
    with that assms(1) m(3) show ?thesis
      by (auto simp: env_inv_def built_by_def pres_ok_def)
  qed
  with None m(3) show ?thesis by (auto simp: step_ok_def same_slot_def map_le_def)
next
  case Some
  then have "env' = env" using assms(2) by (simp add: ensure_evaluator_pre_def)
  then show ?thesis by (metis EvaluationEnvironment.surjective
        EvaluationEnvironment.update_convs(2) step_ok_refl)
qed

lemma bootstrap_policy_step:
  assumes "bootstrap_policy lib b env i url s ctx = (r, env')"
  shows "step_ok lib b {i} env env'"
proof (cases "env' = env")
  case False
  then obtain pp e where pp: "eb_precompiled_policies b url = Some (Ok pp)"
    "ensure_evaluator_pre lib env i pp = Ok e"
    "env' = e \<lparr> ee_policy_id_to_module_digest := (ee_policy_id_to_module_digest e)(i \<mapsto> pp_digest pp),
                ee_policy_id_to_settings := (ee_policy_id_to_settings e)(i \<mapsto> s),
                ee_policy_id_to_ctx_aware_allowed_resources :=
                  (ee_policy_id_to_ctx_aware_allowed_resources e)
                    (i \<mapsto> ec_ctx_aware_resources_allow_list ctx),
                ee_policy_id_to_host_capabilities :=
                  (ee_policy_id_to_host_capabilities e)(i \<mapsto> ec_host_capabilities ctx) \<rparr>"
    using assms
    by (auto simp: bootstrap_policy_def env_register_def result_simps split: sum.splits)
  have "step_ok lib b {i} env e" using ensure_step [OF pp(1,2)] by blast
  then show ?thesis
    by (auto simp: pp(3) step_ok_def same_slot_def env_inv_def built_by_def pres_ok_def)
qed simp

lemma keep_or_abort_step:
  assumes "keep_or_abort b i (bootstrap_policy lib b env i url s ctx) = Ok env'"
  shows "step_ok lib b {i} env env'"
proof -
  obtain r e where re: "bootstrap_policy lib b env i url s ctx = (r, e)" by fastforce
  have "step_ok lib b {i} env e" by (rule bootstrap_policy_step [OF re])
  with assms re show ?thesis
    by (auto simp: keep_or_abort_def step_ok_def same_slot_def env_inv_def built_by_def pres_ok_def
        split: sum.splits if_splits)
qed

lemma validate_settings_after_register:
  assumes "es_settings s = Set_Policy settings" and "env_inv lib b env"
    and "ctx = builder_context b i resources (es_timeout_eval_seconds s) h"
    and "i \<notin> ee_policy_groups env" "ee_policy_id_to_module_digest env i = Some d"
    "ee_module_digest_to_policy_evaluator_pre env d = Some pre"
    "ee_policy_id_to_settings env i = Some s"
    "ee_policy_id_to_ctx_aware_allowed_resources env i = Some resources"
    "ee_policy_id_to_host_capabilities env i = Some h"
  shows "env_rehydrate env i = Ok (pre, ctx)"
    and "env_validate_settings lib env i = check_settings lib pre ctx settings"
proof -
  show r: "env_rehydrate env i = Ok (pre, ctx)"
    using assms by (simp add: env_rehydrate_def get_policy_settings_def builder_context_def
        env_inv_def built_by_def)
  show "env_validate_settings lib env i = check_settings lib pre ctx settings"
    using assms by (simp add: env_validate_settings_def r check_settings_def get_policy_settings_def)
qed

lemma bootstrap_policy_found:
  assumes inv: "env_inv lib b env" and ident: "digests_identify b"
    and free: "i \<notin> ee_policy_groups env"
    and s: "es_settings s = Set_Policy settings"
    and ctx: "ctx = builder_context b i resources (es_timeout_eval_seconds s) h"
    and pre: "configured_pre lib b i url = Ok pre"
  obtains env' d where
    "bootstrap_policy lib b env i url s ctx = (check_settings lib pre ctx settings, env')"
    "ee_policy_id_to_module_digest env' i = Some d"
    "ee_module_digest_to_policy_evaluator_pre env' d = Some pre"
    "ee_policy_id_to_settings env' i = Some s"
    "ee_policy_id_to_ctx_aware_allowed_resources env' i = Some resources"
    "ee_policy_id_to_host_capabilities env' i = Some h"
    "ee_policy_groups env' = ee_policy_groups env"
    "ee_policy_initialization_errors env' = ee_policy_initialization_errors env"
proof -
  obtain pp where pp: "eb_precompiled_policies b url = Some (Ok pp)" "make_pre lib b i pp = Ok pre"
    using pre by (auto simp: configured_pre_def result_simps)
  obtain pres where pres:
    "ensure_evaluator_pre lib env i pp = Ok (env \<lparr> ee_module_digest_to_policy_evaluator_pre := pres \<rparr>)"
    "pres (pp_digest pp) = Some pre"
    "env_inv lib b (env \<lparr> ee_module_digest_to_policy_evaluator_pre := pres \<rparr>)"
    using ensure_evaluator_pre_shared [OF inv ident pp] by blast
  define env' where "env' = env \<lparr> ee_module_digest_to_policy_evaluator_pre := pres,
      ee_policy_id_to_module_digest := (ee_policy_id_to_module_digest env)(i \<mapsto> pp_digest pp),
      ee_policy_id_to_settings := (ee_policy_id_to_settings env)(i \<mapsto> s),
      ee_policy_id_to_ctx_aware_allowed_resources :=
        (ee_policy_id_to_ctx_aware_allowed_resources env)(i \<mapsto> resources),
      ee_policy_id_to_host_capabilities := (ee_policy_id_to_host_capabilities env)(i \<mapsto> h) \<rparr>"
  have reg: "env_register lib env i s ctx pp = Ok env'"
    by (simp add: env_register_def pres(1) env'_def ctx builder_context_def)
  have "env_inv lib b env'"
    using pres(3) by (simp add: env_inv_def built_by_def pres_ok_def env'_def)
  then have "env_validate_settings lib env' i = check_settings lib pre ctx settings"
    by (rule validate_settings_after_register(2) [OF s _ ctx, where d = "pp_digest pp"]) (simp_all add: env'_def free pres(2))
  then have "bootstrap_policy lib b env i url s ctx = (check_settings lib pre ctx settings, env')"
    by (simp add: bootstrap_policy_def pp(1) reg)
  then show ?thesis by (rule that [of env' "pp_digest pp"]) (simp_all add: env'_def pres(2))
qed

lemma bootstrap_policy_missing:
  assumes inv: "env_inv lib b env" and ident: "digests_identify b"
    and "configured_pre lib b i url = Err e"
  shows "bootstrap_policy lib b env i url s ctx = (Err e, env)"
proof (cases "eb_precompiled_policies b url")
  case None
  with assms(3) show ?thesis by (simp add: configured_pre_def bootstrap_policy_def)
next
  case (Some r)
  show ?thesis
  proof (cases r)
    case (Inl x)
    with Some assms(3) show ?thesis by (simp add: configured_pre_def bootstrap_policy_def)
  next
    case (Inr pp)
    with Some assms(3) obtain x where x: "make_pre lib b i pp = Err x"
      "e = BootstrapFailure (EvaluationError_to_string x)"
      by (auto simp: configured_pre_def result_simps)
    have "ensure_evaluator_pre lib env i pp = Err x"
      using ensure_evaluator_pre_fails [OF inv ident _ x(1)] Some Inr by simp
    with Some Inr x(2) show ?thesis by (simp add: bootstrap_policy_def env_register_def)
  qed
qed

lemma bootstrap_serves:
  assumes inv: "env_inv lib b env" and ident: "digests_identify b" and fresh: "fresh i env"
    and s: "es_settings s = Set_Policy settings"
    and ctx: "ctx = builder_context b i resources (es_timeout_eval_seconds s) h"
    and run: "keep_or_abort b i (bootstrap_policy lib b env i url s ctx) = Ok env'"
  shows "served lib b i url s ctx settings env'"
proof (cases "configured_pre lib b i url")
  case (Inl e)
  from bootstrap_policy_missing [OF inv ident this] run Inl fresh show ?thesis
    by (auto simp: keep_or_abort_def served_def fresh_def split: if_splits)
next
  case (Inr pre)
  have free: "i \<notin> ee_policy_groups env" using fresh by (simp add: fresh_def)
  from bootstrap_policy_found [OF inv ident free s ctx Inr] obtain e d where e:
    "bootstrap_policy lib b env i url s ctx = (check_settings lib pre ctx settings, e)"
    "ee_policy_id_to_module_digest e i = Some d"
    "ee_module_digest_to_policy_evaluator_pre e d = Some pre"
    "ee_policy_id_to_settings e i = Some s"
    "ee_policy_id_to_ctx_aware_allowed_resources e i = Some resources"
    "ee_policy_id_to_host_capabilities e i = Some h"
    "ee_policy_groups e = ee_policy_groups env"
    "ee_policy_initialization_errors e = ee_policy_initialization_errors env" .
  have c: "ec_ctx_aware_resources_allow_list ctx = resources" "ec_host_capabilities ctx = h"
    by (simp_all add: ctx builder_context_def)
  show ?thesis
  proof (cases "check_settings lib pre ctx settings")
    case (Inl x)
    have "env' = e \<lparr> ee_policy_initialization_errors :=
        (ee_policy_initialization_errors e)(i \<mapsto> EvaluationError_to_string x) \<rparr>"
      using run by (simp add: keep_or_abort_def e(1) Inl split: if_splits)
    with e(2-) fresh show ?thesis by (simp add: served_def fresh_def Inr Inl c)
  next
    case (Inr u)
    have "env' = e" using run by (simp add: keep_or_abort_def e(1) Inr)
    with e(2-) fresh \<open>configured_pre lib b i url = Ok pre\<close> show ?thesis
      by (simp add: served_def fresh_def Inr c)
  qed
qed

section \<open>Entries of the configuration\<close>

text \<open>The policies an entry of the configuration brings.\<close>

fun owned :: "string \<times> PolicyOrPolicyGroup \<Rightarrow> PolicyID set" where
  "owned (name, Individual p) = {Policy name}"
| "owned (name, Grouped g) = {Policy name} \<union> PolicyGroupPolicy name ` fst ` set (gc_policies g)"

lemma from_str_slash_free:
  "PolicyID_from_str name = Ok i \<Longrightarrow> CHR ''/'' \<notin> set name \<Longrightarrow> i = Policy name"
  by (auto simp: PolicyID_from_str_def Let_def split_on_no_sep split: if_splits)

lemma owned_disjoint:
  assumes "n \<noteq> m"
  shows "owned (n, p) \<inter> owned (m, q) = {}"
  using assms by (cases p; cases q) auto

lemma bootstrap_member_step:
  assumes "bootstrap_member lib b (Policy name) env (n, m) = Ok env'"
  shows "step_ok lib b {PolicyGroupPolicy name n} env env'"
  using assms
  by (auto simp: bootstrap_member_def PolicyGroupMember_settings_def Let_def try_then_Ok_iff
      dest: keep_or_abort_step)

lemma register_group_step:
  "step_ok lib b {i} env (register_policy_group env i s)"
  by (auto simp: register_policy_group_def step_ok_def same_slot_def env_inv_def built_by_def pres_ok_def)

lemma bootstrap_entry_step:
  assumes "bootstrap_entry lib b env (name, p) = Ok env'" and "CHR ''/'' \<notin> set name"
  shows "step_ok lib b (owned (name, p)) env env'"
proof (cases p)
  case (Individual c)
  with assms show ?thesis
    by (auto simp: bootstrap_entry_def bootstrap_individual_def try_then_Ok_iff
        dest!: from_str_slash_free dest: keep_or_abort_step)
next
  case (Grouped g)
  let ?s = "group_settings g (Set_PolicyGroup (gc_expression g) (gc_message g) (map fst (gc_policies g)))"
  from assms Grouped have run: "try_fold (bootstrap_member lib b (Policy name))
      (register_policy_group env (Policy name) ?s) (gc_policies g) = Ok env'"
    by (auto simp: bootstrap_entry_def try_then_Ok_iff dest!: from_str_slash_free)
  have "step_ok lib b (\<Union>x\<in>set (gc_policies g). {PolicyGroupPolicy name (fst x)})
      (register_policy_group env (Policy name) ?s) env'"
    by (rule step_ok_fold [OF _ run]) (metis bootstrap_member_step prod.collapse)
  with register_group_step [of lib b "Policy name" env ?s]
  have "step_ok lib b ({Policy name} \<union> (\<Union>x\<in>set (gc_policies g). {PolicyGroupPolicy name (fst x)})) env env'"
    by (rule step_ok_trans)
  then show ?thesis by (rule step_ok_mono) (auto simp: Grouped)
qed

lemma env_inv_empty [simp]: "env_inv lib b (empty_environment b)"
  by (simp add: env_inv_def built_by_def pres_ok_def empty_environment_def)

lemma fresh_empty [simp]: "fresh i (empty_environment b)"
  by (simp add: fresh_def empty_environment_def)

lemma build_step:
  assumes "try_fold (bootstrap_entry lib b) env ps = Ok env'" and "slash_free ps"
  shows "step_ok lib b (\<Union>x\<in>set ps. owned x) env env'"
proof (rule step_ok_fold [OF _ assms(1)])
  fix e x e' assume x: "x \<in> set ps" "bootstrap_entry lib b e x = Ok e'"
  obtain n p where np: "x = (n, p)" by (cases x)
  with x assms(2) have "CHR ''/'' \<notin> set n" by (auto simp: slash_free_def)
  with x(2) np show "step_ok lib b (owned x) e e'" by (simp add: bootstrap_entry_step)
qed

text \<open>
  The bootstrap seen from one entry: it starts where nothing is known of its policies, and
  what comes after it does not touch them.
\<close>

lemma build_around:
  assumes run: "build_evaluation_environment lib b policies = Ok env"
    and sf: "slash_free policies" and dist: "distinct (map fst policies)"
    and mem: "(name, p) \<in> set policies"
  obtains e1 e2 A where "env_inv lib b e1" "\<forall>i\<in>owned (name, p). fresh i e1"
    "bootstrap_entry lib b e1 (name, p) = Ok e2" "step_ok lib b A e2 env"
    "owned (name, p) \<inter> A = {}" "env_inv lib b env"
proof -
  obtain xs ys where split: "policies = xs @ (name, p) # ys" using mem by (meson split_list)
  then obtain e1 e2 where
    e1: "try_fold (bootstrap_entry lib b) (empty_environment b) xs = Ok e1" and
    e2: "bootstrap_entry lib b e1 (name, p) = Ok e2" and
    e3: "try_fold (bootstrap_entry lib b) e2 ys = Ok env"
    using run by (auto simp: build_evaluation_environment_def try_fold_append try_then_Ok_iff)
  have sfs: "slash_free xs" "slash_free ys" "CHR ''/'' \<notin> set name"
    using sf split by (auto simp: slash_free_def)
  have others: "owned (name, p) \<inter> owned x = {}" if "x \<in> set xs \<union> set ys" for x
    using that dist split owned_disjoint [of name "fst x" p "snd x"] by force
  have s1: "step_ok lib b (\<Union>x\<in>set xs. owned x) (empty_environment b) e1"
    and s3: "step_ok lib b (\<Union>x\<in>set ys. owned x) e2 env"
    using build_step e1 e3 sfs by blast+
  have inv1: "env_inv lib b e1" using s1 by (simp add: step_ok_def)
  have "env_inv lib b e2"
    using bootstrap_entry_step [OF e2 sfs(3)] inv1 by (simp add: step_ok_def)
  then have inv: "env_inv lib b env" using s3 by (simp add: step_ok_def)
  have "\<forall>i\<in>owned (name, p). fresh i e1"
    using fresh_frame [OF fresh_empty s1] others by blast
  moreover have "owned (name, p) \<inter> (\<Union>x\<in>set ys. owned x) = {}" using others by blast
  ultimately show ?thesis using that inv1 e2 s3 inv by blast
qed

lemma builder_host_capabilities_granted:
  "builder_host_capabilities lib i patterns = Ok h \<Longrightarrow> h = granted patterns"
  by (auto simp: builder_host_capabilities_def granted_def map_err_Ok_iff)

lemma validate_served:
  assumes "served lib b i url s ctx settings env" and "env_inv lib b env"
    and "es_settings s = Set_Policy settings"
    and "ctx = builder_context b i resources (es_timeout_eval_seconds s) h"
  shows "env_validate lib env i req =
     (case try_then (configured_pre lib b i url) (\<lambda>pre.
             try_then (check_settings lib pre ctx settings) (\<lambda>_. Ok pre)) of
        Inl e \<Rightarrow> Err (PolicyInitialization (EvaluationError_to_string e))
      | Inr pre \<Rightarrow> map_err rehydration_error (rt_validate (ps_runtime lib) pre ctx req settings))"
proof (cases "configured_pre lib b i url")
  case (Inl e)
  with assms(1) show ?thesis by (simp add: served_def env_validate_def env_validate_policy_def)
next
  case (Inr pre)
  with assms(1) obtain d where d: "i \<notin> ee_policy_groups env"
    "ee_policy_id_to_module_digest env i = Some d"
    "ee_module_digest_to_policy_evaluator_pre env d = Some pre"
    "ee_policy_id_to_settings env i = Some s"
    "ee_policy_id_to_ctx_aware_allowed_resources env i = Some resources"
    "ee_policy_id_to_host_capabilities env i = Some h"
    "ee_policy_initialization_errors env i =
       (case check_settings lib pre ctx settings of
          Inl e \<Rightarrow> Some (EvaluationError_to_string e) | Inr _ \<Rightarrow> None)"
    by (auto simp: served_def assms(4) builder_context_def)
  have "env_rehydrate env i = Ok (pre, ctx)"
    by (rule validate_settings_after_register(1) [OF assms(3,2,4) d(1-6)])
  with d Inr assms(3) show ?thesis
    by (cases "check_settings lib pre ctx settings")
       (simp_all add: env_validate_def env_validate_policy_def get_policy_settings_def)
qed

lemma member_bootstrap_serves:
  assumes "bootstrap_member lib b (Policy name) env (n, m) = Ok env'"
    and "env_inv lib b env" "digests_identify b" "fresh (PolicyGroupPolicy name n) env"
  shows "served lib b (PolicyGroupPolicy name n) (gmc_module m)
     (member_evaluation_settings m (Set_Policy (settings_or_default (gmc_settings m))))
     (builder_context b (PolicyGroupPolicy name n) (gmc_context_aware_resources m)
        (gmc_timeout_eval_seconds m) (granted (gmc_host_capabilities m)))
     (settings_or_default (gmc_settings m)) env'"
proof -
  let ?i = "PolicyGroupPolicy name n"
  let ?s = "member_evaluation_settings m (Set_Policy (settings_or_default (gmc_settings m)))"
  let ?ctx = "builder_context b ?i (gmc_context_aware_resources m) (gmc_timeout_eval_seconds m)
                (granted (gmc_host_capabilities m))"
  have run: "keep_or_abort b ?i (bootstrap_policy lib b env ?i (gmc_module m) ?s ?ctx) = Ok env'"
    using assms(1)
    by (auto simp: bootstrap_member_def PolicyGroupMember_settings_def Let_def try_then_Ok_iff
        dest: builder_host_capabilities_granted)
  show ?thesis
    by (rule bootstrap_serves [OF assms(2,3,4) _ _ run]) (simp_all add: member_evaluation_settings_def)
qed

lemma members_served:
  assumes "try_fold (bootstrap_member lib b (Policy name)) env ms = Ok env'"
    and "env_inv lib b env" "digests_identify b" "distinct (map fst ms)"
    and "\<forall>n\<in>fst ` set ms. fresh (PolicyGroupPolicy name n) env"
    and "(n, m) \<in> set ms"
  shows "served lib b (PolicyGroupPolicy name n) (gmc_module m)
     (member_evaluation_settings m (Set_Policy (settings_or_default (gmc_settings m))))
     (builder_context b (PolicyGroupPolicy name n) (gmc_context_aware_resources m)
        (gmc_timeout_eval_seconds m) (granted (gmc_host_capabilities m)))
     (settings_or_default (gmc_settings m)) env'"
  using assms
proof (induction ms arbitrary: env)
  case (Cons x xs)
  obtain k c where x: "x = (k, c)" by (cases x)
  from Cons.prems(1) x obtain e where e: "bootstrap_member lib b (Policy name) env (k, c) = Ok e"
    "try_fold (bootstrap_member lib b (Policy name)) e xs = Ok env'"
    by (auto simp: try_then_Ok_iff)
  have step: "step_ok lib b {PolicyGroupPolicy name k} env e" by (rule bootstrap_member_step [OF e(1)])
  have inv: "env_inv lib b e" using step Cons.prems(2) by (simp add: step_ok_def)
  have rest: "step_ok lib b (\<Union>y\<in>set xs. {PolicyGroupPolicy name (fst y)}) e env'"
    by (rule step_ok_fold [OF _ e(2)]) (metis bootstrap_member_step prod.collapse)
  have "PolicyGroupPolicy name k \<notin> (\<Union>y\<in>set xs. {PolicyGroupPolicy name (fst y)})"
    using Cons.prems(4) x by force
  note frame = served_frame [OF _ rest this]
  show ?case
  proof (cases "(n, m) = x")
    case True
    have "fresh (PolicyGroupPolicy name k) env" using Cons.prems(5) x by simp
    from frame [OF member_bootstrap_serves [OF e(1) Cons.prems(2,3) this]] True x show ?thesis
      by simp
  next
    case False
    have fr: "\<forall>j\<in>fst ` set xs. fresh (PolicyGroupPolicy name j) e"
    proof
      fix j assume j: "j \<in> fst ` set xs"
      then have "j \<noteq> k" using Cons.prems(4) x by auto
      moreover have "fresh (PolicyGroupPolicy name j) env" using j Cons.prems(5) by auto
      ultimately show "fresh (PolicyGroupPolicy name j) e" using fresh_frame [OF _ step] by simp
    qed
    have "distinct (map fst xs)" "(n, m) \<in> set xs" using Cons.prems(4,6) False by auto
    from Cons.IH [OF e(2) inv Cons.prems(3) this(1) fr this(2)] show ?thesis .
  qed
qed simp

lemma add_served_member:
  assumes "env_inv lib b env"
    and "served lib b (PolicyGroupPolicy name n) (gmc_module m)
     (member_evaluation_settings m (Set_Policy (settings_or_default (gmc_settings m))))
     (builder_context b (PolicyGroupPolicy name n) (gmc_context_aware_resources m)
        (gmc_timeout_eval_seconds m) (granted (gmc_host_capabilities m)))
     (settings_or_default (gmc_settings m)) env"
  shows "add_group_member env (Policy name) ev n = configured_member lib b name ev (n, m)"
proof (cases "configured_pre lib b (PolicyGroupPolicy name n) (gmc_module m)")
  case (Inl e)
  with assms(2) show ?thesis by (simp add: served_def add_group_member_def configured_member_def)
next
  case (Inr pre)
  with assms show ?thesis
    by (auto simp: served_def add_group_member_def configured_member_def get_policy_settings_def
        builder_context_def member_evaluation_settings_def env_inv_def built_by_def)
qed


lemma individual_served:
  assumes "build_evaluation_environment lib b policies = Ok env" "slash_free policies"
    "distinct (map fst policies)" "digests_identify b" "(name, Individual p) \<in> set policies"
  shows "env_inv lib b env"
    and "served lib b (Policy name) (pc_module p)
      (individual_settings p (Set_Policy (settings_or_default (pc_settings p))))
      (builder_context b (Policy name) (pc_context_aware_resources p) (pc_timeout_eval_seconds p)
         (granted (pc_host_capabilities p))) (settings_or_default (pc_settings p)) env"
proof -
  let ?i = "Policy name"
  let ?s = "individual_settings p (Set_Policy (settings_or_default (pc_settings p)))"
  let ?ctx = "builder_context b ?i (pc_context_aware_resources p) (pc_timeout_eval_seconds p)
                (granted (pc_host_capabilities p))"
  obtain e1 e2 A where e: "env_inv lib b e1" "\<forall>i\<in>owned (name, Individual p). fresh i e1"
    "bootstrap_entry lib b e1 (name, Individual p) = Ok e2" "step_ok lib b A e2 env"
    "owned (name, Individual p) \<inter> A = {}" "env_inv lib b env"
    using build_around [OF assms(1-3,5)] by blast
  then show "env_inv lib b env" by simp
  have "CHR ''/'' \<notin> set name" using assms(2,5) by (auto simp: slash_free_def)
  with e(3) have run: "keep_or_abort b ?i (bootstrap_policy lib b e1 ?i (pc_module p) ?s ?ctx) = Ok e2"
    by (auto simp: bootstrap_entry_def bootstrap_individual_def try_then_Ok_iff
        dest!: from_str_slash_free dest: builder_host_capabilities_granted)
  have "served lib b ?i (pc_module p) ?s ?ctx (settings_or_default (pc_settings p)) e2"
    by (rule bootstrap_serves [OF e(1) assms(4) _ _ _ run]) (simp_all add: e(2) individual_settings_def)
  then show "served lib b ?i (pc_module p) ?s ?ctx (settings_or_default (pc_settings p)) env"
    by (rule served_frame [OF _ e(4)]) (use e(5) in auto)
qed

lemma group_registered:
  assumes "build_evaluation_environment lib b policies = Ok env" "slash_free policies"
    "distinct (map fst policies)" "digests_identify b" "(name, Grouped g) \<in> set policies"
    "distinct (map fst (gc_policies g))"
  shows "env_inv lib b env" and "Policy name \<in> ee_policy_groups env"
    and "ee_policy_id_to_settings env (Policy name) =
      Some (group_settings g (Set_PolicyGroup (gc_expression g) (gc_message g) (map fst (gc_policies g))))"
    and "(n, m) \<in> set (gc_policies g) \<Longrightarrow>
      served lib b (PolicyGroupPolicy name n) (gmc_module m)
       (member_evaluation_settings m (Set_Policy (settings_or_default (gmc_settings m))))
       (builder_context b (PolicyGroupPolicy name n) (gmc_context_aware_resources m)
          (gmc_timeout_eval_seconds m) (granted (gmc_host_capabilities m)))
       (settings_or_default (gmc_settings m)) env"
proof -
  let ?s = "group_settings g (Set_PolicyGroup (gc_expression g) (gc_message g) (map fst (gc_policies g)))"
  let ?M = "\<Union>x\<in>set (gc_policies g). {PolicyGroupPolicy name (fst x)}"
  obtain e1 e2 A where e: "env_inv lib b e1" "\<forall>i\<in>owned (name, Grouped g). fresh i e1"
    "bootstrap_entry lib b e1 (name, Grouped g) = Ok e2" "step_ok lib b A e2 env"
    "owned (name, Grouped g) \<inter> A = {}" "env_inv lib b env"
    using build_around [OF assms(1-3,5)] by blast
  then show inv: "env_inv lib b env" by simp
  define r where "r = register_policy_group e1 (Policy name) ?s"
  have "CHR ''/'' \<notin> set name" using assms(2,5) by (auto simp: slash_free_def)
  with e(3) have run: "try_fold (bootstrap_member lib b (Policy name)) r (gc_policies g) = Ok e2"
    by (auto simp: bootstrap_entry_def r_def try_then_Ok_iff dest!: from_str_slash_free)
  have step: "step_ok lib b {Policy name} e1 r" by (simp add: r_def register_group_step)
  have invr: "env_inv lib b r" using step e(1) by (simp add: step_ok_def)
  have "step_ok lib b ?M r e2"
    by (rule step_ok_fold [OF _ run]) (metis bootstrap_member_step prod.collapse)
  then have "same_slot (Policy name) r e2" by (auto simp: step_ok_def)
  moreover have "same_slot (Policy name) e2 env" using e(4,5) by (auto simp: step_ok_def)
  ultimately show "Policy name \<in> ee_policy_groups env"
    "ee_policy_id_to_settings env (Policy name) = Some ?s"
    by (simp_all add: same_slot_def r_def register_policy_group_def)
  have fresh: "\<forall>n\<in>fst ` set (gc_policies g). fresh (PolicyGroupPolicy name n) r"
    using e(2) by (auto simp: r_def register_policy_group_def fresh_def)
  assume nm: "(n, m) \<in> set (gc_policies g)"
  have "PolicyGroupPolicy name n \<notin> A" using e(5) nm by force
  from served_frame [OF members_served [OF run invr assms(4,6) fresh nm] e(4) this]
  show "served lib b (PolicyGroupPolicy name n) (gmc_module m)
       (member_evaluation_settings m (Set_Policy (settings_or_default (gmc_settings m))))
       (builder_context b (PolicyGroupPolicy name n) (gmc_context_aware_resources m)
          (gmc_timeout_eval_seconds m) (granted (gmc_host_capabilities m)))
       (settings_or_default (gmc_settings m)) env" .
qed


lemma unknown_not_found:
  assumes "build_evaluation_environment lib b policies = Ok env" "slash_free policies"
    "i \<notin> (\<Union>x\<in>set policies. owned x)"
  shows "env_validate lib env i req = Err (PolicyNotFound (PolicyID_to_string i))"
proof -
  have "step_ok lib b (\<Union>x\<in>set policies. owned x) (empty_environment b) env"
    using build_step assms(1,2) by (simp add: build_evaluation_environment_def)
  with assms(3) have "same_slot i (empty_environment b) env" by (simp add: step_ok_def)
  then show ?thesis
    by (simp add: same_slot_def empty_environment_def env_validate_def env_validate_policy_def
        get_policy_settings_def)
qed

lemma group_evaluator_built:
  assumes "build_evaluation_environment lib b policies = Ok env" "slash_free policies"
    "distinct (map fst policies)" "digests_identify b" "(name, Grouped g) \<in> set policies"
    "distinct (map fst (gc_policies g))"
  shows "env_validate lib env (Policy name) req = serve_group lib b name g req"
proof -
  note reg = group_registered [OF assms]
  have "try_fold (add_group_member env (Policy name)) ev (map fst (gc_policies g)) =
      try_fold (configured_member lib b name) ev (gc_policies g)" for ev
    unfolding try_fold_map
  proof (rule try_fold_cong)
    fix ev x assume "x \<in> set (gc_policies g)"
    then have "(fst x, snd x) \<in> set (gc_policies g)" by simp
    from add_served_member [OF reg(1) reg(4) [OF this]]
    show "add_group_member env (Policy name) ev (fst x) = configured_member lib b name ev x" by simp
  qed
  then show ?thesis
    using reg(1-3)
    by (simp add: env_validate_def env_validate_policy_group_def build_policy_group_evaluator_def
        get_policy_settings_def group_settings_def serve_group_def env_inv_def built_by_def)
qed

lemma owned_Policy: "Policy n \<in> owned x \<longleftrightarrow> fst x = n"
  by (cases x rule: owned.cases) auto

lemma owned_member:
  "PolicyGroupPolicy gname n \<in> owned x \<longleftrightarrow>
     (\<exists>g. x = (gname, Grouped g) \<and> n \<in> fst ` set (gc_policies g))"
  by (cases x rule: owned.cases) auto

lemma serves_policy:
  assumes "build_evaluation_environment lib b policies = Ok env"
    "slash_free policies" "distinct (map fst policies)" "digests_identify b"
    "\<forall>(name, p)\<in>set policies. case p of Grouped g \<Rightarrow> distinct (map fst (gc_policies g)) | _ \<Rightarrow> True"
  shows "env_validate lib env (Policy name) req = serve lib b policies (Policy name) req"
proof (cases "map_of policies name")
  case None
  then have "Policy name \<notin> (\<Union>x\<in>set policies. owned x)"
    by (auto simp: owned_Policy map_of_eq_None_iff)
  from unknown_not_found [OF assms(1,2) this] None show ?thesis by simp
next
  case (Some p)
  then have mem: "(name, p) \<in> set policies" by (rule map_of_SomeD)
  show ?thesis
  proof (cases p)
    case (Individual c)
    note s = individual_served [OF assms(1-4) mem [unfolded Individual]]
    show ?thesis
      using validate_served [OF s(2,1)] Some Individual
      by (simp add: individual_settings_def serve_individual_def serve_one_def Let_def)
  next
    case (Grouped g)
    with assms(5) mem have "distinct (map fst (gc_policies g))" by auto
    from group_evaluator_built [OF assms(1-4) mem [unfolded Grouped] this] Some Grouped
    show ?thesis by simp
  qed
qed

lemma unconfigured_member:
  assumes "distinct (map fst policies)"
    and "\<not> (\<exists>g m. map_of policies gname = Some (Grouped g) \<and> map_of (gc_policies g) n = Some m)"
  shows "PolicyGroupPolicy gname n \<notin> (\<Union>x\<in>set policies. owned x)"
proof
  assume "PolicyGroupPolicy gname n \<in> (\<Union>x\<in>set policies. owned x)"
  then obtain g where g: "(gname, Grouped g) \<in> set policies" "n \<in> fst ` set (gc_policies g)"
    by (auto simp: owned_member)
  then have "map_of policies gname = Some (Grouped g)" using assms(1) by simp
  moreover have "\<exists>m. map_of (gc_policies g) n = Some m" using g(2) by (auto intro: weak_map_of_SomeI)
  ultimately show False using assms(2) by blast
qed

lemma serves_member:
  assumes "build_evaluation_environment lib b policies = Ok env"
    "slash_free policies" "distinct (map fst policies)" "digests_identify b"
    "\<forall>(name, p)\<in>set policies. case p of Grouped g \<Rightarrow> distinct (map fst (gc_policies g)) | _ \<Rightarrow> True"
  shows "env_validate lib env (PolicyGroupPolicy gname n) req =
     serve lib b policies (PolicyGroupPolicy gname n) req"
proof (cases "\<exists>g m. map_of policies gname = Some (Grouped g) \<and> map_of (gc_policies g) n = Some m")
  case True
  then obtain g m where g: "map_of policies gname = Some (Grouped g)" "map_of (gc_policies g) n = Some m"
    by blast
  then have mem: "(gname, Grouped g) \<in> set policies" "(n, m) \<in> set (gc_policies g)"
    by (auto dest: map_of_SomeD)
  with assms(5) have "distinct (map fst (gc_policies g))" by auto
  note reg = group_registered [OF assms(1-4) mem(1) this]
  show ?thesis
    using validate_served [OF reg(4) [OF mem(2)] reg(1)] g
    by (simp add: member_evaluation_settings_def serve_member_def serve_one_def Let_def)
next
  case False
  from unknown_not_found [OF assms(1,2) unconfigured_member [OF assms(3) False]] False show ?thesis
    by (auto split: option.splits PolicyOrPolicyGroup.splits)
qed

section \<open>A small server\<close>

text \<open>
  Libraries, modules and a configuration to evaluate the definitions on: WASI modules run,
  settings are valid or not as asked.
\<close>

definition small_stack :: "(unit, unit) stack_library" where
  "small_stack = \<lparr> sl_engine_new = (\<lambda>_ _. Ok ()), sl_module_from_file = (\<lambda>_ _. Ok ()),
     sl_module_new = (\<lambda>_ _. Ok ()), sl_wapc_new = (\<lambda>_ _ _. Err ''wapc''),
     sl_wasi_new = (\<lambda>_ _ _. Ok (\<lambda>_ _ _. Err ''run'')), sl_rego_new = (\<lambda>_ _ _ _ _. Err ''rego''),
     sl_ferricel_new = (\<lambda>_ _ _ _. Err ''ferricel''), sl_read = (\<lambda>_. Err ''io''),
     sl_check_abi_version = (\<lambda>_. Ok ()), sl_vap_variables_used = (\<lambda>_. Ok {}) \<rparr>"

definition small_library :: "bool \<Rightarrow> (unit, unit) server_library" where
  "small_library valid = \<lparr> ps_stack = small_stack, ps_engine = (), ps_deserialize = (\<lambda>_ _. Ok ()),
     ps_runtime = \<lparr> rt_validate = (\<lambda>_ _ _ _. Ok AdmissionResponse_default),
       rt_validate_settings = (\<lambda>_ _ _. Ok \<lparr> sv_valid = valid, sv_message = None \<rparr>) \<rparr>,
     ps_rhai = \<lparr> re_eval = (\<lambda>_ _. RDone True), re_error_system = (\<lambda>s _. s) \<rparr>,
     ps_debug = (\<lambda>s. s) \<rparr>"

definition small_module :: "PolicyExecutionMode \<Rightarrow> PrecompiledPolicy" where
  "small_module mode = \<lparr> pp_precompiled_module = ''m'', pp_execution_mode = mode, pp_digest = ''d'' \<rparr>"

definition small_builder :: "bool \<Rightarrow> EvaluationEnvironmentBuilder" where
  "small_builder continue = (EvaluationEnvironmentBuilder_new [''url'' \<mapsto> Ok (small_module Wasi)]
     (\<lambda>_. NoAnswer)) \<lparr> eb_continue_on_errors := continue \<rparr>"

definition small_policy :: PolicyConfig where
  "small_policy = \<lparr> pc_module = ''url'', pc_policy_mode = Protect,
     pc_allowed_to_mutate = None, pc_settings = None, pc_context_aware_resources = {},
     pc_message = None, pc_timeout_eval_seconds = None, pc_host_capabilities = [] \<rparr>"

definition small_member :: PolicyGroupMember where
  "small_member = \<lparr> gmc_module = ''url'', gmc_settings = None, gmc_context_aware_resources = {},
     gmc_timeout_eval_seconds = None, gmc_host_capabilities = [] \<rparr>"

definition small_group :: PolicyGroupConfig where
  "small_group = \<lparr> gc_policy_mode = Protect, gc_policies = [(''m'', small_member)],
     gc_expression = ''m()'', gc_message = ''denied'' \<rparr>"

lemmas small_simps =
  small_stack_def small_library_def small_module_def small_builder_def small_policy_def
  small_member_def small_group_def build_evaluation_environment_def bootstrap_entry_def
  PolicyID_from_str_def bootstrap_individual_def bootstrap_member_def PolicyGroupMember_settings_def
  register_policy_group_def builder_host_capabilities_def HostCapabilities_new_def
  keep_or_abort_def bootstrap_policy_def env_register_def ensure_evaluator_pre_def
  create_wasmtime_module_def create_policy_evaluator_pre_def build_pre_def validate_user_input_def
  build_engine_def build_module_def PolicyEvaluatorBuilder_new_def env_validate_settings_def
  get_policy_settings_def env_rehydrate_def individual_settings_def member_evaluation_settings_def
  group_settings_def builder_context_def empty_environment_def EvaluationEnvironmentBuilder_new_def
  Let_def

lemma small_identifies: "digests_identify (small_builder continue)"
  by (auto simp: digests_identify_def small_builder_def EvaluationEnvironmentBuilder_new_def
      split: if_splits)

lemma small_slash_free:
  "slash_free [(''p'', Individual small_policy)]" "slash_free [(''g'', Grouped small_group)]"
  by (simp_all add: slash_free_def small_group_def)

section \<open>Properties\<close>



section \<open>Bootstrapping without continuing on errors\<close>

lemma env_register_errors:
  "env_register lib env i s ctx pp = Ok env' \<Longrightarrow>
     ee_policy_initialization_errors env' = ee_policy_initialization_errors env"
  by (auto simp: env_register_def ensure_evaluator_pre_def Let_def result_simps split: if_splits)

lemma bootstrap_policy_errors:
  "bootstrap_policy lib b env i url s ctx = (r, env') \<Longrightarrow>
     ee_policy_initialization_errors env' = ee_policy_initialization_errors env"
  by (auto simp: bootstrap_policy_def map_err_Ok_iff split: sum.splits dest: env_register_errors)

lemma keep_or_abort_strict:
  assumes "keep_or_abort b i (bootstrap_policy lib b env i url s ctx) = Ok env'"
    and "\<not> eb_continue_on_errors b"
  shows "ee_policy_initialization_errors env' = ee_policy_initialization_errors env"
proof -
  obtain r e where re: "bootstrap_policy lib b env i url s ctx = (r, e)" by fastforce
  with assms bootstrap_policy_errors [OF re] show ?thesis
    by (auto simp: keep_or_abort_def split: sum.splits)
qed

lemma bootstrap_member_strict:
  assumes "bootstrap_member lib b i env x = Ok env'" and "\<not> eb_continue_on_errors b"
  shows "ee_policy_initialization_errors env' = ee_policy_initialization_errors env"
  using assms
  by (auto simp: bootstrap_member_def PolicyGroupMember_settings_def Let_def try_then_Ok_iff
      split: prod.splits dest: keep_or_abort_strict)

lemma bootstrap_entry_strict:
  assumes "bootstrap_entry lib b env x = Ok env'" and "\<not> eb_continue_on_errors b"
  shows "ee_policy_initialization_errors env' = ee_policy_initialization_errors env"
proof -
  obtain n p where x: "x = (n, p)" by (cases x)
  show ?thesis
  proof (cases p)
    case (Individual c)
    with assms x show ?thesis
      by (auto simp: bootstrap_entry_def bootstrap_individual_def try_then_Ok_iff
          dest: keep_or_abort_strict)
  next
    case (Grouped g)
    with assms(1) x obtain i s where
      "try_fold (bootstrap_member lib b i) (register_policy_group env i s) (gc_policies g) = Ok env'"
      by (auto simp: bootstrap_entry_def try_then_Ok_iff)
    then have "ee_policy_initialization_errors env' =
        ee_policy_initialization_errors (register_policy_group env i s)"
      by (rule try_fold_invariant) (simp_all add: bootstrap_member_strict assms(2))
    then show ?thesis by (simp add: register_policy_group_def)
  qed
qed

lemma build_strict:
  assumes "build_evaluation_environment lib b policies = Ok env" and "\<not> eb_continue_on_errors b"
  shows "ee_policy_initialization_errors env = Map.empty"
proof -
  have "ee_policy_initialization_errors env = ee_policy_initialization_errors (empty_environment b)"
    using assms(1) unfolding build_evaluation_environment_def
    by (rule try_fold_invariant) (simp_all add: bootstrap_entry_strict assms(2))
  then show ?thesis by (simp add: empty_environment_def)
qed

text \<open>The module of a policy is there and its settings are valid.\<close>

definition ready ::
  "('e, 'm) server_library \<Rightarrow> EvaluationEnvironmentBuilder \<Rightarrow> PolicyID \<Rightarrow> string \<Rightarrow>
   ContextAwareResource set \<Rightarrow> 64 word option \<Rightarrow> string list \<Rightarrow> PolicySettings \<Rightarrow> bool" where
  "ready lib b i url resources timeout patterns settings \<longleftrightarrow>
     (\<exists>pre. configured_pre lib b i url = Ok pre \<and>
        check_settings lib pre (builder_context b i resources timeout (granted patterns)) settings = Ok ())"

lemma served_ready:
  assumes "served lib b i url s (builder_context b i resources timeout (granted patterns)) settings env"
    and "ee_policy_initialization_errors env = Map.empty"
  shows "ready lib b i url resources timeout patterns settings"
  using assms by (auto simp: served_def ready_def split: sum.splits)

text \<open>
  C35: a server that does not continue on errors starts only with policies that work.  If
  the environment is built, then for every individual policy and every member of a group the
  module is there, an evaluator could be made for it, and the policy accepted its settings.
\<close>

theorem strict_bootstrap_validates_all:
  assumes "build_evaluation_environment lib b policies = Ok env" and "\<not> eb_continue_on_errors b"
    and "slash_free policies" and "distinct (map fst policies)"
    and "\<forall>(name, p)\<in>set policies. case p of Grouped g \<Rightarrow> distinct (map fst (gc_policies g)) | _ \<Rightarrow> True"
    and "digests_identify b" and "(name, p) \<in> set policies"
  shows "case p of
           Individual c \<Rightarrow>
             ready lib b (Policy name) (pc_module c) (pc_context_aware_resources c)
               (pc_timeout_eval_seconds c) (pc_host_capabilities c) (settings_or_default (pc_settings c))
         | Grouped g \<Rightarrow> \<forall>(n, m)\<in>set (gc_policies g).
             ready lib b (PolicyGroupPolicy name n) (gmc_module m) (gmc_context_aware_resources m)
               (gmc_timeout_eval_seconds m) (gmc_host_capabilities m) (settings_or_default (gmc_settings m))"
proof (cases p)
  case (Individual c)
  note s = individual_served [OF assms(1,3,4,6) assms(7) [unfolded Individual]]
  from served_ready [OF s(2) build_strict [OF assms(1,2)]] Individual show ?thesis by simp
next
  case (Grouped g)
  with assms(5,7) have "distinct (map fst (gc_policies g))" by auto
  note reg = group_registered(4) [OF assms(1,3,4,6) assms(7) [unfolded Grouped] this]
  have "ready lib b (PolicyGroupPolicy name n) (gmc_module m) (gmc_context_aware_resources m)
      (gmc_timeout_eval_seconds m) (gmc_host_capabilities m) (settings_or_default (gmc_settings m))"
    if "(n, m) \<in> set (gc_policies g)" for n m
    by (rule served_ready [OF reg [OF that] build_strict [OF assms(1,2)]])
  with Grouped show ?thesis by auto
qed

theorem strict_bootstrap_validates_all_witness:
  "ready (small_library True) (small_builder False) (Policy ''p'') ''url'' {} None [] []"
proof -
  obtain env where run: "build_evaluation_environment (small_library True) (small_builder False)
      [(''p'', Individual small_policy)] = Ok env"
    by (simp add: small_simps)
  have "\<not> eb_continue_on_errors (small_builder False)" by (simp add: small_builder_def)
  from strict_bootstrap_validates_all [OF run this small_slash_free(1) _ _ small_identifies]
  show ?thesis by (simp add: small_policy_def settings_or_default_def)
qed

text \<open>
  The members of a group are evaluated although their settings were refused.  With
  \<^verbatim>\<open>continue_on_errors\<close>, a member that rejected its settings answers with that error when it is
  asked itself, but its group goes on evaluating it with these settings: the group of one
  such member is answered by evaluating its expression over that member.
\<close>

theorem group_evaluates_refused_member:
  assumes "build_evaluation_environment lib b [(name, Grouped g)] = Ok env"
    and "slash_free [(name, Grouped g)]" and "digests_identify b"
    and "gc_policies g = [(n, m)]"
    and "configured_pre lib b (PolicyGroupPolicy name n) (gmc_module m) = Ok pre"
    and "check_settings lib pre
           (builder_context b (PolicyGroupPolicy name n) (gmc_context_aware_resources m)
              (gmc_timeout_eval_seconds m) (granted (gmc_host_capabilities m)))
           (settings_or_default (gmc_settings m)) = Err e"
  shows "env_validate lib env (PolicyGroupPolicy name n) req =
           Err (PolicyInitialization (EvaluationError_to_string e)) \<and>
         env_validate lib env (Policy name) req =
           Ok (group_validate (ps_runtime lib) (ps_rhai lib)
                 (add_policy_member n pre
                    \<lparr> gm_settings = settings_or_default (gmc_settings m),
                      gm_ctx_aware_resources_allow_list = gmc_context_aware_resources m,
                      gm_epoch_deadline = epoch_deadline_for (gmc_timeout_eval_seconds m)
                                            (eb_global_policy_evaluation_limit_seconds b),
                      gm_host_capabilities = granted (gmc_host_capabilities m) \<rparr>
                    (PolicyGroupEvaluator_new name (gc_message g) (gc_expression g)
                       (Some (eb_callback_handler_tx b)))) req)"
proof -
  have d: "distinct (map fst [(name, Grouped g)])" "distinct (map fst (gc_policies g))"
    "(name, Grouped g) \<in> set [(name, Grouped g)]" "(n, m) \<in> set (gc_policies g)"
    by (simp_all add: assms(4))
  note reg = group_registered [OF assms(1,2) d(1) assms(3) d(3,2)]
  have "env_validate lib env (PolicyGroupPolicy name n) req =
      Err (PolicyInitialization (EvaluationError_to_string e))"
    using validate_served [OF reg(4) [OF d(4)] reg(1)] assms(5,6)
    by (simp add: member_evaluation_settings_def)
  moreover have "env_validate lib env (Policy name) req = serve_group lib b name g req"
    by (rule group_evaluator_built [OF assms(1,2) d(1) assms(3) d(3,2)])
  ultimately show ?thesis
    by (simp add: serve_group_def configured_member_def assms(4,5))
qed

theorem group_evaluates_refused_member_witness:
  "\<exists>env e r. build_evaluation_environment (small_library False) (small_builder True)
       [(''g'', Grouped small_group)] = Ok env \<and>
     env_validate (small_library False) env (PolicyGroupPolicy ''g'' ''m'') (Raw JNull) =
       Err (PolicyInitialization e) \<and>
     env_validate (small_library False) env (Policy ''g'') (Raw JNull) = Ok r"
proof -
  obtain env where run: "build_evaluation_environment (small_library False) (small_builder True)
      [(''g'', Grouped small_group)] = Ok env"
    by (simp add: small_simps)
  have one: "gc_policies small_group = [(''m'', small_member)]" by (simp add: small_group_def)
  obtain pre where pre: "configured_pre (small_library False) (small_builder True)
      (PolicyGroupPolicy ''g'' ''m'') (gmc_module small_member) = Ok pre"
    by (simp add: configured_pre_def make_pre_def small_simps)
  have refused: "check_settings (small_library False) pre
      (builder_context (small_builder True) (PolicyGroupPolicy ''g'' ''m'')
         (gmc_context_aware_resources small_member) (gmc_timeout_eval_seconds small_member)
         (granted (gmc_host_capabilities small_member)))
      (settings_or_default (gmc_settings small_member)) =
      Err (PolicyInitialization (''Policy settings are invalid: '' @ ''no message''))"
    by (simp add: check_settings_def small_library_def)
  from group_evaluates_refused_member [OF run small_slash_free(2) small_identifies one pre refused] run
  show ?thesis by blast
qed

text \<open>
  Modules with the same digest run in the execution mode of the first.  The digest is
  taken of the compiled module only, so two modules that differ in their metadata may share
  it; the second policy is then evaluated by the runtime of the first one's mode, whatever
  its own mode is.
\<close>

theorem same_digest_runs_in_first_mode:
  assumes "ee_module_digest_to_policy_evaluator_pre env (pp_digest pp) = None"
    and "env_register lib env i s ctx pp = Ok env1"
    and "pp_digest qq = pp_digest pp"
    and "env_register lib env1 j s' ctx' qq = Ok env2" and "j \<notin> ee_policy_groups env2"
  shows "\<exists>pre c. env_rehydrate env2 j = Ok (pre, c) \<and> runtime_of_mode (pp_execution_mode pp) pre"
proof -
  obtain m pre where m: "create_policy_evaluator_pre lib m (pp_execution_mode pp)
      (ee_policy_memory_limit_bytes env) = Ok pre"
    "ee_module_digest_to_policy_evaluator_pre env1 (pp_digest pp) = Some pre"
    using assms(1,2) by (auto simp: env_register_def ensure_evaluator_pre_def Let_def result_simps)
  have mode: "runtime_of_mode (pp_execution_mode pp) pre"
    using m(1) by (auto simp: create_policy_evaluator_pre_def map_err_Ok_iff dest: build_pre_runtime)
  have "ee_module_digest_to_policy_evaluator_pre env2 (pp_digest pp) = Some pre"
    "ee_policy_id_to_module_digest env2 j = Some (pp_digest pp)" "ee_policy_id_to_settings env2 j = Some s'"
    "ee_policy_id_to_ctx_aware_allowed_resources env2 j = Some (ec_ctx_aware_resources_allow_list ctx')"
    using assms(3,4) m(2) by (auto simp: env_register_def ensure_evaluator_pre_def Let_def)
  with mode assms(5) show ?thesis by (simp add: env_rehydrate_def get_policy_settings_def)
qed

theorem same_digest_runs_in_first_mode_witness:
  "let lib = small_library True; env = empty_environment (small_builder False);
       s = individual_settings small_policy (Set_Policy []);
       ctx = builder_context (small_builder False) (Policy ''p'') {} None DenyAll
   in \<exists>env1 env2 pre c. env_register lib env (Policy ''p'') s ctx (small_module Wasi) = Ok env1 \<and>
      env_register lib env1 (Policy ''q'') s ctx (small_module OpaGatekeeper) = Ok env2 \<and>
      env_rehydrate env2 (Policy ''q'') = Ok (pre, c) \<and> runtime_of_mode Wasi pre"
proof -
  define lib where "lib = small_library True"
  define env where "env = empty_environment (small_builder False)"
  define s where "s = individual_settings small_policy (Set_Policy [])"
  define ctx where "ctx = builder_context (small_builder False) (Policy ''p'') {} None DenyAll"
  have none: "ee_module_digest_to_policy_evaluator_pre env (pp_digest (small_module Wasi)) = None"
    by (simp add: env_def empty_environment_def)
  obtain env1 where r1: "env_register lib env (Policy ''p'') s ctx (small_module Wasi) = Ok env1"
    by (simp add: env_def lib_def small_simps)
  have e1: "\<exists>pre. ee_module_digest_to_policy_evaluator_pre env1 ''d'' = Some pre"
    "ee_policy_groups env1 = {}"
    using r1 by (auto simp: env_def lib_def small_simps)
  then obtain env2 where r2: "env_register lib env1 (Policy ''q'') s ctx (small_module OpaGatekeeper) = Ok env2"
    by (auto simp: env_register_def ensure_evaluator_pre_def small_module_def)
  have "Policy ''q'' \<notin> ee_policy_groups env2"
    using r2 e1 by (auto simp: env_register_def ensure_evaluator_pre_def small_module_def)
  from same_digest_runs_in_first_mode [OF none r1 _ r2 this]
  have "\<exists>pre c. env_rehydrate env2 (Policy ''q'') = Ok (pre, c) \<and> runtime_of_mode Wasi pre"
    by (simp add: small_module_def)
  with r1 r2 show ?thesis unfolding Let_def lib_def env_def s_def ctx_def by blast
qed

end
