(* ===== verification/Response_Handler.thy ===== *)
theory Response_Handler
  imports Admission_Response Policy_Id
begin

text \<open>
  The constraints the server applies to a policy's response before it is sent
  (\<^verbatim>\<open>policy-evaluator/src/admission_response_handler.rs\<close>): monitor mode, the mutation
  constraint and the custom rejection message, in this order.  The contract every stage
  keeps (the request's identity, the warnings and audit annotations, well-formedness) is
  the locale \<open>response_stage\<close>; the three stages are interpretations of it and the
  pipeline inherits the contract.
\<close>

section \<open>The handler\<close>

record AdmissionResponseHandler =
  h_policy_id :: PolicyID
  h_policy_mode :: PolicyMode
  h_allowed_to_mutate :: bool
  h_custom_rejection_message :: "string option"

definition rejection_message_because_policy_is_not_allowed_to_mutate :: "PolicyID \<Rightarrow> string" where
  "rejection_message_because_policy_is_not_allowed_to_mutate policy_id =
     ''Request rejected by policy '' @ PolicyID_to_string policy_id @
     ''. The policy attempted to mutate the request, but it is currently configured to not allow mutations.''"

definition apply_monitor_mode ::
  "AdmissionResponseHandler \<Rightarrow> AdmissionResponse \<Rightarrow> AdmissionResponse" where
  "apply_monitor_mode h r =
     (if h_policy_mode h \<noteq> Monitor then r
      else r \<lparr> ar_allowed := True, ar_patch_type := None, ar_patch := None, ar_status := None \<rparr>)"

definition apply_mutation_constraint ::
  "AdmissionResponseHandler \<Rightarrow> AdmissionResponse \<Rightarrow> AdmissionResponse" where
  "apply_mutation_constraint h r =
     (if h_policy_mode h \<noteq> Protect then r
      else if h_allowed_to_mutate h then r
      else if ar_patch r = None then r
      else r \<lparr> ar_allowed := False,
               ar_status := Some (AdmissionResponseStatus_default
                 \<lparr> st_message := Some (rejection_message_because_policy_is_not_allowed_to_mutate
                                         (h_policy_id h)),
                   st_code := None \<rparr>),
               ar_patch := None, ar_patch_type := None \<rparr>)"

definition unwrap_or :: "'a \<Rightarrow> 'a option \<Rightarrow> 'a" where
  "unwrap_or d x = (case x of None \<Rightarrow> d | Some a \<Rightarrow> a)"

definition apply_custom_rejection_message ::
  "AdmissionResponseHandler \<Rightarrow> AdmissionResponse \<Rightarrow> AdmissionResponse" where
  "apply_custom_rejection_message h r =
     (if ar_allowed r then r
      else if h_custom_rejection_message h = None then r
      else
        (let status = unwrap_or AdmissionResponseStatus_default (ar_status r);
             original_rejection_message = unwrap_or [] (st_message status);
             causes = sd_causes (unwrap_or StatusDetails_default (st_details status)) @
               [StatusCause_default \<lparr> sc_message := Some original_rejection_message \<rparr>]
         in r \<lparr> ar_status := Some (status
                  \<lparr> st_message := h_custom_rejection_message h,
                    st_details := Some ((unwrap_or StatusDetails_default (st_details status))
                      \<lparr> sd_causes := causes \<rparr>) \<rparr>) \<rparr>))"

definition process_response ::
  "AdmissionResponseHandler \<Rightarrow> AdmissionResponse \<Rightarrow> AdmissionResponse" where
  "process_response h r =
     apply_custom_rejection_message h (apply_mutation_constraint h (apply_monitor_mode h r))"

lemma unwrap_or_simps [simp]: "unwrap_or d None = d" "unwrap_or d (Some a) = a"
  by (simp_all add: unwrap_or_def)

lemmas stage_defs =
  apply_monitor_mode_def apply_mutation_constraint_def apply_custom_rejection_message_def

section \<open>The contract of a stage\<close>

text \<open>
  A stage may change the decision, its explanation and the patch.  It never touches what
  ties the response to the request, never invents a patch, and keeps the response
  well-formed.
\<close>

locale response_stage =
  fixes stage :: "AdmissionResponse \<Rightarrow> AdmissionResponse"
  assumes keeps_uid: "ar_uid (stage r) = ar_uid r"
    and keeps_warnings: "ar_warnings (stage r) = ar_warnings r"
    and keeps_audit_annotations: "ar_audit_annotations (stage r) = ar_audit_annotations r"
    and no_new_patch: "ar_patch (stage r) = None \<or> ar_patch (stage r) = ar_patch r"
    and keeps_wf: "wf_response r \<Longrightarrow> wf_response (stage r)"
begin

lemma patch_origin: "ar_patch (stage r) = Some p \<Longrightarrow> ar_patch r = Some p"
  using no_new_patch [of r] by auto

end

text \<open>Two stages in sequence are a stage.\<close>

locale two_stages = s1: response_stage f + s2: response_stage g
  for f g :: "AdmissionResponse \<Rightarrow> AdmissionResponse"
begin

lemma composed: "response_stage (\<lambda>r. g (f r))"
proof unfold_locales
  fix r
  show "ar_patch (g (f r)) = None \<or> ar_patch (g (f r)) = ar_patch r"
    using s1.no_new_patch [of r] s2.no_new_patch [of "f r"] by auto
qed (simp_all add: s1.keeps_uid s2.keeps_uid s1.keeps_warnings s2.keeps_warnings
      s1.keeps_audit_annotations s2.keeps_audit_annotations s1.keeps_wf s2.keeps_wf)

end

interpretation monitor: response_stage "apply_monitor_mode h" for h
  by unfold_locales (auto simp: apply_monitor_mode_def wf_response_def)

interpretation mutation: response_stage "apply_mutation_constraint h" for h
  by unfold_locales (auto simp: apply_mutation_constraint_def wf_response_def)

interpretation custom: response_stage "apply_custom_rejection_message h" for h
  by unfold_locales (auto simp: apply_custom_rejection_message_def wf_response_def Let_def)

interpretation first_two: two_stages "apply_monitor_mode h" "apply_mutation_constraint h" for h
  by unfold_locales

interpretation constrained: response_stage "\<lambda>r. apply_mutation_constraint h (apply_monitor_mode h r)" for h
  by (rule first_two.composed)

interpretation all_stages: two_stages
  "\<lambda>r. apply_mutation_constraint h (apply_monitor_mode h r)" "apply_custom_rejection_message h" for h
  by unfold_locales

interpretation pipeline: response_stage "process_response h" for h
  unfolding process_response_def [abs_def] by (rule all_stages.composed)

section \<open>What the pipeline decides\<close>

lemma custom_keeps [simp]:
  "ar_allowed (apply_custom_rejection_message h r) = ar_allowed r"
  "ar_patch (apply_custom_rejection_message h r) = ar_patch r"
  "ar_patch_type (apply_custom_rejection_message h r) = ar_patch_type r"
  by (auto simp: apply_custom_rejection_message_def Let_def)

lemma process_response_allowed:
  "ar_allowed (process_response h r) \<longleftrightarrow>
     h_policy_mode h = Monitor \<or>
     ar_allowed r \<and> (h_allowed_to_mutate h \<or> ar_patch r = None)"
  by (cases "h_policy_mode h")
    (auto simp: process_response_def apply_monitor_mode_def apply_mutation_constraint_def)

lemma process_response_patch:
  "ar_patch (process_response h r) =
     (if h_policy_mode h = Protect \<and> h_allowed_to_mutate h then ar_patch r else None)"
  by (cases "h_policy_mode h")
    (auto simp: process_response_def apply_monitor_mode_def apply_mutation_constraint_def)

lemma process_response_monitor:
  "h_policy_mode h = Monitor \<Longrightarrow>
     process_response h r =
       r \<lparr> ar_allowed := True, ar_patch_type := None, ar_patch := None, ar_status := None \<rparr>"
  by (simp add: process_response_def stage_defs)

lemma process_response_untouched:
  "h_policy_mode h = Protect \<Longrightarrow> h_allowed_to_mutate h \<or> ar_patch r = None \<Longrightarrow>
   ar_allowed r \<or> h_custom_rejection_message h = None \<Longrightarrow> process_response h r = r"
  by (auto simp: process_response_def stage_defs)

section \<open>Properties\<close>


text \<open>
  A custom rejection message replaces the message of every rejection, whoever
  rejected, and the replaced message is kept as the last of the status causes; the
  other causes, the status code and the reason stay.  The replaced message is the
  policy's, or the server's own when the policy mutated without being allowed to.
  (The comment on the handler promises the original message in the warnings; the code
  keeps it in the causes and leaves the warnings alone.)
\<close>

theorem custom_rejection_message_kept:
  assumes "h_custom_rejection_message h = Some custom"
    and "\<not> ar_allowed (process_response h r)"
  shows "\<exists>st det before.
     ar_status (process_response h r) = Some st \<and> st_message st = Some custom \<and>
     st_details st = Some det \<and>
     before = unwrap_or AdmissionResponseStatus_default
                (ar_status (apply_mutation_constraint h r)) \<and>
     sd_causes det = sd_causes (unwrap_or StatusDetails_default (st_details before)) @
       [\<lparr> sc_reason = None, sc_message = Some (unwrap_or [] (st_message before)),
          sc_field = None \<rparr>] \<and>
     st_code st = st_code before \<and> st_reason st = st_reason before \<and>
     ar_warnings (process_response h r) = ar_warnings r"
proof -
  have protect: "apply_monitor_mode h r = r" and rejected: "\<not> ar_allowed (apply_mutation_constraint h r)"
    using assms(2) by (auto simp: process_response_def apply_monitor_mode_def
        apply_mutation_constraint_def split: if_splits)
  have "ar_warnings (apply_mutation_constraint h r) = ar_warnings r"
    by (rule mutation.keeps_warnings)
  then show ?thesis
    using assms(1) protect rejected
    by (simp add: process_response_def apply_custom_rejection_message_def Let_def
        StatusCause_default_def)
qed

theorem custom_rejection_message_kept_witness:
  "let h = \<lparr> h_policy_id = Policy ''p'', h_policy_mode = Protect, h_allowed_to_mutate = False,
             h_custom_rejection_message = Some ''no'' \<rparr>;
       r = reject ''u'' ''bad label'' 400
   in h_custom_rejection_message h = Some ''no'' \<and> \<not> ar_allowed (process_response h r) \<and>
      (\<exists>st. ar_status (process_response h r) = Some st \<and> st_message st = Some ''no'' \<and>
            st_code st = Some 400)"
proof -
  let ?h = "\<lparr> h_policy_id = Policy ''p'', h_policy_mode = Protect, h_allowed_to_mutate = False,
             h_custom_rejection_message = Some ''no'' \<rparr>"
  let ?r = "reject ''u'' ''bad label'' 400"
  have hyps: "h_custom_rejection_message ?h = Some ''no''" "\<not> ar_allowed (process_response ?h ?r)"
    by (simp_all add: process_response_allowed)
  have "ar_status (apply_mutation_constraint ?h ?r) = ar_status ?r"
    by (simp add: apply_mutation_constraint_def)
  then show ?thesis
    using custom_rejection_message_kept [OF hyps] hyps
    by (auto simp: Let_def AdmissionResponseStatus_default_def)
qed

end
