(* ===== verification/Server_Api.thy ===== *)
theory Server_Api
  imports Environment_Refinement Response_Handler
begin

text \<open>
  The HTTP side of the policy server (\<^verbatim>\<open>policy-server/src/api/\<close>, \<^verbatim>\<open>policy-server/src/metrics.rs\<close>):
  the service that evaluates a request in the environment, exempts a namespace, constrains the
  response and records metrics, and the handlers that turn its result into a status code and a
  body.  The latency of an evaluation is a parameter; JSON bodies arrive decoded or as the
  rejection of the web framework, also a parameter.
\<close>

section \<open>Metrics\<close>

datatype metric_value = MString string | MBool bool | MInt int

type_synonym KeyValue = "string \<times> metric_value"

record PolicyEvaluation =
  pe_policy_name :: string
  pe_policy_mode :: string
  pe_resource_kind :: string
  pe_resource_namespace :: "string option"
  pe_resource_request_operation :: string
  pe_accepted :: bool
  pe_mutated :: bool
  pe_request_origin :: string
  pe_error_code :: "16 word option"

definition optional_key :: "string \<Rightarrow> ('a \<Rightarrow> metric_value) \<Rightarrow> 'a option \<Rightarrow> KeyValue list" where
  "optional_key k f x = (case x of None \<Rightarrow> [] | Some a \<Rightarrow> [(k, f a)])"

definition PolicyEvaluation_into :: "PolicyEvaluation \<Rightarrow> KeyValue list" where
  "PolicyEvaluation_into m =
     [(''policy_name'', MString (pe_policy_name m)),
      (''policy_mode'', MString (pe_policy_mode m)),
      (''resource_kind'', MString (pe_resource_kind m)),
      (''resource_request_operation'', MString (pe_resource_request_operation m)),
      (''accepted'', MBool (pe_accepted m)),
      (''mutated'', MBool (pe_mutated m)),
      (''request_origin'', MString (pe_request_origin m))] @
     optional_key ''resource_namespace'' MString (pe_resource_namespace m) @
     optional_key ''error_code'' (\<lambda>c. MInt (uint c)) (pe_error_code m)"

record RawPolicyEvaluation =
  re_policy_name :: string
  re_policy_mode :: string
  re_accepted :: bool
  re_mutated :: bool
  re_error_code :: "16 word option"

definition RawPolicyEvaluation_into :: "RawPolicyEvaluation \<Rightarrow> KeyValue list" where
  "RawPolicyEvaluation_into m =
     [(''policy_name'', MString (re_policy_name m)),
      (''policy_mode'', MString (re_policy_mode m)),
      (''accepted'', MBool (re_accepted m)),
      (''mutated'', MBool (re_mutated m))] @
     optional_key ''error_code'' (\<lambda>c. MInt (uint c)) (re_error_code m)"

record PolicyInitializationError =
  ie_policy_name :: string
  ie_initialization_error :: string

definition PolicyInitializationError_into :: "PolicyInitializationError \<Rightarrow> KeyValue list" where
  "PolicyInitializationError_into m =
     [(''policy_name'', MString (ie_policy_name m)),
      (''initialization_error'', MString (ie_initialization_error m))]"

text \<open>
  What is sent to the meter: one more evaluation in the counter, and a latency in milliseconds,
  which saturates at the largest \<^verbatim>\<open>u64\<close>.
\<close>

datatype metric_event = EvaluationCounted "KeyValue list" | LatencyRecorded "64 word" "KeyValue list"

definition add_policy_evaluation :: "KeyValue list \<Rightarrow> metric_event" where
  "add_policy_evaluation attributes = EvaluationCounted attributes"

definition record_policy_latency :: "nat \<Rightarrow> KeyValue list \<Rightarrow> metric_event" where
  "record_policy_latency millis attributes =
     LatencyRecorded (if millis < 2 ^ 64 then of_nat millis else - 1) attributes"

section \<open>The service\<close>

datatype RequestOrigin = Validate | Audit

fun RequestOrigin_to_string :: "RequestOrigin \<Rightarrow> string" where
  "RequestOrigin_to_string Validate = ''validate''"
| "RequestOrigin_to_string Audit = ''audit''"

definition resource_kind_of :: "AdmissionRequest \<Rightarrow> string" where
  "resource_kind_of r = (case rq_request_kind r of None \<Rightarrow> [] | Some k \<Rightarrow> gvk_kind k)"

text \<open>The request comes from the namespace whose requests are always accepted.\<close>

definition exempt :: "EvaluationEnvironment \<Rightarrow> ValidateRequest \<Rightarrow> AdmissionRequest option" where
  "exempt env req =
     (case req of
        AdmissionReq r \<Rightarrow>
          (case rq_namespace r of
             Some ns \<Rightarrow>
               (if should_always_accept_requests_made_inside_of_namespace env ns then Some r else None)
           | None \<Rightarrow> None)
      | Raw _ \<Rightarrow> None)"

definition accept_without_evaluation ::
  "nat \<Rightarrow> EvaluationEnvironment \<Rightarrow> PolicyID \<Rightarrow> AdmissionRequest \<Rightarrow> RequestOrigin \<Rightarrow>
   (EvaluationError, AdmissionResponse, metric_event) traced" where
  "accept_without_evaluation elapsed env policy_id adm_req origin =
     traced_then (pure_result (get_policy_mode env policy_id)) (\<lambda>mode.
       (let metric = PolicyEvaluation_into
              \<lparr> pe_policy_name = PolicyID_to_string policy_id,
                pe_policy_mode = PolicyMode_to_string mode,
                pe_resource_kind = resource_kind_of adm_req,
                pe_resource_namespace = rq_namespace adm_req,
                pe_resource_request_operation = rq_operation adm_req,
                pe_accepted = True, pe_mutated = False,
                pe_request_origin = RequestOrigin_to_string origin, pe_error_code = None \<rparr>
        in (Ok \<lparr> ar_uid = request_uid (AdmissionReq adm_req), ar_allowed = True,
                 ar_patch_type = None, ar_patch = None, ar_status = None,
                 ar_audit_annotations = None, ar_warnings = None \<rparr>,
            [record_policy_latency elapsed metric, add_policy_evaluation metric])))"

definition init_deadline_message :: string where
  "init_deadline_message = ''init interrupted, execution deadline exceeded''"

definition deadline_rejection_message :: string where
  "deadline_rejection_message =
     ''Policy execution interrupted because it exceeded the allowed execution time''"

definition evaluation_metric ::
  "PolicyID \<Rightarrow> PolicyMode \<Rightarrow> ValidateRequest \<Rightarrow> RequestOrigin \<Rightarrow> AdmissionResponse \<Rightarrow> KeyValue list" where
  "evaluation_metric policy_id mode req origin vanilla =
     (let error_code = Option.bind (ar_status vanilla) st_code in
      case req of
        AdmissionReq adm_req \<Rightarrow> PolicyEvaluation_into
          \<lparr> pe_policy_name = PolicyID_to_string policy_id,
            pe_policy_mode = PolicyMode_to_string mode,
            pe_resource_kind = resource_kind_of adm_req,
            pe_resource_namespace = rq_namespace adm_req,
            pe_resource_request_operation = rq_operation adm_req,
            pe_accepted = ar_allowed vanilla, pe_mutated = (ar_patch vanilla \<noteq> None),
            pe_request_origin = RequestOrigin_to_string origin, pe_error_code = error_code \<rparr>
      | Raw _ \<Rightarrow> RawPolicyEvaluation_into
          \<lparr> re_policy_name = PolicyID_to_string policy_id,
            re_policy_mode = PolicyMode_to_string mode,
            re_accepted = ar_allowed vanilla, re_mutated = (ar_patch vanilla \<noteq> None),
            re_error_code = error_code \<rparr>)"

text \<open>The part of \<^verbatim>\<open>evaluate\<close> behind a successful evaluation.\<close>

definition finish_evaluation ::
  "nat \<Rightarrow> EvaluationEnvironment \<Rightarrow> PolicyID \<Rightarrow> ValidateRequest \<Rightarrow> RequestOrigin \<Rightarrow> AdmissionResponse \<Rightarrow>
   (EvaluationError, AdmissionResponse, metric_event) traced" where
  "finish_evaluation elapsed env policy_id req origin vanilla =
     traced_then (pure_result (get_policy_mode env policy_id)) (\<lambda>mode.
     traced_then (pure_result (get_policy_allowed_to_mutate env policy_id)) (\<lambda>allowed_to_mutate.
     traced_then (pure_result (get_policy_custom_rejection_message env policy_id)) (\<lambda>message.
       (let handler = \<lparr> h_policy_id = policy_id, h_policy_mode = mode,
              h_allowed_to_mutate = allowed_to_mutate, h_custom_rejection_message = message \<rparr>;
            response = (case origin of Validate \<Rightarrow> process_response handler vanilla
                        | Audit \<Rightarrow> vanilla);
            metric = evaluation_metric policy_id mode req origin vanilla
        in (Ok response, [record_policy_latency elapsed metric, add_policy_evaluation metric])))))"

definition service_evaluate ::
  "('e, 'm) server_library \<Rightarrow> nat \<Rightarrow> EvaluationEnvironment \<Rightarrow> string \<Rightarrow> ValidateRequest \<Rightarrow> RequestOrigin \<Rightarrow>
   (EvaluationError, AdmissionResponse, metric_event) traced" where
  "service_evaluate lib elapsed env policy_id req origin =
     traced_then (pure_result (PolicyID_from_str policy_id)) (\<lambda>policy_id.
       (case exempt env req of
          Some adm_req \<Rightarrow> accept_without_evaluation elapsed env policy_id adm_req origin
        | None \<Rightarrow>
            (case env_validate lib env policy_id req of
               Inr vanilla \<Rightarrow> finish_evaluation elapsed env policy_id req origin vanilla
             | Inl (PolicyInitialization error) \<Rightarrow>
                 (Ok (reject (request_uid req) error 500),
                  [add_policy_evaluation (PolicyInitializationError_into
                     \<lparr> ie_policy_name = PolicyID_to_string policy_id,
                       ie_initialization_error = error \<rparr>)])
             | Inl (WebAssemblyError error) \<Rightarrow>
                 (if sublist init_deadline_message error
                  then (Ok (reject (request_uid req) deadline_rejection_message 500), [])
                  else (Err (WebAssemblyError error), []))
             | Inl error \<Rightarrow> (Err error, []))))"

section \<open>The handlers\<close>

record ApiError =
  ae_status :: "16 word"
  ae_message :: string

definition ApiError_to_json :: "ApiError \<Rightarrow> json" where
  "ApiError_to_json e =
     JObject [(''message'', JString (ae_message e)), (''status'', JNumber (show_nat (unat (ae_status e))))]"

record AdmissionReviewRequest =
  arq_kind :: "string option"
  arq_api_version :: "string option"
  arq_request :: AdmissionRequest

record AdmissionReviewResponse =
  arr_kind :: "string option"
  arr_api_version :: "string option"
  arr_response :: AdmissionResponse

definition AdmissionReviewResponse_new :: "AdmissionResponse \<Rightarrow> AdmissionReviewResponse" where
  "AdmissionReviewResponse_new response =
     \<lparr> arr_kind = Some ''AdmissionReview'', arr_api_version = Some ''admission.k8s.io/v1'',
       arr_response = response \<rparr>"

record RawReviewRequest =
  rrq_request :: json

record RawReviewResponse =
  rrr_response :: AdmissionResponse

definition RawReviewResponse_new :: "AdmissionResponse \<Rightarrow> RawReviewResponse" where
  "RawReviewResponse_new response = \<lparr> rrr_response = response \<rparr>"

definition handle_evaluation_error :: "EvaluationError \<Rightarrow> 16 word \<times> ApiError" where
  "handle_evaluation_error error =
     (case error of
        PolicyNotFound _ \<Rightarrow>
          (404, \<lparr> ae_status = 404, ae_message = EvaluationError_to_string error \<rparr>)
      | _ \<Rightarrow> (500, \<lparr> ae_status = 500, ae_message = ''Something went wrong'' \<rparr>))"

text \<open>
  The fields recorded in the tracing span, and with them everything a handler leaves behind
  besides its response.
\<close>

datatype api_event = Metric metric_event | SpanField string metric_value

definition populate_span_with_admission_request_data :: "AdmissionRequest \<Rightarrow> api_event list" where
  "populate_span_with_admission_request_data r =
     [SpanField ''kind'' (MString (gvk_kind (rq_kind r))),
      SpanField ''kind_group'' (MString (gvk_group (rq_kind r))),
      SpanField ''kind_version'' (MString (gvk_version (rq_kind r))),
      SpanField ''name'' (MString (unwrap_or [] (rq_name r))),
      SpanField ''namespace'' (MString (unwrap_or [] (rq_namespace r))),
      SpanField ''operation'' (MString (rq_operation r)),
      SpanField ''request_uid'' (MString (rq_uid r)),
      SpanField ''resource'' (MString (gvr_resource (rq_resource r))),
      SpanField ''resource_group'' (MString (gvr_group (rq_resource r))),
      SpanField ''resource_version'' (MString (gvr_version (rq_resource r))),
      SpanField ''subresource'' (MString (unwrap_or [] (rq_sub_resource r)))]"

definition populate_span_with_policy_evaluation_results :: "AdmissionResponse \<Rightarrow> api_event list" where
  "populate_span_with_policy_evaluation_results response =
     [SpanField ''allowed'' (MBool (ar_allowed response)),
      SpanField ''mutated'' (MBool (ar_patch response \<noteq> None))] @
     (case ar_status response of
        None \<Rightarrow> []
      | Some status \<Rightarrow>
          (case st_code status of None \<Rightarrow> []
           | Some code \<Rightarrow> [SpanField ''response_code'' (MInt (uint code))]) @
          (case st_message status of None \<Rightarrow> []
           | Some message \<Rightarrow> [SpanField ''response_message'' (MString message)]))"

text \<open>
  A response of the server.  A body that cannot be decoded is refused by the framework with a
  status and a text; \<^verbatim>\<open>validate_handler\<close> turns the refusal into a JSON error.
\<close>

record json_rejection =
  rj_status :: "16 word"
  rj_body_text :: string

datatype http_body =
    ReviewBody AdmissionReviewResponse
  | RawBody RawReviewResponse
  | ErrorBody ApiError
  | TextBody string

record http_response =
  hr_status :: "16 word"
  hr_body :: http_body

definition ApiError_from :: "json_rejection \<Rightarrow> ApiError" where
  "ApiError_from rejection =
     \<lparr> ae_status = rj_status rejection, ae_message = rj_body_text rejection \<rparr>"

definition ApiError_into_response :: "ApiError \<Rightarrow> http_response" where
  "ApiError_into_response e = \<lparr> hr_status = ae_status e, hr_body = ErrorBody e \<rparr>"

text \<open>The rest of a handler once its evaluation is over.\<close>

definition respond ::
  "(AdmissionResponse \<Rightarrow> http_body) \<Rightarrow> (EvaluationError, AdmissionResponse, metric_event) traced \<Rightarrow>
   http_response \<times> api_event list" where
  "respond body run =
     (case run of (result, events) \<Rightarrow>
        (case map_err handle_evaluation_error result of
           Inl (status, e) \<Rightarrow> (\<lparr> hr_status = status, hr_body = ErrorBody e \<rparr>, map Metric events)
         | Inr response \<Rightarrow>
             (\<lparr> hr_status = 200, hr_body = body response \<rparr>,
              map Metric events @ populate_span_with_policy_evaluation_results response)))"

definition audit_handler ::
  "('e, 'm) server_library \<Rightarrow> nat \<Rightarrow> EvaluationEnvironment \<Rightarrow> string \<Rightarrow>
   json_rejection + AdmissionReviewRequest \<Rightarrow> http_response \<times> api_event list" where
  "audit_handler lib elapsed env policy_id body =
     (case body of
        Inl rejection \<Rightarrow>
          (\<lparr> hr_status = rj_status rejection, hr_body = TextBody (rj_body_text rejection) \<rparr>, [])
      | Inr admission_review \<Rightarrow>
          apsnd (append (populate_span_with_admission_request_data (arq_request admission_review)))
            (respond (\<lambda>r. ReviewBody (AdmissionReviewResponse_new r))
               (service_evaluate lib elapsed env policy_id
                  (AdmissionReq (arq_request admission_review)) Audit)))"

definition validate_handler ::
  "('e, 'm) server_library \<Rightarrow> nat \<Rightarrow> EvaluationEnvironment \<Rightarrow> string \<Rightarrow>
   json_rejection + AdmissionReviewRequest \<Rightarrow> http_response \<times> api_event list" where
  "validate_handler lib elapsed env policy_id body =
     (case body of
        Inl rejection \<Rightarrow> (ApiError_into_response (ApiError_from rejection), [])
      | Inr admission_review \<Rightarrow>
          apsnd (append (populate_span_with_admission_request_data (arq_request admission_review)))
            (respond (\<lambda>r. ReviewBody (AdmissionReviewResponse_new r))
               (service_evaluate lib elapsed env policy_id
                  (AdmissionReq (arq_request admission_review)) Validate)))"

definition validate_raw_handler ::
  "('e, 'm) server_library \<Rightarrow> nat \<Rightarrow> EvaluationEnvironment \<Rightarrow> string \<Rightarrow>
   json_rejection + RawReviewRequest \<Rightarrow> http_response \<times> api_event list" where
  "validate_raw_handler lib elapsed env policy_id body =
     (case body of
        Inl rejection \<Rightarrow>
          (\<lparr> hr_status = rj_status rejection, hr_body = TextBody (rj_body_text rejection) \<rparr>, [])
      | Inr raw_review \<Rightarrow>
          respond (\<lambda>r. RawBody (RawReviewResponse_new r))
            (service_evaluate lib elapsed env policy_id (Raw (rrq_request raw_review)) Validate))"

section \<open>Environments as the service sees them\<close>

text \<open>
  All the service relies on: a policy that answers is registered, so that its mode and
  constraints can be looked up.
\<close>

locale answering_environment =
  fixes validate :: "PolicyID \<Rightarrow> ValidateRequest \<Rightarrow> EvaluationError + AdmissionResponse"
    and settings :: "PolicyID \<Rightarrow> PolicyEvaluationSettings option"
  assumes answers_registered: "validate i req = Ok r \<Longrightarrow> settings i \<noteq> None"
begin

lemma answering_settings:
  assumes "validate i req = Ok r"
  obtains s where "settings i = Some s"
  using answers_registered [OF assms] by blast

lemma unregistered_fails: "settings i = None \<Longrightarrow> \<exists>e. validate i req = Err e"
  using answers_registered [of i req] by (cases "validate i req") auto

end

interpretation env: answering_environment "env_validate lib env" "ee_policy_id_to_settings env" for lib env
  by unfold_locales
    (auto simp: env_validate_def env_validate_policy_def env_validate_policy_group_def
      build_policy_group_evaluator_def get_policy_settings_def result_simps
      split: if_splits option.splits)

text \<open>The response constraints a registered policy is subject to.\<close>

definition handler_of :: "PolicyID \<Rightarrow> PolicyEvaluationSettings \<Rightarrow> AdmissionResponseHandler" where
  "handler_of i s =
     \<lparr> h_policy_id = i, h_policy_mode = es_policy_mode s,
       h_allowed_to_mutate = es_allowed_to_mutate s,
       h_custom_rejection_message = es_custom_rejection_message s \<rparr>"

lemma finish_registered:
  assumes "ee_policy_id_to_settings env i = Some s"
  shows "finish_evaluation elapsed env i req origin vanilla =
     (Ok (case origin of Validate \<Rightarrow> process_response (handler_of i s) vanilla | Audit \<Rightarrow> vanilla),
      [record_policy_latency elapsed (evaluation_metric i (es_policy_mode s) req origin vanilla),
       add_policy_evaluation (evaluation_metric i (es_policy_mode s) req origin vanilla)])"
  using assms
  by (cases origin)
    (simp_all add: finish_evaluation_def get_policy_mode_def get_policy_allowed_to_mutate_def
      get_policy_custom_rejection_message_def pure_result_def handler_of_def Let_def)

lemma service_result:
  assumes "PolicyID_from_str pid = Ok i"
  shows "fst (service_evaluate lib elapsed env pid req origin) =
     (case exempt env req of
        Some r \<Rightarrow> map_ok (\<lambda>_. \<lparr> ar_uid = rq_uid r, ar_allowed = True, ar_patch_type = None,
                            ar_patch = None, ar_status = None, ar_audit_annotations = None,
                            ar_warnings = None \<rparr>) (get_policy_settings env i)
      | None \<Rightarrow>
          (case env_validate lib env i req of
             Inr v \<Rightarrow> map_ok (\<lambda>s. case origin of Validate \<Rightarrow> process_response (handler_of i s) v | Audit \<Rightarrow> v)
                        (get_policy_settings env i)
           | Inl (PolicyInitialization e) \<Rightarrow> Ok (reject (request_uid req) e 500)
           | Inl (WebAssemblyError e) \<Rightarrow>
               (if sublist init_deadline_message e
                then Ok (reject (request_uid req) deadline_rejection_message 500)
                else Err (WebAssemblyError e))
           | Inl e \<Rightarrow> Err e))"
proof (cases "exempt env req")
  case (Some r)
  then show ?thesis
    using assms
    by (cases "ee_policy_id_to_settings env i")
      (simp_all add: service_evaluate_def pure_result_def accept_without_evaluation_def
        get_policy_mode_def get_policy_settings_def Let_def)
next
  case None
  show ?thesis
  proof (cases "env_validate lib env i req")
    case (Inl e)
    with None assms show ?thesis
      by (cases e) (simp_all add: service_evaluate_def pure_result_def)
  next
    case (Inr v)
    then obtain s where s: "ee_policy_id_to_settings env i = Some s" by (rule env.answering_settings)
    with None Inr assms show ?thesis
      by (simp add: service_evaluate_def pure_result_def finish_registered [OF s] get_policy_settings_def)
  qed
qed

section \<open>Constraints in the configuration\<close>

text \<open>The constraints the configuration puts on the responses of a policy, a group or a member.\<close>

fun configured_handler :: "policies_config \<Rightarrow> PolicyID \<Rightarrow> AdmissionResponseHandler option" where
  "configured_handler policies (Policy name) =
     (case map_of policies name of
        Some (Individual p) \<Rightarrow>
          Some \<lparr> h_policy_id = Policy name, h_policy_mode = pc_policy_mode p,
                 h_allowed_to_mutate = unwrap_or False (pc_allowed_to_mutate p),
                 h_custom_rejection_message = pc_message p \<rparr>
      | Some (Grouped g) \<Rightarrow>
          Some \<lparr> h_policy_id = Policy name, h_policy_mode = gc_policy_mode g,
                 h_allowed_to_mutate = False, h_custom_rejection_message = None \<rparr>
      | None \<Rightarrow> None)"
| "configured_handler policies (PolicyGroupPolicy gname n) =
     Some \<lparr> h_policy_id = PolicyGroupPolicy gname n, h_policy_mode = Protect,
            h_allowed_to_mutate = False, h_custom_rejection_message = None \<rparr>"

definition admitted :: "http_response \<Rightarrow> bool" where
  "admitted r \<longleftrightarrow> (case hr_body r of
      ReviewBody v \<Rightarrow> ar_allowed (arr_response v) | RawBody v \<Rightarrow> ar_allowed (rrr_response v)
    | _ \<Rightarrow> False)"

lemma served_settings:
  assumes "served lib b i url s ctx settings env" "env_validate lib env i req = Ok v"
  shows "ee_policy_id_to_settings env i = Some s"
proof -
  have "ee_policy_initialization_errors env i = None \<or> i \<in> ee_policy_groups env"
    using assms(2) by (auto simp: env_validate_def env_validate_policy_def split: if_splits option.splits)
  with assms(1) show ?thesis by (auto simp: served_def split: sum.splits)
qed

lemma answering_handler:
  assumes "build_evaluation_environment lib b policies = Ok env"
    and "slash_free policies" and "distinct (map fst policies)"
    and "\<forall>(name, p)\<in>set policies. case p of Grouped g \<Rightarrow> distinct (map fst (gc_policies g)) | _ \<Rightarrow> True"
    and "digests_identify b"
    and ok: "env_validate lib env i req = Ok v" and s: "ee_policy_id_to_settings env i = Some s"
  shows "configured_handler policies i = Some (handler_of i s)"
proof -
  have serve: "serve lib b policies i req = Ok v"
    using ok serves_policy [OF assms(1-3,5,4)] serves_member [OF assms(1-3,5,4)] by (cases i) simp_all
  show ?thesis
  proof (cases i)
    case (Policy name)
    with serve obtain p where p: "map_of policies name = Some p" by (auto split: option.splits)
    then have mem: "(name, p) \<in> set policies" by (rule map_of_SomeD)
    show ?thesis
    proof (cases p)
      case (Individual c)
      from served_settings [OF individual_served(2) [OF assms(1-3,5) mem [unfolded Individual]] ok [unfolded Policy]]
      show ?thesis using s Policy p Individual
        by (auto simp: handler_of_def individual_settings_def unwrap_or_def)
    next
      case (Grouped g)
      with assms(4) mem have "distinct (map fst (gc_policies g))" by auto
      from group_registered(3) [OF assms(1-3,5) mem [unfolded Grouped] this]
      show ?thesis using s Policy p Grouped by (auto simp: handler_of_def group_settings_def)
    qed
  next
    case (PolicyGroupPolicy gname n)
    with serve obtain g m where g: "map_of policies gname = Some (Grouped g)" "map_of (gc_policies g) n = Some m"
      by (auto split: option.splits PolicyOrPolicyGroup.splits)
    then have mem: "(gname, Grouped g) \<in> set policies" "(n, m) \<in> set (gc_policies g)"
      by (auto dest: map_of_SomeD)
    with assms(4) have "distinct (map fst (gc_policies g))" by auto
    from served_settings [OF group_registered(4) [OF assms(1-3,5) mem(1) this mem(2)] ok [unfolded PolicyGroupPolicy]]
    show ?thesis using s PolicyGroupPolicy by (auto simp: handler_of_def member_evaluation_settings_def)
  qed
qed

lemma admitted_respond:
  "admitted (fst (respond (\<lambda>r. ReviewBody (AdmissionReviewResponse_new r)) run)) \<longleftrightarrow>
     (\<exists>r. fst run = Ok r \<and> ar_allowed r)"
  by (cases run; cases "fst run")
    (auto simp: respond_def admitted_def AdmissionReviewResponse_new_def split: prod.splits)

lemma service_admits:
  assumes "PolicyID_from_str pid = Ok i" and "exempt env req = None"
  shows "(\<exists>r. fst (service_evaluate lib elapsed env pid req Validate) = Ok r \<and> ar_allowed r) \<longleftrightarrow>
     (\<exists>v s. env_validate lib env i req = Ok v \<and> ee_policy_id_to_settings env i = Some s \<and>
        ar_allowed (process_response (handler_of i s) v))"
proof (cases "env_validate lib env i req")
  case (Inl e)
  with assms show ?thesis by (cases e) (simp_all add: service_result)
next
  case (Inr v)
  then obtain s where "ee_policy_id_to_settings env i = Some s" by (rule env.answering_settings)
  with Inr assms show ?thesis by (simp add: service_result get_policy_settings_def)
qed

lemma exempt_built:
  assumes "build_evaluation_environment lib b policies = Ok env" "slash_free policies"
  shows "exempt env (AdmissionReq r) =
     (if rq_namespace r \<noteq> None \<and> rq_namespace r = eb_always_accept_admission_reviews_on_namespace b
      then Some r else None)"
proof -
  have "step_ok lib b (\<Union>x\<in>set policies. owned x) (empty_environment b) env"
    using build_step assms by (simp add: build_evaluation_environment_def)
  then have "env_inv lib b env" by (simp add: step_ok_def)
  then show ?thesis
    by (auto simp: exempt_def env_inv_def built_by_def
        should_always_accept_requests_made_inside_of_namespace_def split: option.splits)
qed

lemma service_admits_configured:
  assumes "build_evaluation_environment lib b policies = Ok env"
    and "slash_free policies" and "distinct (map fst policies)"
    and "\<forall>(name, p)\<in>set policies. case p of Grouped g \<Rightarrow> distinct (map fst (gc_policies g)) | _ \<Rightarrow> True"
    and "digests_identify b" and "PolicyID_from_str pid = Ok i" and "exempt env req = None"
  shows "(\<exists>r. fst (service_evaluate lib elapsed env pid req Validate) = Ok r \<and> ar_allowed r) \<longleftrightarrow>
     (\<exists>v h. serve lib b policies i req = Ok v \<and> configured_handler policies i = Some h \<and>
        (h_policy_mode h = Monitor \<or> ar_allowed v \<and> (h_allowed_to_mutate h \<or> ar_patch v = None)))"
proof -
  have serve: "serve lib b policies i req = env_validate lib env i req"
    using serves_policy [OF assms(1-3,5,4)] serves_member [OF assms(1-3,5,4)] by (cases i) simp_all
  have "(\<exists>s. env_validate lib env i req = Ok v \<and> ee_policy_id_to_settings env i = Some s \<and>
        ar_allowed (process_response (handler_of i s) v)) \<longleftrightarrow>
      (\<exists>h. serve lib b policies i req = Ok v \<and> configured_handler policies i = Some h \<and>
        (h_policy_mode h = Monitor \<or> ar_allowed v \<and> (h_allowed_to_mutate h \<or> ar_patch v = None)))" for v
  proof (cases "env_validate lib env i req = Ok v")
    case True
    then obtain s where s: "ee_policy_id_to_settings env i = Some s" by (rule env.answering_settings)
    from answering_handler [OF assms(1-5) True s] True s show ?thesis
      by (simp add: serve process_response_allowed)
  qed (simp add: serve)
  then show ?thesis by (simp only: service_admits [OF assms(6,7)])
qed

section \<open>Properties\<close>


definition small_review :: AdmissionReviewRequest where
  "small_review = \<lparr> arq_kind = None, arq_api_version = None, arq_request =
     \<lparr> rq_uid = ''u'', rq_kind = \<lparr> gvk_group = [], gvk_version = ''v1'', gvk_kind = ''Pod'' \<rparr>,
       rq_resource = \<lparr> gvr_group = [], gvr_version = ''v1'', gvr_resource = ''pods'' \<rparr>,
       rq_sub_resource = None, rq_request_kind = None, rq_request_resource = None,
       rq_request_sub_resource = None, rq_name = None, rq_namespace = Some ''default'',
       rq_operation = ''CREATE'', rq_user_info = JNull, rq_object = None, rq_old_object = None,
       rq_dry_run = None, rq_options = None \<rparr> \<rparr>"


text \<open>
  What is counted.  Every answer of the service is counted once, with the verdict of the
  policy before the server constrains it; only the rejection for a deadline that fires while
  the module is initialized, and a request that ends in an error, leave no trace in the metrics.  An audit request
  gets the verdict as it is, with the same attributes apart from its origin.
\<close>

theorem evaluations_counted:
  assumes "PolicyID_from_str pid = Ok i" and "exempt env req = None"
  shows "(\<forall>e. fst (service_evaluate lib elapsed env pid req origin) = Err e \<longrightarrow>
            snd (service_evaluate lib elapsed env pid req origin) = []) \<and>
         (\<forall>v. env_validate lib env i req = Ok v \<longrightarrow>
            fst (service_evaluate lib elapsed env pid req Audit) = Ok v \<and>
            (\<exists>mode m. get_policy_mode env i = Ok mode \<and>
               m = evaluation_metric i mode req origin v \<and>
               (''accepted'', MBool (ar_allowed v)) \<in> set m \<and>
               snd (service_evaluate lib elapsed env pid req origin) =
                 [record_policy_latency elapsed m, EvaluationCounted m])) \<and>
         (\<forall>e. env_validate lib env i req = Err (WebAssemblyError e) \<longrightarrow>
            snd (service_evaluate lib elapsed env pid req origin) = [])"
proof (cases "env_validate lib env i req")
  case (Inl e)
  with assms show ?thesis by (cases e) (simp_all add: service_evaluate_def pure_result_def)
next
  case (Inr v)
  then obtain s where s: "ee_policy_id_to_settings env i = Some s" by (rule env.answering_settings)
  have "(''accepted'', MBool (ar_allowed v)) \<in> set (evaluation_metric i (es_policy_mode s) req origin v)"
    by (cases req) (simp_all add: evaluation_metric_def PolicyEvaluation_into_def RawPolicyEvaluation_into_def Let_def)
  with s Inr assms show ?thesis
    by (simp add: service_evaluate_def pure_result_def finish_registered [OF s] get_policy_mode_def
        add_policy_evaluation_def)
qed

end
