(* ===== verification/Request_Pool.thy ===== *)
theory Request_Pool
  imports Server_Api "HOL-Library.Multiset"
begin

text \<open>
  Concurrent requests (\<^verbatim>\<open>acquire_semaphore_and_evaluate\<close> in \<^verbatim>\<open>policy-server/src/api/handlers.rs\<close>,
  \<^verbatim>\<open>ApiServerState\<close>).  Handlers run concurrently; each takes a permit of a semaphore that is
  created with the size of the pool, evaluates on a blocking thread and gives the permit back
  when it ends.  The state of the server is the number of free permits, the handlers that queue
  for one, in order, and the evaluations on the blocking threads, each with or without its
  handler: when a client closes its connection the handler is dropped and so is its permit,
  but an evaluation that has started cannot be stopped.  The evaluation of a request is a
  parameter.
\<close>

section \<open>The steps\<close>

record ('q, 'a) pool_state =
  pl_permits :: nat
  pl_queue :: "'q list"
  pl_attached :: "'q multiset"
  pl_detached :: "'q multiset"
  pl_answers :: "('q \<times> 'a) list"

definition pool_new :: "nat \<Rightarrow> ('q, 'a) pool_state" where
  "pool_new pool_size =
     \<lparr> pl_permits = pool_size, pl_queue = [], pl_attached = {#}, pl_detached = {#}, pl_answers = [] \<rparr>"

datatype pool_event = Arrive | Acquire | Answer | Leave_queue | Disconnect | Run_out

inductive pool_step ::
  "('q \<Rightarrow> 'a) \<Rightarrow> pool_event \<Rightarrow> ('q, 'a) pool_state \<Rightarrow> ('q, 'a) pool_state \<Rightarrow> bool"
  for eval :: "'q \<Rightarrow> 'a" where
  arrive: "pool_step eval Arrive s (s \<lparr> pl_queue := pl_queue s @ [q] \<rparr>)"
| acquire: "pl_permits s = Suc n \<Longrightarrow> pl_queue s = q # qs \<Longrightarrow>
    pool_step eval Acquire s
      (s \<lparr> pl_permits := n, pl_queue := qs, pl_attached := add_mset q (pl_attached s) \<rparr>)"
| answer: "pl_attached s = add_mset q rest \<Longrightarrow>
    pool_step eval Answer s
      (s \<lparr> pl_permits := Suc (pl_permits s), pl_attached := rest,
           pl_answers := pl_answers s @ [(q, eval q)] \<rparr>)"
| leave_queue: "pl_queue s = pre @ q # post \<Longrightarrow>
    pool_step eval Leave_queue s (s \<lparr> pl_queue := pre @ post \<rparr>)"
| disconnect: "pl_attached s = add_mset q rest \<Longrightarrow>
    pool_step eval Disconnect s
      (s \<lparr> pl_permits := Suc (pl_permits s), pl_attached := rest,
           pl_detached := add_mset q (pl_detached s) \<rparr>)"
| run_out: "pl_detached s = add_mset q rest \<Longrightarrow>
    pool_step eval Run_out s (s \<lparr> pl_detached := rest \<rparr>)"

inductive_cases pool_stepE: "pool_step eval ev s t"

inductive pool_run ::
  "('q \<Rightarrow> 'a) \<Rightarrow> ('q, 'a) pool_state \<Rightarrow> pool_event list \<Rightarrow> ('q, 'a) pool_state \<Rightarrow> bool"
  for eval :: "'q \<Rightarrow> 'a" and s :: "('q, 'a) pool_state" where
  run_start: "pool_run eval s [] s"
| run_step: "pool_run eval s evs t \<Longrightarrow> pool_step eval ev t u \<Longrightarrow> pool_run eval s (evs @ [ev]) u"

definition running :: "('q, 'a) pool_state \<Rightarrow> nat" where
  "running s = size (pl_attached s) + size (pl_detached s)"

lemma pool_run_invariant:
  assumes "pool_run eval s evs t" and "I s"
    and "\<And>u ev v. I u \<Longrightarrow> ev \<in> set evs \<Longrightarrow> pool_step eval ev u v \<Longrightarrow> I v"
  shows "I t"
  using assms
proof induction
  case (run_step evs t ev u)
  have "I t" by (rule run_step.IH [OF run_step.prems(1)]) (rule run_step.prems(2), simp_all)
  then show ?case by (rule run_step.prems(2) [OF _ _ run_step.hyps(2)]) simp
qed

section \<open>Invariants\<close>

text \<open>A permit is free or held by the handler of a running evaluation.\<close>

lemma permits_conserved:
  assumes "pool_run eval (pool_new pool_size) evs s"
  shows "pl_permits s + size (pl_attached s) = pool_size"
  by (rule pool_run_invariant [OF assms, where I = "\<lambda>s. pl_permits s + size (pl_attached s) = pool_size"])
    (auto simp: pool_new_def elim!: pool_stepE)

lemma detached_only_by_disconnect:
  assumes "pool_run eval (pool_new pool_size) evs s" and "Disconnect \<notin> set evs"
  shows "pl_detached s = {#}"
  by (rule pool_run_invariant [OF assms(1), where I = "\<lambda>s. pl_detached s = {#}"])
    (use assms(2) in \<open>auto simp: pool_new_def elim!: pool_stepE\<close>)

lemma answers_evaluated:
  assumes "pool_run eval (pool_new pool_size) evs s"
  shows "\<forall>(q, a)\<in>set (pl_answers s). a = eval q"
  by (rule pool_run_invariant [OF assms, where I = "\<lambda>s. \<forall>(q, a)\<in>set (pl_answers s). a = eval q"])
    (auto simp: pool_new_def elim!: pool_stepE)

text \<open>Nobody waits while a permit is free or an evaluation can end.\<close>

lemma waiting_progress:
  assumes "pool_run eval (pool_new (Suc n)) evs s" and "pl_queue s \<noteq> []"
  shows "\<exists>ev t. ev \<in> {Acquire, Answer} \<and> pool_step eval ev s t"
proof (cases "pl_permits s")
  case 0
  with permits_conserved [OF assms(1)] have "size (pl_attached s) = Suc n" by simp
  then obtain q rest where "pl_attached s = add_mset q rest" by (metis size_eq_Suc_imp_eq_union)
  then show ?thesis by (blast intro: answer)
next
  case (Suc m)
  moreover obtain q qs where "pl_queue s = q # qs" using assms(2) by (cases "pl_queue s") auto
  ultimately show ?thesis by (blast intro: acquire)
qed

lemma one_detached:
  assumes "pl_permits s = 1" "pl_queue s = []" "pl_attached s = {#}"
  shows "\<exists>t. pool_run eval s [Arrive, Acquire, Disconnect] t \<and> pl_permits t = 1 \<and> pl_queue t = [] \<and>
    pl_attached t = {#} \<and> pl_detached t = add_mset q (pl_detached s) \<and> pl_answers t = pl_answers s"
proof -
  let ?a = "s \<lparr> pl_queue := pl_queue s @ [q] \<rparr>"
  let ?b = "?a \<lparr> pl_permits := 0, pl_queue := [], pl_attached := add_mset q (pl_attached ?a) \<rparr>"
  let ?c = "?b \<lparr> pl_permits := Suc (pl_permits ?b), pl_attached := {#}, pl_detached := add_mset q (pl_detached ?b) \<rparr>"
  have "pool_step eval Arrive s ?a" by (rule arrive)
  moreover have "pool_step eval Acquire ?a ?b" by (rule acquire) (simp_all add: assms)
  moreover have "pool_step eval Disconnect ?b ?c" by (rule disconnect) (simp add: assms)
  ultimately have "pool_run eval s ((([] @ [Arrive]) @ [Acquire]) @ [Disconnect]) ?c"
    by (blast intro: run_start run_step)
  then show ?thesis using assms by auto
qed

lemma pool_run_trans:
  "pool_run eval t evs' u \<Longrightarrow> pool_run eval s evs t \<Longrightarrow> pool_run eval s (evs @ evs') u"
  by (induction rule: pool_run.induct) (auto simp flip: append_assoc intro: run_step)

lemma empty_pool_stuck:
  assumes "pool_run eval (pool_new 0) evs s"
  shows "pl_attached s = {#} \<and> pl_detached s = {#} \<and> pl_answers s = []"
  by (rule conjunct2 [OF pool_run_invariant [OF assms,
        where I = "\<lambda>s. pl_permits s = 0 \<and> pl_attached s = {#} \<and> pl_detached s = {#} \<and> pl_answers s = []"]])
    (auto simp: pool_new_def elim!: pool_stepE)

section \<open>Properties\<close>

text \<open>The requests of the API and their evaluation.\<close>

type_synonym api_request = "string \<times> ValidateRequest \<times> RequestOrigin"

definition api_evaluate ::
  "('e, 'm) server_library \<Rightarrow> nat \<Rightarrow> EvaluationEnvironment \<Rightarrow> api_request \<Rightarrow>
   EvaluationError + AdmissionResponse" where
  "api_evaluate lib elapsed env q =
     (case q of (policy_id, req, origin) \<Rightarrow> fst (service_evaluate lib elapsed env policy_id req origin))"



text \<open>
  Abandoned requests are outside this bound: with a single permit, clients that send a request
  and close the connection once it is being evaluated leave any number of evaluations running.
\<close>

theorem abandoned_evaluations_unbounded:
  "\<exists>evs s. pool_run (api_evaluate lib elapsed env) (pool_new 1) evs s \<and> running s = n \<and>
     pl_permits s = 1 \<and> pl_queue s = [] \<and> pl_attached s = {#}"
proof (induction n)
  case 0
  have "pool_run (api_evaluate lib elapsed env) (pool_new 1) [] (pool_new 1)" by (rule run_start)
  then show ?case by (auto simp: running_def pool_new_def intro!: exI)
next
  case (Suc n)
  then obtain evs s where s: "pool_run (api_evaluate lib elapsed env) (pool_new 1) evs s"
    "running s = n" "pl_permits s = 1" "pl_queue s = []" "pl_attached s = {#}" by blast
  from one_detached [OF s(3-5)] obtain t where t:
    "pool_run (api_evaluate lib elapsed env) s [Arrive, Acquire, Disconnect] t"
    "pl_permits t = 1" "pl_queue t = []" "pl_attached t = {#}"
    "pl_detached t = add_mset undefined (pl_detached s)" by blast
  then have "running t = Suc n" using s(2,5) by (simp add: running_def)
  with t(2-4) pool_run_trans [OF t(1) s(1)] show ?case by blast
qed

end
