(* ===== verification/Tls_Reload.thy ===== *)
theory Tls_Reload
  imports Config
begin

text \<open>
  The TLS configuration of the server and its reload (\<^verbatim>\<open>policy-server/src/certs.rs\<close>, Linux): the
  watches on the directories of the files, the first load, and the loop that reacts to the
  events of inotify.  Files change over time, so every load is given the files of its moment.
\<close>

section \<open>Paths\<close>

text \<open>
  The components of a path, as the standard library compares paths: empty components and every
  \<^verbatim>\<open>.\<close> but a leading one are dropped, and the root is a component.
\<close>

definition path_components :: "string \<Rightarrow> string list" where
  "path_components path =
     (let parts = filter (\<lambda>c. c \<noteq> []) (split_on (CHR ''/'') path) in
      if prefix ''/'' path then ''/'' # filter (\<lambda>c. c \<noteq> ''.'') parts
      else (case parts of [] \<Rightarrow> [] | c # cs \<Rightarrow> c # filter (\<lambda>c. c \<noteq> ''.'') cs))"

definition path_parent :: "string \<Rightarrow> string list option" where
  "path_parent path =
     (let cs = path_components path in if cs = [] \<or> last cs = ''/'' then None else Some (butlast cs))"

definition path_file_name :: "string \<Rightarrow> string option" where
  "path_file_name path =
     (let cs = path_components path in
      if cs = [] \<or> last cs \<in> {''/'', ''.'', ''..''} then None else Some (last cs))"

definition parent_dir :: "string \<Rightarrow> string list" where
  "parent_dir path =
     (case path_parent path of
        Some parent \<Rightarrow> if parent \<noteq> [] then parent else [''.'']
      | None \<Rightarrow> [''.''])"

section \<open>Loading\<close>

text \<open>
  The libraries: the PEM iterators over the contents of a file, the root certificate store (the
  certificates it accepted), the verifier of client certificates, the server configuration, and
  inotify, whose watches are numbers.
\<close>

record ('v, 'cfg) tls_library =
  tl_pem_certs :: "string \<Rightarrow> (string + string) list"
  tl_pem_keys :: "string \<Rightarrow> (string + string) list"
  tl_parsable :: "string \<Rightarrow> bool"
  tl_client_verifier :: "string list \<Rightarrow> string + 'v"
  tl_server_config :: "'v option \<Rightarrow> string list \<Rightarrow> string \<Rightarrow> string + 'cfg"
  tl_inotify_init :: "string + unit"
  tl_add_watch :: "string list \<Rightarrow> string + nat"
  tl_event_stream :: "string + unit"
  tl_display_dir :: "string list \<Rightarrow> string"
  tl_debug_dirs :: "string list list \<Rightarrow> string"

type_synonym files = "string \<Rightarrow> string + string"

definition oks :: "('e + 'a) list \<Rightarrow> 'a list" where
  "oks rs = List.map_filter (\<lambda>r. case r of Inr x \<Rightarrow> Some x | Inl _ \<Rightarrow> None) rs"

definition build_tls_server_config ::
  "('v, 'cfg) tls_library \<Rightarrow> string list \<Rightarrow> string \<Rightarrow> 'v option \<Rightarrow> string + 'cfg" where
  "build_tls_server_config lib cert key client_verifier = tl_server_config lib client_verifier cert key"

definition load_server_cert_and_key ::
  "('v, 'cfg) tls_library \<Rightarrow> files \<Rightarrow> string \<Rightarrow> string \<Rightarrow> string + string list \<times> string" where
  "load_server_cert_and_key lib fs cert_file key_file =
     try_then (fs cert_file) (\<lambda>cert_contents.
     try_then (fs key_file) (\<lambda>key_contents.
       (let certs = oks (tl_pem_certs lib cert_contents) in
        if length certs \<noteq> 1 then
          Err (''Expected exactly one certificate in certificate file, found '' @ show_nat (length certs))
        else
          (let keys = oks (tl_pem_keys lib key_contents) in
           if length keys \<noteq> 1 then
             Err (''Expected exactly one key in key file, found '' @ show_nat (length keys))
           else Ok (certs, keys ! 0)))))"

definition load_client_ca_certs ::
  "('v, 'cfg) tls_library \<Rightarrow> files \<Rightarrow> string list \<Rightarrow> string + 'v" where
  "load_client_ca_certs lib fs client_cas =
     try_then (try_fold (\<lambda>store client_ca_file.
         try_then (fs client_ca_file) (\<lambda>client_ca_contents.
           Ok (store @ filter (tl_parsable lib) (oks (tl_pem_certs lib client_ca_contents)))))
       [] client_cas) (\<lambda>store.
     map_err (\<lambda>e. ''Cannot build client verifier: '' @ e) (tl_client_verifier lib store))"

section \<open>Which files an event changes\<close>

definition KUBELET_DATA_DIR :: string where
  "KUBELET_DATA_DIR = ''..data''"

record ChangedFiles =
  cg_cert :: bool
  cg_key :: bool
  cg_client_ca :: bool

definition changed_files :: "TlsConfig \<Rightarrow> string list list \<Rightarrow> string \<Rightarrow> ChangedFiles" where
  "changed_files tls dirs event_name =
     (let is_changed = (\<lambda>path. list_ex (\<lambda>dir. parent_dir path = dir) dirs \<and>
            (event_name = KUBELET_DATA_DIR \<or> path_file_name path = Some event_name)) in
      \<lparr> cg_cert = is_changed (tls_cert_file tls), cg_key = is_changed (tls_key_file tls),
        cg_client_ca = list_ex is_changed (tls_client_ca_file tls) \<rparr>)"

section \<open>The watch\<close>

text \<open>
  The variables of the watch task, and the configuration the server uses (\<^verbatim>\<open>reload_from_config\<close>
  replaces it).
\<close>

record ('v, 'cfg) watch_state =
  wt_cert :: "string list"
  wt_key :: string
  wt_client_verifier :: "'v option"
  wt_cert_changed :: bool
  wt_key_changed :: bool
  wt_client_ca_changed :: bool
  wt_active :: 'cfg

datatype inotify_event =
    Read_interrupted
  | Read_error string
  | Event (ie_overflow: bool) (ie_wd: nat) (ie_ignored: bool) (ie_name: "string option")
  | Stream_end

text \<open>
  The set of directories is a list without duplicates; its order only decides which of several
  failing watches is reported.
\<close>

definition watched_directories :: "TlsConfig \<Rightarrow> string list list" where
  "watched_directories tls =
     remdups (map parent_dir (tls_cert_file tls # tls_key_file tls # tls_client_ca_file tls))"

definition add_watches ::
  "('v, 'cfg) tls_library \<Rightarrow> string list list \<Rightarrow> string + (nat \<rightharpoonup> string list list)" where
  "add_watches lib dirs =
     try_fold (\<lambda>watched dir.
       try_then (map_err (\<lambda>e. ''Cannot watch directory '' @ tl_display_dir lib dir @ '': '' @ e)
         (tl_add_watch lib dir)) (\<lambda>watch.
       Ok (watched(watch \<mapsto> (case watched watch of None \<Rightarrow> [] | Some ds \<Rightarrow> ds) @ [dir]))))
     Map.empty dirs"

definition create_tls_config ::
  "('v, 'cfg) tls_library \<Rightarrow> files \<Rightarrow> TlsConfig \<Rightarrow> string + (nat \<rightharpoonup> string list list) \<times> ('v, 'cfg) watch_state" where
  "create_tls_config lib fs tls =
     try_then (map_err (\<lambda>e. ''Cannot initialize inotify: '' @ e) (tl_inotify_init lib)) (\<lambda>_.
     try_then (add_watches lib (watched_directories tls)) (\<lambda>watched_dirs.
     try_then (load_server_cert_and_key lib fs (tls_cert_file tls) (tls_key_file tls)) (\<lambda>(cert, key).
     try_then (if tls_client_ca_file tls = [] then Ok None
               else map_ok Some (load_client_ca_certs lib fs (tls_client_ca_file tls))) (\<lambda>client_verifier.
     try_then (build_tls_server_config lib cert key client_verifier) (\<lambda>initial_config.
     try_then (map_err (\<lambda>e. ''Cannot create inotify event stream: '' @ e) (tl_event_stream lib)) (\<lambda>_.
       Ok (watched_dirs,
           \<lparr> wt_cert = cert, wt_key = key, wt_client_verifier = client_verifier, wt_cert_changed = False,
             wt_key_changed = False, wt_client_ca_changed = False, wt_active = initial_config \<rparr>)))))))"

text \<open>
  The reload after the flags were set.  \<open>Inl\<close> is a \<^verbatim>\<open>continue\<close> in the middle of it, with the
  variables as they are at that point.
\<close>

definition reload_client_ca ::
  "('v, 'cfg) tls_library \<Rightarrow> files \<Rightarrow> TlsConfig \<Rightarrow> ('v, 'cfg) watch_state \<Rightarrow>
   ('v, 'cfg) watch_state + ('v, 'cfg) watch_state" where
  "reload_client_ca lib fs tls s =
     (if wt_client_ca_changed s then
        (let s = s \<lparr> wt_client_ca_changed := False \<rparr> in
         case load_client_ca_certs lib fs (tls_client_ca_file tls) of
           Inr cv \<Rightarrow> Inr (s \<lparr> wt_client_verifier := Some cv \<rparr>)
         | Inl _ \<Rightarrow> Inl s)
      else Inr s)"

definition reload_server_certs ::
  "('v, 'cfg) tls_library \<Rightarrow> files \<Rightarrow> TlsConfig \<Rightarrow> ('v, 'cfg) watch_state \<Rightarrow>
   ('v, 'cfg) watch_state + ('v, 'cfg) watch_state" where
  "reload_server_certs lib fs tls s =
     (if wt_key_changed s \<and> wt_cert_changed s then
        (let s = s \<lparr> wt_cert_changed := False, wt_key_changed := False \<rparr> in
         case load_server_cert_and_key lib fs (tls_cert_file tls) (tls_key_file tls) of
           Inr (cert, key) \<Rightarrow> Inr (s \<lparr> wt_cert := cert, wt_key := key \<rparr>)
         | Inl _ \<Rightarrow> Inl s)
      else Inr s)"

definition activate :: "('v, 'cfg) tls_library \<Rightarrow> ('v, 'cfg) watch_state \<Rightarrow> ('v, 'cfg) watch_state" where
  "activate lib s =
     (case build_tls_server_config lib (wt_cert s) (wt_key s) (wt_client_verifier s) of
        Inr server_config \<Rightarrow> s \<lparr> wt_active := server_config \<rparr>
      | Inl _ \<Rightarrow> s)"

definition reload ::
  "('v, 'cfg) tls_library \<Rightarrow> files \<Rightarrow> TlsConfig \<Rightarrow> ('v, 'cfg) watch_state \<Rightarrow> ('v, 'cfg) watch_state" where
  "reload lib fs tls s =
     (case reload_client_ca lib fs tls s of
        Inl s \<Rightarrow> s
      | Inr s \<Rightarrow>
          (case reload_server_certs lib fs tls s of
             Inl s \<Rightarrow> s
           | Inr s \<Rightarrow> activate lib s))"

definition note_changes ::
  "('v, 'cfg) tls_library \<Rightarrow> files \<Rightarrow> TlsConfig \<Rightarrow> ChangedFiles \<Rightarrow> ('v, 'cfg) watch_state \<Rightarrow>
   ('v, 'cfg) watch_state" where
  "note_changes lib fs tls changed s =
     (let s = s \<lparr> wt_cert_changed := wt_cert_changed s \<or> cg_cert changed,
                  wt_key_changed := wt_key_changed s \<or> cg_key changed,
                  wt_client_ca_changed := wt_client_ca_changed s \<or> cg_client_ca changed \<rparr>
      in if \<not> wt_client_ca_changed s \<and> \<not> (wt_cert_changed s \<and> wt_key_changed s) then s
         else reload lib fs tls s)"

text \<open>One turn of the loop: \<open>Inl\<close> is the error the task ends with.\<close>

fun watch_step ::
  "('v, 'cfg) tls_library \<Rightarrow> TlsConfig \<Rightarrow> (nat \<rightharpoonup> string list list) \<Rightarrow> files \<Rightarrow> inotify_event \<Rightarrow>
   ('v, 'cfg) watch_state \<Rightarrow> string + ('v, 'cfg) watch_state" where
  "watch_step lib tls watched fs Read_interrupted s = Ok s"
| "watch_step lib tls watched fs (Read_error e) s = Err (''Cannot read inotify event: '' @ e)"
| "watch_step lib tls watched fs (Event overflow wd ignored name) s =
     (if overflow then
        Ok (note_changes lib fs tls
          \<lparr> cg_cert = True, cg_key = True, cg_client_ca = (tls_client_ca_file tls \<noteq> []) \<rparr> s)
      else
        (case watched wd of
           None \<Rightarrow> Ok s
         | Some dirs \<Rightarrow>
             if ignored then
               Err (''Directory '' @ tl_debug_dirs lib dirs @
                    '' is no longer watched, changes of the TLS files in it cannot be detected'')
             else (case name of
                     None \<Rightarrow> Ok s
                   | Some name \<Rightarrow> Ok (note_changes lib fs tls (changed_files tls dirs name) s))))"
| "watch_step lib tls watched fs Stream_end s = Err ''Inotify event stream ended''"

section \<open>Runs of the watch\<close>

inductive watch_run ::
  "('v, 'cfg) tls_library \<Rightarrow> TlsConfig \<Rightarrow> (nat \<rightharpoonup> string list list) \<Rightarrow> ('v, 'cfg) watch_state \<Rightarrow>
   (files \<times> inotify_event) list \<Rightarrow> ('v, 'cfg) watch_state \<Rightarrow> bool"
  for lib tls watched s\<^sub>0 where
  started: "watch_run lib tls watched s\<^sub>0 [] s\<^sub>0"
| turn: "watch_run lib tls watched s\<^sub>0 tr s \<Longrightarrow> watch_step lib tls watched fs e s = Ok s' \<Longrightarrow>
     watch_run lib tls watched s\<^sub>0 (tr @ [(fs, e)]) s'"

text \<open>
  A certificate, key and client verifier that were each loaded at one of the moments \<open>F\<close>, the
  certificate and its key at the same moment.  There is a verifier exactly when the
  configuration names client CAs.
\<close>

definition loaded_together ::
  "('v, 'cfg) tls_library \<Rightarrow> TlsConfig \<Rightarrow> files set \<Rightarrow> string list \<Rightarrow> string \<Rightarrow> 'v option \<Rightarrow> bool" where
  "loaded_together lib tls F cert key v \<longleftrightarrow>
     (\<exists>fs\<in>F. load_server_cert_and_key lib fs (tls_cert_file tls) (tls_key_file tls) = Ok (cert, key)) \<and>
     (case v of
        None \<Rightarrow> tls_client_ca_file tls = []
      | Some cv \<Rightarrow> tls_client_ca_file tls \<noteq> [] \<and>
          (\<exists>fs\<in>F. load_client_ca_certs lib fs (tls_client_ca_file tls) = Ok cv))"

definition active_loaded ::
  "('v, 'cfg) tls_library \<Rightarrow> TlsConfig \<Rightarrow> files set \<Rightarrow> 'cfg \<Rightarrow> bool" where
  "active_loaded lib tls F cfg \<longleftrightarrow>
     (\<exists>cert key v. loaded_together lib tls F cert key v \<and> build_tls_server_config lib cert key v = Ok cfg)"

definition watch_inv ::
  "('v, 'cfg) tls_library \<Rightarrow> TlsConfig \<Rightarrow> files set \<Rightarrow> ('v, 'cfg) watch_state \<Rightarrow> bool" where
  "watch_inv lib tls F s \<longleftrightarrow>
     loaded_together lib tls F (wt_cert s) (wt_key s) (wt_client_verifier s) \<and>
     active_loaded lib tls F (wt_active s) \<and>
     (wt_client_ca_changed s \<longrightarrow> tls_client_ca_file tls \<noteq> [])"

lemma loaded_together_mono:
  "loaded_together lib tls F cert key v \<Longrightarrow> F \<subseteq> F' \<Longrightarrow> loaded_together lib tls F' cert key v"
  by (auto simp: loaded_together_def split: option.splits)

lemma active_loaded_mono: "active_loaded lib tls F cfg \<Longrightarrow> F \<subseteq> F' \<Longrightarrow> active_loaded lib tls F' cfg"
  unfolding active_loaded_def using loaded_together_mono by blast

lemma watch_inv_mono: "watch_inv lib tls F s \<Longrightarrow> F \<subseteq> F' \<Longrightarrow> watch_inv lib tls F' s"
  by (auto simp: watch_inv_def intro: loaded_together_mono active_loaded_mono)

lemma reload_client_ca_inv:
  assumes "watch_inv lib tls F s" and "fs \<in> F"
  shows "case reload_client_ca lib fs tls s of Inl s' \<Rightarrow> watch_inv lib tls F s' | Inr s' \<Rightarrow> watch_inv lib tls F s'"
  using assms
  by (auto simp: reload_client_ca_def watch_inv_def loaded_together_def Let_def split: sum.split)

lemma reload_server_certs_inv:
  assumes "watch_inv lib tls F s" and "fs \<in> F"
  shows "case reload_server_certs lib fs tls s of Inl s' \<Rightarrow> watch_inv lib tls F s' | Inr s' \<Rightarrow> watch_inv lib tls F s'"
  using assms
  by (auto simp: reload_server_certs_def watch_inv_def loaded_together_def Let_def split: sum.split)

lemma activate_inv: "watch_inv lib tls F s \<Longrightarrow> watch_inv lib tls F (activate lib s)"
  by (auto simp: activate_def watch_inv_def active_loaded_def split: sum.split)

lemma reload_inv:
  assumes "watch_inv lib tls F s" and "fs \<in> F"
  shows "watch_inv lib tls F (reload lib fs tls s)"
proof -
  note ca = reload_client_ca_inv [OF assms]
  show ?thesis
  proof (cases "reload_client_ca lib fs tls s")
    case (Inr s')
    with ca have "watch_inv lib tls F s'" by simp
    from reload_server_certs_inv [OF this assms(2)] Inr activate_inv show ?thesis
      by (auto simp: reload_def split: sum.split sum.splits)
  qed (use ca in \<open>simp add: reload_def\<close>)
qed

lemma note_changes_inv:
  assumes "watch_inv lib tls F s" and "fs \<in> F" and "cg_client_ca changed \<longrightarrow> tls_client_ca_file tls \<noteq> []"
  shows "watch_inv lib tls F (note_changes lib fs tls changed s)"
proof -
  let ?s = "s \<lparr> wt_cert_changed := wt_cert_changed s \<or> cg_cert changed,
                  wt_key_changed := wt_key_changed s \<or> cg_key changed,
                  wt_client_ca_changed := wt_client_ca_changed s \<or> cg_client_ca changed \<rparr>"
  have "watch_inv lib tls F ?s" using assms(1,3) by (auto simp: watch_inv_def)
  with reload_inv [OF this assms(2)] show ?thesis
    unfolding note_changes_def Let_def by (simp only: split: if_split) simp
qed

lemma watch_step_inv:
  assumes "watch_step lib tls watched fs e s = Ok s'" and "watch_inv lib tls F s" and "fs \<in> F"
  shows "watch_inv lib tls F s'"
proof (cases e)
  case (Event overflow wd ignored name)
  have "changed = changed_files tls dirs n \<Longrightarrow> cg_client_ca changed \<longrightarrow> tls_client_ca_file tls \<noteq> []" for changed dirs n
    by (auto simp: changed_files_def Let_def)
  with Event assms note_changes_inv [OF assms(2,3)] show ?thesis
    by (auto split: if_splits option.splits)
qed (use assms in auto)

lemma watch_run_inv:
  assumes "watch_run lib tls watched s\<^sub>0 tr s" and "watch_inv lib tls {fs\<^sub>0} s\<^sub>0"
  shows "watch_inv lib tls (insert fs\<^sub>0 (fst ` set tr)) s"
  using assms(1)
proof induction
  case started
  with assms(2) show ?case by simp
next
  case (turn tr s fs e s')
  from watch_inv_mono [OF turn.IH] have "watch_inv lib tls (insert fs\<^sub>0 (fst ` set (tr @ [(fs, e)]))) s" by auto
  from watch_step_inv [OF turn.hyps(2) this] show ?case by simp
qed

lemma create_tls_config_inv:
  assumes "create_tls_config lib fs tls = Ok (watched, s)"
  shows "watch_inv lib tls {fs} s"
proof -
  from assms obtain cert key v cfg where ok:
    "load_server_cert_and_key lib fs (tls_cert_file tls) (tls_key_file tls) = Ok (cert, key)"
    "(if tls_client_ca_file tls = [] then Ok None
      else map_ok Some (load_client_ca_certs lib fs (tls_client_ca_file tls))) = Ok v"
    "build_tls_server_config lib cert key v = Ok cfg"
    "s = \<lparr> wt_cert = cert, wt_key = key, wt_client_verifier = v, wt_cert_changed = False,
       wt_key_changed = False, wt_client_ca_changed = False, wt_active = cfg \<rparr>"
    by (auto simp: create_tls_config_def result_simps simp del: map_ok_Ok_iff)
  have "loaded_together lib tls {fs} cert key v"
    using ok(1,2) by (auto simp: loaded_together_def result_simps split: if_splits)
  with ok(3,4) show ?thesis by (auto simp: watch_inv_def active_loaded_def)
qed

section \<open>Properties\<close>

text \<open>
  C25: what a reload can put into service.  After any events, read with any contents of the
  files, the configuration in use was built from a certificate and key of one load and, if the
  configuration names client CAs, with a verifier loaded from all of them: a reload never mixes
  the certificate of one load with the key of another, and never turns client
  authentication off (or on).
\<close>

theorem reload_keeps_client_authentication:
  assumes "create_tls_config lib fs\<^sub>0 tls = Ok (watched, s\<^sub>0)" and "watch_run lib tls watched s\<^sub>0 tr s"
  shows "\<exists>cert key v. build_tls_server_config lib cert key v = Ok (wt_active s) \<and>
     (\<exists>fs\<in>insert fs\<^sub>0 (fst ` set tr).
        load_server_cert_and_key lib fs (tls_cert_file tls) (tls_key_file tls) = Ok (cert, key)) \<and>
     (if tls_client_ca_file tls = [] then v = None
      else \<exists>fs\<in>insert fs\<^sub>0 (fst ` set tr). \<exists>cv. load_client_ca_certs lib fs (tls_client_ca_file tls) = Ok cv \<and> v = Some cv)"
proof -
  from watch_run_inv [OF assms(2) create_tls_config_inv [OF assms(1)]]
  obtain cert key v where "loaded_together lib tls (insert fs\<^sub>0 (fst ` set tr)) cert key v"
    "build_tls_server_config lib cert key v = Ok (wt_active s)"
    by (auto simp: watch_inv_def active_loaded_def)
  then show ?thesis
    by (intro exI [of _ cert] exI [of _ key] exI [of _ v])
      (cases v, auto simp: loaded_together_def)
qed

text \<open>
  An update of the volume takes effect.  When the kubelet swaps the \<^verbatim>\<open>..data\<close> link of a
  watched directory that holds the certificate and the key, and the new files load, the server
  uses a configuration built from them, with a verifier from the new client CAs if those were
  swapped (or still waited) too, and otherwise with the verifier it had.
\<close>

theorem volume_swap_takes_effect:
  assumes "watched wd = Some dirs"
    and "parent_dir (tls_cert_file tls) \<in> set dirs" and "parent_dir (tls_key_file tls) \<in> set dirs"
    and "load_server_cert_and_key lib fs (tls_cert_file tls) (tls_key_file tls) = Ok (cert, key)"
    and "if wt_client_ca_changed s \<or> (\<exists>ca\<in>set (tls_client_ca_file tls). parent_dir ca \<in> set dirs)
         then \<exists>cv. load_client_ca_certs lib fs (tls_client_ca_file tls) = Ok cv \<and> v = Some cv
         else v = wt_client_verifier s"
    and "build_tls_server_config lib cert key v = Ok cfg"
  shows "\<exists>s'. watch_step lib tls watched fs (Event False wd False (Some KUBELET_DATA_DIR)) s = Ok s' \<and>
     wt_active s' = cfg \<and> \<not> wt_cert_changed s' \<and> \<not> wt_key_changed s' \<and> \<not> wt_client_ca_changed s'"
proof -
  let ?ca = "wt_client_ca_changed s \<or> (\<exists>ca\<in>set (tls_client_ca_file tls). parent_dir ca \<in> set dirs)"
  let ?s = "s \<lparr> wt_cert_changed := True, wt_key_changed := True, wt_client_ca_changed := ?ca \<rparr>"
  let ?t = "s \<lparr> wt_cert_changed := True, wt_key_changed := True, wt_client_ca_changed := False, wt_client_verifier := v \<rparr>"
  have "changed_files tls dirs KUBELET_DATA_DIR =
      \<lparr> cg_cert = True, cg_key = True, cg_client_ca = (\<exists>ca\<in>set (tls_client_ca_file tls). parent_dir ca \<in> set dirs) \<rparr>"
    using assms(2,3) by (auto simp: changed_files_def Let_def list_ex_iff)
  then have step: "watch_step lib tls watched fs (Event False wd False (Some KUBELET_DATA_DIR)) s =
      Ok (reload lib fs tls ?s)"
    using assms(1) by (simp add: note_changes_def Let_def)
  have "reload_client_ca lib fs tls ?s = Inr ?t"
    using assms(5) by (auto simp: reload_client_ca_def split: if_splits)
  then have "reload lib fs tls ?s = ?t \<lparr> wt_cert_changed := False, wt_key_changed := False, wt_cert := cert,
      wt_key := key, wt_active := cfg \<rparr>"
    using assms(4,6) by (simp add: reload_def reload_server_certs_def activate_def)
  with step show ?thesis by simp
qed

text \<open>
  A new client CA can be loaded and still not be used: when the certificate and key are
  reloaded in the same turn and that load fails, the loop goes on with the flag of the client CA
  already cleared.  The configuration in use keeps the old verifier until some later reload.
\<close>

theorem loaded_client_ca_not_applied:
  assumes "wt_client_ca_changed s" and "wt_cert_changed s" and "wt_key_changed s"
    and "load_client_ca_certs lib fs (tls_client_ca_file tls) = Ok cv"
    and "load_server_cert_and_key lib fs (tls_cert_file tls) (tls_key_file tls) = Err e"
  shows "reload lib fs tls s = s \<lparr> wt_client_ca_changed := False, wt_cert_changed := False,
     wt_key_changed := False, wt_client_verifier := Some cv \<rparr>"
  using assms by (simp add: reload_def reload_client_ca_def reload_server_certs_def)

text \<open>Files that contain one certificate or key each, in two volumes; the configuration is what it was built from.\<close>

definition plain_tls :: "(string list, string list option \<times> string list \<times> string) tls_library" where
  "plain_tls =
     \<lparr> tl_pem_certs = (\<lambda>s. [Ok s]), tl_pem_keys = (\<lambda>s. [Ok s]), tl_parsable = (\<lambda>_. True),
       tl_client_verifier = Ok, tl_server_config = (\<lambda>v c k. Ok (v, c, k)), tl_inotify_init = Ok (),
       tl_add_watch = (\<lambda>dir. Ok (if dir = [''/'', ''pki''] then 0 else 1)), tl_event_stream = Ok (),
       tl_display_dir = concat, tl_debug_dirs = (\<lambda>_. []) \<rparr>"

definition two_volumes :: TlsConfig where
  "two_volumes =
     \<lparr> tls_cert_file = ''/pki/tls.crt'', tls_key_file = ''/pki/tls.key'',
       tls_client_ca_file = [''/client-ca/client-ca.crt''] \<rparr>"

definition two_watches :: "nat \<rightharpoonup> string list list" where
  "two_watches = [0 \<mapsto> [[''/'', ''pki'']], 1 \<mapsto> [[''/'', ''client-ca'']]]"

definition first_state :: "(string list, string list option \<times> string list \<times> string) watch_state" where
  "first_state =
     \<lparr> wt_cert = [''old''], wt_key = ''old'', wt_client_verifier = Some [''old''], wt_cert_changed = False,
       wt_key_changed = False, wt_client_ca_changed = False, wt_active = (Some [''old''], [''old''], ''old'') \<rparr>"

lemma split_on_case:
  "split_on c (x # xs) = (if x = c then [] # split_on c xs else (case split_on c xs of y # ys \<Rightarrow> (x # y) # ys))"
  by (cases "split_on c xs") simp_all

lemma two_volumes_dirs:
  "parent_dir ''/pki/tls.crt'' = [''/'', ''pki'']" "parent_dir ''/pki/tls.key'' = [''/'', ''pki'']"
  "parent_dir ''/client-ca/client-ca.crt'' = [''/'', ''client-ca'']"
  by (simp_all add: parent_dir_def path_parent_def path_components_def Let_def split_on_case del: split_on.simps(2))

lemma create_two_volumes: "create_tls_config plain_tls (\<lambda>_. Ok ''old'') two_volumes = Ok (two_watches, first_state)"
  by (simp add: create_tls_config_def add_watches_def watched_directories_def two_volumes_def two_volumes_dirs
      load_server_cert_and_key_def load_client_ca_certs_def build_tls_server_config_def plain_tls_def oks_def
      map_filter_simps two_watches_def first_state_def)

theorem volume_swap_takes_effect_witness:
  "\<exists>s'. watch_step plain_tls two_volumes two_watches (\<lambda>_. Ok ''new'') (Event False 0 False (Some ''..data'')) first_state =
       Ok s' \<and> wt_active s' = (Some [''old''], [''new''], ''new'')"
proof -
  have "two_watches 0 = Some [[''/'', ''pki'']]" by (simp add: two_watches_def)
  moreover have "parent_dir (tls_cert_file two_volumes) \<in> set [[''/'', ''pki'']]"
    "parent_dir (tls_key_file two_volumes) \<in> set [[''/'', ''pki'']]"
    by (simp_all add: two_volumes_def two_volumes_dirs)
  moreover have "load_server_cert_and_key plain_tls (\<lambda>_. Ok ''new'') (tls_cert_file two_volumes)
      (tls_key_file two_volumes) = Ok ([''new''], ''new'')"
    by (simp add: load_server_cert_and_key_def plain_tls_def oks_def map_filter_simps)
  moreover have "if wt_client_ca_changed first_state \<or>
        (\<exists>ca\<in>set (tls_client_ca_file two_volumes). parent_dir ca \<in> set [[''/'', ''pki'']])
      then \<exists>cv. load_client_ca_certs plain_tls (\<lambda>_. Ok ''new'') (tls_client_ca_file two_volumes) = Ok cv \<and>
        Some [''old''] = Some cv
      else Some [''old''] = wt_client_verifier first_state"
    by (simp add: first_state_def two_volumes_def two_volumes_dirs)
  moreover have "build_tls_server_config plain_tls [''new''] ''new'' (Some [''old'']) = Ok (Some [''old''], [''new''], ''new'')"
    by (simp add: build_tls_server_config_def plain_tls_def)
  ultimately have "\<exists>s'. watch_step plain_tls two_volumes two_watches (\<lambda>_. Ok ''new'')
      (Event False 0 False (Some KUBELET_DATA_DIR)) first_state = Ok s' \<and>
      wt_active s' = (Some [''old''], [''new''], ''new'') \<and>
      \<not> wt_cert_changed s' \<and> \<not> wt_key_changed s' \<and> \<not> wt_client_ca_changed s'"
    by (rule volume_swap_takes_effect)
  then show ?thesis unfolding KUBELET_DATA_DIR_def by blast
qed

theorem reload_keeps_client_authentication_witness:
  "\<exists>s cert key cv. watch_run plain_tls two_volumes two_watches first_state
       [(\<lambda>_. Ok ''new'', Event False 0 False (Some ''..data''))] s \<and>
     wt_active s = (Some [''old''], [''new''], ''new'') \<and>
     build_tls_server_config plain_tls cert key (Some cv) = Ok (wt_active s)"
proof -
  let ?e = "Event False 0 False (Some ''..data'')"
  obtain s where step: "watch_step plain_tls two_volumes two_watches (\<lambda>_. Ok ''new'') ?e first_state = Ok s"
    and active: "wt_active s = (Some [''old''], [''new''], ''new'')"
    by (simp add: two_watches_def note_changes_def changed_files_def KUBELET_DATA_DIR_def two_volumes_def
        two_volumes_dirs first_state_def Let_def reload_def reload_client_ca_def reload_server_certs_def activate_def
        load_server_cert_and_key_def build_tls_server_config_def plain_tls_def oks_def map_filter_simps)
  have run: "watch_run plain_tls two_volumes two_watches first_state [(\<lambda>_. Ok ''new'', ?e)] s"
    using watch_run.turn [OF watch_run.started step] by simp
  have "tls_client_ca_file two_volumes \<noteq> []" by (simp add: two_volumes_def)
  with reload_keeps_client_authentication [OF create_two_volumes run]
  have "\<exists>cert key cv. build_tls_server_config plain_tls cert key (Some cv) = Ok (wt_active s)" by (simp only: if_False) blast
  with run active show ?thesis by blast
qed

end
