(* ===== verification/Server_Bootstrap.thy ===== *)
theory Server_Bootstrap
  imports Fetcher_Errors Request_Pool Tls_Reload "HOL-Library.AList"
begin

text \<open>
  The start of the policy server (\<^verbatim>\<open>policy-server/src/policy_downloader.rs\<close> and
  \<^verbatim>\<open>PolicyServer::new_from_config\<close> with its helpers in \<^verbatim>\<open>policy-server/src/lib.rs\<close>): the Sigstore trust root,
  the download and verification of the policies, their compilation, the evaluation environment
  and the routes.  A map that is iterated is an association list, in the order of the iteration.
\<close>

section \<open>Downloading the policies\<close>

definition policies_to_download :: "policies_config \<Rightarrow> (string \<times> string) list" where
  "policies_to_download policies =
     foldl (\<lambda>flattened_policies (name, policy).
       (case policy of
          Individual p \<Rightarrow> AList.update name (pc_module p) flattened_policies
        | Grouped g \<Rightarrow>
            foldl (\<lambda>flattened_policies (sub_policy_name, sub_policy).
              AList.update (name @ ''/#'' @ sub_policy_name) (gmc_module sub_policy) flattened_policies)
              flattened_policies (gc_policies g)))
       [] policies"

record 'c Downloader =
  dl_verifier :: "'c Verifier option"
  dl_sources :: "Sources option"

definition create_verifier ::
  "('u, 'k, 'x, 'c) verify_library \<Rightarrow> Sources option \<Rightarrow> string \<Rightarrow> string + 'c Verifier" where
  "create_verifier lib sources trust_root =
     map_err VerifyError_to_string (Verifier_new lib sources (Some trust_root))"

definition Downloader_new ::
  "('u, 'k, 'x, 'c) verify_library \<Rightarrow> Sources option \<Rightarrow> string option \<Rightarrow> string + 'c Downloader" where
  "Downloader_new lib sources manual_root =
     try_then
       (case manual_root of
          Some root \<Rightarrow> map_ok Some (create_verifier lib sources root)
        | None \<Rightarrow> Ok None) (\<lambda>verifier.
     Ok \<lparr> dl_verifier = verifier, dl_sources = sources \<rparr>)"

text \<open>
  The world a policy is downloaded in: registries and files change while the server starts, so
  each of the three phases of each download finds its own.
\<close>

datatype phase = Verifying | Fetching | Checking

type_synonym ('u, 'k, 'x, 'c) world = "string \<Rightarrow> phase \<Rightarrow> ('u, 'k, 'x, 'c) verify_library"

text \<open>The body of the loop for a policy that was not processed before.\<close>

definition download_policy ::
  "(string \<Rightarrow> string) \<Rightarrow> ('u, 'k, 'x, 'c) world \<Rightarrow> 'c Downloader \<Rightarrow> 'u VerificationConfigV1 \<Rightarrow> string \<Rightarrow>
   string \<Rightarrow> string \<Rightarrow> string + string" where
  "download_policy dbg world d config destination name policy_url =
     try_then
       (case dl_verifier d of
          Some ver \<Rightarrow>
            map_err (\<lambda>e. ''Policy '' @ [CHR 39] @ name @ [CHR 39] @ '' cannot be verified: '' @ VerifyError_to_string e)
              (map_ok Some (Verifier_verify (world policy_url Verifying) ver policy_url config))
        | None \<Rightarrow> Ok None) (\<lambda>verified_manifest_digest.
     try_then
       (map_err (\<lambda>e. ''Error while downloading policy '' @ [CHR 39] @ name @ [CHR 39] @ '' from '' @ policy_url @
           '': '' @ FetcherError_to_string dbg e)
         (fst (fetch_policy (vl_fetch (world policy_url Fetching)) policy_url (Store destination) (dl_sources d))))
       (\<lambda>fetched_policy.
     try_then
       (case dl_verifier d of
          Some ver \<Rightarrow>
            map_err (\<lambda>e. ''Verification of policy '' @ name @ '' failed: '' @ VerifyError_to_string e)
              (verify_local_file_checksum (world policy_url Checking) ver fetched_policy
                (the verified_manifest_digest))
        | None \<Rightarrow> Ok ()) (\<lambda>_.
     Ok (po_local_path fetched_policy))))"

definition download_policies ::
  "(string \<Rightarrow> string) \<Rightarrow> ('u, 'k, 'x, 'c) world \<Rightarrow> 'c Downloader \<Rightarrow> policies_config \<Rightarrow> string \<Rightarrow>
   'u VerificationConfigV1 option \<Rightarrow> (string \<times> (string + string)) list" where
  "download_policies dbg world d policies destination given =
     (let config = (case given of None \<Rightarrow> \<lparr> vc_all_of = None, vc_any_of = None \<rparr> | Some c \<Rightarrow> c) in
      snd (foldl (\<lambda>(processed_policies, fetched_policies) (name, policy_url).
          if policy_url \<in> processed_policies then (processed_policies, fetched_policies)
          else (insert policy_url processed_policies,
                AList.update policy_url (download_policy dbg world d config destination name policy_url)
                  fetched_policies))
        ({}, []) (policies_to_download policies)))"

section \<open>The Sigstore trust root\<close>

text \<open>
  The file system and the Sigstore library: the parser of a trust configuration gives its
  trusted root (if any), printed again; a trust root is opaque.
\<close>

record trust_library =
  tr_read :: "string \<Rightarrow> string + string"
  tr_parse :: "string \<Rightarrow> string + string option"
  tr_to_vec :: "string \<Rightarrow> string + string"
  tr_from_json_unchecked :: "string \<Rightarrow> string + string"
  tr_exists :: "string \<Rightarrow> bool"
  tr_create_dir_all :: "string \<Rightarrow> string + unit"
  tr_new :: "string \<Rightarrow> string + string"

definition build_sigstore_trust_root_from_config :: "trust_library \<Rightarrow> string \<Rightarrow> string + string" where
  "build_sigstore_trust_root_from_config lib pki_file =
     try_then (map_err (\<lambda>e. ''could not read Sigstore trust config file '' @ pki_file @ '': '' @ e)
       (tr_read lib pki_file)) (\<lambda>json_bytes.
     try_then (map_err (\<lambda>e. ''could not parse Sigstore trust config file '' @ pki_file @ '': '' @ e)
       (tr_parse lib json_bytes)) (\<lambda>trusted_root.
     try_then (ok_or (''Sigstore trust config file '' @ pki_file @ '' missing trusted_root field'') trusted_root)
       (\<lambda>trust_root.
     try_then (tr_to_vec lib trust_root) (tr_from_json_unchecked lib))))"

definition create_sigstore_trustroot :: "trust_library \<Rightarrow> ('addr, 'ver) Config \<Rightarrow> string + string" where
  "create_sigstore_trustroot lib config =
     (case cf_sigstore_trust_config_path config of
        Some trust_config_path \<Rightarrow> build_sigstore_trust_root_from_config lib trust_config_path
      | None \<Rightarrow>
          try_then
            (if \<not> tr_exists lib (cf_sigstore_cache_dir config)
             then map_err (\<lambda>e. ''Cannot create directory to cache sigstore data: '' @ e)
                    (tr_create_dir_all lib (cf_sigstore_cache_dir config))
             else Ok ()) (\<lambda>_.
          tr_new lib (cf_sigstore_cache_dir config)))"

section \<open>The server\<close>

text \<open>
  What the server starts with: the world of the downloads (and the one the verifier is created
  in), the trust root, the Kubernetes client, the callback handler (created from the sources, the
  trust root and whether there is a client), the WebAssembly engine (with or without epoch
  interruption), the files and the compiler of modules, and the libraries of the TLS watch.
\<close>

record ('u, 'k, 'x, 'c, 'e, 'm, 'v, 'cfg) server_world =
  sw_debug :: "string \<Rightarrow> string"
  sw_verify :: "('u, 'k, 'x, 'c) verify_library"
  sw_download :: "('u, 'k, 'x, 'c) world"
  sw_trust :: trust_library
  sw_kube_client :: "string + unit"
  sw_callback_handler :: "Sources option \<Rightarrow> string option \<Rightarrow> bool \<Rightarrow> string + channel"
  sw_engine :: "bool \<Rightarrow> string + ('e, 'm) server_library"
  sw_read :: "string \<Rightarrow> string + string"
  sw_modules :: module_library
  sw_version :: Version
  sw_tls :: "('v, 'cfg) tls_library"
  sw_files :: files
  sw_memory_profiling :: "string + unit"

definition precompile_policies ::
  "module_library \<Rightarrow> Version \<Rightarrow> (string \<Rightarrow> string + string) \<Rightarrow> (string \<times> (string + string)) list \<Rightarrow>
   (string \<times> (string + PrecompiledPolicy)) list" where
  "precompile_policies ml version read fetched_policies =
     map (\<lambda>(policy_url, fetched_policy).
       (case fetched_policy of
          Inr policy \<Rightarrow> (policy_url, PrecompiledPolicy_new ml version (read policy))
        | Inl error \<Rightarrow> (policy_url, Err error))) fetched_policies"

definition sigstore_trust_root ::
  "('u, 'k, 'x, 'c, 'e, 'm, 'v, 'cfg) server_world \<Rightarrow> ('addr, 'ver) Config \<Rightarrow> string option" where
  "sigstore_trust_root w config =
     (case create_sigstore_trustroot (sw_trust w) config of Inr trust_root \<Rightarrow> Some trust_root | Inl _ \<Rightarrow> None)"

definition server_downloader ::
  "('u, 'k, 'x, 'c, 'e, 'm, 'v, 'cfg) server_world \<Rightarrow> ('addr, 'ver) Config \<Rightarrow> string + 'c Downloader" where
  "server_downloader w config =
     Downloader_new (sw_verify w) (cf_sources config)
       (if cf_verification_config config \<noteq> None then sigstore_trust_root w config else None)"

text \<open>The modules of the policies: download, then compilation.\<close>

definition server_modules ::
  "('u, 'k, 'x, 'c, 'e, 'm, 'v, 'cfg) server_world \<Rightarrow> ('addr, 'u VerificationConfigV1) Config \<Rightarrow>
   'c Downloader \<Rightarrow> (string \<times> (string + PrecompiledPolicy)) list" where
  "server_modules w config downloader =
     precompile_policies (sw_modules w) (sw_version w) (sw_read w)
       (download_policies (sw_debug w) (sw_download w) downloader (cf_policies config)
         (cf_policies_download_dir config) (cf_verification_config config))"

definition server_builder ::
  "('addr, 'ver) Config \<Rightarrow> (string \<times> (string + PrecompiledPolicy)) list \<Rightarrow> channel \<Rightarrow>
   EvaluationEnvironmentBuilder" where
  "server_builder config precompiled tx =
     (let b = EvaluationEnvironmentBuilder_new (map_of precompiled) tx
                \<lparr> eb_continue_on_errors := cf_continue_on_errors config \<rparr>;
          b = (case cf_always_accept_admission_reviews_on_namespace config of
                 Some namespace \<Rightarrow> b \<lparr> eb_always_accept_admission_reviews_on_namespace := Some namespace \<rparr>
               | None \<Rightarrow> b);
          b = (case cf_policy_evaluation_limit_seconds config of
                 Some limit \<Rightarrow> b \<lparr> eb_global_policy_evaluation_limit_seconds := Some limit \<rparr>
               | None \<Rightarrow> b)
      in case cf_policy_memory_limit_bytes config of
           Some limit \<Rightarrow> b \<lparr> eb_policy_memory_limit_bytes := Some limit \<rparr>
         | None \<Rightarrow> b)"

datatype route_handler = Audit_handler | Validate_handler | Validate_raw_handler | Pprof_get_cpu | Pprof_get_heap
  | Readiness_handler

type_synonym router = "(string \<times> string \<times> route_handler) list"

definition api_router :: router where
  "api_router =
     [(''POST'', ''/audit/{policy_id}'', Audit_handler),
      (''POST'', ''/validate/{policy_id}'', Validate_handler),
      (''POST'', ''/validate_raw/{policy_id}'', Validate_raw_handler)]"

definition pprof_router :: router where
  "pprof_router =
     [(''GET'', ''/debug/pprof/cpu'', Pprof_get_cpu), (''GET'', ''/debug/pprof/heap'', Pprof_get_heap)]"

definition readiness_probe_router :: router where
  "readiness_probe_router = [(''GET'', ''/readiness'', Readiness_handler)]"

record ('e, 'm, 'addr, 'v, 'cfg) PolicyServer =
  sv_library :: "('e, 'm) server_library"
  sv_environment :: EvaluationEnvironment
  sv_pool_size :: nat
  sv_epoch_ticks :: bool
  sv_router :: router
  sv_readiness_probe_router :: router
  sv_callback_handler :: channel
  sv_addr :: 'addr
  sv_tls_config :: "((nat \<rightharpoonup> string list list) \<times> ('v, 'cfg) watch_state) option"
  sv_readiness_probe_addr :: 'addr

text \<open>
  The whole start.  \<^verbatim>\<open>sv_library\<close> is the engine the environment keeps, and \<^verbatim>\<open>sv_epoch_ticks\<close> tells
  whether the task that increments the epoch every second was spawned.
\<close>

definition new_from_config ::
  "('u, 'k, 'x, 'c, 'e, 'm, 'v, 'cfg) server_world \<Rightarrow> ('addr, 'u VerificationConfigV1) Config \<Rightarrow>
   string + ('e, 'm, 'addr, 'v, 'cfg) PolicyServer" where
  "new_from_config w config =
     (let trust_root = sigstore_trust_root w config; connected = (\<not> isl (sw_kube_client w)) in
      if \<not> connected \<and> \<not> cf_ignore_kubernetes_connection_failure config
      then Err ''Cannot connect to Kubernetes, context aware policies would not work properly''
      else
        try_then (sw_callback_handler w (cf_sources config) trust_root connected) (\<lambda>callback_handler.
        try_then (server_downloader w config) (\<lambda>downloader.
        try_then (sw_engine w (cf_policy_evaluation_limit_seconds config \<noteq> None)) (\<lambda>engine.
        (let precompiled = server_modules w config downloader in
        try_then
          (if \<not> cf_continue_on_errors config
           then try_fold (\<lambda>_ (_, result). map_ok (\<lambda>_. ()) result) () precompiled
           else Ok ()) (\<lambda>_.
        try_then (map_err EvaluationError_to_string
          (build_evaluation_environment engine (server_builder config precompiled callback_handler)
            (cf_policies config))) (\<lambda>env.
        try_then
          (case cf_tls_config config of
             Some tls_config \<Rightarrow> map_ok Some (create_tls_config (sw_tls w) (sw_files w) tls_config)
           | None \<Rightarrow> Ok None) (\<lambda>tls.
        try_then (if cf_enable_pprof config then sw_memory_profiling w else Ok ()) (\<lambda>_.
          Ok \<lparr> sv_library = engine, sv_environment = env, sv_pool_size = cf_pool_size config,
               sv_epoch_ticks = (cf_policy_evaluation_limit_seconds config \<noteq> None),
               sv_router = (if cf_enable_pprof config then api_router @ pprof_router else api_router),
               sv_readiness_probe_router = readiness_probe_router,
               sv_callback_handler = callback_handler, sv_addr = cf_addr config, sv_tls_config = tls,
               sv_readiness_probe_addr = cf_readiness_probe_addr config \<rparr>)))))))))"

section \<open>Running\<close>

text \<open>
  \<^verbatim>\<open>run\<close> waits on three futures with \<^verbatim>\<open>try_join!\<close>: it ends with the first error, or when all of
  them ended well.  A run is given by the order in which the servers and the watch task end; the
  future of the watch has no value when it is never ready.
\<close>

datatype server_task = Api_server | Readiness_probe_server | Cert_watcher

datatype task_end = Api_ended "string + unit" | Readiness_ended "string + unit" | Watch_ended "string + string"

fun task_result :: "bool \<Rightarrow> task_end \<Rightarrow> (server_task \<times> (string + unit)) option" where
  "task_result tls (Api_ended r) = Some (Api_server, r)"
| "task_result tls (Readiness_ended r) = Some (Readiness_probe_server, r)"
| "task_result tls (Watch_ended r) =
     (if tls then
        (let e = (case r of Inr e \<Rightarrow> e | Inl e \<Rightarrow> ''Certificate watch task failed: '' @ e) in
         Some (Cert_watcher, Err (''Certificate watch stopped: '' @ e)))
      else None)"

fun try_join :: "server_task set \<Rightarrow> (server_task \<times> (string + unit)) list \<Rightarrow> (string + unit) option" where
  "try_join pending [] = (if pending = {} then Some (Ok ()) else None)"
| "try_join pending ((t, r) # ends) =
     (if pending = {} then Some (Ok ())
      else if t \<notin> pending then try_join pending ends
      else (case r of Inl e \<Rightarrow> Some (Err e) | Inr _ \<Rightarrow> try_join (pending - {t}) ends))"

datatype run_event = Shutdown_callback_handler | Joined_callback_handler

definition policy_server_run :: "bool \<Rightarrow> task_end list \<Rightarrow> ((string + unit) \<times> run_event list) option" where
  "policy_server_run tls ends =
     (case try_join {Api_server, Readiness_probe_server, Cert_watcher} (List.map_filter (task_result tls) ends) of
        None \<Rightarrow> None
      | Some (Inl e) \<Rightarrow> Some (Err e, [])
      | Some (Inr _) \<Rightarrow> Some (Ok (), [Shutdown_callback_handler, Joined_callback_handler]))"

section \<open>The loop of the downloads\<close>

lemma update_new: "k \<notin> fst ` set m \<Longrightarrow> AList.update k v m = m @ [(k, v)]"
  by (induction m) auto

lemma download_loop:
  assumes "fst ` set m = p"
    and "step = (\<lambda>(p, m) (name, url). if url \<in> p then (p, m) else (insert url p, AList.update url (g name url) m))"
  shows "fst ` set (snd (foldl step (p, m) xs)) = p \<union> snd ` set xs \<and>
     (\<forall>(url, r)\<in>set (snd (foldl step (p, m) xs)). (url, r) \<in> set m \<or> (\<exists>name. (name, url) \<in> set xs \<and> r = g name url))"
  using assms(1)
proof (induction xs arbitrary: p m)
  case (Cons x xs)
  obtain name url where x: "x = (name, url)" by fastforce
  show ?case
  proof (cases "url \<in> p")
    case True
    then have "step (p, m) x = (p, m)" using x assms(2) by simp
    with Cons.IH [OF Cons.prems] True x show ?thesis by auto
  next
    case False
    let ?m = "m @ [(url, g name url)]"
    have "step (p, m) x = (insert url p, ?m)"
      using x assms(2) False Cons.prems by (simp add: update_new)
    moreover have "fst ` set ?m = insert url p" using Cons.prems by auto
    note Cons.IH [OF this]
    ultimately show ?thesis using x by auto
  qed
qed auto

lemma download_distinct:
  "distinct (map fst (snd (foldl (\<lambda>(p, m) (name, url). if url \<in> p then (p, m)
     else (insert url p, AList.update url (g name url) m)) ({}, []) xs)))"
  by (induction xs rule: rev_induct) (auto simp: distinct_update split: prod.split)

lemmas download_run = download_loop [of "[]" "{}", OF _ refl, simplified]

lemma downloaded_urls:
  "fst ` set (download_policies dbg world d policies destination given) = snd ` set (policies_to_download policies)"
  unfolding download_policies_def Let_def by (rule download_run [THEN conjunct1])

lemma downloaded_entry:
  assumes "(url, r) \<in> set (download_policies dbg world d policies destination given)"
    and "config = (case given of None \<Rightarrow> \<lparr> vc_all_of = None, vc_any_of = None \<rparr> | Some c \<Rightarrow> c)"
  shows "\<exists>name. (name, url) \<in> set (policies_to_download policies) \<and>
     r = download_policy dbg world d config destination name url"
  using download_run [THEN conjunct2, THEN bspec, OF assms(1) [unfolded download_policies_def Let_def assms(2) [symmetric]]]
  by simp

text \<open>A policy that comes out of a download with a verifier went through all three phases.\<close>

lemma download_policy_verified:
  assumes "download_policy dbg world d config destination name url = Ok path" and "dl_verifier d = Some ver"
  shows "\<exists>digest policy. Verifier_verify (world url Verifying) ver url config = Ok digest \<and>
     fst (fetch_policy (vl_fetch (world url Fetching)) url (Store destination) (dl_sources d)) = Ok policy \<and>
     verify_local_file_checksum (world url Checking) ver policy digest = Ok () \<and>
     path = po_local_path policy"
  using assms by (auto simp: download_policy_def result_simps)

lemma download_policy_unverified:
  assumes "dl_verifier d = None"
  shows "download_policy dbg world d config destination name url = download_policy dbg world d config' destination name url"
  using assms by (simp add: download_policy_def)

lemma download_policies_unverified:
  assumes "dl_verifier d = None"
  shows "download_policies dbg world d policies destination given =
    download_policies dbg world d policies destination given'"
proof -
  obtain g where "\<And>c. download_policy dbg world d c destination = g"
    using download_policy_unverified [OF assms] by (meson ext)
  then show ?thesis unfolding download_policies_def Let_def by (simp only:)
qed

lemma downloader_verifier:
  "Downloader_new lib sources root = Ok d \<Longrightarrow> (dl_verifier d = None \<longleftrightarrow> root = None) \<and> dl_sources d = sources"
  by (cases root) (auto simp: Downloader_new_def result_simps)

section \<open>What a started server is made of\<close>

lemma new_from_config_Ok:
  assumes "new_from_config w config = Ok server"
  obtains d where "server_downloader w config = Ok d"
    and "build_evaluation_environment (sv_library server)
       (server_builder config (server_modules w config d) (sv_callback_handler server)) (cf_policies config) =
       Ok (sv_environment server)"
    and "\<not> cf_continue_on_errors config \<Longrightarrow>
       try_fold (\<lambda>_ (_, result). map_ok (\<lambda>_. ()) result) () (server_modules w config d) = Ok ()"
proof -
  from assms obtain d where d: "server_downloader w config = Ok d"
    by (auto simp: new_from_config_def Let_def result_simps split: if_splits)
  with assms show thesis
    by (intro that [OF d])
      (auto simp: new_from_config_def Let_def result_simps split: if_splits)
qed

text \<open>
  What it means for a compiled module to be signed: the signature layers of its image satisfied
  the verification configuration; the manifest with the verified digest has one WebAssembly layer;
  and the module was compiled from a file with the digest of that layer.
\<close>

definition policy_image :: "Policy \<Rightarrow> string" where
  "policy_image policy =
     (case strip_prefix ''registry://'' (po_uri policy) of None \<Rightarrow> po_uri policy | Some url \<Rightarrow> url)"

definition signed_module ::
  "('u, 'k, 'x, 'c, 'e, 'm, 'v, 'cfg) server_world \<Rightarrow> (string \<Rightarrow> string) \<Rightarrow> 'c Verifier \<Rightarrow> 'u VerificationConfigV1 \<Rightarrow>
   string \<Rightarrow> PrecompiledPolicy \<Rightarrow> bool" where
  "signed_module w sha256 ver vc url pp \<longleftrightarrow>
     (\<exists>digest trusted policy layers layer contents.
        fetch_sigstore_remote_data (sw_download w url Verifying) (vf_cosign_client ver) url = Ok (digest, trusted) \<and>
        verify_signatures_against_config (sw_download w url Verifying) vc trusted = Ok () \<and>
        signed_manifest (sw_download w url Checking) ver (policy_image policy) digest = Ok (Image layers) \<and>
        filter (\<lambda>l. ml_media_type l = fl_wasm_layer_media_type (vl_fetch (sw_download w url Checking))) layers =
          [layer] \<and>
        ml_digest layer = ''sha256:'' @ sha256 contents \<and>
        PrecompiledPolicy_new (sw_modules w) (sw_version w) (Ok contents) = Ok pp)"

lemma compiled_from_download:
  assumes "map_of (server_modules w config d) url = Some (Ok pp)"
    and "cf_verification_config config = Some vc"
  shows "\<exists>name path. download_policy (sw_debug w) (sw_download w) d vc (cf_policies_download_dir config) name url = Ok path \<and>
     PrecompiledPolicy_new (sw_modules w) (sw_version w) (sw_read w path) = Ok pp"
proof -
  let ?fetched = "download_policies (sw_debug w) (sw_download w) d (cf_policies config)
      (cf_policies_download_dir config) (cf_verification_config config)"
  from assms(1) obtain path where p: "(url, Ok path) \<in> set ?fetched"
    "PrecompiledPolicy_new (sw_modules w) (sw_version w) (sw_read w path) = Ok pp"
    by (auto simp: server_modules_def precompile_policies_def dest!: map_of_SomeD split: sum.splits)
  have "\<exists>name. download_policy (sw_debug w) (sw_download w) d vc (cf_policies_download_dir config) name url = Ok path"
    using downloaded_entry [OF p(1) refl] assms(2) by auto
  with p(2) show ?thesis by blast
qed

lemma compiled_module_signed:
  assumes "map_of (server_modules w config d) url = Some (Ok pp)"
    and "cf_verification_config config = Some vc" and "dl_verifier d = Some ver"
    and "\<And>path. sb_digest (fl_store (vl_fetch (sw_download w url Checking))) path = map_ok sha256 (sw_read w path)"
  shows "signed_module w sha256 ver vc url pp"
proof -
  obtain name path where path: "PrecompiledPolicy_new (sw_modules w) (sw_version w) (sw_read w path) = Ok pp"
    and down: "download_policy (sw_debug w) (sw_download w) d vc (cf_policies_download_dir config) name url = Ok path"
    using compiled_from_download [OF assms(1,2)] by blast
  from download_policy_verified [OF down assms(3)] obtain digest policy where
    v: "Verifier_verify (sw_download w url Verifying) ver url vc = Ok digest"
      "verify_local_file_checksum (sw_download w url Checking) ver policy digest = Ok ()"
      "path = po_local_path policy" by blast
  from v(1) obtain trusted where t:
    "fetch_sigstore_remote_data (sw_download w url Verifying) (vf_cosign_client ver) url = Ok (digest, trusted)"
    "verify_signatures_against_config (sw_download w url Verifying) vc trusted = Ok ()"
    by (auto simp: Verifier_verify_def result_simps)
  from checksum_matches [OF v(2) policy_image_def] obtain h layers layer where m:
    "sb_digest (fl_store (vl_fetch (sw_download w url Checking))) path = Ok h"
    "signed_manifest (sw_download w url Checking) ver (policy_image policy) digest = Ok (Image layers)"
    "filter (\<lambda>l. ml_media_type l = fl_wasm_layer_media_type (vl_fetch (sw_download w url Checking))) layers = [layer]"
    "ml_digest layer = ''sha256:'' @ h"
    unfolding v(3) by blast
  from m(1) assms(4) obtain contents where "sw_read w path = Ok contents" "h = sha256 contents"
    by (auto simp: result_simps)
  with t m path show ?thesis unfolding signed_module_def by auto
qed

section \<open>Which modules are downloaded\<close>

fun entries :: "string \<times> PolicyOrPolicyGroup \<Rightarrow> (string \<times> string) list" where
  "entries (name, Individual p) = [(name, pc_module p)]"
| "entries (name, Grouped g) = map (\<lambda>(n, m). (name @ ''/#'' @ n, gmc_module m)) (gc_policies g)"

definition configured_modules :: "policies_config \<Rightarrow> string set" where
  "configured_modules policies =
     (\<Union>(name, p)\<in>set policies. case p of
        Individual c \<Rightarrow> {pc_module c}
      | Grouped g \<Rightarrow> (\<lambda>(n, m). gmc_module m) ` set (gc_policies g))"

lemma foldl_entries:
  "foldl (\<lambda>m (k, v). AList.update k v m) m (entries (name, p)) =
     (case p of Individual c \<Rightarrow> AList.update name (pc_module c) m
      | Grouped g \<Rightarrow> foldl (\<lambda>m (n, p). AList.update (name @ ''/#'' @ n) (gmc_module p) m) m (gc_policies g))"
  by (cases p) (simp_all add: foldl_map case_prod_unfold)

lemma policies_to_download_entries:
  "policies_to_download policies = foldl (\<lambda>m (k, v). AList.update k v m) [] (concat (map entries policies))"
proof -
  have "foldl (\<lambda>m (k, v). AList.update k v m) m (concat (map entries ps)) =
      foldl (\<lambda>m (name, p). case p of Individual c \<Rightarrow> AList.update name (pc_module c) m
        | Grouped g \<Rightarrow> foldl (\<lambda>m (n, p). AList.update (name @ ''/#'' @ n) (gmc_module p) m) m (gc_policies g)) m ps"
    for m ps
  proof (induction ps arbitrary: m)
    case (Cons np ps)
    obtain name p where np: "np = (name, p)" by fastforce
    show ?case
      unfolding np list.map concat.simps foldl_append foldl_entries foldl.simps prod.case by (rule Cons.IH)
  qed simp
  then show ?thesis unfolding policies_to_download_def by (rule sym)
qed

lemma updated_lookup:
  assumes "(k, v) \<in> set xs" and "\<And>v'. (k, v') \<in> set xs \<Longrightarrow> v' = v"
  shows "map_of (foldl (\<lambda>m (k, v). AList.update k v m) m xs) k = Some v"
  using assms
proof (induction xs rule: rev_induct)
  case (snoc x xs)
  obtain k' v' where x: "x = (k', v')" by fastforce
  show ?case
  proof (cases "k' = k")
    case True
    then have "v' = v" by (intro snoc.prems(2)) (simp add: x)
    with True x show ?thesis by (simp add: update_conv')
  next
    case False
    then have "(k, v) \<in> set xs" using snoc.prems(1) x by simp
    from snoc.IH [OF this snoc.prems(2)] False x show ?thesis by (simp add: update_conv')
  qed
qed simp

lemma updated_subset: "set (foldl (\<lambda>m (k, v). AList.update k v m) m xs) \<subseteq> set m \<union> set xs"
proof (induction xs arbitrary: m)
  case (Cons x xs)
  obtain k v where x: "x = (k, v)" by fastforce
  have "set (AList.update k v m) \<subseteq> insert (k, v) (set m)" by (induction m) auto
  with Cons.IH [of "AList.update k v m"] x show ?case by auto
qed simp

lemma slash_split:
  assumes "a @ CHR ''/'' # x = b @ CHR ''/'' # y" and "CHR ''/'' \<notin> set a" and "CHR ''/'' \<notin> set b"
  shows "a = b \<and> x = y"
  using assms
proof (induction a arbitrary: b)
  case Nil then show ?case by (cases b) auto
next
  case (Cons c a) then show ?case by (cases b) auto
qed

lemma entry_key:
  assumes "(k, v) \<in> set (entries (name, p))"
  shows "(\<exists>c. p = Individual c \<and> k = name \<and> v = pc_module c) \<or>
     (\<exists>g n m. p = Grouped g \<and> (n, m) \<in> set (gc_policies g) \<and> k = name @ CHR ''/'' # CHR ''#'' # n \<and> v = gmc_module m)"
  using assms by (cases p) auto

lemma entries_functional:
  assumes "slash_free policies" and "distinct (map fst policies)"
    and "\<forall>(name, p)\<in>set policies. case p of Grouped g \<Rightarrow> distinct (map fst (gc_policies g)) | _ \<Rightarrow> True"
    and "np \<in> set policies" "(k, v) \<in> set (entries np)" "np' \<in> set policies" "(k, v') \<in> set (entries np')"
  shows "v' = v"
proof -
  obtain name p name' p' where np: "np = (name, p)" "np' = (name', p')" by fastforce
  have free: "CHR ''/'' \<notin> set name" "CHR ''/'' \<notin> set name'"
    using assms(1,4,6) np by (auto simp: slash_free_def)
  have "name = name'"
    using entry_key [OF assms(5) [unfolded np]] entry_key [OF assms(7) [unfolded np]] free
    by (auto dest: slash_split)
  with assms(2,4,6) np have p: "p' = p" by (auto dest: eq_key_imp_eq_value)
  show ?thesis
  proof (cases p)
    case (Individual c)
    with assms(5,7) np p show ?thesis by simp
  next
    case (Grouped g)
    with assms(3,4) np have "distinct (map fst (gc_policies g))" by auto
    with assms(5,7) np p Grouped \<open>name = name'\<close> show ?thesis by (auto dest: eq_key_imp_eq_value)
  qed
qed

lemma entries_modules: "snd ` set (concat (map entries policies)) = configured_modules policies"
proof -
  have "snd ` set (entries np) =
      (case np of (name, p) \<Rightarrow> case p of Individual c \<Rightarrow> {pc_module c}
       | Grouped g \<Rightarrow> (\<lambda>(n, m). gmc_module m) ` set (gc_policies g))" for np
    by (cases np rule: entries.cases) (auto simp: image_image case_prod_unfold)
  then show ?thesis unfolding configured_modules_def by (simp add: image_UN)
qed

section \<open>Properties\<close>

text \<open>
  C5: only signed modules run.  When the server was given a verification configuration and a
  Sigstore trust root could be made, the evaluation environment of the server is built from
  compiled modules that are all signed: the trusted signature layers of the image satisfied the
  configuration, and the module was compiled from a file with the sha256 digest of the only
  WebAssembly layer of the manifest those signatures are for.  The file must not change between
  the check and the compilation, which the premise about digests says.
\<close>

theorem only_signed_modules_run:
  assumes "new_from_config w config = Ok server" and "cf_verification_config config = Some vc"
    and "create_sigstore_trustroot (sw_trust w) config = Ok root"
    and "\<And>url path. sb_digest (fl_store (vl_fetch (sw_download w url Checking))) path = map_ok sha256 (sw_read w path)"
  shows "\<exists>ver modules. Verifier_new (sw_verify w) (cf_sources config) (Some root) = Ok ver \<and>
     build_evaluation_environment (sv_library server)
       (server_builder config modules (sv_callback_handler server)) (cf_policies config) =
       Ok (sv_environment server) \<and>
     (\<forall>url pp. map_of modules url = Some (Ok pp) \<longrightarrow> signed_module w sha256 ver vc url pp)"
proof -
  obtain d where d: "server_downloader w config = Ok d" "build_evaluation_environment (sv_library server)
       (server_builder config (server_modules w config d) (sv_callback_handler server)) (cf_policies config) =
       Ok (sv_environment server)"
    by (rule new_from_config_Ok [OF assms(1)])
  from d(1) assms(2,3) obtain ver where "Verifier_new (sw_verify w) (cf_sources config) (Some root) = Ok ver"
    "dl_verifier d = Some ver"
    by (auto simp: server_downloader_def sigstore_trust_root_def Downloader_new_def create_verifier_def result_simps)
  with d(2) compiled_module_signed [OF _ assms(2) _ assms(4)] show ?thesis by blast
qed

text \<open>
  Without a trust root the verification configuration is not used at all: the server starts (or
  fails to) exactly as if it had not been given one, so every policy is run unverified, also
  one whose signatures are checked with public keys only.
\<close>

theorem no_trust_root_no_verification:
  assumes "create_sigstore_trustroot (sw_trust w) config = Err e"
  shows "new_from_config w config = new_from_config w (config \<lparr> cf_verification_config := None \<rparr>)"
proof -
  let ?config = "config \<lparr> cf_verification_config := None \<rparr>"
  have "create_sigstore_trustroot (sw_trust w) ?config = create_sigstore_trustroot (sw_trust w) config"
    by (cases "cf_sigstore_trust_config_path config") (simp_all add: create_sigstore_trustroot_def)
  with assms have root: "sigstore_trust_root w config = None" "sigstore_trust_root w ?config = None"
    by (simp_all add: sigstore_trust_root_def)
  then have down: "server_downloader w ?config = server_downloader w config"
    by (simp add: server_downloader_def)
  have d: "server_downloader w config = Ok \<lparr> dl_verifier = None, dl_sources = cf_sources config \<rparr>"
    using root by (simp add: server_downloader_def Downloader_new_def)
  have modules: "server_modules w ?config \<lparr> dl_verifier = None, dl_sources = s \<rparr> =
      server_modules w config \<lparr> dl_verifier = None, dl_sources = s \<rparr>" for s
    unfolding server_modules_def by (simp add: download_policies_unverified [where given = "cf_verification_config config" and given' = None])
  have "server_builder ?config = server_builder config"
    by (intro ext) (simp add: server_builder_def)
  then show ?thesis
    unfolding new_from_config_def down d root by (simp add: modules Let_def)
qed

text \<open>
  Every module of the configuration is downloaded once.  When the names of the policies
  were validated, the downloads are for exactly the modules that the policies and the members of
  the groups name, and no module is downloaded twice.
\<close>

theorem modules_downloaded_once:
  assumes "slash_free policies" and "distinct (map fst policies)"
    and "\<forall>(name, p)\<in>set policies. case p of Grouped g \<Rightarrow> distinct (map fst (gc_policies g)) | _ \<Rightarrow> True"
  shows "fst ` set (download_policies dbg world d policies destination given) = configured_modules policies \<and>
     distinct (map fst (download_policies dbg world d policies destination given))"
proof
  let ?xs = "concat (map entries policies)"
  have "x \<in> set (policies_to_download policies)" if "x \<in> set ?xs" for x
  proof -
    obtain k v where x: "x = (k, v)" by fastforce
    have "v' = v" if "(k, v') \<in> set ?xs" for v'
      using that \<open>x \<in> set ?xs\<close> x entries_functional [OF assms] by auto
    from updated_lookup [OF that [unfolded x] this, where m = "[]"] show ?thesis
      unfolding x policies_to_download_entries by (rule map_of_SomeD)
  qed
  with updated_subset [of "[]" ?xs] have "set (policies_to_download policies) = set ?xs"
    unfolding policies_to_download_entries by auto
  then show "fst ` set (download_policies dbg world d policies destination given) = configured_modules policies"
    by (simp only: downloaded_urls entries_modules)
  show "distinct (map fst (download_policies dbg world d policies destination given))"
    unfolding download_policies_def Let_def by (rule download_distinct)
qed

text \<open>A registry with one image, signed with one key, and a server that asks for that key.\<close>

definition signed_fetch :: "unit fetch_library" where
  "signed_fetch = plain_http
     \<lparr> fl_store := one_url ''registry'' ''ghcr.io'' ''/p:v1'' \<lparr> sb_exists := \<lambda>_. True, sb_digest := \<lambda>_. Ok ''wasm'' \<rparr>,
       fl_reference := \<lambda>_. Ok \<lparr> rf_registry = ''ghcr.io'', rf_repository = ''p'', rf_tag = Some ''v1'', rf_digest = None \<rparr>,
       fl_reference_to_string := \<lambda>_. ''ghcr.io/p:v1'',
       fl_pull_manifest := \<lambda>_ _ _. Ok (Image [\<lparr> ml_media_type = ''wasm'', ml_digest = ''sha256:wasm'' \<rparr>]) \<rparr>"

definition one_key :: "unit VerificationConfigV1" where
  "one_key = \<lparr> vc_all_of = Some [PubKey None ''k1'' None], vc_any_of = None \<rparr>"

definition signed_verify :: "(unit, string, string list, unit) verify_library" where
  "signed_verify = text_library (Versioned (V1 one_key)) one_key
     \<lparr> sg_url = sb_url (fl_store signed_fetch), sg_set_path = (\<lambda>u _. u), sg_key = Ok,
       sg_verify_key = (\<lambda>k sl. Ok (k \<in> set (SignatureLayer.more sl))), sg_verify_annotations = (\<lambda>_ _. Ok True),
       sg_verify_constraints = (\<lambda>layers cs. list_all (\<lambda>c. list_ex (\<lambda>sl. c sl = Ok True) layers) cs) \<rparr>
     signed_fetch
     \<lparr> vl_trusted_layers := \<lambda>_ _ _. Ok [\<lparr> sl_certificate_signature = None, \<dots> = [''k1''] \<rparr>] \<rparr>"

definition wasi_modules :: module_library where
  "wasi_modules =
     \<lparr> ml_parse_all = (\<lambda>_. [Ok (CustomSection ''io.kubewarden.metadata'' [])]),
       ml_from_slice = (\<lambda>_. Ok (Metadata_default \<lparr> md_protocol_version := Some Pv_V1, md_execution_mode := Wasi \<rparr>)),
       ml_check_abi_version = (\<lambda>_. Ok ()), ml_precompile = Ok, ml_sha256_hex = (\<lambda>s. s), ml_metadata_error = (\<lambda>_. []) \<rparr>"

definition signed_world :: "(unit, string, string list, unit, unit, unit, string list, string list option \<times> string list \<times> string) server_world" where
  "signed_world =
     \<lparr> sw_debug = (\<lambda>s. s), sw_verify = signed_verify, sw_download = (\<lambda>_ _. signed_verify),
       sw_trust = \<lparr> tr_read = Ok, tr_parse = (\<lambda>s. Ok (Some s)), tr_to_vec = Ok, tr_from_json_unchecked = Ok,
         tr_exists = (\<lambda>_. True), tr_create_dir_all = (\<lambda>_. Ok ()), tr_new = Ok \<rparr>,
       sw_kube_client = Ok (), sw_callback_handler = (\<lambda>_ _ _. Ok (\<lambda>_. NoAnswer)),
       sw_engine = (\<lambda>_. Ok (small_library True)), sw_read = (\<lambda>_. Ok ''wasm''), sw_modules = wasi_modules,
       sw_version = \<lparr> v_major = 1, v_minor = 30, v_patch = 0, v_pre = [], v_build = [] \<rparr>,
       sw_tls = plain_tls, sw_files = (\<lambda>_. Ok ''pem''), sw_memory_profiling = Ok () \<rparr>"

definition signed_config :: "(unit, unit VerificationConfigV1) Config" where
  "signed_config =
     \<lparr> cf_addr = (), cf_readiness_probe_addr = (), cf_sources = None,
       cf_policies = [(''p'', Individual (small_policy \<lparr> pc_module := ''registry://ghcr.io/p:v1'' \<rparr>))],
       cf_policies_download_dir = ''/store'', cf_ignore_kubernetes_connection_failure = False,
       cf_always_accept_admission_reviews_on_namespace = None, cf_policy_evaluation_limit_seconds = Some 2,
       cf_policy_memory_limit_bytes = None, cf_tls_config = None, cf_pool_size = 4, cf_metrics_enabled = False,
       cf_sigstore_cache_dir = ''/sigstore'', cf_sigstore_trust_config_path = None,
       cf_verification_config = Some one_key, cf_log_level = ''info'', cf_log_fmt = ''text'', cf_log_no_color = True,
       cf_daemon = False, cf_enable_pprof = False, cf_daemon_pid_file = [], cf_daemon_stdout_file = None,
       cf_daemon_stderr_file = None, cf_continue_on_errors = False \<rparr>"

lemma signed_verifies:
  "fetch_sigstore_remote_data signed_verify () ''registry://ghcr.io/p:v1'' =
     Ok (''sha256:manifest'', [\<lparr> sl_certificate_signature = None, \<dots> = [''k1''] \<rparr>])"
  "verify_signatures_against_config signed_verify one_key [\<lparr> sl_certificate_signature = None, \<dots> = [''k1''] \<rparr>] = Ok ()"
proof -
  show "fetch_sigstore_remote_data signed_verify () ''registry://ghcr.io/p:v1'' =
     Ok (''sha256:manifest'', [\<lparr> sl_certificate_signature = None, \<dots> = [''k1''] \<rparr>])"
    by (simp add: fetch_sigstore_remote_data_def signed_verify_def text_library_def build_fully_resolved_reference_def
        signed_fetch_def Let_def)
  show "verify_signatures_against_config signed_verify one_key [\<lparr> sl_certificate_signature = None, \<dots> = [''k1''] \<rparr>] = Ok ()"
    by (simp add: verify_signatures_against_config_def one_key_def signature_unsatisfied_def Signature_verifier_def
        PublicKeyAndAnnotationsVerifier_new_def signed_verify_def text_library_def PublicKey_verify_def)
qed

lemma signed_download:
  "\<exists>path. download_policy dbg (\<lambda>_ _. signed_verify) \<lparr> dl_verifier = Some \<lparr> vf_cosign_client = (), vf_sources = None \<rparr>,
       dl_sources = None \<rparr> one_key ''/store'' ''p'' ''registry://ghcr.io/p:v1'' = Ok path"
proof -
  let ?ver = "\<lparr> vf_cosign_client = (), vf_sources = None \<rparr>"
  have fetch: "vl_fetch signed_verify = signed_fetch" by (simp add: signed_verify_def text_library_def)
  have "\<exists>policy. fst (fetch_policy signed_fetch ''registry://ghcr.io/p:v1'' (Store ''/store'') None) = Ok policy"
    by (simp add: fetch_policy_def parse_url.simps KNOWN_SCHEMES_def pure_result_def pull_destination_def
        ensure_store_def local_copy_def build_fully_resolved_reference_def policy_full_path_def policy_path_def
        is_known_remote_scheme_def KNOWN_REMOTE_SCHEMES_def signed_fetch_def plain_http_def one_url_def Let_def)
  then obtain policy where policy:
    "fst (fetch_policy signed_fetch ''registry://ghcr.io/p:v1'' (Store ''/store'') None) = Ok policy" by blast
  have "verify_local_file_checksum signed_verify ?ver policy ''sha256:manifest'' = Ok ()"
    by (simp add: verify_local_file_checksum_def fetch signed_manifest_def registry_manifest_def
        registry_operation_def try_with_protocols_def build_fully_resolved_reference_def client_protocol_def
        host_and_port_def wasm_layer_digest_def pure_result_def signed_fetch_def plain_http_def one_url_def Let_def
        strip_prefix_def Sources_default_def source_authority_def is_insecure_source_def split: option.split)
  with signed_verifies policy show ?thesis
    by (simp add: download_policy_def Verifier_verify_def fetch)
qed

lemma signed_start: "\<exists>server. new_from_config signed_world signed_config = Ok server"
proof -
  let ?url = "''registry://ghcr.io/p:v1''"
  let ?d = "\<lparr> dl_verifier = Some \<lparr> vf_cosign_client = (), vf_sources = None \<rparr>, dl_sources = None \<rparr>"
  let ?pp = "\<lparr> pp_precompiled_module = ''wasm'', pp_execution_mode = Wasi, pp_digest = ''wasm'' \<rparr>"
  obtain path where path: "download_policy (\<lambda>s. s) (\<lambda>_ _. signed_verify) ?d one_key ''/store'' ''p'' ?url = Ok path"
    using signed_download by blast
  have down: "server_downloader signed_world signed_config = Ok ?d"
    by (simp add: server_downloader_def sigstore_trust_root_def create_sigstore_trustroot_def signed_world_def
        signed_config_def Downloader_new_def create_verifier_def Verifier_new_def signed_verify_def text_library_def Let_def)
  have "PrecompiledPolicy_new wasi_modules \<lparr> v_major = 1, v_minor = 30, v_patch = 0, v_pre = [], v_build = [] \<rparr>
      (Ok ''wasm'') = Ok ?pp"
    by (simp add: PrecompiledPolicy_new_def wasi_modules_def Metadata_from_contents_def
        KUBEWARDEN_CUSTOM_SECTION_METADATA_def Metadata_default_def has_minimum_kubewarden_version_def
        has_valid_protocol_version_def)
  then have modules: "server_modules signed_world signed_config ?d = [(?url, Ok ?pp)]"
    by (simp add: server_modules_def precompile_policies_def download_policies_def policies_to_download_def
        signed_world_def signed_config_def small_policy_def path)
  have "\<exists>env. build_evaluation_environment (small_library True)
      (server_builder signed_config [(?url, Ok ?pp)] (\<lambda>_. NoAnswer)) (cf_policies signed_config) = Ok env"
    by (simp add: small_simps server_builder_def signed_config_def)
  with down modules show ?thesis
    by (auto simp: new_from_config_def signed_world_def signed_config_def Let_def)
qed

theorem only_signed_modules_run_witness:
  "\<exists>server ver modules. new_from_config signed_world signed_config = Ok server \<and>
     build_evaluation_environment (sv_library server)
       (server_builder signed_config modules (sv_callback_handler server)) (cf_policies signed_config) =
       Ok (sv_environment server) \<and>
     (\<forall>url pp. map_of modules url = Some (Ok pp) \<longrightarrow> signed_module signed_world (\<lambda>s. s) ver one_key url pp)"
proof -
  obtain server where server: "new_from_config signed_world signed_config = Ok server"
    using signed_start by blast
  have "cf_verification_config signed_config = Some one_key"
    "create_sigstore_trustroot (sw_trust signed_world) signed_config = Ok ''/sigstore''"
    "\<And>url path. sb_digest (fl_store (vl_fetch (sw_download signed_world url Checking))) path =
       map_ok (\<lambda>s. s) (sw_read signed_world path)"
    by (simp_all add: signed_config_def signed_world_def create_sigstore_trustroot_def signed_verify_def
        text_library_def signed_fetch_def)
  from only_signed_modules_run [OF server this] server show ?thesis by blast
qed

theorem no_trust_root_no_verification_witness:
  "let w = signed_world \<lparr> sw_trust := sw_trust signed_world \<lparr> tr_new := \<lambda>_. Err ''offline'' \<rparr> \<rparr>
   in new_from_config w signed_config = new_from_config w (signed_config \<lparr> cf_verification_config := None \<rparr>)"
proof -
  let ?w = "signed_world \<lparr> sw_trust := sw_trust signed_world \<lparr> tr_new := \<lambda>_. Err ''offline'' \<rparr> \<rparr>"
  have "create_sigstore_trustroot (sw_trust ?w) signed_config = Err ''offline''"
    by (simp add: create_sigstore_trustroot_def signed_world_def signed_config_def)
  from no_trust_root_no_verification [OF this] show ?thesis unfolding Let_def .
qed

theorem modules_downloaded_once_witness:
  "fst ` set (download_policies (\<lambda>s. s) (\<lambda>_ _. signed_verify) \<lparr> dl_verifier = None, dl_sources = None \<rparr>
     [(''p'', Individual small_policy), (''g'', Grouped small_group)] ''/store'' None) = {''url''}"
proof -
  let ?policies = "[(''p'', Individual small_policy), (''g'', Grouped small_group)]"
  have "slash_free ?policies" "distinct (map fst ?policies)"
    "\<forall>(name, p)\<in>set ?policies. case p of Grouped g \<Rightarrow> distinct (map fst (gc_policies g)) | _ \<Rightarrow> True"
    by (simp_all add: slash_free_def small_group_def)
  note once = modules_downloaded_once [OF this, THEN conjunct1]
  show ?thesis
    unfolding once by (simp add: small_group_def configured_modules_def small_policy_def small_member_def)
qed

lemma try_join_watcher:
  assumes "\<forall>r. (Cert_watcher, r) \<in> set ends \<longrightarrow> isl r" and "Cert_watcher \<in> pending"
  shows "(\<forall>u. try_join pending ends \<noteq> Some (Ok u)) \<and>
     ((\<exists>r. (Cert_watcher, r) \<in> set ends) \<longrightarrow> (\<exists>e. try_join pending ends = Some (Err e)))"
  using assms
proof (induction pending ends rule: try_join.induct)
  case (2 pending t r ends)
  show ?case
  proof (cases "t \<in> pending \<and> isl r")
    case True
    with "2.prems" show ?thesis by (cases r) auto
  next
    case False
    with "2.prems" have "t \<noteq> Cert_watcher" by auto
    with "2.IH" "2.prems" False show ?thesis by (cases r) auto
  qed
qed auto

text \<open>
  C37: the server does not outlive the watch of its certificates.  With TLS, once the watch task
  ended (with the error it gives or because it failed), the server ends with an error, whatever
  else happened before.  A run never ends without an error, so the statements that stop the callback
  handler are never reached.
\<close>

theorem server_ends_with_watch:
  "(Watch_ended r \<in> set ends \<longrightarrow> (\<exists>e. policy_server_run True ends = Some (Err e, []))) \<and>
   (\<forall>evs. policy_server_run tls ends \<noteq> Some (Ok (), evs))"
proof -
  let ?all = "{Api_server, Readiness_probe_server, Cert_watcher}"
  have watch: "\<forall>r. (Cert_watcher, r) \<in> set (List.map_filter (task_result tls) ends) \<longrightarrow> isl r" for tls
  proof (intro allI impI)
    fix r assume "(Cert_watcher, r) \<in> set (List.map_filter (task_result tls) ends)"
    then obtain e where "task_result tls e = Some (Cert_watcher, r)"
      by (auto simp: List.map_filter_def)
    then show "isl r" by (cases e) (auto simp: Let_def split: if_splits)
  qed
  note join = try_join_watcher [OF watch, of ?all]
  have "\<exists>q. (Cert_watcher, q) \<in> set (List.map_filter (task_result True) ends)" if "Watch_ended r \<in> set ends"
  proof -
    from that have "the (task_result True (Watch_ended r)) \<in> set (List.map_filter (task_result True) ends)"
      unfolding List.map_filter_def by (force simp: Let_def)
    then show ?thesis by (auto simp: Let_def)
  qed
  with join [of True] have "Watch_ended r \<in> set ends \<longrightarrow> (\<exists>e. policy_server_run True ends = Some (Err e, []))"
    by (auto simp: policy_server_run_def)
  moreover have "policy_server_run tls ends \<noteq> Some (Ok (), evs)" for evs
    using join [of tls] by (auto simp: policy_server_run_def split: option.splits sum.splits)
  ultimately show ?thesis by blast
qed

theorem server_ends_with_watch_witness:
  "\<exists>e. policy_server_run True [Api_ended (Ok ()), Watch_ended (Ok ''gone'')] = Some (Err e, [])"
  using server_ends_with_watch [of "Ok ''gone''" "[Api_ended (Ok ()), Watch_ended (Ok ''gone'')]" True] by simp

end
