(* ===== verification/Kube_Policy.thy ===== *)
theory Kube_Policy
  imports Rust_Strings "HOL-Library.AList"
begin

text \<open>
  The custom resources of the Go controller (\<^verbatim>\<open>api/policies/v1\<close>): the specifications of the four
  policy kinds, the interface \<^verbatim>\<open>Policy\<close> that the webhooks and the reconcilers see, and the
  policy server.

  A Go struct is a record and struct embedding is record extension.  A pointer that may be
  \<^verbatim>\<open>nil\<close> is an option.  A Go map is the list of its entries in the order in which one
  \<^verbatim>\<open>range\<close> loop visits them, with distinct keys; no result below may depend on that order.
  An interface value is the record of the results of its methods.  A nil slice and an empty one
  are told apart only where the code does.
\<close>

section \<open>Kubernetes API types\<close>

text \<open>The fields of the Kubernetes types that the controller reads and writes.\<close>

record RuleWithOperations =
  r_operations :: "string list"
  r_apiGroups :: "string list"
  r_apiVersions :: "string list"
  r_resources :: "string list"
  r_scope :: "string option"

record MatchCondition =
  mc_name :: string
  mc_expression :: string

record LabelSelectorRequirement_v1 =
  lsrv_key :: string
  lsrv_operator :: string
  lsrv_values :: "string list"

record LabelSelector =
  ls_matchLabels :: "(string \<times> string) list"
  ls_matchExpressions :: "LabelSelectorRequirement_v1 list"

record ObjectMeta =
  om_name :: string
  om_namespace :: string
  om_uid :: string
  om_resourceVersion :: string
  om_labels :: "(string \<times> string) list"
  om_annotations :: "(string \<times> string) list"
  om_finalizers :: "string list"
  om_deletionTimestamp :: "nat option"

record Condition =
  cond_type :: string
  cond_status :: string
  cond_reason :: string
  cond_message :: string

section \<open>Policy status\<close>

datatype PolicyStatusEnum =
    PolicyStatusUnscheduled
  | PolicyStatusScheduled
  | PolicyStatusPending
  | PolicyStatusActive
  | PolicyStatusRejected

definition PolicyModeStatusUnknown :: string where
  "PolicyModeStatusUnknown = ''unknown''"

definition PolicyActive :: string where
  "PolicyActive = ''PolicyActive''"

definition PolicyServerConfigurationUpToDate :: string where
  "PolicyServerConfigurationUpToDate = ''PolicyServerConfigurationUpToDate''"

definition PolicyUniquelyReachable :: string where
  "PolicyUniquelyReachable = ''PolicyUniquelyReachable''"

definition PolicyReasonResourcesNotAllowed :: string where
  "PolicyReasonResourcesNotAllowed = ''ResourcesNotAllowed''"

text \<open>The status of a policy that was never reconciled is the empty string: \<^term>\<open>None\<close>.\<close>

record PolicyStatus =
  ps_policyStatus :: "PolicyStatusEnum option"
  ps_policyMode :: string
  ps_conditions :: "Condition list"

section \<open>Specifications\<close>

record ContextAwareResource_v1 =
  carv_apiVersion :: string
  carv_kind :: string

text \<open>Settings are a \<^verbatim>\<open>runtime.RawExtension\<close>: JSON text, or nothing.\<close>

record PolicySpec =
  spec_policyServer :: string
  spec_mode :: string
  spec_module :: string
  spec_settings :: "string option"
  spec_rules :: "RuleWithOperations list"
  spec_failurePolicy :: "string option"
  spec_mutating :: bool
  spec_backgroundAudit :: bool
  spec_matchPolicy :: "string option"
  spec_matchConditions :: "MatchCondition list"
  spec_objectSelector :: "LabelSelector option"
  spec_sideEffects :: "string option"
  spec_timeoutSeconds :: "32 word option"
  spec_timeoutEvalSeconds :: "32 word option"
  spec_message :: string

record ClusterAdmissionPolicySpec = PolicySpec +
  cap_namespaceSelector :: "LabelSelector option"
  cap_contextAwareResources :: "ContextAwareResource_v1 list"
  cap_allowInsideAdmissionControllerNamespace :: bool

record PolicyGroupMember_v1 =
  gmv_module :: string
  gmv_settings :: "string option"
  gmv_timeoutEvalSeconds :: "32 word option"

record PolicyGroupMemberWithContext = PolicyGroupMember_v1 +
  gmv_contextAwareResources :: "ContextAwareResource_v1 list"

type_synonym PolicyGroupMembers = "(string \<times> PolicyGroupMember_v1) list"
type_synonym PolicyGroupMembersWithContext = "(string \<times> PolicyGroupMemberWithContext) list"

record GroupSpec =
  gs_policyServer :: string
  gs_mode :: string
  gs_rules :: "RuleWithOperations list"
  gs_failurePolicy :: "string option"
  gs_backgroundAudit :: bool
  gs_matchPolicy :: "string option"
  gs_matchConditions :: "MatchCondition list"
  gs_objectSelector :: "LabelSelector option"
  gs_sideEffects :: "string option"
  gs_timeoutSeconds :: "32 word option"
  gs_expression :: string
  gs_message :: string

record PolicyGroupSpec = GroupSpec +
  apg_policies :: PolicyGroupMembers

record ClusterAdmissionPolicyGroupSpec = GroupSpec +
  capg_policies :: PolicyGroupMembersWithContext
  capg_namespaceSelector :: "LabelSelector option"
  capg_allowInsideAdmissionControllerNamespace :: bool

record AdmissionPolicy =
  ap_meta :: ObjectMeta
  ap_spec :: PolicySpec
  ap_status :: PolicyStatus

record ClusterAdmissionPolicy =
  cap_meta :: ObjectMeta
  cap_spec :: ClusterAdmissionPolicySpec
  cap_status :: PolicyStatus

record AdmissionPolicyGroup =
  apg_meta :: ObjectMeta
  apg_spec :: PolicyGroupSpec
  apg_status :: PolicyStatus

record ClusterAdmissionPolicyGroup =
  capg_meta :: ObjectMeta
  capg_spec :: ClusterAdmissionPolicyGroupSpec
  capg_status :: PolicyStatus

section \<open>The interface Policy\<close>

definition AnnotationSeverity :: string where
  "AnnotationSeverity = ''io.kubewarden.policy.severity''"

definition AnnotationCategory :: string where
  "AnnotationCategory = ''io.kubewarden.policy.category''"

definition AnnotationTitle :: string where
  "AnnotationTitle = ''io.artifacthub.displayName''"

definition AnnotationDescription :: string where
  "AnnotationDescription = ''io.kubewarden.policy.description''"

text \<open>The dynamic type of an interface value, which type switches read.\<close>

datatype PolicyKind =
    KAdmissionPolicy
  | KClusterAdmissionPolicy
  | KAdmissionPolicyGroup
  | KClusterAdmissionPolicyGroup

text \<open>The methods that \<^verbatim>\<open>PolicyGroup\<close> adds to \<^verbatim>\<open>Policy\<close>.\<close>

record PolicyGroup =
  GetPolicyGroupMembersWithContext :: PolicyGroupMembersWithContext
  GetExpression :: string

text \<open>\<open>AsPolicyGroup\<close> is the type assertion \<^verbatim>\<open>policy.(PolicyGroup)\<close>.\<close>

record Policy =
  DynamicType :: PolicyKind
  GetObjectMeta :: ObjectMeta
  GetStatus :: PolicyStatus
  GetPolicyMode :: string
  GetModule :: string
  GetSettings :: "string option"
  GetContextAwareResources :: "ContextAwareResource_v1 list"
  GetBackgroundAudit :: bool
  GetSeverity :: "string option"
  GetCategory :: "string option"
  GetTitle :: "string option"
  GetDescription :: "string option"
  GetTimeoutSeconds :: "32 word option"
  GetTimeoutEvalSeconds :: "32 word option"
  GetMessage :: string
  GetPolicyServer :: string
  GetUniqueName :: string
  GetRules :: "RuleWithOperations list"
  GetSideEffects :: "string option"
  GetFailurePolicy :: "string option"
  GetMatchPolicy :: "string option"
  GetMatchConditions :: "MatchCondition list"
  GetNamespaceSelector :: "LabelSelector option"
  GetObjectSelector :: "LabelSelector option"
  GetAllowInsideAdmissionControllerNamespace :: bool
  IsMutating :: bool
  IsContextAware :: bool
  AsPolicyGroup :: "PolicyGroup option"

abbreviation GetName :: "Policy \<Rightarrow> string" where "GetName p \<equiv> om_name (GetObjectMeta p)"
abbreviation GetNamespace :: "Policy \<Rightarrow> string" where "GetNamespace p \<equiv> om_namespace (GetObjectMeta p)"

definition SetStatus :: "PolicyStatusEnum \<Rightarrow> Policy \<Rightarrow> Policy" where
  "SetStatus status r = r\<lparr>GetStatus := (GetStatus r)\<lparr>ps_policyStatus := Some status\<rparr>\<rparr>"

definition SetPolicyModeStatus :: "string \<Rightarrow> Policy \<Rightarrow> Policy" where
  "SetPolicyModeStatus policyMode r = r\<lparr>GetStatus := (GetStatus r)\<lparr>ps_policyMode := policyMode\<rparr>\<rparr>"

text \<open>Policies in a namespace see only the resources of that namespace.\<close>

definition namespaced_rules :: "RuleWithOperations list \<Rightarrow> RuleWithOperations list" where
  "namespaced_rules rules = map (\<lambda>rule. rule\<lparr>r_scope := Some ''Namespaced''\<rparr>) rules"

definition own_namespace_selector :: "ObjectMeta \<Rightarrow> LabelSelector" where
  "own_namespace_selector m =
     \<lparr>ls_matchLabels = [(''kubernetes.io/metadata.name'', om_namespace m)], ls_matchExpressions = []\<rparr>"

definition AdmissionPolicy_as_Policy :: "AdmissionPolicy \<Rightarrow> Policy" where
  "AdmissionPolicy_as_Policy r =
     (let m = ap_meta r; spec = ap_spec r; annotation = map_of (om_annotations m) in
      \<lparr>DynamicType = KAdmissionPolicy,
       GetObjectMeta = m,
       GetStatus = ap_status r,
       GetPolicyMode = spec_mode spec,
       GetModule = spec_module spec,
       GetSettings = spec_settings spec,
       GetContextAwareResources = [],
       GetBackgroundAudit = spec_backgroundAudit spec,
       GetSeverity = annotation AnnotationSeverity,
       GetCategory = annotation AnnotationCategory,
       GetTitle = annotation AnnotationTitle,
       GetDescription = annotation AnnotationDescription,
       GetTimeoutSeconds = spec_timeoutSeconds spec,
       GetTimeoutEvalSeconds = spec_timeoutEvalSeconds spec,
       GetMessage = spec_message spec,
       GetPolicyServer = spec_policyServer spec,
       GetUniqueName = ''kw.ap.'' @ om_namespace m @ ''.'' @ om_name m,
       GetRules = namespaced_rules (spec_rules spec),
       GetSideEffects = spec_sideEffects spec,
       GetFailurePolicy = spec_failurePolicy spec,
       GetMatchPolicy = spec_matchPolicy spec,
       GetMatchConditions = spec_matchConditions spec,
       GetNamespaceSelector = Some (own_namespace_selector m),
       GetObjectSelector = spec_objectSelector spec,
       GetAllowInsideAdmissionControllerNamespace = False,
       IsMutating = spec_mutating spec,
       IsContextAware = False,
       AsPolicyGroup = None\<rparr>)"

definition ClusterAdmissionPolicy_as_Policy :: "ClusterAdmissionPolicy \<Rightarrow> Policy" where
  "ClusterAdmissionPolicy_as_Policy r =
     (let m = cap_meta r; spec = cap_spec r; annotation = map_of (om_annotations m) in
      \<lparr>DynamicType = KClusterAdmissionPolicy,
       GetObjectMeta = m,
       GetStatus = cap_status r,
       GetPolicyMode = spec_mode spec,
       GetModule = spec_module spec,
       GetSettings = spec_settings spec,
       GetContextAwareResources = cap_contextAwareResources spec,
       GetBackgroundAudit = spec_backgroundAudit spec,
       GetSeverity = annotation AnnotationSeverity,
       GetCategory = annotation AnnotationCategory,
       GetTitle = annotation AnnotationTitle,
       GetDescription = annotation AnnotationDescription,
       GetTimeoutSeconds = spec_timeoutSeconds spec,
       GetTimeoutEvalSeconds = spec_timeoutEvalSeconds spec,
       GetMessage = spec_message spec,
       GetPolicyServer = spec_policyServer spec,
       GetUniqueName = ''kw.cap.'' @ om_name m,
       GetRules = spec_rules spec,
       GetSideEffects = spec_sideEffects spec,
       GetFailurePolicy = spec_failurePolicy spec,
       GetMatchPolicy = spec_matchPolicy spec,
       GetMatchConditions = spec_matchConditions spec,
       GetNamespaceSelector = cap_namespaceSelector spec,
       GetObjectSelector = spec_objectSelector spec,
       GetAllowInsideAdmissionControllerNamespace = cap_allowInsideAdmissionControllerNamespace spec,
       IsMutating = spec_mutating spec,
       IsContextAware = (cap_contextAwareResources spec \<noteq> []),
       AsPolicyGroup = None\<rparr>)"

definition with_no_context :: "PolicyGroupMember_v1 \<Rightarrow> PolicyGroupMemberWithContext" where
  "with_no_context policy =
     \<lparr>gmv_module = gmv_module policy, gmv_settings = gmv_settings policy,
      gmv_timeoutEvalSeconds = gmv_timeoutEvalSeconds policy, gmv_contextAwareResources = []\<rparr>"

definition AdmissionPolicyGroup_as_Policy :: "AdmissionPolicyGroup \<Rightarrow> Policy" where
  "AdmissionPolicyGroup_as_Policy r =
     (let m = apg_meta r; spec = apg_spec r; annotation = map_of (om_annotations m) in
      \<lparr>DynamicType = KAdmissionPolicyGroup,
       GetObjectMeta = m,
       GetStatus = apg_status r,
       GetPolicyMode = gs_mode spec,
       GetModule = [],
       GetSettings = None,
       GetContextAwareResources = [],
       GetBackgroundAudit = gs_backgroundAudit spec,
       GetSeverity = annotation AnnotationSeverity,
       GetCategory = annotation AnnotationCategory,
       GetTitle = annotation AnnotationTitle,
       GetDescription = annotation AnnotationDescription,
       GetTimeoutSeconds = gs_timeoutSeconds spec,
       GetTimeoutEvalSeconds = None,
       GetMessage = gs_message spec,
       GetPolicyServer = gs_policyServer spec,
       GetUniqueName = ''kw.apg.'' @ om_namespace m @ ''.'' @ om_name m,
       GetRules = namespaced_rules (gs_rules spec),
       GetSideEffects = gs_sideEffects spec,
       GetFailurePolicy = gs_failurePolicy spec,
       GetMatchPolicy = gs_matchPolicy spec,
       GetMatchConditions = gs_matchConditions spec,
       GetNamespaceSelector = Some (own_namespace_selector m),
       GetObjectSelector = gs_objectSelector spec,
       GetAllowInsideAdmissionControllerNamespace = False,
       IsMutating = False,
       IsContextAware = False,
       AsPolicyGroup = Some
         \<lparr>GetPolicyGroupMembersWithContext =
            map (\<lambda>(name, policy). (name, with_no_context policy)) (apg_policies spec),
          GetExpression = gs_expression spec\<rparr>\<rparr>)"

definition ClusterAdmissionPolicyGroup_as_Policy :: "ClusterAdmissionPolicyGroup \<Rightarrow> Policy" where
  "ClusterAdmissionPolicyGroup_as_Policy r =
     (let m = capg_meta r; spec = capg_spec r; annotation = map_of (om_annotations m) in
      \<lparr>DynamicType = KClusterAdmissionPolicyGroup,
       GetObjectMeta = m,
       GetStatus = capg_status r,
       GetPolicyMode = gs_mode spec,
       GetModule = [],
       GetSettings = None,
       GetContextAwareResources = [],
       GetBackgroundAudit = gs_backgroundAudit spec,
       GetSeverity = annotation AnnotationSeverity,
       GetCategory = annotation AnnotationCategory,
       GetTitle = annotation AnnotationTitle,
       GetDescription = annotation AnnotationDescription,
       GetTimeoutSeconds = gs_timeoutSeconds spec,
       GetTimeoutEvalSeconds = None,
       GetMessage = gs_message spec,
       GetPolicyServer = gs_policyServer spec,
       GetUniqueName = ''kw.capg.'' @ om_name m,
       GetRules = gs_rules spec,
       GetSideEffects = gs_sideEffects spec,
       GetFailurePolicy = gs_failurePolicy spec,
       GetMatchPolicy = gs_matchPolicy spec,
       GetMatchConditions = gs_matchConditions spec,
       GetNamespaceSelector = capg_namespaceSelector spec,
       GetObjectSelector = gs_objectSelector spec,
       GetAllowInsideAdmissionControllerNamespace = capg_allowInsideAdmissionControllerNamespace spec,
       IsMutating = False,
       IsContextAware = list_ex (\<lambda>(_, policy). gmv_contextAwareResources policy \<noteq> []) (capg_policies spec),
       AsPolicyGroup = Some
         \<lparr>GetPolicyGroupMembersWithContext = capg_policies spec,
          GetExpression = gs_expression spec\<rparr>\<rparr>)"

lemmas as_Policy_defs =
  AdmissionPolicy_as_Policy_def ClusterAdmissionPolicy_as_Policy_def
  AdmissionPolicyGroup_as_Policy_def ClusterAdmissionPolicyGroup_as_Policy_def

section \<open>The four kinds\<close>

text \<open>An object of one of the four kinds.\<close>

datatype policy_object =
    AP AdmissionPolicy
  | CAP ClusterAdmissionPolicy
  | APG AdmissionPolicyGroup
  | CAPG ClusterAdmissionPolicyGroup

fun as_Policy :: "policy_object \<Rightarrow> Policy" where
  "as_Policy (AP r) = AdmissionPolicy_as_Policy r"
| "as_Policy (CAP r) = ClusterAdmissionPolicy_as_Policy r"
| "as_Policy (APG r) = AdmissionPolicyGroup_as_Policy r"
| "as_Policy (CAPG r) = ClusterAdmissionPolicyGroup_as_Policy r"

definition namespaced_kind :: "PolicyKind \<Rightarrow> bool" where
  "namespaced_kind k \<longleftrightarrow> k = KAdmissionPolicy \<or> k = KAdmissionPolicyGroup"

definition group_kind :: "PolicyKind \<Rightarrow> bool" where
  "group_kind k \<longleftrightarrow> k = KAdmissionPolicyGroup \<or> k = KClusterAdmissionPolicyGroup"

section \<open>Unique names\<close>

text \<open>
  What the API server guarantees of names: a namespace is a DNS label (no dots), a name is a
  DNS subdomain, neither has a slash, and exactly the namespaced kinds have a namespace.
\<close>

definition well_named :: "Policy \<Rightarrow> bool" where
  "well_named p \<longleftrightarrow>
     CHR ''/'' \<notin> set (GetName p) \<and> CHR ''/'' \<notin> set (GetNamespace p) \<and> CHR ''.'' \<notin> set (GetNamespace p) \<and>
     (namespaced_kind (DynamicType p) \<longleftrightarrow> GetNamespace p \<noteq> [])"

definition is_policy :: "Policy \<Rightarrow> bool" where
  "is_policy p \<longleftrightarrow> (\<exists>obj. p = as_Policy obj)"

fun kind_token :: "PolicyKind \<Rightarrow> string" where
  "kind_token KAdmissionPolicy = ''ap''"
| "kind_token KClusterAdmissionPolicy = ''cap''"
| "kind_token KAdmissionPolicyGroup = ''apg''"
| "kind_token KClusterAdmissionPolicyGroup = ''capg''"

lemma kind_token_facts: "CHR ''.'' \<notin> set (kind_token k)" "kind_token k = kind_token k' \<longleftrightarrow> k = k'"
  by (cases k; simp) (cases k; cases k'; simp)

text \<open>The shape of a unique name, for all four kinds at once.\<close>

lemma GetUniqueName_shape:
  "is_policy p \<Longrightarrow> GetUniqueName p =
     ''kw.'' @ kind_token (DynamicType p) @ CHR ''.'' #
       (if namespaced_kind (DynamicType p) then GetNamespace p @ CHR ''.'' # GetName p else GetName p)"
  unfolding is_policy_def
  by (elim exE, rename_tac obj, case_tac obj) (simp_all add: as_Policy_defs Let_def namespaced_kind_def)

lemma split_at_separator:
  "c \<notin> set a \<Longrightarrow> c \<notin> set a' \<Longrightarrow> a @ c # b = a' @ c # b' \<longleftrightarrow> a = a' \<and> b = b'"
  by (metis append_eq_append_conv2 append_eq_Cons_conv append_same_eq list.inject
      split_once_Some_iff option.inject prod.inject)

lemma unique_name_determines:
  assumes "is_policy p" "is_policy q" "well_named p" "well_named q" "GetUniqueName p = GetUniqueName q"
  shows "DynamicType p = DynamicType q \<and> GetNamespace p = GetNamespace q \<and> GetName p = GetName q"
proof -
  from assms(5) have eq:
    "kind_token (DynamicType p) @ CHR ''.'' #
       (if namespaced_kind (DynamicType p) then GetNamespace p @ CHR ''.'' # GetName p else GetName p) =
     kind_token (DynamicType q) @ CHR ''.'' #
       (if namespaced_kind (DynamicType q) then GetNamespace q @ CHR ''.'' # GetName q else GetName q)"
    by (simp add: GetUniqueName_shape assms(1,2))
  note parts = eq [unfolded split_at_separator [OF kind_token_facts(1) kind_token_facts(1)]]
  have kind: "DynamicType p = DynamicType q" using parts by (simp add: kind_token_facts)
  have rest: "(if namespaced_kind (DynamicType p) then GetNamespace p @ CHR ''.'' # GetName p else GetName p) =
      (if namespaced_kind (DynamicType q) then GetNamespace q @ CHR ''.'' # GetName q else GetName q)"
    using parts by (rule conjunct2)
  show ?thesis
  proof (cases "namespaced_kind (DynamicType q)")
    case True
    with rest kind have "GetNamespace p @ CHR ''.'' # GetName p = GetNamespace q @ CHR ''.'' # GetName q" by simp
    with assms(3,4) kind show ?thesis by (simp add: split_at_separator well_named_def)
  next
    case False
    with rest kind assms(3,4) show ?thesis by (simp add: well_named_def)
  qed
qed

lemma unique_name_slash_free: "is_policy p \<Longrightarrow> well_named p \<Longrightarrow> CHR ''/'' \<notin> set (GetUniqueName p)"
  by (cases "DynamicType p") (simp_all add: GetUniqueName_shape well_named_def namespaced_kind_def)

lemma unique_name_prefix: "is_policy p \<Longrightarrow> prefix ''kw.'' (GetUniqueName p)"
  by (simp add: GetUniqueName_shape)

lemma AsPolicyGroup_iff: "is_policy p \<Longrightarrow> AsPolicyGroup p \<noteq> None \<longleftrightarrow> group_kind (DynamicType p)"
  unfolding is_policy_def
  by (elim exE, rename_tac obj, case_tac obj) (simp_all add: as_Policy_defs Let_def group_kind_def)

section \<open>The policy server\<close>

text \<open>
  Kubernetes structures that the controller only copies (security contexts, affinity,
  tolerations) are their text, as are quantities and the values \<^verbatim>\<open>IntOrString\<close>.
\<close>

record PolicyServerSpec =
  pss_image :: string
  pss_replicas :: "32 word"
  pss_minAvailable :: "string option"
  pss_maxUnavailable :: "string option"
  pss_annotations :: "(string \<times> string) list"
  pss_labels :: "(string \<times> string) list"
  pss_env :: "(string \<times> string) list"
  pss_serviceAccountName :: string
  pss_imagePullSecret :: string
  pss_insecureSources :: "string list"
  pss_sourceAuthorities :: "(string \<times> string list) list"
  pss_verificationConfig :: string
  pss_sigstoreTrustConfig :: string
  pss_containerSecurityContext :: "string option"
  pss_podSecurityContext :: "string option"
  pss_affinity :: string
  pss_limits :: "(string \<times> string) list"
  pss_requests :: "(string \<times> string) list"
  pss_tolerations :: "string list"
  pss_priorityClassName :: string
  pss_namespacedPoliciesCapabilities :: "string list option"
  pss_webhookPort :: "32 word option"
  pss_readinessProbePort :: "32 word option"
  pss_metricsPort :: "32 word option"

record PolicyServer =
  srv_meta :: ObjectMeta
  srv_spec :: PolicyServerSpec
  srv_conditions :: "Condition list"

definition NameWithPrefix :: "PolicyServer \<Rightarrow> string" where
  "NameWithPrefix ps = ''policy-server-'' @ om_name (srv_meta ps)"

definition AppLabel :: "PolicyServer \<Rightarrow> string" where
  "AppLabel ps = ''kubewarden-'' @ NameWithPrefix ps"

definition PolicyServerListenPort :: "32 word" where "PolicyServerListenPort = 8443"
definition PolicyServerServicePort :: "32 word" where "PolicyServerServicePort = 443"
definition PolicyServerReadinessProbePort :: "32 word" where "PolicyServerReadinessProbePort = 8081"

definition EffectiveWebhookPort :: "PolicyServer \<Rightarrow> 32 word" where
  "EffectiveWebhookPort ps =
     (case pss_webhookPort (srv_spec ps) of Some p \<Rightarrow> p | None \<Rightarrow> PolicyServerListenPort)"

definition EffectiveReadinessProbePort :: "PolicyServer \<Rightarrow> 32 word" where
  "EffectiveReadinessProbePort ps =
     (case pss_readinessProbePort (srv_spec ps) of Some p \<Rightarrow> p | None \<Rightarrow> PolicyServerReadinessProbePort)"

definition EffectiveMetricsPort :: "PolicyServer \<Rightarrow> 32 word \<Rightarrow> 32 word" where
  "EffectiveMetricsPort ps defaultPort =
     (case pss_metricsPort (srv_spec ps) of Some p \<Rightarrow> p | None \<Rightarrow> defaultPort)"

definition PolicyServerLabelKey :: string where "PolicyServerLabelKey = ''kubewarden/policy-server''"
definition InstanceLabelKey :: string where "InstanceLabelKey = ''app.kubernetes.io/instance''"
definition ComponentLabelKey :: string where "ComponentLabelKey = ''app.kubernetes.io/component''"
definition PartOfLabelKey :: string where "PartOfLabelKey = ''app.kubernetes.io/part-of''"
definition PartOfLabelValue :: string where "PartOfLabelValue = ''kubewarden''"
definition ManagedByKey :: string where "ManagedByKey = ''app.kubernetes.io/managed-by''"
definition KubewardenFinalizerPre114 :: string where "KubewardenFinalizerPre114 = ''kubewarden''"
definition KubewardenFinalizer :: string where "KubewardenFinalizer = ''kubewarden.io/finalizer''"
definition CARootSecretName :: string where "CARootSecretName = ''kubewarden-ca''"
definition WebhookNameSuffix :: string where "WebhookNameSuffix = ''.kubewarden.admission''"

definition CommonLabels :: "PolicyServer \<Rightarrow> (string \<times> string) list" where
  "CommonLabels ps =
     [(ComponentLabelKey, ''policy-server''),
      (InstanceLabelKey, NameWithPrefix ps),
      (PartOfLabelKey, PartOfLabelValue),
      (ManagedByKey, ''kubewarden-controller'')]"

text \<open>Assigning the entries of one Go map to another, one after the other.\<close>

definition map_put :: "(string \<times> 'a) list \<Rightarrow> string \<Rightarrow> 'a \<Rightarrow> (string \<times> 'a) list" where
  "map_put m k v = AList.update k v m"

definition map_put_all :: "(string \<times> 'a) list \<Rightarrow> (string \<times> 'a) list \<Rightarrow> (string \<times> 'a) list" where
  "map_put_all m entries = foldl (\<lambda>m (k, v). map_put m k v) m entries"

definition map_delete :: "(string \<times> 'a) list \<Rightarrow> string \<Rightarrow> (string \<times> 'a) list" where
  "map_delete m k = AList.delete k m"

text \<open>\<^verbatim>\<open>m[k]\<close> for a map to strings: the empty string when the key is absent.\<close>

definition map_str :: "(string \<times> string) list \<Rightarrow> string \<Rightarrow> string" where
  "map_str m k = (case map_of m k of Some v \<Rightarrow> v | None \<Rightarrow> [])"

lemma map_of_map_put [simp]: "map_of (map_put m k v) = (map_of m)(k \<mapsto> v)"
  by (simp add: map_put_def update_conv')

lemma map_of_map_delete [simp]: "map_of (map_delete m k) = (map_of m)(k := None)"
  by (simp add: map_delete_def delete_conv')

lemma map_put_all_simps [simp]:
  "map_put_all m [] = m"
  "map_put_all m ((k, v) # es) = map_put_all (map_put m k v) es"
  "map_put_all m (es @ es') = map_put_all (map_put_all m es) es'"
  by (simp_all add: map_put_all_def)

lemma map_of_map_put_all: "map_of (map_put_all m es) = map_of m ++ map_of (rev es)"
proof (induction es rule: rev_induct)
  case (snoc e es)
  obtain k v where e: "e = (k, v)" by (cases e)
  have "map_of (map_put_all m (es @ [e])) = (map_of m ++ map_of (rev es))(k \<mapsto> v)"
    by (simp add: e snoc)
  moreover have "map_of (rev (es @ [e])) = (map_of (rev es))(k \<mapsto> v)" by (simp add: e)
  ultimately show ?case by (simp only: map_add_upd)
qed simp

lemma distinct_map_put [simp]: "distinct (map fst m) \<Longrightarrow> distinct (map fst (map_put m k v))"
  by (simp add: map_put_def distinct_update)

lemma distinct_map_put_all [simp]: "distinct (map fst m) \<Longrightarrow> distinct (map fst (map_put_all m es))"
  by (induction es arbitrary: m) auto

end
