(* ===== verification/Policy_Validation.thy ===== *)
theory Policy_Validation
  imports Kube_Policy Host_Capabilities
begin

text \<open>
  The admission webhooks of the controller for its own resources
  (\<^verbatim>\<open>api/policies/v1/policy_validation.go\<close>, \<^verbatim>\<open>policygroup_validation.go\<close>,
  \<^verbatim>\<open>policyserver_webhook.go\<close> and the four \<^verbatim>\<open>*_webhook.go\<close> files): defaulting, and the validation
  of policies, policy groups and policy servers.  The CEL compiler, the check of qualified
  names, the comparison of quantities and the API client are parameters.
\<close>

section \<open>Field errors\<close>

datatype path_element = Child string | Index nat | Key string

type_synonym field_path = "path_element list"

datatype bad_value = BadString string | BadInt int

datatype field_error =
    Required field_path string
  | Invalid field_path bad_value string
  | Forbidden field_path string
  | Duplicate field_path string
  | TooMany field_path nat nat
  | InternalError field_path string

definition show_int :: "int \<Rightarrow> string" where
  "show_int i = (if i < 0 then ''-'' @ show_nat (nat (- i)) else show_nat (nat i))"

text \<open>A list with the positions of its elements: \<^verbatim>\<open>for i, x := range xs\<close>.\<close>

definition indexed :: "'a list \<Rightarrow> (nat \<times> 'a) list" where
  "indexed xs = zip [0..<length xs] xs"

lemma indexed_Nil [simp]: "indexed [] = []"
  by (simp add: indexed_def)

lemma snd_indexed [simp]: "map snd (indexed xs) = xs"
  by (simp add: indexed_def)

lemma set_snd_indexed: "snd ` set (indexed xs) = set xs"
  by (metis list.set_map snd_indexed)

lemma concat_indexed_Nil_iff:
  "concat (map (\<lambda>(i, x). f i x) (indexed xs)) = [] \<longleftrightarrow> (\<forall>(i, x)\<in>set (indexed xs). f i x = [])"
  by auto

lemma indexed_all: "(\<forall>(i, x)\<in>set (indexed xs). P x) \<longleftrightarrow> (\<forall>x\<in>set xs. P x)"
  using set_snd_indexed [of xs] by (force simp: case_prod_beta)

section \<open>Parameters\<close>

text \<open>Errors of the CEL compiler; \<open>CelOther\<close> is any other error value.\<close>

datatype cel_error = CelRequired string | CelInvalid string | CelInternal string | CelOther string

datatype group_compilation =
    EnvFailed string
  | CompileFailed string
  | Compiled string

record validation_library =
  vl_compile_match_condition :: "string \<Rightarrow> cel_error option"
  vl_IsQualifiedName :: "string \<Rightarrow> string list"
  vl_stdlib_functions :: "string list"
  vl_compile_group :: "string list \<Rightarrow> string list \<Rightarrow> string \<Rightarrow> group_compilation"

definition DNS1123SubdomainMaxLength :: nat where "DNS1123SubdomainMaxLength = 253"
definition DNS1035LabelMaxLength :: nat where "DNS1035LabelMaxLength = 63"

section \<open>Rules\<close>

definition wildcardAllResources :: string where "wildcardAllResources = ''*/*''"

definition checkOperationsArrayForEmptyString :: "string list \<Rightarrow> field_path \<Rightarrow> field_error list" where
  "checkOperationsArrayForEmptyString operationsArray ruleField =
     concat (map (\<lambda>(i, operation).
         if operation = [] then [Required (ruleField @ [Child ''operations'', Index i]) ''must be non-empty'']
         else [])
       (indexed operationsArray))"

definition checkRulesArrayForEmptyString :: "string list \<Rightarrow> field_path \<Rightarrow> field_error list" where
  "checkRulesArrayForEmptyString rulesArray ruleField =
     concat (map (\<lambda>(i, apiVersion).
         if apiVersion = [] then [Required (ruleField @ [Index i]) ''must be non-empty''] else [])
       (indexed rulesArray))"

text \<open>The loop that stops at the first match and keeps its index.\<close>

definition first_index :: "('a \<Rightarrow> bool) \<Rightarrow> 'a list \<Rightarrow> nat option" where
  "first_index P xs = map_option fst (find (\<lambda>(i, x). P x) (indexed xs))"

lemma first_index_None_iff: "first_index P xs = None \<longleftrightarrow> (\<forall>x\<in>set xs. \<not> P x)"
  using indexed_all [of xs "\<lambda>x. \<not> P x"] by (auto simp: first_index_def find_None_iff)

definition checkRulesArrayForWildcardUsage :: "RuleWithOperations \<Rightarrow> field_path \<Rightarrow> field_error list" where
  "checkRulesArrayForWildcardUsage rule ruleField =
     (case (first_index (\<lambda>apiGroup. apiGroup = ''*'') (r_apiGroups rule),
            first_index (\<lambda>resource. resource = ''*'' \<or> resource = wildcardAllResources) (r_resources rule)) of
        (Some apiGroupWildcardIndex, Some resourceWildcardIndex) \<Rightarrow>
          [Forbidden (ruleField @ [Child ''apiGroups'', Index apiGroupWildcardIndex])
             ''apiGroups cannot use wildcards when using AdmissionPolicy or AdmissionPolicyGroup'',
           Forbidden (ruleField @ [Child ''resources'', Index resourceWildcardIndex])
             ''resources cannot use wildcards when using AdmissionPolicy or AdmissionPolicyGroup'']
      | _ \<Rightarrow> [])"

definition validate_rule :: "bool \<Rightarrow> field_path \<Rightarrow> RuleWithOperations \<Rightarrow> field_error list" where
  "validate_rule namespaced ruleField rule =
     (if r_operations rule = [] then
        [Required (ruleField @ [Child ''operations'']) ''a value must be specified'']
      else if r_apiVersions rule = [] \<or> r_resources rule = [] then
        (if r_apiVersions rule = [] then
           [Required (ruleField @ [Child ''apiVersions'']) ''a value must be specified''] else []) @
        (if r_resources rule = [] then
           [Required (ruleField @ [Child ''resources'']) ''a value must be specified''] else [])
      else
        checkOperationsArrayForEmptyString (r_operations rule) ruleField @
        checkRulesArrayForEmptyString (r_apiVersions rule) (ruleField @ [Child ''apiVersions'']) @
        checkRulesArrayForEmptyString (r_resources rule) (ruleField @ [Child ''resources'']) @
        (if namespaced then checkRulesArrayForWildcardUsage rule ruleField else []))"

definition validateRulesField :: "Policy \<Rightarrow> field_error list" where
  "validateRulesField policy =
     (let rulesField = [Child ''spec'', Child ''rules''] in
      if GetRules policy = [] then [Required rulesField ''a value must be specified'']
      else
        (let isAdmissionPolicy = (DynamicType policy = KAdmissionPolicy);
             isAdmissionPolicyGroup = (DynamicType policy = KAdmissionPolicyGroup) in
         concat (map (\<lambda>(i, rule).
             validate_rule (isAdmissionPolicy \<or> isAdmissionPolicyGroup) (rulesField @ [Index i]) rule)
           (indexed (GetRules policy)))))"

section \<open>Match conditions\<close>

definition maxMatchConditionsCount :: nat where "maxMatchConditionsCount = 64"

fun convertCELErrorToValidationError :: "field_path \<Rightarrow> string \<Rightarrow> cel_error \<Rightarrow> field_error" where
  "convertCELErrorToValidationError fldPath expression (CelRequired detail) = Required fldPath detail"
| "convertCELErrorToValidationError fldPath expression (CelInvalid detail) =
     Invalid fldPath (BadString expression) detail"
| "convertCELErrorToValidationError fldPath expression (CelInternal err) = InternalError fldPath err"
| "convertCELErrorToValidationError fldPath expression (CelOther err) =
     InternalError fldPath (''unsupported error type: '' @ err)"

definition validateMatchConditionsExpression ::
  "validation_library \<Rightarrow> string \<Rightarrow> field_path \<Rightarrow> field_error list" where
  "validateMatchConditionsExpression lib expressionStr fldPath =
     (case vl_compile_match_condition lib expressionStr of
        None \<Rightarrow> []
      | Some err \<Rightarrow> [convertCELErrorToValidationError fldPath expressionStr err])"

definition validateMatchCondition ::
  "validation_library \<Rightarrow> MatchCondition \<Rightarrow> field_path \<Rightarrow> field_error list" where
  "validateMatchCondition lib v fldPath =
     (let trimmedExpression = trim (mc_expression v) in
      (if trimmedExpression = [] then [Required (fldPath @ [Child ''expression'']) []]
       else validateMatchConditionsExpression lib trimmedExpression (fldPath @ [Child ''expression''])) @
      (if mc_name v = [] then [Required (fldPath @ [Child ''name'']) []]
       else map (\<lambda>msg. Invalid fldPath (BadString (mc_name v)) msg) (vl_IsQualifiedName lib (mc_name v))))"

fun match_conditions_loop ::
  "validation_library \<Rightarrow> field_path \<Rightarrow> string set \<Rightarrow> (nat \<times> MatchCondition) list \<Rightarrow> field_error list" where
  "match_conditions_loop lib fldPath conditionNames [] = []"
| "match_conditions_loop lib fldPath conditionNames ((i, matchCondition) # rest) =
     validateMatchCondition lib matchCondition (fldPath @ [Index i]) @
     (if mc_name matchCondition \<noteq> [] then
        (if mc_name matchCondition \<in> conditionNames then
           Duplicate (fldPath @ [Index i, Child ''name'']) (mc_name matchCondition) #
           match_conditions_loop lib fldPath conditionNames rest
         else match_conditions_loop lib fldPath (insert (mc_name matchCondition) conditionNames) rest)
      else match_conditions_loop lib fldPath conditionNames rest)"

definition validateMatchConditions ::
  "validation_library \<Rightarrow> MatchCondition list \<Rightarrow> field_path \<Rightarrow> field_error list" where
  "validateMatchConditions lib m fldPath =
     (if maxMatchConditionsCount < length m then [TooMany fldPath (length m) maxMatchConditionsCount] else []) @
     match_conditions_loop lib fldPath {} (indexed m)"

section \<open>Policies\<close>

text \<open>Timeouts are signed 32-bit integers.\<close>

definition validateTimeoutSeconds :: "Policy \<Rightarrow> field_error list" where
  "validateTimeoutSeconds policy =
     (case (GetTimeoutSeconds policy, GetTimeoutEvalSeconds policy) of
        (Some timeoutSeconds, Some timeoutEvalSeconds) \<Rightarrow>
          (if sint timeoutSeconds < sint timeoutEvalSeconds then
             [Invalid [Child ''spec'', Child ''timeoutEvalSeconds''] (BadInt (sint timeoutEvalSeconds))
                ''timeoutEvalSeconds cannot be greater than timeoutSeconds'']
           else [])
      | _ \<Rightarrow> [])"

definition validateUniqueNameLength :: "Policy \<Rightarrow> field_error option" where
  "validateUniqueNameLength policy =
     (let webhookName = GetUniqueName policy @ WebhookNameSuffix in
      if length webhookName \<le> DNS1123SubdomainMaxLength then None
      else
        (let maxNameLength = int DNS1123SubdomainMaxLength - int (length WebhookNameSuffix)
               - int (length (GetUniqueName policy)) + int (length (GetName policy)) in
         Some (Invalid [Child ''metadata'', Child ''name''] (BadString (GetName policy))
           (''the policy name combined with its namespace and kind produces an identity that is too long ('' @
            show_nat (length webhookName) @ '' characters, max '' @ show_nat DNS1123SubdomainMaxLength @
            ''); the name must be at most '' @ show_int maxNameLength @ '' characters long''))))"

definition validatePolicyServerField :: "Policy \<Rightarrow> Policy \<Rightarrow> field_error option" where
  "validatePolicyServerField oldPolicy newPolicy =
     (if GetPolicyServer oldPolicy \<noteq> GetPolicyServer newPolicy then
        Some (Forbidden [Child ''spec'', Child ''policyServer''] ''the field is immutable'')
      else None)"

definition protectMode :: string where "protectMode = ''protect''"

definition validatePolicyModeField :: "Policy \<Rightarrow> Policy \<Rightarrow> field_error option" where
  "validatePolicyModeField oldPolicy newPolicy =
     (if GetPolicyMode oldPolicy = protectMode \<and> GetPolicyMode newPolicy = ''monitor'' then
        Some (Forbidden [Child ''spec'', Child ''mode'']
          ''field cannot transition from protect to monitor. Recreate instead.'')
      else None)"

text \<open>\<^verbatim>\<open>if err := f(); err != nil { allErrors = append(allErrors, err) }\<close>\<close>

definition err_list :: "field_error option \<Rightarrow> field_error list" where
  "err_list e = (case e of None \<Rightarrow> [] | Some err \<Rightarrow> [err])"

definition validatePolicyCreate :: "validation_library \<Rightarrow> Policy \<Rightarrow> field_error list" where
  "validatePolicyCreate lib policy =
     validateRulesField policy @
     validateMatchConditions lib (GetMatchConditions policy) [Child ''spec'', Child ''matchConditions''] @
     validateTimeoutSeconds policy @
     err_list (validateUniqueNameLength policy)"

definition validatePolicyUpdate :: "validation_library \<Rightarrow> Policy \<Rightarrow> Policy \<Rightarrow> field_error list" where
  "validatePolicyUpdate lib oldPolicy newPolicy =
     validateRulesField newPolicy @
     validateMatchConditions lib (GetMatchConditions newPolicy) [Child ''spec'', Child ''matchConditions''] @
     validateTimeoutSeconds newPolicy @
     err_list (validatePolicyServerField oldPolicy newPolicy) @
     err_list (validatePolicyModeField oldPolicy newPolicy)"

section \<open>Policy groups\<close>

definition identifier_start :: "char \<Rightarrow> bool" where
  "identifier_start c \<longleftrightarrow>
     c = CHR ''_'' \<or> (CHR ''a'' \<le> c \<and> c \<le> CHR ''z'') \<or> (CHR ''A'' \<le> c \<and> c \<le> CHR ''Z'')"

definition identifier_char :: "char \<Rightarrow> bool" where
  "identifier_char c \<longleftrightarrow> identifier_start c \<or> (CHR ''0'' \<le> c \<and> c \<le> CHR ''9'')"

text \<open>The regular expression \<^verbatim>\<open>^[_a-zA-Z][_a-zA-Z0-9]*$\<close>.\<close>

fun idenRegex :: "string \<Rightarrow> bool" where
  "idenRegex [] = False"
| "idenRegex (c # cs) = (identifier_start c \<and> list_all identifier_char cs)"

definition celReservedSymbols :: "string list" where
  "celReservedSymbols =
     [''true'', ''false'', ''null'', ''in'',
      ''as'', ''break'', ''const'', ''continue'', ''else'',
      ''for'', ''function'', ''if'', ''import'', ''let'',
      ''loop'', ''package'', ''namespace'', ''return'',
      ''var'', ''void'', ''while'']"

definition validatePolicyGroupMessageField :: "Policy \<Rightarrow> field_error option" where
  "validatePolicyGroupMessageField policyGroup =
     (if GetMessage policyGroup = [] then
        Some (Required [Child ''spec'', Child ''message''] ''must be non-empty'')
      else None)"

definition valid_member_name :: "string \<Rightarrow> bool" where
  "valid_member_name memberName \<longleftrightarrow>
     \<not> (memberName = [] \<or> memberName \<in> set celReservedSymbols \<or> \<not> idenRegex memberName)"

definition validatePolicyGroupMembers :: "PolicyGroup \<Rightarrow> field_error list" where
  "validatePolicyGroupMembers policyGroup =
     (let members = GetPolicyGroupMembersWithContext policyGroup in
      (if members = [] then
         [Required [Child ''spec'', Child ''policies''] ''policy groups must have at least one policy member'']
       else []) @
      concat (map (\<lambda>(memberName, _).
          if \<not> valid_member_name memberName then
            [Invalid [Child ''spec'', Child ''policies''] (BadString memberName)
               ''policy group member name is invalid'']
          else [])
        members))"

text \<open>The names that CEL gives the operators \<^verbatim>\<open>==\<close>, \<^verbatim>\<open>!=\<close>, \<^verbatim>\<open>||\<close>, \<^verbatim>\<open>&&\<close> and \<^verbatim>\<open>!\<close>.\<close>

definition allowedOperators :: "string list" where
  "allowedOperators = [''_==_'', ''_!=_'', ''_||_'', ''_&&_'', ''!_'']"

definition validatePolicyGroupExpressionField :: "validation_library \<Rightarrow> PolicyGroup \<Rightarrow> field_error option" where
  "validatePolicyGroupExpressionField lib policyGroup =
     (let expressionField = [Child ''spec'', Child ''expression''];
          expression = GetExpression policyGroup in
      if expression = [] then Some (Required expressionField ''must be non-empty'')
      else
        (case vl_compile_group lib (map fst (GetPolicyGroupMembersWithContext policyGroup))
                (filter (\<lambda>fn. fn \<in> set allowedOperators) (vl_stdlib_functions lib)) expression of
           EnvFailed err \<Rightarrow> Some (InternalError expressionField (''error creating CEL environment: '' @ err))
         | CompileFailed err \<Rightarrow>
             Some (Invalid expressionField (BadString expression) (''compilation failed: '' @ err))
         | Compiled outputType \<Rightarrow>
             (if outputType \<noteq> ''bool'' then
                Some (Invalid expressionField (BadString expression) ''must evaluate to bool'')
              else None)))"

definition maxWebhookTimeoutSeconds :: int where "maxWebhookTimeoutSeconds = 30"

text \<open>The loop over the members: the errors so far, and the sum with its wrap-around.\<close>

fun member_timeouts_loop ::
  "32 word option \<Rightarrow> 32 word \<Rightarrow> PolicyGroupMembersWithContext \<Rightarrow> field_error list \<times> 32 word" where
  "member_timeouts_loop groupTimeout sumMemberTimeoutEval [] = ([], sumMemberTimeoutEval)"
| "member_timeouts_loop groupTimeout sumMemberTimeoutEval ((memberName, member) # rest) =
     (case gmv_timeoutEvalSeconds member of
        None \<Rightarrow> member_timeouts_loop groupTimeout sumMemberTimeoutEval rest
      | Some memberTimeoutEval \<Rightarrow>
          (let fld = [Child ''spec'', Child ''policies'', Key memberName, Child ''timeoutEvalSeconds''];
               (errs, total) = member_timeouts_loop groupTimeout (sumMemberTimeoutEval + memberTimeoutEval) rest in
           ((if maxWebhookTimeoutSeconds < sint memberTimeoutEval then
               [Invalid fld (BadInt (sint memberTimeoutEval))
                  (''timeoutEvalSeconds cannot be greater than '' @ show_int maxWebhookTimeoutSeconds @
                   '' (Kubernetes webhook max timeout)'')]
             else []) @
            (case groupTimeout of
               Some t \<Rightarrow>
                 (if sint t < sint memberTimeoutEval then
                    [Invalid fld (BadInt (sint memberTimeoutEval))
                       (''timeoutEvalSeconds cannot be greater than group timeoutSeconds ('' @
                        show_int (sint t) @ '')'')]
                  else [])
             | None \<Rightarrow> []) @
            errs, total)))"

definition validatePolicyGroupMembersTimeouts :: "Policy \<Rightarrow> PolicyGroup \<Rightarrow> field_error list" where
  "validatePolicyGroupMembersTimeouts policy policyGroup =
     (let groupTimeout = GetTimeoutSeconds policy;
          fldMembers = [Child ''spec'', Child ''policies''];
          (errs, sumMemberTimeoutEval) =
            member_timeouts_loop groupTimeout 0 (GetPolicyGroupMembersWithContext policyGroup) in
      errs @
      (case groupTimeout of
         Some t \<Rightarrow>
           (if sint t < sint sumMemberTimeoutEval then
              [Invalid fldMembers (BadInt (sint sumMemberTimeoutEval))
                 (''the sum of all members'' @ [CHR 39] @
                  '' timeoutEvalSeconds cannot be greater than group timeoutSeconds ('' @
                  show_int (sint t) @ '')'')]
            else [])
       | None \<Rightarrow> []) @
      (if maxWebhookTimeoutSeconds < sint sumMemberTimeoutEval then
         [Invalid fldMembers (BadInt (sint sumMemberTimeoutEval))
            (''the sum of all members'' @ [CHR 39] @ '' timeoutEvalSeconds cannot be greater than '' @
             show_int maxWebhookTimeoutSeconds @ '' (Kubernetes webhook max timeout)'')]
       else []))"

definition validate_group_fields :: "validation_library \<Rightarrow> Policy \<Rightarrow> PolicyGroup \<Rightarrow> field_error list" where
  "validate_group_fields lib policy policyGroup =
     validatePolicyGroupMembers policyGroup @
     validatePolicyGroupMembersTimeouts policy policyGroup @
     err_list (validatePolicyGroupExpressionField lib policyGroup) @
     err_list (validatePolicyGroupMessageField policy)"

definition validatePolicyGroupCreate :: "validation_library \<Rightarrow> Policy \<Rightarrow> PolicyGroup \<Rightarrow> field_error list" where
  "validatePolicyGroupCreate lib policy policyGroup =
     validatePolicyCreate lib policy @ validate_group_fields lib policy policyGroup"

definition validatePolicyGroupUpdate ::
  "validation_library \<Rightarrow> Policy \<Rightarrow> Policy \<Rightarrow> PolicyGroup \<Rightarrow> field_error list" where
  "validatePolicyGroupUpdate lib oldPolicyGroup newPolicy newPolicyGroup =
     validatePolicyUpdate lib oldPolicyGroup newPolicy @ validate_group_fields lib newPolicy newPolicyGroup"

section \<open>The webhooks of the four kinds\<close>

definition DefaultPolicyServer :: string where "DefaultPolicyServer = ''default''"

text \<open>An \<^verbatim>\<open>Invalid\<close> status error: the object's kind and name, and the field errors.\<close>

datatype api_status_error = InvalidObject string string "field_error list"

definition prepareInvalidAPIError :: "string \<Rightarrow> string \<Rightarrow> field_error list \<Rightarrow> api_status_error" where
  "prepareInvalidAPIError kind name errorList = InvalidObject kind name errorList"

definition verdict :: "string \<Rightarrow> string \<Rightarrow> field_error list \<Rightarrow> api_status_error + unit" where
  "verdict kind name allErrors =
     (if allErrors \<noteq> [] then Err (prepareInvalidAPIError kind name allErrors) else Ok ())"

definition admissionPolicy_Default :: "AdmissionPolicy \<Rightarrow> AdmissionPolicy" where
  "admissionPolicy_Default r =
     (if spec_policyServer (ap_spec r) = [] then
        r\<lparr>ap_spec := (ap_spec r)\<lparr>spec_policyServer := DefaultPolicyServer\<rparr>\<rparr>
      else r)"

definition admissionPolicy_ValidateCreate ::
  "validation_library \<Rightarrow> AdmissionPolicy \<Rightarrow> api_status_error + unit" where
  "admissionPolicy_ValidateCreate lib r =
     verdict ''AdmissionPolicy'' (om_name (ap_meta r)) (validatePolicyCreate lib (AdmissionPolicy_as_Policy r))"

definition admissionPolicy_ValidateUpdate ::
  "validation_library \<Rightarrow> AdmissionPolicy \<Rightarrow> AdmissionPolicy \<Rightarrow> api_status_error + unit" where
  "admissionPolicy_ValidateUpdate lib old new =
     verdict ''AdmissionPolicy'' (om_name (ap_meta new))
       (validatePolicyUpdate lib (AdmissionPolicy_as_Policy old) (AdmissionPolicy_as_Policy new))"

definition clusterAdmissionPolicy_Default :: "ClusterAdmissionPolicy \<Rightarrow> ClusterAdmissionPolicy" where
  "clusterAdmissionPolicy_Default r =
     (if spec_policyServer (cap_spec r) = [] then
        r\<lparr>cap_spec := (cap_spec r)\<lparr>spec_policyServer := DefaultPolicyServer\<rparr>\<rparr>
      else r)"

definition clusterAdmissionPolicy_ValidateCreate ::
  "validation_library \<Rightarrow> ClusterAdmissionPolicy \<Rightarrow> api_status_error + unit" where
  "clusterAdmissionPolicy_ValidateCreate lib r =
     verdict ''ClusterAdmissionPolicy'' (om_name (cap_meta r))
       (validatePolicyCreate lib (ClusterAdmissionPolicy_as_Policy r))"

definition clusterAdmissionPolicy_ValidateUpdate ::
  "validation_library \<Rightarrow> ClusterAdmissionPolicy \<Rightarrow> ClusterAdmissionPolicy \<Rightarrow> api_status_error + unit" where
  "clusterAdmissionPolicy_ValidateUpdate lib old new =
     verdict ''ClusterAdmissionPolicy'' (om_name (cap_meta new))
       (validatePolicyUpdate lib (ClusterAdmissionPolicy_as_Policy old) (ClusterAdmissionPolicy_as_Policy new))"

text \<open>A group validator sees its object as a policy and as a policy group.\<close>

definition group_errors :: "(Policy \<Rightarrow> PolicyGroup \<Rightarrow> field_error list) \<Rightarrow> Policy \<Rightarrow> field_error list" where
  "group_errors f policy = (case AsPolicyGroup policy of Some g \<Rightarrow> f policy g | None \<Rightarrow> [])"

definition admissionPolicyGroup_Default :: "AdmissionPolicyGroup \<Rightarrow> AdmissionPolicyGroup" where
  "admissionPolicyGroup_Default r =
     (if gs_policyServer (apg_spec r) = [] then
        r\<lparr>apg_spec := (apg_spec r)\<lparr>gs_policyServer := DefaultPolicyServer\<rparr>\<rparr>
      else r)"

definition admissionPolicyGroup_ValidateCreate ::
  "validation_library \<Rightarrow> AdmissionPolicyGroup \<Rightarrow> api_status_error + unit" where
  "admissionPolicyGroup_ValidateCreate lib r =
     verdict ''AdmissionPolicyGroup'' (om_name (apg_meta r))
       (group_errors (validatePolicyGroupCreate lib) (AdmissionPolicyGroup_as_Policy r))"

definition admissionPolicyGroup_ValidateUpdate ::
  "validation_library \<Rightarrow> AdmissionPolicyGroup \<Rightarrow> AdmissionPolicyGroup \<Rightarrow> api_status_error + unit" where
  "admissionPolicyGroup_ValidateUpdate lib old new =
     verdict ''AdmissionPolicyGroup'' (om_name (apg_meta new))
       (group_errors (validatePolicyGroupUpdate lib (AdmissionPolicyGroup_as_Policy old))
          (AdmissionPolicyGroup_as_Policy new))"

definition clusterAdmissionPolicyGroup_Default ::
  "ClusterAdmissionPolicyGroup \<Rightarrow> ClusterAdmissionPolicyGroup" where
  "clusterAdmissionPolicyGroup_Default r =
     (if gs_policyServer (capg_spec r) = [] then
        r\<lparr>capg_spec := (capg_spec r)\<lparr>gs_policyServer := DefaultPolicyServer\<rparr>\<rparr>
      else r)"

definition clusterAdmissionPolicyGroup_ValidateCreate ::
  "validation_library \<Rightarrow> ClusterAdmissionPolicyGroup \<Rightarrow> api_status_error + unit" where
  "clusterAdmissionPolicyGroup_ValidateCreate lib r =
     verdict ''ClusterAdmissionPolicyGroup'' (om_name (capg_meta r))
       (group_errors (validatePolicyGroupCreate lib) (ClusterAdmissionPolicyGroup_as_Policy r))"

definition clusterAdmissionPolicyGroup_ValidateUpdate ::
  "validation_library \<Rightarrow> ClusterAdmissionPolicyGroup \<Rightarrow> ClusterAdmissionPolicyGroup \<Rightarrow>
     api_status_error + unit" where
  "clusterAdmissionPolicyGroup_ValidateUpdate lib old new =
     verdict ''ClusterAdmissionPolicyGroup'' (om_name (capg_meta new))
       (group_errors (validatePolicyGroupUpdate lib (ClusterAdmissionPolicyGroup_as_Policy old))
          (ClusterAdmissionPolicyGroup_as_Policy new))"

text \<open>One webhook request for an object of any kind; an update never changes the kind.\<close>

fun ValidateCreate :: "validation_library \<Rightarrow> policy_object \<Rightarrow> api_status_error + unit" where
  "ValidateCreate lib (AP r) = admissionPolicy_ValidateCreate lib r"
| "ValidateCreate lib (CAP r) = clusterAdmissionPolicy_ValidateCreate lib r"
| "ValidateCreate lib (APG r) = admissionPolicyGroup_ValidateCreate lib r"
| "ValidateCreate lib (CAPG r) = clusterAdmissionPolicyGroup_ValidateCreate lib r"

fun ValidateUpdate :: "validation_library \<Rightarrow> policy_object \<Rightarrow> policy_object \<Rightarrow> api_status_error + unit" where
  "ValidateUpdate lib (AP old) (AP new) = admissionPolicy_ValidateUpdate lib old new"
| "ValidateUpdate lib (CAP old) (CAP new) = clusterAdmissionPolicy_ValidateUpdate lib old new"
| "ValidateUpdate lib (APG old) (APG new) = admissionPolicyGroup_ValidateUpdate lib old new"
| "ValidateUpdate lib (CAPG old) (CAPG new) = clusterAdmissionPolicyGroup_ValidateUpdate lib old new"
| "ValidateUpdate lib _ new = Err (InvalidObject [] (GetName (as_Policy new)) [])"

fun Default :: "policy_object \<Rightarrow> policy_object" where
  "Default (AP r) = AP (admissionPolicy_Default r)"
| "Default (CAP r) = CAP (clusterAdmissionPolicy_Default r)"
| "Default (APG r) = APG (admissionPolicyGroup_Default r)"
| "Default (CAPG r) = CAPG (clusterAdmissionPolicyGroup_Default r)"

section \<open>Policy servers\<close>

text \<open>
  The library of the policy server validator: secrets by name with their type, config maps by
  name with their data, the comparison of quantities, and Go's \<^verbatim>\<open>%q\<close>.
\<close>

record server_validation_library =
  sv_get_secret_type :: "string \<Rightarrow> string \<Rightarrow> string + string"
  sv_get_configmap_data :: "string \<Rightarrow> string \<Rightarrow> string + (string \<times> string) list"
  sv_quantity_cmp :: "string \<Rightarrow> string \<Rightarrow> int"
  sv_quote :: "string \<Rightarrow> string"

definition validateImagePullSecret :: "server_validation_library \<Rightarrow> string \<Rightarrow> string \<Rightarrow> string + unit" where
  "validateImagePullSecret lib imagePullSecret deploymentsNamespace =
     try_then (map_err (\<lambda>err. ''cannot get spec.imagePullSecret: '' @ err)
                (sv_get_secret_type lib deploymentsNamespace imagePullSecret)) (\<lambda>secret_type.
       if secret_type \<noteq> ''kubernetes.io/dockerconfigjson'' then
         Err (''spec.imagePullSecret secret '' @ [CHR 34] @ imagePullSecret @ [CHR 34] @
              '' is not of type kubernetes.io/dockerconfigjson'')
       else Ok ())"

definition PolicyServerSigstoreTrustConfigEntry :: string where
  "PolicyServerSigstoreTrustConfigEntry = ''sigstore-trust-config''"

definition validateSigstoreTrustConfig :: "server_validation_library \<Rightarrow> string \<Rightarrow> string \<Rightarrow> string + unit" where
  "validateSigstoreTrustConfig lib sigstoreTrustConfig deploymentsNamespace =
     try_then (map_err (\<lambda>err. ''cannot get spec.sigstoreTrustConfig ConfigMap: '' @ err)
                (sv_get_configmap_data lib deploymentsNamespace sigstoreTrustConfig)) (\<lambda>data.
       if map_of data PolicyServerSigstoreTrustConfigEntry = None then
         Err (''spec.sigstoreTrustConfig ConfigMap '' @ [CHR 34] @ sigstoreTrustConfig @ [CHR 34] @
              '' does not contain required key '' @ [CHR 34] @ PolicyServerSigstoreTrustConfigEntry @ [CHR 34])
       else Ok ())"

text \<open>The zero quantity \<^verbatim>\<open>resource.Quantity{}\<close> is \<^verbatim>\<open>0\<close>.\<close>

definition IsNegativeErrorMsg :: string where
  "IsNegativeErrorMsg = ''must be greater than or equal to 0''"

definition negative_errors ::
  "server_validation_library \<Rightarrow> field_path \<Rightarrow> string \<Rightarrow> field_error list" where
  "negative_errors lib fieldPath quantity =
     (if sv_quantity_cmp lib quantity ''0'' < 0 then
        [Invalid fieldPath (BadString quantity) IsNegativeErrorMsg] else [])"

definition validateLimitsAndRequests ::
  "server_validation_library \<Rightarrow> (string \<times> string) list \<Rightarrow> (string \<times> string) list \<Rightarrow> field_error list" where
  "validateLimitsAndRequests lib limits requests =
     concat (map (\<lambda>(limitName, limitQuantity).
         negative_errors lib [Child ''spec'', Child ''limits'', Child limitName] limitQuantity) limits) @
     concat (map (\<lambda>(requestName, requestQuantity).
         let fieldPath = [Child ''spec'', Child ''requests'', Child requestName] in
         negative_errors lib fieldPath requestQuantity @
         (case map_of limits requestName of
            None \<Rightarrow> []
          | Some limitQuantity \<Rightarrow>
              (if 0 < sv_quantity_cmp lib requestQuantity limitQuantity then
                 [Invalid fieldPath (BadString requestQuantity)
                    (''must be less than or equal to '' @ requestName @ '' limit of '' @ limitQuantity)]
               else []))) requests)"

text \<open>The tree of the webhook, in the order of its literal: a leaf has no children map.\<close>

definition capabilityTree :: CapabilityNode where
  "capabilityTree = CapabilityNode
     [(''oci'', Some (CapabilityNode
        [(''v1'', Some (CapabilityNode
           [(''verify'', None), (''manifest_digest'', None),
            (''oci_manifest'', None), (''oci_manifest_config'', None)])),
         (''v2'', Some (CapabilityNode [(''verify'', None)]))])),
      (''net'', Some (CapabilityNode
        [(''v1'', Some (CapabilityNode [(''dns_lookup_host'', None)]))])),
      (''crypto'', Some (CapabilityNode
        [(''v1'', Some (CapabilityNode [(''is_certificate_trusted'', None)]))])),
      (''kubernetes'', Some (CapabilityNode
        [(''list_resources_by_namespace'', None), (''list_resources_all'', None),
         (''get_resource'', None), (''can_i'', None)]))]"

fun single_capability_loop ::
  "(string \<Rightarrow> string) \<Rightarrow> field_path \<Rightarrow> string \<Rightarrow> string list \<Rightarrow> CapabilityNode \<Rightarrow> string list \<Rightarrow>
     field_error option" where
  "single_capability_loop quote path pattern seen node [] =
     Some (Invalid path (BadString pattern)
       (quote pattern @ '' is not a complete capability path; use '' @ quote (pattern @ ''/*'') @
        '' to allow all capabilities under it''))"
| "single_capability_loop quote path pattern seen (CapabilityNode children) (part # rest) =
     (if CHR ''*'' \<in> set part then
        (if part \<noteq> ''*'' \<or> rest \<noteq> [] then
           Some (Invalid path (BadString pattern)
             (''wildcard '' @ [CHR 34] @ ''*'' @ [CHR 34] @
              '' is only allowed as the last path segment (e.g. '' @ [CHR 34] @ ''oci/*'' @ [CHR 34] @
              '' or '' @ [CHR 34] @ ''oci/v1/*'' @ [CHR 34] @ '')''))
         else None)
      else
        (case map_of children part of
           None \<Rightarrow>
             Some (Invalid path (BadString pattern)
               (''unknown segment '' @ quote part @ '', valid options at this level are: '' @
                join_str '', '' (sort (map fst children))))
         | Some None \<Rightarrow>
             (if rest \<noteq> [] then
                Some (Invalid path (BadString pattern)
                  (quote (join_on (CHR ''/'') (seen @ [part])) @
                   '' is a complete capability path and cannot have further segments''))
              else None)
         | Some (Some child) \<Rightarrow> single_capability_loop quote path pattern (seen @ [part]) child rest))"

definition validateSingleCapability :: "(string \<Rightarrow> string) \<Rightarrow> string \<Rightarrow> field_path \<Rightarrow> field_error option" where
  "validateSingleCapability quote pattern path =
     (if pattern = [] then Some (Invalid path (BadString pattern) ''capability must not be empty'')
      else if pattern = ''*'' then None
      else single_capability_loop quote path pattern [] capabilityTree (split_on (CHR ''/'') pattern))"

definition validateNamespacedPoliciesCapabilities :: "(string \<Rightarrow> string) \<Rightarrow> string list \<Rightarrow> field_error list" where
  "validateNamespacedPoliciesCapabilities quote capabilities =
     (let fieldPath = [Child ''spec'', Child ''namespacedPoliciesCapabilities''] in
      concat (map (\<lambda>(i, pattern). err_list (validateSingleCapability quote pattern (fieldPath @ [Index i])))
        (indexed capabilities)))"

definition validatePorts :: "PolicyServer \<Rightarrow> field_error list" where
  "validatePorts policyServer =
     (let webhookPort = EffectiveWebhookPort policyServer;
          readinessPort = EffectiveReadinessProbePort policyServer in
      if webhookPort = readinessPort then
        [Invalid [Child ''spec'', Child ''readinessProbePort''] (BadInt (sint readinessPort))
           (''readinessProbePort must differ from webhookPort ('' @ show_int (sint webhookPort) @ '')'')]
      else [])"

definition invalid_if_err :: "field_path \<Rightarrow> string \<Rightarrow> string + unit \<Rightarrow> field_error list" where
  "invalid_if_err path v r = (case r of Inl err \<Rightarrow> [Invalid path (BadString v) err] | Inr _ \<Rightarrow> [])"

definition policyServer_validate ::
  "server_validation_library \<Rightarrow> string \<Rightarrow> PolicyServer \<Rightarrow> api_status_error + unit" where
  "policyServer_validate lib deploymentsNamespace policyServer =
     (let name = om_name (srv_meta policyServer);
          spec = srv_spec policyServer;
          allErrs =
            (if DNS1035LabelMaxLength < length name then
               [Invalid [Child ''metadata'', Child ''name''] (BadString name)
                  (''the PolicyServer name cannot be longer than '' @ show_nat DNS1035LabelMaxLength @
                   '' characters'')]
             else []) @
            (if pss_imagePullSecret spec \<noteq> [] then
               invalid_if_err [Child ''spec'', Child ''imagePullSecret''] (pss_imagePullSecret spec)
                 (validateImagePullSecret lib (pss_imagePullSecret spec) deploymentsNamespace)
             else []) @
            (if pss_sigstoreTrustConfig spec \<noteq> [] then
               invalid_if_err [Child ''spec'', Child ''sigstoreTrustConfig''] (pss_sigstoreTrustConfig spec)
                 (validateSigstoreTrustConfig lib (pss_sigstoreTrustConfig spec) deploymentsNamespace)
             else []) @
            (case (pss_minAvailable spec, pss_maxUnavailable spec) of
               (Some minAvailable, Some maxUnavailable) \<Rightarrow>
                 [Invalid [Child ''spec'']
                    (BadString (''minAvailable: '' @ minAvailable @ '', maxUnavailable: '' @ maxUnavailable))
                    ''minAvailable and maxUnavailable cannot be both set'']
             | _ \<Rightarrow> []) @
            validateLimitsAndRequests lib (pss_limits spec) (pss_requests spec) @
            validateNamespacedPoliciesCapabilities (sv_quote lib)
              (case pss_namespacedPoliciesCapabilities spec of None \<Rightarrow> [] | Some cs \<Rightarrow> cs) @
            validatePorts policyServer
      in verdict ''PolicyServer'' name allErrs)"

definition policyServer_ValidateCreate ::
  "server_validation_library \<Rightarrow> string \<Rightarrow> PolicyServer \<Rightarrow> api_status_error + unit" where
  "policyServer_ValidateCreate lib deploymentsNamespace policyServer =
     policyServer_validate lib deploymentsNamespace policyServer"

definition policyServer_ValidateUpdate ::
  "server_validation_library \<Rightarrow> string \<Rightarrow> PolicyServer \<Rightarrow> PolicyServer \<Rightarrow> api_status_error + unit" where
  "policyServer_ValidateUpdate lib deploymentsNamespace _ policyServer =
     policyServer_validate lib deploymentsNamespace policyServer"

section \<open>What the webhooks accept\<close>

lemma err_list_Nil [simp]: "err_list e = [] \<longleftrightarrow> e = None"
  by (cases e) (simp_all add: err_list_def)

lemma verdict_Ok [simp]: "verdict k n es = Ok u \<longleftrightarrow> es = []"
  by (simp add: verdict_def)

text \<open>Well-formed rules, match conditions and timeouts, said directly.\<close>

definition wf_rule :: "bool \<Rightarrow> RuleWithOperations \<Rightarrow> bool" where
  "wf_rule namespaced rule \<longleftrightarrow>
     r_operations rule \<noteq> [] \<and> r_apiVersions rule \<noteq> [] \<and> r_resources rule \<noteq> [] \<and>
     [] \<notin> set (r_operations rule) \<and> [] \<notin> set (r_apiVersions rule) \<and> [] \<notin> set (r_resources rule) \<and>
     (namespaced \<longrightarrow>
        \<not> (''*'' \<in> set (r_apiGroups rule) \<and> (''*'' \<in> set (r_resources rule) \<or> ''*/*'' \<in> set (r_resources rule))))"

definition wf_match_conditions :: "validation_library \<Rightarrow> MatchCondition list \<Rightarrow> bool" where
  "wf_match_conditions lib m \<longleftrightarrow>
     length m \<le> 64 \<and> distinct (map mc_name m) \<and>
     (\<forall>c\<in>set m. mc_name c \<noteq> [] \<and> vl_IsQualifiedName lib (mc_name c) = [] \<and>
        trim (mc_expression c) \<noteq> [] \<and> vl_compile_match_condition lib (trim (mc_expression c)) = None)"

definition wf_timeouts :: "Policy \<Rightarrow> bool" where
  "wf_timeouts p \<longleftrightarrow>
     (\<forall>t e. GetTimeoutSeconds p = Some t \<longrightarrow> GetTimeoutEvalSeconds p = Some e \<longrightarrow> sint e \<le> sint t)"

definition wf_policy :: "validation_library \<Rightarrow> Policy \<Rightarrow> bool" where
  "wf_policy lib p \<longleftrightarrow>
     GetRules p \<noteq> [] \<and>
     (\<forall>rule\<in>set (GetRules p). wf_rule (namespaced_kind (DynamicType p)) rule) \<and>
     wf_match_conditions lib (GetMatchConditions p) \<and> wf_timeouts p"

lemma checkOperations_Nil [simp]: "checkOperationsArrayForEmptyString xs f = [] \<longleftrightarrow> [] \<notin> set xs"
proof -
  have "checkOperationsArrayForEmptyString xs f = [] \<longleftrightarrow> (\<forall>(i, x)\<in>set (indexed xs). x \<noteq> [])"
    unfolding checkOperationsArrayForEmptyString_def concat_indexed_Nil_iff by (auto split: if_splits)
  also have "\<dots> \<longleftrightarrow> [] \<notin> set xs" using indexed_all [of xs "\<lambda>x. x \<noteq> []"] by auto
  finally show ?thesis .
qed

lemma checkRulesEmpty_Nil [simp]: "checkRulesArrayForEmptyString xs f = [] \<longleftrightarrow> [] \<notin> set xs"
proof -
  have "checkRulesArrayForEmptyString xs f = [] \<longleftrightarrow> (\<forall>(i, x)\<in>set (indexed xs). x \<noteq> [])"
    unfolding checkRulesArrayForEmptyString_def concat_indexed_Nil_iff by (auto split: if_splits)
  also have "\<dots> \<longleftrightarrow> [] \<notin> set xs" using indexed_all [of xs "\<lambda>x. x \<noteq> []"] by auto
  finally show ?thesis .
qed

lemma checkWildcard_Nil [simp]:
  "checkRulesArrayForWildcardUsage rule f = [] \<longleftrightarrow>
     \<not> (''*'' \<in> set (r_apiGroups rule) \<and> (''*'' \<in> set (r_resources rule) \<or> ''*/*'' \<in> set (r_resources rule)))"
proof -
  have "checkRulesArrayForWildcardUsage rule f = [] \<longleftrightarrow>
      first_index (\<lambda>apiGroup. apiGroup = ''*'') (r_apiGroups rule) = None \<or>
      first_index (\<lambda>resource. resource = ''*'' \<or> resource = wildcardAllResources) (r_resources rule) = None"
    by (auto simp: checkRulesArrayForWildcardUsage_def split: option.splits)
  then show ?thesis by (auto simp: first_index_None_iff wildcardAllResources_def)
qed

lemma validate_rule_Nil: "validate_rule namespaced f rule = [] \<longleftrightarrow> wf_rule namespaced rule"
  by (auto simp: validate_rule_def wf_rule_def split: if_splits)

lemma validateRulesField_Nil:
  "validateRulesField p = [] \<longleftrightarrow>
     GetRules p \<noteq> [] \<and> (\<forall>rule\<in>set (GetRules p). wf_rule (namespaced_kind (DynamicType p)) rule)"
  using indexed_all [of "GetRules p" "wf_rule (namespaced_kind (DynamicType p))"]
  by (auto simp: validateRulesField_def Let_def validate_rule_Nil namespaced_kind_def)

lemma validateMatchCondition_Nil:
  "validateMatchCondition lib c f = [] \<longleftrightarrow>
     mc_name c \<noteq> [] \<and> vl_IsQualifiedName lib (mc_name c) = [] \<and>
     trim (mc_expression c) \<noteq> [] \<and> vl_compile_match_condition lib (trim (mc_expression c)) = None"
  by (auto simp: validateMatchCondition_def Let_def validateMatchConditionsExpression_def split: option.splits)

lemma match_conditions_loop_Nil:
  "match_conditions_loop lib f names ims = [] \<longleftrightarrow>
     (\<forall>(i, c)\<in>set ims. validateMatchCondition lib c (f @ [Index i]) = []) \<and>
     distinct (map (mc_name \<circ> snd) ims) \<and> (\<forall>(i, c)\<in>set ims. mc_name c \<notin> names)"
proof (induction lib f names ims rule: match_conditions_loop.induct)
  case (2 lib f names i c rest)
  show ?case
  proof (cases "validateMatchCondition lib c (f @ [Index i]) = []")
    case True
    then have "mc_name c \<noteq> []" by (simp add: validateMatchCondition_Nil)
    with True show ?thesis
      by (cases "mc_name c \<in> names") (force simp: 2 case_prod_beta image_iff)+
  qed simp
qed simp

lemma validateMatchConditions_Nil: "validateMatchConditions lib m f = [] \<longleftrightarrow> wf_match_conditions lib m"
proof -
  have "map (mc_name \<circ> snd) (indexed m) = map mc_name m"
    by (metis list.map_comp snd_indexed)
  moreover have "(\<forall>(i, c)\<in>set (indexed m). validateMatchCondition lib c (f @ [Index i]) = []) \<longleftrightarrow>
      (\<forall>c\<in>set m. mc_name c \<noteq> [] \<and> vl_IsQualifiedName lib (mc_name c) = [] \<and>
        trim (mc_expression c) \<noteq> [] \<and> vl_compile_match_condition lib (trim (mc_expression c)) = None)"
    unfolding validateMatchCondition_Nil indexed_all ..
  ultimately show ?thesis
    by (auto simp: validateMatchConditions_def match_conditions_loop_Nil wf_match_conditions_def
        maxMatchConditionsCount_def)
qed

lemma validateTimeoutSeconds_Nil: "validateTimeoutSeconds p = [] \<longleftrightarrow> wf_timeouts p"
  by (auto simp: validateTimeoutSeconds_def wf_timeouts_def split: option.splits)

lemma validateUniqueNameLength_None:
  "validateUniqueNameLength p = None \<longleftrightarrow> length (GetUniqueName p) \<le> 232"
  by (simp add: validateUniqueNameLength_def Let_def DNS1123SubdomainMaxLength_def WebhookNameSuffix_def)

lemma validatePolicyCreate_Nil:
  "validatePolicyCreate lib p = [] \<longleftrightarrow> wf_policy lib p \<and> length (GetUniqueName p) \<le> 232"
  by (auto simp: validatePolicyCreate_def wf_policy_def validateRulesField_Nil validateMatchConditions_Nil
      validateTimeoutSeconds_Nil validateUniqueNameLength_None)

lemma validatePolicyUpdate_Nil:
  "validatePolicyUpdate lib old new = [] \<longleftrightarrow>
     wf_policy lib new \<and> GetPolicyServer old = GetPolicyServer new \<and>
     \<not> (GetPolicyMode old = ''protect'' \<and> GetPolicyMode new = ''monitor'')"
  by (auto simp: validatePolicyUpdate_def wf_policy_def validateRulesField_Nil validateMatchConditions_Nil
      validateTimeoutSeconds_Nil validatePolicyServerField_def validatePolicyModeField_def protectMode_def)

section \<open>What is accepted of policy groups\<close>

definition member_timeouts :: "PolicyGroupMembersWithContext \<Rightarrow> 32 word list" where
  "member_timeouts ms = List.map_filter (\<lambda>(_, m). gmv_timeoutEvalSeconds m) ms"

lemma member_timeouts_simps [simp]:
  "member_timeouts [] = []"
  "member_timeouts ((n, m) # ms) =
     (case gmv_timeoutEvalSeconds m of None \<Rightarrow> member_timeouts ms | Some t \<Rightarrow> t # member_timeouts ms)"
  by (simp_all add: member_timeouts_def map_filter_simps split: option.splits)

lemma member_timeouts_loop_sum:
  "snd (member_timeouts_loop g acc ms) = acc + sum_list (member_timeouts ms)"
  by (induction g acc ms rule: member_timeouts_loop.induct)
    (auto split: option.splits simp: Let_def case_prod_beta algebra_simps)

lemma member_timeouts_loop_Nil:
  "fst (member_timeouts_loop g acc ms) = [] \<longleftrightarrow>
     (\<forall>t\<in>set (member_timeouts ms). sint t \<le> 30 \<and> (\<forall>gt. g = Some gt \<longrightarrow> sint t \<le> sint gt))"
  by (induction g acc ms rule: member_timeouts_loop.induct)
    (auto split: option.splits if_splits simp: Let_def case_prod_beta maxWebhookTimeoutSeconds_def)

definition wf_member_timeouts :: "32 word option \<Rightarrow> PolicyGroupMembersWithContext \<Rightarrow> bool" where
  "wf_member_timeouts g ms \<longleftrightarrow>
     (let s = sint (sum_list (member_timeouts ms)) in
      s \<le> 30 \<and> (\<forall>t. g = Some t \<longrightarrow> s \<le> sint t) \<and>
      (\<forall>m\<in>set (member_timeouts ms). sint m \<le> 30 \<and> (\<forall>t. g = Some t \<longrightarrow> sint m \<le> sint t)))"

lemma validateMembersTimeouts_Nil:
  "validatePolicyGroupMembersTimeouts p g = [] \<longleftrightarrow>
     wf_member_timeouts (GetTimeoutSeconds p) (GetPolicyGroupMembersWithContext g)"
proof -
  define r where "r = member_timeouts_loop (GetTimeoutSeconds p) 0 (GetPolicyGroupMembersWithContext g)"
  have r: "fst r = [] \<longleftrightarrow> (\<forall>m\<in>set (member_timeouts (GetPolicyGroupMembersWithContext g)).
      sint m \<le> 30 \<and> (\<forall>t. GetTimeoutSeconds p = Some t \<longrightarrow> sint m \<le> sint t))"
    "snd r = sum_list (member_timeouts (GetPolicyGroupMembersWithContext g))"
    by (simp_all add: r_def member_timeouts_loop_Nil member_timeouts_loop_sum)
  show ?thesis
    unfolding validatePolicyGroupMembersTimeouts_def wf_member_timeouts_def Let_def r_def [symmetric]
    using r by (cases "GetTimeoutSeconds p")
      (auto simp: maxWebhookTimeoutSeconds_def case_prod_beta split: if_splits)
qed

definition wf_members :: "PolicyGroupMembersWithContext \<Rightarrow> bool" where
  "wf_members ms \<longleftrightarrow>
     ms \<noteq> [] \<and> (\<forall>name\<in>fst ` set ms. idenRegex name \<and> name \<notin> set celReservedSymbols)"

lemma validatePolicyGroupMembers_Nil:
  "validatePolicyGroupMembers g = [] \<longleftrightarrow> wf_members (GetPolicyGroupMembersWithContext g)"
  by (force simp: validatePolicyGroupMembers_def wf_members_def valid_member_name_def Let_def
      split: if_splits)

definition wf_expression :: "validation_library \<Rightarrow> PolicyGroup \<Rightarrow> bool" where
  "wf_expression lib g \<longleftrightarrow>
     GetExpression g \<noteq> [] \<and>
     vl_compile_group lib (map fst (GetPolicyGroupMembersWithContext g))
       (filter (\<lambda>fn. fn \<in> set allowedOperators) (vl_stdlib_functions lib)) (GetExpression g) = Compiled ''bool''"

lemma validateExpression_None: "validatePolicyGroupExpressionField lib g = None \<longleftrightarrow> wf_expression lib g"
  by (auto simp: validatePolicyGroupExpressionField_def wf_expression_def Let_def split: group_compilation.splits)

definition wf_group :: "validation_library \<Rightarrow> Policy \<Rightarrow> bool" where
  "wf_group lib p \<longleftrightarrow>
     (\<forall>g. AsPolicyGroup p = Some g \<longrightarrow>
        wf_members (GetPolicyGroupMembersWithContext g) \<and>
        wf_member_timeouts (GetTimeoutSeconds p) (GetPolicyGroupMembersWithContext g) \<and>
        wf_expression lib g \<and> GetMessage p \<noteq> [])"

lemma validate_group_fields_Nil:
  "AsPolicyGroup p = Some g \<Longrightarrow> validate_group_fields lib p g = [] \<longleftrightarrow> wf_group lib p"
  by (auto simp: validate_group_fields_def wf_group_def validatePolicyGroupMembers_Nil
      validateMembersTimeouts_Nil validateExpression_None validatePolicyGroupMessageField_def)

lemma AsPolicyGroup_objects:
  "AsPolicyGroup (as_Policy (AP a)) = None" "AsPolicyGroup (as_Policy (CAP c)) = None"
  "\<exists>g. AsPolicyGroup (as_Policy (APG ag)) = Some g" "\<exists>g. AsPolicyGroup (as_Policy (CAPG cg)) = Some g"
  by (simp_all add: as_Policy_defs Let_def)

lemma group_errors_create:
  "AsPolicyGroup p = Some g \<Longrightarrow>
     group_errors (validatePolicyGroupCreate lib) p = [] \<longleftrightarrow>
       wf_policy lib p \<and> wf_group lib p \<and> length (GetUniqueName p) \<le> 232"
  by (auto simp: group_errors_def validatePolicyGroupCreate_def validatePolicyCreate_Nil validate_group_fields_Nil)

lemma group_errors_update:
  "AsPolicyGroup p = Some g \<Longrightarrow>
     group_errors (validatePolicyGroupUpdate lib old) p = [] \<longleftrightarrow>
       validatePolicyUpdate lib old p = [] \<and> wf_group lib p"
  by (auto simp: group_errors_def validatePolicyGroupUpdate_def validate_group_fields_Nil)

section \<open>The capability patterns of the webhook and of the policy server\<close>

text \<open>The accepted patterns of a tree, segment by segment.\<close>

function (sequential) tree_patterns :: "CapabilityNode \<Rightarrow> string list list" where
  "tree_patterns (CapabilityNode []) = [[''*'']]"
| "tree_patterns (CapabilityNode ((k, None) # rest)) = [k] # tree_patterns (CapabilityNode rest)"
| "tree_patterns (CapabilityNode ((k, Some inner) # rest)) =
     map ((#) k) (tree_patterns inner) @ tree_patterns (CapabilityNode rest)"
  by pat_completeness auto
termination
  by (relation "measure size") auto

function (sequential) plain_keys :: "CapabilityNode \<Rightarrow> bool" where
  "plain_keys (CapabilityNode []) = True"
| "plain_keys (CapabilityNode ((k, c) # rest)) =
     (CHR ''*'' \<notin> set k \<and> (case c of None \<Rightarrow> True | Some inner \<Rightarrow> plain_keys inner) \<and>
      plain_keys (CapabilityNode rest))"
  by pat_completeness auto
termination
  by (relation "measure size") auto

lemma single_capability_loop_Cons:
  "CHR ''*'' \<notin> set k \<Longrightarrow> k \<notin> fst ` set rest \<Longrightarrow>
   single_capability_loop quote path pattern seen (CapabilityNode ((k, c) # rest)) parts = None \<longleftrightarrow>
     (\<exists>parts'. parts = k # parts' \<and>
        (case c of None \<Rightarrow> parts' = []
         | Some inner \<Rightarrow> single_capability_loop quote path pattern (seen @ [k]) inner parts' = None)) \<or>
     single_capability_loop quote path pattern seen (CapabilityNode rest) parts = None"
proof (cases parts)
  case (Cons p ps)
  assume "CHR ''*'' \<notin> set k" "k \<notin> fst ` set rest"
  then have "map_of rest k = None" by (simp add: map_of_eq_None_iff)
  with Cons \<open>CHR ''*'' \<notin> set k\<close> show ?thesis by (auto split: option.splits)
qed simp

lemma single_capability_loop_None:
  "distinct_keys node \<Longrightarrow> plain_keys node \<Longrightarrow>
     single_capability_loop quote path pattern seen node parts = None \<longleftrightarrow> parts \<in> set (tree_patterns node)"
proof (induction node arbitrary: seen parts rule: tree_patterns.induct)
  case 1
  then show ?case by (cases parts) auto
next
  case (2 k rest)
  then show ?case by (auto simp: single_capability_loop_Cons)
next
  case (3 k inner rest)
  then show ?case by (auto simp: single_capability_loop_Cons)
qed

lemma capabilityTree_facts: "distinct_keys capabilityTree" "plain_keys capabilityTree"
  by (simp_all add: capabilityTree_def)

definition webhook_patterns :: "string list list" where
  "webhook_patterns =
     [[''oci'', ''v1'', ''verify''], [''oci'', ''v1'', ''manifest_digest''], [''oci'', ''v1'', ''oci_manifest''],
      [''oci'', ''v1'', ''oci_manifest_config''], [''oci'', ''v1'', ''*''], [''oci'', ''v2'', ''verify''],
      [''oci'', ''v2'', ''*''], [''oci'', ''*''], [''net'', ''v1'', ''dns_lookup_host''], [''net'', ''v1'', ''*''],
      [''net'', ''*''], [''crypto'', ''v1'', ''is_certificate_trusted''], [''crypto'', ''v1'', ''*''],
      [''crypto'', ''*''], [''kubernetes'', ''list_resources_by_namespace''],
      [''kubernetes'', ''list_resources_all''], [''kubernetes'', ''get_resource''], [''kubernetes'', ''can_i''],
      [''kubernetes'', ''*''], [''*'']]"

lemma tree_patterns_capabilityTree: "tree_patterns capabilityTree = webhook_patterns"
  by (simp add: capabilityTree_def webhook_patterns_def)

lemma validateSingleCapability_None:
  "validateSingleCapability quote pattern path = None \<longleftrightarrow>
     split_on (CHR ''/'') pattern \<in> set webhook_patterns"
proof -
  have "split_on (CHR ''/'') [] \<notin> set webhook_patterns" "split_on (CHR ''/'') ''*'' \<in> set webhook_patterns"
    by (simp_all add: webhook_patterns_def)
  then show ?thesis
    by (auto simp: validateSingleCapability_def single_capability_loop_None capabilityTree_facts
        tree_patterns_capabilityTree)
qed

definition server_accepts_pattern :: "string \<Rightarrow> bool" where
  "server_accepts_pattern p \<longleftrightarrow>
     trim p = p \<and> p \<noteq> [] \<and>
     (p = ''*'' \<or> (CHR ''*'' \<in> set p \<longrightarrow> suffix ''/*'' p) \<and> validate_against_tree p = Ok ())"

lemma webhook_patterns_in_tree:
  "list_all (\<lambda>ps. ps = [''*''] \<or> validate_parts (join_on (CHR ''/'') ps) CAPABILITY_TREE ps = Ok ()) webhook_patterns"
  by (simp add: webhook_patterns_def CAPABILITY_TREE_def)

text \<open>Text of visible ASCII characters has nothing to trim.\<close>

definition visible_ascii :: "char \<Rightarrow> bool" where
  "visible_ascii c \<longleftrightarrow> (33 :: nat) \<le> of_char c \<and> of_char c < (128 :: nat)"

lemma white_space_not_visible:
  "list_all (\<lambda>w. w \<noteq> [] \<and> \<not> visible_ascii (hd w) \<and> \<not> visible_ascii (last w)) white_space"
  by (simp add: white_space_def visible_ascii_def)

lemma trim_visible_ascii: "list_all visible_ascii s \<Longrightarrow> trim s = s"
proof (rule trim_id)
  fix w :: string
  assume s: "list_all visible_ascii s" and w: "w \<in> set white_space" "w \<noteq> []"
  have ends: "\<not> visible_ascii (hd w)" "\<not> visible_ascii (last w)"
    using w white_space_not_visible by (auto simp: list_all_iff)
  have "hd w \<in> set s" if "prefix w s" using that w(2) set_mono_prefix by fastforce
  moreover have "last w \<in> set s" if "suffix w s" using that w(2) set_mono_suffix by fastforce
  ultimately show "\<not> prefix w s \<and> \<not> suffix w s" using s ends by (auto simp: list_all_iff)
qed

lemma webhook_patterns_shape:
  "list_all (\<lambda>ps. let p = join_on (CHR ''/'') ps in
      list_all visible_ascii p \<and> p \<noteq> [] \<and> (p = ''*'' \<or> (CHR ''*'' \<in> set p \<longrightarrow> suffix ''/*'' p))) webhook_patterns"
  by (simp add: webhook_patterns_def visible_ascii_def suffix_to_prefix)

lemma webhook_pattern_accepted:
  assumes "split_on (CHR ''/'') p \<in> set webhook_patterns"
  shows "server_accepts_pattern p"
proof -
  note tree = bspec [OF webhook_patterns_in_tree [unfolded list_all_iff] assms, unfolded join_split_on]
  note shape = bspec [OF webhook_patterns_shape [unfolded list_all_iff] assms, unfolded join_split_on Let_def]
  have "p = ''*'' \<or> validate_against_tree p = Ok ()"
    using tree by (auto simp: validate_against_tree_def split_on_singleton_iff)
  moreover have "trim p = p" using shape by (simp add: trim_visible_ascii list_all_iff)
  ultimately show ?thesis using shape by (auto simp: server_accepts_pattern_def)
qed

lemma accepted_patterns_parse:
  "\<forall>p\<in>set ps. server_accepts_pattern p \<Longrightarrow> \<exists>caps. host_capabilities_loop P E ps = Ok caps"
proof (induction ps arbitrary: P E)
  case (Cons p ps)
  then have p: "server_accepts_pattern p" by simp
  show ?case
  proof (cases "p = ''*''")
    case False
    with p have "validate_against_tree p = Ok ()" "trim p = p" "p \<noteq> []"
      "\<not> (CHR ''*'' \<in> set p \<and> \<not> suffix ''/*'' p)"
      by (auto simp: server_accepts_pattern_def)
    with False Cons show ?thesis by (cases "strip_suffix ''*'' p") (simp_all add: Let_def)
  qed (use p in \<open>simp add: server_accepts_pattern_def Let_def\<close>)
qed simp

text \<open>Conversely, what the server accepts and what has no inner wildcard, the webhook accepts.\<close>

definition proper_prefixes :: "'a list \<Rightarrow> 'a list list" where
  "proper_prefixes l = map (\<lambda>n. take n l) [1..<length l]"

lemma leaves_are_webhook_patterns:
  "list_all (\<lambda>l. l \<in> set webhook_patterns \<and>
      list_all (\<lambda>pre. pre @ [''*''] \<in> set webhook_patterns) (proper_prefixes l))
     (walk_leaves [] CAPABILITY_TREE)"
  unfolding CAPABILITY_TREE_leaves
  by (simp add: proper_prefixes_def webhook_patterns_def upt_rec)

lemma leaf_webhook_pattern:
  "leaf_at CAPABILITY_TREE l \<Longrightarrow>
     l \<in> set webhook_patterns \<and> (\<forall>pre q. l = pre @ q \<and> pre \<noteq> [] \<and> q \<noteq> [] \<longrightarrow> pre @ [''*''] \<in> set webhook_patterns)"
proof -
  assume "leaf_at CAPABILITY_TREE l"
  then have "l \<in> set (walk_leaves [] CAPABILITY_TREE)"
    by (simp add: walk_leaves_leaf_at [OF CAPABILITY_TREE_distinct])
  then have *: "l \<in> set webhook_patterns" "\<forall>pre\<in>set (proper_prefixes l). pre @ [''*''] \<in> set webhook_patterns"
    using leaves_are_webhook_patterns by (auto simp: list_all_iff)
  have "pre \<in> set (proper_prefixes l)" if "l = pre @ q" "pre \<noteq> []" "q \<noteq> []" for pre q
  proof -
    have "pre = take (length pre) l" "length pre \<in> set [1..<length l]" using that by (auto simp: Suc_le_eq)
    then show ?thesis unfolding proper_prefixes_def by (metis image_eqI list.set_map)
  qed
  with * show ?thesis by blast
qed

lemma server_pattern_webhook:
  assumes "server_accepts_pattern p" "count_list p (CHR ''*'') \<le> 1"
  shows "split_on (CHR ''/'') p \<in> set webhook_patterns"
proof -
  let ?c = "CHR ''/''"
  consider "p = ''*''" | "CHR ''*'' \<notin> set p" "validate_against_tree p = Ok ()"
    | "suffix ''/*'' p" "validate_against_tree p = Ok ()"
    using assms(1) by (auto simp: server_accepts_pattern_def)
  then show ?thesis
  proof cases
    case 1
    then show ?thesis by (simp add: webhook_patterns_def)
  next
    case 2
    then have "leaf_at CAPABILITY_TREE (split_on ?c p)"
      by (simp add: validate_against_tree_def validate_parts_Ok_iff star_segment)
    then show ?thesis by (simp add: leaf_webhook_pattern)
  next
    case 3
    obtain pre where pre: "p = pre @ ''/*''" "split_on ?c p = split_on ?c pre @ [''*'']"
      using split_on_wildcard [OF 3(1)] by blast
    have "CHR ''*'' \<notin> set pre" using assms(2) by (simp add: pre(1) count_list_0_iff)
    then have plain: "''*'' \<notin> set (split_on ?c pre)" by (rule star_segment)
    have "validate_parts p CAPABILITY_TREE (split_on ?c pre @ [''*'']) = Ok ()"
      using 3(2) by (simp only: validate_against_tree_def pre(2))
    from validate_parts_wildcard [OF CAPABILITY_TREE_no_empty_node plain this]
    obtain q where q: "q \<noteq> []" "leaf_at CAPABILITY_TREE (split_on ?c pre @ q)" by blast
    show ?thesis unfolding pre(2)
      using conjunct2 [OF leaf_webhook_pattern [OF q(2)], rule_format, of "split_on ?c pre" q] q(1) by simp
  qed
qed

lemma webhook_server_patterns:
  "validateSingleCapability quote p path = None \<longleftrightarrow>
     server_accepts_pattern p \<and> count_list p (CHR ''*'') \<le> 1"
proof -
  have "list_all (\<lambda>ps. count_list (join_on (CHR ''/'') ps) (CHR ''*'') \<le> 1) webhook_patterns"
    by (simp add: webhook_patterns_def)
  note one = bspec [OF this [unfolded list_all_iff], of "split_on (CHR ''/'') p", unfolded join_split_on]
  then show ?thesis
    unfolding validateSingleCapability_None using one webhook_pattern_accepted server_pattern_webhook by blast
qed

lemma accepted_capabilities_parse:
  assumes "validateNamespacedPoliciesCapabilities quote ps = []"
  shows "\<exists>caps. HostCapabilities_new ps = Ok caps \<and>
    (\<forall>cap_path. is_allowed caps cap_path \<longleftrightarrow> (\<exists>q\<in>set ps. pattern_matches q cap_path))"
proof -
  have "\<forall>(i, q)\<in>set (indexed ps).
      validateSingleCapability quote q
        ([Child ''spec'', Child ''namespacedPoliciesCapabilities''] @ [Index i]) = None"
    using assms by (auto simp: validateNamespacedPoliciesCapabilities_def Let_def)
  then have "\<forall>(i, q)\<in>set (indexed ps). server_accepts_pattern q" by (auto simp: webhook_server_patterns)
  then have acc: "\<forall>q\<in>set ps. server_accepts_pattern q" by (simp only: indexed_all)
  then obtain caps where caps: "host_capabilities_loop {} {} ps = Ok caps"
    using accepted_patterns_parse by blast
  have "trim q = q" if "q \<in> set ps" for q using acc that by (simp add: server_accepts_pattern_def)
  then have "is_allowed caps cap_path \<longleftrightarrow> (\<exists>q\<in>set ps. pattern_matches q cap_path)" for cap_path
    using host_capabilities_loop_allowed [OF caps, of cap_path] by auto
  with caps show ?thesis by (auto simp: HostCapabilities_new_def)
qed

section \<open>The life of an object under the webhooks\<close>

lemma ValidateCreate_Ok_iff:
  "ValidateCreate lib obj = Ok u \<longleftrightarrow>
     wf_policy lib (as_Policy obj) \<and> wf_group lib (as_Policy obj) \<and> length (GetUniqueName (as_Policy obj)) \<le> 232"
proof (cases obj)
  case (AP r)
  then show ?thesis
    using AsPolicyGroup_objects(1) [of r]
    by (simp add: admissionPolicy_ValidateCreate_def validatePolicyCreate_Nil wf_group_def)
next
  case (CAP r)
  then show ?thesis
    using AsPolicyGroup_objects(2) [of r]
    by (simp add: clusterAdmissionPolicy_ValidateCreate_def validatePolicyCreate_Nil wf_group_def)
next
  case (APG r)
  with AsPolicyGroup_objects(3) [of r] obtain g where "AsPolicyGroup (as_Policy obj) = Some g" by blast
  from group_errors_create [OF this, of lib] APG show ?thesis
    by (simp add: admissionPolicyGroup_ValidateCreate_def)
next
  case (CAPG r)
  with AsPolicyGroup_objects(4) [of r] obtain g where "AsPolicyGroup (as_Policy obj) = Some g" by blast
  from group_errors_create [OF this, of lib] CAPG show ?thesis
    by (simp add: clusterAdmissionPolicyGroup_ValidateCreate_def)
qed

lemma ValidateUpdate_Ok:
  assumes "ValidateUpdate lib old new = Ok u"
  shows "DynamicType (as_Policy old) = DynamicType (as_Policy new)"
    and "validatePolicyUpdate lib (as_Policy old) (as_Policy new) = []" and "wf_group lib (as_Policy new)"
proof -
  have "DynamicType (as_Policy old) = DynamicType (as_Policy new) \<and>
      validatePolicyUpdate lib (as_Policy old) (as_Policy new) = [] \<and> wf_group lib (as_Policy new)"
  proof (cases new)
    case (AP r)
    with assms AsPolicyGroup_objects(1) [of r] show ?thesis
      by (cases old) (simp_all add: admissionPolicy_ValidateUpdate_def wf_group_def as_Policy_defs Let_def)
  next
    case (CAP r)
    with assms AsPolicyGroup_objects(2) [of r] show ?thesis
      by (cases old) (simp_all add: clusterAdmissionPolicy_ValidateUpdate_def wf_group_def as_Policy_defs Let_def)
  next
    case (APG r)
    with AsPolicyGroup_objects(3) [of r] obtain g where "AsPolicyGroup (as_Policy new) = Some g" by blast
    note upd = group_errors_update [OF this, of lib "as_Policy old"]
    obtain r' where "old = APG r'" using assms APG by (cases old) simp_all
    with upd APG assms show ?thesis
      by (simp add: admissionPolicyGroup_ValidateUpdate_def AdmissionPolicyGroup_as_Policy_def Let_def)
  next
    case (CAPG r)
    with AsPolicyGroup_objects(4) [of r] obtain g where "AsPolicyGroup (as_Policy new) = Some g" by blast
    note upd = group_errors_update [OF this, of lib "as_Policy old"]
    obtain r' where "old = CAPG r'" using assms CAPG by (cases old) simp_all
    with upd CAPG assms show ?thesis
      by (simp add: clusterAdmissionPolicyGroup_ValidateUpdate_def ClusterAdmissionPolicyGroup_as_Policy_def Let_def)
  qed
  then show "DynamicType (as_Policy old) = DynamicType (as_Policy new)"
    "validatePolicyUpdate lib (as_Policy old) (as_Policy new) = []" "wf_group lib (as_Policy new)" by blast+
qed

lemma Default_policyServer: "GetPolicyServer (as_Policy (Default obj)) \<noteq> []"
  by (cases obj)
    (simp_all add: as_Policy_defs Let_def admissionPolicy_Default_def clusterAdmissionPolicy_Default_def
      admissionPolicyGroup_Default_def clusterAdmissionPolicyGroup_Default_def DefaultPolicyServer_def)

text \<open>
  The history of an object: it is created and then updated, each time defaulted and accepted;
  the schema of the resource allows only the two modes.
\<close>

definition schema_mode :: "policy_object \<Rightarrow> bool" where
  "schema_mode obj \<longleftrightarrow> GetPolicyMode (as_Policy obj) \<in> {''protect'', ''monitor''}"

inductive accepted_history :: "validation_library \<Rightarrow> policy_object \<Rightarrow> policy_object \<Rightarrow> bool" where
  created: "schema_mode (Default obj) \<Longrightarrow> ValidateCreate lib (Default obj) = Ok () \<Longrightarrow>
     accepted_history lib (Default obj) (Default obj)"
| updated: "accepted_history lib first old \<Longrightarrow> schema_mode (Default new) \<Longrightarrow>
     ValidateUpdate lib old (Default new) = Ok () \<Longrightarrow> accepted_history lib first (Default new)"

lemma accepted_history_invariant:
  assumes "accepted_history lib first obj"
  shows "wf_policy lib (as_Policy obj) \<and> wf_group lib (as_Policy obj) \<and> schema_mode obj \<and>
    DynamicType (as_Policy obj) = DynamicType (as_Policy first) \<and>
    GetPolicyServer (as_Policy obj) = GetPolicyServer (as_Policy first) \<and>
    GetPolicyServer (as_Policy obj) \<noteq> [] \<and>
    (GetPolicyMode (as_Policy first) = ''protect'' \<longrightarrow> GetPolicyMode (as_Policy obj) = ''protect'')"
  using assms
proof (induction rule: accepted_history.induct)
  case (created obj lib)
  then show ?case using ValidateCreate_Ok_iff Default_policyServer by simp
next
  case (updated lib first old new)
  note upd = ValidateUpdate_Ok [OF updated(3)]
  show ?case
    using updated(2,4) upd(1,3) upd(2) [unfolded validatePolicyUpdate_Nil] Default_policyServer [of new]
    by (auto simp: schema_mode_def)
qed

section \<open>Timeouts of a group\<close>

lemma sint_sum_list:
  fixes ts :: "32 word list"
  assumes "\<forall>t\<in>set ts. 0 \<le> sint t \<and> sint t \<le> 30" "length ts \<le> 2 ^ 26"
  shows "sint (sum_list ts) = sum_list (map sint ts) \<and>
    0 \<le> sum_list (map sint ts) \<and> sum_list (map sint ts) \<le> 30 * int (length ts)"
  using assms
proof (induction ts)
  case (Cons t ts)
  then have IH: "sint (sum_list ts) = sum_list (map sint ts)"
    "0 \<le> sum_list (map sint ts)" "sum_list (map sint ts) \<le> 30 * int (length ts)" by auto
  have len: "int (length ts) < 2 ^ 26" using Cons.prems(2) by simp
  have "sint (t + sum_list ts) = sint t + sint (sum_list ts)"
    using Cons.prems(1) IH len by (simp add: sint_word_ariths(1) signed_take_bit_int_eq_self)
  with IH Cons.prems(1) show ?case by auto
qed simp

section \<open>Properties\<close>

text \<open>A small policy for the witnesses below.\<close>

definition sample_validation_library :: validation_library where
  "sample_validation_library =
     \<lparr>vl_compile_match_condition = (\<lambda>_. None), vl_IsQualifiedName = (\<lambda>_. []),
      vl_stdlib_functions = allowedOperators @ [''_+_''],
      vl_compile_group = (\<lambda>_ _ _. Compiled ''bool'')\<rparr>"

definition sample_meta :: "string \<Rightarrow> string \<Rightarrow> ObjectMeta" where
  "sample_meta namespace name =
     \<lparr>om_name = name, om_namespace = namespace, om_uid = ''u'', om_resourceVersion = ''1'', om_labels = [],
      om_annotations = [], om_finalizers = [], om_deletionTimestamp = None\<rparr>"

definition sample_rule :: "string list \<Rightarrow> string list \<Rightarrow> RuleWithOperations" where
  "sample_rule groups resources =
     \<lparr>r_operations = [''CREATE''], r_apiGroups = groups, r_apiVersions = [''v1''], r_resources = resources,
      r_scope = None\<rparr>"

definition sample_status :: PolicyStatus where
  "sample_status = \<lparr>ps_policyStatus = None, ps_policyMode = [], ps_conditions = []\<rparr>"

definition sample_spec :: "string \<Rightarrow> RuleWithOperations list \<Rightarrow> PolicySpec" where
  "sample_spec mode rules =
     \<lparr>spec_policyServer = [], spec_mode = mode, spec_module = ''registry://m:v1'', spec_settings = None,
      spec_rules = rules, spec_failurePolicy = None, spec_mutating = False, spec_backgroundAudit = True,
      spec_matchPolicy = None, spec_matchConditions = [], spec_objectSelector = None, spec_sideEffects = None,
      spec_timeoutSeconds = Some 10, spec_timeoutEvalSeconds = Some 5, spec_message = []\<rparr>"

definition sample_policy :: "string \<Rightarrow> string \<Rightarrow> string \<Rightarrow> AdmissionPolicy" where
  "sample_policy namespace name mode =
     \<lparr>ap_meta = sample_meta namespace name, ap_spec = sample_spec mode [sample_rule [''''] [''pods'']],
      ap_status = sample_status\<rparr>"

lemmas sample_policy_defs = sample_policy_def sample_spec_def sample_rule_def sample_meta_def sample_status_def

text \<open>
  C9: every object that lives through the webhooks is well formed and stays on its track.
  Whatever sequence of a creation and updates was accepted, the current object has rules, each
  with operations, versions and resources and, in a namespaced policy, without the double
  wildcard; distinct, named and compiling match conditions; an evaluation timeout within the
  webhook's; for a group, valid and non-empty members, expression and message.  Its policy
  server is set and is the one it was created with, and a policy created in mode
  \<^verbatim>\<open>protect\<close> is still in mode \<^verbatim>\<open>protect\<close>.
\<close>

theorem accepted_objects_stay_well_formed:
  assumes "accepted_history lib first obj"
  shows "wf_policy lib (as_Policy obj) \<and> wf_group lib (as_Policy obj) \<and>
    GetPolicyServer (as_Policy obj) \<noteq> [] \<and>
    GetPolicyServer (as_Policy obj) = GetPolicyServer (as_Policy first) \<and>
    DynamicType (as_Policy obj) = DynamicType (as_Policy first) \<and>
    (GetPolicyMode (as_Policy first) = ''protect'' \<longrightarrow> GetPolicyMode (as_Policy obj) = ''protect'')"
  using accepted_history_invariant [OF assms] by blast

theorem accepted_objects_stay_well_formed_witness:
  "GetPolicyServer (as_Policy (Default (AP (sample_policy ''ns'' ''p'' ''protect'')))) = ''default'' \<and>
   wf_policy sample_validation_library (as_Policy (Default (AP (sample_policy ''ns'' ''p'' ''protect''))))"
proof -
  let ?o = "AP (sample_policy ''ns'' ''p'' ''protect'')"
  have "accepted_history sample_validation_library (Default ?o) (Default ?o)"
    by (rule created, unfold schema_mode_def ValidateCreate_Ok_iff)
      (simp_all add: wf_policy_def wf_group_def wf_rule_def wf_timeouts_def wf_match_conditions_def
        admissionPolicy_Default_def AdmissionPolicy_as_Policy_def namespaced_rules_def sample_policy_defs
        DefaultPolicyServer_def Let_def)
  from accepted_objects_stay_well_formed [OF this] show ?thesis
    by (simp add: admissionPolicy_Default_def AdmissionPolicy_as_Policy_def sample_policy_defs Let_def
        DefaultPolicyServer_def)
qed

text \<open>
  C38: the webhook and the policy server read capability patterns alike.  The webhook accepts a
  pattern exactly if the policy server accepts it, it needs no trimming and it has at most one
  wildcard; and a list that the webhook accepts is parsed by the policy server to the allow
  list that grants exactly the paths its patterns match.
\<close>

theorem webhook_and_server_agree_on_capabilities:
  "(validateSingleCapability quote p path = None \<longleftrightarrow>
      is_ok (HostCapabilities_new [p]) \<and> trim p = p \<and> count_list p (CHR ''*'') \<le> 1) \<and>
   (validateNamespacedPoliciesCapabilities quote ps = [] \<longrightarrow>
      (\<exists>caps. HostCapabilities_new ps = Ok caps \<and>
         (\<forall>cap_path. is_allowed caps cap_path \<longleftrightarrow> (\<exists>q\<in>set ps. pattern_matches q cap_path))))"
proof (intro conjI impI)
  have "is_ok (HostCapabilities_new [p]) \<and> trim p = p \<longleftrightarrow> server_accepts_pattern p"
    by (auto simp: is_ok_iff HostCapabilities_new_def server_accepts_pattern_def Let_def result_simps
        split: if_splits option.splits)
  then show "validateSingleCapability quote p path = None \<longleftrightarrow>
      is_ok (HostCapabilities_new [p]) \<and> trim p = p \<and> count_list p (CHR ''*'') \<le> 1"
    unfolding webhook_server_patterns by blast
next
  assume "validateNamespacedPoliciesCapabilities quote ps = []"
  then show "\<exists>caps. HostCapabilities_new ps = Ok caps \<and>
      (\<forall>cap_path. is_allowed caps cap_path \<longleftrightarrow> (\<exists>q\<in>set ps. pattern_matches q cap_path))"
    by (rule accepted_capabilities_parse)
qed

theorem webhook_and_server_agree_on_capabilities_witness:
  "\<exists>caps. HostCapabilities_new [''oci/v1/*'', ''kubernetes/can_i''] = Ok caps \<and>
     is_allowed caps ''oci/v1/verify'' \<and> \<not> is_allowed caps ''oci/v2/verify''"
proof -
  have "single_capability_loop (\<lambda>s. s) path pat [] capabilityTree [''oci'', ''v1'', ''*''] = None"
    "single_capability_loop (\<lambda>s. s) path pat [] capabilityTree [''kubernetes'', ''can_i''] = None" for path pat
    by (simp_all add: capabilityTree_def)
  moreover have "split_on (CHR ''/'') ''oci/v1/*'' = [''oci'', ''v1'', ''*'']"
    "split_on (CHR ''/'') ''kubernetes/can_i'' = [''kubernetes'', ''can_i'']"
    using split_join_on [of "[''oci'', ''v1'', ''*'']" "CHR ''/''"]
      split_join_on [of "[''kubernetes'', ''can_i'']" "CHR ''/''"] by (simp_all del: split_on.simps(2))
  ultimately have "validateNamespacedPoliciesCapabilities (\<lambda>s. s) [''oci/v1/*'', ''kubernetes/can_i''] = []"
    by (simp add: validateNamespacedPoliciesCapabilities_def validateSingleCapability_def indexed_def
        del: split_on.simps(2))
  with webhook_and_server_agree_on_capabilities [of "\<lambda>s. s" "[]" "[]" "[''oci/v1/*'', ''kubernetes/can_i'']"]
  obtain caps where "HostCapabilities_new [''oci/v1/*'', ''kubernetes/can_i''] = Ok caps"
    "\<forall>cap_path. is_allowed caps cap_path \<longleftrightarrow>
       (\<exists>q\<in>set [''oci/v1/*'', ''kubernetes/can_i'']. pattern_matches q cap_path)" by blast
  then show ?thesis by (auto simp: pattern_matches_def strip_suffix_def suffix_to_prefix)
qed


definition sample_group :: "32 word \<Rightarrow> 32 word \<Rightarrow> AdmissionPolicyGroup" where
  "sample_group t1 t2 =
     \<lparr>apg_meta = sample_meta ''ns'' ''g'',
      apg_spec = \<lparr>gs_policyServer = ''default'', gs_mode = ''protect'',
        gs_rules = [sample_rule [''''] [''pods'']], gs_failurePolicy = None, gs_backgroundAudit = True,
        gs_matchPolicy = None, gs_matchConditions = [], gs_objectSelector = None, gs_sideEffects = None,
        gs_timeoutSeconds = Some 10, gs_expression = ''a() && b()'', gs_message = ''no'',
        apg_policies =
          [(''a'', \<lparr>gmv_module = ''registry://a:v1'', gmv_settings = None, gmv_timeoutEvalSeconds = Some t1\<rparr>),
           (''b'', \<lparr>gmv_module = ''registry://b:v1'', gmv_settings = None, gmv_timeoutEvalSeconds = Some t2\<rparr>)]\<rparr>,
      apg_status = sample_status\<rparr>"

lemmas sample_group_defs = sample_group_def sample_rule_def sample_meta_def sample_status_def


end
