(* ===== verification/Allowed_Resources.thy ===== *)
theory Allowed_Resources
  imports Policy_Validation
begin

text \<open>
  The allow list of resources for namespaced policies
  (\<^verbatim>\<open>internal/controller/namespaced_policies_allowed_resources.go\<close>,
  \<^verbatim>\<open>internal/controller/controller_config.go\<close>): how the list is read and cleaned, and which
  policies it lets through.  The YAML decoder and the reader of config maps are parameters.
\<close>

section \<open>Reading the allow list\<close>

type_synonym namespacedPoliciesAllowedResources = "RuleWithOperations list"

datatype allow_list_error = errAllowListWildcard | errAllowListEmptyItem | errAllowListSubresource

text \<open>What the controller logs while it cleans the list, by the index of the entry.\<close>

datatype allow_list_log =
    SkippedApiGroup nat string allow_list_error
  | SkippedResource nat string allow_list_error
  | SkippedEntry nat string
  | IgnoredField nat string

definition validateAPIGroup :: "string \<Rightarrow> allow_list_error option" where
  "validateAPIGroup apiGroup = (if CHR ''*'' \<in> set apiGroup then Some errAllowListWildcard else None)"

definition validateResource :: "string \<Rightarrow> allow_list_error option" where
  "validateResource resource =
     (if resource = [] then Some errAllowListEmptyItem
      else if CHR ''*'' \<in> set resource then Some errAllowListWildcard
      else if CHR ''/'' \<in> set resource then Some errAllowListSubresource
      else None)"

definition logIgnoredFields :: "nat \<Rightarrow> RuleWithOperations \<Rightarrow> allow_list_log list" where
  "logIgnoredFields index entry =
     (if r_apiVersions entry \<noteq> [] then [IgnoredField index ''apiVersions''] else []) @
     (if r_scope entry \<noteq> None then [IgnoredField index ''scope''] else [])"

text \<open>The entry that is kept has only API groups and resources.\<close>

definition allowed_entry :: "string list \<Rightarrow> string list \<Rightarrow> RuleWithOperations" where
  "allowed_entry apiGroups resources =
     \<lparr>r_operations = [], r_apiGroups = apiGroups, r_apiVersions = [], r_resources = resources, r_scope = None\<rparr>"

fun validate_entries ::
  "nat \<Rightarrow> RuleWithOperations list \<Rightarrow> namespacedPoliciesAllowedResources \<times> allow_list_log list" where
  "validate_entries i [] = ([], [])"
| "validate_entries i (entry # entries) =
     (let skippedGroups = List.map_filter (\<lambda>g. map_option (SkippedApiGroup i g) (validateAPIGroup g)) (r_apiGroups entry);
          apiGroups = filter (\<lambda>g. validateAPIGroup g = None) (r_apiGroups entry);
          skippedResources = List.map_filter (\<lambda>r. map_option (SkippedResource i r) (validateResource r)) (r_resources entry);
          resources = filter (\<lambda>r. validateResource r = None) (r_resources entry);
          logged = logIgnoredFields i entry @ skippedGroups @ skippedResources;
          (allowed, log) = validate_entries (Suc i) entries in
      if apiGroups = [] then (allowed, logged @ SkippedEntry i ''apiGroups has no valid item'' # log)
      else if resources = [] then (allowed, logged @ SkippedEntry i ''resources has no valid item'' # log)
      else (allowed_entry apiGroups resources # allowed, logged @ log))"

definition validateNamespacedPoliciesAllowedResources ::
  "RuleWithOperations list \<Rightarrow> namespacedPoliciesAllowedResources \<times> allow_list_log list" where
  "validateNamespacedPoliciesAllowedResources entries = validate_entries 0 entries"

section \<open>The controller configuration\<close>

record controllerConfig =
  cc_namespacedPoliciesAllowedResources :: namespacedPoliciesAllowedResources

definition empty_controllerConfig :: controllerConfig where
  "empty_controllerConfig = \<lparr>cc_namespacedPoliciesAllowedResources = []\<rparr>"

text \<open>\<open>decode\<close> is the YAML decoder into the Go struct.\<close>

definition parseControllerConfig :: "(string \<Rightarrow> string + RuleWithOperations list) \<Rightarrow> string \<Rightarrow> controllerConfig" where
  "parseControllerConfig decode data =
     (case decode data of
        Inl err \<Rightarrow> empty_controllerConfig
      | Inr entries \<Rightarrow>
          \<lparr>cc_namespacedPoliciesAllowedResources = fst (validateNamespacedPoliciesAllowedResources entries)\<rparr>)"

text \<open>An error of the Kubernetes API, as far as the controller tells errors apart.\<close>

datatype kube_error = NotFound | Conflict | OtherError string

fun kube_error_text :: "kube_error \<Rightarrow> string" where
  "kube_error_text NotFound = ''not found''"
| "kube_error_text Conflict = ''conflict''"
| "kube_error_text (OtherError e) = e"

definition ControllerConfigKey :: string where "ControllerConfigKey = ''config.yaml''"

definition loadControllerConfig ::
  "(string \<Rightarrow> string + RuleWithOperations list) \<Rightarrow> string \<Rightarrow> string \<Rightarrow>
     kube_error + (string \<times> string) list \<Rightarrow> string + controllerConfig" where
  "loadControllerConfig decode namespace name got =
     (case got of
        Inl NotFound \<Rightarrow> Ok empty_controllerConfig
      | Inl err \<Rightarrow>
          Err (''cannot read the controller configuration ConfigMap '' @ namespace @ ''/'' @ name @ '': '' @
               kube_error_text err)
      | Inr data \<Rightarrow>
          (case map_of data ControllerConfigKey of
             None \<Rightarrow> Ok empty_controllerConfig
           | Some text \<Rightarrow> Ok (parseControllerConfig decode text)))"

section \<open>The check of a policy\<close>

definition allows :: "namespacedPoliciesAllowedResources \<Rightarrow> string \<Rightarrow> string \<Rightarrow> bool" where
  "allows a apiGroup resource =
     (if CHR ''*'' \<in> set apiGroup then False
      else
        (let parentResource = (case split_once (CHR ''/'') resource of Some (p, _) \<Rightarrow> p | None \<Rightarrow> resource) in
         if parentResource = [] \<or> CHR ''*'' \<in> set parentResource then False
         else list_ex (\<lambda>entry. apiGroup \<in> set (r_apiGroups entry) \<and> parentResource \<in> set (r_resources entry)) a))"

text \<open>\<^verbatim>\<open>schema.GroupResource.String()\<close>\<close>

definition GroupResource_String :: "string \<Rightarrow> string \<Rightarrow> string" where
  "GroupResource_String grp resource = (if grp = [] then resource else resource @ ''.'' @ grp)"

text \<open>\<^verbatim>\<open>slices.Compact\<close> keeps one of each run of equal elements.\<close>

definition disallowedTargets :: "namespacedPoliciesAllowedResources \<Rightarrow> RuleWithOperations list \<Rightarrow> string list" where
  "disallowedTargets a rules =
     remdups_adj (sort (concat (map (\<lambda>rule.
       concat (map (\<lambda>apiGroup.
         map (\<lambda>resource. GroupResource_String apiGroup resource)
           (filter (\<lambda>resource. \<not> allows a apiGroup resource) (r_resources rule)))
       (r_apiGroups rule))) rules)))"

definition isNamespacedPolicyAllowed ::
  "Policy \<Rightarrow> namespacedPoliciesAllowedResources \<Rightarrow> bool \<times> string list" where
  "isNamespacedPolicyAllowed policy allowed =
     (if GetNamespace policy = [] then (True, [])
      else (let disallowed = disallowedTargets allowed (GetRules policy) in (disallowed = [], disallowed)))"

definition ControllerConfigNamespacedPoliciesAllowedResourcesKey :: string where
  "ControllerConfigNamespacedPoliciesAllowedResourcesKey = ''namespacedPoliciesAllowedResources''"

definition namespacedPolicyRejectedMessage ::
  "string list \<Rightarrow> namespacedPoliciesAllowedResources \<Rightarrow> string \<Rightarrow> string" where
  "namespacedPolicyRejectedMessage disallowed allowed configMapName =
     ''The policy is not deployed. '' @
     (if allowed = [] then
        ''The allow list of resources for namespaced policies is empty. '' @
        ''The controller reads the allow list from the key '' @
        ControllerConfigNamespacedPoliciesAllowedResourcesKey @ '' of the file '' @ ControllerConfigKey @
        '' in the ConfigMap '' @ configMapName @ ''. ''
      else
        ''The cluster administrator does not allow namespaced policies to target these resources (resource.apiGroup): '' @
        join_str '', '' disallowed @ ''. '') @
     (if list_ex (\<lambda>target. CHR ''*'' \<in> set target) disallowed then
        ''Namespaced policies cannot use wildcards in apiGroups or resources. Replace each wildcard with a resource name. ''
      else []) @
     ''To deploy this policy, ask the cluster administrator to add the resources that the policy targets to the Helm value namespacedPoliciesAllowedResources.''"

definition controllerConfigMapPredicate :: "string \<Rightarrow> string \<Rightarrow> ObjectMeta \<Rightarrow> bool" where
  "controllerConfigMapPredicate namespace name object \<longleftrightarrow> om_name object = name \<and> om_namespace object = namespace"

section \<open>What the allow list means\<close>

text \<open>
  How the API server matches a request for a resource and a subresource (empty if none)
  against a rule: a star in the API groups or in either half of a resource matches anything, and
  a resource without a slash matches no subresource.
\<close>

definition resource_halves :: "string \<Rightarrow> string \<times> string" where
  "resource_halves resource =
     (case split_once (CHR ''/'') resource of Some halves \<Rightarrow> halves | None \<Rightarrow> (resource, []))"

definition rule_matches :: "RuleWithOperations \<Rightarrow> string \<Rightarrow> string \<Rightarrow> string \<Rightarrow> bool" where
  "rule_matches rule grp resource sub \<longleftrightarrow>
     (''*'' \<in> set (r_apiGroups rule) \<or> grp \<in> set (r_apiGroups rule)) \<and>
     (\<exists>target\<in>set (r_resources rule).
        (fst (resource_halves target) = ''*'' \<or> fst (resource_halves target) = resource) \<and>
        (snd (resource_halves target) = ''*'' \<or> snd (resource_halves target) = sub))"

lemma allows_iff:
  "allows a apiGroup resource \<longleftrightarrow>
     CHR ''*'' \<notin> set apiGroup \<and> fst (resource_halves resource) \<noteq> [] \<and>
     CHR ''*'' \<notin> set (fst (resource_halves resource)) \<and>
     (\<exists>entry\<in>set a. apiGroup \<in> set (r_apiGroups entry) \<and> fst (resource_halves resource) \<in> set (r_resources entry))"
  by (auto simp: allows_def resource_halves_def Let_def list_ex_iff split: option.splits)

lemma disallowedTargets_Nil:
  "disallowedTargets a rules = [] \<longleftrightarrow>
     (\<forall>rule\<in>set rules. \<forall>apiGroup\<in>set (r_apiGroups rule). \<forall>resource\<in>set (r_resources rule).
        allows a apiGroup resource)"
proof -
  have "disallowedTargets a rules = [] \<longleftrightarrow> set (disallowedTargets a rules) = {}" by simp
  then show ?thesis unfolding disallowedTargets_def by auto
qed

text \<open>The list of disallowed targets is sorted and has no duplicates.\<close>

lemma disallowedTargets_sorted_distinct:
  "sorted (disallowedTargets a rules) \<and> distinct (disallowedTargets a rules)"
proof -
  have "sorted xs \<Longrightarrow> distinct (remdups_adj xs)" for xs :: "string list"
    by (induction xs rule: remdups_adj.induct) (auto simp: not_le [symmetric])
  then show ?thesis by (simp add: disallowedTargets_def sorted_remdups_adj)
qed

text \<open>Cleaning the list only drops items.\<close>

lemma validate_entries_set:
  "set (fst (validate_entries i entries)) =
     {allowed_entry gs rs | gs rs entry. entry \<in> set entries \<and> gs \<noteq> [] \<and> rs \<noteq> [] \<and>
        gs = filter (\<lambda>g. validateAPIGroup g = None) (r_apiGroups entry) \<and>
        rs = filter (\<lambda>r. validateResource r = None) (r_resources entry)}"
proof (induction i entries rule: validate_entries.induct)
  case (2 i entry entries)
  have IH: "set (fst (validate_entries (Suc i) entries)) =
     {allowed_entry gs rs | gs rs entry. entry \<in> set entries \<and> gs \<noteq> [] \<and> rs \<noteq> [] \<and>
        gs = filter (\<lambda>g. validateAPIGroup g = None) (r_apiGroups entry) \<and>
        rs = filter (\<lambda>r. validateResource r = None) (r_resources entry)}"
    by (rule 2) simp_all
  show ?case by (simp add: Let_def case_prod_beta IH) blast
qed simp

lemma allowed_entry_fields [simp]:
  "r_apiGroups (allowed_entry gs rs) = gs" "r_resources (allowed_entry gs rs) = rs"
  by (simp_all add: allowed_entry_def)

lemma allowed_pairs:
  "(\<exists>entry\<in>set (fst (validateNamespacedPoliciesAllowedResources entries)).
      g \<in> set (r_apiGroups entry) \<and> r \<in> set (r_resources entry)) \<longleftrightarrow>
   validateAPIGroup g = None \<and> validateResource r = None \<and>
   (\<exists>entry\<in>set entries. g \<in> set (r_apiGroups entry) \<and> r \<in> set (r_resources entry))"
proof (unfold validateNamespacedPoliciesAllowedResources_def validate_entries_set, intro iffI)
  assume "\<exists>entry\<in>{allowed_entry gs rs | gs rs entry. entry \<in> set entries \<and> gs \<noteq> [] \<and> rs \<noteq> [] \<and>
      gs = filter (\<lambda>g. validateAPIGroup g = None) (r_apiGroups entry) \<and>
      rs = filter (\<lambda>r. validateResource r = None) (r_resources entry)}.
    g \<in> set (r_apiGroups entry) \<and> r \<in> set (r_resources entry)"
  then show "validateAPIGroup g = None \<and> validateResource r = None \<and>
      (\<exists>entry\<in>set entries. g \<in> set (r_apiGroups entry) \<and> r \<in> set (r_resources entry))"
    by (elim bexE CollectE exE conjE) (simp, blast)
next
  assume R: "validateAPIGroup g = None \<and> validateResource r = None \<and>
      (\<exists>entry\<in>set entries. g \<in> set (r_apiGroups entry) \<and> r \<in> set (r_resources entry))"
  then obtain entry where entry: "entry \<in> set entries" "g \<in> set (r_apiGroups entry)" "r \<in> set (r_resources entry)"
    by blast
  define gs rs where "gs = filter (\<lambda>g. validateAPIGroup g = None) (r_apiGroups entry)"
    and "rs = filter (\<lambda>r. validateResource r = None) (r_resources entry)"
  have gr: "g \<in> set gs" "r \<in> set rs" using R entry by (auto simp: gs_def rs_def)
  then have "gs \<noteq> []" "rs \<noteq> []" by auto
  then have "allowed_entry gs rs \<in> {allowed_entry gs rs | gs rs entry. entry \<in> set entries \<and> gs \<noteq> [] \<and> rs \<noteq> [] \<and>
      gs = filter (\<lambda>g. validateAPIGroup g = None) (r_apiGroups entry) \<and>
      rs = filter (\<lambda>r. validateResource r = None) (r_resources entry)}"
    using entry(1) gs_def rs_def by blast
  with gr show "\<exists>entry\<in>{allowed_entry gs rs | gs rs entry. entry \<in> set entries \<and> gs \<noteq> [] \<and> rs \<noteq> [] \<and>
      gs = filter (\<lambda>g. validateAPIGroup g = None) (r_apiGroups entry) \<and>
      rs = filter (\<lambda>r. validateResource r = None) (r_resources entry)}.
    g \<in> set (r_apiGroups entry) \<and> r \<in> set (r_resources entry)"
    by (intro bexI [where x = "allowed_entry gs rs"]) simp_all
qed

lemma resource_halves_no_slash: "CHR ''/'' \<notin> set (fst (resource_halves target))"
  by (auto simp: resource_halves_def split_once_Some_iff split_once_None_iff split: option.splits)

lemma allows_cleaned:
  "allows (fst (validateNamespacedPoliciesAllowedResources entries)) g target \<longleftrightarrow>
     CHR ''*'' \<notin> set g \<and> fst (resource_halves target) \<noteq> [] \<and> CHR ''*'' \<notin> set (fst (resource_halves target)) \<and>
     (\<exists>entry\<in>set entries. g \<in> set (r_apiGroups entry) \<and> fst (resource_halves target) \<in> set (r_resources entry))"
  unfolding allows_iff allowed_pairs
  using resource_halves_no_slash [of target] by (auto simp: validateAPIGroup_def validateResource_def)

lemma loadControllerConfig_Ok:
  "loadControllerConfig decode namespace name got = Ok config \<Longrightarrow>
     cc_namespacedPoliciesAllowedResources config = [] \<or>
     (\<exists>data text entries. got = Inr data \<and> map_of data ControllerConfigKey = Some text \<and>
        decode text = Ok entries \<and>
        cc_namespacedPoliciesAllowedResources config = fst (validateNamespacedPoliciesAllowedResources entries))"
  by (auto simp: loadControllerConfig_def parseControllerConfig_def empty_controllerConfig_def
      split: sum.splits option.splits kube_error.splits)

section \<open>Properties\<close>

text \<open>
  C12: a namespaced policy that the controller deploys sees only resources that the cluster
  administrator listed.  Whatever request for a resource or a subresource a rule of the policy
  matches, the group and the resource stand together in one entry of the list in the
  configuration; so a missing, unreadable or empty configuration lets no request through.
\<close>

theorem allow_list_confines_namespaced_policies:
  assumes "loadControllerConfig decode namespace name got = Ok config"
    and "fst (isNamespacedPolicyAllowed policy (cc_namespacedPoliciesAllowedResources config))"
    and "GetNamespace policy \<noteq> []"
    and "rule \<in> set (GetRules policy)" "rule_matches rule grp resource sub"
  shows "\<exists>data content entries entry. got = Inr data \<and> map_of data ControllerConfigKey = Some content \<and>
    decode content = Ok entries \<and> entry \<in> set entries \<and>
    grp \<in> set (r_apiGroups entry) \<and> resource \<in> set (r_resources entry)"
proof -
  let ?a = "cc_namespacedPoliciesAllowedResources config"
  have all: "allows ?a g target" if "g \<in> set (r_apiGroups rule)" "target \<in> set (r_resources rule)" for g target
    using assms(2,3,4) that by (simp add: isNamespacedPolicyAllowed_def Let_def disallowedTargets_Nil)
  obtain target where target: "target \<in> set (r_resources rule)"
    "fst (resource_halves target) = ''*'' \<or> fst (resource_halves target) = resource"
    and grp: "''*'' \<in> set (r_apiGroups rule) \<or> grp \<in> set (r_apiGroups rule)"
    using assms(5) by (auto simp: rule_matches_def)
  have "''*'' \<notin> set (r_apiGroups rule)" using all [OF _ target(1), of "''*''"] by (auto simp: allows_iff)
  with grp have grp': "grp \<in> set (r_apiGroups rule)" by simp
  have allowed: "allows ?a grp target" by (rule all [OF grp' target(1)])
  then have "fst (resource_halves target) \<noteq> ''*''" by (auto simp: allows_iff)
  with target(2) have res: "fst (resource_halves target) = resource" by simp
  have "?a \<noteq> []" using allowed by (auto simp: allows_iff)
  with loadControllerConfig_Ok [OF assms(1)] obtain data content entries where
    cfg: "got = Inr data" "map_of data ControllerConfigKey = Some content" "decode content = Ok entries"
    and a: "?a = fst (validateNamespacedPoliciesAllowedResources entries)" by blast
  from allowed have "\<exists>entry\<in>set entries. grp \<in> set (r_apiGroups entry) \<and> resource \<in> set (r_resources entry)"
    unfolding a allows_cleaned res by blast
  with cfg show ?thesis by blast
qed

theorem allow_list_confines_namespaced_policies_witness:
  "\<exists>data content entries entry. Inr [(''config.yaml'', ''x'')] = (Inr data :: kube_error + (string \<times> string) list) \<and>
     map_of data ControllerConfigKey = Some content \<and>
     (\<lambda>_. Ok [sample_rule [''''] [''pods'']]) content = (Ok entries :: string + RuleWithOperations list) \<and>
     entry \<in> set entries \<and> '''' \<in> set (r_apiGroups entry) \<and> ''pods'' \<in> set (r_resources entry)"
proof -
  let ?p = "as_Policy (AP (sample_policy ''ns'' ''p'' ''protect''))"
  let ?config = "\<lparr>cc_namespacedPoliciesAllowedResources = [allowed_entry [''''] [''pods'']]\<rparr>"
  have load: "loadControllerConfig (\<lambda>_. Ok [sample_rule [''''] [''pods'']]) ''kubewarden'' ''cfg''
      (Inr [(''config.yaml'', ''x'')]) = Ok ?config"
    by (simp add: loadControllerConfig_def ControllerConfigKey_def parseControllerConfig_def
        validateNamespacedPoliciesAllowedResources_def sample_rule_def validateAPIGroup_def validateResource_def
        Let_def)
  have ok: "fst (isNamespacedPolicyAllowed ?p (cc_namespacedPoliciesAllowedResources ?config))"
    by (simp add: isNamespacedPolicyAllowed_def disallowedTargets_Nil AdmissionPolicy_as_Policy_def Let_def
        sample_policy_defs namespaced_rules_def allows_def)
  let ?rule = "(sample_rule [''''] [''pods''])\<lparr>r_scope := Some ''Namespaced''\<rparr>"
  have rule: "?rule \<in> set (GetRules ?p)" and ns: "GetNamespace ?p \<noteq> []"
    by (simp_all add: AdmissionPolicy_as_Policy_def Let_def sample_policy_defs namespaced_rules_def)
  have "rule_matches ?rule '''' ''pods'' ''''"
    by (simp add: rule_matches_def resource_halves_def sample_rule_def)
  from allow_list_confines_namespaced_policies [OF load ok ns rule this] show ?thesis .
qed

text \<open>The check is exact: a namespaced policy is deployed if and only if each of its targets names
  an API group and a parent resource, without wildcards, that stand together in the list.\<close>

lemma isNamespacedPolicyAllowed_exact:
  "GetNamespace policy \<noteq> [] \<Longrightarrow>
     fst (isNamespacedPolicyAllowed policy (fst (validateNamespacedPoliciesAllowedResources entries))) \<longleftrightarrow>
     (\<forall>rule\<in>set (GetRules policy). \<forall>g\<in>set (r_apiGroups rule). \<forall>target\<in>set (r_resources rule).
        CHR ''*'' \<notin> set g \<and> fst (resource_halves target) \<noteq> [] \<and> CHR ''*'' \<notin> set (fst (resource_halves target)) \<and>
        (\<exists>entry\<in>set entries. g \<in> set (r_apiGroups entry) \<and> fst (resource_halves target) \<in> set (r_resources entry)))"
  by (simp add: isNamespacedPolicyAllowed_def Let_def disallowedTargets_Nil allows_cleaned)

lemma isNamespacedPolicyAllowed_cluster: "GetNamespace policy = [] \<Longrightarrow> fst (isNamespacedPolicyAllowed policy a)"
  by (simp add: isNamespacedPolicyAllowed_def)

end
