(* ===== verification/Config_Decode.thy ===== *)
theory Config_Decode
  imports Config
begin

text \<open>
  How the policy server reads \<^verbatim>\<open>policies.yml\<close> (\<^verbatim>\<open>policy-server/src/config.rs\<close>, the derived
  deserializers of \<^verbatim>\<open>PolicyOrPolicyGroup\<close>, \<^verbatim>\<open>PolicyGroupMember\<close>, \<^verbatim>\<open>PolicyMode\<close> and
  \<^verbatim>\<open>ContextAwareResource\<close>): from a value to the configuration, field by field.  A missing
  field is an error unless it is optional or has a default, \<^verbatim>\<open>null\<close> is a value only of
  optional fields, unknown fields are ignored except in group members, and the untagged enum
  tries its variants in order.  The YAML parser that makes the value is a parameter.
\<close>

section \<open>Fields\<close>

definition required_field :: "string \<Rightarrow> (json \<Rightarrow> string + 'a) \<Rightarrow> (string \<times> json) list \<Rightarrow> string + 'a" where
  "required_field k f ms =
     (case map_of ms k of None \<Rightarrow> Err (''missing field `'' @ k @ ''`'') | Some v \<Rightarrow> f v)"

definition optional_field :: "string \<Rightarrow> (json \<Rightarrow> string + 'a) \<Rightarrow> (string \<times> json) list \<Rightarrow> string + 'a option" where
  "optional_field k f ms =
     (case map_of ms k of None \<Rightarrow> Ok None | Some JNull \<Rightarrow> Ok None | Some v \<Rightarrow> map_ok Some (f v))"

definition default_field :: "string \<Rightarrow> 'a \<Rightarrow> (json \<Rightarrow> string + 'a) \<Rightarrow> (string \<times> json) list \<Rightarrow> string + 'a" where
  "default_field k d f ms = (case map_of ms k of None \<Rightarrow> Ok d | Some v \<Rightarrow> f v)"

fun de_string :: "json \<Rightarrow> string + string" where
  "de_string (JString s) = Ok s"
| "de_string _ = Err ''invalid type: expected a string''"

fun de_bool :: "json \<Rightarrow> string + bool" where
  "de_bool (JBool b) = Ok b"
| "de_bool _ = Err ''invalid type: expected a boolean''"

fun de_u64 :: "json \<Rightarrow> string + 64 word" where
  "de_u64 (JNumber t) = map_ok word_of_nat (parse_u64 t)"
| "de_u64 _ = Err ''invalid type: expected u64''"

fun de_seq :: "(json \<Rightarrow> string + 'a) \<Rightarrow> json \<Rightarrow> string + 'a list" where
  "de_seq f (JArray vs) = collect_map f vs"
| "de_seq f _ = Err ''invalid type: expected a sequence''"

fun de_object :: "((string \<times> json) list \<Rightarrow> string + 'a) \<Rightarrow> json \<Rightarrow> string + 'a" where
  "de_object f (JObject ms) = f ms"
| "de_object f _ = Err ''invalid type: expected a map''"

section \<open>Modes, resources, members\<close>

definition de_PolicyMode :: "json \<Rightarrow> string + PolicyMode" where
  "de_PolicyMode v =
     try_then (de_string v) (\<lambda>s.
       if s = ''monitor'' then Ok Monitor
       else if s = ''protect'' then Ok Protect
       else Err (''unknown variant `'' @ s @ ''`, expected `monitor` or `protect`''))"

definition de_ContextAwareResource :: "json \<Rightarrow> string + ContextAwareResource" where
  "de_ContextAwareResource =
     de_object (\<lambda>ms.
       try_then (required_field ''apiVersion'' de_string ms) (\<lambda>api_version.
       try_then (required_field ''kind'' de_string ms) (\<lambda>kind.
         Ok (ContextAwareResource api_version kind))))"

definition de_resources :: "json \<Rightarrow> string + ContextAwareResource set" where
  "de_resources v = map_ok set (de_seq de_ContextAwareResource v)"

definition member_fields :: "string list" where
  "member_fields =
     [''module'', ''settings'', ''contextAwareResources'', ''timeoutEvalSeconds'', ''hostCapabilities'']"

definition de_PolicyGroupMember :: "json \<Rightarrow> string + PolicyGroupMember" where
  "de_PolicyGroupMember =
     de_object (\<lambda>ms.
       case find (\<lambda>k. k \<notin> set member_fields) (map fst ms) of
         Some k \<Rightarrow> Err (''unknown field `'' @ k @ ''`'')
       | None \<Rightarrow>
           try_then (required_field ''module'' de_string ms) (\<lambda>module.
           try_then (optional_field ''settings'' (de_object Ok) ms) (\<lambda>settings.
           try_then (default_field ''contextAwareResources'' {} de_resources ms) (\<lambda>resources.
           try_then (optional_field ''timeoutEvalSeconds'' de_u64 ms) (\<lambda>timeout.
           try_then (default_field ''hostCapabilities'' [] (de_seq de_string) ms) (\<lambda>capabilities.
             Ok \<lparr>gmc_module = module, gmc_settings = settings, gmc_context_aware_resources = resources,
                 gmc_timeout_eval_seconds = timeout, gmc_host_capabilities = capabilities\<rparr>))))))"

section \<open>Policies and groups\<close>

definition de_Policy :: "json \<Rightarrow> string + PolicyConfig" where
  "de_Policy =
     de_object (\<lambda>ms.
       try_then (required_field ''module'' de_string ms) (\<lambda>module.
       try_then (default_field ''policyMode'' PolicyMode_default de_PolicyMode ms) (\<lambda>mode.
       try_then (optional_field ''allowedToMutate'' de_bool ms) (\<lambda>allowed_to_mutate.
       try_then (optional_field ''settings'' (de_object Ok) ms) (\<lambda>settings.
       try_then (default_field ''contextAwareResources'' {} de_resources ms) (\<lambda>resources.
       try_then (optional_field ''message'' de_string ms) (\<lambda>message.
       try_then (optional_field ''timeoutEvalSeconds'' de_u64 ms) (\<lambda>timeout.
       try_then (default_field ''hostCapabilities'' [] (de_seq de_string) ms) (\<lambda>capabilities.
         Ok \<lparr>pc_module = module, pc_policy_mode = mode, pc_allowed_to_mutate = allowed_to_mutate,
             pc_settings = settings, pc_context_aware_resources = resources, pc_message = message,
             pc_timeout_eval_seconds = timeout, pc_host_capabilities = capabilities\<rparr>)))))))))"

definition de_PolicyGroup :: "json \<Rightarrow> string + PolicyGroupConfig" where
  "de_PolicyGroup =
     de_object (\<lambda>ms.
       try_then (default_field ''policyMode'' PolicyMode_default de_PolicyMode ms) (\<lambda>mode.
       try_then (required_field ''policies''
                   (de_object (collect_map (\<lambda>(name, v).
                      try_then (de_PolicyGroupMember v) (\<lambda>m. Ok (name, m))))) ms) (\<lambda>policies.
       try_then (required_field ''expression'' de_string ms) (\<lambda>expression.
       try_then (required_field ''message'' de_string ms) (\<lambda>message.
         Ok \<lparr>gc_policy_mode = mode, gc_policies = policies, gc_expression = expression,
             gc_message = message\<rparr>)))))"

definition de_PolicyOrPolicyGroup :: "json \<Rightarrow> string + PolicyOrPolicyGroup" where
  "de_PolicyOrPolicyGroup v =
     (case de_Policy v of
        Inr p \<Rightarrow> Ok (Individual p)
      | Inl _ \<Rightarrow>
          (case de_PolicyGroup v of
             Inr g \<Rightarrow> Ok (Grouped g)
           | Inl _ \<Rightarrow> Err ''data did not match any variant of untagged enum PolicyOrPolicyGroup''))"

text \<open>\<open>from_yaml\<close> parses a document; the order of the entries of the hash map is theirs.\<close>

definition read_policies_file :: "(string \<Rightarrow> string + json) \<Rightarrow> string \<Rightarrow> string + policies_config" where
  "read_policies_file from_yaml contents =
     try_then (from_yaml contents)
       (de_object (collect_map (\<lambda>(name, v). try_then (de_PolicyOrPolicyGroup v) (\<lambda>p. Ok (name, p)))))"

end
