(* ===== verification/Policies_ConfigMap.thy ===== *)
theory Policies_ConfigMap
  imports Allowed_Resources Config_Decode
begin

text \<open>
  The configuration that the controller writes for a policy server
  (\<^verbatim>\<open>internal/controller/policyserver_controller_configmap.go\<close>, and the legacy entries of
  \<^verbatim>\<open>legacy_policy_migration.go\<close>): one entry for each policy, its JSON, how the controller reads
  it back, and that the policy server reads from it exactly the policies it was built from.
  The parser of the settings' text is a parameter.
\<close>

section \<open>Configuration entries\<close>

record policyGroupMemberConfig =
  m_module :: string
  m_settings :: "string option"
  m_contextAwareResources :: "ContextAwareResource_v1 list"
  m_timeoutEvalSeconds :: "32 word option"
  m_hostCapabilities :: "string list"

record policyServerConfigEntry =
  e_namespace :: string
  e_name :: string
  e_module :: string
  e_policyMode :: string
  e_allowedToMutate :: bool
  e_contextAwareResources :: "ContextAwareResource_v1 list"
  e_settings :: "string option"
  e_message :: string
  e_timeoutEvalSeconds :: "32 word option"
  e_hostCapabilities :: "string list"
  e_policies :: "(string \<times> policyGroupMemberConfig) list"
  e_expression :: string

type_synonym policyConfigEntryMap = "(string \<times> policyServerConfigEntry) list"

definition hostCapabilitiesForPolicy :: "Policy \<Rightarrow> PolicyServer \<Rightarrow> string list" where
  "hostCapabilitiesForPolicy admissionPolicy policyServer =
     (if GetNamespace admissionPolicy = [] then [''*'']
      else (case pss_namespacedPoliciesCapabilities (srv_spec policyServer) of
              Some caps \<Rightarrow> caps
            | None \<Rightarrow> [''*'']))"

definition buildPolicyGroupMembersWithContext ::
  "PolicyGroupMembersWithContext \<Rightarrow> string list \<Rightarrow> (string \<times> policyGroupMemberConfig) list" where
  "buildPolicyGroupMembersWithContext policies hostCaps =
     map (\<lambda>(name, policy).
       (name, \<lparr>m_module = gmv_module policy, m_settings = gmv_settings policy,
               m_contextAwareResources = gmv_contextAwareResources policy,
               m_timeoutEvalSeconds = gmv_timeoutEvalSeconds policy,
               m_hostCapabilities = hostCaps\<rparr>)) policies"

definition policy_config_entry :: "PolicyServer \<Rightarrow> Policy \<Rightarrow> policyServerConfigEntry" where
  "policy_config_entry policyServer admissionPolicy =
     (let hostCaps = hostCapabilitiesForPolicy admissionPolicy policyServer;
          configEntry =
            \<lparr>e_namespace = GetNamespace admissionPolicy,
             e_name = GetName admissionPolicy,
             e_module = GetModule admissionPolicy,
             e_policyMode = GetPolicyMode admissionPolicy,
             e_allowedToMutate = IsMutating admissionPolicy,
             e_contextAwareResources = GetContextAwareResources admissionPolicy,
             e_settings = GetSettings admissionPolicy,
             e_message = GetMessage admissionPolicy,
             e_timeoutEvalSeconds = GetTimeoutEvalSeconds admissionPolicy,
             e_hostCapabilities = hostCaps,
             e_policies = [],
             e_expression = []\<rparr> in
      case AsPolicyGroup admissionPolicy of
        None \<Rightarrow> configEntry
      | Some policyGroup \<Rightarrow>
          configEntry\<lparr>e_policies := buildPolicyGroupMembersWithContext
                        (GetPolicyGroupMembersWithContext policyGroup) hostCaps,
                      e_expression := GetExpression policyGroup\<rparr>)"

definition buildPoliciesMap :: "Policy list \<Rightarrow> PolicyServer \<Rightarrow> policyConfigEntryMap" where
  "buildPoliciesMap admissionPolicies policyServer =
     foldl (\<lambda>policies admissionPolicy.
         map_put policies (GetUniqueName admissionPolicy) (policy_config_entry policyServer admissionPolicy))
       [] admissionPolicies"

section \<open>Legacy names\<close>

definition legacyPolicyUniqueName :: "Policy \<Rightarrow> string" where
  "legacyPolicyUniqueName policy =
     (case DynamicType policy of
        KAdmissionPolicy \<Rightarrow> ''namespaced-'' @ GetNamespace policy @ ''-'' @ GetName policy
      | KAdmissionPolicyGroup \<Rightarrow> ''namespaced-group-'' @ GetNamespace policy @ ''-'' @ GetName policy
      | KClusterAdmissionPolicy \<Rightarrow> ''clusterwide-'' @ GetName policy
      | KClusterAdmissionPolicyGroup \<Rightarrow> ''clusterwide-group-'' @ GetName policy)"

text \<open>The owners of a legacy name, in the order of the policies.\<close>

definition legacyNameOwners :: "Policy list \<Rightarrow> (string \<times> Policy list) list" where
  "legacyNameOwners admissionPolicies =
     map (\<lambda>legacyName. (legacyName, filter (\<lambda>p. legacyPolicyUniqueName p = legacyName) admissionPolicies))
       (filter (\<lambda>legacyName. legacyName \<noteq> []) (remdups (map legacyPolicyUniqueName admissionPolicies)))"

definition legacy_step :: "policyConfigEntryMap \<Rightarrow> string \<times> Policy list \<Rightarrow> policyConfigEntryMap" where
  "legacy_step policies legacy =
     (case legacy of (legacyName, owners) \<Rightarrow>
        if 1 < length owners then policies
        else (case map_of policies (GetUniqueName (hd owners)) of
                Some entry \<Rightarrow> map_put policies legacyName entry
              | None \<Rightarrow> policies))"

definition addLegacyPolicyEntries :: "policyConfigEntryMap \<Rightarrow> Policy list \<Rightarrow> policyConfigEntryMap" where
  "addLegacyPolicyEntries policies admissionPolicies =
     foldl legacy_step policies (legacyNameOwners admissionPolicies)"

section \<open>Writing JSON\<close>

definition json_text_of_int32 :: "32 word \<Rightarrow> json" where
  "json_text_of_int32 t = JNumber (show_int (sint t))"

definition json_resources :: "ContextAwareResource_v1 list \<Rightarrow> json" where
  "json_resources rs =
     JArray (map (\<lambda>r. JObject [(''apiVersion'', JString (carv_apiVersion r)), (''kind'', JString (carv_kind r))]) rs)"

text \<open>A member that is left out when it is empty, as \<^verbatim>\<open>omitempty\<close> says.\<close>

definition omit_if :: "bool \<Rightarrow> string \<Rightarrow> json \<Rightarrow> (string \<times> json) list" where
  "omit_if absent k v = (if absent then [] else [(k, v)])"

definition omit_none :: "string \<Rightarrow> ('a \<Rightarrow> json) \<Rightarrow> 'a option \<Rightarrow> (string \<times> json) list" where
  "omit_none k f v = (case v of None \<Rightarrow> [] | Some x \<Rightarrow> [(k, f x)])"

text \<open>
  The settings: \<^verbatim>\<open>null\<close> if there are none, otherwise the value that their text denotes.  A
  struct is never empty, so that the member is always written.
\<close>

definition json_RawExtension :: "(string \<Rightarrow> json option) \<Rightarrow> string option \<Rightarrow> string + json" where
  "json_RawExtension parse raw =
     (case raw of
        None \<Rightarrow> Ok JNull
      | Some t \<Rightarrow> ok_or ''failed to encode policy server configuration'' (parse t))"

definition json_NamespacedName :: "policyServerConfigEntry \<Rightarrow> json" where
  "json_NamespacedName p = JObject [(''Namespace'', JString (e_namespace p)), (''Name'', JString (e_name p))]"

definition json_of_member :: "(string \<Rightarrow> json option) \<Rightarrow> policyGroupMemberConfig \<Rightarrow> string + json" where
  "json_of_member parse m =
     try_then (json_RawExtension parse (m_settings m)) (\<lambda>settings.
       Ok (JObject
         ([(''module'', JString (m_module m)), (''settings'', settings)] @
          omit_if (m_contextAwareResources m = []) ''contextAwareResources'' (json_resources (m_contextAwareResources m)) @
          omit_none ''timeoutEvalSeconds'' json_text_of_int32 (m_timeoutEvalSeconds m) @
          [(''hostCapabilities'', JArray (map JString (m_hostCapabilities m)))])))"

text \<open>A map is written with its keys in order.\<close>

definition json_of_map :: "('a \<Rightarrow> string + json) \<Rightarrow> (string \<times> 'a) list \<Rightarrow> string + json" where
  "json_of_map f entries =
     map_ok JObject (collect_map (\<lambda>(k, x). try_then (f x) (\<lambda>v. Ok (k, v))) (sort_key fst entries))"

definition policyServerConfigEntry_MarshalJSON ::
  "(string \<Rightarrow> json option) \<Rightarrow> policyServerConfigEntry \<Rightarrow> string + json" where
  "policyServerConfigEntry_MarshalJSON parse p =
     (if e_policies p \<noteq> [] then
        try_then (json_of_map (json_of_member parse) (e_policies p)) (\<lambda>policies.
          Ok (JObject
            [(''namespacedName'', json_NamespacedName p), (''policyMode'', JString (e_policyMode p)),
             (''policies'', policies), (''expression'', JString (e_expression p)),
             (''message'', JString (e_message p))]))
      else
        try_then (json_RawExtension parse (e_settings p)) (\<lambda>settings.
          Ok (JObject
            ([(''namespacedName'', json_NamespacedName p), (''module'', JString (e_module p)),
              (''policyMode'', JString (e_policyMode p)), (''allowedToMutate'', JBool (e_allowedToMutate p))] @
             omit_if (e_contextAwareResources p = []) ''contextAwareResources'' (json_resources (e_contextAwareResources p)) @
             [(''settings'', settings)] @
             omit_if (e_message p = []) ''message'' (JString (e_message p)) @
             omit_none ''timeoutEvalSeconds'' json_text_of_int32 (e_timeoutEvalSeconds p) @
             [(''hostCapabilities'', JArray (map JString (e_hostCapabilities p)))]))))"

section \<open>Sources\<close>

record policyServerSourceAuthority =
  sa_type :: string
  sa_data :: string

record policyServerSourcesEntry =
  se_insecureSources :: "string list"
  se_sourceAuthorities :: "(string \<times> policyServerSourceAuthority list) list"

definition buildSourcesMap :: "PolicyServer \<Rightarrow> policyServerSourcesEntry" where
  "buildSourcesMap policyServer =
     \<lparr>se_insecureSources = pss_insecureSources (srv_spec policyServer),
      se_sourceAuthorities =
        map (\<lambda>(uri, certs). (uri, map (\<lambda>cert. \<lparr>sa_type = ''Data'', sa_data = cert\<rparr>) certs))
          (pss_sourceAuthorities (srv_spec policyServer))\<rparr>"

definition json_of_sources :: "policyServerSourcesEntry \<Rightarrow> json" where
  "json_of_sources s =
     JObject
       (omit_if (se_insecureSources s = []) ''insecure_sources'' (JArray (map JString (se_insecureSources s))) @
        omit_if (se_sourceAuthorities s = []) ''source_authorities''
          (JObject (map (\<lambda>(uri, as). (uri, JArray (map (\<lambda>a.
              JObject [(''type'', JString (sa_type a)), (''data'', JString (sa_data a))]) as)))
            (sort_key fst (se_sourceAuthorities s)))))"

section \<open>The config map\<close>

record ConfigMap =
  cm_meta :: ObjectMeta
  cm_data :: "(string \<times> string) list"

definition PolicyServerConfigPoliciesEntry :: string where "PolicyServerConfigPoliciesEntry = ''policies.yml''"
definition PolicyServerConfigSourcesEntry :: string where "PolicyServerConfigSourcesEntry = ''sources.yml''"

text \<open>
  The text of a JSON value, the parser of it, and \<^verbatim>\<open>controllerutil.SetOwnerReference\<close>, which may
  fail.
\<close>

record configmap_library =
  cml_print :: "json \<Rightarrow> string"
  cml_parse :: "string \<Rightarrow> json option"
  cml_set_owner :: "PolicyServer \<Rightarrow> ObjectMeta \<Rightarrow> string + ObjectMeta"

definition policies_json :: "configmap_library \<Rightarrow> PolicyServer \<Rightarrow> Policy list \<Rightarrow> string + json" where
  "policies_json lib policyServer policies =
     json_of_map (policyServerConfigEntry_MarshalJSON (cml_parse lib))
       (addLegacyPolicyEntries (buildPoliciesMap policies policyServer) policies)"

definition updateConfigMapData ::
  "configmap_library \<Rightarrow> PolicyServer \<Rightarrow> Policy list \<Rightarrow> ConfigMap \<Rightarrow> string + ConfigMap" where
  "updateConfigMapData lib policyServer policies cfg =
     try_then (map_err (\<lambda>err. ''cannot marshal policies: '' @ err) (policies_json lib policyServer policies))
       (\<lambda>policiesYML.
       let data = [(PolicyServerConfigPoliciesEntry, cml_print lib policiesYML),
                   (PolicyServerConfigSourcesEntry, cml_print lib (json_of_sources (buildSourcesMap policyServer)))];
           labels = map_put_all [(PolicyServerLabelKey, om_name (srv_meta policyServer))] (CommonLabels policyServer) in
       try_then (map_err (\<lambda>err. ''failed to set policy server configmap owner reference'' @ [CHR 10] @ err)
                   (cml_set_owner lib policyServer ((cm_meta cfg)\<lparr>om_labels := labels\<rparr>))) (\<lambda>meta.
         Ok (cfg\<lparr>cm_meta := meta, cm_data := data\<rparr>)))"

section \<open>Reading the entries back\<close>

text \<open>
  \<^verbatim>\<open>encoding/json\<close> into a struct, for the member names that the controller writes: an absent
  member and \<^verbatim>\<open>null\<close> leave the zero value.
\<close>

definition go_field :: "string \<Rightarrow> 'a \<Rightarrow> (json \<Rightarrow> string + 'a) \<Rightarrow> (string \<times> json) list \<Rightarrow> string + 'a" where
  "go_field k zero f ms = (case map_of ms k of None \<Rightarrow> Ok zero | Some JNull \<Rightarrow> Ok zero | Some v \<Rightarrow> f v)"

fun go_int32 :: "json \<Rightarrow> string + 32 word" where
  "go_int32 (JNumber t) =
     (if t \<noteq> [] \<and> hd t = CHR ''-'' then
        try_then (parse_u64 (tl t)) (\<lambda>n.
          if n \<le> 2 ^ 31 then Ok (word_of_int (- int n)) else Err ''cannot unmarshal number into int32'')
      else
        try_then (parse_u64 t) (\<lambda>n.
          if n < 2 ^ 31 then Ok (word_of_nat n) else Err ''cannot unmarshal number into int32''))"
| "go_int32 _ = Err ''cannot unmarshal value into int32''"

definition go_resource :: "json \<Rightarrow> string + ContextAwareResource_v1" where
  "go_resource =
     de_object (\<lambda>ms.
       try_then (go_field ''apiVersion'' [] de_string ms) (\<lambda>apiVersion.
       try_then (go_field ''kind'' [] de_string ms) (\<lambda>kind.
         Ok \<lparr>carv_apiVersion = apiVersion, carv_kind = kind\<rparr>)))"

definition go_member :: "(json \<Rightarrow> string) \<Rightarrow> json \<Rightarrow> string + policyGroupMemberConfig" where
  "go_member print =
     de_object (\<lambda>ms.
       try_then (go_field ''module'' [] de_string ms) (\<lambda>module.
       try_then (go_field ''settings'' None (\<lambda>v. Ok (Some (print v))) ms) (\<lambda>settings.
       try_then (go_field ''contextAwareResources'' [] (de_seq go_resource) ms) (\<lambda>resources.
       try_then (go_field ''timeoutEvalSeconds'' None (\<lambda>v. map_ok Some (go_int32 v)) ms) (\<lambda>timeout.
       try_then (go_field ''hostCapabilities'' [] (de_seq de_string) ms) (\<lambda>hostCaps.
         Ok \<lparr>m_module = module, m_settings = settings, m_contextAwareResources = resources,
             m_timeoutEvalSeconds = timeout, m_hostCapabilities = hostCaps\<rparr>))))))"

definition go_map :: "(json \<Rightarrow> string + 'a) \<Rightarrow> json \<Rightarrow> string + (string \<times> 'a) list" where
  "go_map f = de_object (collect_map (\<lambda>(k, v). try_then (f v) (\<lambda>x. Ok (k, x))))"

definition go_config_entry :: "(json \<Rightarrow> string) \<Rightarrow> json \<Rightarrow> string + policyServerConfigEntry" where
  "go_config_entry print =
     de_object (\<lambda>ms.
       try_then (go_field ''namespacedName'' ([], []) (de_object (\<lambda>nn.
           try_then (go_field ''Namespace'' [] de_string nn) (\<lambda>ns.
           try_then (go_field ''Name'' [] de_string nn) (\<lambda>n. Ok (ns, n))))) ms) (\<lambda>(namespace, name).
       try_then (go_field ''module'' [] de_string ms) (\<lambda>module.
       try_then (go_field ''policyMode'' [] de_string ms) (\<lambda>mode.
       try_then (go_field ''allowedToMutate'' False de_bool ms) (\<lambda>allowedToMutate.
       try_then (go_field ''contextAwareResources'' [] (de_seq go_resource) ms) (\<lambda>resources.
       try_then (go_field ''settings'' None (\<lambda>v. Ok (Some (print v))) ms) (\<lambda>settings.
       try_then (go_field ''message'' [] de_string ms) (\<lambda>message.
       try_then (go_field ''timeoutEvalSeconds'' None (\<lambda>v. map_ok Some (go_int32 v)) ms) (\<lambda>timeout.
       try_then (go_field ''hostCapabilities'' [] (de_seq de_string) ms) (\<lambda>hostCaps.
       try_then (go_field ''policies'' [] (go_map (go_member print)) ms) (\<lambda>policies.
       try_then (go_field ''expression'' [] de_string ms) (\<lambda>expression.
         Ok \<lparr>e_namespace = namespace, e_name = name, e_module = module, e_policyMode = mode,
             e_allowedToMutate = allowedToMutate, e_contextAwareResources = resources, e_settings = settings,
             e_message = message, e_timeoutEvalSeconds = timeout, e_hostCapabilities = hostCaps,
             e_policies = policies, e_expression = expression\<rparr>))))))))))))"

definition policyServerConfigEntry_UnmarshalJSON ::
  "(json \<Rightarrow> string) \<Rightarrow> json \<Rightarrow> string + policyServerConfigEntry" where
  "policyServerConfigEntry_UnmarshalJSON print b =
     try_then (map_err (\<lambda>err. ''failed to unmarshal policy server config entry'' @ [CHR 10] @ err)
                 (go_config_entry print b)) (\<lambda>p.
       if e_policies p = [] \<and> e_module p = [] then
         Err ''policies JSON should have an URL or a list of policies to be evaluated''
       else if e_policies p \<noteq> [] \<and> e_module p \<noteq> [] then
         Err ''policies JSON should not have an URL and a list of policies to be evaluated at the same time''
       else Ok p)"

definition getPolicyMapFromConfigMap :: "configmap_library \<Rightarrow> ConfigMap \<Rightarrow> string + policyConfigEntryMap" where
  "getPolicyMapFromConfigMap lib configMap =
     (case map_of (cm_data configMap) PolicyServerConfigPoliciesEntry of
        None \<Rightarrow> Ok []
      | Some policies \<Rightarrow>
          map_err (\<lambda>err. ''failed to unmarshal policy mapping'' @ [CHR 10] @ err)
            (try_then (ok_or ''invalid JSON'' (cml_parse lib policies))
              (go_map (policyServerConfigEntry_UnmarshalJSON (cml_print lib)))))"

definition isPolicyInConfigMap :: "configmap_library \<Rightarrow> ConfigMap \<Rightarrow> string \<Rightarrow> bool" where
  "isPolicyInConfigMap lib configMap policyName =
     (case getPolicyMapFromConfigMap lib configMap of
        Inl _ \<Rightarrow> False
      | Inr policies \<Rightarrow> map_of policies policyName \<noteq> None)"

section \<open>Reconcile requests\<close>

text \<open>A request names the object to reconcile by namespace and name.\<close>

type_synonym reconcile_request = "string \<times> string"

definition toAdmissionPolicyReconcileRequests :: "policyConfigEntryMap \<Rightarrow> reconcile_request list" where
  "toAdmissionPolicyReconcileRequests e =
     map (\<lambda>(_, policy). (e_namespace policy, e_name policy)) (filter (\<lambda>(_, policy). e_namespace policy \<noteq> []) e)"

definition toClusterAdmissionPolicyReconcileRequests :: "policyConfigEntryMap \<Rightarrow> reconcile_request list" where
  "toClusterAdmissionPolicyReconcileRequests e =
     map (\<lambda>(_, policy). ([], e_name policy)) (filter (\<lambda>(_, policy). e_namespace policy = []) e)"

section \<open>What the policy server reads\<close>

text \<open>The policy as the policy server should see it.\<close>

definition server_settings :: "(string \<Rightarrow> json option) \<Rightarrow> string option \<Rightarrow> PolicySettings option" where
  "server_settings parse raw =
     (case raw of None \<Rightarrow> None | Some t \<Rightarrow> (case parse t of Some (JObject ms) \<Rightarrow> Some ms | _ \<Rightarrow> None))"

definition server_timeout :: "32 word option \<Rightarrow> 64 word option" where
  "server_timeout t = map_option (\<lambda>x. word_of_int (sint x)) t"

definition server_resources :: "ContextAwareResource_v1 list \<Rightarrow> ContextAwareResource set" where
  "server_resources rs = set (map (\<lambda>r. ContextAwareResource (carv_apiVersion r) (carv_kind r)) rs)"

definition server_mode :: "string \<Rightarrow> PolicyMode" where
  "server_mode s = (if s = ''monitor'' then Monitor else Protect)"

definition served_member ::
  "(string \<Rightarrow> json option) \<Rightarrow> string list \<Rightarrow> PolicyGroupMemberWithContext \<Rightarrow> PolicyGroupMember" where
  "served_member parse hostCaps m =
     \<lparr>gmc_module = gmv_module m, gmc_settings = server_settings parse (gmv_settings m),
      gmc_context_aware_resources = server_resources (gmv_contextAwareResources m),
      gmc_timeout_eval_seconds = server_timeout (gmv_timeoutEvalSeconds m),
      gmc_host_capabilities = hostCaps\<rparr>"

definition served_policy ::
  "(string \<Rightarrow> json option) \<Rightarrow> PolicyServer \<Rightarrow> Policy \<Rightarrow> PolicyOrPolicyGroup" where
  "served_policy parse server p =
     (let hostCaps = hostCapabilitiesForPolicy p server in
      case AsPolicyGroup p of
        None \<Rightarrow> Individual
          \<lparr>pc_module = GetModule p, pc_policy_mode = server_mode (GetPolicyMode p),
           pc_allowed_to_mutate = Some (IsMutating p),
           pc_settings = server_settings parse (GetSettings p),
           pc_context_aware_resources = server_resources (GetContextAwareResources p),
           pc_message = (if GetMessage p = [] then None else Some (GetMessage p)),
           pc_timeout_eval_seconds = server_timeout (GetTimeoutEvalSeconds p),
           pc_host_capabilities = hostCaps\<rparr>
      | Some g \<Rightarrow> Grouped
          \<lparr>gc_policy_mode = server_mode (GetPolicyMode p),
           gc_policies = map (\<lambda>(name, m). (name, served_member parse hostCaps m))
             (sort_key fst (GetPolicyGroupMembersWithContext g)),
           gc_expression = GetExpression g, gc_message = GetMessage p\<rparr>)"

text \<open>
  What the schema of the resources guarantees: one of the two modes, settings that are an
  object or null, timeouts that are not negative; and groups with members.
\<close>

definition schema_settings :: "(string \<Rightarrow> json option) \<Rightarrow> string option \<Rightarrow> bool" where
  "schema_settings parse raw \<longleftrightarrow>
     (case raw of None \<Rightarrow> True
      | Some t \<Rightarrow> (case parse t of Some JNull \<Rightarrow> True | Some (JObject ms) \<Rightarrow> True | _ \<Rightarrow> False))"

definition schema_timeout :: "32 word option \<Rightarrow> bool" where
  "schema_timeout t \<longleftrightarrow> (case t of None \<Rightarrow> True | Some x \<Rightarrow> 0 \<le> sint x)"

definition schema_valid :: "(string \<Rightarrow> json option) \<Rightarrow> Policy \<Rightarrow> bool" where
  "schema_valid parse p \<longleftrightarrow>
     GetPolicyMode p \<in> {''protect'', ''monitor''} \<and> schema_settings parse (GetSettings p) \<and>
     schema_timeout (GetTimeoutEvalSeconds p) \<and>
     (case AsPolicyGroup p of None \<Rightarrow> True
      | Some g \<Rightarrow> GetPolicyGroupMembersWithContext g \<noteq> [] \<and>
          (\<forall>(n, m)\<in>set (GetPolicyGroupMembersWithContext g).
             schema_settings parse (gmv_settings m) \<and> schema_timeout (gmv_timeoutEvalSeconds m)))"

lemma json_RawExtension_decodes:
  assumes "schema_settings parse raw"
  obtains j where "json_RawExtension parse raw = Ok j"
    and "\<And>ms. map_of ms ''settings'' = Some j \<Longrightarrow>
           optional_field ''settings'' (de_object Ok) ms = Ok (server_settings parse raw)"
proof (cases raw)
  case None
  then show ?thesis by (intro that [of JNull]) (simp_all add: json_RawExtension_def optional_field_def server_settings_def)
next
  case (Some t)
  with assms obtain j where j: "parse t = Some j" "j = JNull \<or> (\<exists>ms. j = JObject ms)"
    by (auto simp: schema_settings_def split: option.splits json.splits)
  then show ?thesis
    by (intro that [of j]) (auto simp: Some json_RawExtension_def optional_field_def server_settings_def)
qed

lemma de_u64_json: "0 \<le> sint t \<Longrightarrow> de_u64 (json_text_of_int32 t) = Ok (word_of_int (sint t))"
proof -
  assume t: "0 \<le> sint t"
  have "sint t < 2 ^ 31" using sint_lt [of t] by simp
  then have "nat (sint t) < 2 ^ 64" by simp
  from parse_show_u64 [OF this] t show ?thesis
    by (simp add: json_text_of_int32_def show_int_def word_of_int_nat)
qed

lemma optional_u64:
  "map_of ms k = None \<Longrightarrow> optional_field k de_u64 ms = Ok None"
  "map_of ms k = Some (json_text_of_int32 t) \<Longrightarrow> 0 \<le> sint t \<Longrightarrow>
     optional_field k de_u64 ms = Ok (Some (word_of_int (sint t)))"
  using de_u64_json [of t]
  by (simp_all add: optional_field_def json_text_of_int32_def del: de_u64.simps)

lemma de_json_resources: "de_resources (json_resources rs) = Ok (server_resources rs)"
proof -
  have "collect_map de_ContextAwareResource
      (map (\<lambda>r. JObject [(''apiVersion'', JString (carv_apiVersion r)), (''kind'', JString (carv_kind r))]) rs) =
    Ok (map (\<lambda>r. ContextAwareResource (carv_apiVersion r) (carv_kind r)) rs)"
    by (induction rs) (simp_all add: de_ContextAwareResource_def required_field_def)
  then show ?thesis by (simp add: de_resources_def json_resources_def server_resources_def)
qed

lemma de_strings [simp]: "de_seq de_string (JArray (map JString xs)) = Ok xs"
  by (simp, induction xs) simp_all

lemma json_of_map_decode:
  assumes "\<And>k x. (k, x) \<in> set es \<Longrightarrow> \<exists>j. f x = Ok j \<and> d j = Ok (h x)"
  shows "\<exists>js. json_of_map f es = Ok (JObject js) \<and>
    collect_map (\<lambda>(k, v). try_then (d v) (\<lambda>p. Ok (k, p))) js = Ok (map (\<lambda>(k, x). (k, h x)) (sort_key fst es))"
proof -
  have "\<exists>js. collect_map (\<lambda>(k, x). try_then (f x) (\<lambda>v. Ok (k, v))) xs = Ok js \<and>
      collect_map (\<lambda>(k, v). try_then (d v) (\<lambda>p. Ok (k, p))) js = Ok (map (\<lambda>(k, x). (k, h x)) xs)"
    if "set xs \<subseteq> set es" for xs
    using that
  proof (induction xs)
    case (Cons kx xs)
    obtain k x where kx: "kx = (k, x)" by (cases kx)
    have "(k, x) \<in> set es" using Cons.prems kx by simp
    from assms [OF this] obtain j where j: "f x = Ok j" "d j = Ok (h x)" by blast
    from Cons obtain js where js: "collect_map (\<lambda>(k, x). try_then (f x) (\<lambda>v. Ok (k, v))) xs = Ok js"
      "collect_map (\<lambda>(k, v). try_then (d v) (\<lambda>p. Ok (k, p))) js = Ok (map (\<lambda>(k, x). (k, h x)) xs)" by auto
    have "collect_map (\<lambda>(k, x). try_then (f x) (\<lambda>v. Ok (k, v))) (kx # xs) = Ok ((k, j) # js)"
      by (simp add: kx j js)
    moreover have "collect_map (\<lambda>(k, v). try_then (d v) (\<lambda>p. Ok (k, p))) ((k, j) # js) =
        Ok (map (\<lambda>(k, x). (k, h x)) (kx # xs))"
      by (simp add: kx j js)
    ultimately show ?case by blast
  qed simp
  from this [of "sort_key fst es"] show ?thesis by (auto simp: json_of_map_def)
qed

lemma json_of_member_decodes:
  assumes "schema_settings parse (gmv_settings m)" "schema_timeout (gmv_timeoutEvalSeconds m)"
  shows "\<exists>j. json_of_member parse
      \<lparr>m_module = gmv_module m, m_settings = gmv_settings m, m_contextAwareResources = gmv_contextAwareResources m,
       m_timeoutEvalSeconds = gmv_timeoutEvalSeconds m, m_hostCapabilities = hostCaps\<rparr> = Ok j \<and>
    de_PolicyGroupMember j = Ok (served_member parse hostCaps m)"
proof -
  obtain j where j: "json_RawExtension parse (gmv_settings m) = Ok j"
    and set: "\<And>ms. map_of ms ''settings'' = Some j \<Longrightarrow>
      optional_field ''settings'' (de_object Ok) ms = Ok (server_settings parse (gmv_settings m))"
    using json_RawExtension_decodes [OF assms(1)] by blast
  define ms where "ms = [(''module'', JString (gmv_module m)), (''settings'', j)] @
      omit_if (gmv_contextAwareResources m = []) ''contextAwareResources'' (json_resources (gmv_contextAwareResources m)) @
      omit_none ''timeoutEvalSeconds'' json_text_of_int32 (gmv_timeoutEvalSeconds m) @
      [(''hostCapabilities'', JArray (map JString hostCaps))]"
  have known: "find (\<lambda>k. k \<notin> set member_fields) (map fst ms) = None"
    by (auto simp: ms_def member_fields_def omit_if_def omit_none_def find_None_iff split: option.splits)
  have "required_field ''module'' de_string ms = Ok (gmv_module m)" by (simp add: ms_def required_field_def)
  moreover have "optional_field ''settings'' (de_object Ok) ms = Ok (server_settings parse (gmv_settings m))"
    by (rule set) (simp add: ms_def)
  moreover have "default_field ''contextAwareResources'' {} de_resources ms = Ok (server_resources (gmv_contextAwareResources m))"
    by (simp add: ms_def omit_if_def omit_none_def default_field_def de_json_resources server_resources_def
        split: option.splits)
  moreover have "optional_field ''timeoutEvalSeconds'' de_u64 ms = Ok (server_timeout (gmv_timeoutEvalSeconds m))"
    using assms(2)
    by (cases "gmv_timeoutEvalSeconds m")
      (simp_all add: ms_def omit_if_def omit_none_def optional_u64 server_timeout_def schema_timeout_def)
  moreover have "default_field ''hostCapabilities'' [] (de_seq de_string) ms = Ok hostCaps"
    by (auto simp: ms_def omit_if_def omit_none_def default_field_def split: option.splits simp del: de_seq.simps)
  ultimately have "de_PolicyGroupMember (JObject ms) = Ok (served_member parse hostCaps m)"
    by (simp add: de_PolicyGroupMember_def known served_member_def)
  moreover have "json_of_member parse
      \<lparr>m_module = gmv_module m, m_settings = gmv_settings m, m_contextAwareResources = gmv_contextAwareResources m,
       m_timeoutEvalSeconds = gmv_timeoutEvalSeconds m, m_hostCapabilities = hostCaps\<rparr> = Ok (JObject ms)"
    by (simp add: json_of_member_def j ms_def)
  ultimately show ?thesis by blast
qed

lemma de_mode:
  "mode \<in> {''protect'', ''monitor''} \<Longrightarrow> map_of ms ''policyMode'' = Some (JString mode) \<Longrightarrow>
     default_field ''policyMode'' PolicyMode_default de_PolicyMode ms = Ok (server_mode mode)"
  by (auto simp: default_field_def de_PolicyMode_def server_mode_def)

lemma individual_entry_decodes:
  assumes "AsPolicyGroup p = None" "schema_valid parse p"
  shows "\<exists>j. policyServerConfigEntry_MarshalJSON parse (policy_config_entry server p) = Ok j \<and>
    de_PolicyOrPolicyGroup j = Ok (served_policy parse server p)"
proof -
  let ?caps = "hostCapabilitiesForPolicy p server"
  obtain j where j: "json_RawExtension parse (GetSettings p) = Ok j"
    and set: "\<And>ms. map_of ms ''settings'' = Some j \<Longrightarrow>
      optional_field ''settings'' (de_object Ok) ms = Ok (server_settings parse (GetSettings p))"
    using json_RawExtension_decodes [of parse "GetSettings p"] assms(2) by (auto simp: schema_valid_def)
  define ms where "ms =
      [(''namespacedName'', json_NamespacedName (policy_config_entry server p)), (''module'', JString (GetModule p)),
       (''policyMode'', JString (GetPolicyMode p)), (''allowedToMutate'', JBool (IsMutating p))] @
      omit_if (GetContextAwareResources p = []) ''contextAwareResources'' (json_resources (GetContextAwareResources p)) @
      [(''settings'', j)] @
      omit_if (GetMessage p = []) ''message'' (JString (GetMessage p)) @
      omit_none ''timeoutEvalSeconds'' json_text_of_int32 (GetTimeoutEvalSeconds p) @
      [(''hostCapabilities'', JArray (map JString ?caps))]"
  note omit = ms_def omit_if_def omit_none_def
  have "required_field ''module'' de_string ms = Ok (GetModule p)" by (simp add: ms_def required_field_def)
  moreover have "default_field ''policyMode'' PolicyMode_default de_PolicyMode ms = Ok (server_mode (GetPolicyMode p))"
    using assms(2) by (intro de_mode) (simp_all add: ms_def schema_valid_def)
  moreover have "optional_field ''allowedToMutate'' de_bool ms = Ok (Some (IsMutating p))"
    by (simp add: ms_def optional_field_def)
  moreover have "optional_field ''settings'' (de_object Ok) ms = Ok (server_settings parse (GetSettings p))"
    by (rule set) (simp add: omit)
  moreover have "default_field ''contextAwareResources'' {} de_resources ms = Ok (server_resources (GetContextAwareResources p))"
    by (simp add: omit default_field_def de_json_resources server_resources_def split: option.splits)
  moreover have "optional_field ''message'' de_string ms = Ok (if GetMessage p = [] then None else Some (GetMessage p))"
    by (simp add: omit optional_field_def split: option.splits)
  moreover have "optional_field ''timeoutEvalSeconds'' de_u64 ms = Ok (server_timeout (GetTimeoutEvalSeconds p))"
    using assms(2)
    by (cases "GetTimeoutEvalSeconds p")
      (simp_all add: omit optional_u64 server_timeout_def schema_valid_def schema_timeout_def)
  moreover have "default_field ''hostCapabilities'' [] (de_seq de_string) ms = Ok ?caps"
    by (auto simp: omit default_field_def split: option.splits simp del: de_seq.simps)
  ultimately have "de_PolicyOrPolicyGroup (JObject ms) = Ok (served_policy parse server p)"
    by (simp add: de_PolicyOrPolicyGroup_def de_Policy_def served_policy_def assms(1) Let_def)
  moreover have "policyServerConfigEntry_MarshalJSON parse (policy_config_entry server p) = Ok (JObject ms)"
    by (simp add: policyServerConfigEntry_MarshalJSON_def policy_config_entry_def assms(1) Let_def j ms_def)
  ultimately show ?thesis by blast
qed

lemma collect_map_map: "collect_map f (map g xs) = collect_map (\<lambda>x. f (g x)) xs"
  by (induction xs) simp_all

lemma sort_key_fst_map:
  "sort_key fst (map (\<lambda>(k, x). (k, f x)) es) = map (\<lambda>(k, x). (k, f x)) (sort_key fst es)"
proof -
  have "insort_key fst (k, f x) (map (\<lambda>(k, x). (k, f x)) es) = map (\<lambda>(k, x). (k, f x)) (insort_key fst (k, x) es)"
    for k :: "'a :: linorder" and x es
    by (induction es) auto
  then show ?thesis unfolding sort_key_def by (induction es) (auto simp: comp_def)
qed

lemma group_entry_decodes:
  assumes "AsPolicyGroup p = Some g" "schema_valid parse p"
  shows "\<exists>j. policyServerConfigEntry_MarshalJSON parse (policy_config_entry server p) = Ok j \<and>
    de_PolicyOrPolicyGroup j = Ok (served_policy parse server p)"
proof -
  let ?caps = "hostCapabilitiesForPolicy p server" and ?members = "GetPolicyGroupMembersWithContext g"
  let ?cfg = "\<lambda>m. \<lparr>m_module = gmv_module m, m_settings = gmv_settings m,
      m_contextAwareResources = gmv_contextAwareResources m,
      m_timeoutEvalSeconds = gmv_timeoutEvalSeconds m, m_hostCapabilities = ?caps\<rparr>"
  have schema: "?members \<noteq> []" "GetPolicyMode p \<in> {''protect'', ''monitor''}"
    "\<And>n m. (n, m) \<in> set ?members \<Longrightarrow> schema_settings parse (gmv_settings m) \<and> schema_timeout (gmv_timeoutEvalSeconds m)"
    using assms by (auto simp: schema_valid_def)
  obtain js where js: "json_of_map (\<lambda>m. json_of_member parse (?cfg m)) ?members = Ok (JObject js)"
    and dec: "collect_map (\<lambda>(k, v). try_then (de_PolicyGroupMember v) (\<lambda>m. Ok (k, m))) js =
      Ok (map (\<lambda>(k, m). (k, served_member parse ?caps m)) (sort_key fst ?members))"
    using json_of_map_decode [of ?members "\<lambda>m. json_of_member parse (?cfg m)" de_PolicyGroupMember
        "served_member parse ?caps"] json_of_member_decodes schema(3) by blast
  have map: "json_of_map (json_of_member parse) (buildPolicyGroupMembersWithContext ?members ?caps) = Ok (JObject js)"
    using js unfolding json_of_map_def buildPolicyGroupMembersWithContext_def sort_key_fst_map
    by (simp add: collect_map_map case_prod_unfold)
  define ms where "ms =
      [(''namespacedName'', json_NamespacedName (policy_config_entry server p)),
       (''policyMode'', JString (GetPolicyMode p)), (''policies'', JObject js),
       (''expression'', JString (GetExpression g)), (''message'', JString (GetMessage p))]"
  have "de_Policy (JObject ms) = Err ''missing field `module`''"
    by (simp add: de_Policy_def required_field_def ms_def)
  moreover have "default_field ''policyMode'' PolicyMode_default de_PolicyMode ms = Ok (server_mode (GetPolicyMode p))"
    using schema(2) by (intro de_mode) (simp_all add: ms_def)
  ultimately have "de_PolicyOrPolicyGroup (JObject ms) = Ok (served_policy parse server p)"
    by (simp add: de_PolicyOrPolicyGroup_def de_PolicyGroup_def served_policy_def assms(1) Let_def required_field_def
        ms_def dec)
  moreover have "policyServerConfigEntry_MarshalJSON parse (policy_config_entry server p) = Ok (JObject ms)"
    using schema(1)
    by (simp add: policyServerConfigEntry_MarshalJSON_def policy_config_entry_def assms(1) Let_def map ms_def)
      (simp add: buildPolicyGroupMembersWithContext_def)
  ultimately show ?thesis by blast
qed

section \<open>The whole map\<close>

text \<open>The policies of a server: accepted objects with distinct identities.\<close>

definition deployable :: "validation_library \<Rightarrow> (string \<Rightarrow> json option) \<Rightarrow> Policy list \<Rightarrow> bool" where
  "deployable vlib parse ps \<longleftrightarrow>
     (\<forall>p\<in>set ps. is_policy p \<and> well_named p \<and> schema_valid parse p \<and> wf_group vlib p) \<and>
     distinct (map (\<lambda>p. (DynamicType p, GetNamespace p, GetName p)) ps)"

lemma deployable_distinct_names:
  assumes "deployable vlib parse ps"
  shows "distinct (map GetUniqueName ps)"
proof -
  have "inj_on GetUniqueName (set ps)"
  proof (rule inj_onI)
    fix p q assume pq: "p \<in> set ps" "q \<in> set ps" "GetUniqueName p = GetUniqueName q"
    then have "(DynamicType p, GetNamespace p, GetName p) = (DynamicType q, GetNamespace q, GetName q)"
      using assms unique_name_determines [of p q] by (auto simp: deployable_def)
    moreover have "inj_on (\<lambda>p. (DynamicType p, GetNamespace p, GetName p)) (set ps)"
      using assms by (simp add: deployable_def distinct_map)
    ultimately show "p = q" using pq by (meson inj_onD)
  qed
  moreover have "distinct ps" using assms by (auto simp: deployable_def distinct_map)
  ultimately show ?thesis by (simp add: distinct_map)
qed

lemma buildPoliciesMap_snoc:
  "buildPoliciesMap (ps @ [p]) server =
     map_put (buildPoliciesMap ps server) (GetUniqueName p) (policy_config_entry server p)"
  by (simp add: buildPoliciesMap_def)

lemma buildPoliciesMap_map_of:
  "distinct (map GetUniqueName ps) \<Longrightarrow>
     map_of (buildPoliciesMap ps server) k =
       map_option (policy_config_entry server) (find (\<lambda>p. GetUniqueName p = k) ps)"
proof (induction ps rule: rev_induct)
  case Nil
  then show ?case by (simp add: buildPoliciesMap_def)
next
  case (snoc p ps)
  have "find P (xs @ [x]) = (case find P xs of None \<Rightarrow> (if P x then Some x else None) | Some y \<Rightarrow> Some y)"
    for P and xs :: "Policy list" and x by (induction xs) auto
  moreover have "find (\<lambda>q. GetUniqueName q = GetUniqueName p) ps = None"
    using snoc.prems by (auto simp: find_None_iff image_iff)
  ultimately show ?case using snoc by (auto simp: buildPoliciesMap_snoc split: option.splits)
qed

lemma buildPoliciesMap_distinct: "distinct (map fst (buildPoliciesMap ps server))"
  by (induction ps rule: rev_induct) (simp_all add: buildPoliciesMap_snoc buildPoliciesMap_def [of "[]"])

lemma find_unique_name:
  "distinct (map GetUniqueName ps) \<Longrightarrow> p \<in> set ps \<Longrightarrow> find (\<lambda>q. GetUniqueName q = GetUniqueName p) ps = Some p"
  by (induction ps) auto

lemma legacy_name_shape: "prefix ''namespaced-'' (legacyPolicyUniqueName p) \<or> prefix ''clusterwide-'' (legacyPolicyUniqueName p)"
  by (cases "DynamicType p") (simp_all add: legacyPolicyUniqueName_def)

lemma legacy_not_unique:
  assumes "is_policy p"
  shows "GetUniqueName p \<noteq> legacyPolicyUniqueName q"
  using unique_name_prefix [OF assms] legacy_name_shape [of q] by (auto simp: prefix_def)

lemma legacy_name_slash_free: "well_named p \<Longrightarrow> CHR ''/'' \<notin> set (legacyPolicyUniqueName p)"
  by (cases "DynamicType p") (simp_all add: legacyPolicyUniqueName_def well_named_def)

lemma legacy_steps:
  assumes "\<forall>p\<in>set ps. is_policy p" "\<forall>p\<in>set ps. map_of policies (GetUniqueName p) = Some (entry p)"
    and "distinct names" "set names \<subseteq> legacyPolicyUniqueName ` set ps"
  shows "map_of (foldl legacy_step policies
      (map (\<lambda>n. (n, filter (\<lambda>p. legacyPolicyUniqueName p = n) ps)) names)) k =
    (if k \<in> set names then
       (case filter (\<lambda>p. legacyPolicyUniqueName p = k) ps of [p] \<Rightarrow> Some (entry p) | _ \<Rightarrow> map_of policies k)
     else map_of policies k)"
  using assms(2-4)
proof (induction names arbitrary: policies)
  case (Cons n names)
  let ?own = "\<lambda>n. filter (\<lambda>p. legacyPolicyUniqueName p = n) ps"
  define pol where "pol = legacy_step policies (n, ?own n)"
  from Cons.prems(3) have "?own n \<noteq> []" by (auto simp: filter_empty_conv)
  then obtain p rest where own: "?own n = p # rest" by (cases "?own n") auto
  have "p \<in> set (?own n)" by (simp add: own)
  then have p: "p \<in> set ps" "legacyPolicyUniqueName p = n" by auto
  have step: "map_of pol = (if rest = [] then (map_of policies)(n \<mapsto> entry p) else map_of policies)"
    using Cons.prems(1) p(1) by (simp add: pol_def legacy_step_def own)
  have "map_of pol (GetUniqueName q) = Some (entry q)" if "q \<in> set ps" for q
    using Cons.prems(1) that assms(1) legacy_not_unique [of q p] p(2) by (auto simp: step)
  then have "\<forall>q\<in>set ps. map_of pol (GetUniqueName q) = Some (entry q)" by blast
  from Cons.IH [OF this] Cons.prems(2,3) have IH:
    "map_of (foldl legacy_step pol (map (\<lambda>n. (n, ?own n)) names)) k =
      (if k \<in> set names then (case ?own k of [p] \<Rightarrow> Some (entry p) | _ \<Rightarrow> map_of pol k) else map_of pol k)"
    by simp
  show ?case
  proof (cases "k = n")
    case True
    with Cons.prems(2) have "k \<notin> set names" by simp
    with IH True show ?thesis unfolding list.map foldl.simps pol_def [symmetric]
      by (cases rest) (simp_all add: own step)
  next
    case False
    then have "map_of pol k = map_of policies k" by (simp add: step)
    with IH False show ?thesis unfolding list.map foldl.simps pol_def [symmetric]
      by (simp split: list.splits)
  qed
qed simp

lemma legacy_step_distinct:
  "distinct (map fst policies) \<Longrightarrow> distinct (map fst (foldl legacy_step policies nos))"
  by (induction nos arbitrary: policies) (auto simp: legacy_step_def split: option.splits)

lemma legacyNameOwners_names:
  "legacyNameOwners ps = map (\<lambda>n. (n, filter (\<lambda>p. legacyPolicyUniqueName p = n) ps))
     (remdups (map legacyPolicyUniqueName ps))"
proof -
  have "legacyPolicyUniqueName p \<noteq> []" for p using legacy_name_shape [of p] by auto
  then have "filter (\<lambda>n. n \<noteq> []) (remdups (map legacyPolicyUniqueName ps)) = remdups (map legacyPolicyUniqueName ps)"
    by (intro filter_True) auto
  then show ?thesis by (simp add: legacyNameOwners_def)
qed

lemma addLegacyPolicyEntries_map_of:
  assumes "deployable vlib parse ps"
  shows "map_of (addLegacyPolicyEntries (buildPoliciesMap ps server) ps) k =
    (case filter (\<lambda>p. legacyPolicyUniqueName p = k) ps of
       [p] \<Rightarrow> Some (policy_config_entry server p)
     | _ \<Rightarrow> map_option (policy_config_entry server) (find (\<lambda>p. GetUniqueName p = k) ps))"
proof -
  note dist = deployable_distinct_names [OF assms]
  have pol: "\<forall>p\<in>set ps. is_policy p" using assms by (simp add: deployable_def)
  have base: "\<forall>p\<in>set ps. map_of (buildPoliciesMap ps server) (GetUniqueName p) = Some (policy_config_entry server p)"
    by (simp add: buildPoliciesMap_map_of [OF dist] find_unique_name [OF dist])
  note steps = legacy_steps [OF pol base, of "remdups (map legacyPolicyUniqueName ps)" k]
  show ?thesis
  proof (cases "k \<in> legacyPolicyUniqueName ` set ps")
    case True
    with steps show ?thesis
      unfolding addLegacyPolicyEntries_def legacyNameOwners_names
      by (simp add: buildPoliciesMap_map_of [OF dist] split: list.splits)
  next
    case False
    then have "filter (\<lambda>p. legacyPolicyUniqueName p = k) ps = []" by (auto simp: filter_empty_conv)
    with steps False show ?thesis
      unfolding addLegacyPolicyEntries_def legacyNameOwners_names
      by (simp add: buildPoliciesMap_map_of [OF dist])
  qed
qed

lemma map_of_sort_key: "distinct (map fst es) \<Longrightarrow> map_of (sort_key fst es) = map_of es"
proof -
  assume d: "distinct (map fst es)"
  then have "distinct (map fst (sort_key fst es))" by (simp add: distinct_map)
  with d show ?thesis by (simp add: map_of_inject_set)
qed

text \<open>Every policy is found under its unique name, and every entry is one of the policies.\<close>

lemma entries_complete:
  assumes "deployable vlib parse ps" "p \<in> set ps"
  shows "map_of (addLegacyPolicyEntries (buildPoliciesMap ps server) ps) (GetUniqueName p) =
    Some (policy_config_entry server p)"
proof -
  have "is_policy p" using assms by (simp add: deployable_def)
  then have "filter (\<lambda>q. legacyPolicyUniqueName q = GetUniqueName p) ps = []"
    using legacy_not_unique [of p] by (metis (mono_tags, lifting) filter_False)
  then show ?thesis
    by (simp add: addLegacyPolicyEntries_map_of [OF assms(1)]
        find_unique_name [OF deployable_distinct_names [OF assms(1)] assms(2)])
qed

definition serves_name :: "Policy list \<Rightarrow> string \<Rightarrow> Policy \<Rightarrow> bool" where
  "serves_name ps name p \<longleftrightarrow>
     p \<in> set ps \<and>
     (name = GetUniqueName p \<or>
      name = legacyPolicyUniqueName p \<and> (\<forall>q\<in>set ps. legacyPolicyUniqueName q = name \<longrightarrow> q = p))"

lemma entries_sound:
  assumes "deployable vlib parse ps"
    and "map_of (addLegacyPolicyEntries (buildPoliciesMap ps server) ps) k = Some entry"
  shows "\<exists>p. serves_name ps k p \<and> entry = policy_config_entry server p"
proof (cases "\<exists>p. filter (\<lambda>q. legacyPolicyUniqueName q = k) ps = [p]")
  case True
  then obtain p where p: "filter (\<lambda>q. legacyPolicyUniqueName q = k) ps = [p]" by blast
  then have set: "set (filter (\<lambda>q. legacyPolicyUniqueName q = k) ps) = {p}" by simp
  have "entry = policy_config_entry server p"
    using assms(2) by (simp add: addLegacyPolicyEntries_map_of [OF assms(1)] p)
  moreover have "serves_name ps k p" using set by (auto simp: serves_name_def)
  ultimately show ?thesis by blast
next
  case False
  then have "map_option (policy_config_entry server) (find (\<lambda>p. GetUniqueName p = k) ps) = Some entry"
    using assms(2) by (auto simp: addLegacyPolicyEntries_map_of [OF assms(1)] split: list.splits)
  then show ?thesis by (auto simp: serves_name_def dest!: find_SomeD)
qed

lemma entry_decodes:
  assumes "schema_valid parse p"
  shows "\<exists>j. policyServerConfigEntry_MarshalJSON parse (policy_config_entry server p) = Ok j \<and>
    de_PolicyOrPolicyGroup j = Ok (served_policy parse server p)"
proof (cases "AsPolicyGroup p")
  case None
  from individual_entry_decodes [OF this assms] show ?thesis .
next
  case (Some g)
  from group_entry_decodes [OF this assms] show ?thesis .
qed

lemma slash_no_identifier: "\<not> identifier_char (CHR ''/'')" "\<not> identifier_start (CHR ''/'')"
  by (simp_all add: identifier_char_def identifier_start_def less_eq_char_def)

lemma identifier_slash_free: "idenRegex name \<Longrightarrow> CHR ''/'' \<notin> set name"
  using slash_no_identifier by (cases name) (auto simp: list_all_iff)

lemma served_members_slash_free:
  assumes "wf_group vlib p" "served_policy parse server p = Grouped g" "name \<in> fst ` set (gc_policies g)"
  shows "CHR ''/'' \<notin> set name"
proof -
  from assms(2) obtain pg where pg: "AsPolicyGroup p = Some pg"
    and g: "gc_policies g = map (\<lambda>(name, m). (name, served_member parse (hostCapabilitiesForPolicy p server) m))
      (sort_key fst (GetPolicyGroupMembersWithContext pg))"
    by (auto simp: served_policy_def Let_def split: option.splits)
  have "name \<in> fst ` set (GetPolicyGroupMembersWithContext pg)"
    using assms(3) by (force simp: g)
  moreover have "wf_members (GetPolicyGroupMembersWithContext pg)" using assms(1) pg by (simp add: wf_group_def)
  ultimately have "idenRegex name" unfolding wf_members_def by blast
  then show ?thesis by (rule identifier_slash_free)
qed

lemma serves_name_slash_free:
  "deployable vlib parse ps \<Longrightarrow> serves_name ps name p \<Longrightarrow> CHR ''/'' \<notin> set name"
  using unique_name_slash_free [of p] legacy_name_slash_free [of p]
  by (auto simp: serves_name_def deployable_def)

text \<open>From the policies to the configuration that the policy server reads.\<close>

lemma policies_json_reads:
  assumes dep: "deployable vlib (cml_parse lib) ps"
  shows "\<exists>j config. policies_json lib server ps = Ok (JObject j) \<and>
    collect_map (\<lambda>(name, v). try_then (de_PolicyOrPolicyGroup v) (\<lambda>p. Ok (name, p))) j = Ok config \<and>
    distinct (map fst config) \<and>
    (\<forall>name c. map_of config name = Some c \<longrightarrow>
       (\<exists>p. serves_name ps name p \<and> c = served_policy (cml_parse lib) server p)) \<and>
    (\<forall>p\<in>set ps. map_of config (GetUniqueName p) = Some (served_policy (cml_parse lib) server p))"
proof -
  let ?f = "policyServerConfigEntry_MarshalJSON (cml_parse lib)"
  define es where "es = addLegacyPolicyEntries (buildPoliciesMap ps server) ps"
  define h where "h x = projr (de_PolicyOrPolicyGroup (projr (?f x)))" for x
  have dist: "distinct (map fst es)"
    unfolding es_def addLegacyPolicyEntries_def by (rule legacy_step_distinct [OF buildPoliciesMap_distinct])
  have sound: "\<exists>p. serves_name ps k p \<and> x = policy_config_entry server p" if "map_of es k = Some x" for k x
    using entries_sound [OF dep] that by (simp add: es_def)
  have h: "h (policy_config_entry server p) = served_policy (cml_parse lib) server p"
    "\<exists>j. ?f (policy_config_entry server p) = Ok j \<and> de_PolicyOrPolicyGroup j = Ok (h (policy_config_entry server p))"
    if "p \<in> set ps" for p
    using entry_decodes [of "cml_parse lib" p server] dep that by (auto simp: h_def deployable_def)
  have dec: "\<exists>j. ?f x = Ok j \<and> de_PolicyOrPolicyGroup j = Ok (h x)" if "(k, x) \<in> set es" for k x
  proof -
    have "map_of es k = Some x" using that dist by simp
    from sound [OF this] h(2) show ?thesis by (auto simp: serves_name_def)
  qed
  obtain js where
    js: "json_of_map ?f es = Ok (JObject js)"
    "collect_map (\<lambda>(k, v). try_then (de_PolicyOrPolicyGroup v) (\<lambda>p. Ok (k, p))) js =
       Ok (map (\<lambda>(k, x). (k, h x)) (sort_key fst es))"
    using json_of_map_decode [of es ?f de_PolicyOrPolicyGroup h] dec by blast
  let ?config = "map (\<lambda>(k, x). (k, h x)) (sort_key fst es)"
  have look: "map_of ?config k = map_option h (map_of es k)" for k
    by (simp add: map_of_map map_of_sort_key [OF dist])
  have "distinct (map fst ?config)" using dist by (simp add: distinct_map comp_def case_prod_beta)
  moreover have "\<exists>p. serves_name ps name p \<and> c = served_policy (cml_parse lib) server p"
    if "map_of ?config name = Some c" for name c
  proof -
    from that look obtain x where x: "map_of es name = Some x" "c = h x" by auto
    from sound [OF x(1)] x(2) h(1) show ?thesis by (auto simp: serves_name_def)
  qed
  moreover have "map_of ?config (GetUniqueName p) = Some (served_policy (cml_parse lib) server p)"
    if "p \<in> set ps" for p
    unfolding look using entries_complete [OF dep that, of server, folded es_def] h(1) [OF that] by simp
  ultimately show ?thesis
    using js by (intro exI [of _ js] exI [of _ ?config]) (simp add: policies_json_def es_def [symmetric])
qed

end
