(* ===== verification/Kube_Client.thy ===== *)
theory Kube_Client
  imports Policies_ConfigMap
begin

text \<open>
  What the reconcilers share: actions on a state that may fail, with a calculus of weakest
  preconditions to reason about them; the Kubernetes objects that the controller reads and
  writes; the calls to the API server; and the helpers of \<^verbatim>\<open>internal/certs/secrets.go\<close> and
  \<^verbatim>\<open>internal/controller/managed_keys.go\<close>.  The API client, the status conditions and the
  finalizers are library code: they are the fields of a record, and what is known about them
  is a predicate on that record.
\<close>

section \<open>Actions\<close>

text \<open>An action has a result or an error, and in both cases a state afterwards.\<close>

type_synonym ('s, 'e, 'a) action = "'s \<Rightarrow> ('e + 'a) \<times> 's"

definition act_ok :: "'a \<Rightarrow> ('s, 'e, 'a) action" where
  "act_ok a s = (Ok a, s)"

definition act_err :: "'e \<Rightarrow> ('s, 'e, 'a) action" where
  "act_err e s = (Err e, s)"

definition act_case :: "('s, 'e, 'a) action \<Rightarrow> ('e \<Rightarrow> ('s, 'd, 'b) action) \<Rightarrow> ('a \<Rightarrow> ('s, 'd, 'b) action) \<Rightarrow> ('s, 'd, 'b) action" where
  "act_case m h f s = (case m s of (Inl e, s') \<Rightarrow> h e s' | (Inr a, s') \<Rightarrow> f a s')"

definition act_then :: "('s, 'e, 'a) action \<Rightarrow> ('a \<Rightarrow> ('s, 'e, 'b) action) \<Rightarrow> ('s, 'e, 'b) action" where
  "act_then m f = act_case m act_err f"

definition act_map_err :: "('e \<Rightarrow> 'd) \<Rightarrow> ('s, 'e, 'a) action \<Rightarrow> ('s, 'd, 'a) action" where
  "act_map_err g m = act_case m (\<lambda>e. act_err (g e)) act_ok"

definition act_read :: "('s \<Rightarrow> ('s, 'e, 'a) action) \<Rightarrow> ('s, 'e, 'a) action" where
  "act_read f s = f s s"

definition act_modify :: "('s \<Rightarrow> 's) \<Rightarrow> ('s, 'e, unit) action" where
  "act_modify f s = (Ok (), f s)"

definition act_pure :: "'e + 'a \<Rightarrow> ('s, 'e, 'a) action" where
  "act_pure r s = (r, s)"

text \<open>The result of an action as a value.\<close>

definition act_try :: "('s, 'e, 'a) action \<Rightarrow> ('s, 'd, 'e + 'a) action" where
  "act_try m = act_case m (\<lambda>e. act_ok (Inl e)) (\<lambda>a. act_ok (Inr a))"

text \<open>
  The weakest precondition: the result satisfies \<open>P\<close>, or the error \<open>Q\<close>, with the state.
\<close>

definition wp :: "('s, 'e, 'a) action \<Rightarrow> ('a \<Rightarrow> 's \<Rightarrow> bool) \<Rightarrow> ('e \<Rightarrow> 's \<Rightarrow> bool) \<Rightarrow> 's \<Rightarrow> bool" where
  "wp m P Q s \<longleftrightarrow> (case m s of (Inl e, s') \<Rightarrow> Q e s' | (Inr a, s') \<Rightarrow> P a s')"

named_theorems wp_simps

lemma wp_ok [wp_simps]: "wp (act_ok a) P Q = P a"
  by (simp add: fun_eq_iff wp_def act_ok_def)

lemma wp_err [wp_simps]: "wp (act_err e) P Q = Q e"
  by (simp add: fun_eq_iff wp_def act_err_def)

lemma wp_case [wp_simps]: "wp (act_case m h f) P Q = wp m (\<lambda>a. wp (f a) P Q) (\<lambda>e. wp (h e) P Q)"
  by (simp add: fun_eq_iff wp_def act_case_def split: sum.splits prod.splits)

lemma wp_then [wp_simps]: "wp (act_then m f) P Q = wp m (\<lambda>a. wp (f a) P Q) Q"
  by (simp add: act_then_def wp_case wp_err)

lemma wp_map_err [wp_simps]: "wp (act_map_err g m) P Q = wp m P (\<lambda>e. Q (g e))"
  by (simp add: act_map_err_def wp_case wp_err wp_ok)

lemma wp_try [wp_simps]: "wp (act_try m) P Q = wp m (\<lambda>a. P (Inr a)) (\<lambda>e. P (Inl e))"
  by (simp add: act_try_def wp_case wp_ok)

lemma wp_read [wp_simps]: "wp (act_read f) P Q s \<longleftrightarrow> wp (f s) P Q s"
  by (simp add: wp_def act_read_def)

lemma wp_modify [wp_simps]: "wp (act_modify f) P Q s \<longleftrightarrow> P () (f s)"
  by (simp add: wp_def act_modify_def)

lemma wp_pure [wp_simps]: "wp (act_pure r) P Q s \<longleftrightarrow> (case r of Inl e \<Rightarrow> Q e s | Inr a \<Rightarrow> P a s)"
  by (simp add: wp_def act_pure_def split: sum.splits)

lemma wp_if [wp_simps]: "wp (if b then m else m') P Q s \<longleftrightarrow> (if b then wp m P Q s else wp m' P Q s)"
  by simp

lemma wp_pure_Err: "wp (act_pure (Inl e)) P Q = Q e"
  by (simp add: fun_eq_iff wp_pure)

lemma wp_True [simp]: "wp m (\<lambda>_ _. True) (\<lambda>_ _. True) = (\<lambda>_. True)"
  by (simp add: fun_eq_iff wp_def split: sum.splits prod.splits)

lemma wp_mono:
  "wp m P Q s \<Longrightarrow> (\<And>a s. P a s \<Longrightarrow> P' a s) \<Longrightarrow> (\<And>e s. Q e s \<Longrightarrow> Q' e s) \<Longrightarrow> wp m P' Q' s"
  by (auto simp: wp_def split: sum.splits prod.splits)

lemma wpI: "(\<And>a s'. m s = (Inr a, s') \<Longrightarrow> P a s') \<Longrightarrow> (\<And>e s'. m s = (Inl e, s') \<Longrightarrow> Q e s') \<Longrightarrow> wp m P Q s"
  by (auto simp: wp_def split: sum.splits prod.splits)

lemma wp_unitI:
  "(\<And>s'. m s = (Inr (), s') \<Longrightarrow> P () s') \<Longrightarrow> (\<And>e s'. m s = (Inl e, s') \<Longrightarrow> Q e s') \<Longrightarrow> wp m P Q s"
  by (rule wpI) simp_all

lemma wp_Ok: "wp m P Q s \<Longrightarrow> m s = (Inr a, s') \<Longrightarrow> P a s'"
  by (simp add: wp_def)

lemma wp_Err: "wp m P Q s \<Longrightarrow> m s = (Inl e, s') \<Longrightarrow> Q e s'"
  by (simp add: wp_def)

lemma wp_total: "wp m P (\<lambda>_ _. False) s \<Longrightarrow> \<exists>a s'. m s = (Inr a, s') \<and> P a s'"
  by (cases "m s") (auto simp: wp_def split: sum.splits)

lemma wp_step: "m s = (Inr a, s') \<Longrightarrow> wp m P Q s = P a s'"
  by (simp add: wp_def)

lemma wp_conj: "wp m P Q s \<Longrightarrow> wp m P' Q' s \<Longrightarrow> wp m (\<lambda>a s. P a s \<and> P' a s) (\<lambda>e s. Q e s \<and> Q' e s) s"
  by (auto simp: wp_def split: sum.splits prod.splits)

section \<open>Objects\<close>

record Deployment =
  d_meta :: ObjectMeta

record ReplicaSet =
  rset_meta :: ObjectMeta

record Pod =
  pod_meta :: ObjectMeta
  pod_conditions :: "(string \<times> string) list"

record Secret =
  sec_meta :: ObjectMeta
  sec_data :: "(string \<times> string) list"

record ServiceReference =
  svcref_namespace :: string
  svcref_name :: string
  svcref_path :: "string option"
  svcref_port :: "32 word option"

record Webhook =
  wh_name :: string
  wh_service :: ServiceReference
  wh_caBundle :: string
  wh_rules :: "RuleWithOperations list"
  wh_failurePolicy :: "string option"
  wh_matchPolicy :: "string option"
  wh_namespaceSelector :: "Kube_Policy.LabelSelector option"
  wh_objectSelector :: "Kube_Policy.LabelSelector option"
  wh_sideEffects :: "string option"
  wh_timeoutSeconds :: "32 word option"
  wh_admissionReviewVersions :: "string list"
  wh_matchConditions :: "MatchCondition list"

text \<open>The two kinds of webhook configurations have the same fields.\<close>

datatype webhook_kind = Validating | Mutating

record WebhookConfiguration =
  wc_meta :: ObjectMeta
  wc_webhooks :: "Webhook list"

definition meta_named :: "string \<Rightarrow> ObjectMeta" where
  "meta_named name =
     \<lparr>om_name = name, om_namespace = [], om_uid = [], om_resourceVersion = [], om_labels = [], om_annotations = [],
      om_finalizers = [], om_deletionTimestamp = None\<rparr>"

record ctrl_Result =
  res_Requeue :: bool
  res_RequeueAfter :: nat

definition Result_zero :: ctrl_Result where
  "Result_zero = \<lparr>res_Requeue = False, res_RequeueAfter = 0\<rparr>"

section \<open>The API server\<close>

text \<open>
  The calls of the reconcilers, over a world \<open>'w\<close>.  Reading may fail with every error; deleting
  takes the name and the UID that the precondition names; \<^verbatim>\<open>CreateOrUpdate\<close> applies the
  mutation to the stored object, or to the given one if there is none.  An update answers with
  the object as it is stored.
\<close>

type_synonym ('w, 'a) call = "('w, kube_error, 'a) action"

record 'w kube_client =
  kc_get_configmap :: "string \<Rightarrow> string \<Rightarrow> ('w, ConfigMap) call"
  kc_get_policyserver :: "string \<Rightarrow> ('w, PolicyServer) call"
  kc_get_deployment :: "string \<Rightarrow> string \<Rightarrow> ('w, Deployment) call"
  kc_get_secret :: "string \<Rightarrow> string \<Rightarrow> ('w, Secret) call"
  kc_list_replicasets :: "string \<Rightarrow> (string \<times> string) list \<Rightarrow> ('w, ReplicaSet list) call"
  kc_list_pods :: "string \<Rightarrow> (string \<times> string) list \<Rightarrow> ('w, Pod list) call"
  kc_get_webhook :: "webhook_kind \<Rightarrow> string \<Rightarrow> ('w, WebhookConfiguration) call"
  kc_delete_webhook :: "webhook_kind \<Rightarrow> string \<Rightarrow> string \<Rightarrow> ('w, unit) call"
  kc_create_or_update_webhook ::
    "webhook_kind \<Rightarrow> WebhookConfiguration \<Rightarrow> (WebhookConfiguration \<Rightarrow> WebhookConfiguration) \<Rightarrow> ('w, unit) call"
  kc_get_policy :: "PolicyKind \<Rightarrow> string \<Rightarrow> string \<Rightarrow> ('w, Policy) call"
  kc_update_policy :: "Policy \<Rightarrow> ('w, Policy) call"
  kc_update_policy_status :: "Policy \<Rightarrow> ('w, Policy) call"
  kc_count_policy :: "(string \<times> string) list \<Rightarrow> ('w, string, unit) action"

text \<open>
  The helpers of the libraries: setting a condition, the finalizers of an object, JSON, YAML.
\<close>

record controller_library =
  lib_set_condition :: "Condition \<Rightarrow> Condition list \<Rightarrow> Condition list"
  lib_contains_finalizer :: "ObjectMeta \<Rightarrow> string \<Rightarrow> bool"
  lib_add_finalizer :: "string \<Rightarrow> ObjectMeta \<Rightarrow> ObjectMeta"
  lib_remove_finalizer :: "string \<Rightarrow> ObjectMeta \<Rightarrow> ObjectMeta"
  lib_configmap :: configmap_library
  lib_decode_config :: "string \<Rightarrow> string + RuleWithOperations list"

definition finalizer_laws :: "'a controller_library_scheme \<Rightarrow> bool" where
  "finalizer_laws lib \<longleftrightarrow>
     (\<forall>meta f. lib_contains_finalizer lib meta f \<longleftrightarrow> f \<in> set (om_finalizers meta)) \<and>
     (\<forall>meta f. \<exists>fs. lib_add_finalizer lib f meta = meta\<lparr>om_finalizers := fs\<rparr> \<and>
        set fs = insert f (set (om_finalizers meta))) \<and>
     (\<forall>meta f. lib_remove_finalizer lib f meta = meta\<lparr>om_finalizers := removeAll f (om_finalizers meta)\<rparr>)"

text \<open>A condition is set by its type: afterwards that type has the given status, and no other changes.\<close>

definition condition_status :: "string \<Rightarrow> Condition list \<Rightarrow> string option" where
  "condition_status ty cs = map_option cond_status (find (\<lambda>c. cond_type c = ty) cs)"

definition condition_laws :: "'a controller_library_scheme \<Rightarrow> bool" where
  "condition_laws lib \<longleftrightarrow>
     (\<forall>c cs ty. condition_status ty (lib_set_condition lib c cs) =
        (if ty = cond_type c then Some (cond_status c) else condition_status ty cs))"

section \<open>Secrets\<close>

definition CARootCert :: string where "CARootCert = ''ca.crt''"
definition CARootPrivateKey :: string where "CARootPrivateKey = ''ca.key''"
definition OldCARootCert :: string where "OldCARootCert = ''old-ca.crt''"
definition ServerCert :: string where "ServerCert = ''tls.crt''"
definition ServerPrivateKey :: string where "ServerPrivateKey = ''tls.key''"

definition ExtractCARootFromSecret :: "Secret \<Rightarrow> string + string \<times> string" where
  "ExtractCARootFromSecret caRootSecret =
     (case map_of (sec_data caRootSecret) CARootCert of
        None \<Rightarrow> Err (''CA could not be extracted from secret: '' @ om_name (sec_meta caRootSecret))
      | Some caCert \<Rightarrow>
          if caCert = [] then Err (''CA certificate is empty in secret: '' @ om_name (sec_meta caRootSecret))
          else
            (case map_of (sec_data caRootSecret) CARootPrivateKey of
               None \<Rightarrow> Err (''CA private key bytes could not be extracted from secret: '' @ om_name (sec_meta caRootSecret))
             | Some caPrivateKey \<Rightarrow>
                 if caPrivateKey = [] then Err (''CA private key is empty in secret: '' @ om_name (sec_meta caRootSecret))
                 else Ok (caCert, caPrivateKey)))"

definition CABundleFromSecret :: "Secret \<Rightarrow> string" where
  "CABundleFromSecret caRootSecret =
     map_str (sec_data caRootSecret) CARootCert @ map_str (sec_data caRootSecret) OldCARootCert"

definition ExtractServerCertFromSecret :: "Secret \<Rightarrow> string + string \<times> string" where
  "ExtractServerCertFromSecret serverCertSecret =
     (case map_of (sec_data serverCertSecret) ServerCert of
        None \<Rightarrow> Err (''server certificate could not be extracted from secret: '' @ om_name (sec_meta serverCertSecret))
      | Some serverCert \<Rightarrow>
          if serverCert = [] then Err (''server certificate is empty in secret: '' @ om_name (sec_meta serverCertSecret))
          else
            (case map_of (sec_data serverCertSecret) ServerPrivateKey of
               None \<Rightarrow> Err (''server private key could not be extracted from secret: '' @ om_name (sec_meta serverCertSecret))
             | Some serverPrivateKey \<Rightarrow>
                 if serverPrivateKey = [] then Err (''server private key is empty in secret: '' @ om_name (sec_meta serverCertSecret))
                 else Ok (serverCert, serverPrivateKey)))"

section \<open>Managed keys\<close>

text \<open>
  The keys of labels or annotations that come from the specification are recorded in an
  annotation, so that a key that leaves the specification is removed from the object.  The map
  may be the annotations themselves; \<open>managed_annotations\<close> is that case.
\<close>

definition drop_managed ::
  "(string \<times> string) list \<Rightarrow> (string \<times> string) list \<Rightarrow> string option \<Rightarrow> (string \<times> string) list" where
  "drop_managed existing desired prev =
     (case prev of
        None \<Rightarrow> existing
      | Some keys \<Rightarrow>
          if keys = [] then existing
          else foldl (\<lambda>m key. if map_of desired key = None then map_delete m key else m) existing
                 (split_on (CHR '','') keys))"

definition record_managed :: "(string \<times> string) list \<Rightarrow> (string \<times> string) list \<Rightarrow> string \<Rightarrow> (string \<times> string) list" where
  "record_managed annotations desired trackingKey =
     (if desired = [] then map_delete annotations trackingKey
      else map_put annotations trackingKey (join_on (CHR '','') (map fst desired)))"

definition applyManagedKeys ::
  "(string \<times> string) list \<Rightarrow> (string \<times> string) list \<Rightarrow> (string \<times> string) list \<Rightarrow> string \<Rightarrow>
     (string \<times> string) list \<times> (string \<times> string) list" where
  "applyManagedKeys existing desired trackingAnnotations trackingKey =
     (map_put_all (drop_managed existing desired (map_of trackingAnnotations trackingKey)) desired,
      record_managed trackingAnnotations desired trackingKey)"

definition managed_annotations :: "(string \<times> string) list \<Rightarrow> (string \<times> string) list \<Rightarrow> string \<Rightarrow> (string \<times> string) list" where
  "managed_annotations annotations desired trackingKey =
     record_managed
       (map_put_all (drop_managed annotations desired (map_of annotations trackingKey)) desired) desired trackingKey"

end
