(* ===== verification/Policy_Reconciler.thy ===== *)
theory Policy_Reconciler
  imports Kube_Client
begin

text \<open>
  The reconciliation of one policy (\<^verbatim>\<open>internal/controller/policy_subreconciler.go\<close>,
  \<^verbatim>\<open>policy_subreconciler_webhook.go\<close>, the cleanup in \<^verbatim>\<open>legacy_policy_migration.go\<close> and the
  counter of \<^verbatim>\<open>internal/metrics\<close>).  The reconciler works on the policy it was given, in place:
  the state of an action is the policy and the world, and a failed step leaves the changes made
  before it, which \<^verbatim>\<open>reconcile\<close> writes to the status.
\<close>

record 'w rstate =
  rs_policy :: Policy
  rs_world :: 'w

record policySubReconciler =
  deploymentsNamespace :: string
  controllerConfigMapName :: string
  featureGateAdmissionWebhookMatchConditions :: bool

text \<open>A call to the API server, and a change of the policy.\<close>

definition on_world :: "('w, 'e, 'a) action \<Rightarrow> ('w rstate, 'e, 'a) action" where
  "on_world m s = (case m (rs_world s) of (r, w) \<Rightarrow> (r, s\<lparr>rs_world := w\<rparr>))"

definition on_policy :: "(Policy \<Rightarrow> Policy) \<Rightarrow> ('w rstate, 'e, unit) action" where
  "on_policy f = act_modify (\<lambda>s. s\<lparr>rs_policy := f (rs_policy s)\<rparr>)"

definition with_policy :: "(Policy \<Rightarrow> ('w rstate, 'e, 'a) action) \<Rightarrow> ('w rstate, 'e, 'a) action" where
  "with_policy f = act_read (\<lambda>s. f (rs_policy s))"

lemma wp_on_world [wp_simps]:
  "wp (on_world m) P Q s = wp m (\<lambda>a w. P a (s\<lparr>rs_world := w\<rparr>)) (\<lambda>e w. Q e (s\<lparr>rs_world := w\<rparr>)) (rs_world s)"
  by (simp add: wp_def on_world_def split: sum.splits prod.splits)

lemma wp_on_policy [wp_simps]: "wp (on_policy f) P Q s = P () (s\<lparr>rs_policy := f (rs_policy s)\<rparr>)"
  by (simp add: on_policy_def wp_modify)

lemma wp_with_policy [wp_simps]: "wp (with_policy f) P Q s = wp (f (rs_policy s)) P Q s"
  by (simp add: with_policy_def wp_read)

text \<open>The messages: \<^verbatim>\<open>errors.Join(errors.New(a), err)\<close> and \<^verbatim>\<open>fmt.Errorf("a: %w", err)\<close>.\<close>

definition join_err :: "string \<Rightarrow> kube_error \<Rightarrow> string" where
  "join_err a err = a @ [CHR 10] @ kube_error_text err"

definition wrap_err :: "string \<Rightarrow> kube_error \<Rightarrow> string" where
  "wrap_err a err = a @ '': '' @ kube_error_text err"

section \<open>Webhook configurations\<close>

text \<open>\<^verbatim>\<open>filepath.Join\<close> on Unix: the elements from the first that is not empty, with slashes, made clean.\<close>

fun clean_parts :: "bool \<Rightarrow> string list \<Rightarrow> string list \<Rightarrow> string list" where
  "clean_parts rooted out [] = out"
| "clean_parts rooted out (p # ps) =
     (if p = [] \<or> p = ''.'' then clean_parts rooted out ps
      else if p = ''..'' then
        (if out \<noteq> [] \<and> last out \<noteq> ''..'' then clean_parts rooted (butlast out) ps
         else if rooted then clean_parts rooted out ps
         else clean_parts rooted (out @ [p]) ps)
      else clean_parts rooted (out @ [p]) ps)"

definition filepath_Clean :: "string \<Rightarrow> string" where
  "filepath_Clean s =
     (let rooted = (s \<noteq> [] \<and> hd s = CHR ''/'');
          cleaned = (if rooted then ''/'' else []) @ join_on (CHR ''/'') (clean_parts rooted [] (split_on (CHR ''/'') s))
      in if cleaned = [] then ''.'' else cleaned)"

definition filepath_Join :: "string list \<Rightarrow> string" where
  "filepath_Join elems =
     (case dropWhile (\<lambda>e. e = []) elems of [] \<Rightarrow> [] | es \<Rightarrow> filepath_Clean (join_on (CHR ''/'') es))"

definition WebhookConfigurationPolicyNameAnnotationKey :: string where
  "WebhookConfigurationPolicyNameAnnotationKey = ''kubewardenPolicyName''"

definition WebhookConfigurationPolicyNamespaceAnnotationKey :: string where
  "WebhookConfigurationPolicyNamespaceAnnotationKey = ''kubewardenPolicyNamespace''"

definition caBundleForWebhook :: "string \<Rightarrow> Secret \<Rightarrow> string" where
  "caBundleForWebhook liveCABundle caRootSecret =
     (if liveCABundle \<noteq> [] then liveCABundle else CABundleFromSecret caRootSecret)"

definition excludeControllerNamespace :: "string \<Rightarrow> LabelSelectorRequirement_v1" where
  "excludeControllerNamespace ns =
     \<lparr>lsrv_key = ''kubernetes.io/metadata.name'', lsrv_operator = ''NotIn'', lsrv_values = [ns]\<rparr>"

definition namespaceSelector :: "policySubReconciler \<Rightarrow> Policy \<Rightarrow> Kube_Policy.LabelSelector option" where
  "namespaceSelector r policy =
     (if DynamicType policy = KClusterAdmissionPolicyGroup \<or> DynamicType policy = KClusterAdmissionPolicy then
        (if GetAllowInsideAdmissionControllerNamespace policy then GetNamespaceSelector policy
         else
           (let selector = (case GetNamespaceSelector policy of
                              Some userSelector \<Rightarrow> userSelector
                            | None \<Rightarrow> \<lparr>ls_matchLabels = [], ls_matchExpressions = []\<rparr>)
            in Some (selector\<lparr>ls_matchExpressions :=
                 excludeControllerNamespace (deploymentsNamespace r) # ls_matchExpressions selector\<rparr>)))
      else GetNamespaceSelector policy)"

text \<open>The mutation that both kinds of webhook configurations are given.\<close>

definition webhook_of ::
  "policySubReconciler \<Rightarrow> Policy \<Rightarrow> Secret \<Rightarrow> string \<Rightarrow> WebhookConfiguration \<Rightarrow> WebhookConfiguration" where
  "webhook_of r policy admissionSecret policyServerNameWithPrefix webhook =
     (let admissionPath = filepath_Join [''/validate'', GetUniqueName policy];
          service = \<lparr>svcref_namespace = deploymentsNamespace r, svcref_name = policyServerNameWithPrefix,
                     svcref_path = Some admissionPath, svcref_port = Some PolicyServerServicePort\<rparr>;
          sideEffects = (case GetSideEffects policy of None \<Rightarrow> Some ''None'' | Some e \<Rightarrow> Some e);
          liveCABundle = (case wc_webhooks webhook of [] \<Rightarrow> [] | w # _ \<Rightarrow> wh_caBundle w) in
      \<lparr>wc_meta = (wc_meta webhook)
         \<lparr>om_name := GetUniqueName policy,
          om_labels := [(PartOfLabelKey, PartOfLabelValue)],
          om_annotations := [(WebhookConfigurationPolicyNameAnnotationKey, GetName policy),
                             (WebhookConfigurationPolicyNamespaceAnnotationKey, GetNamespace policy)]\<rparr>,
       wc_webhooks =
         [\<lparr>wh_name = GetUniqueName policy @ WebhookNameSuffix,
           wh_service = service,
           wh_caBundle = caBundleForWebhook liveCABundle admissionSecret,
           wh_rules = GetRules policy,
           wh_failurePolicy = GetFailurePolicy policy,
           wh_matchPolicy = GetMatchPolicy policy,
           wh_namespaceSelector = namespaceSelector r policy,
           wh_objectSelector = GetObjectSelector policy,
           wh_sideEffects = sideEffects,
           wh_timeoutSeconds = GetTimeoutSeconds policy,
           wh_admissionReviewVersions = [''v1''],
           wh_matchConditions =
             (if featureGateAdmissionWebhookMatchConditions r then GetMatchConditions policy else [])\<rparr>]\<rparr>)"

definition reconcileValidatingWebhookConfiguration ::
  "'w kube_client \<Rightarrow> policySubReconciler \<Rightarrow> Policy \<Rightarrow> Secret \<Rightarrow> string \<Rightarrow> ('w, string, unit) action" where
  "reconcileValidatingWebhookConfiguration kc r policy admissionSecret policyServerNameWithPrefix =
     act_map_err (wrap_err ''cannot reconcile validating webhook'')
       (kc_create_or_update_webhook kc Validating
          \<lparr>wc_meta = meta_named (GetUniqueName policy), wc_webhooks = []\<rparr>
          (webhook_of r policy admissionSecret policyServerNameWithPrefix))"

definition reconcileMutatingWebhookConfiguration ::
  "'w kube_client \<Rightarrow> policySubReconciler \<Rightarrow> Policy \<Rightarrow> Secret \<Rightarrow> string \<Rightarrow> ('w, string, unit) action" where
  "reconcileMutatingWebhookConfiguration kc r policy admissionSecret policyServerNameWithPrefix =
     act_map_err (wrap_err ''cannot reconcile mutating webhook'')
       (kc_create_or_update_webhook kc Mutating
          \<lparr>wc_meta = meta_named (GetUniqueName policy), wc_webhooks = []\<rparr>
          (webhook_of r policy admissionSecret policyServerNameWithPrefix))"

text \<open>A deletion with the UID as precondition; that somebody else deleted or replaced the object is fine.\<close>

definition delete_exactly :: "'w kube_client \<Rightarrow> webhook_kind \<Rightarrow> string \<Rightarrow> WebhookConfiguration \<Rightarrow> ('w, string, unit) action" where
  "delete_exactly kc kind message webhook =
     act_case (kc_delete_webhook kc kind (om_name (wc_meta webhook)) (om_uid (wc_meta webhook)))
       (\<lambda>deleteErr. case deleteErr of
            NotFound \<Rightarrow> act_ok ()
          | Conflict \<Rightarrow> act_ok ()
          | _ \<Rightarrow> act_err (wrap_err message deleteErr))
       act_ok"

definition reconcileValidatingWebhookConfigurationDeletion ::
  "'w kube_client \<Rightarrow> Policy \<Rightarrow> ('w, string, unit) action" where
  "reconcileValidatingWebhookConfigurationDeletion kc admissionPolicy =
     act_case (kc_get_webhook kc Validating (GetUniqueName admissionPolicy))
       (\<lambda>err. case err of NotFound \<Rightarrow> act_ok () | _ \<Rightarrow> act_err (wrap_err ''cannot retrieve validating webhook'' err))
       (delete_exactly kc Validating ''cannot delete validating webhook'')"

definition reconcileMutatingWebhookConfigurationDeletion ::
  "'w kube_client \<Rightarrow> Policy \<Rightarrow> ('w, string, unit) action" where
  "reconcileMutatingWebhookConfigurationDeletion kc admissionPolicy =
     act_case (kc_get_webhook kc Mutating (GetUniqueName admissionPolicy))
       (\<lambda>err. case err of NotFound \<Rightarrow> act_ok () | _ \<Rightarrow> act_err (wrap_err ''cannot retrieve mutating webhook'' err))
       (delete_exactly kc Mutating ''cannot delete mutating webhook'')"

definition hasKubewardenLabel :: "(string \<times> string) list \<Rightarrow> bool" where
  "hasKubewardenLabel labels \<longleftrightarrow>
     map_str labels ''kubewarden'' = ''true'' \<or> map_str labels PartOfLabelKey = PartOfLabelValue"

definition legacy_cleanup_of ::
  "'w kube_client \<Rightarrow> webhook_kind \<Rightarrow> string \<Rightarrow> string \<Rightarrow> ('w, string, unit) action" where
  "legacy_cleanup_of kc kind kind_name legacyName =
     act_case (kc_get_webhook kc kind legacyName)
       (\<lambda>err. case err of NotFound \<Rightarrow> act_ok ()
          | _ \<Rightarrow> act_err (wrap_err (''cannot retrieve legacy '' @ kind_name @ '' webhook'') err))
       (\<lambda>webhook. if hasKubewardenLabel (om_labels (wc_meta webhook))
          then delete_exactly kc kind (''cannot delete legacy '' @ kind_name @ '' webhook'') webhook
          else act_ok ())"

definition reconcileLegacyWebhookConfigurationCleanup :: "'w kube_client \<Rightarrow> Policy \<Rightarrow> ('w, string, unit) action" where
  "reconcileLegacyWebhookConfigurationCleanup kc policy =
     (let legacyName = legacyPolicyUniqueName policy in
      if legacyName = [] then act_ok ()
      else
        act_then (legacy_cleanup_of kc Validating ''validating'' legacyName) (\<lambda>_.
          legacy_cleanup_of kc Mutating ''mutating'' legacyName))"

definition reconcileWebhookConfiguration ::
  "'w kube_client \<Rightarrow> policySubReconciler \<Rightarrow> Policy \<Rightarrow> Secret \<Rightarrow> string \<Rightarrow> ('w, string, unit) action" where
  "reconcileWebhookConfiguration kc r policy secret policyServerName =
     (if IsMutating policy then
        act_map_err (\<lambda>err. ''error reconciling mutating webhook'' @ [CHR 10] @ err)
          (reconcileMutatingWebhookConfiguration kc r policy secret policyServerName)
      else
        act_map_err (\<lambda>err. ''error reconciling validating webhook'' @ [CHR 10] @ err)
          (reconcileValidatingWebhookConfiguration kc r policy secret policyServerName))"

definition deleteWebhookConfiguration :: "'w kube_client \<Rightarrow> Policy \<Rightarrow> ('w, string, unit) action" where
  "deleteWebhookConfiguration kc policy =
     (if IsMutating policy then reconcileMutatingWebhookConfigurationDeletion kc policy
      else reconcileValidatingWebhookConfigurationDeletion kc policy)"

section \<open>The status of a policy\<close>

definition set_condition :: "'l controller_library_scheme \<Rightarrow> Condition \<Rightarrow> Policy \<Rightarrow> Policy" where
  "set_condition lib c policy =
     policy\<lparr>GetStatus := (GetStatus policy)\<lparr>ps_conditions := lib_set_condition lib c (ps_conditions (GetStatus policy))\<rparr>\<rparr>"

definition setPolicyAsActive :: "'l controller_library_scheme \<Rightarrow> Policy \<Rightarrow> Policy" where
  "setPolicyAsActive lib policy =
     set_condition lib
       \<lparr>cond_type = PolicyActive, cond_status = ''True'', cond_reason = ''PolicyActive'',
        cond_message = ''The policy webhook has been created''\<rparr>
       (SetStatus PolicyStatusActive policy)"

definition PolicyServerDeploymentConfigVersionAnnotation :: string where
  "PolicyServerDeploymentConfigVersionAnnotation = ''kubewarden/config-version''"

definition setPolicyConfigurationCondition ::
  "'l controller_library_scheme \<Rightarrow> ConfigMap \<Rightarrow> Deployment \<Rightarrow> Policy \<Rightarrow> Policy" where
  "setPolicyConfigurationCondition lib policyServerConfigMap policyServerDeployment policy =
     set_condition lib
       (case map_of (om_annotations (d_meta policyServerDeployment)) PolicyServerDeploymentConfigVersionAnnotation of
          Some configAnnotation \<Rightarrow>
            if configAnnotation = om_resourceVersion (cm_meta policyServerConfigMap) then
              \<lparr>cond_type = PolicyServerConfigurationUpToDate, cond_status = ''True'',
               cond_reason = ''ConfigurationVersionMatch'',
               cond_message = ''Configuration for this policy is up to date''\<rparr>
            else
              \<lparr>cond_type = PolicyServerConfigurationUpToDate, cond_status = ''False'',
               cond_reason = ''ConfigurationVersionMismatch'',
               cond_message = ''Configuration for this policy is not up to date''\<rparr>
        | None \<Rightarrow>
            \<lparr>cond_type = PolicyServerConfigurationUpToDate, cond_status = ''False'',
             cond_reason = ''UnknownConfigurationVersion'',
             cond_message = ''Configuration version annotation ('' @ PolicyServerDeploymentConfigVersionAnnotation @
               '') in deployment '' @ om_name (d_meta policyServerDeployment) @ '' is missing''\<rparr>)
       policy"

definition policyServerDeploymentName :: "string \<Rightarrow> string" where
  "policyServerDeploymentName policyServerName = ''policy-server-'' @ policyServerName"

definition setPolicyModeStatus ::
  "'w kube_client \<Rightarrow> 'l controller_library_scheme \<Rightarrow> policySubReconciler \<Rightarrow> ('w rstate, string, unit) action" where
  "setPolicyModeStatus kc lib r =
     with_policy (\<lambda>policy.
       let name = policyServerDeploymentName (GetPolicyServer policy) in
       act_case (on_world (kc_get_deployment kc (deploymentsNamespace r) name))
         (\<lambda>err. case err of NotFound \<Rightarrow> act_ok ()
                 | _ \<Rightarrow> act_err (join_err ''could not get policy server deployment'' err))
         (\<lambda>policyServerDeployment.
           act_then (act_map_err (join_err ''could not get configmap'')
                       (on_world (kc_get_configmap kc (deploymentsNamespace r) name)))
             (\<lambda>policyServerConfigMap.
               act_then (on_policy (SetPolicyModeStatus
                   (case getPolicyMapFromConfigMap (lib_configmap lib) policyServerConfigMap of
                      Inl _ \<Rightarrow> PolicyModeStatusUnknown
                    | Inr policyMap \<Rightarrow>
                        (case map_of policyMap (GetUniqueName policy) of
                           Some policyConfig \<Rightarrow> e_policyMode policyConfig
                         | None \<Rightarrow> PolicyModeStatusUnknown))))
                 (\<lambda>_. on_policy (setPolicyConfigurationCondition lib policyServerConfigMap policyServerDeployment)))))"

section \<open>Reachability\<close>

datatype policy_server_error = PolicyServerNotAvailable | PolicyServerError string

definition getPolicyServer :: "'w kube_client \<Rightarrow> Policy \<Rightarrow> ('w, policy_server_error, PolicyServer) action" where
  "getPolicyServer kc policy =
     act_case (kc_get_policyserver kc (GetPolicyServer policy))
       (\<lambda>err. case err of
            NotFound \<Rightarrow> act_err PolicyServerNotAvailable
          | _ \<Rightarrow> act_err (PolicyServerError (join_err ''could not get policy server'' err)))
       (\<lambda>policyServer.
          if om_deletionTimestamp (srv_meta policyServer) \<noteq> None then act_err PolicyServerNotAvailable
          else act_ok policyServer)"

definition KubernetesRevisionAnnotation :: string where
  "KubernetesRevisionAnnotation = ''deployment.kubernetes.io/revision''"

definition DefaultDeploymentUniqueLabelKey :: string where
  "DefaultDeploymentUniqueLabelKey = ''pod-template-hash''"

definition isLatestReplicaSetFromPolicyServerDeployment :: "ReplicaSet \<Rightarrow> Deployment \<Rightarrow> string \<Rightarrow> bool" where
  "isLatestReplicaSetFromPolicyServerDeployment replicaSet policyServerDeployment configMapVersion \<longleftrightarrow>
     map_str (om_annotations (rset_meta replicaSet)) KubernetesRevisionAnnotation =
       map_str (om_annotations (d_meta policyServerDeployment)) KubernetesRevisionAnnotation \<and>
     map_str (om_annotations (rset_meta replicaSet)) PolicyServerDeploymentConfigVersionAnnotation = configMapVersion"

definition isPodReady :: "Pod \<Rightarrow> bool" where
  "isPodReady pod \<longleftrightarrow> (case map_of (pod_conditions pod) ''Ready'' of None \<Rightarrow> False | Some status \<Rightarrow> status = ''True'')"

definition isPolicyUniquelyReachable ::
  "'w kube_client \<Rightarrow> 'l controller_library_scheme \<Rightarrow> Deployment \<Rightarrow> string \<Rightarrow> ('w, string, bool) action" where
  "isPolicyUniquelyReachable kc lib policyServerDeployment policyName =
     (let namespace = om_namespace (d_meta policyServerDeployment);
          labels = [(PolicyServerLabelKey, map_str (om_labels (d_meta policyServerDeployment)) PolicyServerLabelKey)] in
      act_case (kc_get_configmap kc namespace (om_name (d_meta policyServerDeployment))) (\<lambda>_. act_ok False) (\<lambda>configMap.
        if \<not> isPolicyInConfigMap (lib_configmap lib) configMap policyName then act_ok False
        else
          act_case (kc_list_replicasets kc namespace labels) (\<lambda>_. act_ok False) (\<lambda>replicaSets.
            let podTemplateHash =
                  (case find (\<lambda>rs. isLatestReplicaSetFromPolicyServerDeployment rs policyServerDeployment
                                (om_resourceVersion (cm_meta configMap))) replicaSets of
                     None \<Rightarrow> []
                   | Some rs \<Rightarrow> map_str (om_labels (rset_meta rs)) DefaultDeploymentUniqueLabelKey) in
            if podTemplateHash = [] then act_ok False
            else
              act_case (kc_list_pods kc namespace labels) (\<lambda>_. act_ok False) (\<lambda>pods.
                act_ok (pods \<noteq> [] \<and>
                  list_all (\<lambda>pod. map_str (om_labels (pod_meta pod)) DefaultDeploymentUniqueLabelKey = podTemplateHash \<and>
                                 isPodReady pod) pods)))))"

section \<open>Removing a policy from enforcement\<close>

definition change_meta :: "(ObjectMeta \<Rightarrow> ObjectMeta) \<Rightarrow> Policy \<Rightarrow> Policy" where
  "change_meta f policy = policy\<lparr>GetObjectMeta := f (GetObjectMeta policy)\<rparr>"

text \<open>\<^verbatim>\<open>r.Update\<close>: the answer of the server replaces the policy in memory.\<close>

definition update_policy :: "'w kube_client \<Rightarrow> ('w rstate, kube_error, unit) action" where
  "update_policy kc =
     with_policy (\<lambda>policy.
       act_then (on_world (kc_update_policy kc policy)) (\<lambda>stored. on_policy (\<lambda>_. stored)))"

definition removePolicyWebhooksAndFinalizers ::
  "'w kube_client \<Rightarrow> 'l controller_library_scheme \<Rightarrow> ('w rstate, string, unit) action" where
  "removePolicyWebhooksAndFinalizers kc lib =
     with_policy (\<lambda>policy.
       act_then (on_world (deleteWebhookConfiguration kc policy)) (\<lambda>_.
       act_then (on_world (reconcileLegacyWebhookConfigurationCleanup kc policy)) (\<lambda>_.
         let has = lib_contains_finalizer lib (GetObjectMeta policy) KubewardenFinalizer;
             meta = (if has then lib_remove_finalizer lib KubewardenFinalizer (GetObjectMeta policy)
                     else GetObjectMeta policy);
             has_old = lib_contains_finalizer lib meta KubewardenFinalizerPre114;
             meta' = (if has_old then lib_remove_finalizer lib KubewardenFinalizerPre114 meta else meta) in
         act_then (on_policy (change_meta (\<lambda>_. meta'))) (\<lambda>_.
           if has \<or> has_old then act_map_err (wrap_err ''cannot update policy'') (update_policy kc)
           else act_ok ()))))"

definition reconcileNamespacedPolicyAllowList ::
  "'w kube_client \<Rightarrow> 'l controller_library_scheme \<Rightarrow> policySubReconciler \<Rightarrow> ('w rstate, string, bool) action" where
  "reconcileNamespacedPolicyAllowList kc lib r =
     with_policy (\<lambda>policy.
       if GetNamespace policy = [] then act_ok False
       else
         act_then (act_try (on_world (kc_get_configmap kc (deploymentsNamespace r) (controllerConfigMapName r)))) (\<lambda>got.
           act_then (act_pure (loadControllerConfig (lib_decode_config lib) (deploymentsNamespace r)
                                (controllerConfigMapName r) (map_ok cm_data got))) (\<lambda>config.
             let allowed = cc_namespacedPoliciesAllowedResources config;
                 (isAllowed, disallowed) = isNamespacedPolicyAllowed policy allowed in
             if isAllowed then act_ok False
             else
               act_then (removePolicyWebhooksAndFinalizers kc lib) (\<lambda>_.
               act_then (on_policy (SetStatus PolicyStatusRejected)) (\<lambda>_.
               act_then (on_policy (set_condition lib
                   \<lparr>cond_type = PolicyActive, cond_status = ''False'', cond_reason = PolicyReasonResourcesNotAllowed,
                    cond_message = namespacedPolicyRejectedMessage disallowed allowed (controllerConfigMapName r)\<rparr>)) (\<lambda>_.
                 act_ok True))))))"

definition reconcilePolicyServerUnavailable ::
  "'w kube_client \<Rightarrow> 'l controller_library_scheme \<Rightarrow> ('w rstate, string, ctrl_Result) action" where
  "reconcilePolicyServerUnavailable kc lib =
     act_then (removePolicyWebhooksAndFinalizers kc lib) (\<lambda>_.
     act_then (on_policy (SetStatus PolicyStatusScheduled)) (\<lambda>_. act_ok Result_zero))"

section \<open>Reconciling a policy\<close>

definition TimeToRequeuePolicyReconciliation :: nat where
  "TimeToRequeuePolicyReconciliation = 2"

definition not_created_condition :: Condition where
  "not_created_condition =
     \<lparr>cond_type = PolicyActive, cond_status = ''False'', cond_reason = ''PolicyActive'',
      cond_message = ''The policy webhook has not been created''\<rparr>"

definition not_reachable_condition :: Condition where
  "not_reachable_condition =
     \<lparr>cond_type = PolicyUniquelyReachable, cond_status = ''False'',
      cond_reason = ''LatestReplicaSetIsNotUniquelyReachable'',
      cond_message = ''The latest replica set is not uniquely reachable''\<rparr>"

definition reachable_condition :: Condition where
  "reachable_condition =
     \<lparr>cond_type = PolicyUniquelyReachable, cond_status = ''True'',
      cond_reason = ''LatestReplicaSetIsUniquelyReachable'',
      cond_message = ''The latest replica set is uniquely reachable''\<rparr>"

text \<open>The last part, once the policy server serves the policy: the finalizer and the webhook.\<close>

definition enforce_policy ::
  "'w kube_client \<Rightarrow> 'l controller_library_scheme \<Rightarrow> policySubReconciler \<Rightarrow> Secret \<Rightarrow> string \<Rightarrow>
     ('w rstate, string, ctrl_Result) action" where
  "enforce_policy kc lib r secret policyServerName =
     act_then (on_policy (set_condition lib reachable_condition)) (\<lambda>_.
     act_then (with_policy (\<lambda>policy.
         if lib_contains_finalizer lib (GetObjectMeta policy) KubewardenFinalizer then act_ok ()
         else
           act_then (on_policy (change_meta (lib_add_finalizer lib KubewardenFinalizer))) (\<lambda>_.
             act_map_err (wrap_err ''cannot add finalizer to policy'') (update_policy kc)))) (\<lambda>_.
     with_policy (\<lambda>policy.
       act_then (on_world (reconcileWebhookConfiguration kc r policy secret policyServerName)) (\<lambda>_.
       act_then (act_map_err (\<lambda>err. ''error cleaning up legacy webhook configurations'' @ [CHR 10] @ err)
                   (on_world (reconcileLegacyWebhookConfigurationCleanup kc policy))) (\<lambda>_.
       act_then (on_policy (setPolicyAsActive lib)) (\<lambda>_. act_ok Result_zero))))))"

text \<open>From the deployment of the policy server on.\<close>

definition reconcile_with_server ::
  "'w kube_client \<Rightarrow> 'l controller_library_scheme \<Rightarrow> policySubReconciler \<Rightarrow> PolicyServer \<Rightarrow>
     ('w rstate, string, ctrl_Result) action" where
  "reconcile_with_server kc lib r policyServer =
     act_then (on_policy (\<lambda>policy.
         if ps_policyStatus (GetStatus policy) \<noteq> Some PolicyStatusActive then SetStatus PolicyStatusPending policy
         else policy)) (\<lambda>_.
     with_policy (\<lambda>policy.
       act_case (on_world (kc_get_deployment kc (deploymentsNamespace r) (policyServerDeploymentName (GetPolicyServer policy))))
         (\<lambda>err. case err of
              NotFound \<Rightarrow> act_ok (Result_zero\<lparr>res_Requeue := True\<rparr>)
            | _ \<Rightarrow> act_err (join_err ''could not read policy server Deployment'' err))
         (\<lambda>policyServerDeployment.
       act_then (act_map_err (join_err ''cannot find policy server secret'')
                   (on_world (kc_get_secret kc (deploymentsNamespace r) CARootSecretName))) (\<lambda>secret.
       act_then (on_world (isPolicyUniquelyReachable kc lib policyServerDeployment (GetUniqueName policy))) (\<lambda>reachable.
         if \<not> reachable then
           act_then (on_policy (set_condition lib not_reachable_condition)) (\<lambda>_.
             act_ok \<lparr>res_Requeue = True, res_RequeueAfter = TimeToRequeuePolicyReconciliation\<rparr>)
         else enforce_policy kc lib r secret (NameWithPrefix policyServer))))))"

text \<open>From the policy server on, for a policy that the allow list lets through.\<close>

definition reconcile_allowed ::
  "'w kube_client \<Rightarrow> 'l controller_library_scheme \<Rightarrow> policySubReconciler \<Rightarrow> ('w rstate, string, ctrl_Result) action" where
  "reconcile_allowed kc lib r =
     with_policy (\<lambda>policy.
       if GetPolicyServer policy = [] then
         act_then (on_policy (SetStatus PolicyStatusUnscheduled)) (\<lambda>_. act_ok Result_zero)
       else
         act_case (on_world (getPolicyServer kc policy))
           (\<lambda>err. case err of
                PolicyServerNotAvailable \<Rightarrow> reconcilePolicyServerUnavailable kc lib
              | PolicyServerError e \<Rightarrow> act_err e)
           (reconcile_with_server kc lib r))"

definition reconcilePolicy ::
  "'w kube_client \<Rightarrow> 'l controller_library_scheme \<Rightarrow> policySubReconciler \<Rightarrow> ('w rstate, string, ctrl_Result) action" where
  "reconcilePolicy kc lib r =
     act_then (on_policy (set_condition lib not_created_condition)) (\<lambda>_.
     act_then (reconcileNamespacedPolicyAllowList kc lib r) (\<lambda>rejected.
       if rejected then act_ok Result_zero else reconcile_allowed kc lib r))"

fun status_text :: "PolicyStatusEnum option \<Rightarrow> string" where
  "status_text None = []"
| "status_text (Some PolicyStatusUnscheduled) = ''unscheduled''"
| "status_text (Some PolicyStatusScheduled) = ''scheduled''"
| "status_text (Some PolicyStatusPending) = ''pending''"
| "status_text (Some PolicyStatusActive) = ''active''"
| "status_text (Some PolicyStatusRejected) = ''rejected''"

definition RecordPolicyCount :: "'w kube_client \<Rightarrow> Policy \<Rightarrow> ('w, string, unit) action" where
  "RecordPolicyCount kc policy =
     kc_count_policy kc
       [(''name'', GetUniqueName policy),
        (''policy_server'', GetPolicyServer policy),
        (''module'', GetModule policy),
        (''mutating'', if IsMutating policy then ''true'' else ''false''),
        (''namespace'', GetNamespace policy),
        (''failure_policy'', case GetFailurePolicy policy of None \<Rightarrow> [] | Some f \<Rightarrow> f),
        (''policy_status'', status_text (ps_policyStatus (GetStatus policy)))]"

text \<open>What follows the reconciliation of a policy that is not being deleted, whether it failed or not.\<close>

definition report_status ::
  "'w kube_client \<Rightarrow> 'l controller_library_scheme \<Rightarrow> policySubReconciler \<Rightarrow> string + ctrl_Result \<Rightarrow>
     ('w rstate, string, ctrl_Result) action" where
  "report_status kc lib r outcome =
     act_then (act_map_err (\<lambda>err. ''error setting policy status: '' @ err) (setPolicyModeStatus kc lib r)) (\<lambda>_.
     act_then (act_map_err (wrap_err ''update admission policy status error'')
         (with_policy (\<lambda>policy. act_then (on_world (kc_update_policy_status kc policy))
                                  (\<lambda>stored. on_policy (\<lambda>_. stored))))) (\<lambda>_.
     act_then (act_map_err (\<lambda>err. ''failed to record policy mestrics: '' @ err)
         (with_policy (\<lambda>policy. on_world (RecordPolicyCount kc policy)))) (\<lambda>_.
       act_pure outcome)))"

definition reconcile ::
  "'w kube_client \<Rightarrow> 'l controller_library_scheme \<Rightarrow> policySubReconciler \<Rightarrow> ('w rstate, string, ctrl_Result) action" where
  "reconcile kc lib r =
     with_policy (\<lambda>policy.
       if om_deletionTimestamp (GetObjectMeta policy) \<noteq> None then
         act_then (removePolicyWebhooksAndFinalizers kc lib) (\<lambda>_. act_ok Result_zero)
       else act_then (act_try (reconcilePolicy kc lib r)) (report_status kc lib r))"

section \<open>What the API server promises\<close>

text \<open>
  The webhook configurations that are stored, by kind and name, while the reconciler is the
  only one that changes them: what each call makes of them.
\<close>

type_synonym webhooks = "webhook_kind \<Rightarrow> string \<Rightarrow> WebhookConfiguration option"

definition keeps :: "('w \<Rightarrow> 'v) \<Rightarrow> ('w, 'e, 'a) action \<Rightarrow> bool" where
  "keeps v m \<longleftrightarrow> (\<forall>w. v (snd (m w)) = v w)"

definition webhook_get_law :: "'w kube_client \<Rightarrow> ('w \<Rightarrow> webhooks) \<Rightarrow> bool" where
  "webhook_get_law kc v \<longleftrightarrow>
     (\<forall>k n w r w'. kc_get_webhook kc k n w = (r, w') \<longrightarrow>
        v w' = v w \<and>
        (case r of
           Inr wc \<Rightarrow> v w k n = Some wc \<and> om_name (wc_meta wc) = n
         | Inl NotFound \<Rightarrow> v w k n = None
         | Inl _ \<Rightarrow> True))"

definition webhook_delete_law :: "'w kube_client \<Rightarrow> ('w \<Rightarrow> webhooks) \<Rightarrow> bool" where
  "webhook_delete_law kc v \<longleftrightarrow>
     (\<forall>k n uid w r w'. kc_delete_webhook kc k n uid w = (r, w') \<longrightarrow>
        (case r of
           Inr _ \<Rightarrow> v w' = (v w)(k := (v w k)(n := None))
         | Inl NotFound \<Rightarrow> v w' = v w \<and> v w k n = None
         | Inl Conflict \<Rightarrow> v w' = v w \<and> (\<exists>wc. v w k n = Some wc \<and> om_uid (wc_meta wc) \<noteq> uid)
         | Inl _ \<Rightarrow> v w' = v w))"

definition webhook_write_law :: "'w kube_client \<Rightarrow> ('w \<Rightarrow> webhooks) \<Rightarrow> bool" where
  "webhook_write_law kc v \<longleftrightarrow>
     (\<forall>k fresh f w r w'. kc_create_or_update_webhook kc k fresh f w = (r, w') \<longrightarrow>
        (case r of
           Inl _ \<Rightarrow> v w' = v w
         | Inr _ \<Rightarrow>
             (let n = om_name (wc_meta fresh);
                  written = f (case v w k n of Some wc \<Rightarrow> wc | None \<Rightarrow> fresh) in
              \<exists>wc. v w' = (v w)(k := (v w k)(n := Some wc)) \<and>
                wc_webhooks wc = wc_webhooks written \<and>
                om_labels (wc_meta wc) = om_labels (wc_meta written) \<and>
                om_annotations (wc_meta wc) = om_annotations (wc_meta written))))"

definition webhook_frame_law :: "'w kube_client \<Rightarrow> ('w \<Rightarrow> webhooks) \<Rightarrow> bool" where
  "webhook_frame_law kc v \<longleftrightarrow>
     (\<forall>ns n. keeps v (kc_get_configmap kc ns n)) \<and> (\<forall>n. keeps v (kc_get_policyserver kc n)) \<and>
     (\<forall>ns n. keeps v (kc_get_deployment kc ns n)) \<and> (\<forall>ns n. keeps v (kc_get_secret kc ns n)) \<and>
     (\<forall>ns ls. keeps v (kc_list_replicasets kc ns ls)) \<and> (\<forall>ns ls. keeps v (kc_list_pods kc ns ls)) \<and>
     (\<forall>p. keeps v (kc_update_policy kc p)) \<and> (\<forall>p. keeps v (kc_update_policy_status kc p)) \<and>
     (\<forall>as. keeps v (kc_count_policy kc as))"

text \<open>
  An update answers with the object that was sent, with the metadata of the server but for the
  name and the finalizers, and with the stored status; an update of the status keeps the status
  that was sent.
\<close>

definition same_policy :: "Policy \<Rightarrow> Policy \<Rightarrow> bool" where
  "same_policy p q \<longleftrightarrow>
     (\<exists>m st. q = p\<lparr>GetObjectMeta := m, GetStatus := st\<rparr> \<and> om_name m = GetName p \<and> om_namespace m = GetNamespace p)"

definition policy_update_law :: "'w kube_client \<Rightarrow> bool" where
  "policy_update_law kc \<longleftrightarrow>
     (\<forall>p w q w'. kc_update_policy kc p w = (Ok q, w') \<longrightarrow>
        same_policy p q \<and> om_finalizers (GetObjectMeta q) = om_finalizers (GetObjectMeta p)) \<and>
     (\<forall>p w q w'. kc_update_policy_status kc p w = (Ok q, w') \<longrightarrow>
        same_policy p q \<and> om_finalizers (GetObjectMeta q) = om_finalizers (GetObjectMeta p) \<and>
        GetStatus q = GetStatus p)"

definition policyserver_get_law :: "'w kube_client \<Rightarrow> bool" where
  "policyserver_get_law kc \<longleftrightarrow>
     (\<forall>n w srv w'. kc_get_policyserver kc n w = (Ok srv, w') \<longrightarrow> om_name (srv_meta srv) = n)"

definition api_laws :: "'w kube_client \<Rightarrow> ('w \<Rightarrow> webhooks) \<Rightarrow> bool" where
  "api_laws kc v \<longleftrightarrow>
     webhook_get_law kc v \<and> webhook_delete_law kc v \<and> webhook_write_law kc v \<and> webhook_frame_law kc v \<and>
     policy_update_law kc \<and> policyserver_get_law kc"

lemma wp_keeps:
  "keeps v m \<Longrightarrow> (\<And>a w'. m w = (Inr a, w') \<Longrightarrow> v w' = v w \<Longrightarrow> P a w') \<Longrightarrow>
   (\<And>e w'. m w = (Inl e, w') \<Longrightarrow> v w' = v w \<Longrightarrow> Q e w') \<Longrightarrow> wp m P Q w"
  unfolding keeps_def by (rule wpI) (metis snd_conv)+

lemma same_policy_refl [simp]: "same_policy p p"
  unfolding same_policy_def by (rule exI [of _ "GetObjectMeta p"], rule exI [of _ "GetStatus p"]) simp

lemma same_policyI: "om_name m = GetName p \<Longrightarrow> om_namespace m = GetNamespace p \<Longrightarrow>
    same_policy p (p\<lparr>GetObjectMeta := m, GetStatus := st\<rparr>)"
  unfolding same_policy_def by blast

lemma same_policy_trans:
  assumes "same_policy p q" "same_policy q r"
  shows "same_policy p r"
proof -
  from assms(1) obtain m st where q: "q = p\<lparr>GetObjectMeta := m, GetStatus := st\<rparr>"
    "om_name m = GetName p" "om_namespace m = GetNamespace p" unfolding same_policy_def by blast
  from assms(2) obtain m' st' where r: "r = q\<lparr>GetObjectMeta := m', GetStatus := st'\<rparr>"
    "om_name m' = GetName q" "om_namespace m' = GetNamespace q" unfolding same_policy_def by blast
  have "r = p\<lparr>GetObjectMeta := m', GetStatus := st'\<rparr>" using q(1) r(1) by simp
  then show ?thesis using same_policyI [of m' p st'] q r by simp
qed

lemma same_policy_fields:
  assumes "same_policy p q"
  shows "GetUniqueName q = GetUniqueName p" "IsMutating q = IsMutating p" "DynamicType q = DynamicType p"
    "GetName q = GetName p" "GetNamespace q = GetNamespace p" "GetPolicyServer q = GetPolicyServer p"
    "GetRules q = GetRules p" "legacyPolicyUniqueName q = legacyPolicyUniqueName p"
    "namespaceSelector r q = namespaceSelector r p" "webhook_of r q secret psn = webhook_of r p secret psn"
proof -
  from assms obtain m st where q: "q = p\<lparr>GetObjectMeta := m, GetStatus := st\<rparr>"
    and names: "om_name m = GetName p" "om_namespace m = GetNamespace p" unfolding same_policy_def by blast
  show "GetUniqueName q = GetUniqueName p" "IsMutating q = IsMutating p" "DynamicType q = DynamicType p"
    "GetName q = GetName p" "GetNamespace q = GetNamespace p" "GetPolicyServer q = GetPolicyServer p"
    "GetRules q = GetRules p" by (simp_all add: q names)
  show "legacyPolicyUniqueName q = legacyPolicyUniqueName p"
    by (simp add: q names legacyPolicyUniqueName_def cong: PolicyKind.case_cong)
  show sel: "namespaceSelector r q = namespaceSelector r p"
    by (simp add: q namespaceSelector_def cong: option.case_cong)
  show "webhook_of r q secret psn = webhook_of r p secret psn"
    by (rule ext) (simp add: sel webhook_of_def, simp add: q names Let_def)
qed

section \<open>What the steps do to the webhook configurations\<close>

definition kind_of :: "Policy \<Rightarrow> webhook_kind" where
  "kind_of p = (if IsMutating p then Mutating else Validating)"

definition forget :: "webhook_kind \<Rightarrow> string \<Rightarrow> webhooks \<Rightarrow> webhooks" where
  "forget k n v = v(k := (v k)(n := None))"

text \<open>The configurations of the controller under a legacy name.\<close>

definition forget_labelled :: "webhook_kind \<Rightarrow> string \<Rightarrow> webhooks \<Rightarrow> webhooks" where
  "forget_labelled k n v =
     (case v k n of
        Some wc \<Rightarrow> if hasKubewardenLabel (om_labels (wc_meta wc)) then forget k n v else v
      | None \<Rightarrow> v)"

definition forget_legacy :: "Policy \<Rightarrow> webhooks \<Rightarrow> webhooks" where
  "forget_legacy p v =
     forget_labelled Mutating (legacyPolicyUniqueName p) (forget_labelled Validating (legacyPolicyUniqueName p) v)"

lemma forget_absent: "v k n = None \<Longrightarrow> forget k n v = v"
  by (auto simp: forget_def fun_eq_iff)

lemma forget_labelled_other: "n \<noteq> m \<Longrightarrow> forget_labelled k n v k' m = v k' m"
  by (auto simp: forget_labelled_def forget_def split: option.splits)

lemma forget_labelled_none:
  "v k' m = None \<Longrightarrow> forget_labelled k n v k' m = None"
  by (auto simp: forget_labelled_def forget_def split: option.splits)

lemma delete_exactly_wp:
  assumes "webhook_delete_law kc v" "v w k n = Some wc" "om_name (wc_meta wc) = n"
  shows "wp (delete_exactly kc k msg wc) (\<lambda>_ w'. v w' = forget k n (v w)) (\<lambda>_ _. True) w"
proof -
  have "wp (kc_delete_webhook kc k n (om_uid (wc_meta wc))) (\<lambda>_ w'. v w' = forget k n (v w))
      (\<lambda>e w'. e \<noteq> NotFound \<and> e \<noteq> Conflict) w"
  proof (rule wpI)
    fix a w' assume "kc_delete_webhook kc k n (om_uid (wc_meta wc)) w = (Ok a, w')"
    with assms(1) show "v w' = forget k n (v w)" by (fastforce simp: webhook_delete_law_def forget_def)
  next
    fix e w' assume d: "kc_delete_webhook kc k n (om_uid (wc_meta wc)) w = (Err e, w')"
    note law = assms(1) [unfolded webhook_delete_law_def, rule_format, OF d]
    show "e \<noteq> NotFound \<and> e \<noteq> Conflict"
    proof (intro conjI notI)
      assume "e = NotFound" with law assms(2) show False by simp
    next
      assume "e = Conflict" with law assms(2) show False by simp
    qed
  qed
  then show ?thesis
    unfolding delete_exactly_def assms(3)
    by (simp add: wp_simps) (erule wp_mono, simp_all split: kube_error.splits add: wp_simps)
qed

lemma get_webhook_wp:
  assumes "webhook_get_law kc v"
    and "\<And>wc w'. v w' = v w \<Longrightarrow> v w k n = Some wc \<Longrightarrow> om_name (wc_meta wc) = n \<Longrightarrow> P wc w'"
    and "\<And>w'. v w' = v w \<Longrightarrow> v w k n = None \<Longrightarrow> Q NotFound w'"
    and "\<And>e w'. v w' = v w \<Longrightarrow> e \<noteq> NotFound \<Longrightarrow> Q e w'"
  shows "wp (kc_get_webhook kc k n) P Q w"
proof (rule wpI)
  fix wc w' assume "kc_get_webhook kc k n w = (Ok wc, w')"
  from assms(1) [unfolded webhook_get_law_def, rule_format, OF this] assms(2) show "P wc w'" by simp
next
  fix e w' assume "kc_get_webhook kc k n w = (Err e, w')"
  from assms(1) [unfolded webhook_get_law_def, rule_format, OF this] assms(3,4) show "Q e w'"
    by (cases "e = NotFound") (auto split: kube_error.splits)
qed

lemma deletion_wp:
  assumes "webhook_get_law kc v" "webhook_delete_law kc v"
  shows "wp (act_case (kc_get_webhook kc k n)
       (\<lambda>err. case err of NotFound \<Rightarrow> act_ok () | _ \<Rightarrow> act_err (f err)) (delete_exactly kc k msg))
     (\<lambda>_ w'. v w' = forget k n (v w)) (\<lambda>_ _. True) w"
  unfolding wp_case
proof (rule get_webhook_wp [OF assms(1)])
  fix wc w' assume w': "v w' = v w" "v w k n = Some wc" "om_name (wc_meta wc) = n"
  then have "v w' k n = Some wc" by simp
  from delete_exactly_wp [OF assms(2) this w'(3), of msg] w'(1)
  show "wp (delete_exactly kc k msg wc) (\<lambda>_ w'. v w' = forget k n (v w)) (\<lambda>_ _. True) w'" by simp
qed (auto simp: wp_simps forget_absent split: kube_error.splits)

lemma deleteWebhookConfiguration_wp:
  assumes "webhook_get_law kc v" "webhook_delete_law kc v"
  shows "wp (deleteWebhookConfiguration kc p)
     (\<lambda>_ w'. v w' = forget (kind_of p) (GetUniqueName p) (v w)) (\<lambda>_ _. True) w"
  using deletion_wp [OF assms]
  by (simp add: deleteWebhookConfiguration_def reconcileMutatingWebhookConfigurationDeletion_def
      reconcileValidatingWebhookConfigurationDeletion_def kind_of_def)

lemma legacy_cleanup_of_wp:
  assumes "webhook_get_law kc v" "webhook_delete_law kc v"
  shows "wp (legacy_cleanup_of kc k kn n) (\<lambda>_ w'. v w' = forget_labelled k n (v w)) (\<lambda>_ _. True) w"
  unfolding legacy_cleanup_of_def wp_case
proof (rule get_webhook_wp [OF assms(1)])
  fix wc w' assume w': "v w' = v w" "v w k n = Some wc" "om_name (wc_meta wc) = n"
  then have "v w' k n = Some wc" by simp
  from delete_exactly_wp [OF assms(2) this w'(3)] w'
  show "wp (if hasKubewardenLabel (om_labels (wc_meta wc))
          then delete_exactly kc k (''cannot delete legacy '' @ kn @ '' webhook'') wc else act_ok ())
      (\<lambda>_ w'. v w' = forget_labelled k n (v w)) (\<lambda>_ _. True) w'"
    by (auto simp: wp_simps forget_labelled_def)
qed (auto simp: wp_simps forget_labelled_def split: kube_error.splits)

lemma legacy_name_nonempty: "legacyPolicyUniqueName p \<noteq> []"
  by (cases "DynamicType p") (simp_all add: legacyPolicyUniqueName_def)

lemma legacyCleanup_wp:
  assumes "webhook_get_law kc v" "webhook_delete_law kc v"
  shows "wp (reconcileLegacyWebhookConfigurationCleanup kc p) (\<lambda>_ w'. v w' = forget_legacy p (v w)) (\<lambda>_ _. True) w"
proof -
  have "wp (legacy_cleanup_of kc Validating ''validating'' (legacyPolicyUniqueName p))
     (\<lambda>_. wp (legacy_cleanup_of kc Mutating ''mutating'' (legacyPolicyUniqueName p))
        (\<lambda>_ w'. v w' = forget_legacy p (v w)) (\<lambda>_ _. True)) (\<lambda>_ _. True) w"
    by (rule wp_mono [OF legacy_cleanup_of_wp [OF assms]])
      (auto simp: forget_legacy_def intro: wp_mono [OF legacy_cleanup_of_wp [OF assms]])
  then show ?thesis
    by (simp add: reconcileLegacyWebhookConfigurationCleanup_def legacy_name_nonempty wp_simps Let_def)
qed

text \<open>Removing: no webhook configuration, no finalizer of the controller.\<close>

definition kubewarden_finalizers :: "string list" where
  "kubewarden_finalizers = [KubewardenFinalizer, KubewardenFinalizerPre114]"

lemma finalizers_differ: "KubewardenFinalizer \<noteq> KubewardenFinalizerPre114"
  by (simp add: KubewardenFinalizer_def KubewardenFinalizerPre114_def)

lemma change_meta_same:
  "om_name m = GetName p \<Longrightarrow> om_namespace m = GetNamespace p \<Longrightarrow> same_policy p (change_meta (\<lambda>_. m) p)"
  using same_policyI [of m p "GetStatus p"] by (simp add: change_meta_def)

lemma update_policy_wp:
  assumes "policy_update_law kc" "webhook_frame_law kc v"
  shows "wp (update_policy kc) (\<lambda>_ s'. v (rs_world s') = v (rs_world s) \<and> same_policy (rs_policy s) (rs_policy s') \<and>
       om_finalizers (GetObjectMeta (rs_policy s')) = om_finalizers (GetObjectMeta (rs_policy s)))
     (\<lambda>_ _. True) s"
  unfolding update_policy_def wp_simps
proof (rule wp_keeps [of v])
  show "keeps v (kc_update_policy kc (rs_policy s))" using assms(2) by (simp add: webhook_frame_law_def)
next
  fix q w' assume "kc_update_policy kc (rs_policy s) (rs_world s) = (Ok q, w')" "v w' = v (rs_world s)"
  with assms(1) have "same_policy (rs_policy s) q \<and> om_finalizers (GetObjectMeta q) = om_finalizers (GetObjectMeta (rs_policy s))"
    unfolding policy_update_law_def by blast
  with \<open>v w' = v (rs_world s)\<close>
  show "v (rs_world (s\<lparr>rs_world := w', rs_policy := q\<rparr>)) = v (rs_world s) \<and>
     same_policy (rs_policy s) (rs_policy (s\<lparr>rs_world := w', rs_policy := q\<rparr>)) \<and>
     om_finalizers (GetObjectMeta (rs_policy (s\<lparr>rs_world := w', rs_policy := q\<rparr>))) =
       om_finalizers (GetObjectMeta (rs_policy s))"
    by simp
qed simp

definition withdrawn :: "('w \<Rightarrow> webhooks) \<Rightarrow> Policy \<Rightarrow> 'w \<Rightarrow> 'w rstate \<Rightarrow> bool" where
  "withdrawn v p w s' \<longleftrightarrow>
     v (rs_world s') = forget_legacy p (forget (kind_of p) (GetUniqueName p) (v w)) \<and>
     same_policy p (rs_policy s') \<and>
     set (om_finalizers (GetObjectMeta (rs_policy s'))) \<inter> set kubewarden_finalizers = {}"

lemma removePolicyWebhooksAndFinalizers_wp:
  assumes laws: "api_laws kc v" and fin: "finalizer_laws lib" and p: "rs_policy s = p"
  shows "wp (removePolicyWebhooksAndFinalizers kc lib) (\<lambda>_ s'. withdrawn v p (rs_world s) s') (\<lambda>_ _. True) s"
proof -
  have l: "webhook_get_law kc v" "webhook_delete_law kc v" "webhook_frame_law kc v" "policy_update_law kc"
    using laws by (simp_all add: api_laws_def)
  let ?meta = "GetObjectMeta p"
  let ?m1 = "if lib_contains_finalizer lib ?meta KubewardenFinalizer
    then lib_remove_finalizer lib KubewardenFinalizer ?meta else ?meta"
  let ?m2 = "if lib_contains_finalizer lib ?m1 KubewardenFinalizerPre114
    then lib_remove_finalizer lib KubewardenFinalizerPre114 ?m1 else ?m1"
  have m2: "om_name ?m2 = GetName p" "om_namespace ?m2 = GetNamespace p"
    "set (om_finalizers ?m2) \<inter> set kubewarden_finalizers = {}"
    using fin finalizers_differ by (auto simp: finalizer_laws_def kubewarden_finalizers_def)
  have gone: "withdrawn v p (rs_world s) s'"
    if "v (rs_world s') = forget_legacy p (forget (kind_of p) (GetUniqueName p) (v (rs_world s)))"
      "same_policy (change_meta (\<lambda>_. ?m2) p) (rs_policy s')" "om_finalizers (GetObjectMeta (rs_policy s')) = om_finalizers ?m2" for s'
    using that m2 same_policy_trans [OF change_meta_same [OF m2(1,2)] that(2)] by (simp only: withdrawn_def)
  have step: "wp (if b then act_map_err g (update_policy kc) else act_ok ())
      (\<lambda>_ s'. withdrawn v p (rs_world s) s') (\<lambda>_ _. True) s1"
    if s1: "v (rs_world s1) = forget_legacy p (forget (kind_of p) (GetUniqueName p) (v (rs_world s)))"
      "rs_policy s1 = change_meta (\<lambda>_. ?m2) p" for s1 and b :: bool and g
  proof (cases b)
    case True
    have "wp (update_policy kc) (\<lambda>_ s'. withdrawn v p (rs_world s) s') (\<lambda>_ _. True) s1"
      by (rule wp_mono [OF update_policy_wp [OF l(4,3)]], rule gone)
        (simp_all only: s1 change_meta_def Policy.simps, auto simp: change_meta_def s1)
    with True show ?thesis by (simp add: wp_simps)
  next
    case False
    with gone [of s1] s1 show ?thesis by (simp add: wp_simps change_meta_def)
  qed
  show ?thesis
    unfolding removePolicyWebhooksAndFinalizers_def wp_with_policy wp_then wp_on_world p
    by (rule wp_mono [OF deleteWebhookConfiguration_wp [OF l(1,2)]],
        rule wp_mono [OF legacyCleanup_wp [OF l(1,2)]])
      (simp_all only: Let_def wp_then wp_on_policy, rule step, simp_all add: p)
qed

text \<open>Enforcing: one webhook that sends the matching requests to the policy server under the unique name.\<close>

lemma webhook_path:
  assumes "CHR ''/'' \<notin> set name" "name \<notin> {[], ''.'', ''..''}"
  shows "filepath_Join [''/validate'', name] = ''/validate/'' @ name"
proof -
  have "split_on (CHR ''/'') (''/validate/'' @ name) = [[], ''validate'', name]"
    using split_join_on [of "[[], ''validate'', name]" "CHR ''/''"] assms(1) by (simp del: split_on.simps(2))
  with assms(2) show ?thesis by (simp add: filepath_Join_def filepath_Clean_def Let_def del: split_on.simps(2))
qed

lemma unique_name_path:
  assumes "is_policy p" "well_named p"
  shows "filepath_Join [''/validate'', GetUniqueName p] = ''/validate/'' @ GetUniqueName p"
  using unique_name_slash_free [OF assms] unique_name_prefix [OF assms(1)] by (intro webhook_path) (auto simp: prefix_def)

definition enforced :: "policySubReconciler \<Rightarrow> Policy \<Rightarrow> string \<Rightarrow> webhooks \<Rightarrow> bool" where
  "enforced r p server v \<longleftrightarrow>
     (\<exists>wc wh. v (kind_of p) (GetUniqueName p) = Some wc \<and> wc_webhooks wc = [wh] \<and>
        wh_service wh = \<lparr>svcref_namespace = deploymentsNamespace r, svcref_name = server,
          svcref_path = Some (''/validate/'' @ GetUniqueName p), svcref_port = Some PolicyServerServicePort\<rparr> \<and>
        wh_rules wh = GetRules p \<and> wh_failurePolicy wh = GetFailurePolicy p \<and> wh_matchPolicy wh = GetMatchPolicy p \<and>
        wh_namespaceSelector wh = namespaceSelector r p \<and> wh_objectSelector wh = GetObjectSelector p \<and>
        wh_timeoutSeconds wh = GetTimeoutSeconds p \<and>
        (featureGateAdmissionWebhookMatchConditions r \<longrightarrow> wh_matchConditions wh = GetMatchConditions p))"

lemma webhook_of_enforced:
  assumes "is_policy p" "well_named p" "v (kind_of p) (GetUniqueName p) = Some wc"
    and "wc_webhooks wc = wc_webhooks (webhook_of r p secret server base)"
  shows "enforced r p server v"
  using assms(3,4) unfolding enforced_def by (auto simp: webhook_of_def Let_def unique_name_path [OF assms(1,2)])

lemma reconcileWebhookConfiguration_wp:
  assumes "webhook_write_law kc v" "is_policy p" "well_named p" "same_policy p q"
  shows "wp (reconcileWebhookConfiguration kc r q secret server) (\<lambda>_ w'. enforced r p server (v w')) (\<lambda>_ _. True) w"
proof -
  let ?fresh = "\<lparr>wc_meta = meta_named (GetUniqueName q), wc_webhooks = []\<rparr>"
  have "wp (kc_create_or_update_webhook kc (kind_of p) ?fresh (webhook_of r q secret server))
      (\<lambda>_ w'. enforced r p server (v w')) (\<lambda>_ _. True) w"
  proof (rule wpI)
    fix a w' assume "kc_create_or_update_webhook kc (kind_of p) ?fresh (webhook_of r q secret server) w = (Ok a, w')"
    from assms(1) [unfolded webhook_write_law_def, rule_format, OF this] obtain wc base where
      "v w' (kind_of p) (GetUniqueName p) = Some wc" "wc_webhooks wc = wc_webhooks (webhook_of r p secret server base)"
      by (auto simp: Let_def meta_named_def same_policy_fields [OF assms(4)])
    then show "enforced r p server (v w')" by (rule webhook_of_enforced [OF assms(2,3)])
  qed simp
  then show ?thesis
    by (cases "IsMutating p")
      (simp_all add: reconcileWebhookConfiguration_def reconcileMutatingWebhookConfiguration_def
        reconcileValidatingWebhookConfiguration_def wp_simps kind_of_def same_policy_fields(2) [OF assms(4)])
qed

lemma enforced_forget_legacy:
  assumes "is_policy p" "enforced r p server v"
  shows "enforced r p server (forget_legacy q v)"
proof -
  have "forget_legacy q v (kind_of p) (GetUniqueName p) = v (kind_of p) (GetUniqueName p)"
    using legacy_not_unique [OF assms(1), of q] by (simp add: forget_legacy_def forget_labelled_other)
  with assms(2) show ?thesis by (simp add: enforced_def)
qed

definition active :: "Policy \<Rightarrow> bool" where
  "active p \<longleftrightarrow> ps_policyStatus (GetStatus p) = Some PolicyStatusActive \<and>
     condition_status PolicyActive (ps_conditions (GetStatus p)) = Some ''True''"

lemma set_condition_same: "same_policy p q \<Longrightarrow> same_policy p (set_condition lib c q)"
proof (rule same_policy_trans, assumption)
  show "same_policy q (set_condition lib c q)"
    using same_policyI [of "GetObjectMeta q" q] by (simp add: set_condition_def)
qed

lemma SetStatus_same: "same_policy p q \<Longrightarrow> same_policy p (SetStatus st q)"
proof (rule same_policy_trans, assumption)
  show "same_policy q (SetStatus st q)"
    using same_policyI [of "GetObjectMeta q" q] by (simp add: SetStatus_def)
qed

definition inactive :: "Policy \<Rightarrow> bool" where
  "inactive p \<longleftrightarrow> condition_status PolicyActive (ps_conditions (GetStatus p)) = Some ''False''"

lemma inactive_not_active: "inactive p \<Longrightarrow> \<not> active p"
  by (simp add: inactive_def active_def)

lemma set_condition_other:
  assumes "condition_laws lib" "cond_type c \<noteq> PolicyActive"
  shows "inactive (set_condition lib c p) = inactive p" "active (set_condition lib c p) = active p"
  using assms by (simp_all add: inactive_def active_def set_condition_def condition_laws_def)

lemma set_condition_False:
  "condition_laws lib \<Longrightarrow> cond_type c = PolicyActive \<Longrightarrow> cond_status c = ''False'' \<Longrightarrow> inactive (set_condition lib c p)"
  by (simp add: inactive_def set_condition_def condition_laws_def)

lemma SetStatus_inactive [simp]: "inactive (SetStatus st p) = inactive p"
  by (simp add: inactive_def SetStatus_def)

lemma status_simps [simp]:
  "ps_policyStatus (GetStatus (SetStatus st p)) = Some st"
  "ps_policyStatus (GetStatus (set_condition lib c p)) = ps_policyStatus (GetStatus p)"
  "GetObjectMeta (SetStatus st p) = GetObjectMeta p" "GetObjectMeta (set_condition lib c p) = GetObjectMeta p"
  by (simp_all add: SetStatus_def set_condition_def)

lemma condition_types [simp]:
  "PolicyUniquelyReachable \<noteq> PolicyActive" "PolicyServerConfigurationUpToDate \<noteq> PolicyActive"
  by (simp_all add: PolicyUniquelyReachable_def PolicyActive_def PolicyServerConfigurationUpToDate_def)

lemma enforce_policy_wp:
  assumes laws: "api_laws kc v" and fin: "finalizer_laws lib" and p: "is_policy p" "well_named p"
    and s: "same_policy p (rs_policy s)"
  shows "wp (enforce_policy kc lib r secret server)
     (\<lambda>_ s'. same_policy p (rs_policy s') \<and> enforced r p server (v (rs_world s')) \<and>
        ps_policyStatus (GetStatus (rs_policy s')) = Some PolicyStatusActive) (\<lambda>_ _. True) s"
proof -
  have l: "webhook_get_law kc v" "webhook_delete_law kc v" "webhook_frame_law kc v" "policy_update_law kc"
    "webhook_write_law kc v" using laws by (simp_all add: api_laws_def)
  let ?Post = "\<lambda>_ s'. same_policy p (rs_policy s') \<and> enforced r p server (v (rs_world s')) \<and>
        ps_policyStatus (GetStatus (rs_policy s')) = Some PolicyStatusActive"
  let ?put = "with_policy (\<lambda>policy.
       act_then (on_world (reconcileWebhookConfiguration kc r policy secret server)) (\<lambda>_.
       act_then (act_map_err (\<lambda>err. ''error cleaning up legacy webhook configurations'' @ [CHR 10] @ err)
                   (on_world (reconcileLegacyWebhookConfigurationCleanup kc policy))) (\<lambda>_.
       act_then (on_policy (setPolicyAsActive lib)) (\<lambda>_. act_ok Result_zero))))"
  have write_ok: "wp ?put ?Post (\<lambda>_ _. True) s1" if s1: "same_policy p (rs_policy s1)" for s1
  proof -
    have "wp (reconcileWebhookConfiguration kc r (rs_policy s1) secret server)
        (\<lambda>_. wp (reconcileLegacyWebhookConfigurationCleanup kc (rs_policy s1))
           (\<lambda>_ w'. enforced r p server (v w')) (\<lambda>_ _. True)) (\<lambda>_ _. True) (rs_world s1)"
      by (rule wp_mono [OF reconcileWebhookConfiguration_wp [OF l(5) p s1]])
        (auto intro!: wp_mono [OF legacyCleanup_wp [OF l(1,2)]] enforced_forget_legacy [OF p(1)])
    moreover have "same_policy p (setPolicyAsActive lib (rs_policy s1))"
      "ps_policyStatus (GetStatus (setPolicyAsActive lib (rs_policy s1))) = Some PolicyStatusActive"
      unfolding setPolicyAsActive_def
      by (intro set_condition_same SetStatus_same s1) (simp add: set_condition_def SetStatus_def)
    ultimately show ?thesis by (simp add: wp_simps)
  qed
  let ?s = "s\<lparr>rs_policy := set_condition lib reachable_condition (rs_policy s)\<rparr>"
  have s': "same_policy p (rs_policy ?s)" using set_condition_same [OF s] by simp
  let ?s2 = "?s\<lparr>rs_policy := change_meta (lib_add_finalizer lib KubewardenFinalizer) (rs_policy ?s)\<rparr>"
  have "om_name (lib_add_finalizer lib KubewardenFinalizer m) = om_name m"
    "om_namespace (lib_add_finalizer lib KubewardenFinalizer m) = om_namespace m" for m
    using fin unfolding finalizer_laws_def by (metis ObjectMeta.select_convs(1,2) ObjectMeta.surjective ObjectMeta.update_convs(7))+
  then have s2: "same_policy p (rs_policy ?s2)"
    using same_policy_trans [OF s' change_meta_same [of "lib_add_finalizer lib KubewardenFinalizer (GetObjectMeta (rs_policy ?s))"]]
    by (simp add: change_meta_def)
  have "wp (update_policy kc) (\<lambda>_. wp ?put ?Post (\<lambda>_ _. True)) (\<lambda>_ _. True) ?s2"
    by (rule wp_mono [OF update_policy_wp [OF l(4,3)]], rule write_ok) (use s2 same_policy_trans in blast, simp)
  with write_ok [OF s'] show ?thesis
    unfolding enforce_policy_def by (simp add: wp_then wp_on_policy wp_with_policy wp_map_err wp_ok del: wp_on_world)
qed

text \<open>
  What the reconciler saw: a config map of the policy server with the policy in it, and a
  configuration of the controller that lets the policy through.
\<close>

definition seen_served :: "'w kube_client \<Rightarrow> 'l controller_library_scheme \<Rightarrow> string \<Rightarrow> bool" where
  "seen_served kc lib name \<longleftrightarrow>
     (\<exists>ns n w cm w'. kc_get_configmap kc ns n w = (Ok cm, w') \<and> isPolicyInConfigMap (lib_configmap lib) cm name)"

definition seen_permitted :: "'w kube_client \<Rightarrow> 'l controller_library_scheme \<Rightarrow> policySubReconciler \<Rightarrow> Policy \<Rightarrow> bool" where
  "seen_permitted kc lib r p \<longleftrightarrow>
     (\<exists>w got w' config. kc_get_configmap kc (deploymentsNamespace r) (controllerConfigMapName r) w = (got, w') \<and>
        loadControllerConfig (lib_decode_config lib) (deploymentsNamespace r) (controllerConfigMapName r)
          (map_ok cm_data got) = Ok config \<and>
        fst (isNamespacedPolicyAllowed p (cc_namespacedPoliciesAllowedResources config)))"

lemma isPolicyUniquelyReachable_wp:
  assumes "webhook_frame_law kc v"
  shows "wp (isPolicyUniquelyReachable kc lib d name)
     (\<lambda>reachable w'. v w' = v w \<and> (reachable \<longrightarrow> seen_served kc lib name)) (\<lambda>_ _. True) w"
proof -
  have k: "keeps v (kc_get_configmap kc ns n)" "keeps v (kc_list_replicasets kc ns ls)"
    "keeps v (kc_list_pods kc ns ls)" for ns n ls using assms by (simp_all add: webhook_frame_law_def)
  let ?ns = "om_namespace (d_meta d)"
    and ?labels = "[(PolicyServerLabelKey, map_str (om_labels (d_meta d)) PolicyServerLabelKey)]"
  let ?Post = "\<lambda>reachable w'. v w' = v w \<and> (reachable \<longrightarrow> seen_served kc lib name)"
  show ?thesis
    unfolding isPolicyUniquelyReachable_def Let_def wp_case wp_ok
  proof (rule wp_keeps [OF k(1)])
    fix cm w1 assume got: "kc_get_configmap kc ?ns (om_name (d_meta d)) w = (Ok cm, w1)" and w1: "v w1 = v w"
    show "wp (if \<not> isPolicyInConfigMap (lib_configmap lib) cm name then act_ok False
        else act_case (kc_list_replicasets kc ?ns ?labels) (\<lambda>_. act_ok False) (\<lambda>replicaSets.
          if (case find (\<lambda>rs. isLatestReplicaSetFromPolicyServerDeployment rs d (om_resourceVersion (cm_meta cm))) replicaSets of
                None \<Rightarrow> [] | Some rs \<Rightarrow> map_str (om_labels (rset_meta rs)) DefaultDeploymentUniqueLabelKey) = []
          then act_ok False
          else act_case (kc_list_pods kc ?ns ?labels) (\<lambda>_. act_ok False) (\<lambda>pods.
            act_ok (pods \<noteq> [] \<and> list_all (\<lambda>pod. map_str (om_labels (pod_meta pod)) DefaultDeploymentUniqueLabelKey =
              (case find (\<lambda>rs. isLatestReplicaSetFromPolicyServerDeployment rs d (om_resourceVersion (cm_meta cm))) replicaSets of
                None \<Rightarrow> [] | Some rs \<Rightarrow> map_str (om_labels (rset_meta rs)) DefaultDeploymentUniqueLabelKey) \<and>
              isPodReady pod) pods)))) ?Post (\<lambda>_ _. True) w1"
    proof (cases "isPolicyInConfigMap (lib_configmap lib) cm name")
      case True
      with got have "seen_served kc lib name" unfolding seen_served_def by blast
      then show ?thesis
        by (auto simp: True wp_case wp_ok w1 intro!: wp_keeps [OF k(2)] wp_keeps [OF k(3)])
    qed (simp add: wp_ok w1)
  qed simp
qed

lemma reconcile_with_server_wp:
  assumes laws: "api_laws kc v" and fin: "finalizer_laws lib" and cond: "condition_laws lib"
    and p: "is_policy p" "well_named p" and s: "same_policy p (rs_policy s)" "inactive (rs_policy s)"
  shows "wp (reconcile_with_server kc lib r server)
     (\<lambda>_ s'. same_policy p (rs_policy s') \<and>
        ps_policyStatus (GetStatus (rs_policy s')) \<in> {Some PolicyStatusActive, Some PolicyStatusPending} \<and>
        (active (rs_policy s') \<longrightarrow>
           enforced r p (NameWithPrefix server) (v (rs_world s')) \<and> seen_served kc lib (GetUniqueName p)))
     (\<lambda>_ _. True) s"
proof -
  have frame: "webhook_frame_law kc v" using laws by (simp add: api_laws_def)
  then have k: "keeps v (kc_get_deployment kc ns n)" "keeps v (kc_get_secret kc ns n)" for ns n
    by (simp_all add: webhook_frame_law_def)
  let ?pol = "\<lambda>policy. if ps_policyStatus (GetStatus policy) \<noteq> Some PolicyStatusActive
      then SetStatus PolicyStatusPending policy else policy"
  let ?ok = "\<lambda>q. same_policy p q \<and> inactive q \<and>
      ps_policyStatus (GetStatus q) \<in> {Some PolicyStatusActive, Some PolicyStatusPending}"
  let ?Post = "\<lambda>_ s'. same_policy p (rs_policy s') \<and>
        ps_policyStatus (GetStatus (rs_policy s')) \<in> {Some PolicyStatusActive, Some PolicyStatusPending} \<and>
        (active (rs_policy s') \<longrightarrow>
           enforced r p (NameWithPrefix server) (v (rs_world s')) \<and> seen_served kc lib (GetUniqueName p))"
  have q: "?ok (?pol (rs_policy s))"
    using s SetStatus_same [OF s(1)] by auto
  have idle: "?Post res s1" if "?ok (rs_policy s1)" for s1 res
    using that inactive_not_active by blast
  have rest: "wp (if \<not> reachable then act_then (on_policy (set_condition lib not_reachable_condition)) (\<lambda>_.
             act_ok \<lparr>res_Requeue = True, res_RequeueAfter = TimeToRequeuePolicyReconciliation\<rparr>)
         else enforce_policy kc lib r secret (NameWithPrefix server)) ?Post (\<lambda>_ _. True) s1"
    if "?ok (rs_policy s1)" "reachable \<longrightarrow> seen_served kc lib (GetUniqueName p)" for reachable secret s1
  proof (cases reachable)
    case True
    with that(2) have "seen_served kc lib (GetUniqueName p)" by simp
    with that(1) True show ?thesis
      by (simp add: wp_if) (auto intro!: wp_mono [OF enforce_policy_wp [OF laws fin p]])
  next
    case False
    have "?ok (set_condition lib not_reachable_condition (rs_policy s1))"
      using that(1) set_condition_same set_condition_other(1) [OF cond]
      by (auto simp: not_reachable_condition_def)
    with False idle [of "s1\<lparr>rs_policy := set_condition lib not_reachable_condition (rs_policy s1)\<rparr>"]
    show ?thesis by (simp add: wp_simps)
  qed
  define q where "q = ?pol (rs_policy s)"
  have q': "?ok q" using q by (simp only: q_def)
  have name: "GetUniqueName q = GetUniqueName p" using q' same_policy_fields(1) by blast
  show ?thesis
    unfolding reconcile_with_server_def wp_then wp_on_policy wp_with_policy wp_case wp_map_err wp_on_world
      q_def [symmetric] rstate.simps name
  proof (rule wp_keeps [OF k(1)], goal_cases)
    case (1 d w1)
    show ?case
    proof (rule wp_keeps [OF k(2)], goal_cases)
      case (1 secret w2)
      show ?case
        by (rule wp_mono [OF isPolicyUniquelyReachable_wp [OF frame]], rule rest)
          (use q' name in simp_all)
    qed simp
  next
    case (2 e w1)
    have "?Post res (s\<lparr>rs_policy := q, rs_world := w1\<rparr>)" for res by (rule idle) (use q' in simp)
    then show ?case by (cases e) (simp_all add: wp_ok wp_err)
  qed
qed

lemma withdrawn_status:
  "withdrawn v p w s' \<Longrightarrow> withdrawn v p w (s'\<lparr>rs_policy := SetStatus st (rs_policy s')\<rparr>)"
  "withdrawn v p w s' \<Longrightarrow> withdrawn v p w (s'\<lparr>rs_policy := set_condition lib c (rs_policy s')\<rparr>)"
  by (simp_all add: withdrawn_def set_condition_same SetStatus_same)

lemma AllowList_wp:
  assumes laws: "api_laws kc v" and fin: "finalizer_laws lib" and cond: "condition_laws lib"
    and s: "rs_policy s = p" "inactive p"
  shows "wp (reconcileNamespacedPolicyAllowList kc lib r)
     (\<lambda>rejected s'.
        if rejected then withdrawn v p (rs_world s) s' \<and> inactive (rs_policy s') \<and>
          ps_policyStatus (GetStatus (rs_policy s')) = Some PolicyStatusRejected
        else rs_policy s' = p \<and> v (rs_world s') = v (rs_world s) \<and>
          (GetNamespace p \<noteq> [] \<longrightarrow> seen_permitted kc lib r p))
     (\<lambda>_ _. True) s"
proof -
  let ?Post = "\<lambda>rejected s'.
        if rejected then withdrawn v p (rs_world s) s' \<and> inactive (rs_policy s') \<and>
          ps_policyStatus (GetStatus (rs_policy s')) = Some PolicyStatusRejected
        else rs_policy s' = p \<and> v (rs_world s') = v (rs_world s) \<and>
          (GetNamespace p \<noteq> [] \<longrightarrow> seen_permitted kc lib r p)"
  let ?load = "\<lambda>got. loadControllerConfig (lib_decode_config lib) (deploymentsNamespace r) (controllerConfigMapName r)
      (map_ok cm_data got)"
  have "keeps v (kc_get_configmap kc ns n)" for ns n using laws by (simp add: api_laws_def webhook_frame_law_def)
  note k = this
  have reject: "wp (act_then (removePolicyWebhooksAndFinalizers kc lib) (\<lambda>_.
      act_then (on_policy (SetStatus PolicyStatusRejected)) (\<lambda>_.
      act_then (on_policy (set_condition lib \<lparr>cond_type = PolicyActive, cond_status = ''False'',
        cond_reason = PolicyReasonResourcesNotAllowed, cond_message = msg\<rparr>)) (\<lambda>_. act_ok True)))) ?Post (\<lambda>_ _. True) s1"
    if s1: "rs_policy s1 = p" "v (rs_world s1) = v (rs_world s)" for msg s1
    unfolding wp_then wp_on_policy wp_ok
  proof (rule wp_mono [OF removePolicyWebhooksAndFinalizers_wp [OF laws fin s1(1)]])
    fix a s' assume "withdrawn v p (rs_world s1) s'"
    then have "withdrawn v p (rs_world s) s'" using s1(2) by (simp add: withdrawn_def)
    note withdrawn_status(2) [OF withdrawn_status(1) [OF this, of PolicyStatusRejected]]
    then show "?Post True (s'\<lparr>rs_policy := SetStatus PolicyStatusRejected (rs_policy s'), rs_policy :=
        set_condition lib \<lparr>cond_type = PolicyActive, cond_status = ''False'',
          cond_reason = PolicyReasonResourcesNotAllowed, cond_message = msg\<rparr>
          (rs_policy (s'\<lparr>rs_policy := SetStatus PolicyStatusRejected (rs_policy s')\<rparr>))\<rparr>)"
      using set_condition_False [OF cond] by simp
  qed simp
  have judged: "wp (act_then (act_pure (?load got)) (\<lambda>config.
             let allowed = cc_namespacedPoliciesAllowedResources config;
                 (isAllowed, disallowed) = isNamespacedPolicyAllowed p allowed in
             if isAllowed then act_ok False
             else
               act_then (removePolicyWebhooksAndFinalizers kc lib) (\<lambda>_.
               act_then (on_policy (SetStatus PolicyStatusRejected)) (\<lambda>_.
               act_then (on_policy (set_condition lib
                   \<lparr>cond_type = PolicyActive, cond_status = ''False'', cond_reason = PolicyReasonResourcesNotAllowed,
                    cond_message = namespacedPolicyRejectedMessage disallowed allowed (controllerConfigMapName r)\<rparr>)) (\<lambda>_.
                 act_ok True))))) ?Post (\<lambda>_ _. True) (s\<lparr>rs_world := w1\<rparr>)"
    if got: "kc_get_configmap kc (deploymentsNamespace r) (controllerConfigMapName r) (rs_world s) = (got, w1)"
      "v w1 = v (rs_world s)" for got w1
  proof (cases "?load got")
    case (Inr config)
    show ?thesis
    proof (cases "isNamespacedPolicyAllowed p (cc_namespacedPoliciesAllowedResources config)")
      case (Pair isAllowed disallowed)
      show ?thesis
      proof (cases isAllowed)
        case True
        with got Inr Pair have "seen_permitted kc lib r p"
          unfolding seen_permitted_def by (metis fst_conv)
        then show ?thesis by (simp add: Inr Pair True Let_def wp_then wp_pure wp_ok s got(2))
      next
        case False
        have "rs_policy (s\<lparr>rs_world := w1\<rparr>) = p" "v (rs_world (s\<lparr>rs_world := w1\<rparr>)) = v (rs_world s)"
          using got(2) s by simp_all
        from reject [OF this] show ?thesis
          by (simp only: Inr Pair False Let_def wp_then [of "act_pure _"] wp_pure sum.case prod.case if_False)
      qed
    qed
  qed (simp add: wp_then wp_pure)
  show ?thesis
  proof (cases "GetNamespace p = []")
    case False
    then show ?thesis
      unfolding reconcileNamespacedPolicyAllowList_def wp_with_policy s(1) if_not_P [OF False] wp_then [of "act_try _"] wp_try wp_on_world
      by (intro wp_keeps [OF k] judged) simp_all
  qed (simp add: reconcileNamespacedPolicyAllowList_def wp_with_policy s wp_ok)
qed

end
