(* ===== verification/Policies_Deployment.thy ===== *)
theory Policies_Deployment
  imports Policies_ConfigMap "HOL-Library.Countable"
begin

text \<open>
  The way of a policy from the controller to the policy server, and back.  The controller
  writes the policies of a policy server into a config map; the policy server reads its
  configuration from there, and the controller reads it to see whether a policy has arrived.
  The properties compose the admission webhooks, the writer of the config map, the two readers
  and the start-up checks of the policy server.
\<close>

section \<open>What the controller reads back\<close>

text \<open>
  An entry after it was written and read: settings in the text of the printer, and only the
  members that the kind of entry has.
\<close>

definition reread_settings :: "configmap_library \<Rightarrow> string option \<Rightarrow> string option" where
  "reread_settings lib raw =
     (case raw of None \<Rightarrow> None
      | Some t \<Rightarrow> (case cml_parse lib t of None \<Rightarrow> None | Some JNull \<Rightarrow> None | Some v \<Rightarrow> Some (cml_print lib v)))"

definition reread_member :: "configmap_library \<Rightarrow> policyGroupMemberConfig \<Rightarrow> policyGroupMemberConfig" where
  "reread_member lib m = m\<lparr>m_settings := reread_settings lib (m_settings m)\<rparr>"

definition reread_entry :: "configmap_library \<Rightarrow> policyServerConfigEntry \<Rightarrow> policyServerConfigEntry" where
  "reread_entry lib e =
     (if e_policies e \<noteq> [] then
        e\<lparr>e_module := [], e_allowedToMutate := False, e_contextAwareResources := [], e_settings := None,
          e_timeoutEvalSeconds := None, e_hostCapabilities := [],
          e_policies := map (\<lambda>(k, m). (k, reread_member lib m)) (sort_key fst (e_policies e))\<rparr>
      else e\<lparr>e_settings := reread_settings lib (e_settings e), e_expression := []\<rparr>)"

definition writable :: "configmap_library \<Rightarrow> policyServerConfigEntry \<Rightarrow> bool" where
  "writable lib e \<longleftrightarrow>
     schema_settings (cml_parse lib) (e_settings e) \<and> schema_timeout (e_timeoutEvalSeconds e) \<and>
     (\<forall>(k, m)\<in>set (e_policies e).
        schema_settings (cml_parse lib) (m_settings m) \<and> schema_timeout (m_timeoutEvalSeconds m))"

lemma go_int32_json: "0 \<le> sint t \<Longrightarrow> go_int32 (json_text_of_int32 t) = Ok t"
proof -
  assume t: "0 \<le> sint t"
  have lt: "sint t < 2 ^ 31" using sint_lt [of t] by simp
  then have "nat (sint t) < 2 ^ 64" by simp
  from parse_show_u64 [OF this] have p: "parse_u64 (show_nat (nat (sint t))) = Ok (nat (sint t))" .
  obtain c cs where c: "show_nat (nat (sint t)) = c # cs" "(48 :: nat) \<le> of_char c" using show_nat_Cons by blast
  then have "c \<noteq> CHR ''-''" by auto
  moreover have "nat (sint t) < 2 ^ 31" using lt by simp
  moreover have "word_of_nat (nat (sint t)) = t" using t by (simp flip: word_of_int_nat)
  ultimately show ?thesis
    using p t c(1) by (simp add: json_text_of_int32_def show_int_def)
qed

lemma go_resources: "de_seq go_resource (json_resources rs) = Ok rs"
proof -
  have "collect_map go_resource
      (map (\<lambda>r. JObject [(''apiVersion'', JString (carv_apiVersion r)), (''kind'', JString (carv_kind r))]) rs) = Ok rs"
    by (induction rs) (simp_all add: go_resource_def go_field_def)
  then show ?thesis by (simp add: json_resources_def)
qed

lemma go_settings:
  assumes "schema_settings (cml_parse lib) raw" "json_RawExtension (cml_parse lib) raw = Ok j"
    and "map_of ms ''settings'' = Some j"
  shows "go_field ''settings'' None (\<lambda>v. Ok (Some (cml_print lib v))) ms = Ok (reread_settings lib raw)"
  using assms
  by (auto simp: json_RawExtension_def go_field_def reread_settings_def schema_settings_def
      split: option.splits json.splits)

lemma go_timeout:
  assumes "schema_timeout t"
    and "map_of ms ''timeoutEvalSeconds'' = map_option json_text_of_int32 t"
  shows "go_field ''timeoutEvalSeconds'' None (\<lambda>v. map_ok Some (go_int32 v)) ms = Ok t"
  using assms go_int32_json
  by (cases t) (auto simp: go_field_def schema_timeout_def json_text_of_int32_def simp del: go_int32.simps)

lemma go_member_reads:
  assumes "schema_settings (cml_parse lib) (m_settings m)" "schema_timeout (m_timeoutEvalSeconds m)"
  shows "\<exists>j. json_of_member (cml_parse lib) m = Ok j \<and> go_member (cml_print lib) j = Ok (reread_member lib m)"
proof -
  obtain j where j: "json_RawExtension (cml_parse lib) (m_settings m) = Ok j"
    using json_RawExtension_decodes [OF assms(1)] by blast
  define ms where "ms = [(''module'', JString (m_module m)), (''settings'', j)] @
      omit_if (m_contextAwareResources m = []) ''contextAwareResources'' (json_resources (m_contextAwareResources m)) @
      omit_none ''timeoutEvalSeconds'' json_text_of_int32 (m_timeoutEvalSeconds m) @
      [(''hostCapabilities'', JArray (map JString (m_hostCapabilities m)))]"
  note omit = ms_def omit_if_def omit_none_def
  have "go_field ''module'' [] de_string ms = Ok (m_module m)" by (simp add: ms_def go_field_def)
  moreover have "go_field ''settings'' None (\<lambda>v. Ok (Some (cml_print lib v))) ms = Ok (reread_settings lib (m_settings m))"
    using assms(1) j by (rule go_settings) (simp add: ms_def)
  moreover have "go_field ''contextAwareResources'' [] (de_seq go_resource) ms = Ok (m_contextAwareResources m)"
    using go_resources [of "m_contextAwareResources m"]
    by (simp add: omit go_field_def json_resources_def split: option.splits del: de_seq.simps)
  moreover have "go_field ''timeoutEvalSeconds'' None (\<lambda>v. map_ok Some (go_int32 v)) ms = Ok (m_timeoutEvalSeconds m)"
    using assms(2) by (rule go_timeout) (simp add: omit split: option.splits)
  moreover have "go_field ''hostCapabilities'' [] (de_seq de_string) ms = Ok (m_hostCapabilities m)"
    by (simp add: omit go_field_def split: option.splits del: de_seq.simps)
  ultimately have "go_member (cml_print lib) (JObject ms) = Ok (reread_member lib m)"
    by (simp add: go_member_def reread_member_def)
  moreover have "json_of_member (cml_parse lib) m = Ok (JObject ms)"
    by (simp add: json_of_member_def j ms_def)
  ultimately show ?thesis by blast
qed

lemma go_name:
  "map_of ms ''namespacedName'' = Some (json_NamespacedName e) \<Longrightarrow>
   go_field ''namespacedName'' ([], []) (de_object (\<lambda>nn.
     try_then (go_field ''Namespace'' [] de_string nn) (\<lambda>ns.
     try_then (go_field ''Name'' [] de_string nn) (\<lambda>n. Ok (ns, n))))) ms = Ok (e_namespace e, e_name e)"
  by (simp add: go_field_def json_NamespacedName_def)

lemma go_group_reads:
  assumes "writable lib e" "e_policies e \<noteq> []"
  shows "\<exists>j. policyServerConfigEntry_MarshalJSON (cml_parse lib) e = Ok j \<and>
    policyServerConfigEntry_UnmarshalJSON (cml_print lib) j = Ok (reread_entry lib e)"
proof -
  have "\<exists>j. json_of_member (cml_parse lib) m = Ok j \<and> go_member (cml_print lib) j = Ok (reread_member lib m)"
    if "(k, m) \<in> set (e_policies e)" for k m
    using go_member_reads assms(1) that by (auto simp: writable_def)
  then obtain js where
    js: "json_of_map (json_of_member (cml_parse lib)) (e_policies e) = Ok (JObject js)"
      "collect_map (\<lambda>(k, v). try_then (go_member (cml_print lib) v) (\<lambda>p. Ok (k, p))) js =
        Ok (map (\<lambda>(k, x). (k, reread_member lib x)) (sort_key fst (e_policies e)))"
    using json_of_map_decode [of "e_policies e" "json_of_member (cml_parse lib)" "go_member (cml_print lib)"
      "reread_member lib"] by blast
  define ms where "ms =
      [(''namespacedName'', json_NamespacedName e), (''policyMode'', JString (e_policyMode e)),
       (''policies'', JObject js), (''expression'', JString (e_expression e)), (''message'', JString (e_message e))]"
  have "policyServerConfigEntry_MarshalJSON (cml_parse lib) e = Ok (JObject ms)"
    using assms(2) by (simp add: policyServerConfigEntry_MarshalJSON_def js ms_def)
  moreover have "sort_key fst (e_policies e) \<noteq> []" using assms(2) by (metis set_empty set_sort)
  moreover have "go_field ''policies'' [] (go_map (go_member (cml_print lib))) ms =
      Ok (map (\<lambda>(k, x). (k, reread_member lib x)) (sort_key fst (e_policies e)))"
    by (simp add: ms_def go_field_def go_map_def js)
  moreover note go_name [of ms e]
  ultimately show ?thesis
    using assms(2)
    by (simp add: policyServerConfigEntry_UnmarshalJSON_def go_config_entry_def)
       (simp add: ms_def go_field_def [of "''module''"] go_field_def [of "''policyMode''"]
          go_field_def [of "''allowedToMutate''"] go_field_def [of "''contextAwareResources''"]
          go_field_def [of "''settings''"] go_field_def [of "''message''"]
          go_field_def [of "''timeoutEvalSeconds''"] go_field_def [of "''hostCapabilities''"]
          go_field_def [of "''expression''"] reread_entry_def)
qed

text \<open>An individual policy is read back if it has a module, and refused if it has none.\<close>

lemma go_individual_reads:
  assumes "writable lib e" "e_policies e = []"
  shows "\<exists>j. policyServerConfigEntry_MarshalJSON (cml_parse lib) e = Ok j \<and>
    policyServerConfigEntry_UnmarshalJSON (cml_print lib) j =
      (if e_module e = [] then Err ''policies JSON should have an URL or a list of policies to be evaluated''
       else Ok (reread_entry lib e))"
proof -
  have schema: "schema_settings (cml_parse lib) (e_settings e)" "schema_timeout (e_timeoutEvalSeconds e)"
    using assms(1) by (simp_all add: writable_def)
  obtain j where j: "json_RawExtension (cml_parse lib) (e_settings e) = Ok j"
    using json_RawExtension_decodes [OF schema(1)] by blast
  define ms where "ms =
      [(''namespacedName'', json_NamespacedName e), (''module'', JString (e_module e)),
       (''policyMode'', JString (e_policyMode e)), (''allowedToMutate'', JBool (e_allowedToMutate e))] @
      omit_if (e_contextAwareResources e = []) ''contextAwareResources'' (json_resources (e_contextAwareResources e)) @
      [(''settings'', j)] @
      omit_if (e_message e = []) ''message'' (JString (e_message e)) @
      omit_none ''timeoutEvalSeconds'' json_text_of_int32 (e_timeoutEvalSeconds e) @
      [(''hostCapabilities'', JArray (map JString (e_hostCapabilities e)))]"
  note omit = ms_def omit_if_def omit_none_def
  have "policyServerConfigEntry_MarshalJSON (cml_parse lib) e = Ok (JObject ms)"
    using assms(2) by (simp add: policyServerConfigEntry_MarshalJSON_def j ms_def)
  moreover have "go_field ''module'' [] de_string ms = Ok (e_module e)"
    "go_field ''policyMode'' [] de_string ms = Ok (e_policyMode e)"
    "go_field ''allowedToMutate'' False de_bool ms = Ok (e_allowedToMutate e)"
    by (simp_all add: ms_def go_field_def)
  moreover have "go_field ''contextAwareResources'' [] (de_seq go_resource) ms = Ok (e_contextAwareResources e)"
    using go_resources [of "e_contextAwareResources e"]
    by (simp add: omit go_field_def json_resources_def split: option.splits del: de_seq.simps)
  moreover have "go_field ''settings'' None (\<lambda>v. Ok (Some (cml_print lib v))) ms = Ok (reread_settings lib (e_settings e))"
    using schema(1) j by (rule go_settings) (simp add: omit)
  moreover have "go_field ''message'' [] de_string ms = Ok (e_message e)"
    "go_field ''hostCapabilities'' [] (de_seq de_string) ms = Ok (e_hostCapabilities e)"
    "go_field ''policies'' [] (go_map (go_member (cml_print lib))) ms = Ok []"
    "go_field ''expression'' [] de_string ms = Ok []"
    by (simp_all add: omit go_field_def split: option.splits del: de_seq.simps)
  moreover have "go_field ''timeoutEvalSeconds'' None (\<lambda>v. map_ok Some (go_int32 v)) ms = Ok (e_timeoutEvalSeconds e)"
    using schema(2) by (rule go_timeout) (simp add: omit split: option.splits)
  moreover have "map_of ms ''namespacedName'' = Some (json_NamespacedName e)" by (simp add: ms_def)
  note go_name [OF this]
  ultimately show ?thesis
    using assms(2) by (simp add: policyServerConfigEntry_UnmarshalJSON_def go_config_entry_def reread_entry_def)
qed

definition readable :: "policyServerConfigEntry \<Rightarrow> bool" where
  "readable e \<longleftrightarrow> e_policies e \<noteq> [] \<or> e_module e \<noteq> []"

lemma go_entry_reads:
  assumes "writable lib e" "readable e"
  shows "\<exists>j. policyServerConfigEntry_MarshalJSON (cml_parse lib) e = Ok j \<and>
    policyServerConfigEntry_UnmarshalJSON (cml_print lib) j = Ok (reread_entry lib e)"
  using go_group_reads [OF assms(1)] go_individual_reads [OF assms(1)] assms(2)
  by (cases "e_policies e = []") (auto simp: readable_def)

lemma policy_entry_writable: "schema_valid (cml_parse lib) p \<Longrightarrow> writable lib (policy_config_entry server p)"
  by (auto simp: writable_def policy_config_entry_def schema_valid_def Let_def
      buildPolicyGroupMembersWithContext_def split: option.splits)

lemma policy_entry_readable:
  "schema_valid parse p \<Longrightarrow> readable (policy_config_entry server p) \<longleftrightarrow> AsPolicyGroup p \<noteq> None \<or> GetModule p \<noteq> []"
  by (auto simp: readable_def policy_config_entry_def schema_valid_def Let_def
      buildPolicyGroupMembersWithContext_def split: option.splits)

text \<open>The written map, read by the controller.\<close>

lemma updateConfigMapData_policies:
  assumes "updateConfigMapData lib server ps cfg = Ok cfg'" "policies_json lib server ps = Ok j"
  shows "map_of (cm_data cfg') PolicyServerConfigPoliciesEntry = Some (cml_print lib j)"
  using assms by (auto simp: updateConfigMapData_def Let_def try_then_Ok_iff)

lemma getPolicyMap_written:
  assumes dep: "deployable vlib (cml_parse lib) ps"
    and "\<And>j. cml_parse lib (cml_print lib j) = Some j"
    and "\<forall>p\<in>set ps. AsPolicyGroup p = None \<longrightarrow> GetModule p \<noteq> []"
    and "updateConfigMapData lib server ps cfg = Ok cfg'"
  shows "getPolicyMapFromConfigMap lib cfg' =
    Ok (map (\<lambda>(k, e). (k, reread_entry lib e))
      (sort_key fst (addLegacyPolicyEntries (buildPoliciesMap ps server) ps)))"
proof -
  define es where "es = addLegacyPolicyEntries (buildPoliciesMap ps server) ps"
  have dist: "distinct (map fst es)"
    unfolding es_def addLegacyPolicyEntries_def by (rule legacy_step_distinct [OF buildPoliciesMap_distinct])
  have "\<exists>j. policyServerConfigEntry_MarshalJSON (cml_parse lib) e = Ok j \<and>
      policyServerConfigEntry_UnmarshalJSON (cml_print lib) j = Ok (reread_entry lib e)" if "(k, e) \<in> set es" for k e
  proof -
    have "map_of es k = Some e" using that dist by simp
    from entries_sound [OF dep this [unfolded es_def]] obtain p
      where p: "p \<in> set ps" "e = policy_config_entry server p" by (auto simp: serves_name_def)
    then have "schema_valid (cml_parse lib) p" using dep by (simp add: deployable_def)
    with p assms(3) show ?thesis
      by (intro go_entry_reads) (auto simp: policy_entry_writable policy_entry_readable)
  qed
  then obtain js where js: "policies_json lib server ps = Ok (JObject js)"
      "collect_map (\<lambda>(k, v). try_then (policyServerConfigEntry_UnmarshalJSON (cml_print lib) v) (\<lambda>e. Ok (k, e))) js =
        Ok (map (\<lambda>(k, e). (k, reread_entry lib e)) (sort_key fst es))"
    using json_of_map_decode [of es "policyServerConfigEntry_MarshalJSON (cml_parse lib)"
        "policyServerConfigEntry_UnmarshalJSON (cml_print lib)" "reread_entry lib"]
    by (auto simp: policies_json_def es_def [symmetric])
  show ?thesis
    by (simp add: getPolicyMapFromConfigMap_def updateConfigMapData_policies [OF assms(4) js(1)] assms(2)
        go_map_def js(2) es_def [symmetric])
qed

lemma written_policy_read_back:
  assumes dep: "deployable vlib (cml_parse lib) ps"
    and json: "\<And>j. cml_parse lib (cml_print lib j) = Some j"
    and modules: "\<forall>p\<in>set ps. AsPolicyGroup p = None \<longrightarrow> GetModule p \<noteq> []"
    and written: "updateConfigMapData lib server ps cfg = Ok cfg'"
    and p: "p \<in> set ps"
  shows "\<exists>policies.
    getPolicyMapFromConfigMap lib cfg' = Ok policies \<and> isPolicyInConfigMap lib cfg' (GetUniqueName p) \<and>
    map_of policies (GetUniqueName p) = Some (reread_entry lib (policy_config_entry server p))"
proof -
  define es where "es = addLegacyPolicyEntries (buildPoliciesMap ps server) ps"
  have dist: "distinct (map fst es)"
    unfolding es_def addLegacyPolicyEntries_def by (rule legacy_step_distinct [OF buildPoliciesMap_distinct])
  let ?read = "map (\<lambda>(k, e). (k, reread_entry lib e)) (sort_key fst es)"
  have read: "getPolicyMapFromConfigMap lib cfg' = Ok ?read"
    using getPolicyMap_written [OF dep json modules written] by (simp add: es_def)
  have "map_of ?read (GetUniqueName p) = Some (reread_entry lib (policy_config_entry server p))"
    using entries_complete [OF dep p, of server, folded es_def] by (simp add: map_of_map map_of_sort_key [OF dist])
  with read show ?thesis by (simp add: isPolicyInConfigMap_def)
qed

section \<open>Properties\<close>

text \<open>
  C2: the policy server serves exactly the accepted policies.  From the accepted objects bound
  to a policy server, the config map can always be written (if the owner reference can be set);
  the policy server reads its \<^verbatim>\<open>policies.yml\<close> and accepts it; it finds every policy under its
  unique name with its own module, mode, settings, resources, timeouts, message, members and
  capabilities; and whatever other name it serves is the legacy name of a policy that shares
  it with no other policy.
\<close>

theorem policies_reach_the_server:
  assumes yaml: "\<And>j. from_yaml (cml_print lib j) = Ok j"
    and dep: "deployable vlib (cml_parse lib) ps"
    and owner: "\<And>meta. is_ok (cml_set_owner lib server meta)"
  shows "\<exists>cfg' content config.
    updateConfigMapData lib server ps cfg = Ok cfg' \<and>
    map_of (cm_data cfg') ''policies.yml'' = Some content \<and>
    read_policies_file from_yaml content = Ok config \<and>
    distinct (map fst config) \<and> validate_policies dbg config = Ok () \<and>
    (\<forall>p\<in>set ps. map_of config (GetUniqueName p) = Some (served_policy (cml_parse lib) server p)) \<and>
    (\<forall>name c. map_of config name = Some c \<longrightarrow>
       (\<exists>p. serves_name ps name p \<and> c = served_policy (cml_parse lib) server p))"
proof -
  obtain j config where json: "policies_json lib server ps = Ok (JObject j)"
    and read: "collect_map (\<lambda>(name, v). try_then (de_PolicyOrPolicyGroup v) (\<lambda>p. Ok (name, p))) j = Ok config"
    and dist: "distinct (map fst config)"
    and sound: "\<forall>name c. map_of config name = Some c \<longrightarrow>
       (\<exists>p. serves_name ps name p \<and> c = served_policy (cml_parse lib) server p)"
    and complete: "\<forall>p\<in>set ps. map_of config (GetUniqueName p) = Some (served_policy (cml_parse lib) server p)"
    using policies_json_reads [OF dep, of server] by blast
  define labels where
    "labels = map_put_all [(PolicyServerLabelKey, om_name (srv_meta server))] (CommonLabels server)"
  obtain meta where meta: "cml_set_owner lib server ((cm_meta cfg)\<lparr>om_labels := labels\<rparr>) = Ok meta"
    using owner [of "(cm_meta cfg)\<lparr>om_labels := labels\<rparr>"] by (auto simp: is_ok_iff)
  let ?cfg = "cfg\<lparr>cm_meta := meta, cm_data :=
      [(PolicyServerConfigPoliciesEntry, cml_print lib (JObject j)),
       (PolicyServerConfigSourcesEntry, cml_print lib (json_of_sources (buildSourcesMap server)))]\<rparr>"
  have "updateConfigMapData lib server ps cfg = Ok ?cfg"
    unfolding updateConfigMapData_def Let_def labels_def [symmetric] by (simp add: json meta)
  moreover have "map_of (cm_data ?cfg) ''policies.yml'' = Some (cml_print lib (JObject j))"
    by (simp add: PolicyServerConfigPoliciesEntry_def)
  moreover have "read_policies_file from_yaml (cml_print lib (JObject j)) = Ok config"
    by (simp add: read_policies_file_def yaml read)
  moreover have "slash_free config"
  proof -
    have entry: "\<exists>p. serves_name ps name p \<and> c = served_policy (cml_parse lib) server p"
      if "(name, c) \<in> set config" for name c
      using sound that dist by simp
    have "CHR ''/'' \<notin> set name" if "(name, c) \<in> set config" for name c
      using entry [OF that] serves_name_slash_free [OF dep] by blast
    moreover have "CHR ''/'' \<notin> set member"
      if in_config: "(name, Grouped g) \<in> set config" and "member \<in> fst ` set (gc_policies g)" for name g member
    proof -
      from entry [OF in_config] obtain p where "serves_name ps name p"
        and served: "Grouped g = served_policy (cml_parse lib) server p" by blast
      then have "wf_group vlib p" using dep by (simp add: serves_name_def deployable_def)
      from served_members_slash_free [OF this served [symmetric] that(2)] show ?thesis .
    qed
    ultimately show ?thesis unfolding slash_free_def by (fastforce split: PolicyOrPolicyGroup.splits)
  qed
  then have "validate_policies dbg config = Ok ()" by (simp add: validate_policies_iff)
  ultimately show ?thesis using dist sound complete by blast
qed

instance json :: countable
  by countable_datatype

text \<open>A printer of JSON with its parser, for the examples.\<close>

definition sample_print :: "json \<Rightarrow> string" where
  "sample_print j = show_nat (to_nat j)"

definition sample_parse :: "string \<Rightarrow> json" where
  "sample_parse s = from_nat (read_digits s)"

lemma sample_parse_print [simp]: "sample_parse (sample_print j) = j"
  by (simp add: sample_parse_def sample_print_def)

definition sample_configmap_library :: configmap_library where
  "sample_configmap_library =
     \<lparr>cml_print = sample_print, cml_parse = (\<lambda>s. Some (sample_parse s)), cml_set_owner = (\<lambda>_ meta. Ok meta)\<rparr>"

definition sample_server :: "string list option \<Rightarrow> PolicyServer" where
  "sample_server caps =
     \<lparr>srv_meta = sample_meta '''' ''default'',
      srv_spec = \<lparr>pss_image = ''policy-server'', pss_replicas = 1, pss_minAvailable = None, pss_maxUnavailable = None,
        pss_annotations = [], pss_labels = [], pss_env = [], pss_serviceAccountName = '''', pss_imagePullSecret = '''',
        pss_insecureSources = [], pss_sourceAuthorities = [], pss_verificationConfig = '''',
        pss_sigstoreTrustConfig = '''', pss_containerSecurityContext = None, pss_podSecurityContext = None,
        pss_affinity = '''', pss_limits = [], pss_requests = [], pss_tolerations = [], pss_priorityClassName = '''',
        pss_namespacedPoliciesCapabilities = caps, pss_webhookPort = None, pss_readinessProbePort = None,
        pss_metricsPort = None\<rparr>,
      srv_conditions = []\<rparr>"

lemma sample_policy_deployable:
  "deployable sample_validation_library (cml_parse sample_configmap_library)
     [as_Policy (AP (sample_policy ''ns'' ''p'' ''protect''))]"
proof -
  let ?p = "as_Policy (AP (sample_policy ''ns'' ''p'' ''protect''))"
  have "is_policy ?p" unfolding is_policy_def by blast
  moreover have "well_named ?p \<and> schema_valid (cml_parse sample_configmap_library) ?p \<and>
      wf_group sample_validation_library ?p"
    by (simp add: well_named_def schema_valid_def schema_settings_def schema_timeout_def
        wf_group_def AdmissionPolicy_as_Policy_def sample_policy_defs Let_def namespaced_kind_def)
  ultimately show ?thesis by (simp add: deployable_def)
qed

theorem policies_reach_the_server_witness:
  "\<exists>cfg' content config.
     updateConfigMapData sample_configmap_library (sample_server None)
       [as_Policy (AP (sample_policy ''ns'' ''p'' ''protect''))] \<lparr>cm_meta = sample_meta ''kubewarden'' ''c'', cm_data = []\<rparr> = Ok cfg' \<and>
     map_of (cm_data cfg') ''policies.yml'' = Some content \<and>
     read_policies_file (\<lambda>s. Ok (sample_parse s)) content = Ok config \<and>
     map_of config (GetUniqueName (as_Policy (AP (sample_policy ''ns'' ''p'' ''protect'')))) =
       Some (served_policy (cml_parse sample_configmap_library) (sample_server None)
         (as_Policy (AP (sample_policy ''ns'' ''p'' ''protect''))))"
proof -
  have "(\<lambda>s. Ok (sample_parse s)) (cml_print sample_configmap_library j) = (Ok j :: string + json)" for j
    by (simp add: sample_configmap_library_def)
  moreover have "is_ok (cml_set_owner sample_configmap_library (sample_server None) meta)" for meta
    by (simp add: sample_configmap_library_def is_ok_iff)
  ultimately show ?thesis
    using policies_reach_the_server [OF _ sample_policy_deployable] by (metis (no_types, lifting) list.set_intros(1))
qed



text \<open>
  One policy with an empty module, which the webhooks accept, makes the whole map unreadable:
  the controller then finds none of the policies of the server.
\<close>

lemma empty_module_blocks_all_policies:
  assumes dep: "deployable vlib (cml_parse lib) ps"
    and json: "\<And>j. cml_parse lib (cml_print lib j) = Some j"
    and written: "updateConfigMapData lib server ps cfg = Ok cfg'"
    and p: "p \<in> set ps" "AsPolicyGroup p = None" "GetModule p = []"
  shows "\<not> isPolicyInConfigMap lib cfg' name"
proof -
  let ?m = "policyServerConfigEntry_MarshalJSON (cml_parse lib)"
    and ?u = "policyServerConfigEntry_UnmarshalJSON (cml_print lib)"
  define es where "es = addLegacyPolicyEntries (buildPoliciesMap ps server) ps"
  obtain js where js: "policies_json lib server ps = Ok (JObject js)"
    using policies_json_reads [OF dep] by blast
  then have rel: "list_all2 (\<lambda>(k, e) kj. try_then (?m e) (\<lambda>v. Ok (k, v)) = Ok kj) (sort_key fst es) js"
    by (auto simp: policies_json_def json_of_map_def es_def collect_map_Ok_iff [symmetric] case_prod_unfold map_ok_Ok_iff)
  have "writable lib (policy_config_entry server p)"
    using dep p(1) by (intro policy_entry_writable) (simp add: deployable_def)
  from go_individual_reads [OF this] p obtain j where j: "?m (policy_config_entry server p) = Ok j" "\<not> is_ok (?u j)"
    by (auto simp: policy_config_entry_def Let_def is_ok_iff)
  have "(GetUniqueName p, policy_config_entry server p) \<in> set (sort_key fst es)"
    using map_of_SomeD [OF entries_complete [OF dep p(1), of server]] by (simp add: es_def)
  then obtain i where i: "i < length (sort_key fst es)" "sort_key fst es ! i = (GetUniqueName p, policy_config_entry server p)"
    unfolding in_set_conv_nth by blast
  then have "(GetUniqueName p, j) = js ! i" using list_all2_nthD [OF rel i(1)] j(1) by simp
  then have "(GetUniqueName p, j) \<in> set js" using i(1) rel by (metis list_all2_lengthD nth_mem)
  then have "\<not> is_ok (collect_map (\<lambda>(k, v). try_then (?u v) (\<lambda>x. Ok (k, x))) js)"
    unfolding collect_map_is_ok using j(2) by (force simp: is_ok_iff try_then_Ok_iff)
  then have "\<not> is_ok (getPolicyMapFromConfigMap lib cfg')"
    by (simp add: getPolicyMapFromConfigMap_def updateConfigMapData_policies [OF written js] json go_map_def is_ok_iff result_simps)
  then show ?thesis by (simp add: isPolicyInConfigMap_def is_ok_iff split: sum.splits)
qed

text \<open>What a served policy is granted: the resources and the capabilities of each module.\<close>

definition grants :: "PolicyOrPolicyGroup \<Rightarrow> (ContextAwareResource set \<times> string list) list" where
  "grants c =
     (case c of
        Individual p \<Rightarrow> [(pc_context_aware_resources p, pc_host_capabilities p)]
      | Grouped g \<Rightarrow> map (\<lambda>(_, m). (gmc_context_aware_resources m, gmc_host_capabilities m)) (gc_policies g))"

lemma namespaced_no_context:
  assumes "is_policy p" "namespaced_kind (DynamicType p)"
  shows "GetContextAwareResources p = []"
    and "AsPolicyGroup p = Some g \<Longrightarrow> (n, m) \<in> set (GetPolicyGroupMembersWithContext g) \<Longrightarrow> gmv_contextAwareResources m = []"
proof -
  from assms(1) obtain obj where "p = as_Policy obj" unfolding is_policy_def by blast
  with assms(2) show "GetContextAwareResources p = []"
    and "AsPolicyGroup p = Some g \<Longrightarrow> (n, m) \<in> set (GetPolicyGroupMembersWithContext g) \<Longrightarrow> gmv_contextAwareResources m = []"
    by (cases obj; auto simp: namespaced_kind_def AdmissionPolicy_as_Policy_def AdmissionPolicyGroup_as_Policy_def
        ClusterAdmissionPolicy_as_Policy_def ClusterAdmissionPolicyGroup_as_Policy_def Let_def with_no_context_def)+
qed

lemma validated_capabilities:
  "policyServer_validate lib ns server = Ok u \<Longrightarrow> pss_namespacedPoliciesCapabilities (srv_spec server) = Some ps \<Longrightarrow>
     validateNamespacedPoliciesCapabilities (sv_quote lib) ps = []"
  by (simp add: policyServer_validate_def Let_def)



end
