(* ===== verification/Policy_Enforcement.thy ===== *)
theory Policy_Enforcement
  imports Policy_Reconciler Policies_Deployment
begin

text \<open>
  When a policy is enforced and when it is not: the properties of a whole reconciliation of a
  policy, for every behaviour of the API server that its documentation allows, and what they
  mean for the policy server that receives the requests.
\<close>

section \<open>A whole reconciliation\<close>

definition gone :: "Policy \<Rightarrow> webhooks \<Rightarrow> bool" where
  "gone p v \<longleftrightarrow>
     v (kind_of p) (GetUniqueName p) = None \<and>
     (\<forall>k wc. v k (legacyPolicyUniqueName p) = Some wc \<longrightarrow> \<not> hasKubewardenLabel (om_labels (wc_meta wc)))"

lemma forget_labelled_gone:
  "forget_labelled k n v k n = Some wc \<Longrightarrow> \<not> hasKubewardenLabel (om_labels (wc_meta wc))"
  by (auto simp: forget_labelled_def forget_def split: option.splits if_splits)

lemma forget_labelled_kind: "k \<noteq> k' \<Longrightarrow> forget_labelled k n v k' m = v k' m"
  by (auto simp: forget_labelled_def forget_def split: option.splits)

lemma withdrawn_gone:
  assumes "withdrawn v p w s'"
  shows "gone p (v (rs_world s'))"
proof -
  let ?n = "legacyPolicyUniqueName p" and ?v = "forget (kind_of p) (GetUniqueName p) (v w)"
  have eq: "v (rs_world s') = forget_legacy p ?v" using assms by (simp add: withdrawn_def)
  have "?v (kind_of p) (GetUniqueName p) = None" by (simp add: forget_def)
  then have "forget_legacy p ?v (kind_of p) (GetUniqueName p) = None"
    by (simp add: forget_legacy_def forget_labelled_none)
  moreover have "\<not> hasKubewardenLabel (om_labels (wc_meta wc))" if "forget_legacy p ?v k ?n = Some wc" for k wc
    using that forget_labelled_gone [of Mutating ?n] forget_labelled_gone [of Validating ?n ?v]
    by (cases k) (auto simp: forget_legacy_def forget_labelled_kind)
  ultimately show ?thesis by (simp add: gone_def eq)
qed

definition reconciled :: "'w kube_client \<Rightarrow> 'l controller_library_scheme \<Rightarrow> policySubReconciler \<Rightarrow> ('w \<Rightarrow> webhooks) \<Rightarrow>
    Policy \<Rightarrow> 'w rstate \<Rightarrow> bool" where
  "reconciled kc lib r v p s' \<longleftrightarrow>
     same_policy p (rs_policy s') \<and>
     (active (rs_policy s') \<longrightarrow>
        enforced r p (policyServerDeploymentName (GetPolicyServer p)) (v (rs_world s')) \<and>
        seen_served kc lib (GetUniqueName p) \<and> (GetNamespace p \<noteq> [] \<longrightarrow> seen_permitted kc lib r p)) \<and>
     (ps_policyStatus (GetStatus (rs_policy s')) \<in> {Some PolicyStatusRejected, Some PolicyStatusScheduled} \<longrightarrow>
        gone p (v (rs_world s')) \<and>
        set (om_finalizers (GetObjectMeta (rs_policy s'))) \<inter> set kubewarden_finalizers = {})"

lemma withdrawn_reconciled:
  assumes "withdrawn v p w s'" "ps_policyStatus (GetStatus (rs_policy s')) \<noteq> Some PolicyStatusActive"
  shows "reconciled kc lib r v p s'"
  using assms withdrawn_gone [OF assms(1)] by (simp add: reconciled_def active_def withdrawn_def)

lemma seen_permitted_same: "same_policy p q \<Longrightarrow> seen_permitted kc lib r q = seen_permitted kc lib r p"
  by (simp add: seen_permitted_def isNamespacedPolicyAllowed_def same_policy_fields)

lemma withdrawn_same:
  assumes "same_policy p q" "withdrawn v q w s'"
  shows "withdrawn v p w s'"
proof -
  have "kind_of q = kind_of p" "forget_legacy q = forget_legacy p" "GetUniqueName q = GetUniqueName p"
    by (simp_all add: fun_eq_iff kind_of_def forget_legacy_def same_policy_fields [OF assms(1)])
  with assms(2) same_policy_trans [OF assms(1)] show ?thesis by (simp add: withdrawn_def)
qed

lemma PolicyServerUnavailable_wp:
  assumes laws: "api_laws kc v" and fin: "finalizer_laws lib" and same: "same_policy p (rs_policy s)"
  shows "wp (reconcilePolicyServerUnavailable kc lib) (\<lambda>_. reconciled kc lib r v p) (\<lambda>_ _. True) s"
  unfolding reconcilePolicyServerUnavailable_def wp_then wp_on_policy wp_ok
proof (rule wp_mono [OF removePolicyWebhooksAndFinalizers_wp [OF laws fin refl]])
  fix a s' assume "withdrawn v (rs_policy s) (rs_world s) s'"
  from withdrawn_status(1) [OF withdrawn_same [OF same this]]
  show "reconciled kc lib r v p (s'\<lparr>rs_policy := SetStatus PolicyStatusScheduled (rs_policy s')\<rparr>)"
    by (rule withdrawn_reconciled) simp
qed simp

lemma with_server_reconciled:
  assumes laws: "api_laws (kc :: 'w kube_client) v" and fin: "finalizer_laws lib" and cond: "condition_laws lib"
    and p: "is_policy p" "well_named p" and s: "same_policy p (rs_policy s)" "inactive (rs_policy s)"
    and server: "om_name (srv_meta server) = GetPolicyServer p"
    and permitted: "GetNamespace p \<noteq> [] \<longrightarrow> seen_permitted kc lib r p"
  shows "wp (reconcile_with_server kc lib r server) (\<lambda>_. reconciled kc lib r v p) (\<lambda>_ _. True) s"
proof (rule wp_mono [OF reconcile_with_server_wp [OF laws fin cond p s]])
  have "NameWithPrefix server = policyServerDeploymentName (GetPolicyServer p)"
    using server by (simp add: NameWithPrefix_def policyServerDeploymentName_def)
  moreover fix a and s' :: "'w rstate" assume "same_policy p (rs_policy s') \<and>
      ps_policyStatus (GetStatus (rs_policy s')) \<in> {Some PolicyStatusActive, Some PolicyStatusPending} \<and>
      (active (rs_policy s') \<longrightarrow>
         enforced r p (NameWithPrefix server) (v (rs_world s')) \<and> seen_served kc lib (GetUniqueName p))"
  ultimately show "reconciled kc lib r v p s'" using permitted by (auto simp: reconciled_def)
qed simp

lemma getPolicyServer_wp:
  assumes "policyserver_get_law kc"
  shows "wp (getPolicyServer kc q) (\<lambda>srv _. om_name (srv_meta srv) = GetPolicyServer q) (\<lambda>_ _. True) w"
proof -
  have "wp (kc_get_policyserver kc (GetPolicyServer q)) (\<lambda>srv _. om_name (srv_meta srv) = GetPolicyServer q) (\<lambda>_ _. True) w"
    by (rule wpI) (use assms in \<open>auto simp: policyserver_get_law_def\<close>)
  then show ?thesis
    unfolding getPolicyServer_def wp_case by (rule wp_mono) (auto simp: wp_simps split: kube_error.splits)
qed

lemma reconcile_allowed_wp:
  assumes laws: "api_laws kc v" and fin: "finalizer_laws lib" and cond: "condition_laws lib"
    and p: "is_policy p" "well_named p" and s: "same_policy p (rs_policy s)" "inactive (rs_policy s)"
    and permitted: "GetNamespace p \<noteq> [] \<longrightarrow> seen_permitted kc lib r p"
  shows "wp (reconcile_allowed kc lib r) (\<lambda>_. reconciled kc lib r v p) (\<lambda>_ _. True) s"
proof (cases "GetPolicyServer (rs_policy s) = []")
  case True
  have "reconciled kc lib r v p (s\<lparr>rs_policy := SetStatus PolicyStatusUnscheduled (rs_policy s)\<rparr>)"
    using SetStatus_same [OF s(1)] by (simp add: reconciled_def active_def)
  with True show ?thesis by (simp add: reconcile_allowed_def wp_simps)
next
  case False
  have law: "policyserver_get_law kc" using laws by (simp add: api_laws_def)
  show ?thesis
    unfolding reconcile_allowed_def wp_with_policy if_not_P [OF False] wp_case wp_on_world
  proof (rule wp_mono [OF getPolicyServer_wp [OF law]])
    fix srv :: PolicyServer and w' assume "om_name (srv_meta srv) = GetPolicyServer (rs_policy s)"
    then show "wp (reconcile_with_server kc lib r srv) (\<lambda>_. reconciled kc lib r v p) (\<lambda>_ _. True) (s\<lparr>rs_world := w'\<rparr>)"
      using s same_policy_fields(6) [OF s(1)] by (intro with_server_reconciled [OF laws fin cond p _ _ _ permitted]) simp_all
  next
    fix e w'
    show "wp (case e of PolicyServerNotAvailable \<Rightarrow> reconcilePolicyServerUnavailable kc lib
                | PolicyServerError e \<Rightarrow> act_err e) (\<lambda>_. reconciled kc lib r v p) (\<lambda>_ _. True) (s\<lparr>rs_world := w'\<rparr>)"
      using PolicyServerUnavailable_wp [OF laws fin, of p "s\<lparr>rs_world := w'\<rparr>"] s(1) by (cases e) (simp_all add: wp_err)
  qed
qed

lemma reconcilePolicy_wp:
  assumes laws: "api_laws (kc :: 'w kube_client) v" and fin: "finalizer_laws lib" and cond: "condition_laws lib"
    and p: "is_policy p" "well_named p" and s: "rs_policy s = p"
  shows "wp (reconcilePolicy kc lib r) (\<lambda>_. reconciled kc lib r v p) (\<lambda>_ _. True) s"
proof -
  define q where "q = set_condition lib not_created_condition p"
  have q: "same_policy p q" "inactive q"
    using set_condition_same [of p p] set_condition_False [OF cond] by (simp_all add: q_def not_created_condition_def)
  note f = same_policy_fields(5) [OF q(1)] seen_permitted_same [OF q(1), of kc lib r]
  show ?thesis
    unfolding reconcilePolicy_def wp_then wp_on_policy s q_def [symmetric]
  proof (rule wp_mono [OF AllowList_wp [OF laws fin cond _ q(2)]])
    show "rs_policy (s\<lparr>rs_policy := q\<rparr>) = q" by simp
  next
    fix rejected and s' :: "'w rstate"
    assume a: "if rejected then withdrawn v q (rs_world (s\<lparr>rs_policy := q\<rparr>)) s' \<and> inactive (rs_policy s') \<and>
          ps_policyStatus (GetStatus (rs_policy s')) = Some PolicyStatusRejected
        else rs_policy s' = q \<and> v (rs_world s') = v (rs_world (s\<lparr>rs_policy := q\<rparr>)) \<and>
          (GetNamespace q \<noteq> [] \<longrightarrow> seen_permitted kc lib r q)"
    show "wp (if rejected then act_ok Result_zero else reconcile_allowed kc lib r)
        (\<lambda>_. reconciled kc lib r v p) (\<lambda>_ _. True) s'"
    proof (cases rejected)
      case True
      with a have "withdrawn v q (rs_world (s\<lparr>rs_policy := q\<rparr>)) s'" by simp
      then have "withdrawn v p (rs_world (s\<lparr>rs_policy := q\<rparr>)) s'" by (rule withdrawn_same [OF q(1)])
      from withdrawn_reconciled [OF this] a True show ?thesis by (simp add: wp_ok)
    next
      case False
      with a f have "rs_policy s' = q" "GetNamespace p \<noteq> [] \<longrightarrow> seen_permitted kc lib r p" by simp_all
      with reconcile_allowed_wp [OF laws fin cond p, of s' r] q False show ?thesis by (simp add: wp_if)
    qed
  qed simp
qed

text \<open>The steps after the policy itself keep what was reached.\<close>

lemma reconciled_status:
  assumes "reconciled kc lib r v p s" "same_policy (rs_policy s) (rs_policy s')" "v (rs_world s') = v (rs_world s)"
    and "active (rs_policy s') \<longleftrightarrow> active (rs_policy s)"
    and "ps_policyStatus (GetStatus (rs_policy s')) = ps_policyStatus (GetStatus (rs_policy s))"
    and "om_finalizers (GetObjectMeta (rs_policy s')) = om_finalizers (GetObjectMeta (rs_policy s))"
  shows "reconciled kc lib r v p s'"
  using assms same_policy_trans [OF _ assms(2)] by (simp add: reconciled_def)

lemma mode_status_simps:
  "same_policy p (SetPolicyModeStatus m p)" "active (SetPolicyModeStatus m p) = active p"
  "ps_policyStatus (GetStatus (SetPolicyModeStatus m p)) = ps_policyStatus (GetStatus p)"
  "GetObjectMeta (SetPolicyModeStatus m p) = GetObjectMeta p"
  using same_policyI [of "GetObjectMeta p" p]
  by (simp_all add: SetPolicyModeStatus_def active_def)

lemma configuration_condition:
  assumes "condition_laws lib"
  shows "same_policy p (setPolicyConfigurationCondition lib cm d p)"
    "active (setPolicyConfigurationCondition lib cm d p) = active p"
    "ps_policyStatus (GetStatus (setPolicyConfigurationCondition lib cm d p)) = ps_policyStatus (GetStatus p)"
    "GetObjectMeta (setPolicyConfigurationCondition lib cm d p) = GetObjectMeta p"
  unfolding setPolicyConfigurationCondition_def
  by (simp_all add: set_condition_same set_condition_other(2) [OF assms] split: option.splits)

lemma setPolicyModeStatus_wp:
  assumes "webhook_frame_law kc v" "condition_laws lib" "reconciled kc lib r' v p s"
  shows "wp (setPolicyModeStatus kc lib r) (\<lambda>_. reconciled kc lib r' v p) (\<lambda>_ _. True) s"
proof -
  have k: "keeps v (kc_get_deployment kc ns n)" "keeps v (kc_get_configmap kc ns n)" for ns n
    using assms(1) by (simp_all add: webhook_frame_law_def)
  have rest: "reconciled kc lib r' v p (s\<lparr>rs_world := w1, rs_policy :=
      setPolicyConfigurationCondition lib cm d (SetPolicyModeStatus m (rs_policy s))\<rparr>)"
    if "v w1 = v (rs_world s)" for w1 cm d m
    using that same_policy_trans [OF mode_status_simps(1) configuration_condition(1) [OF assms(2)]]
    by (intro reconciled_status [OF assms(3)]) (simp_all add: configuration_condition [OF assms(2)] mode_status_simps)
  have idle: "reconciled kc lib r' v p (s\<lparr>rs_world := w1\<rparr>)" if "v w1 = v (rs_world s)" for w1
    using that by (intro reconciled_status [OF assms(3)]) simp_all
  show ?thesis
    unfolding setPolicyModeStatus_def wp_with_policy Let_def wp_case wp_on_world
  proof (rule wp_keeps [OF k(1)], goal_cases)
    case (1 d w1)
    then show ?case
      unfolding wp_then wp_map_err wp_on_world wp_on_policy
      by (intro wp_keeps [OF k(2)]) (simp_all add: rest)
  next
    case (2 e w1)
    then show ?case by (cases e) (simp_all add: wp_ok wp_err idle)
  qed
qed

lemma update_status_wp:
  assumes "webhook_frame_law kc v" "policy_update_law kc" "reconciled kc lib r v p s"
  shows "wp (kc_update_policy_status kc (rs_policy s))
     (\<lambda>stored w'. reconciled kc lib r v p (s\<lparr>rs_world := w', rs_policy := stored\<rparr>)) (\<lambda>_ _. True) (rs_world s)"
proof (rule wp_keeps [of v])
  show "keeps v (kc_update_policy_status kc (rs_policy s))" using assms(1) by (simp add: webhook_frame_law_def)
next
  fix q w' assume q: "kc_update_policy_status kc (rs_policy s) (rs_world s) = (Ok q, w')" and w': "v w' = v (rs_world s)"
  from q assms(2) have "same_policy (rs_policy s) q" "GetStatus q = GetStatus (rs_policy s)"
    "om_finalizers (GetObjectMeta q) = om_finalizers (GetObjectMeta (rs_policy s))"
    unfolding policy_update_law_def by blast+
  with w' show "reconciled kc lib r v p (s\<lparr>rs_world := w', rs_policy := q\<rparr>)"
    by (intro reconciled_status [OF assms(3)]) (simp_all add: active_def)
qed simp

lemma count_wp:
  assumes "webhook_frame_law kc v" "reconciled kc lib r v p s"
  shows "wp (RecordPolicyCount kc (rs_policy s)) (\<lambda>_ w'. reconciled kc lib r v p (s\<lparr>rs_world := w'\<rparr>)) (\<lambda>_ _. True) (rs_world s)"
  unfolding RecordPolicyCount_def
  by (rule wp_keeps [of v]) (use assms(1) reconciled_status [OF assms(2)] in \<open>simp_all add: webhook_frame_law_def\<close>)

lemma report_status_wp:
  assumes l: "webhook_frame_law kc v" "policy_update_law kc" "condition_laws lib" and s: "reconciled kc lib r v p s"
  shows "wp (report_status kc lib r' (Inr res)) (\<lambda>_. reconciled kc lib r v p) (\<lambda>_ _. True) s"
  unfolding report_status_def wp_simps
proof (rule wp_mono [OF setPolicyModeStatus_wp [OF l(1,3) s]], goal_cases)
  case (1 a s2)
  from update_status_wp [OF l(1,2) 1] show ?case
  proof (rule wp_mono, goal_cases)
    case (1 stored w2)
    from count_wp [OF l(1) 1] show ?case by simp
  qed simp
qed simp

lemma report_status_Err: "wp (report_status kc lib r (Inl e)) P (\<lambda>_ _. True) s"
  by (simp add: report_status_def wp_then wp_map_err wp_pure_Err)

lemma reconcile_wp:
  assumes laws: "api_laws kc v" and fin: "finalizer_laws lib" and cond: "condition_laws lib"
    and p: "is_policy p" "well_named p" "om_deletionTimestamp (GetObjectMeta p) = None" and s: "rs_policy s = p"
  shows "wp (reconcile kc lib r) (\<lambda>_. reconciled kc lib r v p) (\<lambda>_ _. True) s"
proof -
  have l: "webhook_frame_law kc v" "policy_update_law kc" using laws by (simp_all add: api_laws_def)
  have "wp (reconcilePolicy kc lib r)
      (\<lambda>res. wp (report_status kc lib r (Inr res)) (\<lambda>_. reconciled kc lib r v p) (\<lambda>_ _. True))
      (\<lambda>e. wp (report_status kc lib r (Inl e)) (\<lambda>_. reconciled kc lib r v p) (\<lambda>_ _. True)) s"
    by (rule wp_mono [OF reconcilePolicy_wp [OF laws fin cond p(1,2) s]])
      (rule report_status_wp [OF l cond], assumption, rule report_status_Err)
  then show ?thesis using p(3) by (simp add: reconcile_def wp_simps s)
qed

section \<open>Properties\<close>


text \<open>
  C8: a policy that must not be enforced is not.  If a reconciliation succeeds for a policy that
  is being deleted, or leaves the policy rejected or only scheduled, then there is no webhook
  configuration of its kind under its unique name, none of the controller under its legacy name,
  and the policy has none of the finalizers of the controller, so that it can be deleted.
\<close>

theorem withdrawn_policy_has_no_webhook:
  assumes laws: "api_laws kc v" "finalizer_laws lib" "condition_laws lib"
    and p: "is_policy p" "well_named p"
    and run: "reconcile kc lib r \<lparr>rs_policy = p, rs_world = w\<rparr> = (Ok res, s')"
    and withdrawn: "om_deletionTimestamp (GetObjectMeta p) \<noteq> None \<or>
      ps_policyStatus (GetStatus (rs_policy s')) \<in> {Some PolicyStatusRejected, Some PolicyStatusScheduled}"
  shows "gone p (v (rs_world s')) \<and> set (om_finalizers (GetObjectMeta (rs_policy s'))) \<inter> set kubewarden_finalizers = {}"
proof (cases "om_deletionTimestamp (GetObjectMeta p)")
  case None
  from wp_Ok [OF reconcile_wp [OF laws p None] run] have "reconciled kc lib r v p s'" by simp
  with withdrawn None show ?thesis unfolding reconciled_def by blast
next
  case (Some t)
  have "wp (reconcile kc lib r) (\<lambda>_ s'. withdrawn v p w s') (\<lambda>_ _. True) \<lparr>rs_policy = p, rs_world = w\<rparr>"
    using removePolicyWebhooksAndFinalizers_wp [OF laws(1,2), of "\<lparr>rs_policy = p, rs_world = w\<rparr>" p] Some
    by (simp add: reconcile_def wp_simps)
  from wp_Ok [OF this run] have "withdrawn v p w s'" .
  then show ?thesis using withdrawn_gone [of v p w s'] by (simp add: withdrawn_def)
qed

text \<open>Label selectors, as Kubernetes reads them; an absent selector matches everything.\<close>

definition requirement_matches :: "LabelSelectorRequirement_v1 \<Rightarrow> (string \<times> string) list \<Rightarrow> bool" where
  "requirement_matches req labels \<longleftrightarrow>
     (case map_of labels (lsrv_key req) of
        Some value \<Rightarrow>
          lsrv_operator req = ''In'' \<and> value \<in> set (lsrv_values req) \<or>
          lsrv_operator req = ''NotIn'' \<and> value \<notin> set (lsrv_values req) \<or> lsrv_operator req = ''Exists''
      | None \<Rightarrow> lsrv_operator req = ''NotIn'' \<or> lsrv_operator req = ''DoesNotExist'')"

definition selector_matches :: "Kube_Policy.LabelSelector option \<Rightarrow> (string \<times> string) list \<Rightarrow> bool" where
  "selector_matches selector labels \<longleftrightarrow>
     (case selector of None \<Rightarrow> True
      | Some s \<Rightarrow> (\<forall>(k, x)\<in>set (ls_matchLabels s). map_of labels k = Some x) \<and>
          (\<forall>req\<in>set (ls_matchExpressions s). requirement_matches req labels))"

text \<open>
  C40: a cluster-wide policy is enforced in the namespaces that its author selected, but not in
  the namespace of the controller, unless it asks for it; so a policy cannot block the
  controller and the policy servers that enforce it.
\<close>

theorem cluster_policy_spares_the_controller:
  assumes "\<not> namespaced_kind (DynamicType p)" "\<not> GetAllowInsideAdmissionControllerNamespace p"
    and "map_of labels ''kubernetes.io/metadata.name'' = Some namespace"
  shows "selector_matches (namespaceSelector r p) labels \<longleftrightarrow>
    namespace \<noteq> deploymentsNamespace r \<and> selector_matches (GetNamespaceSelector p) labels"
proof -
  have "requirement_matches (excludeControllerNamespace (deploymentsNamespace r)) labels \<longleftrightarrow> namespace \<noteq> deploymentsNamespace r"
    using assms(3) by (simp add: requirement_matches_def excludeControllerNamespace_def)
  moreover have "DynamicType p = KClusterAdmissionPolicyGroup \<or> DynamicType p = KClusterAdmissionPolicy"
    using assms(1) by (cases "DynamicType p") (simp_all add: namespaced_kind_def)
  ultimately show ?thesis
    using assms(2) by (cases "GetNamespaceSelector p") (auto simp: namespaceSelector_def selector_matches_def Let_def)
qed

text \<open>
  Only the configuration of the kind that the policy needs now is looked at.  When \<^verbatim>\<open>mutating\<close>
  is changed, which the webhooks allow, the configuration of the other kind stays, also when the
  policy is deleted: every successful run keeps it.
\<close>

lemma other_kind_kept:
  assumes "forget_legacy p (forget (kind_of p) (GetUniqueName p) u) = u'" "is_policy p" "k \<noteq> kind_of p"
  shows "u' k (GetUniqueName p) = u k (GetUniqueName p)"
  using assms legacy_not_unique [OF assms(2), of p]
  by (auto simp: forget_legacy_def forget_labelled_other forget_def)

lemma mutating_flip_orphans_webhook:
  assumes laws: "api_laws kc v" "finalizer_laws lib"
    and p: "is_policy p" "om_deletionTimestamp (GetObjectMeta p) \<noteq> None" "k \<noteq> kind_of p"
    and run: "reconcile kc lib r \<lparr>rs_policy = p, rs_world = w\<rparr> = (Ok res, s')"
  shows "v (rs_world s') k (GetUniqueName p) = v w k (GetUniqueName p)"
proof -
  have "wp (reconcile kc lib r) (\<lambda>_ s'. withdrawn v p w s') (\<lambda>_ _. True) \<lparr>rs_policy = p, rs_world = w\<rparr>"
    using removePolicyWebhooksAndFinalizers_wp [OF laws, of "\<lparr>rs_policy = p, rs_world = w\<rparr>" p] p(2)
    by (auto simp add: reconcile_def wp_simps)
  from wp_Ok [OF this run] have "v (rs_world s') = forget_legacy p (forget (kind_of p) (GetUniqueName p) (v w))"
    by (simp add: withdrawn_def)
  from other_kind_kept [OF this [symmetric] p(1,3)] show ?thesis .
qed

section \<open>An API server in memory\<close>

text \<open>The smallest API server that keeps the laws, for the examples.\<close>

definition sample_view :: "webhooks \<Rightarrow> webhooks" where
  "sample_view w k n = map_option (\<lambda>wc. wc\<lparr>wc_meta := (wc_meta wc)\<lparr>om_name := n\<rparr>\<rparr>) (w k n)"

definition sample_client :: "ConfigMap \<Rightarrow> webhooks kube_client" where
  "sample_client cm =
     \<lparr>kc_get_configmap = (\<lambda>_ n w.
        (Ok (if n = ''cfg'' then \<lparr>cm_meta = meta_named n, cm_data = [(ControllerConfigKey, ''x'')]\<rparr> else cm), w)),
      kc_get_policyserver = (\<lambda>n w. (Ok ((sample_server None)\<lparr>srv_meta := meta_named n\<rparr>), w)),
      kc_get_deployment = (\<lambda>_ n w. (Ok \<lparr>d_meta = meta_named n\<rparr>, w)),
      kc_get_secret = (\<lambda>_ n w. (Ok \<lparr>sec_meta = meta_named n, sec_data = [(CARootCert, ''ca'')]\<rparr>, w)),
      kc_list_replicasets = (\<lambda>_ _ w. (Ok [\<lparr>rset_meta = (meta_named ''r'')
        \<lparr>om_annotations := [(PolicyServerDeploymentConfigVersionAnnotation, om_resourceVersion (cm_meta cm))],
         om_labels := [(DefaultDeploymentUniqueLabelKey, ''h'')]\<rparr>\<rparr>], w)),
      kc_list_pods = (\<lambda>_ _ w. (Ok [\<lparr>pod_meta = (meta_named ''d'')\<lparr>om_labels := [(DefaultDeploymentUniqueLabelKey, ''h'')]\<rparr>,
        pod_conditions = [(''Ready'', ''True'')]\<rparr>], w)),
      kc_get_webhook = (\<lambda>k n w. (case sample_view w k n of None \<Rightarrow> Err NotFound | Some wc \<Rightarrow> Ok wc, w)),
      kc_delete_webhook = (\<lambda>k n uid w.
        case w k n of None \<Rightarrow> (Err NotFound, w)
        | Some wc \<Rightarrow> if om_uid (wc_meta wc) = uid then (Ok (), w(k := (w k)(n := None))) else (Err Conflict, w)),
      kc_create_or_update_webhook = (\<lambda>k fresh f w. let n = om_name (wc_meta fresh) in
        (Ok (), w(k := (w k)(n \<mapsto> f (case sample_view w k n of Some wc \<Rightarrow> wc | None \<Rightarrow> fresh))))),
      kc_get_policy = (\<lambda>_ _ _ w. (Err NotFound, w)),
      kc_update_policy = (\<lambda>p w. (Ok p, w)),
      kc_update_policy_status = (\<lambda>p w. (Ok p, w)),
      kc_count_policy = (\<lambda>_ w. (Ok (), w))\<rparr>"

definition sample_controller_library :: controller_library where
  "sample_controller_library =
     \<lparr>lib_set_condition = (\<lambda>c cs. c # filter (\<lambda>d. cond_type d \<noteq> cond_type c) cs),
      lib_contains_finalizer = (\<lambda>m f. f \<in> set (om_finalizers m)),
      lib_add_finalizer = (\<lambda>f m. m\<lparr>om_finalizers := f # om_finalizers m\<rparr>),
      lib_remove_finalizer = (\<lambda>f m. m\<lparr>om_finalizers := removeAll f (om_finalizers m)\<rparr>),
      lib_configmap = sample_configmap_library,
      lib_decode_config = (\<lambda>_. Ok [sample_rule [''''] [''pods'']])\<rparr>"

lemma sample_view_upd: "sample_view (w(k := (w k)(n := x))) =
    (sample_view w)(k := (sample_view w k)(n := map_option (\<lambda>wc. wc\<lparr>wc_meta := (wc_meta wc)\<lparr>om_name := n\<rparr>\<rparr>) x))"
  by (auto simp: sample_view_def fun_eq_iff)

lemma sample_client_laws: "api_laws (sample_client cm) sample_view"
  unfolding api_laws_def
proof (intro conjI)
  show "webhook_get_law (sample_client cm) sample_view"
    by (auto simp: webhook_get_law_def sample_client_def sample_view_def split: option.splits)
  show "webhook_delete_law (sample_client cm) sample_view"
    by (auto simp: webhook_delete_law_def sample_client_def sample_view_upd split: option.splits if_splits)
      (auto simp: sample_view_def)
  show "webhook_write_law (sample_client cm) sample_view"
    by (auto simp: webhook_write_law_def sample_client_def sample_view_upd Let_def)
  show "webhook_frame_law (sample_client cm) sample_view"
    by (simp add: webhook_frame_law_def sample_client_def keeps_def)
  show "policy_update_law (sample_client cm)" "policyserver_get_law (sample_client cm)"
    by (auto simp: policy_update_law_def policyserver_get_law_def sample_client_def meta_named_def)
qed

lemma find_filter_other: "(\<And>x. P x \<Longrightarrow> Q x) \<Longrightarrow> find P (filter Q xs) = find P xs"
  by (induction xs) auto

lemma sample_library_laws: "finalizer_laws sample_controller_library" "condition_laws sample_controller_library"
proof -
  show "finalizer_laws sample_controller_library"
    by (auto simp: finalizer_laws_def sample_controller_library_def intro!: exI)
  have "find (\<lambda>c. cond_type c = ty) (filter (\<lambda>d. cond_type d \<noteq> t) cs) = find (\<lambda>c. cond_type c = ty) cs"
    if "ty \<noteq> t" for ty t and cs :: "Condition list"
    using that by (intro find_filter_other) simp
  then show "condition_laws sample_controller_library"
    by (simp add: condition_laws_def condition_status_def sample_controller_library_def)
qed

definition sample_bound :: Policy where
  "sample_bound = as_Policy (AP ((sample_policy ''ns'' ''p'' ''protect'')
     \<lparr>ap_spec := (sample_spec ''protect'' [sample_rule [''''] [''pods'']])\<lparr>spec_policyServer := ''default''\<rparr>\<rparr>))"

definition sample_reconciler :: policySubReconciler where
  "sample_reconciler = \<lparr>deploymentsNamespace = ''kubewarden'', controllerConfigMapName = ''cfg'',
     featureGateAdmissionWebhookMatchConditions = True\<rparr>"

lemma sample_bound_deployable: "deployable sample_validation_library (cml_parse sample_configmap_library) [sample_bound]"
proof -
  have "is_policy sample_bound" unfolding is_policy_def sample_bound_def by blast
  moreover have "well_named sample_bound \<and> schema_valid (cml_parse sample_configmap_library) sample_bound \<and>
      wf_group sample_validation_library sample_bound"
    by (simp add: well_named_def schema_valid_def schema_settings_def schema_timeout_def sample_bound_def
        wf_group_def AdmissionPolicy_as_Policy_def sample_policy_defs Let_def namespaced_kind_def)
  ultimately show ?thesis by (simp add: deployable_def)
qed

lemma sample_configmap_exists:
  "\<exists>cm. isPolicyInConfigMap sample_configmap_library cm ''kw.ap.ns.p''"
proof -
  obtain j where "policies_json sample_configmap_library (sample_server None) [sample_bound] = Ok (JObject j)"
    using policies_json_reads [OF sample_bound_deployable] by blast
  then obtain cfg' where w: "updateConfigMapData sample_configmap_library (sample_server None) [sample_bound]
      \<lparr>cm_meta = meta_named ''c'', cm_data = []\<rparr> = Ok cfg'"
    by (simp add: updateConfigMapData_def sample_configmap_library_def Let_def)
  have "GetUniqueName sample_bound = ''kw.ap.ns.p''" "AsPolicyGroup sample_bound = None \<longrightarrow> GetModule sample_bound \<noteq> []"
    by (simp_all add: sample_bound_def AdmissionPolicy_as_Policy_def sample_policy_defs Let_def)
  with written_policy_read_back [OF sample_bound_deployable _ _ w, of sample_bound] show ?thesis
    by (auto simp: sample_configmap_library_def)
qed

lemma sample_bound_fields:
  "GetUniqueName sample_bound = ''kw.ap.ns.p''" "GetPolicyServer sample_bound = ''default''"
  "GetNamespace sample_bound = ''ns''" "om_deletionTimestamp (GetObjectMeta sample_bound) = None"
  "IsMutating sample_bound = False" "GetRules sample_bound = [(sample_rule [''''] [''pods''])\<lparr>r_scope := Some ''Namespaced''\<rparr>]"
  "GetStatus sample_bound = sample_status" "om_finalizers (GetObjectMeta sample_bound) = []"
  "legacyPolicyUniqueName sample_bound = ''namespaced-ns-p''"
  by (simp_all add: sample_bound_def AdmissionPolicy_as_Policy_def sample_policy_defs Let_def namespaced_rules_def
      legacyPolicyUniqueName_def)

lemma sample_allowed:
  assumes "same_policy sample_bound (rs_policy s)"
  shows "reconcileNamespacedPolicyAllowList (sample_client cm) sample_controller_library sample_reconciler s = (Ok False, s)"
proof -
  have rules: "GetRules (rs_policy s) = [(sample_rule [''''] [''pods''])\<lparr>r_scope := Some ''Namespaced''\<rparr>]"
    "GetNamespace (rs_policy s) = ''ns''"
    using same_policy_fields(5,7) [OF assms] sample_bound_fields(3,6) by simp_all
  let ?config = "\<lparr>cc_namespacedPoliciesAllowedResources = [allowed_entry [''''] [''pods'']]\<rparr>"
  have load: "loadControllerConfig (\<lambda>_. Ok [sample_rule [''''] [''pods'']]) ''kubewarden'' ''cfg''
      (Ok [(ControllerConfigKey, ''x'')]) = Ok ?config"
    by (simp add: loadControllerConfig_def ControllerConfigKey_def parseControllerConfig_def
        validateNamespacedPoliciesAllowedResources_def sample_rule_def validateAPIGroup_def validateResource_def Let_def)
  have "isNamespacedPolicyAllowed (rs_policy s) [allowed_entry [''''] [''pods'']] = (True, [])"
    by (simp add: isNamespacedPolicyAllowed_def rules disallowedTargets_def sample_rule_def allows_def allowed_entry_def)
  with load rules show ?thesis
    by (simp add: reconcileNamespacedPolicyAllowList_def with_policy_def act_read_def act_then_def act_try_def act_case_def
        act_ok_def act_pure_def on_world_def sample_client_def sample_controller_library_def sample_reconciler_def)
qed

lemma sample_reachable:
  "isPolicyInConfigMap sample_configmap_library cm name \<Longrightarrow> n \<noteq> ''cfg'' \<Longrightarrow>
   isPolicyUniquelyReachable (sample_client cm) sample_controller_library \<lparr>d_meta = meta_named n\<rparr> name w = (Ok True, w)"
  by (simp add: isPolicyUniquelyReachable_def Let_def act_case_def act_ok_def sample_client_def sample_controller_library_def
      isLatestReplicaSetFromPolicyServerDeployment_def map_str_def meta_named_def KubernetesRevisionAnnotation_def
      PolicyServerDeploymentConfigVersionAnnotation_def DefaultDeploymentUniqueLabelKey_def isPodReady_def)

lemmas act_defs = act_then_def act_case_def act_ok_def act_err_def act_read_def act_modify_def act_pure_def act_try_def
  act_map_err_def on_world_def on_policy_def with_policy_def

lemma sample_cleanup:
  assumes "w Validating (legacyPolicyUniqueName p) = None" "w Mutating (legacyPolicyUniqueName p) = None"
  shows "reconcileLegacyWebhookConfigurationCleanup (sample_client cm) p w = (Ok (), w)"
  using assms
  by (simp add: reconcileLegacyWebhookConfigurationCleanup_def legacy_cleanup_of_def Let_def act_defs
      sample_client_def sample_view_def)

lemma sample_steps:
  "wp (kc_update_policy (sample_client cm) q) P1 Q1 = P1 q"
  "wp (kc_update_policy_status (sample_client cm) q) P1 Q1 = P1 q"
  "wp (kc_get_deployment (sample_client cm) ns n) P2 Q1 = P2 \<lparr>d_meta = meta_named n\<rparr>"
  "wp (kc_get_secret (sample_client cm) ns n) P3 Q1 = P3 \<lparr>sec_meta = meta_named n, sec_data = [(CARootCert, ''ca'')]\<rparr>"
  "wp (kc_get_policyserver (sample_client cm) n) P4 Q1 = P4 ((sample_server None)\<lparr>srv_meta := meta_named n\<rparr>)"
  "n \<noteq> ''cfg'' \<Longrightarrow> wp (kc_get_configmap (sample_client cm) ns n) P5 Q1 = P5 cm"
  "wp (RecordPolicyCount (sample_client cm) q) P6 Q6 = P6 ()"
  by (simp_all add: fun_eq_iff wp_def sample_client_def RecordPolicyCount_def)

lemma sample_enforced:
  assumes p: "same_policy sample_bound (rs_policy s)" "om_finalizers (GetObjectMeta (rs_policy s)) = []"
    and w: "rs_world s = (\<lambda>_ _. None)"
  shows "wp (enforce_policy (sample_client cm) sample_controller_library sample_reconciler secret psn)
     (\<lambda>_ s'. active (rs_policy s')) (\<lambda>_ _. False) s"
proof -
  let ?lib = sample_controller_library
  define q where "q = change_meta (lib_add_finalizer ?lib KubewardenFinalizer) (set_condition ?lib reachable_condition (rs_policy s))"
  define w1 where "w1 = snd (reconcileWebhookConfiguration (sample_client cm) sample_reconciler q secret psn (\<lambda>_ _. None))"
  have q: "IsMutating q = False" "GetUniqueName q = ''kw.ap.ns.p''" "legacyPolicyUniqueName q = ''namespaced-ns-p''"
    using same_policy_fields [OF p(1)] sample_bound_fields
    by (simp_all add: q_def change_meta_def set_condition_def sample_controller_library_def legacyPolicyUniqueName_def
        split: PolicyKind.splits)
  have w1: "reconcileWebhookConfiguration (sample_client cm) sample_reconciler q secret psn (\<lambda>_ _. None) = (Ok (), w1)"
    "w1 k ''namespaced-ns-p'' = None" for k
    by (simp_all add: w1_def reconcileWebhookConfiguration_def reconcileValidatingWebhookConfiguration_def q act_defs
        sample_client_def Let_def meta_named_def)
  have run: "wp (reconcileWebhookConfiguration (sample_client cm) sample_reconciler q secret psn) P Q (\<lambda>_ _. None) = P () w1"
    "wp (reconcileLegacyWebhookConfigurationCleanup (sample_client cm) q) P Q w1 = P () w1" for P Q
    using sample_cleanup [of w1 q cm] by (simp_all add: wp_def w1 q)
  have fin: "\<not> lib_contains_finalizer ?lib (GetObjectMeta (rs_policy s)) KubewardenFinalizer"
    using p(2) by (simp add: sample_controller_library_def)
  have "active (setPolicyAsActive ?lib q)"
    by (simp add: active_def setPolicyAsActive_def set_condition_def SetStatus_def condition_status_def sample_controller_library_def)
  then show ?thesis
    by (simp add: enforce_policy_def update_policy_def wp_simps fin q_def [symmetric] w sample_steps run)
qed

lemma sample_report:
  assumes "active (rs_policy s)"
  shows "wp (report_status (sample_client cm) sample_controller_library sample_reconciler (Inr res))
     (\<lambda>_ s'. active (rs_policy s')) (\<lambda>_ _. False) s"
  using assms
  by (simp add: report_status_def setPolicyModeStatus_def Let_def wp_simps sample_steps policyServerDeploymentName_def
      configuration_condition(2) [OF sample_library_laws(2)] mode_status_simps)

lemma wp_reconcile_alive:
  assumes "om_deletionTimestamp (GetObjectMeta (rs_policy s)) = None"
  shows "wp (reconcile kc lib r) P Q s =
     wp (reconcilePolicy kc lib r) (\<lambda>res. wp (report_status kc lib r (Inr res)) P Q) (\<lambda>e. wp (report_status kc lib r (Inl e)) P Q) s"
  using assms by (simp add: reconcile_def wp_simps)


definition sample_leaving :: Policy where
  "sample_leaving = as_Policy (AP ((sample_policy ''ns'' ''p'' ''protect'')
     \<lparr>ap_meta := (sample_meta ''ns'' ''p'')\<lparr>om_deletionTimestamp := Some 1, om_finalizers := [KubewardenFinalizer]\<rparr>\<rparr>))"

definition sample_stored :: webhooks where
  "sample_stored = (\<lambda>k n. if k = Validating \<and> n = ''kw.ap.ns.p''
     then Some \<lparr>wc_meta = meta_named n, wc_webhooks = []\<rparr> else None)"

lemma sample_leaving_fields:
  "GetUniqueName sample_leaving = ''kw.ap.ns.p''" "om_deletionTimestamp (GetObjectMeta sample_leaving) = Some 1"
  "IsMutating sample_leaving = False" "om_finalizers (GetObjectMeta sample_leaving) = [KubewardenFinalizer]"
  "legacyPolicyUniqueName sample_leaving = ''namespaced-ns-p''" "is_policy sample_leaving" "well_named sample_leaving"
proof -
  show "is_policy sample_leaving" unfolding is_policy_def sample_leaving_def by blast
qed (simp_all add: sample_leaving_def AdmissionPolicy_as_Policy_def sample_policy_defs Let_def well_named_def
      legacyPolicyUniqueName_def namespaced_kind_def)

lemma sample_withdrawal:
  "\<exists>s'. reconcile (sample_client cm) sample_controller_library sample_reconciler
      \<lparr>rs_policy = sample_leaving, rs_world = sample_stored\<rparr> = (Ok Result_zero, s')"
proof -
  define w1 where "w1 = sample_stored(Validating := (sample_stored Validating)(''kw.ap.ns.p'' := None))"
  have del: "deleteWebhookConfiguration (sample_client cm) sample_leaving sample_stored = (Ok (), w1)"
    by (simp add: deleteWebhookConfiguration_def sample_leaving_fields reconcileValidatingWebhookConfigurationDeletion_def
        act_defs sample_client_def sample_view_def delete_exactly_def w1_def sample_stored_def meta_named_def)
  have clean: "reconcileLegacyWebhookConfigurationCleanup (sample_client cm) sample_leaving w1 = (Ok (), w1)"
    by (rule sample_cleanup) (simp_all add: sample_leaving_fields w1_def sample_stored_def)
  have steps: "wp (deleteWebhookConfiguration (sample_client cm) sample_leaving) P Q sample_stored = P () w1"
    "wp (reconcileLegacyWebhookConfigurationCleanup (sample_client cm) sample_leaving) P Q w1 = P () w1" for P Q
    by (simp_all add: wp_def del clean)
  have "wp (reconcile (sample_client cm) sample_controller_library sample_reconciler) (\<lambda>res _. res = Result_zero) (\<lambda>_ _. False)
      \<lparr>rs_policy = sample_leaving, rs_world = sample_stored\<rparr>"
    by (simp add: reconcile_def removePolicyWebhooksAndFinalizers_def wp_simps sample_leaving_fields steps Let_def
        update_policy_def sample_steps)
  then have "\<exists>res s'. reconcile (sample_client cm) sample_controller_library sample_reconciler
      \<lparr>rs_policy = sample_leaving, rs_world = sample_stored\<rparr> = (Ok res, s') \<and> res = Result_zero" by (rule wp_total)
  then show ?thesis by simp
qed

theorem withdrawn_policy_has_no_webhook_witness:
  "\<exists>s'. sample_stored Validating ''kw.ap.ns.p'' \<noteq> None \<and>
    reconcile (sample_client \<lparr>cm_meta = meta_named ''c'', cm_data = []\<rparr>) sample_controller_library sample_reconciler
      \<lparr>rs_policy = sample_leaving, rs_world = sample_stored\<rparr> = (Ok Result_zero, s') \<and>
    gone sample_leaving (sample_view (rs_world s')) \<and> KubewardenFinalizer \<notin> set (om_finalizers (GetObjectMeta (rs_policy s')))"
proof -
  obtain s' where run: "reconcile (sample_client \<lparr>cm_meta = meta_named ''c'', cm_data = []\<rparr>) sample_controller_library sample_reconciler
      \<lparr>rs_policy = sample_leaving, rs_world = sample_stored\<rparr> = (Ok Result_zero, s')" using sample_withdrawal by blast
  have "om_deletionTimestamp (GetObjectMeta sample_leaving) \<noteq> None" by (simp add: sample_leaving_fields)
  from withdrawn_policy_has_no_webhook [OF sample_client_laws sample_library_laws sample_leaving_fields(6,7) run disjI1 [OF this]]
  have "gone sample_leaving (sample_view (rs_world s'))" "KubewardenFinalizer \<notin> set (om_finalizers (GetObjectMeta (rs_policy s')))"
    by (auto simp: kubewarden_finalizers_def)
  with run show ?thesis by (intro exI [of _ s']) (simp add: sample_stored_def)
qed

definition sample_cluster_policy :: Policy where
  "sample_cluster_policy = ClusterAdmissionPolicy_as_Policy
     \<lparr>cap_meta = sample_meta [] ''p'',
      cap_spec = PolicySpec.extend (sample_spec ''protect'' [sample_rule [''''] [''pods'']])
        (ClusterAdmissionPolicySpec.fields None [] False),
      cap_status = sample_status\<rparr>"

theorem cluster_policy_spares_the_controller_witness:
  "\<not> selector_matches (namespaceSelector sample_reconciler sample_cluster_policy)
      [(''kubernetes.io/metadata.name'', ''kubewarden'')] \<and>
   selector_matches (namespaceSelector sample_reconciler sample_cluster_policy)
      [(''kubernetes.io/metadata.name'', ''default'')]"
proof -
  have p: "\<not> namespaced_kind (DynamicType sample_cluster_policy)"
    "\<not> GetAllowInsideAdmissionControllerNamespace sample_cluster_policy" "GetNamespaceSelector sample_cluster_policy = None"
    by (simp_all add: sample_cluster_policy_def ClusterAdmissionPolicy_as_Policy_def namespaced_kind_def Let_def
        PolicySpec.defs ClusterAdmissionPolicySpec.defs)
  show ?thesis
    using cluster_policy_spares_the_controller [OF p(1,2), of "[(''kubernetes.io/metadata.name'', ''kubewarden'')]" "''kubewarden''"]
      cluster_policy_spares_the_controller [OF p(1,2), of "[(''kubernetes.io/metadata.name'', ''default'')]" "''default''"]
    by (simp add: p(3) selector_matches_def sample_reconciler_def)
qed

end
