(* ===== verification/Audit_Report.thy ===== *)
theory Audit_Report
  imports Policy_Enforcement
begin

text \<open>
  The reports of the audit scanner (\<^verbatim>\<open>internal/audit-scanner/report\<close>): the result of a policy
  for a resource, the report of a resource in its two formats, each namespaced and cluster-wide,
  the stores that write the reports to the cluster and delete the ones of earlier runs, and the
  removal of the reports in the older format.

  The two formats have the same fields.  The calls to the API server are the fields of a
  record, as for the reconcilers; the laws they are expected to have are about the reports
  that are stored.
\<close>

section \<open>Kubernetes types\<close>

text \<open>A resource of any kind, by the results of its methods.\<close>

record unstructured =
  u_meta :: ObjectMeta
  u_apiVersion :: string
  u_kind :: string
  u_group :: string
  u_version :: string
  u_object :: json

record OwnerReference =
  owner_apiVersion :: string
  owner_kind :: string
  owner_name :: string
  owner_uid :: string

record ObjectReference =
  oref_apiVersion :: string
  oref_kind :: string
  oref_namespace :: string
  oref_name :: string
  oref_uid :: string
  oref_resourceVersion :: string

record Status_v1 =
  st_code :: "32 word"
  st_message :: string

record AdmissionResponse_v1 =
  aresp_uid :: string
  aresp_allowed :: bool
  aresp_result :: "Status_v1 option"

record AdmissionReview_v1 =
  arev_response :: "AdmissionResponse_v1 option"

section \<open>Results and reports\<close>

datatype CrdKind = ReportKindOpenReport | ReportKindPolicyReport

datatype report_type = PolicyReport | ClusterPolicyReport | OpenReport | OpenClusterReport

record ReportResult =
  rr_source :: string
  rr_policy :: string
  rr_category :: string
  rr_severity :: string
  rr_timestamp :: nat
  rr_result :: string
  rr_scored :: bool
  rr_description :: string
  rr_properties :: "(string \<times> string) list"

record ReportSummary =
  sum_pass :: nat
  sum_fail :: nat
  sum_warn :: nat
  sum_error :: nat
  sum_skip :: nat

record Report =
  rep_type :: report_type
  rep_meta :: ObjectMeta
  rep_owners :: "OwnerReference list"
  rep_scope :: "ObjectReference option"
  rep_summary :: ReportSummary
  rep_results :: "ReportResult list"

text \<open>Dereferencing a nil pointer ends the program.\<close>

datatype go_panic = NilDereference

definition statusPass :: string where "statusPass = ''pass''"
definition statusFail :: string where "statusFail = ''fail''"
definition statusError :: string where "statusError = ''error''"
definition severityInfo :: string where "severityInfo = ''info''"

definition labelAppManagedBy :: string where "labelAppManagedBy = ''app.kubernetes.io/managed-by''"
definition labelApp :: string where "labelApp = ''kubewarden''"
definition labelPolicyReportVersion :: string where
  "labelPolicyReportVersion = ''kubewarden.io/policyreport-version''"
definition AuditScannerRunUIDLabel :: string where
  "AuditScannerRunUIDLabel = ''kubewarden.io/audit-scanner-run-uid''"

definition getCategoryAndMessage :: "Policy \<Rightarrow> AdmissionReview_v1 option \<Rightarrow> string \<times> string" where
  "getCategoryAndMessage policy admissionReview =
     ((case GetCategory policy of Some c \<Rightarrow> c | None \<Rightarrow> []),
      (case Option.bind (Option.bind admissionReview arev_response) aresp_result of
         Some result \<Rightarrow> st_message result
       | None \<Rightarrow> []))"

definition computePolicyResult :: "bool \<Rightarrow> AdmissionReview_v1 option \<Rightarrow> go_panic + string" where
  "computePolicyResult errored admissionReview =
     (if errored then Ok statusError
      else
        (case Option.bind admissionReview arev_response of
           None \<Rightarrow> Err NilDereference
         | Some response \<Rightarrow> Ok (if aresp_allowed response then statusPass else statusFail)))"

definition computePolicyResultSeverity :: "Policy \<Rightarrow> string" where
  "computePolicyResultSeverity policy =
     (if GetPolicyMode policy = ''monitor'' then severityInfo
      else (case GetSeverity policy of Some s \<Rightarrow> s | None \<Rightarrow> []))"

definition computeProperties :: "Policy \<Rightarrow> (string \<times> string) list" where
  "computeProperties policy =
     (let p = map_put [] (if IsMutating policy then ''mutating'' else ''validating'') ''true'';
          p = (if IsContextAware policy then map_put p ''context-aware'' ''true'' else p);
          p = map_put p ''policy-resource-version'' (om_resourceVersion (GetObjectMeta policy));
          p = map_put p ''policy-uid'' (om_uid (GetObjectMeta policy));
          p = map_put p ''policy-name'' (GetName policy) in
      if GetNamespace policy \<noteq> [] then map_put p ''policy-namespace'' (GetNamespace policy) else p)"

definition getReportObjectMeta :: "string \<Rightarrow> unstructured \<Rightarrow> ObjectMeta" where
  "getReportObjectMeta runUID resource =
     (meta_named (om_uid (u_meta resource)))
       \<lparr>om_labels := [(labelAppManagedBy, labelApp), (labelPolicyReportVersion, ''v2''),
                      (AuditScannerRunUIDLabel, runUID)]\<rparr>"

definition report_owners :: "unstructured \<Rightarrow> OwnerReference list" where
  "report_owners resource =
     [\<lparr>owner_apiVersion = u_apiVersion resource, owner_kind = u_kind resource,
       owner_name = om_name (u_meta resource), owner_uid = om_uid (u_meta resource)\<rparr>]"

definition getReportScope :: "unstructured \<Rightarrow> ObjectReference" where
  "getReportScope resource =
     \<lparr>oref_apiVersion = u_apiVersion resource, oref_kind = u_kind resource,
      oref_namespace = om_namespace (u_meta resource), oref_name = om_name (u_meta resource),
      oref_uid = om_uid (u_meta resource), oref_resourceVersion = om_resourceVersion (u_meta resource)\<rparr>"

definition summary_zero :: ReportSummary where
  "summary_zero = \<lparr>sum_pass = 0, sum_fail = 0, sum_warn = 0, sum_error = 0, sum_skip = 0\<rparr>"

definition NewPolicyReport :: "string \<Rightarrow> unstructured \<Rightarrow> Report" where
  "NewPolicyReport runUID resource =
     \<lparr>rep_type = PolicyReport,
      rep_meta = (getReportObjectMeta runUID resource)\<lparr>om_namespace := om_namespace (u_meta resource)\<rparr>,
      rep_owners = report_owners resource, rep_scope = Some (getReportScope resource),
      rep_summary = summary_zero, rep_results = []\<rparr>"

definition NewClusterPolicyReport :: "string \<Rightarrow> unstructured \<Rightarrow> Report" where
  "NewClusterPolicyReport runUID resource =
     \<lparr>rep_type = ClusterPolicyReport, rep_meta = getReportObjectMeta runUID resource,
      rep_owners = report_owners resource, rep_scope = Some (getReportScope resource),
      rep_summary = summary_zero, rep_results = []\<rparr>"

definition NewOpenReport :: "string \<Rightarrow> unstructured \<Rightarrow> Report" where
  "NewOpenReport runUID resource =
     \<lparr>rep_type = OpenReport,
      rep_meta = (getReportObjectMeta runUID resource)\<lparr>om_namespace := om_namespace (u_meta resource)\<rparr>,
      rep_owners = report_owners resource, rep_scope = Some (getReportScope resource),
      rep_summary = summary_zero, rep_results = []\<rparr>"

definition NewClusterOpenReport :: "string \<Rightarrow> unstructured \<Rightarrow> Report" where
  "NewClusterOpenReport runUID resource =
     \<lparr>rep_type = OpenClusterReport, rep_meta = getReportObjectMeta runUID resource,
      rep_owners = report_owners resource, rep_scope = Some (getReportScope resource),
      rep_summary = summary_zero, rep_results = []\<rparr>"

definition NewReportOfKind :: "CrdKind \<Rightarrow> string \<Rightarrow> unstructured \<Rightarrow> Report" where
  "NewReportOfKind kind runUID resource =
     (if kind = ReportKindPolicyReport then NewPolicyReport runUID resource else NewOpenReport runUID resource)"

definition NewClusterReportOfKind :: "CrdKind \<Rightarrow> string \<Rightarrow> unstructured \<Rightarrow> Report" where
  "NewClusterReportOfKind kind runUID resource =
     (if kind = ReportKindPolicyReport then NewClusterPolicyReport runUID resource
      else NewClusterOpenReport runUID resource)"

text \<open>
  Both formats make a result with the same fields; the time is an argument.
\<close>

definition newPolicyReportResult ::
  "Policy \<Rightarrow> AdmissionReview_v1 option \<Rightarrow> bool \<Rightarrow> nat \<Rightarrow> go_panic + ReportResult" where
  "newPolicyReportResult policy admissionReview errored timestamp =
     (let (category, message) = getCategoryAndMessage policy admissionReview in
      map_ok (\<lambda>result.
        \<lparr>rr_source = ''kubewarden'', rr_policy = GetUniqueName policy, rr_category = category,
         rr_severity = computePolicyResultSeverity policy, rr_timestamp = timestamp,
         rr_result = result, rr_scored = True, rr_description = message,
         rr_properties = computeProperties policy\<rparr>)
        (computePolicyResult errored admissionReview))"

definition count_result :: "string \<Rightarrow> ReportSummary \<Rightarrow> ReportSummary" where
  "count_result result s =
     (if result = statusFail then s\<lparr>sum_fail := sum_fail s + 1\<rparr>
      else if result = statusError then s\<lparr>sum_error := sum_error s + 1\<rparr>
      else if result = statusPass then s\<lparr>sum_pass := sum_pass s + 1\<rparr>
      else s)"

definition AddResult :: "nat \<Rightarrow> Policy \<Rightarrow> AdmissionReview_v1 option \<Rightarrow> bool \<Rightarrow> Report \<Rightarrow> go_panic + Report" where
  "AddResult now policy admissionReview errored r =
     map_ok (\<lambda>result. r\<lparr>rep_summary := count_result (rr_result result) (rep_summary r),
                         rep_results := rep_results r @ [result]\<rparr>)
       (newPolicyReportResult policy admissionReview errored now)"

definition SetSkipPolicies :: "nat \<Rightarrow> Report \<Rightarrow> Report" where
  "SetSkipPolicies n r = r\<lparr>rep_summary := (rep_summary r)\<lparr>sum_skip := n\<rparr>\<rparr>"

definition SetErrorPolicies :: "nat \<Rightarrow> Report \<Rightarrow> Report" where
  "SetErrorPolicies n r = r\<lparr>rep_summary := (rep_summary r)\<lparr>sum_error := n\<rparr>\<rparr>"

section \<open>The API server\<close>

datatype list_error = NoMatch | ListFailed string

record 'w report_client =
  rc_create_or_patch :: "Report \<Rightarrow> (Report \<Rightarrow> Report) \<Rightarrow> ('w, unit) call"
  rc_list_metadata :: "report_type \<Rightarrow> string \<times> string \<Rightarrow> string \<Rightarrow> ('w, ObjectMeta list) call"
  rc_delete :: "report_type \<Rightarrow> ObjectMeta \<Rightarrow> ('w, unit) call"
  rc_delete_all_of :: "report_type \<Rightarrow> string \<times> string \<Rightarrow> string \<Rightarrow> ('w, unit) call"
  rc_probe :: "report_type \<Rightarrow> string \<times> string \<Rightarrow> ('w, list_error, nat) action"
  rc_gvk_error :: "report_type \<Rightarrow> string option"

text \<open>
  Running every action of a list; the errors are collected.
\<close>

primrec act_all :: "('a \<Rightarrow> ('s, 'e, unit) action) \<Rightarrow> 'a list \<Rightarrow> ('s, 'd, 'e list) action" where
  "act_all f [] = act_ok []"
| "act_all f (x # xs) =
     act_then (act_try (f x)) (\<lambda>r.
     act_then (act_all f xs) (\<lambda>errs.
       act_ok (case r of Inl e \<Rightarrow> e # errs | Inr _ \<Rightarrow> errs)))"

text \<open>Running the actions of a list up to the first error.\<close>

primrec act_loop :: "('a \<Rightarrow> ('s, 'e, unit) action) \<Rightarrow> 'a list \<Rightarrow> ('s, 'e, unit) action" where
  "act_loop f [] = act_ok ()"
| "act_loop f (x # xs) = act_then (f x) (\<lambda>_. act_loop f xs)"

section \<open>The stores\<close>

definition managedByKubewardenSelector :: "string \<times> string" where
  "managedByKubewardenSelector = (labelAppManagedBy, labelApp)"

definition deleteAllManagedReports :: "'w report_client \<Rightarrow> report_type \<Rightarrow> string \<Rightarrow> ('w, string, unit) action" where
  "deleteAllManagedReports c sample namespace =
     act_map_err (wrap_err ''failed to delete reports'')
       (rc_delete_all_of c sample managedByKubewardenSelector namespace)"

definition deleteReport :: "'w report_client \<Rightarrow> report_type \<Rightarrow> ObjectMeta \<Rightarrow> ('w, string, unit) action" where
  "deleteReport c sample report =
     act_case (rc_delete c sample report)
       (\<lambda>err. case err of
            NotFound \<Rightarrow> act_ok ()
          | Conflict \<Rightarrow> act_ok ()
          | _ \<Rightarrow> act_err (wrap_err (''failed to delete report '' @ om_name report) err))
       act_ok"

fun api_type_text :: "report_type \<Rightarrow> string" where
  "api_type_text PolicyReport = ''*v1alpha2.PolicyReport''"
| "api_type_text ClusterPolicyReport = ''*v1alpha2.ClusterPolicyReport''"
| "api_type_text OpenReport = ''*v1alpha1.Report''"
| "api_type_text OpenClusterReport = ''*v1alpha1.ClusterReport''"

definition deleteReportsNotInSet ::
  "'w report_client \<Rightarrow> report_type \<Rightarrow> string \<times> string \<Rightarrow> string \<Rightarrow> string set \<Rightarrow> ('w, string, unit) action" where
  "deleteReportsNotInSet c sample labelSelector namespace keptReports =
     (case rc_gvk_error c sample of
        Some err \<Rightarrow> act_err (''failed to get GroupVersionKind for '' @ api_type_text sample @ '': '' @ err)
      | None \<Rightarrow>
          act_then (act_map_err (wrap_err ''failed to list reports'') (rc_list_metadata c sample labelSelector namespace))
            (\<lambda>items.
              act_then (act_all (\<lambda>report. if om_name report \<in> keptReports then act_ok () else deleteReport c sample report) items)
                (\<lambda>errs. if errs = [] then act_ok () else act_err (join_on (CHR 10) errs))))"

text \<open>
  The object that \<^verbatim>\<open>CreateOrPatch\<close> starts from when there is none, and the fields that are
  written to the one that is found or made.
\<close>

definition blank_report :: "report_type \<Rightarrow> string \<Rightarrow> string \<Rightarrow> Report" where
  "blank_report t name namespace =
     \<lparr>rep_type = t, rep_meta = (meta_named name)\<lparr>om_namespace := namespace\<rparr>, rep_owners = [], rep_scope = None,
      rep_summary = summary_zero, rep_results = []\<rparr>"

definition write_report :: "Report \<Rightarrow> Report \<Rightarrow> Report" where
  "write_report new old =
     old\<lparr>rep_meta := (rep_meta old)\<lparr>om_labels := om_labels (rep_meta new)\<rparr>,
         rep_owners := rep_owners new, rep_scope := rep_scope new,
         rep_summary := rep_summary new, rep_results := rep_results new\<rparr>"

fun type_text :: "report_type \<Rightarrow> string" where
  "type_text PolicyReport = ''*report.PolicyReport''"
| "type_text ClusterPolicyReport = ''*report.ClusterPolicyReport''"
| "type_text OpenReport = ''*report.OpenReport''"
| "type_text OpenClusterReport = ''*report.OpenClusterReport''"

definition create_or_patch ::
  "'w report_client \<Rightarrow> report_type \<Rightarrow> string \<Rightarrow> string \<Rightarrow> string \<Rightarrow> Report \<Rightarrow> ('w, string, unit) action" where
  "create_or_patch c expected expected_text what namespace report =
     (if rep_type report \<noteq> expected then
        act_err (''expected '' @ expected_text @ '', got '' @ type_text (rep_type report))
      else
        act_map_err (wrap_err (''failed to create or patch '' @ what @ '' '' @ om_name (rep_meta report)))
          (rc_create_or_patch c (blank_report expected (om_name (rep_meta report)) namespace) (write_report report)))"

definition PolicyReportStore_CreateOrPatchReport :: "'w report_client \<Rightarrow> Report \<Rightarrow> ('w, string, unit) action" where
  "PolicyReportStore_CreateOrPatchReport c obj =
     create_or_patch c PolicyReport ''*PolicyReport'' ''policy report'' (om_namespace (rep_meta obj)) obj"

definition PolicyReportStore_CreateOrPatchClusterReport :: "'w report_client \<Rightarrow> Report \<Rightarrow> ('w, string, unit) action" where
  "PolicyReportStore_CreateOrPatchClusterReport c obj =
     create_or_patch c ClusterPolicyReport ''*PolicyReport'' ''cluster policy report'' [] obj"

definition OpenReportStore_CreateOrPatchReport :: "'w report_client \<Rightarrow> Report \<Rightarrow> ('w, string, unit) action" where
  "OpenReportStore_CreateOrPatchReport c obj =
     create_or_patch c OpenReport ''*OpenReport'' ''policy report'' (om_namespace (rep_meta obj)) obj"

definition OpenReportStore_CreateOrPatchClusterReport :: "'w report_client \<Rightarrow> Report \<Rightarrow> ('w, string, unit) action" where
  "OpenReportStore_CreateOrPatchClusterReport c obj =
     create_or_patch c OpenClusterReport ''*OpenReport'' ''cluster policy report'' [] obj"

record 'w Store =
  CreateOrPatchReport :: "Report \<Rightarrow> ('w, string, unit) action"
  DeleteOldReports :: "string set \<Rightarrow> string \<Rightarrow> ('w, string, unit) action"
  DeleteAllReports :: "string \<Rightarrow> ('w, string, unit) action"
  CreateOrPatchClusterReport :: "Report \<Rightarrow> ('w, string, unit) action"
  DeleteOldClusterReports :: "string set \<Rightarrow> ('w, string, unit) action"
  DeleteAllClusterReports :: "('w, string, unit) action"

definition PolicyReportStore :: "'w report_client \<Rightarrow> 'w Store" where
  "PolicyReportStore c =
     \<lparr>CreateOrPatchReport = PolicyReportStore_CreateOrPatchReport c,
      DeleteOldReports = (\<lambda>kept namespace. deleteReportsNotInSet c PolicyReport managedByKubewardenSelector namespace kept),
      DeleteAllReports = deleteAllManagedReports c PolicyReport,
      CreateOrPatchClusterReport = PolicyReportStore_CreateOrPatchClusterReport c,
      DeleteOldClusterReports = deleteReportsNotInSet c ClusterPolicyReport managedByKubewardenSelector [],
      DeleteAllClusterReports = deleteAllManagedReports c ClusterPolicyReport []\<rparr>"

definition OpenReportStore :: "'w report_client \<Rightarrow> 'w Store" where
  "OpenReportStore c =
     \<lparr>CreateOrPatchReport = OpenReportStore_CreateOrPatchReport c,
      DeleteOldReports = (\<lambda>kept namespace. deleteReportsNotInSet c OpenReport managedByKubewardenSelector namespace kept),
      DeleteAllReports = deleteAllManagedReports c OpenReport,
      CreateOrPatchClusterReport = OpenReportStore_CreateOrPatchClusterReport c,
      DeleteOldClusterReports = deleteReportsNotInSet c OpenClusterReport managedByKubewardenSelector [],
      DeleteAllClusterReports = deleteAllManagedReports c OpenClusterReport []\<rparr>"

definition NewReportStoreOfKind :: "CrdKind \<Rightarrow> 'w report_client \<Rightarrow> 'w Store" where
  "NewReportStoreOfKind kind c = (if kind = ReportKindPolicyReport then PolicyReportStore c else OpenReportStore c)"

section \<open>Reports in the older format\<close>

definition legacyPolicyReportNamespaces :: "'w report_client \<Rightarrow> string \<times> string \<Rightarrow> ('w, string, string list) action" where
  "legacyPolicyReportNamespaces c labelSelector =
     (case rc_gvk_error c PolicyReport of
        Some err \<Rightarrow> act_err (''failed to get GroupVersionKind for PolicyReport: '' @ err)
      | None \<Rightarrow>
          act_then (act_map_err (wrap_err ''failed to list PolicyReports'') (rc_list_metadata c PolicyReport labelSelector []))
            (\<lambda>items. act_ok (remdups (map om_namespace items))))"

definition delete_legacy_cluster_reports :: "'w report_client \<Rightarrow> string \<times> string \<Rightarrow> ('w, string, unit) action" where
  "delete_legacy_cluster_reports c labelSelector =
     act_case (rc_probe c ClusterPolicyReport labelSelector)
       (\<lambda>err. case err of
            NoMatch \<Rightarrow> act_ok ()
          | ListFailed e \<Rightarrow> act_err (''failed to list legacy ClusterPolicyReports: '' @ e))
       (\<lambda>n. if n > 0 then
              act_map_err (wrap_err ''failed to delete legacy ClusterPolicyReports'')
                (rc_delete_all_of c ClusterPolicyReport labelSelector [])
            else act_ok ())"

definition DeleteAllLegacyPolicyReports :: "'w report_client \<Rightarrow> ('w, string, unit) action" where
  "DeleteAllLegacyPolicyReports c =
     (let labelSelector = managedByKubewardenSelector in
      act_then (delete_legacy_cluster_reports c labelSelector) (\<lambda>_.
      act_case (rc_probe c PolicyReport labelSelector)
        (\<lambda>err. case err of
             NoMatch \<Rightarrow> act_ok ()
           | ListFailed e \<Rightarrow> act_err (''failed to list legacy PolicyReports: '' @ e))
        (\<lambda>n. if n = 0 then act_ok ()
             else
               act_then (act_map_err (\<lambda>e. ''failed to list legacy PolicyReport namespaces: '' @ e)
                           (legacyPolicyReportNamespaces c labelSelector))
                 (act_loop (\<lambda>ns. act_map_err (wrap_err (''failed to delete legacy PolicyReports in namespace '' @ ns))
                    (rc_delete_all_of c PolicyReport labelSelector ns))))))"

section \<open>What the API server promises\<close>

text \<open>
  The reports that are stored, by type, namespace and name; the reports of cluster-wide types
  have the empty namespace.  No one else changes them meanwhile, and a call that fails with an
  unexpected error may have had its effect.
\<close>

type_synonym reports = "report_type \<Rightarrow> string \<times> string \<Rightarrow> Report option"

abbreviation meta_key :: "ObjectMeta \<Rightarrow> string \<times> string" where
  "meta_key m \<equiv> (om_namespace m, om_name m)"

definition selected :: "string \<times> string \<Rightarrow> string \<Rightarrow> string \<times> string \<Rightarrow> Report option \<Rightarrow> bool" where
  "selected sel ns k r \<longleftrightarrow>
     (ns = [] \<or> fst k = ns) \<and> (\<exists>rep. r = Some rep \<and> map_of (om_labels (rep_meta rep)) (fst sel) = Some (snd sel))"

definition remove_at :: "report_type \<Rightarrow> string \<times> string \<Rightarrow> reports \<Rightarrow> reports" where
  "remove_at t k v = v(t := (v t)(k := None))"

definition remove_selected :: "report_type \<Rightarrow> string \<times> string \<Rightarrow> string \<Rightarrow> (string \<Rightarrow> bool) \<Rightarrow> reports \<Rightarrow> reports" where
  "remove_selected t sel ns kept v =
     v(t := (\<lambda>k. if selected sel ns k (v t k) \<and> \<not> kept (snd k) then None else v t k))"

text \<open>Some of the selected reports that are not kept may be gone.\<close>

definition removes_some :: "report_type \<Rightarrow> string \<times> string \<Rightarrow> string \<Rightarrow> (string \<Rightarrow> bool) \<Rightarrow> reports \<Rightarrow> reports \<Rightarrow> bool" where
  "removes_some t sel ns kept v v' \<longleftrightarrow>
     (\<forall>t' k. v' t' k = v t' k \<or> t' = t \<and> selected sel ns k (v t k) \<and> \<not> kept (snd k) \<and> v' t' k = None)"

definition same_report :: "Report \<Rightarrow> Report \<Rightarrow> bool" where
  "same_report a b \<longleftrightarrow>
     om_labels (rep_meta a) = om_labels (rep_meta b) \<and> rep_owners a = rep_owners b \<and> rep_scope a = rep_scope b \<and>
     rep_summary a = rep_summary b \<and> rep_results a = rep_results b"

definition changes_only :: "report_type \<Rightarrow> string \<times> string \<Rightarrow> reports \<Rightarrow> reports \<Rightarrow> bool" where
  "changes_only t k v v' \<longleftrightarrow> (\<forall>t' k'. (t', k') \<noteq> (t, k) \<longrightarrow> v' t' k' = v t' k')"

definition report_keys_law :: "('w \<Rightarrow> reports) \<Rightarrow> bool" where
  "report_keys_law v \<longleftrightarrow> (\<forall>w t k rep. v w t k = Some rep \<longrightarrow> meta_key (rep_meta rep) = k)"

definition report_patch_law :: "'w report_client \<Rightarrow> ('w \<Rightarrow> reports) \<Rightarrow> bool" where
  "report_patch_law rc v \<longleftrightarrow>
     (\<forall>fresh f w r w'. rc_create_or_patch rc fresh f w = (r, w') \<longrightarrow>
        (let t = rep_type fresh; k = meta_key (rep_meta fresh) in
         changes_only t k (v w) (v w') \<and>
         (r = Ok () \<longrightarrow> (\<exists>rep. v w' t k = Some rep \<and>
            same_report rep (f (case v w t k of Some old \<Rightarrow> old | None \<Rightarrow> fresh))))))"

definition report_list_law :: "'w report_client \<Rightarrow> ('w \<Rightarrow> reports) \<Rightarrow> bool" where
  "report_list_law rc v \<longleftrightarrow>
     (\<forall>t sel ns w r w'. rc_list_metadata rc t sel ns w = (r, w') \<longrightarrow>
        v w' = v w \<and>
        (\<forall>metas. r = Ok metas \<longrightarrow>
           set metas = {rep_meta rep |rep k. v w t k = Some rep \<and> selected sel ns k (v w t k)})) \<and>
     (\<forall>t sel w r w'. rc_probe rc t sel w = (r, w') \<longrightarrow>
        v w' = v w \<and> (r = Ok 0 \<or> r = Err NoMatch \<longrightarrow> (\<forall>k. \<not> selected sel [] k (v w t k))))"

text \<open>A report is deleted only if it is the one with the given UID and version.\<close>

definition report_delete_law :: "'w report_client \<Rightarrow> ('w \<Rightarrow> reports) \<Rightarrow> bool" where
  "report_delete_law rc v \<longleftrightarrow>
     (\<forall>t m w r w'. rc_delete rc t m w = (r, w') \<longrightarrow>
        (let same = (\<exists>rep. v w t (meta_key m) = Some rep \<and> om_uid (rep_meta rep) = om_uid m \<and>
                       om_resourceVersion (rep_meta rep) = om_resourceVersion m) in
         (v w' = v w \<or> same \<and> v w' = remove_at t (meta_key m) (v w)) \<and>
         (r = Ok () \<longrightarrow> same \<and> v w' = remove_at t (meta_key m) (v w)) \<and>
         (r = Err NotFound \<longrightarrow> v w t (meta_key m) = None) \<and>
         (r = Err Conflict \<longrightarrow> v w t (meta_key m) \<noteq> None \<and> \<not> same)))"

definition report_delete_all_law :: "'w report_client \<Rightarrow> ('w \<Rightarrow> reports) \<Rightarrow> bool" where
  "report_delete_all_law rc v \<longleftrightarrow>
     (\<forall>t sel ns w r w'. rc_delete_all_of rc t sel ns w = (r, w') \<longrightarrow>
        removes_some t sel ns (\<lambda>_. False) (v w) (v w') \<and>
        (r = Ok () \<longrightarrow> v w' = remove_selected t sel ns (\<lambda>_. False) (v w)))"

definition report_laws :: "'w report_client \<Rightarrow> ('w \<Rightarrow> reports) \<Rightarrow> bool" where
  "report_laws rc v \<longleftrightarrow> report_keys_law v \<and> report_patch_law rc v \<and> report_list_law rc v \<and>
     report_delete_law rc v \<and> report_delete_all_law rc v"

section \<open>The contract of a store\<close>

lemma remove_at_apply: "remove_at t k v t' k' = (if t' = t \<and> k' = k then None else v t' k')"
  by (simp add: remove_at_def)

lemma remove_selected_apply:
  "remove_selected t sel ns kept v t' k = (if t' = t \<and> selected sel ns k (v t k) \<and> \<not> kept (snd k) then None else v t' k)"
  by (simp add: remove_selected_def)

lemma removes_some_refl [simp]: "removes_some t sel ns kept v v"
  by (simp add: removes_some_def)

lemma removes_some_all: "removes_some t sel ns kept v (remove_selected t sel ns kept v)"
  by (simp add: removes_some_def remove_selected_apply)

text \<open>What deleting one report makes of the stored ones.\<close>

lemma deleteReport_wp:
  assumes "report_delete_law rc v" "\<And>rep. v w t (meta_key m) = Some rep \<Longrightarrow> rep_meta rep = m"
  shows "wp (deleteReport rc t m) (\<lambda>_ w'. v w' = remove_at t (meta_key m) (v w))
     (\<lambda>_ w'. v w' = v w \<or> v w' = remove_at t (meta_key m) (v w)) w"
proof -
  obtain r w' where call: "rc_delete rc t m w = (r, w')" by (cases "rc_delete rc t m w")
  have absent: "remove_at t (meta_key m) (v w) = v w" if "v w t (meta_key m) = None"
    using that by (auto simp: remove_at_def fun_eq_iff)
  have gone: "v w' = v w \<or> v w' = remove_at t (meta_key m) (v w)"
    "r = Ok () \<Longrightarrow> v w' = remove_at t (meta_key m) (v w)"
    "r = Err NotFound \<Longrightarrow> v w t (meta_key m) = None" "r \<noteq> Err Conflict"
    using assms call unfolding report_delete_law_def Let_def by blast+
  then show ?thesis
    using absent call by (auto simp: deleteReport_def wp_def act_case_def act_ok_def act_err_def split: sum.splits kube_error.splits)
qed

definition deletes_some :: "report_type \<Rightarrow> ObjectMeta list \<Rightarrow> string set \<Rightarrow> reports \<Rightarrow> reports \<Rightarrow> bool" where
  "deletes_some t items kept v v' \<longleftrightarrow>
     (\<forall>t' k. v' t' k = v t' k \<or> t' = t \<and> k \<in> meta_key ` set items \<and> snd k \<notin> kept \<and> v' t' k = None)"

definition deletes_all :: "report_type \<Rightarrow> ObjectMeta list \<Rightarrow> string set \<Rightarrow> reports \<Rightarrow> bool" where
  "deletes_all t items kept v' \<longleftrightarrow> (\<forall>m\<in>set items. om_name m \<notin> kept \<longrightarrow> v' t (meta_key m) = None)"

lemma deletes_some_Cons:
  "deletes_some t items kept v v' \<Longrightarrow> deletes_some t (m # items) kept v v'"
  "deletes_some t items kept (remove_at t (meta_key m) v) v' \<Longrightarrow> om_name m \<notin> kept \<Longrightarrow>
     deletes_some t (m # items) kept v v'"
  unfolding deletes_some_def remove_at_apply by force (auto split: if_splits, metis+)

lemma deletes_some_gone: "deletes_some t items kept v v' \<Longrightarrow> v t k = None \<Longrightarrow> v' t k = None"
  unfolding deletes_some_def by metis

lemma delete_each_wp:
  assumes law: "report_delete_law rc v"
    and "\<forall>m\<in>set items. \<forall>rep. v w t (meta_key m) = Some rep \<longrightarrow> rep_meta rep = m"
  shows "wp (act_all (\<lambda>m. if om_name m \<in> kept then act_ok () else deleteReport rc t m) items)
     (\<lambda>errs w'. deletes_some t items kept (v w) (v w') \<and> (errs = [] \<longrightarrow> deletes_all t items kept (v w'))) Q w"
  using assms(2)
proof (induction items arbitrary: w)
  case Nil
  then show ?case by (simp add: wp_simps deletes_some_def deletes_all_def)
next
  case (Cons m items)
  let ?rest = "act_all (\<lambda>m. if om_name m \<in> kept then act_ok () else deleteReport rc t m) items"
  let ?post = "\<lambda>items v0 errs w'. deletes_some t items kept v0 (v w') \<and> (errs = [] \<longrightarrow> deletes_all t items kept (v w'))"
  show ?case
  proof (cases "om_name m \<in> kept")
    case True
    have "wp ?rest (?post items (v w)) Q w" using Cons.IH [of w] Cons.prems by simp
    then have "wp ?rest (?post (m # items) (v w)) Q w"
      by (rule wp_mono) (use True in \<open>auto intro: deletes_some_Cons simp: deletes_all_def\<close>)
    then show ?thesis using True by (simp add: wp_simps)
  next
    case False
    let ?v1 = "remove_at t (meta_key m) (v w)"
    have rest: "wp ?rest (?post items (v w1)) Q w1" if "v w1 = v w \<or> v w1 = ?v1" for w1
      by (rule Cons.IH) (use Cons.prems that in \<open>auto simp: remove_at_apply split: if_splits\<close>)
    have gone: "v w' t (meta_key m) = None" if "deletes_some t items kept ?v1 (v w')" for w'
      using deletes_some_gone [OF that] by (simp add: remove_at_apply)
    have ok: "wp ?rest (?post (m # items) (v w)) Q w1" if "v w1 = ?v1" for w1
      by (rule wp_mono [OF rest]) (use that False gone in \<open>auto intro: deletes_some_Cons(2) simp: deletes_all_def\<close>)
    have err: "wp ?rest (\<lambda>errs w'. deletes_some t (m # items) kept (v w) (v w')) Q w1" if "v w1 = v w \<or> v w1 = ?v1" for w1
      by (rule wp_mono [OF rest [OF that]]) (use that False in \<open>auto intro: deletes_some_Cons\<close>)
    have "wp (deleteReport rc t m) (\<lambda>_. wp ?rest (?post (m # items) (v w)) Q)
        (\<lambda>_. wp ?rest (\<lambda>errs w'. deletes_some t (m # items) kept (v w) (v w')) Q) w"
      by (rule wp_mono [OF deleteReport_wp [OF law]]) (use Cons.prems ok err in simp_all)
    then show ?thesis using False by (simp add: wp_simps)
  qed
qed

definition listed :: "report_type \<Rightarrow> string \<times> string \<Rightarrow> string \<Rightarrow> reports \<Rightarrow> ObjectMeta set" where
  "listed t sel ns v = {rep_meta rep |rep k. v t k = Some rep \<and> selected sel ns k (v t k)}"

lemma listed_keys:
  assumes keys: "\<And>k rep. v t k = Some rep \<Longrightarrow> meta_key (rep_meta rep) = k"
  shows "k \<in> meta_key ` listed t sel ns v \<longleftrightarrow> selected sel ns k (v t k)"
proof
  assume "k \<in> meta_key ` listed t sel ns v"
  then obtain rep k' where r: "v t k' = Some rep" "selected sel ns k' (v t k')" "k = meta_key (rep_meta rep)"
    unfolding listed_def by blast
  with keys [OF r(1)] show "selected sel ns k (v t k)" by simp
next
  assume sel: "selected sel ns k (v t k)"
  then obtain rep where r: "v t k = Some rep" unfolding selected_def by blast
  with sel have "rep_meta rep \<in> listed t sel ns v" unfolding listed_def by blast
  then have "meta_key (rep_meta rep) \<in> meta_key ` listed t sel ns v" by (rule imageI)
  then show "k \<in> meta_key ` listed t sel ns v" by (simp only: keys [OF r])
qed

lemma deletes_listed:
  assumes keys: "\<And>k rep. v t k = Some rep \<Longrightarrow> meta_key (rep_meta rep) = k"
    and items: "set items = listed t sel ns v" and d: "deletes_some t items kept v v'"
  shows "removes_some t sel ns (\<lambda>n. n \<in> kept) v v'"
    and "deletes_all t items kept v' \<Longrightarrow> v' = remove_selected t sel ns (\<lambda>n. n \<in> kept) v"
proof -
  have mem: "k \<in> meta_key ` set items \<longleftrightarrow> selected sel ns k (v t k)" for k
    unfolding items by (rule listed_keys [OF keys])
  from d show "removes_some t sel ns (\<lambda>n. n \<in> kept) v v'"
    unfolding deletes_some_def removes_some_def mem .
  assume a: "deletes_all t items kept v'"
  have "v' t' k = remove_selected t sel ns (\<lambda>n. n \<in> kept) v t' k" for t' k
  proof (cases "t' = t \<and> selected sel ns k (v t k) \<and> snd k \<notin> kept")
    case True
    then obtain m where "m \<in> set items" "k = meta_key m" using mem [of k] by blast
    then have "v' t k = None" using a True unfolding deletes_all_def by simp
    with True show ?thesis by (simp add: remove_selected_apply)
  next
    case False
    then have "v' t' k = v t' k" using d unfolding deletes_some_def mem by blast
    with False show ?thesis by (auto simp: remove_selected_apply)
  qed
  then show "v' = remove_selected t sel ns (\<lambda>n. n \<in> kept) v" by (simp add: fun_eq_iff)
qed

lemma report_laws_parts:
  assumes "report_laws rc v"
  shows "v w t k = Some rep \<Longrightarrow> meta_key (rep_meta rep) = k" "report_delete_law rc v"
    "report_patch_law rc v" "report_list_law rc v" "report_delete_all_law rc v"
  using assms unfolding report_laws_def report_keys_law_def by blast+

lemma list_metadata_wp:
  assumes "report_laws rc v"
  shows "wp (rc_list_metadata rc t sel ns) (\<lambda>items w'. v w' = v w \<and> set items = listed t sel ns (v w)) (\<lambda>_ w'. v w' = v w) w"
  unfolding listed_def
  by (rule wpI) (use report_laws_parts(4) [OF assms] in \<open>unfold report_list_law_def, blast+\<close>)

lemma deleteReportsNotInSet_wp:
  assumes laws: "report_laws rc v"
  shows "wp (deleteReportsNotInSet rc t sel ns kept)
     (\<lambda>_ w'. v w' = remove_selected t sel ns (\<lambda>n. n \<in> kept) (v w))
     (\<lambda>_ w'. removes_some t sel ns (\<lambda>n. n \<in> kept) (v w) (v w')) w"
proof -
  let ?each = "act_all (\<lambda>m. if om_name m \<in> kept then act_ok () else deleteReport rc t m)"
  have each: "wp (?each items) (\<lambda>errs w'. removes_some t sel ns (\<lambda>n. n \<in> kept) (v w) (v w') \<and>
      (errs = [] \<longrightarrow> v w' = remove_selected t sel ns (\<lambda>n. n \<in> kept) (v w))) (\<lambda>_ _. False) w1"
    if "v w1 = v w" "set items = listed t sel ns (v w)" for items w1
  proof -
    have cur: "\<forall>m\<in>set items. \<forall>rep. v w1 t (meta_key m) = Some rep \<longrightarrow> rep_meta rep = m"
      using that(1) report_laws_parts(1) [OF laws] unfolding that(2) listed_def by fastforce
    have "wp (?each items) (\<lambda>errs w'. deletes_some t items kept (v w1) (v w') \<and> (errs = [] \<longrightarrow> deletes_all t items kept (v w')))
        (\<lambda>_ _. False) w1"
      by (rule delete_each_wp [where v = v, OF report_laws_parts(2) [OF laws] cur])
    then show ?thesis
      by (rule wp_mono) (use that deletes_listed [where t = t, OF report_laws_parts(1) [OF laws] that(2)] in auto)
  qed
  have "wp (rc_list_metadata rc t sel ns) (\<lambda>items. wp (?each items)
       (\<lambda>errs. wp (if errs = [] then act_ok () else act_err (join_on (CHR 10) errs))
          (\<lambda>_ w'. v w' = remove_selected t sel ns (\<lambda>n. n \<in> kept) (v w)) (\<lambda>_ w'. removes_some t sel ns (\<lambda>n. n \<in> kept) (v w) (v w')))
       (\<lambda>_ w'. removes_some t sel ns (\<lambda>n. n \<in> kept) (v w) (v w')))
     (\<lambda>_ w'. removes_some t sel ns (\<lambda>n. n \<in> kept) (v w) (v w')) w"
    by (rule wp_mono [OF list_metadata_wp [OF laws]]) (auto simp: wp_simps elim!: each [THEN wp_mono])
  then show ?thesis
    by (auto simp: deleteReportsNotInSet_def wp_simps split: option.splits)
qed

lemma deleteAllManagedReports_wp:
  assumes "report_laws rc v"
  shows "wp (deleteAllManagedReports rc t ns)
     (\<lambda>_ w'. v w' = remove_selected t managedByKubewardenSelector ns (\<lambda>_. False) (v w))
     (\<lambda>_ w'. removes_some t managedByKubewardenSelector ns (\<lambda>_. False) (v w) (v w')) w"
  unfolding deleteAllManagedReports_def wp_simps
  by (rule wp_unitI) (use report_laws_parts(5) [OF assms] in \<open>unfold report_delete_all_law_def, blast+\<close>)

text \<open>A report that was written is the given one, under the name it has; nothing else changed.\<close>

definition written :: "report_type \<Rightarrow> string \<times> string \<Rightarrow> Report \<Rightarrow> reports \<Rightarrow> reports \<Rightarrow> bool" where
  "written t k rep v v' \<longleftrightarrow> changes_only t k v v' \<and> (\<exists>rep'. v' t k = Some rep' \<and> same_report rep' rep)"

lemma create_or_patch_wp:
  assumes "report_laws rc v" "rep_type rep = t"
  shows "wp (create_or_patch rc t et what ns rep)
     (\<lambda>_ w'. written t (ns, om_name (rep_meta rep)) rep (v w) (v w'))
     (\<lambda>_ w'. changes_only t (ns, om_name (rep_meta rep)) (v w) (v w')) w"
proof -
  let ?fresh = "blank_report t (om_name (rep_meta rep)) ns"
  have k: "rep_type ?fresh = t" "meta_key (rep_meta ?fresh) = (ns, om_name (rep_meta rep))"
    by (simp_all add: blank_report_def meta_named_def)
  have same: "same_report (write_report rep old) rep" for old by (simp add: same_report_def write_report_def)
  have "same_report r' rep" if "same_report r' (write_report rep old)" for r' old
    using that same [of old] by (simp add: same_report_def)
  moreover have "changes_only t (ns, om_name (rep_meta rep)) (v w) (v w')"
    "r = Ok () \<Longrightarrow> \<exists>r'. v w' t (ns, om_name (rep_meta rep)) = Some r' \<and> same_report r' (write_report rep
       (case v w t (ns, om_name (rep_meta rep)) of Some old \<Rightarrow> old | None \<Rightarrow> ?fresh))"
    if "rc_create_or_patch rc ?fresh (write_report rep) w = (r, w')" for r w'
    using report_laws_parts(3) [OF assms(1), unfolded report_patch_law_def Let_def, rule_format, OF that] unfolding k by blast+
  ultimately have "wp (rc_create_or_patch rc ?fresh (write_report rep)) (\<lambda>_ w'. written t (ns, om_name (rep_meta rep)) rep (v w) (v w'))
     (\<lambda>_ w'. changes_only t (ns, om_name (rep_meta rep)) (v w) (v w')) w"
    by (intro wp_unitI) (unfold written_def, blast+)
  then show ?thesis using assms(2) by (simp add: create_or_patch_def wp_simps)
qed

text \<open>
  The interface \<^verbatim>\<open>Store\<close> hides the format of the reports.  Its contract: a report that is written
  is found under its name; deleting the old ones removes exactly the managed reports that are
  not to be kept, and when it fails only such reports may be gone.
\<close>

locale report_store =
  fixes store :: "'w report_client \<Rightarrow> 'w Store" and rt :: report_type and ct :: report_type
  assumes create: "report_laws rc v \<Longrightarrow> rep_type rep = rt \<Longrightarrow>
      wp (CreateOrPatchReport (store rc) rep)
        (\<lambda>_ w'. written rt (meta_key (rep_meta rep)) rep (v w) (v w'))
        (\<lambda>_ w'. changes_only rt (meta_key (rep_meta rep)) (v w) (v w')) w"
    and delete_old: "report_laws rc v \<Longrightarrow>
      wp (DeleteOldReports (store rc) kept ns)
        (\<lambda>_ w'. v w' = remove_selected rt managedByKubewardenSelector ns (\<lambda>n. n \<in> kept) (v w))
        (\<lambda>_ w'. removes_some rt managedByKubewardenSelector ns (\<lambda>n. n \<in> kept) (v w) (v w')) w"
    and delete_all: "report_laws rc v \<Longrightarrow>
      wp (DeleteAllReports (store rc) ns)
        (\<lambda>_ w'. v w' = remove_selected rt managedByKubewardenSelector ns (\<lambda>_. False) (v w))
        (\<lambda>_ w'. removes_some rt managedByKubewardenSelector ns (\<lambda>_. False) (v w) (v w')) w"
    and create_cluster: "report_laws rc v \<Longrightarrow> rep_type rep = ct \<Longrightarrow>
      wp (CreateOrPatchClusterReport (store rc) rep)
        (\<lambda>_ w'. written ct ([], om_name (rep_meta rep)) rep (v w) (v w'))
        (\<lambda>_ w'. changes_only ct ([], om_name (rep_meta rep)) (v w) (v w')) w"
    and delete_old_cluster: "report_laws rc v \<Longrightarrow>
      wp (DeleteOldClusterReports (store rc) kept)
        (\<lambda>_ w'. v w' = remove_selected ct managedByKubewardenSelector [] (\<lambda>n. n \<in> kept) (v w))
        (\<lambda>_ w'. removes_some ct managedByKubewardenSelector [] (\<lambda>n. n \<in> kept) (v w) (v w')) w"
    and delete_all_cluster: "report_laws rc v \<Longrightarrow>
      wp (DeleteAllClusterReports (store rc))
        (\<lambda>_ w'. v w' = remove_selected ct managedByKubewardenSelector [] (\<lambda>_. False) (v w))
        (\<lambda>_ w'. removes_some ct managedByKubewardenSelector [] (\<lambda>_. False) (v w) (v w')) w"

lemmas store_defs = PolicyReportStore_def OpenReportStore_def PolicyReportStore_CreateOrPatchReport_def
  PolicyReportStore_CreateOrPatchClusterReport_def OpenReportStore_CreateOrPatchReport_def
  OpenReportStore_CreateOrPatchClusterReport_def

lemmas store_wps = create_or_patch_wp deleteReportsNotInSet_wp deleteAllManagedReports_wp

interpretation policy_reports: report_store PolicyReportStore PolicyReport ClusterPolicyReport
  by unfold_locales (simp_all add: store_defs store_wps)

interpretation open_reports: report_store OpenReportStore OpenReport OpenClusterReport
  by unfold_locales (simp_all add: store_defs store_wps)

section \<open>Migration\<close>

text \<open>
  The migration removes every managed report of the older format, in all namespaces, and
  nothing else.
\<close>

definition legacy_removed :: "reports \<Rightarrow> reports \<Rightarrow> bool" where
  "legacy_removed v v' \<longleftrightarrow>
     (\<forall>t k. v' t k = (if t \<in> {PolicyReport, ClusterPolicyReport} \<and> selected managedByKubewardenSelector [] k (v t k)
                      then None else v t k))"

lemma probe_wp:
  assumes "report_laws rc v"
  shows "wp (rc_probe rc t sel)
     (\<lambda>n w'. v w' = v w \<and> (n = 0 \<longrightarrow> (\<forall>k. \<not> selected sel [] k (v w t k))))
     (\<lambda>e w'. v w' = v w \<and> (e = NoMatch \<longrightarrow> (\<forall>k. \<not> selected sel [] k (v w t k)))) w"
proof -
  have "v w' = v w \<and> (r = Ok 0 \<or> r = Err NoMatch \<longrightarrow> (\<forall>k. \<not> selected sel [] k (v w t k)))"
    if "rc_probe rc t sel w = (r, w')" for r w'
    using report_laws_parts(4) [OF assms, unfolded report_list_law_def, THEN conjunct2, rule_format, OF that] by blast
  then show ?thesis by (intro wpI) blast+
qed

lemma delete_all_of_wp:
  assumes "report_laws rc v"
  shows "wp (rc_delete_all_of rc t sel ns) (\<lambda>_ w'. v w' = remove_selected t sel ns (\<lambda>_. False) (v w)) (\<lambda>_ _. True) w"
  by (rule wp_unitI) (use report_laws_parts(5) [OF assms] in \<open>unfold report_delete_all_law_def, blast+\<close>)

lemma remove_none: "\<forall>a b. \<not> selected sel ns (a, b) (v t (a, b)) \<Longrightarrow> remove_selected t sel ns kept v = v"
  by (simp add: remove_selected_apply fun_eq_iff)

lemma delete_legacy_cluster_reports_wp:
  assumes "report_laws rc v"
  shows "wp (delete_legacy_cluster_reports rc sel)
     (\<lambda>_ w'. v w' = remove_selected ClusterPolicyReport sel [] (\<lambda>_. False) (v w)) (\<lambda>_ _. True) w"
proof -
  have del: "wp (rc_delete_all_of rc ClusterPolicyReport sel []) (\<lambda>_ w'. v w' = remove_selected ClusterPolicyReport sel [] (\<lambda>_. False) (v w))
      (\<lambda>_ _. True) w1" if "v w1 = v w" for w1 using delete_all_of_wp [OF assms, of ClusterPolicyReport sel "[]" w1] that by simp
  show ?thesis unfolding delete_legacy_cluster_reports_def wp_simps
    by (rule wp_mono [OF probe_wp [OF assms]]) (auto simp: wp_simps remove_none del split: list_error.splits)
qed

text \<open>Deleting namespace by namespace.\<close>

definition removed_in :: "string list \<Rightarrow> string \<times> string \<Rightarrow> reports \<Rightarrow> reports \<Rightarrow> bool" where
  "removed_in nss sel v v' \<longleftrightarrow>
     (\<forall>t k. v' t k = (if t = PolicyReport \<and> fst k \<in> set nss \<and> selected sel [] k (v t k) then None else v t k))"

lemma selected_ns: "ns \<noteq> [] \<Longrightarrow> selected sel ns k r \<longleftrightarrow> fst k = ns \<and> selected sel [] k r"
  "\<not> selected sel ns k None"
  by (auto simp: selected_def)

lemma removed_in_Cons:
  assumes "[] \<noteq> ns" "removed_in nss sel (remove_selected PolicyReport sel ns (\<lambda>_. False) v) v'"
  shows "removed_in (ns # nss) sel v v'"
  unfolding removed_in_def
proof (intro allI)
  fix t k
  show "v' t k = (if t = PolicyReport \<and> fst k \<in> set (ns # nss) \<and> selected sel [] k (v t k) then None else v t k)"
    using assms(2) [unfolded removed_in_def, rule_format, of t k]
    by (cases "t = PolicyReport"; cases "selected sel [] k (v PolicyReport k)"; cases "fst k = ns")
      (simp_all add: remove_selected_apply selected_ns assms(1) [symmetric])
qed

lemma delete_namespaces_wp:
  assumes laws: "report_laws rc v" and "[] \<notin> set nss"
  shows "wp (act_loop (\<lambda>ns. act_map_err (f ns) (rc_delete_all_of rc PolicyReport sel ns)) nss)
     (\<lambda>_ w'. removed_in nss sel (v w) (v w')) (\<lambda>_ _. True) w"
  using assms(2)
proof (induction nss arbitrary: w)
  case Nil
  then show ?case by (simp add: wp_simps removed_in_def)
next
  case (Cons ns nss)
  have step: "wp (act_loop (\<lambda>ns. act_map_err (f ns) (rc_delete_all_of rc PolicyReport sel ns)) nss)
      (\<lambda>_ w'. removed_in (ns # nss) sel (v w) (v w')) (\<lambda>_ _. True) w1"
    if "v w1 = remove_selected PolicyReport sel ns (\<lambda>_. False) (v w)" for w1
    by (rule wp_mono [OF Cons.IH]) (use Cons.prems that in \<open>simp_all add: removed_in_Cons\<close>)
  show ?case unfolding act_loop.simps wp_simps
    by (rule wp_mono [OF delete_all_of_wp [OF laws]]) (use step in simp_all)
qed

lemma legacyPolicyReportNamespaces_wp:
  assumes "report_laws rc v"
  shows "wp (legacyPolicyReportNamespaces rc sel)
     (\<lambda>nss w'. v w' = v w \<and> set nss = om_namespace ` listed PolicyReport sel [] (v w)) (\<lambda>_ _. True) w"
proof (cases "rc_gvk_error rc PolicyReport")
  case None
  then show ?thesis
    by (simp add: legacyPolicyReportNamespaces_def wp_simps) (rule wp_mono [OF list_metadata_wp [OF assms]], simp_all)
qed (simp add: legacyPolicyReportNamespaces_def wp_simps)

lemma legacy_removed_steps:
  assumes keys: "\<And>k rep. v PolicyReport k = Some rep \<Longrightarrow> meta_key (rep_meta rep) = k"
    and vc: "vc = remove_selected ClusterPolicyReport managedByKubewardenSelector [] (\<lambda>_. False) v"
  shows "\<forall>k. \<not> selected managedByKubewardenSelector [] k (vc PolicyReport k) \<Longrightarrow> legacy_removed v vc"
    and "set nss = om_namespace ` listed PolicyReport managedByKubewardenSelector [] vc \<Longrightarrow>
      removed_in nss managedByKubewardenSelector vc v' \<Longrightarrow> legacy_removed v v'"
proof -
  let ?sel = managedByKubewardenSelector
  show "legacy_removed v vc" if "\<forall>k. \<not> selected ?sel [] k (vc PolicyReport k)"
    using that by (auto simp: legacy_removed_def vc remove_selected_apply)
  assume nss: "set nss = om_namespace ` listed PolicyReport ?sel [] vc" and v': "removed_in nss ?sel vc v'"
  show "legacy_removed v v'" unfolding legacy_removed_def
  proof (intro allI)
    fix t k
    have "fst k \<in> set nss" if s: "selected ?sel [] k (vc PolicyReport k)"
    proof -
      have "k \<in> meta_key ` listed PolicyReport ?sel [] vc"
        using s by (subst listed_keys) (simp_all add: vc remove_selected_apply keys)
      then show ?thesis unfolding nss by force
    qed
    then show "v' t k = (if t \<in> {PolicyReport, ClusterPolicyReport} \<and> selected ?sel [] k (v t k) then None else v t k)"
      using v' [unfolded removed_in_def, rule_format, of t k] by (auto simp: vc remove_selected_apply)
  qed
qed

theorem legacy_reports_removed:
  assumes laws: "report_laws rc v" and named: "\<forall>w k rep. v w PolicyReport k = Some rep \<longrightarrow> fst k \<noteq> []"
    and run: "DeleteAllLegacyPolicyReports rc w = (Ok (), w')"
  shows "legacy_removed (v w) (v w')"
proof -
  let ?sel = managedByKubewardenSelector
  define vc where "vc = remove_selected ClusterPolicyReport ?sel [] (\<lambda>_. False) (v w)"
  note steps = legacy_removed_steps [where v = "v w", OF report_laws_parts(1) [OF laws] vc_def]
  have names: "[] \<notin> om_namespace ` listed PolicyReport ?sel [] vc"
    using named report_laws_parts(1) [OF laws] unfolding listed_def vc_def by (fastforce simp: remove_selected_apply)
  have spaces: "wp (legacyPolicyReportNamespaces rc ?sel) (\<lambda>nss. wp (act_loop (\<lambda>ns. act_map_err (f ns) (rc_delete_all_of rc
      PolicyReport ?sel ns)) nss) (\<lambda>_ w'. legacy_removed (v w) (v w')) (\<lambda>_ _. True)) (\<lambda>_ _. True) w1" if w1: "v w1 = vc" for f w1
    by (rule wp_mono [OF legacyPolicyReportNamespaces_wp [OF laws]])
      (rule wp_mono [OF delete_namespaces_wp [OF laws]], use names w1 steps(2) in auto)
  have "wp (DeleteAllLegacyPolicyReports rc) (\<lambda>_ w'. legacy_removed (v w) (v w')) (\<lambda>_ _. True) w"
    unfolding DeleteAllLegacyPolicyReports_def Let_def
  proof (subst wp_then, rule wp_mono [OF delete_legacy_cluster_reports_wp [OF laws]], goal_cases)
    case (1 u w1)
    then have w1: "v w1 = vc" by (simp add: vc_def)
    show ?case
      by (subst wp_case, rule wp_mono [OF probe_wp [OF laws]]) (auto simp: wp_simps w1 steps(1) spaces split: list_error.splits)
  qed simp
  from wp_Ok [OF this run] show ?thesis .
qed

end
