(* ===== verification/Audit_Policies.thy ===== *)
theory Audit_Policies
  imports Policy_Enforcement
begin

text \<open>
  Which policies the audit scanner evaluates (\<^verbatim>\<open>internal/audit-scanner/policies/client.go\<close>): the
  policies that apply to a namespace or to cluster-wide resources, grouped by the resources they
  target, with the address of the policy server that serves them.

  The Kubernetes client is a parameter.  A URL is the text that its \<^verbatim>\<open>String\<close> method gives, the
  only thing the code uses of it.  The logger is left out.
\<close>

section \<open>Types\<close>

record GroupVersionResource =
  gvr_Group :: string
  gvr_Version :: string
  gvr_Resource :: string

record GroupVersionKind =
  gvk_Group :: string
  gvk_Version :: string
  gvk_Kind :: string

record Namespace_v1 =
  ns_meta :: ObjectMeta

record Service_v1 =
  svc_meta :: ObjectMeta
  svc_ports :: "32 word list"

record AuditPolicy =
  pol_Policy :: Policy
  pol_Kind :: string
  pol_APIVersion :: string
  pol_PolicyServer :: string

record Policies =
  PoliciesByGVR :: "(GroupVersionResource \<times> AuditPolicy list) list"
  PolicyNum :: nat
  SkippedNum :: nat
  ErroredNum :: nat

text \<open>The calls to the API server and to the cached discovery of resources.\<close>

record 'w policies_client =
  pc_list_policies :: "PolicyKind \<Rightarrow> string \<Rightarrow> ('w, Policy list) call"
  pc_get_policyserver :: "string \<Rightarrow> ('w, PolicyServer) call"
  pc_list_services :: "string \<Rightarrow> string \<times> string \<Rightarrow> ('w, Service_v1 list) call"
  pc_kind_for :: "GroupVersionResource \<Rightarrow> ('w, GroupVersionKind) call"
  pc_rest_scope :: "string \<times> string \<Rightarrow> string \<Rightarrow> ('w, string) call"

text \<open>
  The libraries: selectors, URLs, and the texts of values in messages.
\<close>

record policies_library =
  al_selector :: "Kube_Policy.LabelSelector \<Rightarrow> string + ((string \<times> string) list \<Rightarrow> bool)"
  al_url_parse :: "string \<Rightarrow> string + string"
  al_quote :: "string \<Rightarrow> string"
  al_show_gvr :: "GroupVersionResource \<Rightarrow> string"
  al_show_gvk :: "GroupVersionKind \<Rightarrow> string"
  al_show_namespace :: "Namespace_v1 \<Rightarrow> string"
  al_show_int32 :: "32 word \<Rightarrow> string"

record policies_config =
  kubewardenNamespace :: string
  policyServerURL :: string

section \<open>Rules and resources\<close>

definition filterWildcardRules :: "RuleWithOperations list \<Rightarrow> RuleWithOperations list" where
  "filterWildcardRules rules =
     filter (\<lambda>rule. \<not> (''*'' \<in> set (r_apiGroups rule) \<or> ''*'' \<in> set (r_apiVersions rule) \<or> ''*'' \<in> set (r_resources rule)))
       rules"

definition filterNonCreateOperations :: "RuleWithOperations list \<Rightarrow> RuleWithOperations list" where
  "filterNonCreateOperations rules = filter (\<lambda>rule. ''CREATE'' \<in> set (r_operations rule)) rules"

definition getRuleGVRs :: "RuleWithOperations \<Rightarrow> GroupVersionResource list" where
  "getRuleGVRs rule =
     concat (map (\<lambda>resource. concat (map (\<lambda>version. map (\<lambda>group.
       \<lparr>gvr_Group = group, gvr_Version = version, gvr_Resource = resource\<rparr>)
       (r_apiGroups rule)) (r_apiVersions rule))) (r_resources rule))"

definition ruleScopeMatchesResource :: "string option \<Rightarrow> bool \<Rightarrow> bool" where
  "ruleScopeMatchesResource scope isNamespaced =
     (case scope of
        None \<Rightarrow> True
      | Some s \<Rightarrow> if s = ''Cluster'' then \<not> isNamespaced else if s = ''Namespaced'' then isNamespaced else True)"

definition isNamespacedResource ::
  "'w policies_client \<Rightarrow> policies_library \<Rightarrow> GroupVersionResource \<Rightarrow> ('w, string, bool) action" where
  "isNamespacedResource c lib gvr =
     act_then (act_map_err (wrap_err (''failed to get GVK for GVR '' @ al_show_gvr lib gvr)) (pc_kind_for c gvr)) (\<lambda>gvk.
     act_then (act_map_err (wrap_err (''failed to get REST mapping for GVK '' @ al_show_gvk lib gvk))
                 (pc_rest_scope c (gvk_Group gvk, gvk_Kind gvk) (gvr_Version gvr))) (\<lambda>scope.
       act_ok (scope = ''namespace'')))"

text \<open>A loop that may end with an error, over a value.\<close>

primrec act_fold :: "('a \<Rightarrow> 'b \<Rightarrow> ('s, 'e, 'b) action) \<Rightarrow> 'a list \<Rightarrow> 'b \<Rightarrow> ('s, 'e, 'b) action" where
  "act_fold f [] b = act_ok b"
| "act_fold f (x # xs) b = act_then (f x b) (act_fold f xs)"

type_synonym scopedGroupVersionResource = "GroupVersionResource \<times> bool"

definition getScopedGroupVersionResources ::
  "'w policies_client \<Rightarrow> policies_library \<Rightarrow> RuleWithOperations list \<Rightarrow> ('w, string, scopedGroupVersionResource list) action" where
  "getScopedGroupVersionResources c lib rules =
     act_fold (\<lambda>(rule, gvr) scopedResources.
         act_then (isNamespacedResource c lib gvr) (\<lambda>isNamespaced.
           act_ok (if ruleScopeMatchesResource (r_scope rule) isNamespaced
                   then scopedResources @ [(gvr, isNamespaced)] else scopedResources)))
       (concat (map (\<lambda>rule. map (Pair rule) (getRuleGVRs rule)) rules)) []"

definition filterGroupVersionResourcesByScope :: "scopedGroupVersionResource list \<Rightarrow> bool \<Rightarrow> GroupVersionResource list" where
  "filterGroupVersionResourcesByScope scopedResources namespaced =
     map fst (filter (\<lambda>(_, isNamespaced). isNamespaced = namespaced) scopedResources)"

section \<open>The policy server of a policy\<close>

definition getPolicyServerByName ::
  "'w policies_client \<Rightarrow> policies_library \<Rightarrow> string \<Rightarrow> ('w, string, PolicyServer) action" where
  "getPolicyServerByName c lib policyServerName =
     act_map_err (wrap_err (''failed to get PolicyServer '' @ al_quote lib policyServerName))
       (pc_get_policyserver c policyServerName)"

definition getServiceByInstanceLabel ::
  "'w policies_client \<Rightarrow> policies_library \<Rightarrow> string \<Rightarrow> string \<Rightarrow> ('w, string, Service_v1) action" where
  "getServiceByInstanceLabel c lib instanceName namespace =
     act_then (act_map_err (wrap_err (''failed to list services for policy server instance '' @ al_quote lib instanceName @
                  '' in namespace '' @ al_quote lib namespace))
         (pc_list_services c namespace (''app.kubernetes.io/instance'', instanceName)))
       (\<lambda>items. case items of
            [service] \<Rightarrow> act_ok service
          | _ \<Rightarrow> act_err ''could not find a single service for the given policy server instance label'')"

definition getPolicyServerURLRunningPolicy ::
  "'w policies_client \<Rightarrow> policies_library \<Rightarrow> policies_config \<Rightarrow> Policy \<Rightarrow> ('w, string, string) action" where
  "getPolicyServerURLRunningPolicy c lib f policy =
     act_then (getPolicyServerByName c lib (GetPolicyServer policy)) (\<lambda>policyServer.
     act_then (getServiceByInstanceLabel c lib (NameWithPrefix policyServer) (kubewardenNamespace f)) (\<lambda>service.
       case svc_ports service of
         [] \<Rightarrow> act_err ''policy server service does not have a port''
       | port # _ \<Rightarrow>
           act_then
             (if policyServerURL f \<noteq> [] then
                act_pure (case al_url_parse lib (policyServerURL f) of
                   Inl e \<Rightarrow> Err (''failed to parse policy server URL '' @ al_quote lib (policyServerURL f) @ '': '' @ e)
                 | Inr parsedURL \<Rightarrow> Ok (parsedURL @ ''/audit/'' @ GetUniqueName policy))
              else
                act_ok (''https://'' @ om_name (svc_meta service) @ ''.'' @ kubewardenNamespace f @ ''.svc:'' @
                        al_show_int32 lib port @ ''/audit/'' @ GetUniqueName policy))
             (\<lambda>urlStr. act_pure (map_err (\<lambda>e. ''failed to parse policy server URL '' @ al_quote lib urlStr @ '': '' @ e)
                                  (al_url_parse lib urlStr)))))"

section \<open>Grouping the policies\<close>

definition setTypeMeta :: "Policy \<Rightarrow> string \<times> string" where
  "setTypeMeta policy =
     ((case DynamicType policy of
         KClusterAdmissionPolicy \<Rightarrow> ''ClusterAdmissionPolicy''
       | KClusterAdmissionPolicyGroup \<Rightarrow> ''ClusterAdmissionPolicyGroup''
       | KAdmissionPolicy \<Rightarrow> ''AdmissionPolicy''
       | KAdmissionPolicyGroup \<Rightarrow> ''AdmissionPolicyGroup''), ''policies.kubewarden.io/v1'')"

definition addPolicyToMap ::
  "AuditPolicy \<Rightarrow> GroupVersionResource \<Rightarrow> (GroupVersionResource \<times> AuditPolicy list) list \<Rightarrow>
     (GroupVersionResource \<times> AuditPolicy list) list" where
  "addPolicyToMap policy gvr policiesByGVR =
     (case map_of policiesByGVR gvr of
        None \<Rightarrow> AList.update gvr [policy] policiesByGVR
      | Some found \<Rightarrow> AList.update gvr (found @ [policy]) policiesByGVR)"

record grouping =
  policiesByGVR :: "(GroupVersionResource \<times> AuditPolicy list) list"
  auditablePolicies :: "string set"
  skippedPolicies :: "string set"
  erroredPolicies :: "string set"

text \<open>The body of the loop over the policies.\<close>

definition group_policy ::
  "'w policies_client \<Rightarrow> policies_library \<Rightarrow> policies_config \<Rightarrow> bool \<Rightarrow> Policy \<Rightarrow> grouping \<Rightarrow> ('w, string, grouping) action" where
  "group_policy c lib f namespaced policy g =
     (let name = GetUniqueName policy;
          skipped = g\<lparr>skippedPolicies := insert name (skippedPolicies g)\<rparr>;
          errored = g\<lparr>erroredPolicies := insert name (erroredPolicies g)\<rparr>;
          rules = filterWildcardRules (GetRules policy);
          created = filterNonCreateOperations rules in
      if rules = [] then act_ok skipped
      else if created = [] then act_ok skipped
      else
        act_case (getScopedGroupVersionResources c lib created) (\<lambda>_. act_ok errored) (\<lambda>scopedResources.
          let groupVersionResources = filterGroupVersionResourcesByScope scopedResources namespaced in
          if scopedResources = [] then act_ok skipped
          else if groupVersionResources = [] then act_ok g
          else if \<not> GetBackgroundAudit policy then act_ok skipped
          else if ps_policyStatus (GetStatus policy) \<noteq> Some PolicyStatusActive then act_ok skipped
          else
            act_case (getPolicyServerURLRunningPolicy c lib f policy) (\<lambda>_. act_ok errored) (\<lambda>url.
              let (kind, apiVersion) = setTypeMeta policy;
                  audited = \<lparr>pol_Policy = policy, pol_Kind = kind, pol_APIVersion = apiVersion, pol_PolicyServer = url\<rparr> in
              act_ok (g\<lparr>auditablePolicies := insert name (auditablePolicies g),
                        policiesByGVR := fold (addPolicyToMap audited) groupVersionResources (policiesByGVR g)\<rparr>))))"

definition groupPoliciesByGVR ::
  "'w policies_client \<Rightarrow> policies_library \<Rightarrow> policies_config \<Rightarrow> Policy list \<Rightarrow> bool \<Rightarrow> ('w, string, Policies) action" where
  "groupPoliciesByGVR c lib f policies namespaced =
     act_then (act_fold (group_policy c lib f namespaced) policies
         \<lparr>policiesByGVR = [], auditablePolicies = {}, skippedPolicies = {}, erroredPolicies = {}\<rparr>) (\<lambda>g.
       act_ok \<lparr>PoliciesByGVR = policiesByGVR g, PolicyNum = card (auditablePolicies g),
               SkippedNum = card (skippedPolicies g), ErroredNum = card (erroredPolicies g)\<rparr>)"

section \<open>The policies of a namespace and of the cluster\<close>

definition list_policies :: "'w policies_client \<Rightarrow> PolicyKind \<Rightarrow> string \<Rightarrow> string \<Rightarrow> ('w, string, Policy list) action" where
  "list_policies c kind namespace message = act_map_err (wrap_err message) (pc_list_policies c kind namespace)"

definition listClusterAdmissionPolicies :: "'w policies_client \<Rightarrow> ('w, string, Policy list) action" where
  "listClusterAdmissionPolicies c = list_policies c KClusterAdmissionPolicy [] ''cannot list ClusterAdmissionPolicies''"

definition listClusterAdmissionPolicyGroups :: "'w policies_client \<Rightarrow> ('w, string, Policy list) action" where
  "listClusterAdmissionPolicyGroups c =
     list_policies c KClusterAdmissionPolicyGroup [] ''cannot list ClusterAdmissionPolicies''"

definition listAdmissionPolicies :: "'w policies_client \<Rightarrow> Namespace_v1 \<Rightarrow> ('w, string, Policy list) action" where
  "listAdmissionPolicies c namespace =
     list_policies c KAdmissionPolicy (om_name (ns_meta namespace)) ''cannot list AdmissionPolicy groups''"

definition listAdmissionPolicyGroups :: "'w policies_client \<Rightarrow> Namespace_v1 \<Rightarrow> ('w, string, Policy list) action" where
  "listAdmissionPolicyGroups c namespace =
     list_policies c KAdmissionPolicyGroup (om_name (ns_meta namespace)) ''cannot list AdmissionPolicies''"

definition policyMatchesNamespace :: "policies_library \<Rightarrow> Policy \<Rightarrow> Namespace_v1 \<Rightarrow> string + bool" where
  "policyMatchesNamespace lib policy namespace =
     (case GetNamespaceSelector policy of
        None \<Rightarrow> Ok True
      | Some selector \<Rightarrow>
          (case al_selector lib selector of
             Inl err \<Rightarrow> Err (''failed to convert label selector from policy '' @ [CHR 34] @ GetName policy @ [CHR 34] @
                             '' namespace selector: '' @ err)
           | Inr matches \<Rightarrow> Ok (matches (om_labels (ns_meta namespace)))))"

fun matching_policies :: "policies_library \<Rightarrow> Namespace_v1 \<Rightarrow> Policy list \<Rightarrow> string + Policy list" where
  "matching_policies lib namespace [] = Ok []"
| "matching_policies lib namespace (policy # policies) =
     try_then (policyMatchesNamespace lib policy namespace) (\<lambda>matches.
     try_then (matching_policies lib namespace policies) (\<lambda>result.
       Ok (if matches then policy # result else result)))"

definition findClusterAdmissionPoliciesByNamespace ::
  "'w policies_client \<Rightarrow> policies_library \<Rightarrow> Namespace_v1 \<Rightarrow> ('w, string, Policy list) action" where
  "findClusterAdmissionPoliciesByNamespace c lib namespace =
     act_then (listClusterAdmissionPolicies c) (\<lambda>policies. act_pure (matching_policies lib namespace policies))"

definition findClusterAdmissionPolicyGroupsByNamespace ::
  "'w policies_client \<Rightarrow> policies_library \<Rightarrow> Namespace_v1 \<Rightarrow> ('w, string, Policy list) action" where
  "findClusterAdmissionPolicyGroupsByNamespace c lib namespace =
     act_then (listClusterAdmissionPolicyGroups c) (\<lambda>policies. act_pure (matching_policies lib namespace policies))"

definition retrieval_error :: "policies_library \<Rightarrow> string \<Rightarrow> Namespace_v1 \<Rightarrow> string \<Rightarrow> string" where
  "retrieval_error lib what namespace err =
     ''failed to retrieve '' @ what @ '' for namespace '' @ al_show_namespace lib namespace @ '': '' @ err"

definition GetPoliciesByNamespace ::
  "'w policies_client \<Rightarrow> policies_library \<Rightarrow> policies_config \<Rightarrow> Namespace_v1 \<Rightarrow> ('w, string, Policies) action" where
  "GetPoliciesByNamespace c lib f namespace =
     act_then (act_map_err (retrieval_error lib ''ClusterAdmissionPolicies'' namespace)
        (findClusterAdmissionPoliciesByNamespace c lib namespace)) (\<lambda>clusterAdmissionPolicies.
     act_then (act_map_err (retrieval_error lib ''ClusterAdmissionPolicyGroups'' namespace)
        (findClusterAdmissionPolicyGroupsByNamespace c lib namespace)) (\<lambda>clusterAdmissionPolicyGroups.
     act_then (act_map_err (retrieval_error lib ''AdmissionPolicies'' namespace)
        (listAdmissionPolicies c namespace)) (\<lambda>admissionPolicies.
     act_then (act_map_err (retrieval_error lib ''AdmissionPolicyGroups'' namespace)
        (listAdmissionPolicyGroups c namespace)) (\<lambda>admissionPolicyGroups.
       groupPoliciesByGVR c lib f
         (clusterAdmissionPolicies @ clusterAdmissionPolicyGroups @ admissionPolicies @ admissionPolicyGroups) True))))"

definition GetClusterWidePolicies ::
  "'w policies_client \<Rightarrow> policies_library \<Rightarrow> policies_config \<Rightarrow> ('w, string, Policies) action" where
  "GetClusterWidePolicies c lib f =
     act_then (act_map_err (\<lambda>err. ''failed to retrieve cluster-wide ClusterAdmissionPolicies: '' @ err)
        (listClusterAdmissionPolicies c)) (\<lambda>clusterAdmissionPolicies.
     act_then (act_map_err (\<lambda>err. ''failed to retrieve cluster-wide ClusterAdmissionPolicyGroups: '' @ err)
        (listClusterAdmissionPolicyGroups c)) (\<lambda>clusterAdmissionPolicyGroups.
       groupPoliciesByGVR c lib f (clusterAdmissionPolicies @ clusterAdmissionPolicyGroups) False))"

section \<open>Which policies are audited\<close>

text \<open>
  While the policies are gathered, the answers of the API server do not change: every read gives
  the same result at any time, and changes nothing.
\<close>

definition stable :: "('w, 'e, 'a) action \<Rightarrow> 'e + 'a \<Rightarrow> bool" where
  "stable m r \<longleftrightarrow> (\<forall>w. m w = (r, w))"

record audit_cluster =
  cl_kinds :: "GroupVersionResource \<Rightarrow> kube_error + GroupVersionKind"
  cl_scopes :: "string \<times> string \<Rightarrow> string \<Rightarrow> kube_error + string"
  cl_servers :: "string \<Rightarrow> kube_error + PolicyServer"
  cl_services :: "string \<Rightarrow> string \<times> string \<Rightarrow> kube_error + Service_v1 list"
  cl_policies :: "PolicyKind \<Rightarrow> string \<Rightarrow> kube_error + Policy list"

definition stable_client :: "'w policies_client \<Rightarrow> audit_cluster \<Rightarrow> bool" where
  "stable_client c K \<longleftrightarrow>
     (\<forall>gvr. stable (pc_kind_for c gvr) (cl_kinds K gvr)) \<and>
     (\<forall>gk ver. stable (pc_rest_scope c gk ver) (cl_scopes K gk ver)) \<and>
     (\<forall>n. stable (pc_get_policyserver c n) (cl_servers K n)) \<and>
     (\<forall>ns l. stable (pc_list_services c ns l) (cl_services K ns l)) \<and>
     (\<forall>k ns. stable (pc_list_policies c k ns) (cl_policies K k ns))"

text \<open>
  The specification.  A rule is audited if it names its resources and applies to their creation.
  A resource is namespaced, cluster-wide or unknown.
\<close>

definition create_rules :: "Policy \<Rightarrow> RuleWithOperations set" where
  "create_rules p = {rule \<in> set (GetRules p). ''CREATE'' \<in> set (r_operations rule) \<and>
     ''*'' \<notin> set (r_apiGroups rule) \<union> set (r_apiVersions rule) \<union> set (r_resources rule)}"

definition rule_resources :: "RuleWithOperations \<Rightarrow> GroupVersionResource set" where
  "rule_resources rule = {gvr. gvr_Group gvr \<in> set (r_apiGroups rule) \<and> gvr_Version gvr \<in> set (r_apiVersions rule) \<and>
     gvr_Resource gvr \<in> set (r_resources rule)}"

definition resource_scope :: "audit_cluster \<Rightarrow> GroupVersionResource \<Rightarrow> bool option" where
  "resource_scope K gvr =
     (case cl_kinds K gvr of
        Inl _ \<Rightarrow> None
      | Inr gvk \<Rightarrow>
          (case cl_scopes K (gvk_Group gvk, gvk_Kind gvk) (gvr_Version gvr) of
             Inl _ \<Rightarrow> None
           | Inr scope \<Rightarrow> Some (scope = ''namespace'')))"

definition resources_known :: "audit_cluster \<Rightarrow> Policy \<Rightarrow> bool" where
  "resources_known K p \<longleftrightarrow> (\<forall>rule\<in>create_rules p. \<forall>gvr\<in>rule_resources rule. resource_scope K gvr \<noteq> None)"

definition targets :: "audit_cluster \<Rightarrow> Policy \<Rightarrow> bool \<Rightarrow> GroupVersionResource \<Rightarrow> bool" where
  "targets K p namespaced gvr \<longleftrightarrow>
     (\<exists>rule\<in>create_rules p. gvr \<in> rule_resources rule \<and> resource_scope K gvr = Some namespaced \<and>
        ruleScopeMatchesResource (r_scope rule) namespaced)"

text \<open>The address at which the policy is evaluated, if the policy server has exactly one service with a port.\<close>

definition audit_url :: "audit_cluster \<Rightarrow> policies_library \<Rightarrow> policies_config \<Rightarrow> Policy \<Rightarrow> string option" where
  "audit_url K lib f p =
     (case cl_servers K (GetPolicyServer p) of
        Inl _ \<Rightarrow> None
      | Inr server \<Rightarrow>
          (case cl_services K (kubewardenNamespace f) (''app.kubernetes.io/instance'', NameWithPrefix server) of
             Inr [service] \<Rightarrow>
               (case svc_ports service of
                  [] \<Rightarrow> None
                | port # _ \<Rightarrow>
                    Option.bind
                      (if policyServerURL f \<noteq> [] then
                         map_option (\<lambda>u. u @ ''/audit/'' @ GetUniqueName p) (case al_url_parse lib (policyServerURL f) of
                            Inl _ \<Rightarrow> None | Inr u \<Rightarrow> Some u)
                       else
                         Some (''https://'' @ om_name (svc_meta service) @ ''.'' @ kubewardenNamespace f @ ''.svc:'' @
                               al_show_int32 lib port @ ''/audit/'' @ GetUniqueName p))
                      (\<lambda>t. case al_url_parse lib t of Inl _ \<Rightarrow> None | Inr u \<Rightarrow> Some u))
           | _ \<Rightarrow> None))"

section \<open>The gathering is exact\<close>

lemma stable_clientD:
  assumes "stable_client c K"
  shows "pc_kind_for c gvr w = (cl_kinds K gvr, w)" "pc_rest_scope c gk ver w = (cl_scopes K gk ver, w)"
    "pc_get_policyserver c n w = (cl_servers K n, w)" "pc_list_services c ns l w = (cl_services K ns l, w)"
    "pc_list_policies c k ns w = (cl_policies K k ns, w)"
  using assms unfolding stable_client_def stable_def by blast+

lemmas go_act_defs = act_then_def act_case_def act_ok_def act_err_def act_pure_def act_map_err_def

lemma isNamespacedResource_run:
  assumes "stable_client c K"
  shows "\<exists>r. isNamespacedResource c lib gvr w = (r, w) \<and>
     (case r of Inl _ \<Rightarrow> resource_scope K gvr = None | Inr b \<Rightarrow> resource_scope K gvr = Some b)"
  by (auto simp: isNamespacedResource_def go_act_defs stable_clientD [OF assms] resource_scope_def split: sum.splits)

lemma getRuleGVRs_set: "set (getRuleGVRs rule) = rule_resources rule"
proof (intro set_eqI iffI)
  fix gvr assume "gvr \<in> rule_resources rule"
  then show "gvr \<in> set (getRuleGVRs rule)"
    by (cases gvr) (simp add: getRuleGVRs_def rule_resources_def image_iff)
qed (auto simp: getRuleGVRs_def rule_resources_def)

definition scoped :: "audit_cluster \<Rightarrow> RuleWithOperations list \<Rightarrow> scopedGroupVersionResource set" where
  "scoped K rules = {(gvr, b). resource_scope K gvr = Some b \<and>
     (\<exists>rule\<in>set rules. gvr \<in> rule_resources rule \<and> ruleScopeMatchesResource (r_scope rule) b)}"

definition scope_step ::
  "'w policies_client \<Rightarrow> policies_library \<Rightarrow> RuleWithOperations \<times> GroupVersionResource \<Rightarrow> scopedGroupVersionResource list \<Rightarrow>
     ('w, string, scopedGroupVersionResource list) action" where
  "scope_step c lib = (\<lambda>(rule, gvr) acc. act_then (isNamespacedResource c lib gvr) (\<lambda>b.
     act_ok (if ruleScopeMatchesResource (r_scope rule) b then acc @ [(gvr, b)] else acc)))"

definition scoped_by :: "audit_cluster \<Rightarrow> (RuleWithOperations \<times> GroupVersionResource) set \<Rightarrow> scopedGroupVersionResource set" where
  "scoped_by K pairs = {(gvr, b). resource_scope K gvr = Some b \<and>
     (\<exists>rule. (rule, gvr) \<in> pairs \<and> ruleScopeMatchesResource (r_scope rule) b)}"

lemma scoped_by_insert:
  "resource_scope K gvr = Some b \<Longrightarrow> scoped_by K (insert (rule, gvr) pairs) =
     (if ruleScopeMatchesResource (r_scope rule) b then {(gvr, b)} else {}) \<union> scoped_by K pairs"
  by (auto simp: scoped_by_def)

lemma scoped_fold:
  assumes "stable_client c K"
  shows "\<exists>r. act_fold (scope_step c lib) pairs acc w = (r, w) \<and>
     (case r of Inl _ \<Rightarrow> (\<exists>gvr\<in>snd ` set pairs. resource_scope K gvr = None)
      | Inr xs \<Rightarrow> (\<forall>gvr\<in>snd ` set pairs. resource_scope K gvr \<noteq> None) \<and> set xs = set acc \<union> scoped_by K (set pairs))"
proof (induction pairs arbitrary: acc)
  case Nil
  then show ?case by (simp add: act_ok_def scoped_by_def)
next
  case (Cons pair pairs)
  obtain rule gvr where pair: "pair = (rule, gvr)" by (cases pair)
  obtain r where r: "isNamespacedResource c lib gvr w = (r, w)"
    "case r of Inl _ \<Rightarrow> resource_scope K gvr = None | Inr b \<Rightarrow> resource_scope K gvr = Some b"
    using isNamespacedResource_run [OF assms] by blast
  show ?case
  proof (cases r)
    case (Inl e)
    then show ?thesis using r by (simp add: pair scope_step_def go_act_defs)
  next
    case (Inr b)
    define acc' where "acc' = (if ruleScopeMatchesResource (r_scope rule) b then acc @ [(gvr, b)] else acc)"
    have known: "resource_scope K gvr = Some b" using r Inr by simp
    have "act_fold (scope_step c lib) (pair # pairs) acc w = act_fold (scope_step c lib) pairs acc' w"
      using r Inr by (simp add: pair scope_step_def go_act_defs acc'_def)
    moreover have "set acc' \<union> scoped_by K (set pairs) = set acc \<union> scoped_by K (set (pair # pairs))"
      by (simp add: pair scoped_by_insert [OF known] acc'_def)
    moreover obtain r' where "act_fold (scope_step c lib) pairs acc' w = (r', w)"
      "case r' of Inl _ \<Rightarrow> (\<exists>gvr\<in>snd ` set pairs. resource_scope K gvr = None)
        | Inr xs \<Rightarrow> (\<forall>gvr\<in>snd ` set pairs. resource_scope K gvr \<noteq> None) \<and> set xs = set acc' \<union> scoped_by K (set pairs)"
      using Cons.IH [of acc'] by blast
    ultimately show ?thesis using known by (intro exI [of _ r']) (cases r'; simp add: pair)
  qed
qed

lemma getScoped_run:
  assumes "stable_client c K"
  shows "\<exists>r. getScopedGroupVersionResources c lib rules w = (r, w) \<and>
     (case r of Inl _ \<Rightarrow> \<exists>rule\<in>set rules. \<exists>gvr\<in>rule_resources rule. resource_scope K gvr = None
      | Inr xs \<Rightarrow> (\<forall>rule\<in>set rules. \<forall>gvr\<in>rule_resources rule. resource_scope K gvr \<noteq> None) \<and> set xs = scoped K rules)"
proof -
  let ?pairs = "concat (map (\<lambda>rule. map (Pair rule) (getRuleGVRs rule)) rules)"
  have pairs: "snd ` set ?pairs = (\<Union>rule\<in>set rules. rule_resources rule)"
    by (force simp: getRuleGVRs_set)
  have all: "scoped_by K (set ?pairs) = scoped K rules"
    by (auto simp: scoped_by_def scoped_def getRuleGVRs_set)
  have "getScopedGroupVersionResources c lib rules = act_fold (scope_step c lib) ?pairs []"
    by (simp add: getScopedGroupVersionResources_def scope_step_def)
  with scoped_fold [OF assms, of lib ?pairs "[]" w, unfolded all pairs]
  obtain r where "getScopedGroupVersionResources c lib rules w = (r, w)"
    "case r of Inl _ \<Rightarrow> \<exists>gvr\<in>\<Union> (rule_resources ` set rules). resource_scope K gvr = None
      | Inr xs \<Rightarrow> (\<forall>gvr\<in>\<Union> (rule_resources ` set rules). resource_scope K gvr \<noteq> None) \<and> set xs = set [] \<union> scoped K rules"
    by auto
  then show ?thesis by (intro exI [of _ r]) (cases r; simp)
qed

lemma getURL_run:
  assumes "stable_client c K"
  shows "\<exists>r. getPolicyServerURLRunningPolicy c lib f p w = (r, w) \<and>
     (case r of Inl _ \<Rightarrow> audit_url K lib f p = None | Inr u \<Rightarrow> audit_url K lib f p = Some u)"
  by (auto simp: getPolicyServerURLRunningPolicy_def getPolicyServerByName_def getServiceByInstanceLabel_def go_act_defs
      stable_clientD [OF assms] audit_url_def Let_def map_err.simps split: sum.splits list.splits)

text \<open>The policies that are listed for a resource.\<close>

definition entry :: "(GroupVersionResource \<times> AuditPolicy list) list \<Rightarrow> GroupVersionResource \<Rightarrow> AuditPolicy list" where
  "entry m gvr = (case map_of m gvr of None \<Rightarrow> [] | Some ps \<Rightarrow> ps)"

lemma addPolicyToMap_entry: "entry (addPolicyToMap a g m) gvr = (if gvr = g then entry m g @ [a] else entry m gvr)"
  by (auto simp: entry_def addPolicyToMap_def update_conv' split: option.splits)

lemma addPolicies_entry:
  "set (entry (fold (addPolicyToMap a) gvrs m) gvr) = set (entry m gvr) \<union> (if gvr \<in> set gvrs then {a} else {})"
  by (induction gvrs arbitrary: m) (auto simp: addPolicyToMap_entry split: if_splits)

lemma addPolicies_keys:
  "fst ` set (fold (addPolicyToMap a) gvrs m) = fst ` set m \<union> set gvrs"
  by (induction gvrs arbitrary: m) (auto simp: addPolicyToMap_def dom_update split: option.splits)

definition audited_as :: "audit_cluster \<Rightarrow> policies_library \<Rightarrow> policies_config \<Rightarrow> Policy \<Rightarrow> AuditPolicy" where
  "audited_as K lib f p =
     \<lparr>pol_Policy = p, pol_Kind = fst (setTypeMeta p), pol_APIVersion = snd (setTypeMeta p),
      pol_PolicyServer = the (audit_url K lib f p)\<rparr>"

text \<open>
  A policy is skipped if none of its rules can match a resource, or if it targets the kind of
  resources in question but is not meant to be audited; it is in error if it names an unknown
  resource, or if its policy server cannot be addressed.
\<close>

definition audited_now :: "Policy \<Rightarrow> bool" where
  "audited_now p \<longleftrightarrow> GetBackgroundAudit p \<and> ps_policyStatus (GetStatus p) = Some PolicyStatusActive"

definition audit_skipped :: "audit_cluster \<Rightarrow> bool \<Rightarrow> Policy \<Rightarrow> bool" where
  "audit_skipped K namespaced p \<longleftrightarrow>
     resources_known K p \<and>
     ((\<forall>b gvr. \<not> targets K p b gvr) \<or> (\<exists>gvr. targets K p namespaced gvr) \<and> \<not> audited_now p)"

definition audit_errored :: "audit_cluster \<Rightarrow> policies_library \<Rightarrow> policies_config \<Rightarrow> bool \<Rightarrow> Policy \<Rightarrow> bool" where
  "audit_errored K lib f namespaced p \<longleftrightarrow>
     \<not> resources_known K p \<or>
     (\<exists>gvr. targets K p namespaced gvr) \<and> audited_now p \<and> audit_url K lib f p = None"

definition audit_chosen :: "audit_cluster \<Rightarrow> policies_library \<Rightarrow> policies_config \<Rightarrow> bool \<Rightarrow> Policy \<Rightarrow> GroupVersionResource \<Rightarrow> bool" where
  "audit_chosen K lib f namespaced p gvr \<longleftrightarrow>
     audited_now p \<and> resources_known K p \<and> audit_url K lib f p \<noteq> None \<and> targets K p namespaced gvr"

definition gathered :: "audit_cluster \<Rightarrow> policies_library \<Rightarrow> policies_config \<Rightarrow> bool \<Rightarrow> Policy set \<Rightarrow> grouping \<Rightarrow> bool" where
  "gathered K lib f namespaced ps g \<longleftrightarrow>
     (\<forall>gvr. set (entry (policiesByGVR g) gvr) = audited_as K lib f ` {p \<in> ps. audit_chosen K lib f namespaced p gvr}) \<and>
     (\<forall>gvr\<in>fst ` set (policiesByGVR g). entry (policiesByGVR g) gvr \<noteq> []) \<and>
     auditablePolicies g = GetUniqueName ` {p \<in> ps. \<exists>gvr. audit_chosen K lib f namespaced p gvr} \<and>
     skippedPolicies g = GetUniqueName ` {p \<in> ps. audit_skipped K namespaced p} \<and>
     erroredPolicies g = GetUniqueName ` {p \<in> ps. audit_errored K lib f namespaced p}"

lemma gathered_insert:
  assumes g: "gathered K lib f namespaced ps g"
  shows "audit_skipped K namespaced p \<Longrightarrow>
      gathered K lib f namespaced (insert p ps) (g\<lparr>skippedPolicies := insert (GetUniqueName p) (skippedPolicies g)\<rparr>)"
    "audit_errored K lib f namespaced p \<Longrightarrow>
      gathered K lib f namespaced (insert p ps) (g\<lparr>erroredPolicies := insert (GetUniqueName p) (erroredPolicies g)\<rparr>)"
    "\<not> audit_skipped K namespaced p \<Longrightarrow> \<not> audit_errored K lib f namespaced p \<Longrightarrow>
      (\<And>gvr. \<not> audit_chosen K lib f namespaced p gvr) \<Longrightarrow> gathered K lib f namespaced (insert p ps) g"
proof -
  have x: "\<not> audit_errored K lib f namespaced p" "\<not> audit_chosen K lib f namespaced p gvr"
    if "audit_skipped K namespaced p" for gvr
    using that by (auto simp: audit_skipped_def audit_errored_def audit_chosen_def)
  have y: "\<not> audit_chosen K lib f namespaced p gvr" "\<not> audit_skipped K namespaced p" if "audit_errored K lib f namespaced p" for gvr
    using that by (auto simp: audit_skipped_def audit_errored_def audit_chosen_def)
  show "audit_skipped K namespaced p \<Longrightarrow>
      gathered K lib f namespaced (insert p ps) (g\<lparr>skippedPolicies := insert (GetUniqueName p) (skippedPolicies g)\<rparr>)"
    using g x unfolding gathered_def by (auto cong: conj_cong)
  show "audit_errored K lib f namespaced p \<Longrightarrow>
      gathered K lib f namespaced (insert p ps) (g\<lparr>erroredPolicies := insert (GetUniqueName p) (erroredPolicies g)\<rparr>)"
    using g y unfolding gathered_def by (auto cong: conj_cong)
  show "\<not> audit_skipped K namespaced p \<Longrightarrow> \<not> audit_errored K lib f namespaced p \<Longrightarrow>
      (\<And>gvr. \<not> audit_chosen K lib f namespaced p gvr) \<Longrightarrow> gathered K lib f namespaced (insert p ps) g"
    using g unfolding gathered_def by (auto cong: conj_cong)
qed

lemma gathered_chosen:
  assumes g: "gathered K lib f namespaced ps g" and p: "audited_now p" "resources_known K p" "audit_url K lib f p = Some url"
    and gvrs: "set gvrs = {gvr. targets K p namespaced gvr}" "gvrs \<noteq> []"
  shows "gathered K lib f namespaced (insert p ps) (g\<lparr>auditablePolicies := insert (GetUniqueName p) (auditablePolicies g),
     policiesByGVR := fold (addPolicyToMap (audited_as K lib f p)) gvrs (policiesByGVR g)\<rparr>)"
proof -
  have chosen: "audit_chosen K lib f namespaced p gvr \<longleftrightarrow> gvr \<in> set gvrs" for gvr
    using p gvrs by (simp add: audit_chosen_def)
  have some: "\<exists>gvr. targets K p namespaced gvr"
    using gvrs by (metis empty_Collect_eq set_empty)
  have no: "\<not> audit_skipped K namespaced p" "\<not> audit_errored K lib f namespaced p"
    using p some by (auto simp: audit_skipped_def audit_errored_def)
  let ?m = "fold (addPolicyToMap (audited_as K lib f p)) gvrs (policiesByGVR g)"
  have old: "\<And>gvr. set (entry (policiesByGVR g) gvr) = audited_as K lib f ` {q \<in> ps. audit_chosen K lib f namespaced q gvr}"
    "\<forall>gvr\<in>fst ` set (policiesByGVR g). entry (policiesByGVR g) gvr \<noteq> []"
    "auditablePolicies g = GetUniqueName ` {q \<in> ps. \<exists>gvr. audit_chosen K lib f namespaced q gvr}"
    "skippedPolicies g = GetUniqueName ` {q \<in> ps. audit_skipped K namespaced q}"
    "erroredPolicies g = GetUniqueName ` {q \<in> ps. audit_errored K lib f namespaced q}"
    using g by (simp_all add: gathered_def)
  have ins: "{q \<in> insert p ps. P q} = (if P p then insert p {q \<in> ps. P q} else {q \<in> ps. P q})" for P by auto
  have "set (entry ?m gvr) = audited_as K lib f ` {q \<in> insert p ps. audit_chosen K lib f namespaced q gvr}" for gvr
    unfolding ins addPolicies_entry old(1) chosen by simp
  moreover have "entry ?m gvr \<noteq> []" if "gvr \<in> fst ` set ?m" for gvr
  proof
    assume "entry ?m gvr = []"
    then have "set (entry (policiesByGVR g) gvr) \<union> (if gvr \<in> set gvrs then {audited_as K lib f p} else {}) = {}"
      using addPolicies_entry [of "audited_as K lib f p" gvrs "policiesByGVR g" gvr] by simp
    then have "entry (policiesByGVR g) gvr = []" "gvr \<notin> set gvrs" by (simp_all split: if_splits)
    then show False using that old(2) unfolding addPolicies_keys by blast
  qed
  moreover have "\<exists>gvr. gvr \<in> set gvrs" using gvrs(2) by (meson list.set_sel(1))
  then have "insert (GetUniqueName p) (auditablePolicies g) =
      GetUniqueName ` {q \<in> insert p ps. \<exists>gvr. audit_chosen K lib f namespaced q gvr}"
    unfolding ins old(3) chosen by simp
  moreover have "skippedPolicies g = GetUniqueName ` {q \<in> insert p ps. audit_skipped K namespaced q}"
    "erroredPolicies g = GetUniqueName ` {q \<in> insert p ps. audit_errored K lib f namespaced q}"
    unfolding ins old(4,5) using no by simp_all
  ultimately show ?thesis unfolding gathered_def by simp
qed

lemma created_set: "set (filterNonCreateOperations (filterWildcardRules (GetRules p))) = create_rules p"
  by (auto simp: filterNonCreateOperations_def filterWildcardRules_def create_rules_def)

lemma scoped_targets:
  assumes "set rules = create_rules p"
  shows "(gvr, b) \<in> scoped K rules \<longleftrightarrow> targets K p b gvr"
  by (auto simp: scoped_def targets_def assms)

text \<open>The rest of the loop body, once the resources of the rules are known.\<close>

lemma group_known_run:
  assumes st: "stable_client c K" and g: "gathered K lib f namespaced ps g" and known: "resources_known K p"
    and xs: "set xs = {(gvr, b). targets K p b gvr}"
    and rules: "filterWildcardRules (GetRules p) \<noteq> []" "filterNonCreateOperations (filterWildcardRules (GetRules p)) \<noteq> []"
      "getScopedGroupVersionResources c lib (filterNonCreateOperations (filterWildcardRules (GetRules p))) w = (Ok xs, w)"
  shows "\<exists>g'. group_policy c lib f namespaced p g w = (Ok g', w) \<and> gathered K lib f namespaced (insert p ps) g'"
proof -
  let ?gvrs = "filterGroupVersionResourcesByScope xs namespaced"
  have gvrs: "set ?gvrs = {gvr. targets K p namespaced gvr}"
    by (force simp: filterGroupVersionResourcesByScope_def xs)
  have xs_empty: "xs = [] \<longleftrightarrow> (\<forall>b gvr. \<not> targets K p b gvr)" using xs by (auto simp flip: set_empty)
  have gvrs_empty: "?gvrs = [] \<longleftrightarrow> (\<forall>gvr. \<not> targets K p namespaced gvr)" using gvrs by (auto simp flip: set_empty)
  obtain u where u: "getPolicyServerURLRunningPolicy c lib f p w = (u, w)"
    "case u of Inl _ \<Rightarrow> audit_url K lib f p = None | Inr u \<Rightarrow> audit_url K lib f p = Some u"
    using getURL_run [OF st] by blast
  note run = group_policy_def Let_def go_act_defs rules
  consider "xs = []" | "xs \<noteq> []" "?gvrs = []" | "xs \<noteq> []" "?gvrs \<noteq> []" "\<not> audited_now p"
    | "xs \<noteq> []" "?gvrs \<noteq> []" "audited_now p" by blast
  then show ?thesis
  proof cases
    case 1
    then have "audit_skipped K namespaced p" using known xs_empty by (simp add: audit_skipped_def)
    then show ?thesis using gathered_insert(1) [OF g] 1 by (auto simp: run)
  next
    case 2
    then have "\<not> audit_skipped K namespaced p" "\<not> audit_errored K lib f namespaced p" "\<not> audit_chosen K lib f namespaced p gvr" for gvr
      using known xs_empty gvrs_empty by (auto simp: audit_skipped_def audit_errored_def audit_chosen_def)
    then show ?thesis using gathered_insert(3) [OF g] 2 by (auto simp: run)
  next
    case 3
    then have "audit_skipped K namespaced p" using known gvrs_empty by (auto simp: audit_skipped_def)
    then show ?thesis using gathered_insert(1) [OF g] 3 by (auto simp: run audited_now_def)
  next
    case 4
    show ?thesis
    proof (cases u)
      case (Inl e)
      then have "audit_errored K lib f namespaced p" using 4 u gvrs_empty by (auto simp: audit_errored_def)
      then show ?thesis using gathered_insert(2) [OF g] 4 u Inl by (auto simp: run audited_now_def)
    next
      case (Inr url)
      then have url: "audit_url K lib f p = Some url" using u by simp
      show ?thesis using gathered_chosen [OF g 4(3) known url gvrs 4(2)] 4 u Inr url
        by (auto simp: run audited_now_def audited_as_def split_beta)
    qed
  qed
qed

lemma group_policy_run:
  assumes st: "stable_client c K" and g: "gathered K lib f namespaced ps g"
  shows "\<exists>g'. group_policy c lib f namespaced p g w = (Ok g', w) \<and> gathered K lib f namespaced (insert p ps) g'"
proof (cases "filterNonCreateOperations (filterWildcardRules (GetRules p)) = []")
  case True
  then have "create_rules p = {}" using created_set [of p] by simp
  then have "audit_skipped K namespaced p" by (simp add: audit_skipped_def resources_known_def targets_def)
  then show ?thesis using gathered_insert(1) [OF g] True by (auto simp: group_policy_def Let_def act_ok_def)
next
  case created: False
  let ?created = "filterNonCreateOperations (filterWildcardRules (GetRules p))"
  obtain r where r: "getScopedGroupVersionResources c lib ?created w = (r, w)"
    "case r of Inl _ \<Rightarrow> \<exists>rule\<in>set ?created. \<exists>gvr\<in>rule_resources rule. resource_scope K gvr = None
     | Inr xs \<Rightarrow> (\<forall>rule\<in>set ?created. \<forall>gvr\<in>rule_resources rule. resource_scope K gvr \<noteq> None) \<and> set xs = scoped K ?created"
    using getScoped_run [OF st] by blast
  from created have rules: "filterWildcardRules (GetRules p) \<noteq> []" by (auto simp: filterNonCreateOperations_def)
  show ?thesis
  proof (cases r)
    case (Inl e)
    then have "audit_errored K lib f namespaced p"
      using r(2) by (auto simp: audit_errored_def resources_known_def created_set)
    then show ?thesis using gathered_insert(2) [OF g] created rules r(1) Inl
      by (auto simp: group_policy_def Let_def go_act_defs)
  next
    case (Inr xs)
    have "set xs = {(gvr, b). targets K p b gvr}"
      using r(2) Inr by (auto simp: scoped_targets [OF created_set])
    moreover have "resources_known K p" using r(2) Inr by (simp add: resources_known_def created_set)
    ultimately show ?thesis using group_known_run [OF st g _ _ rules created] r(1) Inr by simp
  qed
qed

lemma group_fold_run:
  assumes st: "stable_client c K"
  shows "gathered K lib f namespaced ps g \<Longrightarrow>
     \<exists>g'. act_fold (group_policy c lib f namespaced) policies g w = (Ok g', w) \<and>
       gathered K lib f namespaced (set policies \<union> ps) g'"
proof (induction policies arbitrary: g ps)
  case Nil
  then show ?case by (simp add: act_ok_def)
next
  case (Cons p policies)
  obtain g1 where "group_policy c lib f namespaced p g w = (Ok g1, w)" "gathered K lib f namespaced (insert p ps) g1"
    using group_policy_run [OF st Cons.prems] by blast
  with Cons.IH [of "insert p ps" g1] show ?case by (simp add: go_act_defs)
qed

text \<open>What the scanner gets to know about a set of policies.\<close>

definition exactly_audited :: "audit_cluster \<Rightarrow> policies_library \<Rightarrow> policies_config \<Rightarrow> bool \<Rightarrow> Policy set \<Rightarrow> Policies \<Rightarrow> bool" where
  "exactly_audited K lib f namespaced ps P \<longleftrightarrow>
     (\<forall>gvr. set (entry (PoliciesByGVR P) gvr) = audited_as K lib f ` {p \<in> ps. audit_chosen K lib f namespaced p gvr}) \<and>
     (PoliciesByGVR P = [] \<longleftrightarrow> (\<forall>p\<in>ps. \<forall>gvr. \<not> audit_chosen K lib f namespaced p gvr)) \<and>
     PolicyNum P = card (GetUniqueName ` {p \<in> ps. \<exists>gvr. audit_chosen K lib f namespaced p gvr}) \<and>
     SkippedNum P = card (GetUniqueName ` {p \<in> ps. audit_skipped K namespaced p}) \<and>
     ErroredNum P = card (GetUniqueName ` {p \<in> ps. audit_errored K lib f namespaced p})"

lemma groupPoliciesByGVR_run:
  assumes "stable_client c K"
  shows "\<exists>P. groupPoliciesByGVR c lib f policies namespaced w = (Ok P, w) \<and>
     exactly_audited K lib f namespaced (set policies) P"
proof -
  let ?g0 = "\<lparr>policiesByGVR = [], auditablePolicies = {}, skippedPolicies = {}, erroredPolicies = {}\<rparr>"
  have "gathered K lib f namespaced {} ?g0" by (simp add: gathered_def entry_def)
  then obtain g where run: "act_fold (group_policy c lib f namespaced) policies ?g0 w = (Ok g, w)"
    and g: "gathered K lib f namespaced (set policies) g"
    using group_fold_run [OF assms, of lib f namespaced "{}" ?g0 policies w] by auto
  have entries: "set (entry (policiesByGVR g) gvr) = audited_as K lib f ` {p \<in> set policies. audit_chosen K lib f namespaced p gvr}"
    and keys: "gvr \<in> fst ` set (policiesByGVR g) \<Longrightarrow> entry (policiesByGVR g) gvr \<noteq> []" for gvr
    using g by (auto simp: gathered_def)
  have "policiesByGVR g = [] \<longleftrightarrow> (\<forall>p\<in>set policies. \<forall>gvr. \<not> audit_chosen K lib f namespaced p gvr)"
  proof
    assume "policiesByGVR g = []"
    then have "set (entry (policiesByGVR g) gvr) = {}" for gvr by (simp add: entry_def)
    then show "\<forall>p\<in>set policies. \<forall>gvr. \<not> audit_chosen K lib f namespaced p gvr" unfolding entries by blast
  next
    assume none: "\<forall>p\<in>set policies. \<forall>gvr. \<not> audit_chosen K lib f namespaced p gvr"
    show "policiesByGVR g = []"
    proof (rule ccontr)
      assume "policiesByGVR g \<noteq> []"
      then have "fst (hd (policiesByGVR g)) \<in> fst ` set (policiesByGVR g)" by simp
      from keys [OF this] have "set (entry (policiesByGVR g) (fst (hd (policiesByGVR g)))) \<noteq> {}" by simp
      then show False unfolding entries using none by blast
    qed
  qed
  with g run show ?thesis
    by (simp add: groupPoliciesByGVR_def go_act_defs exactly_audited_def gathered_def)
qed

text \<open>The policies that apply to a namespace.\<close>

definition in_namespace :: "audit_cluster \<Rightarrow> policies_library \<Rightarrow> Namespace_v1 \<Rightarrow> Policy set" where
  "in_namespace K lib namespace =
     {p. \<exists>kind ps. cl_policies K kind (if namespaced_kind kind then om_name (ns_meta namespace) else []) = Inr ps \<and> p \<in> set ps \<and>
        (\<not> namespaced_kind kind \<longrightarrow> policyMatchesNamespace lib p namespace = Ok True)}"

lemma matching_policies_set:
  "matching_policies lib namespace ps = Ok qs \<Longrightarrow> set qs = {p \<in> set ps. policyMatchesNamespace lib p namespace = Ok True}"
  by (induction ps arbitrary: qs) (auto simp: try_then_Ok_iff split: if_splits)


theorem cluster_policies_exact:
  assumes "stable_client c K" "GetClusterWidePolicies c lib f w = (Ok P, w')"
    and lists: "cl_policies K KClusterAdmissionPolicy [] = Inr caps" "cl_policies K KClusterAdmissionPolicyGroup [] = Inr capgs"
  shows "exactly_audited K lib f False (set caps \<union> set capgs) P"
proof -
  have "groupPoliciesByGVR c lib f (caps @ capgs) False w = (Ok P, w')"
    using assms(2) lists
    by (auto simp: GetClusterWidePolicies_def listClusterAdmissionPolicies_def listClusterAdmissionPolicyGroups_def
        list_policies_def go_act_defs stable_clientD [OF assms(1)] split: sum.splits prod.splits)
  with groupPoliciesByGVR_run [OF assms(1), of lib f "caps @ capgs" False w] show ?thesis by auto
qed

section \<open>A cluster with one policy\<close>

definition sample_audited :: "RuleWithOperations list \<Rightarrow> Policy" where
  "sample_audited rules = as_Policy (AP ((sample_policy ''ns'' ''p'' ''protect'')
     \<lparr>ap_spec := (sample_spec ''protect'' rules)\<lparr>spec_policyServer := ''default''\<rparr>,
      ap_status := sample_status\<lparr>ps_policyStatus := Some PolicyStatusActive\<rparr>\<rparr>))"

definition sample_audit_cluster :: "RuleWithOperations list \<Rightarrow> audit_cluster" where
  "sample_audit_cluster rules =
     \<lparr>cl_kinds = (\<lambda>gvr. if gvr_Resource gvr = ''pods'' then Ok \<lparr>gvk_Group = [], gvk_Version = ''v1'', gvk_Kind = ''Pod''\<rparr> else Err NotFound),
      cl_scopes = (\<lambda>_ _. Ok ''namespace''),
      cl_servers = (\<lambda>n. Ok ((sample_server None)\<lparr>srv_meta := meta_named n\<rparr>)),
      cl_services = (\<lambda>_ l. Ok [\<lparr>svc_meta = meta_named (snd l), svc_ports = [443]\<rparr>]),
      cl_policies = (\<lambda>k _. Ok (if k = KAdmissionPolicy then [sample_audited rules] else []))\<rparr>"

definition sample_policies_client :: "RuleWithOperations list \<Rightarrow> 'w policies_client" where
  "sample_policies_client rules = (let K = sample_audit_cluster rules in
     \<lparr>pc_list_policies = (\<lambda>k ns w. (cl_policies K k ns, w)), pc_get_policyserver = (\<lambda>n w. (cl_servers K n, w)),
      pc_list_services = (\<lambda>ns l w. (cl_services K ns l, w)), pc_kind_for = (\<lambda>gvr w. (cl_kinds K gvr, w)),
      pc_rest_scope = (\<lambda>gk ver w. (cl_scopes K gk ver, w))\<rparr>)"

definition sample_policies_library :: policies_library where
  "sample_policies_library =
     \<lparr>al_selector = (\<lambda>_. Ok (\<lambda>_. True)), al_url_parse = Ok, al_quote = (\<lambda>s. s), al_show_gvr = gvr_Resource,
      al_show_gvk = gvk_Kind, al_show_namespace = (\<lambda>n. om_name (ns_meta n)), al_show_int32 = (\<lambda>n. show_nat (unat n))\<rparr>"

definition sample_policies_config :: policies_config where
  "sample_policies_config = \<lparr>kubewardenNamespace = ''kubewarden'', policyServerURL = []\<rparr>"

definition pods_v1 :: GroupVersionResource where
  "pods_v1 = \<lparr>gvr_Group = [], gvr_Version = ''v1'', gvr_Resource = ''pods''\<rparr>"

definition sample_namespace :: Namespace_v1 where
  "sample_namespace = \<lparr>ns_meta = meta_named ''ns''\<rparr>"

lemma sample_stable: "stable_client (sample_policies_client rules) (sample_audit_cluster rules)"
  by (simp add: stable_client_def stable_def sample_policies_client_def Let_def)

lemma sample_listing:
  "GetPoliciesByNamespace (sample_policies_client rules) sample_policies_library sample_policies_config sample_namespace w =
     groupPoliciesByGVR (sample_policies_client rules) sample_policies_library sample_policies_config [sample_audited rules] True w"
  by (simp add: GetPoliciesByNamespace_def findClusterAdmissionPoliciesByNamespace_def
        findClusterAdmissionPolicyGroupsByNamespace_def listClusterAdmissionPolicies_def listClusterAdmissionPolicyGroups_def
        listAdmissionPolicies_def listAdmissionPolicyGroups_def list_policies_def go_act_defs sample_policies_client_def
        sample_audit_cluster_def Let_def)

lemma sample_audited_fields:
  "GetRules (sample_audited [sample_rule [''''] [''pods'']]) = [(sample_rule [''''] [''pods''])\<lparr>r_scope := Some ''Namespaced''\<rparr>]"
  "GetBackgroundAudit (sample_audited rules)" "ps_policyStatus (GetStatus (sample_audited rules)) = Some PolicyStatusActive"
  "GetPolicyServer (sample_audited rules) = ''default''" "GetUniqueName (sample_audited rules) = ''kw.ap.ns.p''"
  "DynamicType (sample_audited rules) = KAdmissionPolicy"
  by (simp_all add: sample_audited_def AdmissionPolicy_as_Policy_def sample_policy_defs Let_def namespaced_rules_def)

definition sample_scanned :: "RuleWithOperations list \<Rightarrow> AuditPolicy" where
  "sample_scanned rules =
     \<lparr>pol_Policy = sample_audited rules, pol_Kind = ''AdmissionPolicy'', pol_APIVersion = ''policies.kubewarden.io/v1'',
      pol_PolicyServer = ''https://policy-server-default.kubewarden.svc:443/audit/kw.ap.ns.p''\<rparr>"

lemma show_443: "show_nat 443 = ''443''"
  by code_simp

lemma sample_url:
  "getPolicyServerURLRunningPolicy (sample_policies_client rules) sample_policies_library sample_policies_config
     (sample_audited rules) w = (Ok ''https://policy-server-default.kubewarden.svc:443/audit/kw.ap.ns.p'', w)"
  by (simp add: getPolicyServerURLRunningPolicy_def getPolicyServerByName_def getServiceByInstanceLabel_def go_act_defs
      sample_policies_client_def sample_audit_cluster_def sample_policies_library_def sample_policies_config_def Let_def
      sample_audited_fields NameWithPrefix_def meta_named_def show_443)

lemma sample_gather_rules:
  assumes created: "filterWildcardRules (GetRules (sample_audited rules)) = GetRules (sample_audited rules)"
      "filterNonCreateOperations (GetRules (sample_audited rules)) = GetRules (sample_audited rules)"
      "GetRules (sample_audited rules) \<noteq> []"
    and scoped: "getScopedGroupVersionResources (sample_policies_client rules) sample_policies_library
      (GetRules (sample_audited rules)) w = (Ok (map (\<lambda>gvr. (gvr, True)) gvrs), w)" "gvrs \<noteq> []"
  shows "GetPoliciesByNamespace (sample_policies_client rules) sample_policies_library sample_policies_config sample_namespace w =
     (Ok \<lparr>PoliciesByGVR = fold (addPolicyToMap (sample_scanned rules)) gvrs [], PolicyNum = 1, SkippedNum = 0, ErroredNum = 0\<rparr>, w)"
proof -
  have "map fst (filter (\<lambda>(_, b). b) (map (\<lambda>gvr. (gvr, True)) gvrs)) = gvrs"
    by (induction gvrs) simp_all
  then have "group_policy (sample_policies_client rules) sample_policies_library sample_policies_config True (sample_audited rules)
      \<lparr>policiesByGVR = [], auditablePolicies = {}, skippedPolicies = {}, erroredPolicies = {}\<rparr> w =
     (Ok \<lparr>policiesByGVR = fold (addPolicyToMap (sample_scanned rules)) gvrs [], auditablePolicies = {''kw.ap.ns.p''},
          skippedPolicies = {}, erroredPolicies = {}\<rparr>, w)"
    using scoped(2)
    by (simp add: group_policy_def Let_def created sample_audited_fields(2-) go_act_defs scoped
        filterGroupVersionResourcesByScope_def sample_url setTypeMeta_def sample_scanned_def)
  then show ?thesis
    by (simp add: sample_listing groupPoliciesByGVR_def go_act_defs)
qed

abbreviation pod_rules :: "RuleWithOperations list" where
  "pod_rules \<equiv> [sample_rule [''''] [''pods'']]"

lemma sample_gather:
  "GetPoliciesByNamespace (sample_policies_client pod_rules) sample_policies_library sample_policies_config sample_namespace w =
   (Ok \<lparr>PoliciesByGVR = [(pods_v1, [sample_scanned pod_rules])], PolicyNum = 1, SkippedNum = 0, ErroredNum = 0\<rparr>, w)"
proof -
  have "getScopedGroupVersionResources (sample_policies_client pod_rules) sample_policies_library (GetRules (sample_audited pod_rules)) w
      = (Ok (map (\<lambda>gvr. (gvr, True)) [pods_v1]), w)"
    unfolding sample_audited_fields(1)
    by (simp add: getScopedGroupVersionResources_def getRuleGVRs_def sample_rule_def isNamespacedResource_def
        go_act_defs sample_policies_client_def sample_audit_cluster_def ruleScopeMatchesResource_def pods_v1_def Let_def)
  from sample_gather_rules [OF _ _ _ this] show ?thesis
    unfolding sample_audited_fields(1)
    by (simp add: filterWildcardRules_def filterNonCreateOperations_def addPolicyToMap_def) (simp add: sample_rule_def)
qed


text \<open>
  A policy with two rules for the creation of a resource is listed, and therefore evaluated and
  counted, twice for it.
\<close>

abbreviation two_pod_rules :: "RuleWithOperations list" where
  "two_pod_rules \<equiv> [sample_rule [''''] [''pods''], (sample_rule [''''] [''pods''])\<lparr>r_operations := [''CREATE'', ''UPDATE'']\<rparr>]"

theorem rules_for_one_resource_repeated:
  "GetPoliciesByNamespace (sample_policies_client two_pod_rules) sample_policies_library sample_policies_config sample_namespace w =
   (Ok \<lparr>PoliciesByGVR = [(pods_v1, [sample_scanned two_pod_rules, sample_scanned two_pod_rules])],
        PolicyNum = 1, SkippedNum = 0, ErroredNum = 0\<rparr>, w)"
proof -
  have rules: "GetRules (sample_audited two_pod_rules) = map (\<lambda>r. r\<lparr>r_scope := Some ''Namespaced''\<rparr>) two_pod_rules"
    by (simp add: sample_audited_def AdmissionPolicy_as_Policy_def sample_policy_defs Let_def namespaced_rules_def)
  have "getScopedGroupVersionResources (sample_policies_client two_pod_rules) sample_policies_library
      (GetRules (sample_audited two_pod_rules)) w = (Ok (map (\<lambda>gvr. (gvr, True)) [pods_v1, pods_v1]), w)"
    unfolding rules
    by (simp add: getScopedGroupVersionResources_def getRuleGVRs_def sample_rule_def isNamespacedResource_def
        go_act_defs sample_policies_client_def sample_audit_cluster_def ruleScopeMatchesResource_def pods_v1_def Let_def)
  from sample_gather_rules [OF _ _ _ this] show ?thesis
    unfolding rules
    by (simp add: filterWildcardRules_def filterNonCreateOperations_def addPolicyToMap_def) (simp add: sample_rule_def)
qed

end
