(* ===== verification/Audit_Scanner.thy ===== *)
theory Audit_Scanner
  imports Audit_Report Audit_Policies "HOL-Library.Multiset"
begin

text \<open>
  The audit scanner (\<^verbatim>\<open>internal/audit-scanner/scanner\<close>, \<^verbatim>\<open>internal/audit-scanner/k8s\<close>,
  \<^verbatim>\<open>cmd/audit-scanner/root.go\<close>): it sends every resource to the policies that target it, writes a
  report for each resource, and deletes the reports of earlier runs.

  Resources are audited in parallel.  A scan is a step relation: resources are listed, handed to
  at most \<^verbatim>\<open>parallelResourcesAudits\<close> workers, and the running workers finish in any order; each of
  them evaluates the policies of its resource in any order.  A worker is one step, because it
  writes one report at its end and only reads before that.  A panic of a worker ends the program.
  The contexts are never cancelled, so acquiring a permit waits until there is one.
\<close>

section \<open>Requests to the policy server\<close>

record AdmissionRequest_v1 =
  areq_uid :: string
  areq_name :: string
  areq_kind :: "string \<times> string \<times> string"
  areq_resource :: "string \<times> string \<times> string"
  areq_requestKind :: "(string \<times> string \<times> string) option"
  areq_operation :: string
  areq_namespace :: string
  areq_object :: json

definition newAdmissionRequest :: "unstructured \<Rightarrow> AdmissionRequest_v1" where
  "newAdmissionRequest resource =
     \<lparr>areq_uid = om_uid (u_meta resource), areq_name = om_name (u_meta resource),
      areq_kind = (u_group resource, u_version resource, u_kind resource),
      areq_resource = (u_group resource, u_version resource, u_kind resource),
      areq_requestKind = Some (u_group resource, u_version resource, u_kind resource),
      areq_operation = ''CREATE'', areq_namespace = om_namespace (u_meta resource),
      areq_object = u_object resource\<rparr>"

text \<open>
  The calls of the scanner: namespaces, the resources of a kind as the pager delivers them (with
  the error that ended the listing, if any), and the HTTP client, which answers with the status
  and the result of reading the body.
\<close>

record 'w scan_client =
  sc_get_namespace :: "string \<Rightarrow> ('w, Namespace_v1) call"
  sc_list_namespaces :: "string list \<Rightarrow> ('w, Namespace_v1 list) call"
  sc_each_resource :: "GroupVersionResource \<Rightarrow> string \<Rightarrow> 'w \<Rightarrow> (unstructured list \<times> kube_error option) \<times> 'w"
  sc_do :: "string \<Rightarrow> string \<Rightarrow> ('w, string, nat \<times> (string + string)) action"
  sc_clock :: "'w \<Rightarrow> nat"

record scan_library =
  slib_marshal :: "AdmissionRequest_v1 \<Rightarrow> string + string"
  slib_new_request :: "string \<Rightarrow> string option"
  slib_unmarshal :: "string \<Rightarrow> string + AdmissionReview_v1"

record 'w Scanner =
  policiesClient :: "'w policies_client"
  policiesConfig :: policies_config
  policiesLibrary :: policies_library
  k8sClient :: "'w scan_client"
  skippedNs :: "string list"
  scanLibrary :: scan_library
  reportStore :: "'w Store"
  disableStore :: bool
  parallelNamespacesAudits :: int
  parallelResourcesAudits :: int
  parallelPoliciesAudits :: int
  reportKind :: CrdKind

definition sendAdmissionReviewToPolicyServer ::
  "'w Scanner \<Rightarrow> string \<Rightarrow> AdmissionRequest_v1 \<Rightarrow> ('w, string, AdmissionReview_v1) action" where
  "sendAdmissionReviewToPolicyServer s url admissionRequest =
     act_then (act_pure (map_err (\<lambda>e. ''failed to encode the admission request: '' @ e)
                (slib_marshal (scanLibrary s) admissionRequest))) (\<lambda>payload.
       case slib_new_request (scanLibrary s) url of
         Some e \<Rightarrow> act_err (''failed to build the policy server request: '' @ e)
       | None \<Rightarrow>
           act_then (act_map_err (\<lambda>e. ''request to policy server failed: '' @ e @ '' '') (sc_do (k8sClient s) url payload))
             (\<lambda>(statusCode, read).
               case read of
                 Inl e \<Rightarrow> act_err (''cannot read body of response: '' @ e)
               | Inr body \<Rightarrow>
                   if statusCode \<noteq> 200 then
                     act_err (''unexpected status code: '' @ show_nat statusCode @ '' body: '' @ body)
                   else
                     act_pure (map_err (\<lambda>e. ''cannot deserialize the audit review response: '' @ e)
                       (slib_unmarshal (scanLibrary s) body))))"

definition policyMatches :: "policies_library \<Rightarrow> Policy \<Rightarrow> unstructured \<Rightarrow> string + bool" where
  "policyMatches lib policy resource =
     (case GetObjectSelector policy of
        None \<Rightarrow> Ok True
      | Some objectSelector \<Rightarrow>
          (case al_selector lib objectSelector of
             Inl err \<Rightarrow> Err (''failed to convert label selector from policy object selector: '' @ err)
           | Inr matches \<Rightarrow> Ok (matches (om_labels (u_meta resource)))))"

section \<open>The audit of one resource\<close>

record policyAuditResult =
  par_policy :: Policy
  par_review :: "AdmissionReview_v1 option"
  par_errored :: bool

text \<open>
  One policy.  An error of the object selector is logged and the policy is left out; an answer
  without a response is a nil dereference.
\<close>

definition audit_policy ::
  "'w Scanner \<Rightarrow> unstructured \<Rightarrow> AuditPolicy \<Rightarrow> ('w, go_panic, policyAuditResult option) action" where
  "audit_policy s resource p =
     (let policy = pol_Policy p in
      if policyMatches (policiesLibrary s) policy resource \<noteq> Ok True then act_ok None
      else
        act_case (sendAdmissionReviewToPolicyServer s (pol_PolicyServer p) (newAdmissionRequest resource))
          (\<lambda>_. act_ok (Some \<lparr>par_policy = policy, par_review = None, par_errored = True\<rparr>))
          (\<lambda>review. case arev_response review of
               None \<Rightarrow> act_err NilDereference
             | Some response \<Rightarrow>
                 act_ok (Some \<lparr>par_policy = policy, par_review = Some review,
                   par_errored = (case aresp_result response of None \<Rightarrow> False | Some result \<Rightarrow> st_code result = 500)\<rparr>)))"

primrec act_collect :: "('a \<Rightarrow> ('s, 'e, 'b option) action) \<Rightarrow> 'a list \<Rightarrow> ('s, 'e, 'b list) action" where
  "act_collect f [] = act_ok []"
| "act_collect f (x # xs) =
     act_then (f x) (\<lambda>y. act_then (act_collect f xs) (\<lambda>ys. act_ok (case y of None \<Rightarrow> ys | Some b \<Rightarrow> b # ys)))"

fun add_results :: "nat \<Rightarrow> policyAuditResult list \<Rightarrow> Report \<Rightarrow> go_panic + Report" where
  "add_results now [] report = Ok report"
| "add_results now (res # rest) report =
     try_then (AddResult now (par_policy res) (par_review res) (par_errored res) report) (add_results now rest)"

text \<open>
  The policies are evaluated in the given order, which is the order of the results in the channel.
  The answer is the set of the names of the reports that are kept.
\<close>

definition auditResource ::
  "'w Scanner \<Rightarrow> AuditPolicy list \<Rightarrow> unstructured \<Rightarrow> string \<Rightarrow> nat \<Rightarrow> nat \<Rightarrow> string set \<Rightarrow> ('w, go_panic, string set) action" where
  "auditResource s policies resource runUID skippedPoliciesNum erroredPoliciesNum keptReports =
     act_then (act_collect (audit_policy s resource) policies) (\<lambda>auditResults.
     act_then (act_read (\<lambda>w. act_pure (add_results (sc_clock (k8sClient s) w) auditResults
         (SetSkipPolicies skippedPoliciesNum (SetErrorPolicies erroredPoliciesNum
           (NewReportOfKind (reportKind s) runUID resource)))))) (\<lambda>policyReport.
       if disableStore s then act_ok keptReports
       else act_case (CreateOrPatchReport (reportStore s) policyReport)
              (\<lambda>_. act_ok keptReports)
              (\<lambda>_. act_ok (insert (om_uid (u_meta resource)) keptReports))))"

definition auditClusterResource ::
  "'w Scanner \<Rightarrow> AuditPolicy list \<Rightarrow> unstructured \<Rightarrow> string \<Rightarrow> nat \<Rightarrow> nat \<Rightarrow> string set \<Rightarrow> ('w, go_panic, string set) action" where
  "auditClusterResource s policies resource runUID skippedPoliciesNum erroredPoliciesNum keptReports =
     act_then
       (act_fold (\<lambda>p clusterReport.
            act_then (audit_policy s resource p) (\<lambda>res. case res of
                None \<Rightarrow> act_ok clusterReport
              | Some r \<Rightarrow> act_read (\<lambda>w. act_pure (AddResult (sc_clock (k8sClient s) w) (par_policy r) (par_review r)
                                                  (par_errored r) clusterReport))))
          policies
          (SetErrorPolicies erroredPoliciesNum (SetSkipPolicies skippedPoliciesNum
            (NewClusterReportOfKind (reportKind s) runUID resource)))) (\<lambda>clusterReport.
       if disableStore s then act_ok keptReports
       else act_case (CreateOrPatchClusterReport (reportStore s) clusterReport)
              (\<lambda>_. act_ok keptReports)
              (\<lambda>_. act_ok (insert (om_uid (u_meta resource)) keptReports)))"

section \<open>Scanning the resources of a namespace or of the cluster\<close>

type_synonym audit_job = "AuditPolicy list \<times> unstructured"

record 'w scan_state =
  ss_todo :: "(GroupVersionResource \<times> AuditPolicy list) list"
  ss_items :: "audit_job list"
  ss_running :: "audit_job list"
  ss_kept :: "string set"
  ss_world :: 'w

datatype 'w scan = Scanning "'w scan_state" | Crashed 'w

text \<open>What a worker can do with its job: its result and the world afterwards.\<close>

type_synonym 'w worker = "audit_job \<Rightarrow> string set \<Rightarrow> 'w \<Rightarrow> (go_panic + string set) \<times> 'w \<Rightarrow> bool"

definition namespace_worker :: "'w Scanner \<Rightarrow> string \<Rightarrow> Policies \<Rightarrow> 'w worker" where
  "namespace_worker s runUID policies job kept w out \<longleftrightarrow>
     (fst job = [] \<or> 1 \<le> parallelPoliciesAudits s) \<and>
     (\<exists>order. mset order = mset (fst job) \<and>
        auditResource s order (snd job) runUID (SkippedNum policies) (ErroredNum policies) kept w = out)"

definition cluster_worker :: "'w Scanner \<Rightarrow> string \<Rightarrow> Policies \<Rightarrow> 'w worker" where
  "cluster_worker s runUID policies job kept w out \<longleftrightarrow>
     auditClusterResource s (fst job) (snd job) runUID (SkippedNum policies) (ErroredNum policies) kept w = out"

inductive scan_step :: "'w Scanner \<Rightarrow> string \<Rightarrow> 'w worker \<Rightarrow> 'w scan \<Rightarrow> 'w scan \<Rightarrow> bool"
  for s :: "'w Scanner" and nsName :: string and worker :: "'w worker" where
  list_resources:
    "sc_each_resource (k8sClient s) gvr nsName w = ((items, err), w') \<Longrightarrow>
     scan_step s nsName worker
       (Scanning \<lparr>ss_todo = (gvr, pols) # todo, ss_items = [], ss_running = running, ss_kept = kept, ss_world = w\<rparr>)
       (Scanning \<lparr>ss_todo = todo, ss_items = map (Pair pols) items, ss_running = running, ss_kept = kept, ss_world = w'\<rparr>)"
| start_worker:
    "int (length running) < parallelResourcesAudits s \<Longrightarrow>
     scan_step s nsName worker
       (Scanning \<lparr>ss_todo = todo, ss_items = job # items, ss_running = running, ss_kept = kept, ss_world = w\<rparr>)
       (Scanning \<lparr>ss_todo = todo, ss_items = items, ss_running = running @ [job], ss_kept = kept, ss_world = w\<rparr>)"
| worker_done:
    "worker job kept w (Ok kept', w') \<Longrightarrow>
     scan_step s nsName worker
       (Scanning \<lparr>ss_todo = todo, ss_items = items, ss_running = before @ job # after, ss_kept = kept, ss_world = w\<rparr>)
       (Scanning \<lparr>ss_todo = todo, ss_items = items, ss_running = before @ after, ss_kept = kept', ss_world = w'\<rparr>)"
| worker_panics:
    "worker job kept w (Err panic, w') \<Longrightarrow>
     scan_step s nsName worker
       (Scanning \<lparr>ss_todo = todo, ss_items = items, ss_running = before @ job # after, ss_kept = kept, ss_world = w\<rparr>)
       (Crashed w')"

definition scan_start :: "Policies \<Rightarrow> 'w \<Rightarrow> 'w scan" where
  "scan_start policies w =
     Scanning \<lparr>ss_todo = PoliciesByGVR policies, ss_items = [], ss_running = [], ss_kept = {}, ss_world = w\<rparr>"

definition scan_end :: "string set \<Rightarrow> 'w \<Rightarrow> 'w scan" where
  "scan_end kept w = Scanning \<lparr>ss_todo = [], ss_items = [], ss_running = [], ss_kept = kept, ss_world = w\<rparr>"

text \<open>Deleting reports; an error is only logged.\<close>

definition logged :: "('w, string, unit) action \<Rightarrow> 'w \<Rightarrow> 'w" where
  "logged m w = snd (m w)"

definition deleteAllNamespaceReports :: "'w Scanner \<Rightarrow> string \<Rightarrow> 'w \<Rightarrow> 'w" where
  "deleteAllNamespaceReports s nsName w = (if disableStore s then w else logged (DeleteAllReports (reportStore s) nsName) w)"

definition deleteStaleNamespaceReports :: "'w Scanner \<Rightarrow> string \<Rightarrow> string set \<Rightarrow> 'w \<Rightarrow> 'w" where
  "deleteStaleNamespaceReports s nsName keptReports w =
     (if disableStore s then w else logged (DeleteOldReports (reportStore s) keptReports nsName) w)"

definition deleteAllClusterReports :: "'w Scanner \<Rightarrow> 'w \<Rightarrow> 'w" where
  "deleteAllClusterReports s w = (if disableStore s then w else logged (DeleteAllClusterReports (reportStore s)) w)"

definition deleteStaleClusterReports :: "'w Scanner \<Rightarrow> string set \<Rightarrow> 'w \<Rightarrow> 'w" where
  "deleteStaleClusterReports s keptReports w =
     (if disableStore s then w else logged (DeleteOldClusterReports (reportStore s) keptReports) w)"

section \<open>The scans\<close>

datatype scan_outcome = Returned "string + unit" | Panicked

definition k8s_GetNamespace :: "'w Scanner \<Rightarrow> string \<Rightarrow> ('w, string, Namespace_v1) action" where
  "k8s_GetNamespace s nsName =
     act_map_err (wrap_err (''can'' @ [CHR 39] @ ''t get namespace '' @ nsName)) (sc_get_namespace (k8sClient s) nsName)"

text \<open>All namespaces but the skipped ones and the one of Kubewarden; the filter is applied by the API server.\<close>

definition GetAuditedNamespaces :: "'w Scanner \<Rightarrow> ('w, string, Namespace_v1 list) action" where
  "GetAuditedNamespaces s =
     act_map_err (wrap_err (''can'' @ [CHR 39] @ ''t list namespaces''))
       (sc_list_namespaces (k8sClient s) (skippedNs s @ [kubewardenNamespace (policiesConfig s)]))"

definition policies_of_namespace :: "'w Scanner \<Rightarrow> string \<Rightarrow> ('w, string, Policies) action" where
  "policies_of_namespace s nsName =
     act_then (act_map_err (\<lambda>e. ''failed to get namespace '' @ nsName @ '': '' @ e) (k8s_GetNamespace s nsName)) (\<lambda>namespace.
     act_map_err (\<lambda>e. ''failed to obtain auditable policies for namespace '' @ nsName @ '': '' @ e)
       (GetPoliciesByNamespace (policiesClient s) (policiesLibrary s) (policiesConfig s) namespace))"

inductive ScanNamespace :: "'w Scanner \<Rightarrow> string \<Rightarrow> string \<Rightarrow> 'w \<Rightarrow> scan_outcome \<times> 'w \<Rightarrow> bool"
  for s :: "'w Scanner" and nsName :: string and runUID :: string where
  namespace_failed:
    "policies_of_namespace s nsName w = (Err e, w') \<Longrightarrow> ScanNamespace s nsName runUID w (Returned (Err e), w')"
| namespace_no_policies:
    "policies_of_namespace s nsName w = (Ok policies, w') \<Longrightarrow> PoliciesByGVR policies = [] \<Longrightarrow>
     ScanNamespace s nsName runUID w (Returned (Ok ()), deleteAllNamespaceReports s nsName w')"
| namespace_scanned:
    "policies_of_namespace s nsName w = (Ok policies, w') \<Longrightarrow> PoliciesByGVR policies \<noteq> [] \<Longrightarrow>
     (scan_step s nsName (namespace_worker s runUID policies))\<^sup>*\<^sup>* (scan_start policies w') (scan_end kept w'') \<Longrightarrow>
     ScanNamespace s nsName runUID w (Returned (Ok ()), deleteStaleNamespaceReports s nsName kept w'')"
| namespace_panicked:
    "policies_of_namespace s nsName w = (Ok policies, w') \<Longrightarrow> PoliciesByGVR policies \<noteq> [] \<Longrightarrow>
     (scan_step s nsName (namespace_worker s runUID policies))\<^sup>*\<^sup>* (scan_start policies w') (Crashed w'') \<Longrightarrow>
     ScanNamespace s nsName runUID w (Panicked, w'')"

definition policies_of_cluster :: "'w Scanner \<Rightarrow> ('w, string, Policies) action" where
  "policies_of_cluster s =
     act_map_err (\<lambda>e. ''failed to obtain cluster auditable policies: '' @ e)
       (GetClusterWidePolicies (policiesClient s) (policiesLibrary s) (policiesConfig s))"

inductive ScanClusterWideResources :: "'w Scanner \<Rightarrow> string \<Rightarrow> 'w \<Rightarrow> scan_outcome \<times> 'w \<Rightarrow> bool"
  for s :: "'w Scanner" and runUID :: string where
  cluster_failed:
    "policies_of_cluster s w = (Err e, w') \<Longrightarrow> ScanClusterWideResources s runUID w (Returned (Err e), w')"
| cluster_no_policies:
    "policies_of_cluster s w = (Ok policies, w') \<Longrightarrow> PoliciesByGVR policies = [] \<Longrightarrow>
     ScanClusterWideResources s runUID w (Returned (Ok ()), deleteAllClusterReports s w')"
| cluster_scanned:
    "policies_of_cluster s w = (Ok policies, w') \<Longrightarrow> PoliciesByGVR policies \<noteq> [] \<Longrightarrow>
     (scan_step s [] (cluster_worker s runUID policies))\<^sup>*\<^sup>* (scan_start policies w') (scan_end kept w'') \<Longrightarrow>
     ScanClusterWideResources s runUID w (Returned (Ok ()), deleteStaleClusterReports s kept w'')"
| cluster_panicked:
    "policies_of_cluster s w = (Ok policies, w') \<Longrightarrow> PoliciesByGVR policies \<noteq> [] \<Longrightarrow>
     (scan_step s [] (cluster_worker s runUID policies))\<^sup>*\<^sup>* (scan_start policies w') (Crashed w'') \<Longrightarrow>
     ScanClusterWideResources s runUID w (Panicked, w'')"

text \<open>
  The namespaces are scanned in any order.  Scans of different namespaces touch different
  reports, so they are taken one after the other.
\<close>

inductive scan_namespaces :: "'w Scanner \<Rightarrow> string \<Rightarrow> string list \<Rightarrow> string list \<Rightarrow> 'w \<Rightarrow> scan_outcome \<times> 'w \<Rightarrow> bool"
  for s :: "'w Scanner" and runUID :: string where
  namespaces_done:
    "scan_namespaces s runUID [] errs w
       (Returned (if errs = [] then Ok () else Err (''error scanning all namespaces: '' @ join_on (CHR 10) errs)), w)"
| namespaces_next:
    "1 \<le> parallelNamespacesAudits s \<Longrightarrow> ScanNamespace s nsName runUID w (Returned r, w') \<Longrightarrow>
     scan_namespaces s runUID (before @ after) (case r of Inl e \<Rightarrow> errs @ [e] | Inr _ \<Rightarrow> errs) w' out \<Longrightarrow>
     scan_namespaces s runUID (before @ nsName # after) errs w out"
| namespaces_panicked:
    "1 \<le> parallelNamespacesAudits s \<Longrightarrow> ScanNamespace s nsName runUID w (Panicked, w') \<Longrightarrow>
     scan_namespaces s runUID (before @ nsName # after) errs w (Panicked, w')"

inductive ScanAllNamespaces :: "'w Scanner \<Rightarrow> string \<Rightarrow> 'w \<Rightarrow> scan_outcome \<times> 'w \<Rightarrow> bool"
  for s :: "'w Scanner" and runUID :: string where
  all_not_listed:
    "GetAuditedNamespaces s w = (Err e, w') \<Longrightarrow> ScanAllNamespaces s runUID w (Panicked, w')"
| all_listed:
    "GetAuditedNamespaces s w = (Ok namespaces, w') \<Longrightarrow>
     scan_namespaces s runUID (map (\<lambda>n. om_name (ns_meta n)) namespaces) [] w' out \<Longrightarrow>
     ScanAllNamespaces s runUID w out"

inductive startScanner :: "'w Scanner \<Rightarrow> string \<Rightarrow> bool \<Rightarrow> string \<Rightarrow> 'w \<Rightarrow> scan_outcome \<times> 'w \<Rightarrow> bool"
  for s :: "'w Scanner" and namespace :: string where
  start_cluster: "ScanClusterWideResources s runUID w out \<Longrightarrow> startScanner s namespace True runUID w out"
| start_namespace: "namespace \<noteq> [] \<Longrightarrow> ScanNamespace s namespace runUID w out \<Longrightarrow> startScanner s namespace False runUID w out"
| start_all_stopped:
    "namespace = [] \<Longrightarrow> ScanClusterWideResources s runUID w (r, w') \<Longrightarrow> r \<noteq> Returned (Ok ()) \<Longrightarrow>
     startScanner s namespace False runUID w (r, w')"
| start_all:
    "namespace = [] \<Longrightarrow> ScanClusterWideResources s runUID w (Returned (Ok ()), w') \<Longrightarrow> ScanAllNamespaces s runUID w' out \<Longrightarrow>
     startScanner s namespace False runUID w out"

inductive_cases ScanAllNamespacesE: "ScanAllNamespaces s runUID w out"

text \<open>When the namespaces cannot be listed, the nil list is dereferenced.\<close>

theorem unlisted_namespaces_panic:
  "GetAuditedNamespaces s w = (Err e, w') \<Longrightarrow> ScanAllNamespaces s runUID w out \<longleftrightarrow> out = (Panicked, w')"
  by (auto elim: ScanAllNamespacesE intro: all_not_listed)

section \<open>The report of a resource\<close>

text \<open>
  A policy server that answers every request in the same way throughout the scan, and
  without changing the reports.
\<close>

type_synonym answers = "string \<Rightarrow> AdmissionRequest_v1 \<Rightarrow> string + AdmissionReview_v1"

definition steady :: "'w Scanner \<Rightarrow> ('w \<Rightarrow> 'v) \<Rightarrow> answers \<Rightarrow> bool" where
  "steady s v ans \<longleftrightarrow>
     (\<forall>url req w. \<exists>w'. sendAdmissionReviewToPolicyServer s url req w = (ans url req, w') \<and> v w' = v w)"

definition responds :: "answers \<Rightarrow> bool" where
  "responds ans \<longleftrightarrow> (\<forall>url req review. ans url req = Ok review \<longrightarrow> arev_response review \<noteq> None)"

text \<open>
  What is to be reported of a policy: nothing if its object selector does not match; an error if
  there is no answer, or one with code 500; otherwise the verdict with its message.
\<close>

definition audit_verdict :: "policies_library \<Rightarrow> answers \<Rightarrow> unstructured \<Rightarrow> AuditPolicy \<Rightarrow> (string \<times> string \<times> string) option" where
  "audit_verdict lib ans resource p =
     (if policyMatches lib (pol_Policy p) resource \<noteq> Ok True then None
      else Some (GetUniqueName (pol_Policy p),
        (case ans (pol_PolicyServer p) (newAdmissionRequest resource) of
           Inl _ \<Rightarrow> (statusError, [])
         | Inr review \<Rightarrow>
             (case arev_response review of
                None \<Rightarrow> (statusError, [])
              | Some response \<Rightarrow>
                  (if map_option st_code (aresp_result response) = Some 500 then statusError
                   else if aresp_allowed response then statusPass else statusFail,
                   case aresp_result response of None \<Rightarrow> [] | Some result \<Rightarrow> st_message result)))))"

definition verdicts :: "policies_library \<Rightarrow> answers \<Rightarrow> unstructured \<Rightarrow> AuditPolicy list \<Rightarrow> (string \<times> string \<times> string) list" where
  "verdicts lib ans resource policies = List.map_filter (audit_verdict lib ans resource) policies"

definition count_status :: "string \<Rightarrow> (string \<times> string \<times> string) list \<Rightarrow> nat" where
  "count_status status vs = length (filter (\<lambda>v. fst (snd v) = status) vs)"

text \<open>A report of the resource with the verdicts of the policies, in any order.\<close>

definition reports_verdicts ::
  "string \<Rightarrow> Policies \<Rightarrow> unstructured \<Rightarrow> (string \<times> string \<times> string) list \<Rightarrow> Report \<Rightarrow> bool" where
  "reports_verdicts runUID policies resource vs rep \<longleftrightarrow>
     mset (map (\<lambda>r. (rr_policy r, rr_result r, rr_description r)) (rep_results rep)) = mset vs \<and>
     rep_summary rep = \<lparr>sum_pass = count_status statusPass vs, sum_fail = count_status statusFail vs, sum_warn = 0,
       sum_error = ErroredNum policies + count_status statusError vs, sum_skip = SkippedNum policies\<rparr> \<and>
     rep_scope rep = Some (getReportScope resource) \<and> rep_owners rep = report_owners resource \<and>
     om_labels (rep_meta rep) = om_labels (getReportObjectMeta runUID resource)"

lemma status_distinct [simp]:
  "statusPass \<noteq> statusFail" "statusFail \<noteq> statusPass" "statusPass \<noteq> statusError" "statusError \<noteq> statusPass"
  "statusFail \<noteq> statusError" "statusError \<noteq> statusFail"
  by (simp_all add: statusPass_def statusFail_def statusError_def)

text \<open>The result of an audit as it is reported.\<close>

definition reported :: "policyAuditResult \<Rightarrow> string \<times> string \<times> string" where
  "reported res =
     (GetUniqueName (par_policy res),
      if par_errored res then statusError
      else if (\<exists>r. Option.bind (par_review res) arev_response = Some r \<and> aresp_allowed r) then statusPass else statusFail,
      snd (getCategoryAndMessage (par_policy res) (par_review res)))"

definition complete_result :: "policyAuditResult \<Rightarrow> bool" where
  "complete_result res \<longleftrightarrow> par_errored res \<or> Option.bind (par_review res) arev_response \<noteq> None"

lemma audit_policy_run:
  assumes "steady s v ans" "responds ans"
  shows "\<exists>r w'. audit_policy s resource p w = (Ok r, w') \<and> v w' = v w \<and>
     map_option reported r = audit_verdict (policiesLibrary s) ans resource p \<and> (\<forall>res. r = Some res \<longrightarrow> complete_result res)"
proof (cases "policyMatches (policiesLibrary s) (pol_Policy p) resource = Ok True")
  case False
  then show ?thesis by (simp add: audit_policy_def act_ok_def audit_verdict_def Let_def)
next
  case True
  let ?req = "newAdmissionRequest resource"
  obtain w' where w': "sendAdmissionReviewToPolicyServer s (pol_PolicyServer p) ?req w = (ans (pol_PolicyServer p) ?req, w')" "v w' = v w"
    using assms(1) unfolding steady_def by blast
  show ?thesis
  proof (cases "ans (pol_PolicyServer p) ?req")
    case (Inl e)
    then show ?thesis using True w'
      by (auto simp: audit_policy_def Let_def go_act_defs audit_verdict_def reported_def complete_result_def getCategoryAndMessage_def)
  next
    case (Inr review)
    then obtain response where "arev_response review = Some response" using assms(2) unfolding responds_def by blast
    then show ?thesis using True w' Inr
      by (auto simp: audit_policy_def Let_def go_act_defs audit_verdict_def reported_def complete_result_def getCategoryAndMessage_def
          split: option.splits)
  qed
qed

lemma collect_run:
  assumes "steady s v ans" "responds ans"
  shows "\<exists>rs w'. act_collect (audit_policy s resource) policies w = (Ok rs, w') \<and> v w' = v w \<and>
     map reported rs = verdicts (policiesLibrary s) ans resource policies \<and> list_all complete_result rs"
proof (induction policies arbitrary: w)
  case Nil
  then show ?case by (simp add: act_ok_def verdicts_def map_filter_simps)
next
  case (Cons p policies)
  obtain r w1 where r: "audit_policy s resource p w = (Ok r, w1)" "v w1 = v w"
    "map_option reported r = audit_verdict (policiesLibrary s) ans resource p" "\<forall>res. r = Some res \<longrightarrow> complete_result res"
    using audit_policy_run [OF assms] by blast
  obtain rs w' where "act_collect (audit_policy s resource) policies w1 = (Ok rs, w')" "v w' = v w1"
    "map reported rs = verdicts (policiesLibrary s) ans resource policies" "list_all complete_result rs"
    using Cons.IH [of w1] by blast
  then show ?case using r(1,2,4) by (cases r) (simp_all add: go_act_defs verdicts_def map_filter_simps r(3) [symmetric])
qed

lemma AddResult_complete:
  assumes "complete_result res"
  shows "\<exists>result. AddResult now (par_policy res) (par_review res) (par_errored res) rep =
      Ok (rep\<lparr>rep_summary := count_result (rr_result result) (rep_summary rep), rep_results := rep_results rep @ [result]\<rparr>) \<and>
     (rr_policy result, rr_result result, rr_description result) = reported res"
proof -
  have "\<exists>result. newPolicyReportResult (par_policy res) (par_review res) (par_errored res) now = Ok result \<and>
      (rr_policy result, rr_result result, rr_description result) = reported res"
    using assms by (auto simp: complete_result_def newPolicyReportResult_def computePolicyResult_def reported_def split_beta)
  then obtain result where "newPolicyReportResult (par_policy res) (par_review res) (par_errored res) now = Ok result"
    "(rr_policy result, rr_result result, rr_description result) = reported res" by blast
  then show ?thesis by (intro exI [of _ result]) (simp add: AddResult_def)
qed

definition add_counts :: "(string \<times> string \<times> string) list \<Rightarrow> ReportSummary \<Rightarrow> ReportSummary" where
  "add_counts vs sm = sm\<lparr>sum_pass := sum_pass sm + count_status statusPass vs, sum_fail := sum_fail sm + count_status statusFail vs,
     sum_error := sum_error sm + count_status statusError vs\<rparr>"

lemma add_counts_Cons:
  "add_counts vs (count_result (fst (snd v)) sm) = add_counts (v # vs) sm"
  if "fst (snd v) \<in> {statusPass, statusFail, statusError}"
  using that by (auto simp: add_counts_def count_result_def count_status_def)

lemma reported_status: "fst (snd (reported res)) \<in> {statusPass, statusFail, statusError}"
  by (simp add: reported_def)

lemma add_results_run:
  assumes "list_all complete_result rs"
  shows "\<exists>rep'. add_results now rs rep = Ok rep' \<and>
     map (\<lambda>r. (rr_policy r, rr_result r, rr_description r)) (rep_results rep') =
       map (\<lambda>r. (rr_policy r, rr_result r, rr_description r)) (rep_results rep) @ map reported rs \<and>
     rep_summary rep' = add_counts (map reported rs) (rep_summary rep) \<and> rep_type rep' = rep_type rep \<and>
     rep_meta rep' = rep_meta rep \<and> rep_scope rep' = rep_scope rep \<and> rep_owners rep' = rep_owners rep"
  using assms
proof (induction rs arbitrary: rep)
  case Nil
  then show ?case by (simp add: add_counts_def count_status_def)
next
  case (Cons res rs)
  obtain result where r: "AddResult now (par_policy res) (par_review res) (par_errored res) rep =
      Ok (rep\<lparr>rep_summary := count_result (rr_result result) (rep_summary rep), rep_results := rep_results rep @ [result]\<rparr>)"
    "(rr_policy result, rr_result result, rr_description result) = reported res"
    using AddResult_complete Cons.prems by fastforce
  have "rr_result result = fst (snd (reported res))" using r(2) by (metis fst_conv snd_conv)
  then show ?case
    using Cons.IH [of "rep\<lparr>rep_summary := count_result (rr_result result) (rep_summary rep), rep_results := rep_results rep @ [result]\<rparr>"]
      Cons.prems r add_counts_Cons [OF reported_status, of "map reported rs" res "rep_summary rep"] by simp
qed

text \<open>The order of the verdicts does not matter.\<close>

lemma verdicts_order: "mset order = mset policies \<Longrightarrow> mset (verdicts lib ans resource order) = mset (verdicts lib ans resource policies)"
  by (simp add: verdicts_def List.map_filter_def mset_map)

lemma count_status_mset: "count_status status vs = size (filter_mset (\<lambda>v. fst (snd v) = status) (mset vs))"
  by (simp add: count_status_def flip: mset_filter)

lemma reports_verdicts_order:
  "mset vs = mset vs' \<Longrightarrow> reports_verdicts runUID policies resource vs rep = reports_verdicts runUID policies resource vs' rep"
  by (simp add: reports_verdicts_def count_status_mset)

lemma reports_verdicts_same:
  "same_report rep rep' \<Longrightarrow> reports_verdicts runUID policies resource vs rep = reports_verdicts runUID policies resource vs rep'"
  by (simp add: reports_verdicts_def same_report_def)

lemma new_report_fields:
  "rep_results (NewReportOfKind kind runUID resource) = []" "rep_summary (NewReportOfKind kind runUID resource) = summary_zero"
  "rep_scope (NewReportOfKind kind runUID resource) = Some (getReportScope resource)"
  "rep_owners (NewReportOfKind kind runUID resource) = report_owners resource"
  "rep_meta (NewReportOfKind kind runUID resource) =
     (getReportObjectMeta runUID resource)\<lparr>om_namespace := om_namespace (u_meta resource)\<rparr>"
  "rep_results (NewClusterReportOfKind kind runUID resource) = []" "rep_summary (NewClusterReportOfKind kind runUID resource) = summary_zero"
  "rep_scope (NewClusterReportOfKind kind runUID resource) = Some (getReportScope resource)"
  "rep_owners (NewClusterReportOfKind kind runUID resource) = report_owners resource"
  "rep_meta (NewClusterReportOfKind kind runUID resource) = getReportObjectMeta runUID resource"
  by (simp_all add: NewReportOfKind_def NewPolicyReport_def NewOpenReport_def NewClusterReportOfKind_def
      NewClusterPolicyReport_def NewClusterOpenReport_def)

lemmas set_policies_defs = SetSkipPolicies_def SetErrorPolicies_def

lemma built_report:
  assumes "list_all complete_result rs"
  shows "\<exists>rep. add_results now rs (SetSkipPolicies (SkippedNum P) (SetErrorPolicies (ErroredNum P) (NewReportOfKind kind runUID resource))) = Ok rep \<and>
     reports_verdicts runUID P resource (map reported rs) rep \<and> rep_type rep = rep_type (NewReportOfKind kind runUID resource) \<and>
     meta_key (rep_meta rep) = (om_namespace (u_meta resource), om_uid (u_meta resource))"
  using add_results_run [OF assms, of now "SetSkipPolicies (SkippedNum P) (SetErrorPolicies (ErroredNum P) (NewReportOfKind kind runUID resource))"]
  by (auto simp: set_policies_defs new_report_fields reports_verdicts_def add_counts_def summary_zero_def
      getReportObjectMeta_def meta_named_def simp del: mset_map)

text \<open>
  A scanner whose store and reports are of one format.  Writing a report succeeds when the
  API server does not fail.
\<close>

locale scanned_store = report_store store rt ct
  for store :: "'w report_client \<Rightarrow> 'w Store" and rt :: report_type and ct :: report_type +
  fixes kind :: CrdKind
  assumes report_types: "rep_type (NewReportOfKind kind runUID resource) = rt"
    "rep_type (NewClusterReportOfKind kind runUID resource) = ct"

interpretation scan_policy_reports: scanned_store PolicyReportStore PolicyReport ClusterPolicyReport ReportKindPolicyReport
  by unfold_locales (simp_all add: NewReportOfKind_def NewPolicyReport_def NewClusterReportOfKind_def NewClusterPolicyReport_def)

interpretation scan_open_reports: scanned_store OpenReportStore OpenReport OpenClusterReport ReportKindOpenReport
  by unfold_locales (simp_all add: NewReportOfKind_def NewOpenReport_def NewClusterReportOfKind_def NewClusterOpenReport_def)

definition writes_succeed :: "'w Store \<Rightarrow> report_type \<Rightarrow> bool" where
  "writes_succeed st t \<longleftrightarrow> (\<forall>rep w. rep_type rep = t \<longrightarrow> fst (CreateOrPatchReport st rep w) = Ok ())"

context scanned_store
begin

lemma auditResource_run:
  assumes laws: "report_laws rc v" and s: "reportStore s = store rc" "reportKind s = kind" "\<not> disableStore s"
    and server: "steady s v ans" "responds ans" and ok: "writes_succeed (store rc) rt"
    and order: "mset order = mset policies"
  shows "\<exists>w' rep. auditResource s order resource runUID (SkippedNum P) (ErroredNum P) kept w = (Ok (insert (om_uid (u_meta resource)) kept), w') \<and>
     written rt (om_namespace (u_meta resource), om_uid (u_meta resource)) rep (v w) (v w') \<and>
     reports_verdicts runUID P resource (verdicts (policiesLibrary s) ans resource policies) rep"
proof -
  obtain rs w1 where rs: "act_collect (audit_policy s resource) order w = (Ok rs, w1)" "v w1 = v w"
    "map reported rs = verdicts (policiesLibrary s) ans resource order" "list_all complete_result rs"
    using collect_run [OF server] by blast
  obtain rep where rep: "add_results (sc_clock (k8sClient s) w1) rs
      (SetSkipPolicies (SkippedNum P) (SetErrorPolicies (ErroredNum P) (NewReportOfKind kind runUID resource))) = Ok rep"
    "reports_verdicts runUID P resource (map reported rs) rep" "rep_type rep = rt"
    "meta_key (rep_meta rep) = (om_namespace (u_meta resource), om_uid (u_meta resource))"
    using built_report [OF rs(4)] report_types(1) by metis
  obtain w' where w': "CreateOrPatchReport (store rc) rep w1 = (Ok (), w')"
    using ok rep(3) unfolding writes_succeed_def by (metis prod.collapse)
  have "written rt (meta_key (rep_meta rep)) rep (v w1) (v w')" by (rule wp_Ok [OF create [OF laws rep(3)] w'])
  moreover have "reports_verdicts runUID P resource (verdicts (policiesLibrary s) ans resource policies) rep"
    using rep(2) reports_verdicts_order [OF verdicts_order [OF order]] unfolding rs(3) by blast
  ultimately show ?thesis
    using s w' rs(1,2) rep(1,4) by (auto simp: auditResource_def go_act_defs act_read_def)
qed

end

section \<open>A scan is exact\<close>

abbreviation job_uid :: "audit_job \<Rightarrow> string" where
  "job_uid job \<equiv> om_uid (u_meta (snd job))"

text \<open>
  The jobs of a scan: every listed resource, with the policies for its kind.  The resources do
  not change during the scan.
\<close>

definition all_jobs :: "Policies \<Rightarrow> (GroupVersionResource \<Rightarrow> unstructured list) \<Rightarrow> audit_job set" where
  "all_jobs P res = {(pols, r). \<exists>gvr. (gvr, pols) \<in> set (PoliciesByGVR P) \<and> r \<in> set (res gvr)}"

definition steady_lists :: "'w Scanner \<Rightarrow> ('w \<Rightarrow> reports) \<Rightarrow> string \<Rightarrow> (GroupVersionResource \<Rightarrow> unstructured list) \<Rightarrow> bool" where
  "steady_lists s v nsName res \<longleftrightarrow>
     (\<forall>gvr w. \<exists>w'. sc_each_resource (k8sClient s) gvr nsName w = ((res gvr, None), w') \<and> v w' = v w)"

definition good_worker ::
  "('w \<Rightarrow> reports) \<Rightarrow> report_type \<Rightarrow> string \<Rightarrow> audit_job set \<Rightarrow> (audit_job \<Rightarrow> Report \<Rightarrow> bool) \<Rightarrow> 'w worker \<Rightarrow> bool" where
  "good_worker v t kns jobs spec worker \<longleftrightarrow>
     (\<forall>job kept w out. worker job kept w out \<longrightarrow> job \<in> jobs \<longrightarrow>
        (\<exists>w' rep. out = (Ok (insert (job_uid job) kept), w') \<and> changes_only t (kns, job_uid job) (v w) (v w') \<and>
           v w' t (kns, job_uid job) = Some rep \<and> spec job rep))"

definition waiting ::
  "(GroupVersionResource \<Rightarrow> unstructured list) \<Rightarrow> 'w scan_state \<Rightarrow> audit_job set" where
  "waiting res x = {(pols, r). \<exists>gvr. (gvr, pols) \<in> set (ss_todo x) \<and> r \<in> set (res gvr)} \<union> set (ss_items x) \<union> set (ss_running x)"

definition scan_inv ::
  "('w \<Rightarrow> reports) \<Rightarrow> report_type \<Rightarrow> string \<Rightarrow> (audit_job \<Rightarrow> Report \<Rightarrow> bool) \<Rightarrow> audit_job set \<Rightarrow>
     (GroupVersionResource \<Rightarrow> unstructured list) \<Rightarrow> reports \<Rightarrow> 'w scan_state \<Rightarrow> bool" where
  "scan_inv v t kns spec jobs res v0 x \<longleftrightarrow>
     waiting res x \<subseteq> jobs \<and> job_uid ` (jobs - waiting res x) \<subseteq> ss_kept x \<and>
     (\<forall>uid\<in>ss_kept x. \<exists>job\<in>jobs. job_uid job = uid \<and> (\<exists>rep. v (ss_world x) t (kns, uid) = Some rep \<and> spec job rep)) \<and>
     (\<forall>t' k. \<not> (t' = t \<and> fst k = kns \<and> snd k \<in> ss_kept x) \<longrightarrow> v (ss_world x) t' k = v0 t' k)"

lemma scan_inv_start:
  "scan_inv v t kns spec (all_jobs P res) res (v w)
     \<lparr>ss_todo = PoliciesByGVR P, ss_items = [], ss_running = [], ss_kept = {}, ss_world = w\<rparr>"
  by (auto simp: scan_inv_def waiting_def all_jobs_def)

lemma scan_inv_same:
  assumes "scan_inv v t kns spec jobs res v0 x" "waiting res x' = waiting res x" "ss_kept x' = ss_kept x"
    "v (ss_world x') = v (ss_world x)"
  shows "scan_inv v t kns spec jobs res v0 x'"
  using assms by (simp add: scan_inv_def)

lemma scan_inv_done:
  assumes inv: "scan_inv v t kns spec jobs res v0 x" and job: "insert job (waiting res x') = waiting res x"
    and kept: "ss_kept x' = insert (job_uid job) (ss_kept x)"
    and c: "changes_only t (kns, job_uid job) (v (ss_world x)) (v (ss_world x'))"
    and rep: "v (ss_world x') t (kns, job_uid job) = Some rep" "spec job rep"
  shows "scan_inv v t kns spec jobs res v0 x'"
proof -
  have same: "v (ss_world x') t' k = v (ss_world x) t' k" if "(t', k) \<noteq> (t, kns, job_uid job)" for t' k
    using c that unfolding changes_only_def by blast
  have "job \<in> jobs" using inv job unfolding scan_inv_def by blast
  note parts = inv [unfolded scan_inv_def]
  have "\<exists>j\<in>jobs. job_uid j = uid \<and> (\<exists>rep. v (ss_world x') t (kns, uid) = Some rep \<and> spec j rep)" if uid: "uid \<in> ss_kept x'" for uid
  proof (cases "uid = job_uid job")
    case True
    then show ?thesis using rep \<open>job \<in> jobs\<close> by (intro bexI [of _ job]) simp_all
  next
    case False
    have k: "uid \<in> ss_kept x" using uid False unfolding kept by blast
    have "v (ss_world x') t (kns, uid) = v (ss_world x) t (kns, uid)" by (rule same) (use False in simp)
    then show ?thesis using parts [THEN conjunct2, THEN conjunct2, THEN conjunct1, rule_format, OF k] by (simp only:)
  qed
  moreover have "v (ss_world x') t' k = v0 t' k" if "\<not> (t' = t \<and> fst k = kns \<and> snd k \<in> ss_kept x')" for t' k
  proof -
    have "(t', k) \<noteq> (t, kns, job_uid job)" using that unfolding kept by (metis fst_conv snd_conv insertI1)
    then have "v (ss_world x') t' k = v (ss_world x) t' k" by (rule same)
    moreover have "\<not> (t' = t \<and> fst k = kns \<and> snd k \<in> ss_kept x)" using that unfolding kept by blast
    then have "v (ss_world x) t' k = v0 t' k"
      by (rule parts [THEN conjunct2, THEN conjunct2, THEN conjunct2, THEN spec, THEN spec, THEN mp])
    ultimately show ?thesis by (rule trans)
  qed
  moreover have "waiting res x' \<subseteq> jobs" using parts [THEN conjunct1] job by blast
  moreover have "job_uid ` (jobs - waiting res x') \<subseteq> ss_kept x'"
    using parts [THEN conjunct2, THEN conjunct1] unfolding job [symmetric] kept by blast
  ultimately show ?thesis unfolding scan_inv_def by (intro conjI ballI allI impI)
qed

lemma scan_inv_step:
  assumes lists: "steady_lists s v nsName res" and worker: "good_worker v t kns jobs spec worker"
    and "scan_step s nsName worker (Scanning x) sc" "scan_inv v t kns spec jobs res v0 x"
  shows "\<exists>x'. sc = Scanning x' \<and> scan_inv v t kns spec jobs res v0 x'"
  using assms(3)
proof (cases rule: scan_step.cases)
  case (list_resources gvr w items err w' pols todo running kept)
  let ?x = "\<lparr>ss_todo = todo, ss_items = map (Pair pols) items, ss_running = running, ss_kept = kept, ss_world = w'\<rparr>"
  have "items = res gvr" "v w' = v w"
    using lists list_resources(3) unfolding steady_lists_def by (metis prod.inject)+
  then have "scan_inv v t kns spec jobs res v0 ?x"
    by (intro scan_inv_same [OF assms(4)]) (auto simp: waiting_def list_resources(1))
  then show ?thesis using list_resources(2) by blast
next
  case (start_worker running todo job items kept w)
  let ?x = "\<lparr>ss_todo = todo, ss_items = items, ss_running = running @ [job], ss_kept = kept, ss_world = w\<rparr>"
  have "scan_inv v t kns spec jobs res v0 ?x"
    by (intro scan_inv_same [OF assms(4)]) (auto simp: waiting_def start_worker(1))
  then show ?thesis using start_worker(2) by blast
next
  case (worker_done job kept w kept' w' todo items before after)
  let ?x = "\<lparr>ss_todo = todo, ss_items = items, ss_running = before @ after, ss_kept = kept', ss_world = w'\<rparr>"
  have "job \<in> jobs" using assms(4) unfolding scan_inv_def waiting_def worker_done(1) by auto
  then obtain rep where "kept' = insert (job_uid job) kept" "changes_only t (kns, job_uid job) (v w) (v w')"
    "v w' t (kns, job_uid job) = Some rep" "spec job rep"
    using worker worker_done(3) unfolding good_worker_def by blast
  then have "scan_inv v t kns spec jobs res v0 ?x"
    by (intro scan_inv_done [OF assms(4), of job _ rep]) (auto simp: waiting_def worker_done(1))
  then show ?thesis using worker_done(2) by blast
next
  case (worker_panics job kept w panic w' todo items before after)
  have "job \<in> jobs" using assms(4) unfolding scan_inv_def waiting_def worker_panics(1) by auto
  then show ?thesis using worker worker_panics(3) unfolding good_worker_def by blast
qed

lemma scan_inv_steps:
  assumes "steady_lists s v nsName res" "good_worker v t kns jobs spec worker"
    and "(scan_step s nsName worker)\<^sup>*\<^sup>* (Scanning x) sc" "scan_inv v t kns spec jobs res v0 x"
  shows "\<exists>x'. sc = Scanning x' \<and> scan_inv v t kns spec jobs res v0 x'"
  using assms(3,4) by (induction rule: rtranclp_induct) (use scan_inv_step [OF assms(1,2)] in blast)+

text \<open>
  What a scan leaves behind: a report with the verdicts for every resource, none of the other
  managed reports in its scope, and everything else as it was.  Resources with the same UID, which
  one object has that is served in several versions, share a report: the last one written.
\<close>

definition scanned ::
  "report_type \<Rightarrow> string \<Rightarrow> (audit_job \<Rightarrow> Report \<Rightarrow> bool) \<Rightarrow> audit_job set \<Rightarrow> reports \<Rightarrow> reports \<Rightarrow> bool" where
  "scanned t kns spec jobs before after \<longleftrightarrow>
     (\<forall>job\<in>jobs. \<exists>job'\<in>jobs. job_uid job' = job_uid job \<and> (\<exists>rep. after t (kns, job_uid job) = Some rep \<and> spec job' rep)) \<and>
     (\<forall>uid. uid \<notin> job_uid ` jobs \<longrightarrow> after t (kns, uid) =
        (if selected managedByKubewardenSelector kns (kns, uid) (before t (kns, uid)) then None else before t (kns, uid))) \<and>
     (\<forall>t' k. t' \<noteq> t \<or> fst k \<noteq> kns \<longrightarrow> after t' k = before t' k)"

lemma scanned_end:
  assumes inv: "scan_inv v t kns spec jobs res v0 x" and "waiting res x = {}"
    and after: "v' = remove_selected t managedByKubewardenSelector kns (\<lambda>n. n \<in> ss_kept x) (v (ss_world x))"
    and other: "\<And>k. fst k \<noteq> kns \<Longrightarrow> \<not> selected managedByKubewardenSelector kns k (v0 t k)"
  shows "scanned t kns spec jobs v0 v'"
proof -
  note parts = inv [unfolded scan_inv_def]
  have kept: "ss_kept x = job_uid ` jobs"
  proof
    show "ss_kept x \<subseteq> job_uid ` jobs"
    proof
      fix uid assume "uid \<in> ss_kept x"
      from parts [THEN conjunct2, THEN conjunct2, THEN conjunct1, rule_format, OF this]
      obtain job where "job \<in> jobs" "job_uid job = uid" by blast
      then show "uid \<in> job_uid ` jobs" by (intro image_eqI [of _ _ job]) simp_all
    qed
    show "job_uid ` jobs \<subseteq> ss_kept x" using parts [THEN conjunct2, THEN conjunct1] assms(2) by simp
  qed
  have frame: "v (ss_world x) t' k = v0 t' k" if "t' \<noteq> t \<or> fst k \<noteq> kns \<or> snd k \<notin> ss_kept x" for t' k
    using that parts [THEN conjunct2, THEN conjunct2, THEN conjunct2] by blast
  have "\<exists>job'\<in>jobs. job_uid job' = job_uid job \<and> (\<exists>rep. v' t (kns, job_uid job) = Some rep \<and> spec job' rep)" if "job \<in> jobs" for job
  proof -
    have k: "job_uid job \<in> ss_kept x" using that kept by blast
    then have "v' t (kns, job_uid job) = v (ss_world x) t (kns, job_uid job)" by (simp add: after remove_selected_apply)
    then show ?thesis using parts [THEN conjunct2, THEN conjunct2, THEN conjunct1, rule_format, OF k] by (simp only:)
  qed
  moreover have "v' t (kns, uid) = (if selected managedByKubewardenSelector kns (kns, uid) (v0 t (kns, uid)) then None else v0 t (kns, uid))"
    if "uid \<notin> job_uid ` jobs" for uid
    using that frame [of t "(kns, uid)"] by (simp add: after remove_selected_apply kept)
  moreover have "v' t' k = v0 t' k" if "t' \<noteq> t \<or> fst k \<noteq> kns" for t' k
  proof -
    have "v (ss_world x) t' k = v0 t' k" using frame that by blast
    moreover have "\<not> (t' = t \<and> selected managedByKubewardenSelector kns k (v (ss_world x) t k))"
      using that other [of k] frame [of t k] by auto
    ultimately show ?thesis by (auto simp: after remove_selected_apply)
  qed
  ultimately show ?thesis unfolding scanned_def by (intro conjI ballI allI impI)
qed

text \<open>The specification of a report, for a job.\<close>

definition audited_by :: "'w Scanner \<Rightarrow> answers \<Rightarrow> string \<Rightarrow> Policies \<Rightarrow> audit_job \<Rightarrow> Report \<Rightarrow> bool" where
  "audited_by s ans runUID P job rep \<longleftrightarrow>
     reports_verdicts runUID P (snd job) (verdicts (policiesLibrary s) ans (snd job) (fst job)) rep"

definition deletes_succeed :: "'w Store \<Rightarrow> bool" where
  "deletes_succeed st \<longleftrightarrow>
     (\<forall>kept ns w. fst (DeleteOldReports st kept ns w) = Ok ()) \<and> (\<forall>ns w. fst (DeleteAllReports st ns w) = Ok ())"

context scanned_store
begin

lemma namespace_worker_good:
  assumes "report_laws rc v" "reportStore s = store rc" "reportKind s = kind" "\<not> disableStore s"
    "steady s v ans" "responds ans" "writes_succeed (store rc) rt"
    and ns: "\<And>job. job \<in> jobs \<Longrightarrow> om_namespace (u_meta (snd job)) = nsName"
  shows "good_worker v rt nsName jobs (audited_by s ans runUID P) (namespace_worker s runUID P)"
  unfolding good_worker_def
proof (intro allI impI)
  fix job kept w out
  assume worker: "namespace_worker s runUID P job kept w out" and job: "job \<in> jobs"
  then obtain order where order: "mset order = mset (fst job)"
    "auditResource s order (snd job) runUID (SkippedNum P) (ErroredNum P) kept w = out"
    unfolding namespace_worker_def by blast
  obtain w' rep where r: "auditResource s order (snd job) runUID (SkippedNum P) (ErroredNum P) kept w =
      (Ok (insert (job_uid job) kept), w')"
    "written rt (om_namespace (u_meta (snd job)), job_uid job) rep (v w) (v w')"
    "reports_verdicts runUID P (snd job) (verdicts (policiesLibrary s) ans (snd job) (fst job)) rep"
    using auditResource_run [OF assms(1-7) order(1), where resource = "snd job"] by blast
  from r(2) [unfolded ns [OF job] written_def] obtain rep' where
    "changes_only rt (nsName, job_uid job) (v w) (v w')" "v w' rt (nsName, job_uid job) = Some rep'" "same_report rep' rep"
    by blast
  then show "\<exists>w' rep. out = (Ok (insert (job_uid job) kept), w') \<and> changes_only rt (nsName, job_uid job) (v w) (v w') \<and>
     v w' rt (nsName, job_uid job) = Some rep \<and> audited_by s ans runUID P job rep"
    using r(1,3) order(2) reports_verdicts_same unfolding audited_by_def by blast
qed

end

context scanned_store
begin

lemma namespace_scan:
  assumes laws: "report_laws rc v" and s: "reportStore s = store rc" "reportKind s = kind" "\<not> disableStore s"
    and server: "steady s v ans" "responds ans" and ok: "writes_succeed (store rc) rt" "deletes_succeed (store rc)"
    and ns: "nsName \<noteq> []" "steady_lists s v nsName res" "\<And>gvr r. r \<in> set (res gvr) \<Longrightarrow> om_namespace (u_meta r) = nsName"
    and P: "policies_of_namespace s nsName w = (Ok P, w1)" "v w1 = v w"
    and run: "ScanNamespace s nsName runUID w (out, w')"
  shows "out = Returned (Ok ()) \<and> scanned rt nsName (audited_by s ans runUID P) (all_jobs P res) (v w) (v w')"
proof -
  let ?x0 = "\<lparr>ss_todo = PoliciesByGVR P, ss_items = [], ss_running = [], ss_kept = {}, ss_world = w1\<rparr>"
  have other: "\<not> selected managedByKubewardenSelector nsName k (v w rt k)" if "fst k \<noteq> nsName" for k
    using that ns(1) by (simp add: selected_def)
  have good: "good_worker v rt nsName (all_jobs P res) (audited_by s ans runUID P) (namespace_worker s runUID P)"
    by (rule namespace_worker_good [OF laws s server ok(1)]) (auto simp: all_jobs_def ns(3))
  have start: "scan_inv v rt nsName (audited_by s ans runUID P) (all_jobs P res) res (v w) ?x0"
    using scan_inv_start [of v rt nsName _ P res w1] P(2) by simp
  note steps = scan_inv_steps [OF ns(2) good _ start]
  from run show ?thesis
  proof (cases rule: ScanNamespace.cases)
    case (namespace_no_policies policies w2)
    then have [simp]: "policies = P" "w2 = w1" using P(1) by simp_all
    obtain w3 where del: "DeleteAllReports (store rc) nsName w1 = (Ok (), w3)"
      using ok(2) unfolding deletes_succeed_def by (metis prod.collapse)
    have "v w3 = remove_selected rt managedByKubewardenSelector nsName (\<lambda>n. n \<in> ss_kept ?x0) (v (ss_world ?x0))"
      using wp_Ok [OF delete_all [OF laws] del] by simp
    moreover have "waiting res ?x0 = {}" using namespace_no_policies by (simp add: waiting_def)
    ultimately have "scanned rt nsName (audited_by s ans runUID P) (all_jobs P res) (v w) (v w3)"
      using scanned_end [OF start _ _ other] by simp
    then show ?thesis using namespace_no_policies s del by (simp add: deleteAllNamespaceReports_def logged_def)
  next
    case (namespace_scanned policies w2 kept w3)
    then have [simp]: "policies = P" "w2 = w1" using P(1) by simp_all
    let ?x = "\<lparr>ss_todo = [], ss_items = [], ss_running = [], ss_kept = kept, ss_world = w3\<rparr>"
    have inv: "scan_inv v rt nsName (audited_by s ans runUID P) (all_jobs P res) res (v w) ?x"
      using steps [of "scan_end kept w3"] namespace_scanned by (simp add: scan_start_def scan_end_def)
    obtain w4 where del: "DeleteOldReports (store rc) kept nsName w3 = (Ok (), w4)"
      using ok(2) unfolding deletes_succeed_def by (metis prod.collapse)
    have "v w4 = remove_selected rt managedByKubewardenSelector nsName (\<lambda>n. n \<in> ss_kept ?x) (v (ss_world ?x))"
      using wp_Ok [OF delete_old [OF laws] del] by simp
    then have "scanned rt nsName (audited_by s ans runUID P) (all_jobs P res) (v w) (v w4)"
      using scanned_end [OF inv _ _ other] by (simp add: waiting_def)
    then show ?thesis using namespace_scanned s del by (simp add: deleteStaleNamespaceReports_def logged_def)
  next
    case (namespace_panicked policies w2)
    then show ?thesis using steps [of "Crashed w'"] P(1) by (simp add: scan_start_def)
  qed (use P(1) in simp)
qed

end

definition report_type_of :: "CrdKind \<Rightarrow> report_type" where
  "report_type_of kind = (case kind of ReportKindPolicyReport \<Rightarrow> PolicyReport | ReportKindOpenReport \<Rightarrow> OpenReport)"


section \<open>A scan ends\<close>

fun scan_measure :: "'w scan \<Rightarrow> nat \<times> nat \<times> nat" where
  "scan_measure (Scanning x) = (Suc (length (ss_todo x)), length (ss_items x), length (ss_running x))"
| "scan_measure (Crashed w) = (0, 0, 0)"

lemma scan_step_wf: "wf {(sc', sc). scan_step s nsName worker sc sc'}"
proof (rule wf_subset)
  show "wf (inv_image (less_than <*lex*> less_than <*lex*> less_than) scan_measure)" by auto
  show "{(sc', sc). scan_step s nsName worker sc sc'} \<subseteq> inv_image (less_than <*lex*> less_than <*lex*> less_than) scan_measure"
    by (auto elim!: scan_step.cases)
qed

lemma scan_progress:
  assumes "1 \<le> parallelResourcesAudits s" and worker: "\<forall>job kept w. \<exists>out. worker job kept w out"
    and "\<forall>kept w. Scanning x \<noteq> scan_end kept w"
  shows "\<exists>sc. scan_step s nsName worker (Scanning x) sc"
proof -
  obtain todo items running kept w where x: "x = \<lparr>ss_todo = todo, ss_items = items, ss_running = running, ss_kept = kept, ss_world = w\<rparr>"
    by (cases x)
  consider job rest where "running = [] @ job # rest" | job rest where "running = []" "items = job # rest"
    | gvr pols rest where "running = []" "items = []" "todo = (gvr, pols) # rest"
    using assms(3) x by (cases running; cases items; cases todo) (force simp: scan_end_def)+
  then show ?thesis
  proof cases
    case (1 job rest)
    obtain r w' where "worker job kept w (r, w')" using worker by (metis surj_pair)
    then show ?thesis unfolding x 1 by (cases r) (blast intro: scan_step.intros)+
  next
    case (2 job rest)
    have "int (length []) < parallelResourcesAudits s" using assms(1) by simp
    then show ?thesis unfolding x 2 by (blast intro: start_worker)
  next
    case (3 gvr pols rest)
    obtain listed err w' where "sc_each_resource (k8sClient s) gvr nsName w = ((listed, err), w')" by (metis surj_pair)
    then show ?thesis unfolding x 3 by (blast intro: list_resources)
  qed
qed

lemma scan_reaches_end:
  assumes "1 \<le> parallelResourcesAudits s" "\<forall>job kept w. \<exists>out. worker job kept w out"
  shows "\<exists>sc'. (scan_step s nsName worker)\<^sup>*\<^sup>* sc sc' \<and> ((\<exists>kept w. sc' = scan_end kept w) \<or> (\<exists>w. sc' = Crashed w))"
proof (induction sc rule: wf_induct_rule [OF scan_step_wf [of s nsName worker]])
  case (1 sc)
  show ?case
  proof (cases "(\<exists>kept w. sc = scan_end kept w) \<or> (\<exists>w. sc = Crashed w)")
    case True
    then show ?thesis by (intro exI [of _ sc] conjI rtranclp.rtrancl_refl)
  next
    case False
    then obtain x where x: "sc = Scanning x" by (cases sc) simp_all
    then have "\<forall>kept w. Scanning x \<noteq> scan_end kept w" using False by simp
    from scan_progress [OF assms this, of nsName] obtain sc1 where step: "scan_step s nsName worker sc sc1" unfolding x by blast
    then obtain sc' where "(scan_step s nsName worker)\<^sup>*\<^sup>* sc1 sc'" "(\<exists>kept w. sc' = scan_end kept w) \<or> (\<exists>w. sc' = Crashed w)"
      using 1 [of sc1] by auto
    then show ?thesis using converse_rtranclp_into_rtranclp [of "scan_step s nsName worker", OF step] by (intro exI [of _ sc'] conjI)
  qed
qed

lemma namespace_worker_enabled:
  "1 \<le> parallelPoliciesAudits s \<Longrightarrow> \<forall>job kept w. \<exists>out. namespace_worker s runUID P job kept w out"
  unfolding namespace_worker_def by blast

lemma scan_has_outcome:
  assumes "1 \<le> parallelResourcesAudits s" "1 \<le> parallelPoliciesAudits s"
  shows "\<exists>out w'. ScanNamespace s nsName runUID w (out, w')"
proof -
  obtain r w1 where start: "policies_of_namespace s nsName w = (r, w1)" by (cases "policies_of_namespace s nsName w")
  show ?thesis
  proof (cases r)
    case (Inl e)
    then show ?thesis using start by (blast intro: namespace_failed)
  next
    case (Inr Q)
    obtain sc where sc: "(scan_step s nsName (namespace_worker s runUID Q))\<^sup>*\<^sup>* (scan_start Q w1) sc"
      "(\<exists>kept w. sc = scan_end kept w) \<or> (\<exists>w. sc = Crashed w)"
      using scan_reaches_end [OF assms(1) namespace_worker_enabled [OF assms(2)]] by blast
    have start': "policies_of_namespace s nsName w = (Ok Q, w1)" using start Inr by simp
    show ?thesis
    proof (cases "PoliciesByGVR Q = []")
      case True
      then show ?thesis using namespace_no_policies [OF start'] by blast
    next
      case False
      from sc(2) show ?thesis
      proof (elim disjE exE)
        fix kept w2 assume "sc = scan_end kept w2"
        then show ?thesis using namespace_scanned [OF start' False] sc(1) by blast
      next
        fix w2 assume "sc = Crashed w2"
        then show ?thesis using namespace_panicked [OF start' False] sc(1) by blast
      qed
    qed
  qed
qed

text \<open>
  C19: with positive limits for the parallel audits, every scan of a namespace ends, however the
  workers are scheduled: there is no infinite run, a scan is never stuck before its end, and so it
  has an outcome.
\<close>

theorem scan_always_ends:
  assumes "1 \<le> parallelResourcesAudits s" "1 \<le> parallelPoliciesAudits s"
  shows "wf {(sc', sc). scan_step s nsName (namespace_worker s runUID P) sc sc'} \<and>
    (\<forall>x. (\<forall>kept w. Scanning x \<noteq> scan_end kept w) \<longrightarrow> (\<exists>sc. scan_step s nsName (namespace_worker s runUID P) (Scanning x) sc)) \<and>
    (\<exists>out. ScanNamespace s nsName runUID w out)"
  using scan_step_wf scan_progress [OF assms(1) namespace_worker_enabled [OF assms(2)]] scan_has_outcome [OF assms] by blast

text \<open>With a limit of zero no worker ever gets a permit, and a scan with something to do has no outcome.\<close>

theorem no_permits_scan_hangs:
  assumes "parallelResourcesAudits s \<le> 0" and lists: "\<And>w. fst (fst (sc_each_resource (k8sClient s) gvr nsName w)) \<noteq> []"
    and P: "policies_of_namespace s nsName w = (Ok P, w1)" "(gvr, pols) \<in> set (PoliciesByGVR P)"
  shows "\<not> ScanNamespace s nsName runUID w out"
proof -
  have stuck: "\<exists>y. sc = Scanning y \<and> ss_running y = [] \<and> ((gvr, pols) \<in> set (ss_todo y) \<or> ss_items y \<noteq> [])"
    if "(scan_step s nsName worker)\<^sup>*\<^sup>* (scan_start P w1) sc" for sc worker
    using that
  proof (induction rule: rtranclp_induct)
    case base
    then show ?case using P(2) by (simp add: scan_start_def)
  next
    case (step y z)
    from step.IH obtain x where x: "y = Scanning x" "ss_running x = []" "(gvr, pols) \<in> set (ss_todo x) \<or> ss_items x \<noteq> []"
      by blast
    from step(2) show ?case
    proof (cases rule: scan_step.cases)
      case (list_resources g w items err w' ps todo running kept)
      then show ?thesis using x lists [of w] by auto
    qed (use x assms(1) in auto)
  qed
  show ?thesis
  proof
    assume "ScanNamespace s nsName runUID w out"
    then show False using P by cases (auto dest!: stuck simp: scan_end_def)
  qed
qed

section \<open>An in-memory cluster\<close>

text \<open>The stored reports as a list; the first one of a type and name counts.\<close>

definition report_view :: "Report list \<Rightarrow> reports" where
  "report_view w t k = find (\<lambda>rep. rep_type rep = t \<and> meta_key (rep_meta rep) = k) w"

definition drop_reports :: "(report_type \<Rightarrow> string \<times> string \<Rightarrow> bool) \<Rightarrow> Report list \<Rightarrow> Report list" where
  "drop_reports Q = filter (\<lambda>rep. \<not> Q (rep_type rep) (meta_key (rep_meta rep)))"

definition sample_report_client :: "Report list report_client" where
  "sample_report_client =
     \<lparr>rc_create_or_patch = (\<lambda>fresh f w.
        let t = rep_type fresh; k = meta_key (rep_meta fresh);
            new = f (case report_view w t k of Some old \<Rightarrow> old | None \<Rightarrow> fresh);
            new = new\<lparr>rep_type := t, rep_meta := (rep_meta new)\<lparr>om_namespace := fst k, om_name := snd k\<rparr>\<rparr> in
        (Ok (), new # w)),
      rc_list_metadata = (\<lambda>t sel ns w. (Ok (map rep_meta (filter (\<lambda>rep.
        report_view w t (meta_key (rep_meta rep)) = Some rep \<and> selected sel ns (meta_key (rep_meta rep)) (Some rep)) w)), w)),
      rc_delete = (\<lambda>t m w. case report_view w t (meta_key m) of
          None \<Rightarrow> (Err NotFound, w)
        | Some rep \<Rightarrow> if om_uid (rep_meta rep) = om_uid m \<and> om_resourceVersion (rep_meta rep) = om_resourceVersion m
            then (Ok (), drop_reports (\<lambda>t' k. t' = t \<and> k = meta_key m) w) else (Err Conflict, w)),
      rc_delete_all_of = (\<lambda>t sel ns w. (Ok (), drop_reports (\<lambda>t' k. t' = t \<and> selected sel ns k (report_view w t k)) w)),
      rc_probe = (\<lambda>t sel w. (Ok (length (filter (\<lambda>rep.
        report_view w t (meta_key (rep_meta rep)) = Some rep \<and> selected sel [] (meta_key (rep_meta rep)) (Some rep)) w)), w)),
      rc_gvk_error = (\<lambda>_. None)\<rparr>"

lemma report_view_drop: "report_view (drop_reports Q w) t k = (if Q t k then None else report_view w t k)"
  by (induction w) (auto simp: report_view_def drop_reports_def)

lemma report_view_Some: "report_view w t k = Some rep \<Longrightarrow> rep \<in> set w \<and> rep_type rep = t \<and> meta_key (rep_meta rep) = k"
  by (induction w) (auto simp: report_view_def split: if_splits)

lemma sample_report_laws: "report_laws sample_report_client report_view"
  unfolding report_laws_def
proof (intro conjI)
  show "report_keys_law report_view" using report_view_Some unfolding report_keys_law_def by blast
  show "report_patch_law sample_report_client report_view"
    unfolding report_patch_law_def sample_report_client_def Let_def
    by (auto simp: changes_only_def same_report_def) (auto simp: report_view_def)
  show "report_list_law sample_report_client report_view"
  proof -
    have set: "set (map rep_meta (filter (\<lambda>rep. report_view w t (meta_key (rep_meta rep)) = Some rep \<and>
         selected sel ns (meta_key (rep_meta rep)) (Some rep)) w)) =
       {rep_meta rep |rep k. report_view w t k = Some rep \<and> selected sel ns k (report_view w t k)}" (is "?A = ?B") for t sel ns w
    proof
      show "?A \<subseteq> ?B"
      proof
        fix m assume "m \<in> ?A"
        then obtain rep where "m = rep_meta rep" "report_view w t (meta_key (rep_meta rep)) = Some rep"
          "selected sel ns (meta_key (rep_meta rep)) (Some rep)" by auto
        then show "m \<in> ?B" by (intro CollectI exI [of _ rep] exI [of _ "meta_key (rep_meta rep)"]) simp
      qed
      show "?B \<subseteq> ?A"
      proof
        fix m assume "m \<in> ?B"
        then obtain rep k where rep: "m = rep_meta rep" "report_view w t k = Some rep" "selected sel ns k (report_view w t k)" by blast
        then show "m \<in> ?A" using report_view_Some [OF rep(2)] by (auto intro!: imageI)
      qed
    qed
    have none: "\<not> selected sel [] k (report_view w t k)"
      if empty: "filter (\<lambda>rep. report_view w t (meta_key (rep_meta rep)) = Some rep \<and>
         selected sel [] (meta_key (rep_meta rep)) (Some rep)) w = []" for w t k sel
    proof
      assume sel: "selected sel [] k (report_view w t k)"
      then obtain rep where rep: "report_view w t k = Some rep" unfolding selected_def by blast
      show False using empty report_view_Some [OF rep] rep sel by (auto simp: filter_empty_conv)
    qed
    show ?thesis
      unfolding report_list_law_def sample_report_client_def report_client.simps prod.inject
    proof (intro conjI allI impI; elim conjE)
      fix t sel ns metas and w w' :: "Report list" and r :: "kube_error + ObjectMeta list"
      assume "r = Ok metas" "Ok (map rep_meta (filter (\<lambda>rep. report_view w t (meta_key (rep_meta rep)) = Some rep \<and>
         selected sel ns (meta_key (rep_meta rep)) (Some rep)) w)) = r"
      then show "set metas = {rep_meta rep |rep k. report_view w t k = Some rep \<and> selected sel ns k (report_view w t k)}"
        unfolding set [symmetric] by simp
    next
      fix t sel k and w w' :: "Report list" and r :: "list_error + nat"
      assume "r = Ok 0 \<or> r = Err NoMatch" "Ok (length (filter (\<lambda>rep. report_view w t (meta_key (rep_meta rep)) = Some rep \<and>
         selected sel [] (meta_key (rep_meta rep)) (Some rep)) w)) = r"
      then show "\<not> selected sel [] k (report_view w t k)" by (intro none) auto
    qed simp_all
  qed
  show "report_delete_law sample_report_client report_view"
    unfolding report_delete_law_def sample_report_client_def Let_def
    by (auto simp: report_view_drop remove_at_def fun_eq_iff split: option.splits if_splits)
  show "report_delete_all_law sample_report_client report_view"
    unfolding report_delete_all_law_def sample_report_client_def Let_def
    by (auto simp: report_view_drop remove_selected_def removes_some_def fun_eq_iff split: option.splits if_splits)
qed

lemma act_all_Ok:
  assumes "\<And>x w. \<exists>w'. f x w = (Ok (), w')"
  shows "\<exists>w'. act_all f xs w = (Ok [], w')"
proof (induction xs arbitrary: w)
  case (Cons x xs)
  obtain w1 where w1: "f x w = (Ok (), w1)" using assms by blast
  then show ?case using Cons [of w1] by (auto simp: go_act_defs act_try_def)
qed (simp add: go_act_defs)

lemma sample_deletes:
  "fst (deleteReportsNotInSet sample_report_client t sel ns kept w) = Ok ()"
  "fst (deleteAllManagedReports sample_report_client t ns w) = Ok ()"
proof -
  have all: "\<exists>w'. act_all (\<lambda>m. if om_name m \<in> kept then act_ok () else deleteReport sample_report_client t m) items w = (Ok [] :: string + string list, w')" for items w
    by (rule act_all_Ok) (simp add: deleteReport_def sample_report_client_def go_act_defs split: option.split)
  have list: "rc_gvk_error sample_report_client t = None" "\<exists>items. rc_list_metadata sample_report_client t sel ns w = (Ok items, w)"
    by (simp_all add: sample_report_client_def)
  obtain items w' where run: "rc_list_metadata sample_report_client t sel ns w = (Ok items, w)"
    "act_all (\<lambda>m. if om_name m \<in> kept then act_ok () else deleteReport sample_report_client t m) items w = (Ok [] :: string + string list, w')"
    using list(2) all by metis
  show "fst (deleteReportsNotInSet sample_report_client t sel ns kept w) = Ok ()"
    using list(1) run by (simp add: deleteReportsNotInSet_def go_act_defs)
  show "fst (deleteAllManagedReports sample_report_client t ns w) = Ok ()"
    by (simp add: deleteAllManagedReports_def sample_report_client_def go_act_defs)
qed

text \<open>A pod in the namespace, a policy server that rejects every request, and a stale report.\<close>

definition sample_pod :: unstructured where
  "sample_pod = \<lparr>u_meta = (meta_named ''pod'')\<lparr>om_namespace := ''ns'', om_uid := ''u1''\<rparr>, u_apiVersion = ''v1'', u_kind = ''Pod'',
     u_group = [], u_version = ''v1'', u_object = JNull\<rparr>"

definition sample_review :: AdmissionReview_v1 where
  "sample_review = \<lparr>arev_response = Some \<lparr>aresp_uid = ''u1'', aresp_allowed = False,
     aresp_result = Some \<lparr>st_code = 403, st_message = ''denied''\<rparr>\<rparr>\<rparr>"

definition sample_scanner :: "Report list Scanner" where
  "sample_scanner =
     \<lparr>policiesClient = sample_policies_client pod_rules, policiesConfig = sample_policies_config, policiesLibrary = sample_policies_library,
      k8sClient = \<lparr>sc_get_namespace = (\<lambda>_ w. (Ok sample_namespace, w)), sc_list_namespaces = (\<lambda>_ w. (Ok [sample_namespace], w)),
        sc_each_resource = (\<lambda>gvr _ w. ((if gvr = pods_v1 then [sample_pod] else [], None), w)),
        sc_do = (\<lambda>_ _ w. (Ok (200, Ok ''body''), w)), sc_clock = (\<lambda>_. 0)\<rparr>,
      skippedNs = [], scanLibrary = \<lparr>slib_marshal = (\<lambda>_. Ok ''request''), slib_new_request = (\<lambda>_. None), slib_unmarshal = (\<lambda>_. Ok sample_review)\<rparr>,
      reportStore = NewReportStoreOfKind ReportKindOpenReport sample_report_client, disableStore = False,
      parallelNamespacesAudits = 1, parallelResourcesAudits = 1, parallelPoliciesAudits = 1, reportKind = ReportKindOpenReport\<rparr>"

definition stale_report :: Report where
  "stale_report = NewOpenReport ''run0'' (sample_pod\<lparr>u_meta := (u_meta sample_pod)\<lparr>om_uid := ''u0''\<rparr>\<rparr>)"

lemma sample_scanner_facts:
  "steady sample_scanner report_view (\<lambda>_ _. Ok sample_review)" "responds (\<lambda>_ _. Ok sample_review)"
  "writes_succeed (reportStore sample_scanner) OpenReport" "deletes_succeed (reportStore sample_scanner)"
  "steady_lists sample_scanner report_view ''ns'' (\<lambda>gvr. if gvr = pods_v1 then [sample_pod] else [])"
  "policies_of_namespace sample_scanner ''ns'' w =
     (Ok \<lparr>PoliciesByGVR = [(pods_v1, [sample_scanned pod_rules])], PolicyNum = 1, SkippedNum = 0, ErroredNum = 0\<rparr>, w)"
  subgoal by (simp add: steady_def sendAdmissionReviewToPolicyServer_def sample_scanner_def go_act_defs)
  subgoal by (simp add: responds_def sample_review_def)
  subgoal by (simp add: writes_succeed_def sample_scanner_def NewReportStoreOfKind_def OpenReportStore_def OpenReportStore_CreateOrPatchReport_def
      create_or_patch_def sample_report_client_def go_act_defs Let_def)
  subgoal using sample_deletes by (simp add: deletes_succeed_def sample_scanner_def NewReportStoreOfKind_def OpenReportStore_def)
  subgoal by (simp add: steady_lists_def sample_scanner_def)
  subgoal by (simp add: policies_of_namespace_def k8s_GetNamespace_def sample_scanner_def sample_gather go_act_defs)
  done

lemma sample_scan_setup:
  "reportStore sample_scanner = NewReportStoreOfKind (reportKind sample_scanner) sample_report_client" "\<not> disableStore sample_scanner"
  "report_type_of (reportKind sample_scanner) = OpenReport" "1 \<le> parallelResourcesAudits sample_scanner" "1 \<le> parallelPoliciesAudits sample_scanner"
  by (simp_all add: sample_scanner_def report_type_of_def)


theorem scan_always_ends_witness:
  "\<exists>out. ScanNamespace sample_scanner ''ns'' ''run1'' [stale_report] out"
  using scan_always_ends [OF sample_scan_setup(4,5)] by blast

text \<open>
  When the pods cannot be listed, the report of a pod that still exists is deleted as stale, and
  the scan returns no error.
\<close>

definition unlisted_scanner :: "Report list Scanner" where
  "unlisted_scanner = sample_scanner\<lparr>k8sClient := (k8sClient sample_scanner)
     \<lparr>sc_each_resource := (\<lambda>_ _ w. (([], Some Conflict), w))\<rparr>\<rparr>"

theorem failed_listing_drops_reports:
  "\<exists>w'. ScanNamespace unlisted_scanner ''ns'' ''run1'' [NewOpenReport ''run0'' sample_pod] (Returned (Ok ()), w') \<and>
     report_view [NewOpenReport ''run0'' sample_pod] OpenReport (''ns'', ''u1'') \<noteq> None \<and>
     report_view w' OpenReport (''ns'', ''u1'') = None"
proof -
  let ?w = "[NewOpenReport ''run0'' sample_pod]"
  let ?P = "\<lparr>PoliciesByGVR = [(pods_v1, [sample_scanned pod_rules])], PolicyNum = 1, SkippedNum = 0, ErroredNum = 0\<rparr>"
  have P: "policies_of_namespace unlisted_scanner ''ns'' ?w = (Ok ?P, ?w)"
    using sample_scanner_facts(6) by (simp add: policies_of_namespace_def k8s_GetNamespace_def unlisted_scanner_def go_act_defs)
  have "scan_step unlisted_scanner ''ns'' (namespace_worker unlisted_scanner ''run1'' ?P) (scan_start ?P ?w) (scan_end {} ?w)"
    using list_resources [of unlisted_scanner pods_v1 "''ns''" ?w "[]" "Some Conflict" ?w] by (simp add: unlisted_scanner_def scan_start_def scan_end_def)
  then have run: "ScanNamespace unlisted_scanner ''ns'' ''run1'' ?w
      (Returned (Ok ()), deleteStaleNamespaceReports unlisted_scanner ''ns'' {} ?w)"
    by (intro namespace_scanned [OF P]) auto
  have "deleteStaleNamespaceReports unlisted_scanner ''ns'' {} ?w =
      snd (deleteReportsNotInSet sample_report_client OpenReport managedByKubewardenSelector ''ns'' {} ?w)"
    by (simp add: deleteStaleNamespaceReports_def logged_def unlisted_scanner_def sample_scanner_def NewReportStoreOfKind_def OpenReportStore_def)
  moreover obtain w' where "deleteReportsNotInSet sample_report_client OpenReport managedByKubewardenSelector ''ns'' {} ?w = (Ok (), w')"
    using sample_deletes(1) by (metis prod.collapse)
  moreover from this have "report_view w' = remove_selected OpenReport managedByKubewardenSelector ''ns'' (\<lambda>n. n \<in> {}) (report_view ?w)"
    using deleteReportsNotInSet_wp [OF sample_report_laws, of OpenReport managedByKubewardenSelector "''ns''" "{}" ?w] by (simp add: wp_def)
  ultimately have "report_view (deleteStaleNamespaceReports unlisted_scanner ''ns'' {} ?w) =
      remove_selected OpenReport managedByKubewardenSelector ''ns'' (\<lambda>n. n \<in> {}) (report_view ?w)" by simp
  moreover have "selected managedByKubewardenSelector ''ns'' (''ns'', ''u1'') (report_view ?w OpenReport (''ns'', ''u1''))"
    by (simp add: selected_def report_view_def NewOpenReport_def getReportObjectMeta_def managedByKubewardenSelector_def sample_pod_def meta_named_def)
  ultimately show ?thesis using run
    by (intro exI [of _ "deleteStaleNamespaceReports unlisted_scanner ''ns'' {} ?w"] conjI) (auto simp: remove_selected_def selected_def)
qed

end
