(* ===== verification/Certificates.thy ===== *)
theory Certificates
  imports Policy_Reconciler
begin

text \<open>
  Certificates of the controller: generation and verification (\<^verbatim>\<open>internal/certs/certs.go\<close>),
  and the preparation of the certificate secrets and of the webhook configurations of the
  controller (\<^verbatim>\<open>internal/bootstrap/bootstrap.go\<close>).  The packages \<^verbatim>\<open>crypto/x509\<close>,
  \<^verbatim>\<open>encoding/pem\<close>, \<^verbatim>\<open>crypto/rand\<close> and the API client are the fields of records; parsed
  certificates and private keys are type parameters.
\<close>

section \<open>Libraries\<close>

datatype KeyUsage = KeyUsageKeyEncipherment | KeyUsageDigitalSignature | KeyUsageCertSign
datatype ExtKeyUsage = ExtKeyUsageClientAuth | ExtKeyUsageServerAuth

record x509_Certificate =
  x_SerialNumber :: nat
  x_CommonName :: string
  x_DNSNames :: "string list"
  x_NotBefore :: nat
  x_NotAfter :: nat
  x_IsCA :: bool
  x_ExtKeyUsage :: "ExtKeyUsage list"
  x_KeyUsage :: "KeyUsage list"
  x_BasicConstraintsValid :: bool

record pem_Block =
  pem_Type :: string
  pem_Bytes :: string

text \<open>
  A certificate is created from a template and a parent, which is a template or a parsed
  certificate, with the key of the subject and the key of the signer.  Times are in seconds.
\<close>

record ('c, 'k, 'w) x509_library =
  xl_now :: "'w \<Rightarrow> nat"
  xl_rand_Int :: "nat \<Rightarrow> ('w, string, nat) action"
  xl_GenerateKey :: "('w, string, 'k) action"
  xl_CreateCertificate :: "x509_Certificate \<Rightarrow> x509_Certificate + 'c \<Rightarrow> 'k \<Rightarrow> 'k \<Rightarrow> ('w, string, string) action"
  xl_ParseCertificate :: "string \<Rightarrow> string + 'c"
  xl_ParseECPrivateKey :: "string \<Rightarrow> string + 'k"
  xl_MarshalECPrivateKey :: "'k \<Rightarrow> string + string"
  xl_pem_Decode :: "string \<Rightarrow> pem_Block option \<times> string"
  xl_pem_Encode :: "pem_Block \<Rightarrow> string + string"
  xl_X509KeyPair :: "string \<Rightarrow> string \<Rightarrow> string option"
  xl_Verify :: "'c \<Rightarrow> 'c list \<Rightarrow> string \<Rightarrow> nat \<Rightarrow> string option"
  xl_retry_steps :: nat

section \<open>Generation\<close>

definition pemEncodeCertificate :: "('c, 'k, 'w) x509_library \<Rightarrow> string \<Rightarrow> string + string" where
  "pemEncodeCertificate L certificate =
     map_err (\<lambda>e. ''PEM encode failure: '' @ e)
       (xl_pem_Encode L \<lparr>pem_Type = ''CERTIFICATE'', pem_Bytes = certificate\<rparr>)"

definition pemEncodePrivateKey :: "('c, 'k, 'w) x509_library \<Rightarrow> 'k \<Rightarrow> string + string" where
  "pemEncodePrivateKey L privateKey =
     try_then (map_err (\<lambda>e. ''cannot marshalprivate key: '' @ e) (xl_MarshalECPrivateKey L privateKey))
       (\<lambda>privateKeyBytes. map_err (\<lambda>e. ''PEM encode failure: '' @ e)
          (xl_pem_Encode L \<lparr>pem_Type = ''EC PRIVATE KEY'', pem_Bytes = privateKeyBytes\<rparr>))"

definition GenerateCA :: "('c, 'k, 'w) x509_library \<Rightarrow> nat \<Rightarrow> nat \<Rightarrow> ('w, string, string \<times> string) action" where
  "GenerateCA L notBefore notAfter =
     act_then (act_map_err (\<lambda>e. ''cannot init serial number: '' @ e) (xl_rand_Int L (2 ^ 128))) (\<lambda>serialNumber.
     act_then (act_map_err (\<lambda>e. ''cannot create private key: '' @ e) (xl_GenerateKey L)) (\<lambda>privateKey.
     let caCert =
       \<lparr>x_SerialNumber = serialNumber, x_CommonName = ''kubewarden-controller-ca'', x_DNSNames = [],
        x_NotBefore = notBefore, x_NotAfter = notAfter, x_IsCA = True,
        x_ExtKeyUsage = [ExtKeyUsageClientAuth, ExtKeyUsageServerAuth],
        x_KeyUsage = [KeyUsageKeyEncipherment, KeyUsageDigitalSignature, KeyUsageCertSign],
        x_BasicConstraintsValid = True\<rparr> in
     act_then (act_map_err (\<lambda>e. ''cannot create certificate: '' @ e)
       (xl_CreateCertificate L caCert (Inl caCert) privateKey privateKey)) (\<lambda>caCertBytes.
     act_then (act_pure (map_err (\<lambda>e. ''cannot encode certificate: '' @ e) (pemEncodeCertificate L caCertBytes))) (\<lambda>caCertPEM.
     act_then (act_pure (map_err (\<lambda>e. ''cannot encode private key: '' @ e) (pemEncodePrivateKey L privateKey))) (\<lambda>privateKeyPEM.
       act_ok (caCertPEM, privateKeyPEM))))))"

text \<open>The first block of a PEM text, parsed.\<close>

definition decode_first ::
  "('c, 'k, 'w) x509_library \<Rightarrow> string \<Rightarrow> (string \<Rightarrow> string + 'a) \<Rightarrow> string \<Rightarrow> string \<Rightarrow> string + 'a" where
  "decode_first L pem parse not_decoded not_parsed =
     (case fst (xl_pem_Decode L pem) of
        None \<Rightarrow> Err not_decoded
      | Some block \<Rightarrow> map_err (\<lambda>e. not_parsed @ e) (parse (pem_Bytes block)))"

definition GenerateCert ::
  "('c, 'k, 'w) x509_library \<Rightarrow> string \<Rightarrow> string \<Rightarrow> nat \<Rightarrow> nat \<Rightarrow> string \<Rightarrow> ('w, string, string \<times> string) action" where
  "GenerateCert L caCertPEM caPrivateKeyPEM notBefore notAfter dnsName =
     act_then (act_pure (decode_first L caCertPEM (xl_ParseCertificate L)
       ''failed to decode ca root certificate PEM'' ''error parsing ca root certificate: '')) (\<lambda>caCert.
     act_then (act_pure (decode_first L caPrivateKeyPEM (xl_ParseECPrivateKey L)
       ''failed to decode ca root private key PEM'' ''error parsing ca root private key: '')) (\<lambda>caPrivateKey.
     act_then (act_map_err (\<lambda>e. ''cannot generate serialNumber for certificate: '' @ e) (xl_rand_Int L (2 ^ 128))) (\<lambda>serialNumber.
     act_then (act_map_err (\<lambda>e. ''cannot create private key: '' @ e) (xl_GenerateKey L)) (\<lambda>privateKey.
     let cert =
       \<lparr>x_SerialNumber = serialNumber, x_CommonName = dnsName, x_DNSNames = [dnsName],
        x_NotBefore = notBefore, x_NotAfter = notAfter, x_IsCA = False,
        x_ExtKeyUsage = [ExtKeyUsageClientAuth, ExtKeyUsageServerAuth],
        x_KeyUsage = [KeyUsageKeyEncipherment, KeyUsageDigitalSignature],
        x_BasicConstraintsValid = False\<rparr> in
     act_then (act_map_err (\<lambda>e. ''cannot create certificate: '' @ e)
       (xl_CreateCertificate L cert (Inr caCert) privateKey caPrivateKey)) (\<lambda>certBytes.
     act_then (act_pure (map_err (\<lambda>e. ''cannot encode certificate: '' @ e) (pemEncodeCertificate L certBytes))) (\<lambda>certPEM.
     act_then (act_pure (map_err (\<lambda>e. ''cannot encode private key: '' @ e) (pemEncodePrivateKey L privateKey))) (\<lambda>privateKeyPEM.
       act_ok (certPEM, privateKeyPEM))))))))"

section \<open>Verification\<close>

text \<open>
  The loop over the blocks of a PEM text.  Every block is taken off the text, so that its length
  bounds the number of turns.
\<close>

fun cert_pool_loop :: "('c, 'k, 'w) x509_library \<Rightarrow> nat \<Rightarrow> string \<Rightarrow> string + 'c list" where
  "cert_pool_loop L 0 certPEM = Ok []"
| "cert_pool_loop L (Suc n) certPEM =
     (case xl_pem_Decode L certPEM of
        (None, _) \<Rightarrow> Ok []
      | (Some block, rest) \<Rightarrow>
          (case xl_ParseCertificate L (pem_Bytes block) of
             Inl err \<Rightarrow> Err (''error parsing certificate: '' @ err)
           | Inr cert \<Rightarrow> map_ok (\<lambda>pool. cert # pool) (cert_pool_loop L n rest)))"

definition NewCertPool :: "('c, 'k, 'w) x509_library \<Rightarrow> string \<Rightarrow> string + 'c list" where
  "NewCertPool L certPEM = cert_pool_loop L (Suc (length certPEM)) certPEM"

definition check_private_key :: "('c, 'k, 'w) x509_library \<Rightarrow> string \<Rightarrow> string option \<Rightarrow> string + unit" where
  "check_private_key L certPEM privateKeyPEM =
     (case privateKeyPEM of
        None \<Rightarrow> Ok ()
      | Some keyPEM \<Rightarrow>
          (case fst (xl_pem_Decode L keyPEM) of
             None \<Rightarrow> Err ''failed to decode private key PEM''
           | Some block \<Rightarrow>
               if pem_Type block \<noteq> ''EC PRIVATE KEY'' then
                 Err (''private key has invalid PEM header, expected '' @ [CHR 39] @ ''EC PRIVATE KEY'' @ [CHR 39])
               else (case xl_X509KeyPair L certPEM keyPEM of
                       Some err \<Rightarrow> Err (''key pair is invalid: '' @ err)
                     | None \<Rightarrow> Ok ())))"

definition VerifyCert ::
  "('c, 'k, 'w) x509_library \<Rightarrow> string \<Rightarrow> string option \<Rightarrow> 'c list \<Rightarrow> string \<Rightarrow> nat \<Rightarrow> string + unit" where
  "VerifyCert L certPEM privateKeyPEM certPool dnsName at =
     try_then (decode_first L certPEM (xl_ParseCertificate L)
       ''failed to decode certificate PEM'' ''error parsing certificate: '') (\<lambda>cert.
     try_then (check_private_key L certPEM privateKeyPEM) (\<lambda>_.
       case xl_Verify L cert certPool dnsName at of
         Some err \<Rightarrow> Err (''the certificate is invalid: '' @ err)
       | None \<Rightarrow> Ok ()))"

definition VerifyCA :: "('c, 'k, 'w) x509_library \<Rightarrow> string \<Rightarrow> string option \<Rightarrow> nat \<Rightarrow> string + unit" where
  "VerifyCA L caCertPEM caPrivateKeyPEM at =
     try_then (map_err (\<lambda>e. ''failed to create cert pool: '' @ e) (NewCertPool L caCertPEM)) (\<lambda>pool.
       map_err (\<lambda>e. ''failed to verify CA certificate: '' @ e) (VerifyCert L caCertPEM caPrivateKeyPEM pool [] at))"

definition DNSName :: "string \<Rightarrow> string \<Rightarrow> string" where
  "DNSName serviceName namespace = serviceName @ ''.'' @ namespace @ ''.svc''"

section \<open>The loop ends\<close>

definition pem_consumes :: "('c, 'k, 'w) x509_library \<Rightarrow> bool" where
  "pem_consumes L \<longleftrightarrow> (\<forall>pem block rest. xl_pem_Decode L pem = (Some block, rest) \<longrightarrow> length rest < length pem)"

lemma cert_pool_loop_more:
  assumes "pem_consumes L"
  shows "length certPEM < n \<Longrightarrow> length certPEM < m \<Longrightarrow> cert_pool_loop L n certPEM = cert_pool_loop L m certPEM"
proof (induction n arbitrary: m certPEM)
  case (Suc n)
  then obtain m' where m: "m = Suc m'" by (cases m) auto
  have "cert_pool_loop L n rest = cert_pool_loop L m' rest" if "xl_pem_Decode L certPEM = (Some block, rest)" for block rest
  proof (rule Suc.IH)
    have "length rest < length certPEM" using assms that unfolding pem_consumes_def by blast
    then show "length rest < n" "length rest < m'" using Suc.prems m by simp_all
  qed
  then show ?case unfolding m by (simp split: prod.split option.split sum.split)
qed simp

text \<open>The pool is what the loop of the code computes, turn by turn.\<close>

lemma NewCertPool_unfold:
  assumes "pem_consumes L"
  shows "NewCertPool L certPEM =
    (case xl_pem_Decode L certPEM of
       (None, _) \<Rightarrow> Ok []
     | (Some block, rest) \<Rightarrow>
         (case xl_ParseCertificate L (pem_Bytes block) of
            Inl err \<Rightarrow> Err (''error parsing certificate: '' @ err)
          | Inr cert \<Rightarrow> map_ok (\<lambda>pool. cert # pool) (NewCertPool L rest)))"
proof -
  have "cert_pool_loop L (length certPEM) rest = cert_pool_loop L (Suc (length rest)) rest"
    if "xl_pem_Decode L certPEM = (Some block, rest)" for block rest
  proof (rule cert_pool_loop_more [OF assms])
    show "length rest < length certPEM" using assms that unfolding pem_consumes_def by blast
  qed simp
  then show ?thesis by (simp add: NewCertPool_def split: prod.split option.split sum.split)
qed

section \<open>The API server\<close>

text \<open>
  The calls for secrets and webhook configurations.  A patch has an optimistic lock: it takes the
  version of the object that was read.  Creating and updating answer with the stored object.
\<close>

datatype create_error = AlreadyExists | CreateFailed string

fun create_error_text :: "create_error \<Rightarrow> string" where
  "create_error_text AlreadyExists = ''already exists''"
| "create_error_text (CreateFailed e) = e"

record 'w cert_client =
  cc_get_secret :: "string \<Rightarrow> string \<Rightarrow> ('w, Secret) call"
  cc_create_secret :: "Secret \<Rightarrow> ('w, create_error, Secret) action"
  cc_update_secret :: "Secret \<Rightarrow> ('w, Secret) call"
  cc_create_or_patch_secret :: "Secret \<Rightarrow> (Secret \<Rightarrow> ('w, string, Secret) action) \<Rightarrow> ('w, string, unit) action"
  cc_list_secrets :: "string \<Rightarrow> (string \<times> string) list \<Rightarrow> ('w, Secret list) call"
  cc_list_webhooks :: "webhook_kind \<Rightarrow> (string \<times> string) list \<Rightarrow> ('w, WebhookConfiguration list) call"
  cc_patch_webhook :: "webhook_kind \<Rightarrow> WebhookConfiguration \<Rightarrow> WebhookConfiguration \<Rightarrow> ('w, unit) call"
  cc_create_or_update_webhook ::
    "webhook_kind \<Rightarrow> WebhookConfiguration \<Rightarrow> (WebhookConfiguration \<Rightarrow> WebhookConfiguration) \<Rightarrow> ('w, unit) call"
  cc_manifests :: "string + WebhookConfiguration \<times> WebhookConfiguration"
  cc_poll_key_pair :: "string \<Rightarrow> string \<Rightarrow> nat \<Rightarrow> ('w, string, unit) action"

definition CACertExpiration :: nat where "CACertExpiration = 10 * 365 * 24 * 3600"
definition ServerCertExpiration :: nat where "ServerCertExpiration = 365 * 24 * 3600"
definition CertLookahead :: nat where "CertLookahead = 60 * 24 * 3600"

definition WebhookServerCertSecretName :: string where "WebhookServerCertSecretName = ''kubewarden-webhook-server-cert''"
definition AuditScannerClientCertSecretName :: string where
  "AuditScannerClientCertSecretName = ''kubewarden-audit-scanner-client-cert''"
definition AuditScannerClientCertCommonName :: string where "AuditScannerClientCertCommonName = ''audit-scanner-client''"

section \<open>Preparation of the controller\<close>

definition controllerLabels :: "(string \<times> string) list" where
  "controllerLabels = [(PartOfLabelKey, PartOfLabelValue), (ComponentLabelKey, ''controller'')]"

definition withControllerLabels :: "(string \<times> string) list \<Rightarrow> (string \<times> string) list" where
  "withControllerLabels labels = map_put_all labels controllerLabels"

definition quoted :: "string \<Rightarrow> string" where
  "quoted s = [CHR 34] @ s @ [CHR 34]"

definition ensureSecret ::
  "'w cert_client \<Rightarrow> string \<Rightarrow> string \<Rightarrow> ('w, string, (string \<times> string) list) action \<Rightarrow> ('w, string, Secret) action" where
  "ensureSecret c namespace name newData =
     act_case (cc_get_secret c namespace name)
       (\<lambda>err. if err \<noteq> NotFound then act_err (wrap_err (''failed to get secret '' @ quoted name) err)
         else
           act_then newData (\<lambda>data.
             act_case (cc_create_secret c
                 \<lparr>sec_meta = (meta_named name)\<lparr>om_namespace := namespace, om_labels := controllerLabels\<rparr>, sec_data = data\<rparr>)
               (\<lambda>err. if err \<noteq> AlreadyExists
                  then act_err (''failed to create secret '' @ quoted name @ '': '' @ create_error_text err)
                  else act_map_err (wrap_err (''failed to get secret '' @ quoted name)) (cc_get_secret c namespace name))
               act_ok))
       act_ok"

definition EnsureCARootSecret :: "('c, 'k, 'w) x509_library \<Rightarrow> 'w cert_client \<Rightarrow> string \<Rightarrow> ('w, string, Secret) action" where
  "EnsureCARootSecret L c namespace =
     ensureSecret c namespace CARootSecretName
       (act_then (act_map_err (\<lambda>e. ''failed to generate the CA root: '' @ e)
            (act_read (\<lambda>w. GenerateCA L (xl_now L w) (xl_now L w + CACertExpiration))))
          (\<lambda>(caCert, caPrivateKey). act_ok [(CARootCert, caCert), (CARootPrivateKey, caPrivateKey)]))"

definition newCertData ::
  "('c, 'k, 'w) x509_library \<Rightarrow> string \<Rightarrow> string \<Rightarrow> string \<Rightarrow> ('w, string, (string \<times> string) list) action" where
  "newCertData L caCert caPrivateKey name =
     act_then (act_map_err (\<lambda>e. ''failed to generate the certificate of '' @ quoted name @ '': '' @ e)
          (act_read (\<lambda>w. GenerateCert L caCert caPrivateKey (xl_now L w) (xl_now L w + ServerCertExpiration) name)))
        (\<lambda>(cert, privateKey). act_ok [(ServerCert, cert), (ServerPrivateKey, privateKey)])"

definition EnsureSignedCertificateSecrets ::
  "('c, 'k, 'w) x509_library \<Rightarrow> 'w cert_client \<Rightarrow> string \<Rightarrow> string \<Rightarrow> Secret \<Rightarrow> ('w, string, unit) action" where
  "EnsureSignedCertificateSecrets L c namespace webhookServiceName caRootSecret =
     act_then (act_pure (map_err (\<lambda>e. ''failed to extract the CA root from secret '' @ quoted CARootSecretName @ '': '' @ e)
          (ExtractCARootFromSecret caRootSecret))) (\<lambda>(caCert, caPrivateKey).
     act_then (ensureSecret c namespace WebhookServerCertSecretName
          (newCertData L caCert caPrivateKey (DNSName webhookServiceName namespace))) (\<lambda>_.
     act_then (ensureSecret c namespace AuditScannerClientCertSecretName
          (newCertData L caCert caPrivateKey AuditScannerClientCertCommonName)) (\<lambda>_.
       act_ok ())))"

definition EnsureCertificateSecrets ::
  "('c, 'k, 'w) x509_library \<Rightarrow> 'w cert_client \<Rightarrow> string \<Rightarrow> string \<Rightarrow> ('w, string, Secret) action" where
  "EnsureCertificateSecrets L c namespace webhookServiceName =
     act_then (EnsureCARootSecret L c namespace) (\<lambda>caRootSecret.
     act_then (EnsureSignedCertificateSecrets L c namespace webhookServiceName caRootSecret) (\<lambda>_.
       act_ok caRootSecret))"

definition setClientConfig :: "string \<Rightarrow> string \<Rightarrow> string \<Rightarrow> string \<Rightarrow> Webhook \<Rightarrow> Webhook" where
  "setClientConfig namespace webhookServiceName liveCABundle caBundle webhook =
     webhook\<lparr>wh_service := (wh_service webhook)\<lparr>svcref_namespace := namespace, svcref_name := webhookServiceName\<rparr>,
             wh_caBundle := (if liveCABundle \<noteq> [] then liveCABundle else caBundle)\<rparr>"

text \<open>The bundles that are in use, by the names of the webhooks; the last of a name counts.\<close>

definition live_bundles :: "Webhook list \<Rightarrow> (string \<times> string) list" where
  "live_bundles webhooks = foldl (\<lambda>m wh. map_put m (wh_name wh) (wh_caBundle wh)) [] webhooks"

definition controller_webhooks ::
  "string \<Rightarrow> string \<Rightarrow> string \<Rightarrow> WebhookConfiguration \<Rightarrow> WebhookConfiguration \<Rightarrow> WebhookConfiguration" where
  "controller_webhooks namespace webhookServiceName caBundle template live =
     (let liveCABundles = live_bundles (wc_webhooks live) in
      live\<lparr>wc_meta := (wc_meta live)\<lparr>om_labels := withControllerLabels (om_labels (wc_meta live))\<rparr>,
           wc_webhooks := map (\<lambda>wh. setClientConfig namespace webhookServiceName (map_str liveCABundles (wh_name wh)) caBundle wh)
             (wc_webhooks template)\<rparr>)"

definition ControllerValidatingWebhookConfigurationName :: string where
  "ControllerValidatingWebhookConfigurationName = ''kubewarden-controller-validating-webhook-configuration''"
definition ControllerMutatingWebhookConfigurationName :: string where
  "ControllerMutatingWebhookConfigurationName = ''kubewarden-controller-mutating-webhook-configuration''"

definition ensureControllerWebhookConfigurations ::
  "'w cert_client \<Rightarrow> string \<Rightarrow> string \<Rightarrow> Secret \<Rightarrow> ('w, string, unit) action" where
  "ensureControllerWebhookConfigurations c namespace webhookServiceName caRootSecret =
     act_then (act_pure (cc_manifests c)) (\<lambda>(validatingTemplate, mutatingTemplate).
     let caBundle = CABundleFromSecret caRootSecret;
         fresh = (\<lambda>name. \<lparr>wc_meta = meta_named name, wc_webhooks = []\<rparr>) in
     act_then (act_map_err (wrap_err (''failed to create or update the validating webhook configuration '' @
                  quoted ControllerValidatingWebhookConfigurationName))
       (cc_create_or_update_webhook c Validating (fresh ControllerValidatingWebhookConfigurationName)
          (controller_webhooks namespace webhookServiceName caBundle validatingTemplate))) (\<lambda>_.
     act_map_err (wrap_err (''failed to create or update the mutating webhook configuration '' @
                  quoted ControllerMutatingWebhookConfigurationName))
       (cc_create_or_update_webhook c Mutating (fresh ControllerMutatingWebhookConfigurationName)
          (controller_webhooks namespace webhookServiceName caBundle mutatingTemplate))))"

definition waitForCertificateFiles :: "'w cert_client \<Rightarrow> string \<Rightarrow> nat \<Rightarrow> ('w, string, unit) action" where
  "waitForCertificateFiles c directory timeout =
     act_map_err (\<lambda>e. ''the certificate of the webhook server is not in '' @ directory @ '' after '' @ show_nat timeout @ '': '' @ e)
       (cc_poll_key_pair c (filepath_Join [directory, ServerCert]) (filepath_Join [directory, ServerPrivateKey]) timeout)"

record Options =
  opt_DeploymentsNamespace :: string
  opt_WebhookServiceName :: string
  opt_CertificateDirectory :: string
  opt_CertificateFilesTimeout :: nat

definition bootstrap_Run :: "('c, 'k, 'w) x509_library \<Rightarrow> 'w cert_client \<Rightarrow> Options \<Rightarrow> ('w, string, unit) action" where
  "bootstrap_Run L c opts =
     (if opt_DeploymentsNamespace opts = [] then act_err ''the deployments namespace must be provided''
      else if opt_WebhookServiceName opts = [] then act_err ''the webhook service name must be provided''
      else if opt_CertificateDirectory opts = [] then act_err ''the certificate directory must be provided''
      else
        act_then (act_map_err (\<lambda>e. ''failed to prepare the certificate secrets: '' @ e)
          (EnsureCertificateSecrets L c (opt_DeploymentsNamespace opts) (opt_WebhookServiceName opts))) (\<lambda>caRootSecret.
        act_then (act_map_err (\<lambda>e. ''failed to prepare the webhook configurations of the controller: '' @ e)
          (ensureControllerWebhookConfigurations c (opt_DeploymentsNamespace opts) (opt_WebhookServiceName opts) caRootSecret)) (\<lambda>_.
        act_map_err (\<lambda>e. ''failed to wait for the certificate of the webhook server: '' @ e)
          (waitForCertificateFiles c (opt_CertificateDirectory opts) (opt_CertificateFilesTimeout opts)))))"

end
