(* ===== verification/Cert_Controller.thy ===== *)
theory Cert_Controller
  imports Certificates
begin

text \<open>
  The controller of the certificates (\<^verbatim>\<open>internal/controller/cert_controller.go\<close>): one pass renews
  the CA root, writes its bundle into the webhook configurations and renews the certificates of
  the servers and of the audit scanner.  The secret of the CA root, which the code changes in
  place, is passed on as a value.  Also the certificate of a policy server
  (\<^verbatim>\<open>policyserver_controller_cert_secret.go\<close>) and the events that start a pass.
\<close>

record CertReconciler =
  cr_DeploymentsNamespace :: string
  cr_WebhookServiceName :: string

section \<open>Updating a secret\<close>

text \<open>
  An error with its reason.  \<^verbatim>\<open>RetryOnConflict\<close> runs the function again, as often as the
  backoff says, while the reason is a conflict.
\<close>

type_synonym api_failure = "kube_error \<times> string"

fun RetryOnConflict :: "nat \<Rightarrow> ('w, api_failure, 'a) action \<Rightarrow> ('w, api_failure, 'a) action" where
  "RetryOnConflict 0 m = m"
| "RetryOnConflict (Suc n) m = act_case m (\<lambda>e. if fst e = Conflict then RetryOnConflict n m else act_err e) act_ok"

definition updateSecretWithRetry ::
  "('c, 'k, 'w) x509_library \<Rightarrow> 'w cert_client \<Rightarrow> Secret \<Rightarrow> ((string \<times> string) list \<Rightarrow> (string \<times> string) list) \<Rightarrow> ('w, string, Secret) action" where
  "updateSecretWithRetry L c secret mutate =
     act_map_err (\<lambda>e. ''failed to update secret '' @ quoted (om_namespace (sec_meta secret) @ ''/'' @ om_name (sec_meta secret)) @ '': '' @ snd e)
       (RetryOnConflict (xl_retry_steps L)
          (act_then (act_map_err (\<lambda>e. (e, wrap_err ''failed to get secret'' e))
                (cc_get_secret c (om_namespace (sec_meta secret)) (om_name (sec_meta secret)))) (\<lambda>fresh.
             act_map_err (\<lambda>e. (e, kube_error_text e)) (cc_update_secret c (fresh\<lparr>sec_data := mutate (sec_data fresh)\<rparr>)))))"

section \<open>The CA root\<close>

definition reconcileCARoot :: "('c, 'k, 'w) x509_library \<Rightarrow> 'w cert_client \<Rightarrow> Secret \<Rightarrow> ('w, string, Secret) action" where
  "reconcileCARoot L c caRootSecret =
     act_then (act_pure (map_err (\<lambda>e. ''failed to extract CA root from secret: '' @ e) (ExtractCARootFromSecret caRootSecret)))
       (\<lambda>(oldCACert, caPrivateKey).
        act_read (\<lambda>w.
          case VerifyCA L oldCACert (Some caPrivateKey) (xl_now L w + CertLookahead) of
            Inr _ \<Rightarrow> act_ok caRootSecret
          | Inl _ \<Rightarrow>
              act_then (act_map_err (\<lambda>e. ''failed to generate CA cert: '' @ e)
                  (GenerateCA L (xl_now L w) (xl_now L w + CACertExpiration))) (\<lambda>(caCert, caPrivateKey).
                act_map_err (\<lambda>e. ''failed to update CA root secret: '' @ e)
                  (updateSecretWithRetry L c caRootSecret (\<lambda>data.
                     map_put (map_put (map_put data CARootCert caCert) CARootPrivateKey caPrivateKey) OldCARootCert oldCACert)))))"

definition reconcileOldCARoot :: "('c, 'k, 'w) x509_library \<Rightarrow> 'w cert_client \<Rightarrow> Secret \<Rightarrow> ('w, string, Secret) action" where
  "reconcileOldCARoot L c caRootSecret =
     (case map_of (sec_data caRootSecret) OldCARootCert of
        None \<Rightarrow> act_ok caRootSecret
      | Some oldCACert \<Rightarrow>
          act_read (\<lambda>w.
            case VerifyCA L oldCACert None (xl_now L w) of
              Inr _ \<Rightarrow> act_ok caRootSecret
            | Inl _ \<Rightarrow>
                act_map_err (\<lambda>e. ''failed to update CA root secret: '' @ e)
                  (updateSecretWithRetry L c caRootSecret (\<lambda>data. map_delete data OldCARootCert))))"

section \<open>The bundle in the webhook configurations\<close>

definition kind_text :: "webhook_kind \<Rightarrow> string" where
  "kind_text kind = (case kind of Validating \<Rightarrow> ''ValidatingWebhookConfiguration'' | Mutating \<Rightarrow> ''MutatingWebhookConfiguration'')"

definition set_bundles :: "string \<Rightarrow> WebhookConfiguration \<Rightarrow> WebhookConfiguration" where
  "set_bundles caBundle wc = wc\<lparr>wc_webhooks := map (\<lambda>wh. wh\<lparr>wh_caBundle := caBundle\<rparr>) (wc_webhooks wc)\<rparr>"

definition injectCABundle ::
  "'w cert_client \<Rightarrow> webhook_kind \<Rightarrow> WebhookConfiguration \<Rightarrow> string \<Rightarrow> ('w, api_failure, unit) action" where
  "injectCABundle c kind webhookConfiguration caBundle =
     (if \<forall>wh\<in>set (wc_webhooks webhookConfiguration). wh_caBundle wh = caBundle then act_ok ()
      else
        act_map_err (\<lambda>e. (e, wrap_err (''cannot patch the CA bundle of '' @ kind_text kind @ '' '' @
                            quoted (om_name (wc_meta webhookConfiguration))) e))
          (cc_patch_webhook c kind webhookConfiguration (set_bundles caBundle webhookConfiguration)))"

fun inject_all :: "'w cert_client \<Rightarrow> string \<Rightarrow> (webhook_kind \<times> WebhookConfiguration) list \<Rightarrow> ('w, string, unit) action" where
  "inject_all c caBundle [] = act_ok ()"
| "inject_all c caBundle ((kind, wc) # rest) =
     act_case (injectCABundle c kind wc caBundle)
       (\<lambda>err. if fst err = NotFound then inject_all c caBundle rest else act_err (snd err))
       (\<lambda>_. inject_all c caBundle rest)"

definition kubewardenLabels :: "(string \<times> string) list" where
  "kubewardenLabels = [(PartOfLabelKey, PartOfLabelValue)]"

definition reconcileCABundles :: "'w cert_client \<Rightarrow> Secret \<Rightarrow> ('w, string, unit) action" where
  "reconcileCABundles c caRootSecret =
     act_then (act_map_err (wrap_err ''failed to list validating webhook configurations'')
       (cc_list_webhooks c Validating kubewardenLabels)) (\<lambda>validating.
     act_then (act_map_err (wrap_err ''failed to list mutating webhook configurations'')
       (cc_list_webhooks c Mutating kubewardenLabels)) (\<lambda>mutating.
       inject_all c (CABundleFromSecret caRootSecret) (map (Pair Validating) validating @ map (Pair Mutating) mutating)))"

section \<open>The certificates of the servers\<close>

text \<open>
  A certificate that the current CA root does not verify for the time until the lookahead is
  replaced.  The DNS name is empty for the check of a client certificate; the name on the new
  certificate and the words of the messages are arguments.
\<close>

definition rotate_cert ::
  "('c, 'k, 'w) x509_library \<Rightarrow> 'w cert_client \<Rightarrow> Secret \<Rightarrow> Secret \<Rightarrow> string \<Rightarrow> string \<Rightarrow> string \<Rightarrow> string \<Rightarrow> ('w, string, unit) action" where
  "rotate_cert L c certSecret caRootSecret checkedName name what failed =
     act_then (act_pure (map_err (\<lambda>e. ''failed to extract '' @ what @ '' cert from secret: '' @ e)
       (ExtractServerCertFromSecret certSecret))) (\<lambda>(cert, privateKey).
     act_then (act_pure (map_err (\<lambda>e. ''failed to extract CA root from secret: '' @ e)
       (ExtractCARootFromSecret caRootSecret))) (\<lambda>(caCert, caPrivateKey).
     act_then (act_pure (map_err (\<lambda>e. ''failed to create cert pool: '' @ e) (NewCertPool L caCert))) (\<lambda>pool.
     act_read (\<lambda>w.
       case VerifyCert L cert (Some privateKey) pool checkedName (xl_now L w + CertLookahead) of
         Inr _ \<Rightarrow> act_ok ()
       | Inl _ \<Rightarrow>
           act_then (act_map_err (\<lambda>e. failed @ e)
             (GenerateCert L caCert caPrivateKey (xl_now L w) (xl_now L w + ServerCertExpiration) name)) (\<lambda>(newCert, newPrivateKey).
           act_then (act_map_err (\<lambda>e. ''failed to update secret: '' @ e)
             (updateSecretWithRetry L c certSecret (\<lambda>data. map_put (map_put data ServerCert newCert) ServerPrivateKey newPrivateKey))) (\<lambda>_.
             act_ok ()))))))"

definition reconcileServerCert ::
  "('c, 'k, 'w) x509_library \<Rightarrow> 'w cert_client \<Rightarrow> CertReconciler \<Rightarrow> Secret \<Rightarrow> Secret \<Rightarrow> string \<Rightarrow> ('w, string, unit) action" where
  "reconcileServerCert L c r serverCertSecret caRootSecret serviceName =
     (let dnsName = DNSName serviceName (cr_DeploymentsNamespace r) in
      rotate_cert L c serverCertSecret caRootSecret dnsName dnsName ''server'' ''failed to generate cert: '')"

definition policyServerLabels :: "(string \<times> string) list" where
  "policyServerLabels = [(PartOfLabelKey, PartOfLabelValue), (ComponentLabelKey, ''policy-server'')]"

text \<open>Errors are collected: the ones that occurred before, and those of each secret.\<close>

fun rotate_each ::
  "('c, 'k, 'w) x509_library \<Rightarrow> 'w cert_client \<Rightarrow> CertReconciler \<Rightarrow> Secret \<Rightarrow> Secret list \<Rightarrow> string list \<Rightarrow> ('w, string, string list) action" where
  "rotate_each L c r caRootSecret [] errs = act_ok errs"
| "rotate_each L c r caRootSecret (s # ss) errs =
     act_case (reconcileServerCert L c r s caRootSecret (om_name (sec_meta s)))
       (\<lambda>e. rotate_each L c r caRootSecret ss (errs @ [''failed to rotate server cert: '' @ e]))
       (\<lambda>_. rotate_each L c r caRootSecret ss errs)"

definition errors_Join :: "string list \<Rightarrow> ('w, string, unit) action" where
  "errors_Join errs = (if errs = [] then act_ok () else act_err (join_on (CHR 10) errs))"

definition reconcileServerCerts ::
  "('c, 'k, 'w) x509_library \<Rightarrow> 'w cert_client \<Rightarrow> CertReconciler \<Rightarrow> Secret \<Rightarrow> ('w, string, unit) action" where
  "reconcileServerCerts L c r caRootSecret =
     act_then
       (act_case (cc_get_secret c (cr_DeploymentsNamespace r) WebhookServerCertSecretName)
          (\<lambda>e. act_ok [wrap_err ''failed to get webhook server cert secret'' e])
          (\<lambda>webhookServerCertSecret.
             act_case (reconcileServerCert L c r webhookServerCertSecret caRootSecret (cr_WebhookServiceName r))
               (\<lambda>e. act_ok [''failed to rotate server cert: '' @ e]) (\<lambda>_. act_ok []))) (\<lambda>errs.
     act_case (cc_list_secrets c (cr_DeploymentsNamespace r) policyServerLabels)
       (\<lambda>e. errors_Join (errs @ [wrap_err ''failed to list policy server cert secrets'' e]))
       (\<lambda>serverCertSecretList. act_then (rotate_each L c r caRootSecret serverCertSecretList errs) errors_Join))"

definition reconcileAuditScannerClientCert ::
  "('c, 'k, 'w) x509_library \<Rightarrow> 'w cert_client \<Rightarrow> CertReconciler \<Rightarrow> Secret \<Rightarrow> ('w, string, unit) action" where
  "reconcileAuditScannerClientCert L c r caRootSecret =
     act_case (cc_get_secret c (cr_DeploymentsNamespace r) AuditScannerClientCertSecretName)
       (\<lambda>e. if e = NotFound then act_ok ()
         else act_err (wrap_err ''failed to get audit scanner client cert secret'' e))
       (\<lambda>clientCertSecret.
          rotate_cert L c clientCertSecret caRootSecret [] AuditScannerClientCertCommonName ''client''
            ''failed to generate client cert: '')"

section \<open>A pass\<close>

definition reconcile_certs :: "('c, 'k, 'w) x509_library \<Rightarrow> 'w cert_client \<Rightarrow> CertReconciler \<Rightarrow> ('w, string, unit) action" where
  "reconcile_certs L c r =
     act_then (act_map_err (\<lambda>e. ''failed to make sure that the CA root secret exists: '' @ e)
       (EnsureCARootSecret L c (cr_DeploymentsNamespace r))) (\<lambda>caCertSecret.
     act_then (act_map_err (\<lambda>e. ''failed to reconcile CA root: '' @ e) (reconcileCARoot L c caCertSecret)) (\<lambda>caCertSecret.
     act_then (act_map_err (\<lambda>e. ''failed to reconcile old CA root: '' @ e) (reconcileOldCARoot L c caCertSecret)) (\<lambda>caCertSecret.
     act_then (act_map_err (\<lambda>e. ''failed to reconcile the CA bundle of the webhook configurations: '' @ e)
       (reconcileCABundles c caCertSecret)) (\<lambda>_.
     act_then (act_map_err (\<lambda>e. ''failed to make sure that the certificate secrets exist: '' @ e)
       (EnsureSignedCertificateSecrets L c (cr_DeploymentsNamespace r) (cr_WebhookServiceName r) caCertSecret)) (\<lambda>_.
     act_then (act_try (reconcileServerCerts L c r caCertSecret)) (\<lambda>servers.
     act_then (act_try (reconcileAuditScannerClientCert L c r caCertSecret)) (\<lambda>client.
       errors_Join
         ((case servers of Inl e \<Rightarrow> [''failed to reconcile server certs: '' @ e] | Inr _ \<Rightarrow> []) @
          (case client of Inl e \<Rightarrow> [''failed to reconcile audit scanner client cert: '' @ e] | Inr _ \<Rightarrow> [])))))))))"

definition reconcileInterval :: nat where "reconcileInterval = 12 * 3600"

definition CertReconciler_Reconcile ::
  "('c, 'k, 'w) x509_library \<Rightarrow> 'w cert_client \<Rightarrow> CertReconciler \<Rightarrow> ('w, string, ctrl_Result) action" where
  "CertReconciler_Reconcile L c r =
     act_then (reconcile_certs L c r) (\<lambda>_. act_ok \<lparr>res_Requeue = False, res_RequeueAfter = reconcileInterval\<rparr>)"

section \<open>The events that start a pass\<close>

datatype 'o object_event = CreateEvent 'o | UpdateEvent 'o 'o | DeleteEvent 'o | GenericEvent 'o

definition isKubewardenObject :: "string \<Rightarrow> ObjectMeta \<Rightarrow> bool" where
  "isKubewardenObject namespace meta \<longleftrightarrow>
     (namespace \<noteq> [] \<longrightarrow> om_namespace meta = namespace) \<and> map_str (om_labels meta) PartOfLabelKey = PartOfLabelValue"

fun kubewardenObjectPredicate ::
  "('o \<Rightarrow> ObjectMeta) \<Rightarrow> string \<Rightarrow> ('o \<Rightarrow> 'o \<Rightarrow> bool) \<Rightarrow> 'o object_event \<Rightarrow> bool" where
  "kubewardenObjectPredicate meta namespace changed (CreateEvent e) = isKubewardenObject namespace (meta e)"
| "kubewardenObjectPredicate meta namespace changed (UpdateEvent old new) =
     (if \<not> isKubewardenObject namespace (meta new) then False
      else \<not> isKubewardenObject namespace (meta old) \<or> changed old new)"
| "kubewardenObjectPredicate meta namespace changed (DeleteEvent e) = isKubewardenObject namespace (meta e)"
| "kubewardenObjectPredicate meta namespace changed (GenericEvent e) = False"

definition secretDataChanged :: "Secret \<Rightarrow> Secret \<Rightarrow> bool" where
  "secretDataChanged oldSecret newSecret \<longleftrightarrow> 
     \<not> list_all (\<lambda>(k, _). map_of (sec_data oldSecret) k = map_of (sec_data newSecret) k) (sec_data oldSecret @ sec_data newSecret)"

definition caBundleChanged :: "WebhookConfiguration \<Rightarrow> WebhookConfiguration \<Rightarrow> bool" where
  "caBundleChanged old new \<longleftrightarrow> map wh_caBundle (wc_webhooks old) \<noteq> map wh_caBundle (wc_webhooks new)"

end
