(* ===== verification/Cert_Trust.thy ===== *)
theory Cert_Trust
  imports Cert_Controller
begin

text \<open>
  What a pass of the certificate controller achieves.  The cluster is seen through the history of
  its states, so that a theorem can speak about every moment of a pass: a rotation never breaks
  the trust of the API server in the servers, not even if the pass fails half way, and after a
  pass that succeeds every certificate is good for the time until the lookahead.
\<close>

section \<open>The cluster\<close>

record cert_cluster =
  cs_secrets :: "string \<times> string \<Rightarrow> Secret option"
  cs_webhooks :: "webhook_kind \<Rightarrow> string \<Rightarrow> WebhookConfiguration option"

definition put_secret :: "string \<times> string \<Rightarrow> Secret \<Rightarrow> cert_cluster \<Rightarrow> cert_cluster" where
  "put_secret k s st = st\<lparr>cs_secrets := (cs_secrets st)(k \<mapsto> s)\<rparr>"

definition put_webhook :: "webhook_kind \<Rightarrow> string \<Rightarrow> WebhookConfiguration \<Rightarrow> cert_cluster \<Rightarrow> cert_cluster" where
  "put_webhook kind n wc st = st\<lparr>cs_webhooks := (cs_webhooks st)(kind := (cs_webhooks st kind)(n \<mapsto> wc))\<rparr>"

lemma put_simps [simp]:
  "cs_secrets (put_secret k s st) = (cs_secrets st)(k \<mapsto> s)" "cs_webhooks (put_secret k s st) = cs_webhooks st"
  "cs_secrets (put_webhook kind n wc st) = cs_secrets st"
  "cs_webhooks (put_webhook kind n wc st) = (cs_webhooks st)(kind := (cs_webhooks st kind)(n \<mapsto> wc))"
  by (simp_all add: put_secret_def put_webhook_def)

definition has_labels :: "ObjectMeta \<Rightarrow> (string \<times> string) list \<Rightarrow> bool" where
  "has_labels meta labels \<longleftrightarrow> (\<forall>(k, v)\<in>set labels. map_of (om_labels meta) k = Some v)"

definition secret_key :: "Secret \<Rightarrow> string \<times> string" where
  "secret_key s = (om_namespace (sec_meta s), om_name (sec_meta s))"

text \<open>A secret as it is stored: the API server sets fields of its own.\<close>

definition same_secret :: "Secret \<Rightarrow> Secret \<Rightarrow> bool" where
  "same_secret s s' \<longleftrightarrow> secret_key s' = secret_key s \<and> om_labels (sec_meta s') = om_labels (sec_meta s) \<and> sec_data s' = sec_data s"

definition same_webhooks :: "WebhookConfiguration \<Rightarrow> WebhookConfiguration \<Rightarrow> bool" where
  "same_webhooks wc wc' \<longleftrightarrow> om_name (wc_meta wc') = om_name (wc_meta wc) \<and> om_labels (wc_meta wc') = om_labels (wc_meta wc) \<and>
     wc_webhooks wc' = wc_webhooks wc"

section \<open>What the API server promises\<close>

text \<open>
  The history has the latest state first.  Every change adds a state; only the pass changes the
  cluster.  A call that fails with an unexpected error may have had its effect; a conflict means
  that it had none.
\<close>

definition keeps_history :: "('w \<Rightarrow> cert_cluster list) \<Rightarrow> ('w, 'e, 'a) action \<Rightarrow> bool" where
  "keeps_history hist m \<longleftrightarrow> (\<forall>w r w'. m w = (r, w') \<longrightarrow> hist w' = hist w)"

definition history_law :: "('w \<Rightarrow> cert_cluster list) \<Rightarrow> bool" where
  "history_law hist \<longleftrightarrow>
     (\<forall>w. hist w \<noteq> [] \<and> (\<forall>k s. cs_secrets (hd (hist w)) k = Some s \<longrightarrow> secret_key s = k) \<and>
        (\<forall>kind n wc. cs_webhooks (hd (hist w)) kind n = Some wc \<longrightarrow> om_name (wc_meta wc) = n))"

definition get_law :: "'w cert_client \<Rightarrow> ('w \<Rightarrow> cert_cluster list) \<Rightarrow> bool" where
  "get_law c hist \<longleftrightarrow>
     (\<forall>ns n w r w'. cc_get_secret c ns n w = (r, w') \<longrightarrow>
        hist w' = hist w \<and> (\<forall>s. r = Ok s \<longrightarrow> cs_secrets (hd (hist w)) (ns, n) = Some s) \<and>
        (r = Err NotFound \<longrightarrow> cs_secrets (hd (hist w)) (ns, n) = None))"

definition list_secrets_law :: "'w cert_client \<Rightarrow> ('w \<Rightarrow> cert_cluster list) \<Rightarrow> bool" where
  "list_secrets_law c hist \<longleftrightarrow>
     (\<forall>ns ls w r w'. cc_list_secrets c ns ls w = (r, w') \<longrightarrow>
        hist w' = hist w \<and> (\<forall>ss. r = Ok ss \<longrightarrow>
          set ss = {s. \<exists>n. cs_secrets (hd (hist w)) (ns, n) = Some s \<and> has_labels (sec_meta s) ls}))"

definition list_webhooks_law :: "'w cert_client \<Rightarrow> ('w \<Rightarrow> cert_cluster list) \<Rightarrow> bool" where
  "list_webhooks_law c hist \<longleftrightarrow>
     (\<forall>kind ls w r w'. cc_list_webhooks c kind ls w = (r, w') \<longrightarrow>
        hist w' = hist w \<and> (\<forall>wcs. r = Ok wcs \<longrightarrow>
          set wcs = {wc. \<exists>n. cs_webhooks (hd (hist w)) kind n = Some wc \<and> has_labels (wc_meta wc) ls} \<and>
          distinct (map (\<lambda>wc. om_name (wc_meta wc)) wcs)))"

definition create_law :: "'w cert_client \<Rightarrow> ('w \<Rightarrow> cert_cluster list) \<Rightarrow> bool" where
  "create_law c hist \<longleftrightarrow>
     (\<forall>s w r w'. cc_create_secret c s w = (r, w') \<longrightarrow>
        (let stored = (\<lambda>s'. same_secret s s' \<and> cs_secrets (hd (hist w)) (secret_key s) = None \<and>
               hist w' = put_secret (secret_key s) s' (hd (hist w)) # hist w) in
         (hist w' = hist w \<or> (\<exists>s'. stored s')) \<and> (\<forall>s'. r = Ok s' \<longrightarrow> stored s') \<and> (r = Err AlreadyExists \<longrightarrow> hist w' = hist w)))"

definition update_law :: "'w cert_client \<Rightarrow> ('w \<Rightarrow> cert_cluster list) \<Rightarrow> bool" where
  "update_law c hist \<longleftrightarrow>
     (\<forall>s w r w'. cc_update_secret c s w = (r, w') \<longrightarrow>
        (let stored = (\<lambda>s'. same_secret s s' \<and> cs_secrets (hd (hist w)) (secret_key s) \<noteq> None \<and>
               hist w' = put_secret (secret_key s) s' (hd (hist w)) # hist w) in
         (hist w' = hist w \<or> (\<exists>s'. stored s')) \<and> (\<forall>s'. r = Ok s' \<longrightarrow> stored s') \<and> (r = Err Conflict \<longrightarrow> hist w' = hist w)))"

definition patch_law :: "'w cert_client \<Rightarrow> ('w \<Rightarrow> cert_cluster list) \<Rightarrow> bool" where
  "patch_law c hist \<longleftrightarrow>
     (\<forall>kind original new w r w'. cc_patch_webhook c kind original new w = (r, w') \<longrightarrow>
        (let n = om_name (wc_meta original);
             stored = (\<exists>wc'. same_webhooks new wc' \<and> cs_webhooks (hd (hist w)) kind n = Some original \<and>
               hist w' = put_webhook kind n wc' (hd (hist w)) # hist w) in
         (hist w' = hist w \<or> stored) \<and> (r = Ok () \<longrightarrow> stored) \<and>
         (r = Err NotFound \<longrightarrow> cs_webhooks (hd (hist w)) kind n = None \<and> hist w' = hist w)))"

definition cert_client_laws :: "'w cert_client \<Rightarrow> ('w \<Rightarrow> cert_cluster list) \<Rightarrow> bool" where
  "cert_client_laws c hist \<longleftrightarrow> history_law hist \<and> get_law c hist \<and> list_secrets_law c hist \<and> list_webhooks_law c hist \<and>
     create_law c hist \<and> update_law c hist \<and> patch_law c hist"

section \<open>What the packages for certificates promise\<close>

text \<open>The relation tells which private key belongs to a certificate.\<close>

definition pem_laws :: "('c, 'k, 'w) x509_library \<Rightarrow> bool" where
  "pem_laws L \<longleftrightarrow> pem_consumes L \<and>
     (\<forall>block pem rest. xl_pem_Encode L block = Ok pem \<longrightarrow> pem \<noteq> [] \<and> xl_pem_Decode L (pem @ rest) = (Some block, rest)) \<and>
     xl_pem_Decode L [] = (None, [])"

definition key_laws :: "('c, 'k, 'w) x509_library \<Rightarrow> ('c \<Rightarrow> 'k \<Rightarrow> bool) \<Rightarrow> bool" where
  "key_laws L pair \<longleftrightarrow>
     (\<forall>key bytes. xl_MarshalECPrivateKey L key = Ok bytes \<longrightarrow> xl_ParseECPrivateKey L bytes = Ok key) \<and>
     (\<forall>certPEM keyPEM certBlock keyBlock rest rest' cert key.
        xl_X509KeyPair L certPEM keyPEM = None \<longrightarrow> xl_pem_Decode L certPEM = (Some certBlock, rest) \<longrightarrow>
        xl_ParseCertificate L (pem_Bytes certBlock) = Ok cert \<longrightarrow> xl_pem_Decode L keyPEM = (Some keyBlock, rest') \<longrightarrow>
        xl_ParseECPrivateKey L (pem_Bytes keyBlock) = Ok key \<longrightarrow> pair cert key)"

text \<open>
  A certificate that a CA signs with its key is good for its names and its time, where the CA is
  among the roots and is good itself.
\<close>

definition signing_laws :: "('c, 'k, 'w) x509_library \<Rightarrow> ('c \<Rightarrow> 'k \<Rightarrow> bool) \<Rightarrow> bool" where
  "signing_laws L pair \<longleftrightarrow>
     (\<forall>template key w der w'.
        xl_CreateCertificate L template (Inl template) key key w = (Ok der, w') \<longrightarrow>
        x_IsCA template \<and> x_BasicConstraintsValid template \<and> KeyUsageCertSign \<in> set (x_KeyUsage template) \<and>
        ExtKeyUsageServerAuth \<in> set (x_ExtKeyUsage template) \<longrightarrow>
        (\<exists>cert. xl_ParseCertificate L der = Ok cert \<and> pair cert key \<and>
           (\<forall>roots t. cert \<in> set roots \<longrightarrow> x_NotBefore template \<le> t \<longrightarrow> t \<le> x_NotAfter template \<longrightarrow> xl_Verify L cert roots [] t = None))) \<and>
     (\<forall>template ca key caKey w der w'.
        xl_CreateCertificate L template (Inr ca) key caKey w = (Ok der, w') \<longrightarrow> pair ca caKey \<longrightarrow>
        ExtKeyUsageServerAuth \<in> set (x_ExtKeyUsage template) \<longrightarrow>
        (\<exists>cert. xl_ParseCertificate L der = Ok cert \<and>
           (\<forall>roots dns t. ca \<in> set roots \<longrightarrow> xl_Verify L ca [ca] [] t = None \<longrightarrow> dns = [] \<or> dns \<in> set (x_DNSNames template) \<longrightarrow>
              x_NotBefore template \<le> t \<longrightarrow> t \<le> x_NotAfter template \<longrightarrow> xl_Verify L cert roots dns t = None)))"

text \<open>More roots do no harm, and a root that is not good itself is of no use.\<close>

definition root_laws :: "('c, 'k, 'w) x509_library \<Rightarrow> bool" where
  "root_laws L \<longleftrightarrow>
     (\<forall>cert roots roots' dns t. xl_Verify L cert roots dns t = None \<longrightarrow> set roots \<subseteq> set roots' \<longrightarrow> xl_Verify L cert roots' dns t = None) \<and>
     (\<forall>cert root roots dns t. xl_Verify L root [root] [] t \<noteq> None \<longrightarrow> xl_Verify L cert (root # roots) dns t = None \<longrightarrow>
        xl_Verify L cert roots dns t = None)"

definition x509_laws :: "('c, 'k, 'w) x509_library \<Rightarrow> ('c \<Rightarrow> 'k \<Rightarrow> bool) \<Rightarrow> ('w \<Rightarrow> cert_cluster list) \<Rightarrow> bool" where
  "x509_laws L pair hist \<longleftrightarrow> pem_laws L \<and> key_laws L pair \<and> signing_laws L pair \<and> root_laws L \<and>
     (\<forall>n. keeps_history hist (xl_rand_Int L n)) \<and> keeps_history hist (xl_GenerateKey L) \<and>
     (\<forall>template parent key signer. keeps_history hist (xl_CreateCertificate L template parent key signer))"

section \<open>Trust\<close>

text \<open>The certificates that the servers present in a state, each with its DNS name.\<close>

definition served_cert :: "cert_cluster \<Rightarrow> string \<times> string \<Rightarrow> (bool \<times> string) option" where
  "served_cert st k =
     (case cs_secrets st k of
        None \<Rightarrow> None
      | Some s \<Rightarrow> map_option (Pair (has_labels (sec_meta s) policyServerLabels)) (map_of (sec_data s) ServerCert))"

definition presented :: "CertReconciler \<Rightarrow> cert_cluster \<Rightarrow> (string \<times> string) set" where
  "presented r st =
     {(cert, DNSName (cr_WebhookServiceName r) (cr_DeploymentsNamespace r)) |cert l.
        served_cert st (cr_DeploymentsNamespace r, WebhookServerCertSecretName) = Some (l, cert)} \<union>
     {(cert, DNSName n (cr_DeploymentsNamespace r)) |cert n. served_cert st (cr_DeploymentsNamespace r, n) = Some (True, cert)}"

definition bundles :: "cert_cluster \<Rightarrow> string set" where
  "bundles st =
     {wh_caBundle wh |wh wc kind n. cs_webhooks st kind n = Some wc \<and> has_labels (wc_meta wc) kubewardenLabels \<and> wh \<in> set (wc_webhooks wc)}"

definition trusts :: "('c, 'k, 'w) x509_library \<Rightarrow> nat \<Rightarrow> string \<Rightarrow> string \<times> string \<Rightarrow> bool" where
  "trusts L t bundle p \<longleftrightarrow> (\<exists>pool. NewCertPool L bundle = Ok pool \<and> VerifyCert L (fst p) None pool (snd p) t = Ok ())"

text \<open>
  At every moment every webhook configuration trusts all certificates that a server may still
  present: those that it has now and those that it had before.
\<close>

definition seen :: "CertReconciler \<Rightarrow> cert_cluster list \<Rightarrow> (string \<times> string) set" where
  "seen r h = \<Union> (presented r ` set h)"

fun trust_kept :: "('c, 'k, 'w) x509_library \<Rightarrow> nat \<Rightarrow> CertReconciler \<Rightarrow> cert_cluster list \<Rightarrow> bool" where
  "trust_kept L t r [] \<longleftrightarrow> True"
| "trust_kept L t r (st # h) \<longleftrightarrow> (\<forall>b\<in>bundles st. \<forall>p\<in>seen r (st # h). trusts L t b p) \<and> trust_kept L t r h"

section \<open>Certificates that are generated\<close>

lemma keeps_wp: "keeps_history hist m \<Longrightarrow> wp m (\<lambda>_ w'. hist w' = hist w) (\<lambda>_ w'. hist w' = hist w) w"
  unfolding keeps_history_def by (rule wpI) blast+

text \<open>The PEM text of one certificate, and of a private key that can only be the one of a certificate.\<close>

definition single_pem :: "('c, 'k, 'w) x509_library \<Rightarrow> string \<Rightarrow> 'c \<Rightarrow> bool" where
  "single_pem L pem cert \<longleftrightarrow>
     (\<exists>der. xl_pem_Encode L \<lparr>pem_Type = ''CERTIFICATE'', pem_Bytes = der\<rparr> = Ok pem \<and> xl_ParseCertificate L der = Ok cert)"

definition key_pem :: "('c, 'k, 'w) x509_library \<Rightarrow> ('c \<Rightarrow> 'k \<Rightarrow> bool) \<Rightarrow> string \<Rightarrow> 'c \<Rightarrow> bool" where
  "key_pem L pair pem cert \<longleftrightarrow>
     (\<forall>block rest key. xl_pem_Decode L pem = (Some block, rest) \<longrightarrow> xl_ParseECPrivateKey L (pem_Bytes block) = Ok key \<longrightarrow> pair cert key)"

lemma pem_lawsD:
  assumes "pem_laws L"
  shows "pem_consumes L" "xl_pem_Encode L block = Ok pem \<Longrightarrow> pem \<noteq> []"
    "xl_pem_Encode L block = Ok pem \<Longrightarrow> xl_pem_Decode L (pem @ rest) = (Some block, rest)" "xl_pem_Decode L [] = (None, [])"
  using assms unfolding pem_laws_def by blast+

lemma pem_decode_single:
  assumes "pem_laws L" "xl_pem_Encode L block = Ok pem"
  shows "xl_pem_Decode L pem = (Some block, [])"
  using pem_lawsD(3) [OF assms, of "[]"] by simp

lemma pool_Nil: "pem_laws L \<Longrightarrow> NewCertPool L [] = Ok []"
  by (simp add: NewCertPool_unfold pem_lawsD)

lemma pool_append:
  assumes "pem_laws L" "single_pem L pem cert"
  shows "NewCertPool L (pem @ rest) = map_ok (\<lambda>pool. cert # pool) (NewCertPool L rest)"
proof -
  obtain der where der: "xl_pem_Encode L \<lparr>pem_Type = ''CERTIFICATE'', pem_Bytes = der\<rparr> = Ok pem" "xl_ParseCertificate L der = Ok cert"
    using assms(2) unfolding single_pem_def by blast
  show ?thesis
    by (subst NewCertPool_unfold [OF pem_lawsD(1) [OF assms(1)]]) (simp add: pem_lawsD(3) [OF assms(1) der(1)] der(2))
qed

lemma pool_single: "pem_laws L \<Longrightarrow> single_pem L pem cert \<Longrightarrow> NewCertPool L pem = Ok [cert]"
  using pool_append [of L pem cert "[]"] by (simp add: pool_Nil)

lemma single_pem_not_Nil: "pem_laws L \<Longrightarrow> single_pem L pem cert \<Longrightarrow> pem \<noteq> []"
  unfolding single_pem_def using pem_lawsD(2) by blast

lemma decode_first_single:
  assumes "pem_laws L" "single_pem L pem cert"
  shows "decode_first L pem (xl_ParseCertificate L) a b = Ok cert"
  using assms(2) pem_decode_single [OF assms(1)] unfolding single_pem_def decode_first_def by auto

lemma pemEncode_Ok:
  "pemEncodeCertificate L der = Ok pem \<Longrightarrow> xl_pem_Encode L \<lparr>pem_Type = ''CERTIFICATE'', pem_Bytes = der\<rparr> = Ok pem"
  "pemEncodePrivateKey L key = Ok pem \<Longrightarrow>
     \<exists>bytes. xl_MarshalECPrivateKey L key = Ok bytes \<and> xl_pem_Encode L \<lparr>pem_Type = ''EC PRIVATE KEY'', pem_Bytes = bytes\<rparr> = Ok pem"
  by (auto simp: pemEncodeCertificate_def pemEncodePrivateKey_def result_simps)

text \<open>Actions that keep the history, and what they did when they succeed.\<close>

named_theorems keeps_intros

lemma keeps_basic [keeps_intros]:
  "keeps_history hist (act_ok a)" "keeps_history hist (act_err e)" "keeps_history hist (act_pure r)"
  by (simp_all add: keeps_history_def act_ok_def act_err_def act_pure_def)

lemma keeps_case [keeps_intros]:
  "keeps_history hist m \<Longrightarrow> (\<And>e. keeps_history hist (h e)) \<Longrightarrow> (\<And>a. keeps_history hist (f a)) \<Longrightarrow> keeps_history hist (act_case m h f)"
  unfolding keeps_history_def act_case_def by (auto split: prod.splits sum.splits)

lemma keeps_then [keeps_intros]: "keeps_history hist m \<Longrightarrow> (\<And>a. keeps_history hist (f a)) \<Longrightarrow> keeps_history hist (act_then m f)"
  unfolding act_then_def by (intro keeps_intros)

lemma keeps_map_err [keeps_intros]: "keeps_history hist m \<Longrightarrow> keeps_history hist (act_map_err g m)"
  unfolding act_map_err_def by (intro keeps_intros)

lemma keeps_read [keeps_intros]: "(\<And>w. keeps_history hist (f w)) \<Longrightarrow> keeps_history hist (act_read f)"
  by (simp add: keeps_history_def act_read_def)

lemma act_Ok_iff:
  "act_then m f w = (Inr b, w') \<longleftrightarrow> (\<exists>a w1. m w = (Inr a, w1) \<and> f a w1 = (Inr b, w'))"
  "act_map_err g m' w = (Inr a, w') \<longleftrightarrow> m' w = (Inr a, w')"
  "act_pure r w = (Inr a, w') \<longleftrightarrow> r = Inr a \<and> w' = w"
  "act_ok a' w = (Inr a, w') \<longleftrightarrow> a' = a \<and> w' = w"
  by (auto simp: act_then_def act_map_err_def act_case_def act_pure_def act_ok_def act_err_def split: prod.splits sum.splits)

lemma x509_lawsD:
  assumes "x509_laws L pair hist"
  shows "pem_laws L" "key_laws L pair" "signing_laws L pair" "root_laws L" "keeps_history hist (xl_rand_Int L n)" "keeps_history hist (xl_GenerateKey L)"
    "keeps_history hist (xl_CreateCertificate L template parent key signer)"
  using assms unfolding x509_laws_def by blast+

lemma generate_keeps:
  assumes "x509_laws L pair hist"
  shows "keeps_history hist (GenerateCA L notBefore notAfter)" "keeps_history hist (GenerateCert L ca key notBefore notAfter name)"
  unfolding GenerateCA_def GenerateCert_def Let_def by (intro keeps_intros x509_lawsD [OF assms])+

lemma encoded_key:
  assumes "pem_laws L" "key_laws L pair" "pemEncodePrivateKey L key = Ok pem" "pair cert key"
  shows "key_pem L pair pem cert \<and> pem \<noteq> []"
proof -
  obtain bytes where b: "xl_MarshalECPrivateKey L key = Ok bytes" "xl_pem_Encode L \<lparr>pem_Type = ''EC PRIVATE KEY'', pem_Bytes = bytes\<rparr> = Ok pem"
    using pemEncode_Ok(2) [OF assms(3)] by blast
  have "xl_ParseECPrivateKey L bytes = Ok key" using assms(2) b(1) unfolding key_laws_def by blast
  then show ?thesis
    using pem_decode_single [OF assms(1) b(2)] pem_lawsD(2) [OF assms(1) b(2)] assms(4) unfolding key_pem_def by auto
qed

lemma GenerateCA_Ok:
  assumes laws: "x509_laws L pair hist" and run: "GenerateCA L notBefore notAfter w = (Ok (ca, key), w')"
  shows "\<exists>cert. single_pem L ca cert \<and> key_pem L pair key cert \<and> key \<noteq> [] \<and>
    (\<forall>t. notBefore \<le> t \<longrightarrow> t \<le> notAfter \<longrightarrow> xl_Verify L cert [cert] [] t = None)"
proof -
  obtain template k w1 der w2 where made: "xl_CreateCertificate L template (Inl template) k k w1 = (Ok der, w2)"
    and template: "x_IsCA template" "x_BasicConstraintsValid template" "KeyUsageCertSign \<in> set (x_KeyUsage template)"
      "ExtKeyUsageServerAuth \<in> set (x_ExtKeyUsage template)" "x_NotBefore template = notBefore" "x_NotAfter template = notAfter"
    and pem: "pemEncodeCertificate L der = Ok ca" "pemEncodePrivateKey L k = Ok key"
    using run unfolding GenerateCA_def Let_def
    by (clarsimp simp: act_Ok_iff result_simps)
  obtain cert where cert: "xl_ParseCertificate L der = Ok cert" "pair cert k"
      "\<forall>roots t. cert \<in> set roots \<longrightarrow> notBefore \<le> t \<longrightarrow> t \<le> notAfter \<longrightarrow> xl_Verify L cert roots [] t = None"
    using x509_lawsD(3) [OF laws] made template unfolding signing_laws_def by blast
  show ?thesis
  proof (intro exI [of _ cert] conjI)
    show "single_pem L ca cert" using pemEncode_Ok(1) [OF pem(1)] cert(1) unfolding single_pem_def by blast
    show "key_pem L pair key cert" "key \<noteq> []" using encoded_key [OF x509_lawsD(1,2) [OF laws] pem(2) cert(2)] by blast+
  qed (use cert(3) in simp)
qed

lemma VerifyCert_Ok_iff:
  "VerifyCert L pem None pool dns t = Ok () \<longleftrightarrow>
     (\<exists>block rest cert. xl_pem_Decode L pem = (Some block, rest) \<and> xl_ParseCertificate L (pem_Bytes block) = Ok cert \<and>
        xl_Verify L cert pool dns t = None)"
  by (auto simp: VerifyCert_def check_private_key_def decode_first_def result_simps split: option.splits prod.splits)
    (metis prod.collapse)+

lemma key_pem_decode:
  "key_pem L pair pem cert \<Longrightarrow> decode_first L pem (xl_ParseECPrivateKey L) a b = Ok key \<Longrightarrow> pair cert key"
  by (cases "xl_pem_Decode L pem") (auto simp: key_pem_def decode_first_def result_simps split: option.splits)

lemma GenerateCert_Ok:
  assumes laws: "x509_laws L pair hist" and ca: "single_pem L ca caCert" "key_pem L pair caKey caCert" "xl_Verify L caCert [caCert] [] t = None"
    and run: "GenerateCert L ca caKey notBefore notAfter name w = (Ok (pem, key), w')"
    and pool: "caCert \<in> set pool" "dns = [] \<or> dns = name" "notBefore \<le> t" "t \<le> notAfter"
  shows "VerifyCert L pem None pool dns t = Ok ()"
proof -
  obtain template k k' w1 der w2 where made: "xl_CreateCertificate L template (Inr caCert) k' k w1 = (Ok der, w2)"
    and k: "decode_first L caKey (xl_ParseECPrivateKey L) ''failed to decode ca root private key PEM''
      ''error parsing ca root private key: '' = Ok k"
    and template: "x_DNSNames template = [name]" "ExtKeyUsageServerAuth \<in> set (x_ExtKeyUsage template)"
      "x_NotBefore template = notBefore" "x_NotAfter template = notAfter"
    and enc: "pemEncodeCertificate L der = Ok pem"
    using run unfolding GenerateCert_def Let_def
    by (clarsimp simp: act_Ok_iff result_simps decode_first_single [OF x509_lawsD(1) [OF laws] ca(1)])
  have "pair caCert k" by (rule key_pem_decode [OF ca(2) k])
  obtain cert where cert: "xl_ParseCertificate L der = Ok cert" "xl_Verify L cert pool dns t = None"
    using x509_lawsD(3) [OF laws] made \<open>pair caCert k\<close> template pool ca(3) unfolding signing_laws_def
    by (metis list.set_intros(1))
  show ?thesis
    using pem_decode_single [OF x509_lawsD(1) [OF laws] pemEncode_Ok(1) [OF enc]] cert unfolding VerifyCert_Ok_iff by auto
qed

section \<open>Trust in a bundle\<close>

lemma trusts_iff:
  "trusts L t b p \<longleftrightarrow> (\<exists>pool block rest cert. NewCertPool L b = Ok pool \<and> xl_pem_Decode L (fst p) = (Some block, rest) \<and>
     xl_ParseCertificate L (pem_Bytes block) = Ok cert \<and> xl_Verify L cert pool (snd p) t = None)"
  unfolding trusts_def VerifyCert_Ok_iff by blast

lemma trusts_more:
  assumes "root_laws L" "NewCertPool L b = Ok pool" "NewCertPool L b' = Ok pool'" "set pool \<subseteq> set pool'" "trusts L t b p"
  shows "trusts L t b' p"
  using assms unfolding trusts_iff root_laws_def by (metis Inr_inject)

lemma trusts_less:
  assumes "root_laws L" "NewCertPool L b = Ok pool" "NewCertPool L b' = Ok pool'" "set pool \<subseteq> insert root (set pool')"
    "xl_Verify L root [root] [] t \<noteq> None" "trusts L t b p"
  shows "trusts L t b' p"
proof -
  obtain block rest cert where c: "xl_pem_Decode L (fst p) = (Some block, rest)" "xl_ParseCertificate L (pem_Bytes block) = Ok cert"
    "xl_Verify L cert pool (snd p) t = None"
    using assms(2,6) unfolding trusts_iff by auto
  have "xl_Verify L cert (root # pool') (snd p) t = None"
    using assms(1) c(3) assms(4) unfolding root_laws_def by (metis list.simps(15))
  then have "xl_Verify L cert pool' (snd p) t = None" using assms(1,5) unfolding root_laws_def by blast
  then show ?thesis using assms(3) c(1,2) unfolding trusts_iff by blast
qed

section \<open>Changes of the history\<close>

lemma cert_client_lawsD:
  assumes "cert_client_laws c hist"
  shows "history_law hist" "get_law c hist" "list_secrets_law c hist" "list_webhooks_law c hist" "create_law c hist" "update_law c hist"
    "patch_law c hist"
  using assms unfolding cert_client_laws_def by blast+

lemma history_lawD:
  assumes "history_law hist"
  shows "hist w \<noteq> []" "cs_secrets (hd (hist w)) k = Some s \<Longrightarrow> secret_key s = k"
    "cs_webhooks (hd (hist w)) kind n = Some wc \<Longrightarrow> om_name (wc_meta wc) = n"
  using assms unfolding history_law_def by blast+

definition updated ::
  "string \<times> string \<Rightarrow> ((string \<times> string) list \<Rightarrow> (string \<times> string) list) \<Rightarrow> cert_cluster list \<Rightarrow> Secret \<Rightarrow> cert_cluster list \<Rightarrow> bool" where
  "updated k f h s' h' \<longleftrightarrow>
     (\<exists>s. cs_secrets (hd h) k = Some s \<and> secret_key s' = k \<and> om_labels (sec_meta s') = om_labels (sec_meta s) \<and>
        sec_data s' = f (sec_data s) \<and> h' = put_secret k s' (hd h) # h)"

lemma get_secret_wp:
  assumes "cert_client_laws c hist"
  shows "wp (cc_get_secret c ns n) (\<lambda>s w'. hist w' = hist w \<and> cs_secrets (hd (hist w)) (ns, n) = Some s)
    (\<lambda>e w'. hist w' = hist w \<and> (e = NotFound \<longrightarrow> cs_secrets (hd (hist w)) (ns, n) = None)) w"
  by (rule wpI) (use cert_client_lawsD(2) [OF assms] in \<open>unfold get_law_def, blast+\<close>)

lemma list_secrets_wp:
  assumes "cert_client_laws c hist"
  shows "wp (cc_list_secrets c ns ls)
    (\<lambda>ss w'. hist w' = hist w \<and> set ss = {s. \<exists>n. cs_secrets (hd (hist w)) (ns, n) = Some s \<and> has_labels (sec_meta s) ls})
    (\<lambda>e w'. hist w' = hist w) w"
  by (rule wpI) (use cert_client_lawsD(3) [OF assms] in \<open>unfold list_secrets_law_def, blast+\<close>)

lemma list_webhooks_wp:
  assumes "cert_client_laws c hist"
  shows "wp (cc_list_webhooks c kind ls)
    (\<lambda>wcs w'. hist w' = hist w \<and> set wcs = {wc. \<exists>n. cs_webhooks (hd (hist w)) kind n = Some wc \<and> has_labels (wc_meta wc) ls} \<and>
       distinct (map (\<lambda>wc. om_name (wc_meta wc)) wcs))
    (\<lambda>e w'. hist w' = hist w) w"
  by (rule wpI) (use cert_client_lawsD(4) [OF assms] in \<open>unfold list_webhooks_law_def, blast+\<close>)

lemma update_secret_wp:
  assumes laws: "cert_client_laws c hist" and s: "cs_secrets (hd (hist w)) k = Some s" "hist w = h"
  shows "wp (cc_update_secret c (s\<lparr>sec_data := f (sec_data s)\<rparr>)) (\<lambda>s' w'. updated k f h s' (hist w'))
    (\<lambda>e w'. (e = Conflict \<longrightarrow> hist w' = h) \<and> (hist w' = h \<or> (\<exists>s'. updated k f h s' (hist w')))) w"
proof -
  have key: "secret_key (s\<lparr>sec_data := f (sec_data s)\<rparr>) = k"
    using history_lawD(2) [OF cert_client_lawsD(1) [OF laws] s(1)] by (simp add: secret_key_def)
  have upd: "updated k f h s' (hist w')"
    if "same_secret (s\<lparr>sec_data := f (sec_data s)\<rparr>) s'" "hist w' = put_secret k s' (hd (hist w)) # hist w" for s' w'
    using that s key unfolding updated_def same_secret_def by simp
  note law = cert_client_lawsD(6) [OF laws, unfolded update_law_def Let_def, rule_format, of "s\<lparr>sec_data := f (sec_data s)\<rparr>" w, unfolded key]
  show ?thesis
  proof (rule wpI)
    fix s' w' assume "cc_update_secret c (s\<lparr>sec_data := f (sec_data s)\<rparr>) w = (Inr s', w')"
    from law [OF this] have "same_secret (s\<lparr>sec_data := f (sec_data s)\<rparr>) s' \<and> hist w' = put_secret k s' (hd (hist w)) # hist w" by blast
    then show "updated k f h s' (hist w')" by (intro upd) blast+
  next
    fix e w' assume "cc_update_secret c (s\<lparr>sec_data := f (sec_data s)\<rparr>) w = (Inl e, w')"
    note l = law [OF this]
    show "(e = Conflict \<longrightarrow> hist w' = h) \<and> (hist w' = h \<or> (\<exists>s'. updated k f h s' (hist w')))"
    proof (cases "hist w' = hist w")
      case False
      then obtain s' where "same_secret (s\<lparr>sec_data := f (sec_data s)\<rparr>) s'" "hist w' = put_secret k s' (hd (hist w)) # hist w" using l by blast
      then have "updated k f h s' (hist w')" by (rule upd)
      then show ?thesis using l False s(2) by blast
    qed (simp add: s(2))
  qed
qed

lemma RetryOnConflict_wp:
  assumes "\<And>w. hist w = h \<Longrightarrow> wp m P (\<lambda>e w'. (fst e = Conflict \<longrightarrow> hist w' = h) \<and> Q w') w"
  shows "hist w = h \<Longrightarrow> wp (RetryOnConflict n m) P (\<lambda>_ w'. Q w') w"
proof (induction n arbitrary: w)
  case 0
  then show ?case by (simp add: wp_mono [OF assms])
next
  case (Suc n)
  show ?case
    by (simp add: wp_simps) (rule wp_mono [OF assms [OF Suc.prems]], auto simp: wp_simps intro: Suc.IH)
qed

lemma updateSecretWithRetry_wp:
  assumes laws: "cert_client_laws c hist"
  shows "wp (updateSecretWithRetry L c s f) (\<lambda>s' w'. updated (secret_key s) f (hist w) s' (hist w'))
    (\<lambda>_ w'. hist w' = hist w \<or> (\<exists>s'. updated (secret_key s) f (hist w) s' (hist w'))) w"
proof -
  let ?m = "act_then (act_map_err (\<lambda>e. (e, wrap_err ''failed to get secret'' e))
      (cc_get_secret c (om_namespace (sec_meta s)) (om_name (sec_meta s)))) (\<lambda>fresh.
      act_map_err (\<lambda>e. (e, kube_error_text e)) (cc_update_secret c (fresh\<lparr>sec_data := f (sec_data fresh)\<rparr>)))"
  have "wp ?m (\<lambda>s' w'. updated (secret_key s) f h s' (hist w'))
      (\<lambda>e w'. (fst e = Conflict \<longrightarrow> hist w' = h) \<and> (hist w' = h \<or> (\<exists>s'. updated (secret_key s) f h s' (hist w')))) w"
    if "hist w = h" for w h
    unfolding wp_simps
    by (rule wp_mono [OF get_secret_wp [OF laws]])
      (use that in \<open>auto simp: wp_simps secret_key_def intro!: update_secret_wp [OF laws, THEN wp_mono]\<close>)
  from RetryOnConflict_wp [OF this] show ?thesis
    unfolding updateSecretWithRetry_def wp_map_err by simp
qed

section \<open>The CA root\<close>

lemma bundles_put_secret [simp]: "bundles (put_secret k s st) = bundles st"
  by (simp add: bundles_def)

lemma presented_put_webhook [simp]: "presented r (put_webhook kind n wc st) = presented r st"
  by (simp add: presented_def served_cert_def)

lemma seen_Cons: "seen r (st # h) = presented r st \<union> seen r h"
  by (simp add: seen_def)

lemma presented_seen: "h \<noteq> [] \<Longrightarrow> presented r (hd h) \<subseteq> seen r h"
  by (cases h) (simp_all add: seen_Cons)

lemma trust_kept_hd: "trust_kept L t r h \<Longrightarrow> h \<noteq> [] \<Longrightarrow> b \<in> bundles (hd h) \<Longrightarrow> p \<in> seen r h \<Longrightarrow> trusts L t b p"
  by (cases h) auto

lemma trust_kept_push:
  assumes "trust_kept L t r h" "\<And>b p. b \<in> bundles st \<Longrightarrow> p \<in> presented r st \<union> seen r h \<Longrightarrow> trusts L t b p"
  shows "trust_kept L t r (st # h)"
  using assms by (auto simp: seen_Cons)

text \<open>A change of a secret that does not touch a server certificate.\<close>

lemma presented_same:
  assumes "updated k f h s' h'" "\<And>d. map_of (f d) ServerCert = map_of d ServerCert"
  shows "presented r (hd h') = presented r (hd h)"
proof -
  obtain s where s: "cs_secrets (hd h) k = Some s" "om_labels (sec_meta s') = om_labels (sec_meta s)" "sec_data s' = f (sec_data s)"
    "h' = put_secret k s' (hd h) # h"
    using assms(1) unfolding updated_def by blast
  have "has_labels (sec_meta s') ls = has_labels (sec_meta s) ls" for ls using s(2) by (simp add: has_labels_def)
  then have "served_cert (hd h') = served_cert (hd h)" using s assms(2) by (simp add: fun_eq_iff served_cert_def)
  then show ?thesis by (simp add: presented_def)
qed

lemma trust_kept_same:
  assumes "updated k f h s' h'" "\<And>d. map_of (f d) ServerCert = map_of d ServerCert" "trust_kept L t r h" "h \<noteq> []"
  shows "trust_kept L t r h' \<and> seen r h' = seen r h \<and> bundles (hd h') = bundles (hd h)"
proof -
  have h': "h' = put_secret k s' (hd h) # h" using assms(1) unfolding updated_def by blast
  have p: "presented r (hd h') = presented r (hd h)" by (rule presented_same [OF assms(1,2)])
  have "seen r h' = seen r h" using p presented_seen [OF assms(4)] by (auto simp: h' seen_Cons)
  moreover have "trust_kept L t r h'"
    unfolding h'
  proof (rule trust_kept_push [OF assms(3)])
    fix b q assume "b \<in> bundles (put_secret k s' (hd h))" "q \<in> presented r (put_secret k s' (hd h)) \<union> seen r h"
    moreover from this have "q \<in> seen r h" using p presented_seen [OF assms(4)] by (auto simp: h')
    ultimately show "trusts L t b q" by (intro trust_kept_hd [OF assms(3,4)]) simp_all
  qed
  ultimately show ?thesis by (simp add: h')
qed

text \<open>
  The certificates of the cluster did not begin to be valid later than the pass, and the time for
  which trust is considered is not before the pass and not more than the lookahead after it.
\<close>

definition issued :: "('c, 'k, 'w) x509_library \<Rightarrow> nat \<Rightarrow> 'c \<Rightarrow> bool" where
  "issued L t0 cert \<longleftrightarrow>
     (\<forall>t1 t2. t0 \<le> t1 \<longrightarrow> t1 \<le> t2 \<longrightarrow> xl_Verify L cert [cert] [] t2 = None \<longrightarrow> xl_Verify L cert [cert] [] t1 = None)"

definition clock_near :: "('c, 'k, 'w) x509_library \<Rightarrow> nat \<Rightarrow> nat \<Rightarrow> bool" where
  "clock_near L t0 t \<longleftrightarrow> (\<forall>w. t0 \<le> xl_now L w \<and> xl_now L w \<le> t \<and> t \<le> xl_now L w + CertLookahead)"

definition old_root :: "('c, 'k, 'w) x509_library \<Rightarrow> nat \<Rightarrow> Secret \<Rightarrow> bool" where
  "old_root L t0 s \<longleftrightarrow> (\<forall>old. map_of (sec_data s) OldCARootCert = Some old \<longrightarrow> (\<exists>cert. single_pem L old cert \<and> issued L t0 cert))"

text \<open>A CA root that is good at the time, with its private key.\<close>

definition good_root :: "('c, 'k, 'w) x509_library \<Rightarrow> ('c \<Rightarrow> 'k \<Rightarrow> bool) \<Rightarrow> nat \<Rightarrow> Secret \<Rightarrow> bool" where
  "good_root L pair t s \<longleftrightarrow>
     (\<exists>ca key cert. ExtractCARootFromSecret s = Ok (ca, key) \<and> single_pem L ca cert \<and> key_pem L pair key cert \<and>
        xl_Verify L cert [cert] [] t = None)"

definition ca_key :: "CertReconciler \<Rightarrow> string \<times> string" where
  "ca_key r = (cr_DeploymentsNamespace r, CARootSecretName)"

text \<open>The secrets of the controller are not marked as secrets of a policy server.\<close>

definition controller_secrets :: "string set" where
  "controller_secrets = {CARootSecretName, WebhookServerCertSecretName, AuditScannerClientCertSecretName}"

definition separate :: "CertReconciler \<Rightarrow> cert_cluster \<Rightarrow> bool" where
  "separate r st \<longleftrightarrow> (\<forall>n\<in>controller_secrets. \<forall>s. cs_secrets st (cr_DeploymentsNamespace r, n) = Some s \<longrightarrow> \<not> has_labels (sec_meta s) policyServerLabels)"

definition ca_inv :: "('c, 'k, 'w) x509_library \<Rightarrow> nat \<Rightarrow> nat \<Rightarrow> CertReconciler \<Rightarrow> cert_cluster list \<Rightarrow> Secret \<Rightarrow> bool" where
  "ca_inv L t0 t r h s \<longleftrightarrow>
     h \<noteq> [] \<and> trust_kept L t r h \<and> separate r (hd h) \<and> cs_secrets (hd h) (ca_key r) = Some s \<and> secret_key s = ca_key r \<and> old_root L t0 s \<and>
     (\<forall>p\<in>seen r h. trusts L t (CABundleFromSecret s) p)"

lemma ExtractCARoot_Ok_iff:
  "ExtractCARootFromSecret s = Ok (ca, key) \<longleftrightarrow>
     map_of (sec_data s) CARootCert = Some ca \<and> ca \<noteq> [] \<and> map_of (sec_data s) CARootPrivateKey = Some key \<and> key \<noteq> []"
  by (auto simp: ExtractCARootFromSecret_def split: option.splits if_splits)

lemma key_names [simp]:
  "CARootCert \<noteq> CARootPrivateKey" "CARootPrivateKey \<noteq> CARootCert" "CARootCert \<noteq> OldCARootCert" "OldCARootCert \<noteq> CARootCert"
  "CARootPrivateKey \<noteq> OldCARootCert" "OldCARootCert \<noteq> CARootPrivateKey" "ServerCert \<noteq> CARootCert" "ServerCert \<noteq> CARootPrivateKey"
  "ServerCert \<noteq> OldCARootCert" "CARootCert \<noteq> ServerCert" "CARootPrivateKey \<noteq> ServerCert" "OldCARootCert \<noteq> ServerCert"
  "ServerPrivateKey \<noteq> ServerCert" "ServerCert \<noteq> ServerPrivateKey"
  by (simp_all add: CARootCert_def CARootPrivateKey_def OldCARootCert_def ServerCert_def ServerPrivateKey_def)

text \<open>The pool of the bundle of a secret.\<close>

lemma bundle_pool:
  assumes "pem_laws L" "ExtractCARootFromSecret s = Ok (ca, key)" "single_pem L ca cert" "old_root L t0 s"
  shows "\<exists>old. NewCertPool L (CABundleFromSecret s) = Ok (cert # old) \<and>
    (case map_of (sec_data s) OldCARootCert of None \<Rightarrow> old = [] | Some pem \<Rightarrow> \<exists>c. single_pem L pem c \<and> issued L t0 c \<and> old = [c])"
proof (cases "map_of (sec_data s) OldCARootCert")
  case None
  then show ?thesis using assms
    by (simp add: CABundleFromSecret_def map_str_def ExtractCARoot_Ok_iff pool_single)
next
  case (Some pem)
  then obtain c where "single_pem L pem c" "issued L t0 c" using assms(4) unfolding old_root_def by blast
  then show ?thesis using assms Some
    by (auto simp: CABundleFromSecret_def map_str_def ExtractCARoot_Ok_iff pool_append pool_single)
qed

lemma VerifyCA_Ok:
  assumes "x509_laws L pair hist" "single_pem L ca cert" "VerifyCA L ca key at = Ok u"
  shows "xl_Verify L cert [cert] [] at = None" "key = Some pem \<Longrightarrow> key_pem L pair pem cert"
proof -
  note pem = x509_lawsD(1) [OF assms(1)]
  have v: "VerifyCert L ca key [cert] [] at = Ok u" using assms(3) pool_single [OF pem assms(2)] by (simp add: VerifyCA_def result_simps)
  then show "xl_Verify L cert [cert] [] at = None"
    by (auto simp: VerifyCert_def result_simps decode_first_single [OF pem assms(2)] split: option.splits)
  assume key: "key = Some pem"
  then have pair: "xl_X509KeyPair L ca pem = None"
    using v by (auto simp: VerifyCert_def check_private_key_def result_simps split: option.splits if_splits)
  obtain der where "xl_pem_Encode L \<lparr>pem_Type = ''CERTIFICATE'', pem_Bytes = der\<rparr> = Ok ca" "xl_ParseCertificate L der = Ok cert"
    using assms(2) unfolding single_pem_def by blast
  then have "xl_pem_Decode L ca = (Some \<lparr>pem_Type = ''CERTIFICATE'', pem_Bytes = der\<rparr>, [])" "xl_ParseCertificate L der = Ok cert"
    using pem_decode_single [OF pem] by blast+
  then show "key_pem L pair pem cert"
    using x509_lawsD(2) [OF assms(1)] pair unfolding key_laws_def key_pem_def by (metis pem_Block.select_convs(2))
qed

lemma VerifyCA_Err:
  assumes "pem_laws L" "single_pem L ca cert" "VerifyCA L ca None at = Err e"
  shows "xl_Verify L cert [cert] [] at \<noteq> None"
  using assms by (auto simp: VerifyCA_def VerifyCert_def check_private_key_def pool_single decode_first_single split: option.splits)

definition root_ready :: "('c, 'k, 'w) x509_library \<Rightarrow> nat \<Rightarrow> nat \<Rightarrow> CertReconciler \<Rightarrow> cert_cluster list \<Rightarrow> Secret \<Rightarrow> bool" where
  "root_ready L t0 t r h s \<longleftrightarrow>
     (\<forall>ca key. ExtractCARootFromSecret s = Ok (ca, key) \<longrightarrow>
        (\<exists>cert. single_pem L ca cert \<and> issued L t0 cert) \<and>
        ((\<forall>p\<in>seen r h. trusts L t ca p) \<or> (\<forall>w. VerifyCA L ca (Some key) (xl_now L w + CertLookahead) = Ok ())))"

lemma ca_inv_updated:
  assumes inv: "ca_inv L t0 t r h s" and upd: "updated (ca_key r) f h s' h'" "\<And>d. map_of (f d) ServerCert = map_of d ServerCert"
    and old: "old_root L t0 s'" and trust: "\<And>p. p \<in> seen r h \<Longrightarrow> trusts L t (CABundleFromSecret s') p"
  shows "ca_inv L t0 t r h' s'"
proof -
  have h: "h \<noteq> []" "trust_kept L t r h" using inv unfolding ca_inv_def by blast+
  have h': "h' = put_secret (ca_key r) s' (hd h) # h" "secret_key s' = ca_key r" using upd(1) unfolding updated_def by blast+
  have "om_labels (sec_meta s') = om_labels (sec_meta s)" using inv upd(1) unfolding updated_def ca_inv_def by auto
  then have "separate r (hd h')" using inv unfolding h' ca_inv_def separate_def by (auto simp: has_labels_def)
  with trust_kept_same [OF upd h(2,1)] show ?thesis using h' old trust unfolding ca_inv_def by simp
qed

lemma updated_data:
  "updated k f h s' h' \<Longrightarrow> cs_secrets (hd h) k = Some s \<Longrightarrow> sec_data s' = f (sec_data s)"
  by (auto simp: updated_def)

lemma updated_trust_kept:
  assumes "ca_inv L t0 t r h s" "h' = h \<or> (\<exists>s'. updated k f h s' h')" "\<And>d. map_of (f d) ServerCert = map_of d ServerCert"
  shows "trust_kept L t r h'"
  using assms trust_kept_same [of k f h _ h' L t r] unfolding ca_inv_def by blast

lemma update_root_wp:
  assumes client: "cert_client_laws c hist" and inv: "ca_inv L t0 t r h s" and h: "hist w = h"
    and f: "\<And>d. map_of (f d) ServerCert = map_of d ServerCert"
    and post: "\<And>s' h'. updated (ca_key r) f h s' h' \<Longrightarrow> P s' h'"
  shows "wp (updateSecretWithRetry L c s f) (\<lambda>s' w'. P s' (hist w')) (\<lambda>_ w'. trust_kept L t r (hist w')) w"
proof -
  have key: "secret_key s = ca_key r" using inv unfolding ca_inv_def by blast
  show ?thesis
  proof (rule wp_mono [OF updateSecretWithRetry_wp [OF client]], unfold h key)
    show "P s' (hist w')" if "updated (ca_key r) f h s' (hist w')" for s' w' using that by (rule post)
    show "trust_kept L t r (hist w')" if "hist w' = h \<or> (\<exists>s'. updated (ca_key r) f h s' (hist w'))" for w'
      by (rule updated_trust_kept [OF inv that f])
  qed
qed

lemma GenerateCA_wp:
  assumes laws: "x509_laws L pair hist" and clock: "clock_near L t0 t"
  shows "wp (GenerateCA L (xl_now L w) (xl_now L w + CACertExpiration))
    (\<lambda>x w'. hist w' = hist w \<and> (\<exists>cert. single_pem L (fst x) cert \<and> key_pem L pair (snd x) cert \<and> snd x \<noteq> [] \<and> xl_Verify L cert [cert] [] t = None))
    (\<lambda>_ w'. hist w' = hist w) w"
proof (rule wpI)
  fix x w' assume run: "GenerateCA L (xl_now L w) (xl_now L w + CACertExpiration) w = (Inr x, w')"
  obtain ca key where x: "x = (ca, key)" by (cases x)
  have near: "xl_now L w \<le> t" "t \<le> xl_now L w + CertLookahead" using clock unfolding clock_near_def by blast+
  then have "t \<le> xl_now L w + CACertExpiration" by (simp add: CertLookahead_def CACertExpiration_def)
  then show "hist w' = hist w \<and> (\<exists>cert. single_pem L (fst x) cert \<and> key_pem L pair (snd x) cert \<and> snd x \<noteq> [] \<and> xl_Verify L cert [cert] [] t = None)"
    using GenerateCA_Ok [OF laws run [unfolded x]] generate_keeps(1) [OF laws] run near(1) unfolding x keeps_history_def by auto
qed (use generate_keeps(1) [OF laws] in \<open>simp add: keeps_history_def\<close>)

text \<open>The secret after a rotation: the new root, its key, and the root before it.\<close>

abbreviation rotate_root :: "string \<Rightarrow> string \<Rightarrow> string \<Rightarrow> (string \<times> string) list \<Rightarrow> (string \<times> string) list" where
  "rotate_root ca key old data \<equiv> map_put (map_put (map_put data CARootCert ca) CARootPrivateKey key) OldCARootCert old"

lemma rotated_root:
  assumes laws: "x509_laws L pair hist" and inv: "ca_inv L t0 t r h s"
    and ca: "single_pem L ca cert" "issued L t0 cert" "\<And>p. p \<in> seen r h \<Longrightarrow> trusts L t ca p"
    and new: "single_pem L ca2 cert2" "key_pem L pair key2 cert2" "key2 \<noteq> []" "xl_Verify L cert2 [cert2] [] t = None"
    and upd: "updated (ca_key r) (rotate_root ca2 key2 ca) h s' h'"
  shows "ca_inv L t0 t r h' s' \<and> good_root L pair t s'"
proof
  note pem = x509_lawsD(1) [OF laws]
  have data: "sec_data s' = rotate_root ca2 key2 ca (sec_data s)" by (rule updated_data [OF upd]) (use inv [unfolded ca_inv_def] in blast)
  have "ExtractCARootFromSecret s' = Ok (ca2, key2)"
    using single_pem_not_Nil [OF pem new(1)] new(3) by (simp add: ExtractCARoot_Ok_iff data)
  then show "good_root L pair t s'" unfolding good_root_def using new by blast
  have old: "old_root L t0 s'" using ca(1,2) by (auto simp: old_root_def data)
  have pool: "NewCertPool L (CABundleFromSecret s') = Ok [cert2, cert]"
    using new(1) ca(1) pem by (simp add: CABundleFromSecret_def map_str_def data pool_append pool_single)
  show "ca_inv L t0 t r h' s'"
    by (rule ca_inv_updated [OF inv upd _ old])
      (use trusts_more [OF x509_lawsD(4) [OF laws] pool_single [OF pem ca(1)] pool _ ca(3)] in auto)
qed

lemma reconcileCARoot_wp:
  assumes client: "cert_client_laws c hist" and laws: "x509_laws L pair hist" and clock: "clock_near L t0 t"
    and inv: "ca_inv L t0 t r (hist w) s" and ready: "root_ready L t0 t r (hist w) s"
  shows "wp (reconcileCARoot L c s) (\<lambda>s' w'. ca_inv L t0 t r (hist w') s' \<and> good_root L pair t s') (\<lambda>_ w'. trust_kept L t r (hist w')) w"
proof (cases "ExtractCARootFromSecret s")
  case (Inl e)
  then show ?thesis using inv by (simp add: reconcileCARoot_def wp_simps ca_inv_def)
next
  case (Inr p)
  then obtain ca key where ex: "ExtractCARootFromSecret s = Ok (ca, key)" by (cases p) simp
  then obtain cert where cert: "single_pem L ca cert" "issued L t0 cert" using ready unfolding root_ready_def by blast
  note near = clock [unfolded clock_near_def, rule_format]
  show ?thesis
  proof (cases "VerifyCA L ca (Some key) (xl_now L w + CertLookahead)")
    case (Inr u)
    have "xl_Verify L cert [cert] [] (xl_now L w + CertLookahead) = None" using VerifyCA_Ok(1) [OF laws cert(1) Inr] .
    then have "xl_Verify L cert [cert] [] t = None" using cert(2) near [of w] unfolding issued_def by (meson order_trans)
    then have "good_root L pair t s" unfolding good_root_def using ex cert(1) VerifyCA_Ok(2) [OF laws cert(1) Inr refl] by blast
    then show ?thesis using inv Inr by (simp add: reconcileCARoot_def wp_simps ex)
  next
    case (Inl e)
    have seen: "trusts L t ca p" if "p \<in> seen r (hist w)" for p using ready ex Inl that unfolding root_ready_def by fastforce
    have "wp (updateSecretWithRetry L c s (rotate_root ca2 key2 ca)) (\<lambda>s' w'. ca_inv L t0 t r (hist w') s' \<and> good_root L pair t s')
        (\<lambda>_ w'. trust_kept L t r (hist w')) w1"
      if "hist w1 = hist w" "single_pem L ca2 cert2" "key_pem L pair key2 cert2" "key2 \<noteq> []" "xl_Verify L cert2 [cert2] [] t = None"
      for ca2 key2 cert2 w1
      by (rule update_root_wp [OF client inv that(1), where P = "\<lambda>s' h'. ca_inv L t0 t r h' s' \<and> good_root L pair t s'"])
        (simp, rule rotated_root [OF laws inv cert seen that(2-)])
    then have "wp (GenerateCA L (xl_now L w) (xl_now L w + CACertExpiration))
        (\<lambda>x. wp (updateSecretWithRetry L c s (rotate_root (fst x) (snd x) ca))
          (\<lambda>s' w'. ca_inv L t0 t r (hist w') s' \<and> good_root L pair t s') (\<lambda>_ w'. trust_kept L t r (hist w')))
        (\<lambda>_ w'. trust_kept L t r (hist w')) w"
      by (rule_tac wp_mono [OF GenerateCA_wp [OF laws clock]]) (use inv [unfolded ca_inv_def] in auto)
    then show ?thesis by (simp add: reconcileCARoot_def wp_simps ex Inl case_prod_beta)
  qed
qed

lemma reconcileOldCARoot_wp:
  assumes client: "cert_client_laws c hist" and laws: "x509_laws L pair hist" and clock: "clock_near L t0 t"
    and inv: "ca_inv L t0 t r (hist w) s" and good: "good_root L pair t s"
  shows "wp (reconcileOldCARoot L c s) (\<lambda>s' w'. ca_inv L t0 t r (hist w') s' \<and> good_root L pair t s') (\<lambda>_ w'. trust_kept L t r (hist w')) w"
proof (cases "map_of (sec_data s) OldCARootCert")
  case None
  then show ?thesis using inv good by (simp add: reconcileOldCARoot_def wp_simps)
next
  case (Some old)
  note root = inv [unfolded ca_inv_def] and pem = x509_lawsD(1) [OF laws]
  obtain cert where cert: "single_pem L old cert" "issued L t0 cert" using root Some unfolding old_root_def by blast
  obtain ca key c' where ca: "ExtractCARootFromSecret s = Ok (ca, key)" "single_pem L ca c'" using good unfolding good_root_def by blast
  show ?thesis
  proof (cases "VerifyCA L old None (xl_now L w)")
    case (Inr u)
    then show ?thesis using inv good Some by (simp add: reconcileOldCARoot_def wp_simps)
  next
    case (Inl e)
    let ?f = "\<lambda>data. map_delete data OldCARootCert"
    have f: "map_of (?f d) ServerCert = map_of d ServerCert" for d :: "(string \<times> string) list" by (simp add: map_delete_def AList.delete_conv')
    have dead: "xl_Verify L cert [cert] [] t \<noteq> None"
    proof
      have near: "t0 \<le> xl_now L w" "xl_now L w \<le> t" using clock [unfolded clock_near_def, rule_format, of w] by simp_all
      assume "xl_Verify L cert [cert] [] t = None"
      from cert(2) [unfolded issued_def, rule_format, OF near this] show False using VerifyCA_Err [OF pem cert(1) Inl] by simp
    qed
    have removed: "ca_inv L t0 t r h' s' \<and> good_root L pair t s'" if upd: "updated (ca_key r) ?f (hist w) s' h'" for s' h'
    proof
      have data: "sec_data s' = ?f (sec_data s)" by (rule updated_data [OF upd]) (use root in blast)
      have of: "map_of (sec_data s') OldCARootCert = None" "map_of (sec_data s') CARootCert = map_of (sec_data s) CARootCert"
        "map_of (sec_data s') CARootPrivateKey = map_of (sec_data s) CARootPrivateKey"
        by (simp_all add: data map_delete_def AList.delete_conv')
      then have ex': "ExtractCARootFromSecret s' = Ok (ca, key)" using ca(1) by (simp add: ExtractCARoot_Ok_iff)
      then show "good_root L pair t s'" using good ca(1) unfolding good_root_def by simp
      have old: "old_root L t0 s'" using of(1) by (simp add: old_root_def)
      have pool: "NewCertPool L (CABundleFromSecret s) = Ok [c', cert]" "NewCertPool L (CABundleFromSecret s') = Ok [c']"
        using of ca cert(1) Some pem by (simp_all add: CABundleFromSecret_def map_str_def ExtractCARoot_Ok_iff pool_append pool_single)
      show "ca_inv L t0 t r h' s'"
        by (rule ca_inv_updated [OF inv upd f old])
          (rule trusts_less [OF x509_lawsD(4) [OF laws] pool _ dead], use root in auto)
    qed
    have "wp (updateSecretWithRetry L c s ?f) (\<lambda>s' w'. ca_inv L t0 t r (hist w') s' \<and> good_root L pair t s') (\<lambda>_ w'. trust_kept L t r (hist w')) w"
      by (rule update_root_wp [OF client inv refl f, where P = "\<lambda>s' h'. ca_inv L t0 t r h' s' \<and> good_root L pair t s'"]) (rule removed)
    then show ?thesis by (simp add: reconcileOldCARoot_def wp_simps Some Inl)
  qed
qed

section \<open>The bundle in the webhook configurations\<close>

text \<open>The webhook configurations of a state that do not have the bundle yet.\<close>

definition without_bundle :: "string \<Rightarrow> cert_cluster \<Rightarrow> (webhook_kind \<times> string) set" where
  "without_bundle b st =
     {(kind, n). \<exists>wc. cs_webhooks st kind n = Some wc \<and> has_labels (wc_meta wc) kubewardenLabels \<and> (\<exists>wh\<in>set (wc_webhooks wc). wh_caBundle wh \<noteq> b)}"

lemma no_other_bundle: "without_bundle b st = {} \<Longrightarrow> b' \<in> bundles st \<Longrightarrow> b' = b"
  unfolding without_bundle_def bundles_def by blast

lemma set_bundles_bundle: "same_webhooks (set_bundles b wc) wc' \<Longrightarrow> wh \<in> set (wc_webhooks wc') \<Longrightarrow> wh_caBundle wh = b"
  by (auto simp: same_webhooks_def set_bundles_def)

lemma bundles_put_webhook:
  assumes "same_webhooks (set_bundles b wc) wc'"
  shows "bundles (put_webhook kind n wc' st) \<subseteq> insert b (bundles st)"
proof
  fix x assume "x \<in> bundles (put_webhook kind n wc' st)"
  then obtain wh wc2 kind2 n2 where x: "x = wh_caBundle wh" "cs_webhooks (put_webhook kind n wc' st) kind2 n2 = Some wc2"
    "has_labels (wc_meta wc2) kubewardenLabels" "wh \<in> set (wc_webhooks wc2)"
    unfolding bundles_def by blast
  show "x \<in> insert b (bundles st)"
  proof (cases "kind2 = kind \<and> n2 = n")
    case True
    then have "wc2 = wc'" using x(2) by simp
    then show ?thesis using set_bundles_bundle [OF assms] x(1,4) by simp
  next
    case False
    then have "cs_webhooks st kind2 n2 = Some wc2" using x(2) by (auto split: if_splits)
    then show ?thesis using x unfolding bundles_def by blast
  qed
qed

lemma without_bundle_put:
  assumes "same_webhooks (set_bundles b wc) wc'"
  shows "without_bundle b (put_webhook kind n wc' st) \<subseteq> without_bundle b st - {(kind, n)}"
  using set_bundles_bundle [OF assms] unfolding without_bundle_def by (auto split: if_splits)

lemma ca_inv_put_webhook:
  assumes inv: "ca_inv L t0 t r h s" and same: "same_webhooks (set_bundles (CABundleFromSecret s) wc) wc'"
  shows "ca_inv L t0 t r (put_webhook kind n wc' (hd h) # h) s"
proof -
  note parts = inv [unfolded ca_inv_def]
  have h: "h \<noteq> []" "trust_kept L t r h" using parts by blast+
  have seen: "seen r (put_webhook kind n wc' (hd h) # h) = seen r h" using presented_seen [OF h(1)] by (auto simp: seen_Cons)
  have "trust_kept L t r (put_webhook kind n wc' (hd h) # h)"
  proof (rule trust_kept_push [OF h(2)])
    fix b p assume b: "b \<in> bundles (put_webhook kind n wc' (hd h))" and "p \<in> presented r (put_webhook kind n wc' (hd h)) \<union> seen r h"
    then have p: "p \<in> seen r h" using presented_seen [OF h(1)] by auto
    from bundles_put_webhook [OF same] b consider "b = CABundleFromSecret s" | "b \<in> bundles (hd h)" by blast
    then show "trusts L t b p" using p parts trust_kept_hd [OF h(2,1)] by cases auto
  qed
  then show ?thesis using parts unfolding ca_inv_def seen by (simp add: separate_def)
qed

lemma patch_webhook_wp:
  assumes client: "cert_client_laws c hist" and wc: "cs_webhooks (hd (hist w)) kind (om_name (wc_meta wc)) = Some wc"
  shows "wp (cc_patch_webhook c kind wc new)
    (\<lambda>_ w'. \<exists>wc'. same_webhooks new wc' \<and> hist w' = put_webhook kind (om_name (wc_meta wc)) wc' (hd (hist w)) # hist w)
    (\<lambda>e w'. e \<noteq> NotFound \<and> (hist w' = hist w \<or>
       (\<exists>wc'. same_webhooks new wc' \<and> hist w' = put_webhook kind (om_name (wc_meta wc)) wc' (hd (hist w)) # hist w))) w"
proof -
  note law = cert_client_lawsD(7) [OF client, unfolded patch_law_def Let_def, rule_format, of kind wc new w]
  show ?thesis by (rule wp_unitI) (use law wc in \<open>fastforce+\<close>)
qed

definition item_key :: "webhook_kind \<times> WebhookConfiguration \<Rightarrow> webhook_kind \<times> string" where
  "item_key item = (fst item, om_name (wc_meta (snd item)))"

lemma inject_all_wp:
  assumes client: "cert_client_laws c hist"
  shows "ca_inv L t0 t r (hist w) s \<Longrightarrow> distinct (map item_key items) \<Longrightarrow>
    (\<forall>item\<in>set items. cs_webhooks (hd (hist w)) (fst item) (om_name (wc_meta (snd item))) = Some (snd item)) \<Longrightarrow>
    without_bundle (CABundleFromSecret s) (hd (hist w)) \<subseteq> item_key ` set items \<Longrightarrow>
    wp (inject_all c (CABundleFromSecret s) items)
      (\<lambda>_ w'. ca_inv L t0 t r (hist w') s \<and> without_bundle (CABundleFromSecret s) (hd (hist w')) = {}) (\<lambda>_ w'. trust_kept L t r (hist w')) w"
proof (induction items arbitrary: w)
  case Nil
  then show ?case by (simp add: wp_simps)
next
  case (Cons item items)
  obtain kind wc where item: "item = (kind, wc)" by (cases item)
  let ?b = "CABundleFromSecret s"
  have wc: "cs_webhooks (hd (hist w)) kind (om_name (wc_meta wc)) = Some wc" using Cons.prems(3) item by simp
  have key: "item_key item = (kind, om_name (wc_meta wc))" by (simp add: item item_key_def)
  show ?case
  proof (cases "\<forall>wh\<in>set (wc_webhooks wc). wh_caBundle wh = ?b")
    case True
    have "item_key item \<notin> without_bundle ?b (hd (hist w))" using True wc unfolding key without_bundle_def by simp
    then have "without_bundle ?b (hd (hist w)) \<subseteq> item_key ` set items" using Cons.prems(4) by auto
    from Cons.IH [OF Cons.prems(1) _ _ this] show ?thesis using Cons.prems(2,3) True by (simp add: item injectCABundle_def wp_simps)
  next
    case False
    have stored: "ca_inv L t0 t r (hist w') s \<and> wp (inject_all c ?b items)
        (\<lambda>_ w'. ca_inv L t0 t r (hist w') s \<and> without_bundle ?b (hd (hist w')) = {}) (\<lambda>_ w'. trust_kept L t r (hist w')) w'"
      if same: "same_webhooks (set_bundles ?b wc) wc'" and h': "hist w' = put_webhook kind (om_name (wc_meta wc)) wc' (hd (hist w)) # hist w" for w' wc'
    proof -
      have inv: "ca_inv L t0 t r (hist w') s" unfolding h' by (rule ca_inv_put_webhook [OF Cons.prems(1) same])
      have other: "item_key other \<noteq> (kind, om_name (wc_meta wc))" if "other \<in> set items" for other
      proof -
        have "item_key other \<in> item_key ` set items" using that by (rule imageI)
        then show ?thesis using Cons.prems(2) unfolding key [symmetric] by auto
      qed
      have "\<forall>other\<in>set items. cs_webhooks (hd (hist w')) (fst other) (om_name (wc_meta (snd other))) = Some (snd other)"
        using Cons.prems(3) other unfolding h' item_key_def by auto
      moreover have "without_bundle ?b (hd (hist w')) \<subseteq> item_key ` set items"
        using without_bundle_put [OF same, of kind "om_name (wc_meta wc)" "hd (hist w)"] Cons.prems(4) key unfolding h' by auto
      ultimately show ?thesis using inv Cons.IH [OF inv] Cons.prems(2) by simp
    qed
    let ?rest = "\<lambda>_. wp (inject_all c ?b items) (\<lambda>_ w'. ca_inv L t0 t r (hist w') s \<and> without_bundle ?b (hd (hist w')) = {})
      (\<lambda>_ w'. trust_kept L t r (hist w'))"
    have "wp (cc_patch_webhook c kind wc (set_bundles ?b wc)) ?rest (\<lambda>e w'. e \<noteq> NotFound \<and> trust_kept L t r (hist w')) w"
      by (rule wp_mono [OF patch_webhook_wp [OF client wc]]) (use stored Cons.prems(1) in \<open>auto simp: ca_inv_def\<close>)
    then have "wp (injectCABundle c kind wc ?b) ?rest (\<lambda>e w'. fst e \<noteq> NotFound \<and> trust_kept L t r (hist w')) w"
      using False by (auto simp: injectCABundle_def wp_map_err)
    then show ?thesis unfolding item inject_all.simps wp_case by (rule wp_mono) (simp_all add: wp_err)
  qed
qed

text \<open>After this step every webhook configuration has the bundle of the secret.\<close>

definition bundled :: "('c, 'k, 'w) x509_library \<Rightarrow> nat \<Rightarrow> nat \<Rightarrow> CertReconciler \<Rightarrow> cert_cluster list \<Rightarrow> Secret \<Rightarrow> bool" where
  "bundled L t0 t r h s \<longleftrightarrow> ca_inv L t0 t r h s \<and> without_bundle (CABundleFromSecret s) (hd h) = {}"

lemma distinct_items:
  assumes "distinct (map (\<lambda>wc. om_name (wc_meta wc)) vs)" "distinct (map (\<lambda>wc. om_name (wc_meta wc)) ms)"
  shows "distinct (map item_key (map (Pair Validating) vs @ map (Pair Mutating) ms))"
  using assms by (auto simp: distinct_map inj_on_def item_key_def)

lemma reconcileCABundles_wp:
  assumes client: "cert_client_laws c hist" and inv: "ca_inv L t0 t r (hist w) s"
  shows "wp (reconcileCABundles c s) (\<lambda>_ w'. bundled L t0 t r (hist w') s) (\<lambda>_ w'. trust_kept L t r (hist w')) w"
proof -
  let ?listed = "\<lambda>kind wcs. set wcs = {wc. \<exists>n. cs_webhooks (hd (hist w)) kind n = Some wc \<and> has_labels (wc_meta wc) kubewardenLabels} \<and>
     distinct (map (\<lambda>wc. om_name (wc_meta wc)) wcs)"
  have kept: "trust_kept L t r (hist w)" using inv unfolding ca_inv_def by blast
  have inject: "wp (inject_all c (CABundleFromSecret s) (map (Pair Validating) vs @ map (Pair Mutating) ms))
      (\<lambda>_ w'. bundled L t0 t r (hist w') s) (\<lambda>_ w'. trust_kept L t r (hist w')) w2"
    if w2: "hist w2 = hist w" and vs: "?listed Validating vs" and ms: "?listed Mutating ms" for vs ms w2
    unfolding bundled_def
  proof (rule inject_all_wp [OF client])
    show "ca_inv L t0 t r (hist w2) s" using inv w2 by simp
    show "distinct (map item_key (map (Pair Validating) vs @ map (Pair Mutating) ms))" by (rule distinct_items) (use vs ms in blast)+
    note name = history_lawD(3) [OF cert_client_lawsD(1) [OF client], of w]
    show "\<forall>item\<in>set (map (Pair Validating) vs @ map (Pair Mutating) ms).
        cs_webhooks (hd (hist w2)) (fst item) (om_name (wc_meta (snd item))) = Some (snd item)"
      using vs ms name by (auto simp: w2)
    show "without_bundle (CABundleFromSecret s) (hd (hist w2)) \<subseteq> item_key ` set (map (Pair Validating) vs @ map (Pair Mutating) ms)"
    proof
      fix x assume "x \<in> without_bundle (CABundleFromSecret s) (hd (hist w2))"
      then obtain kind n wc where x: "x = (kind, n)" "cs_webhooks (hd (hist w)) kind n = Some wc" "has_labels (wc_meta wc) kubewardenLabels"
        unfolding w2 without_bundle_def by blast
      have "x = item_key (kind, wc)" using name [OF x(2)] x(1) by (simp add: item_key_def)
      moreover have "(kind, wc) \<in> set (map (Pair Validating) vs @ map (Pair Mutating) ms)" using vs ms x(2,3) by (cases kind) auto
      ultimately show "x \<in> item_key ` set (map (Pair Validating) vs @ map (Pair Mutating) ms)" by (rule image_eqI)
    qed
  qed
  have mutating: "wp (cc_list_webhooks c Mutating kubewardenLabels)
      (\<lambda>ms. wp (inject_all c (CABundleFromSecret s) (map (Pair Validating) vs @ map (Pair Mutating) ms))
        (\<lambda>_ w'. bundled L t0 t r (hist w') s) (\<lambda>_ w'. trust_kept L t r (hist w'))) (\<lambda>_ w'. trust_kept L t r (hist w')) w1"
    if "hist w1 = hist w" "?listed Validating vs" for vs w1
    by (rule wp_mono [OF list_webhooks_wp [OF client]]) (use that kept in \<open>auto intro!: inject\<close>)
  show ?thesis
    unfolding reconcileCABundles_def wp_simps
    by (rule wp_mono [OF list_webhooks_wp [OF client]]) (use kept mutating in auto)
qed

section \<open>The certificates of the servers\<close>

lemma secret_names [simp]:
  "WebhookServerCertSecretName \<noteq> CARootSecretName" "CARootSecretName \<noteq> WebhookServerCertSecretName"
  "AuditScannerClientCertSecretName \<noteq> CARootSecretName" "CARootSecretName \<noteq> AuditScannerClientCertSecretName"
  "AuditScannerClientCertSecretName \<noteq> WebhookServerCertSecretName" "WebhookServerCertSecretName \<noteq> AuditScannerClientCertSecretName"
  by (simp_all add: WebhookServerCertSecretName_def CARootSecretName_def AuditScannerClientCertSecretName_def)

text \<open>A new version of a secret whose certificate the bundle trusts.\<close>

lemma presented_put_secret:
  "presented r (put_secret (cr_DeploymentsNamespace r, n) s st) \<subseteq> presented r st \<union>
     {(cert, dns) |cert dns. map_of (sec_data s) ServerCert = Some cert \<and>
        (n = WebhookServerCertSecretName \<and> dns = DNSName (cr_WebhookServiceName r) (cr_DeploymentsNamespace r) \<or>
         has_labels (sec_meta s) policyServerLabels \<and> dns = DNSName n (cr_DeploymentsNamespace r))}"
  unfolding presented_def served_cert_def by (auto split: if_splits)

lemma bundled_put_secret:
  assumes inv: "bundled L t0 t r h s" and n: "n \<noteq> CARootSecretName" "n \<in> controller_secrets \<Longrightarrow> \<not> has_labels (sec_meta s') policyServerLabels"
    and trust: "\<And>cert dns. map_of (sec_data s') ServerCert = Some cert \<Longrightarrow>
      n = WebhookServerCertSecretName \<and> dns = DNSName (cr_WebhookServiceName r) (cr_DeploymentsNamespace r) \<or>
      has_labels (sec_meta s') policyServerLabels \<and> dns = DNSName n (cr_DeploymentsNamespace r) \<Longrightarrow>
      trusts L t (CABundleFromSecret s) (cert, dns)"
  shows "bundled L t0 t r (put_secret (cr_DeploymentsNamespace r, n) s' (hd h) # h) s"
proof -
  let ?st = "put_secret (cr_DeploymentsNamespace r, n) s' (hd h)"
  note parts = inv [unfolded bundled_def ca_inv_def]
  have h: "h \<noteq> []" "trust_kept L t r h" using parts by blast+
  have new: "trusts L t (CABundleFromSecret s) p" if "p \<in> presented r ?st \<union> seen r h" for p
    using that presented_put_secret [of r n s' "hd h"] presented_seen [OF h(1)] trust parts by blast
  have "trust_kept L t r (?st # h)"
  proof (rule trust_kept_push [OF h(2)])
    fix b p assume "b \<in> bundles ?st" and p: "p \<in> presented r ?st \<union> seen r h"
    then have "b \<in> bundles (hd h)" by simp
    then have "b = CABundleFromSecret s" by (rule no_other_bundle [rotated]) (use parts in blast)
    then show "trusts L t b p" using new [OF p] by simp
  qed
  moreover have "separate r ?st" using parts n(2) by (auto simp: separate_def)
  moreover have "without_bundle (CABundleFromSecret s) ?st = {}" using parts by (simp add: without_bundle_def)
  moreover have "cs_secrets ?st (ca_key r) = Some s" using parts n(1) by (simp add: ca_key_def)
  ultimately show ?thesis using parts new by (simp add: bundled_def ca_inv_def seen_Cons)
qed

lemma new_cert_trusted:
  assumes laws: "x509_laws L pair hist" and clock: "clock_near L t0 t" and old: "old_root L t0 s" and good: "good_root L pair t s"
    and ca: "ExtractCARootFromSecret s = Ok (ca, key)"
    and run: "GenerateCert L ca key (xl_now L w) (xl_now L w + ServerCertExpiration) name w1 = (Ok (cert, certKey), w2)"
  shows "trusts L t (CABundleFromSecret s) (cert, name)"
proof -
  obtain caCert where root: "single_pem L ca caCert" "key_pem L pair key caCert" "xl_Verify L caCert [caCert] [] t = None"
    using good ca unfolding good_root_def by auto
  obtain old where pool: "NewCertPool L (CABundleFromSecret s) = Ok (caCert # old)"
    using bundle_pool [OF x509_lawsD(1) [OF laws] ca root(1) old] by blast
  have near: "xl_now L w \<le> t" "t \<le> xl_now L w + CertLookahead" using clock unfolding clock_near_def by blast+
  have "VerifyCert L cert None (caCert # old) name t = Ok ()"
    by (rule GenerateCert_Ok [OF laws root run]) (use near in \<open>simp_all add: CertLookahead_def ServerCertExpiration_def\<close>)
  then show ?thesis unfolding trusts_def using pool by simp
qed

lemma GenerateCert_wp:
  assumes laws: "x509_laws L pair hist" and clock: "clock_near L t0 t" and old: "old_root L t0 s" and good: "good_root L pair t s"
    and ca: "ExtractCARootFromSecret s = Ok (ca, key)"
  shows "wp (GenerateCert L ca key (xl_now L w) (xl_now L w + ServerCertExpiration) name)
    (\<lambda>x w'. hist w' = hist w1 \<and> trusts L t (CABundleFromSecret s) (fst x, name)) (\<lambda>_ w'. hist w' = hist w1) w1"
proof (rule wpI)
  fix x w' assume run: "GenerateCert L ca key (xl_now L w) (xl_now L w + ServerCertExpiration) name w1 = (Inr x, w')"
  have "trusts L t (CABundleFromSecret s) (fst x, name)"
    by (rule new_cert_trusted [OF laws clock old good ca, of w name w1 _ "snd x"]) (use run in simp)
  then show "hist w' = hist w1 \<and> trusts L t (CABundleFromSecret s) (fst x, name)"
    using run generate_keeps(2) [OF laws] unfolding keeps_history_def by blast
qed (use generate_keeps(2) [OF laws] in \<open>simp add: keeps_history_def\<close>)

text \<open>The name on the certificate of a secret.\<close>

definition right_name :: "CertReconciler \<Rightarrow> string \<Rightarrow> string \<Rightarrow> bool" where
  "right_name r n name \<longleftrightarrow>
     (n = WebhookServerCertSecretName \<longrightarrow> name = DNSName (cr_WebhookServiceName r) (cr_DeploymentsNamespace r)) \<and>
     (n \<notin> controller_secrets \<longrightarrow> name = DNSName n (cr_DeploymentsNamespace r))"

lemma rotate_cert_wp:
  assumes client: "cert_client_laws c hist" and laws: "x509_laws L pair hist" and clock: "clock_near L t0 t"
    and inv: "bundled L t0 t r (hist w) s" and good: "good_root L pair t s"
    and cs: "secret_key cs = (cr_DeploymentsNamespace r, n)" "n \<noteq> CARootSecretName" "right_name r n name"
  shows "wp (rotate_cert L c cs s checkedName name what failed)
    (\<lambda>_ w'. bundled L t0 t r (hist w') s) (\<lambda>_ w'. bundled L t0 t r (hist w') s) w"
proof (cases "ExtractCARootFromSecret s")
  case (Inl e)
  then show ?thesis using inv by (auto simp: rotate_cert_def wp_simps split: sum.split)
next
  case (Inr p)
  then obtain ca key where ca: "ExtractCARootFromSecret s = Ok (ca, key)" by (cases p) simp
  have old: "old_root L t0 s" using inv unfolding bundled_def ca_inv_def by blast
  let ?f = "\<lambda>cert certKey data. map_put (map_put data ServerCert cert) ServerPrivateKey certKey"
  have renewed: "bundled L t0 t r h' s"
    if trust: "trusts L t (CABundleFromSecret s) (cert, name)" and upd: "updated (cr_DeploymentsNamespace r, n) (?f cert certKey) (hist w) s' h'"
    for cert certKey s' h'
  proof -
    obtain s0 where s0: "cs_secrets (hd (hist w)) (cr_DeploymentsNamespace r, n) = Some s0" "om_labels (sec_meta s') = om_labels (sec_meta s0)"
        "sec_data s' = ?f cert certKey (sec_data s0)" and h': "h' = put_secret (cr_DeploymentsNamespace r, n) s' (hd (hist w)) # hist w"
      using upd unfolding updated_def by blast
    have unlabelled: "\<not> has_labels (sec_meta s') policyServerLabels" if "n \<in> controller_secrets"
      using inv s0(1,2) that unfolding bundled_def ca_inv_def separate_def has_labels_def by auto
    show ?thesis
      unfolding h'
    proof (rule bundled_put_secret [OF inv cs(2) unlabelled])
      fix cert' dns assume "map_of (sec_data s') ServerCert = Some cert'" and
        "n = WebhookServerCertSecretName \<and> dns = DNSName (cr_WebhookServiceName r) (cr_DeploymentsNamespace r) \<or>
         has_labels (sec_meta s') policyServerLabels \<and> dns = DNSName n (cr_DeploymentsNamespace r)"
      then have "cert' = cert" "dns = name" using cs(3) unlabelled by (auto simp: s0(3) right_name_def)
      then show "trusts L t (CABundleFromSecret s) (cert', dns)" using trust by simp
    qed
  qed
  let ?post = "\<lambda>_ w'. bundled L t0 t r (hist w') s"
  have put: "wp (updateSecretWithRetry L c cs (?f cert certKey)) ?post ?post w1"
    if "hist w1 = hist w" "trusts L t (CABundleFromSecret s) (cert, name)" for cert certKey w1
    by (rule wp_mono [OF updateSecretWithRetry_wp [OF client]], unfold cs(1) that(1)) (use renewed [OF that(2)] inv in auto)
  have "wp (GenerateCert L ca key (xl_now L w) (xl_now L w + ServerCertExpiration) name)
      (\<lambda>x. wp (updateSecretWithRetry L c cs (?f (fst x) (snd x))) ?post ?post) ?post w"
    by (rule wp_mono [OF GenerateCert_wp [OF laws clock old good ca]]) (use inv put in auto)
  then show ?thesis using inv
    by (simp add: rotate_cert_def wp_simps ca case_prod_beta split: sum.split)
qed

lemma create_secret_wp:
  assumes client: "cert_client_laws c hist"
  shows "wp (cc_create_secret c s)
    (\<lambda>s' w'. same_secret s s' \<and> hist w' = put_secret (secret_key s) s' (hd (hist w)) # hist w)
    (\<lambda>e w'. (e = AlreadyExists \<longrightarrow> hist w' = hist w) \<and>
       (hist w' = hist w \<or> (\<exists>s'. same_secret s s' \<and> hist w' = put_secret (secret_key s) s' (hd (hist w)) # hist w))) w"
  by (rule wpI) (use cert_client_lawsD(5) [OF client, unfolded create_law_def Let_def, rule_format, of s w] in blast)+

lemma controller_labels_separate: "om_labels meta = controllerLabels \<Longrightarrow> \<not> has_labels meta policyServerLabels"
  by (simp add: has_labels_def controllerLabels_def policyServerLabels_def PartOfLabelKey_def ComponentLabelKey_def)

lemma ensure_cert_wp:
  assumes client: "cert_client_laws c hist" and laws: "x509_laws L pair hist" and clock: "clock_near L t0 t"
    and inv: "bundled L t0 t r (hist w) s" and good: "good_root L pair t s" and ca: "ExtractCARootFromSecret s = Ok (ca, key)"
    and n: "n \<noteq> CARootSecretName" "right_name r n name"
  shows "wp (ensureSecret c (cr_DeploymentsNamespace r) n (newCertData L ca key name))
    (\<lambda>_ w'. bundled L t0 t r (hist w') s) (\<lambda>_ w'. bundled L t0 t r (hist w') s) w"
proof -
  let ?post = "\<lambda>_ w'. bundled L t0 t r (hist w') s"
  let ?new = "\<lambda>data. \<lparr>sec_meta = (meta_named n)\<lparr>om_namespace := cr_DeploymentsNamespace r, om_labels := controllerLabels\<rparr>, sec_data = data\<rparr>"
  have old: "old_root L t0 s" using inv unfolding bundled_def ca_inv_def by blast
  have get: "wp (cc_get_secret c (cr_DeploymentsNamespace r) n) ?post ?post w1" if "hist w1 = hist w" for w1
    by (rule wp_mono [OF get_secret_wp [OF client]]) (use inv that in auto)
  have stored: "bundled L t0 t r (put_secret (cr_DeploymentsNamespace r, n) s' (hd (hist w)) # hist w) s"
    if same: "same_secret (?new [(ServerCert, cert), (ServerPrivateKey, certKey)]) s'" and trust: "trusts L t (CABundleFromSecret s) (cert, name)"
    for s' cert certKey
  proof -
    have unlabelled: "\<not> has_labels (sec_meta s') policyServerLabels"
      by (rule controller_labels_separate) (use same in \<open>simp add: same_secret_def\<close>)
    show ?thesis
      by (rule bundled_put_secret [OF inv n(1) unlabelled])
        (use same trust n(2) unlabelled in \<open>auto simp: same_secret_def right_name_def\<close>)
  qed
  have key: "secret_key (?new data) = (cr_DeploymentsNamespace r, n)" for data by (simp add: secret_key_def meta_named_def)
  have create: "wp (cc_create_secret c (?new [(ServerCert, cert), (ServerPrivateKey, certKey)])) ?post
      (\<lambda>e w'. (e = AlreadyExists \<longrightarrow> hist w' = hist w) \<and> bundled L t0 t r (hist w') s) w1"
    if "hist w1 = hist w" "trusts L t (CABundleFromSecret s) (cert, name)" for cert certKey w1
    by (rule wp_mono [OF create_secret_wp [OF client]], unfold key that(1)) (use inv stored [OF _ that(2)] in auto)
  have made: "wp (newCertData L ca key name) (\<lambda>data w'. hist w' = hist w \<and> (\<exists>cert certKey. data = [(ServerCert, cert), (ServerPrivateKey, certKey)] \<and>
      trusts L t (CABundleFromSecret s) (cert, name))) ?post w1" if "hist w1 = hist w" for w1
    unfolding newCertData_def wp_simps
    by (rule wp_mono [OF GenerateCert_wp [OF laws clock old good ca]]) (use inv that in \<open>auto simp: wp_simps case_prod_beta\<close>)
  have rest: "wp (act_then (newCertData L ca key name) (\<lambda>data. act_case (cc_create_secret c (?new data))
      (\<lambda>err. if err \<noteq> AlreadyExists then act_err (''failed to create secret '' @ quoted n @ '': '' @ create_error_text err)
         else act_map_err (wrap_err (''failed to get secret '' @ quoted n)) (cc_get_secret c (cr_DeploymentsNamespace r) n)) act_ok)) ?post ?post w1"
    if w1: "hist w1 = hist w" for w1
    unfolding wp_then
  proof (rule wp_mono [OF made [OF w1]], elim conjE exE, hypsubst)
    fix w2 cert certKey assume "hist w2 = hist w" "trusts L t (CABundleFromSecret s) (cert, name)"
    from create [OF this, of certKey] show "wp (act_case (cc_create_secret c (?new [(ServerCert, cert), (ServerPrivateKey, certKey)]))
        (\<lambda>err. if err \<noteq> AlreadyExists then act_err (''failed to create secret '' @ quoted n @ '': '' @ create_error_text err)
         else act_map_err (wrap_err (''failed to get secret '' @ quoted n)) (cc_get_secret c (cr_DeploymentsNamespace r) n)) act_ok) ?post ?post w2"
      unfolding wp_case by (rule wp_mono) (use get in \<open>auto simp: wp_simps\<close>)
  qed
  show ?thesis
    unfolding ensureSecret_def wp_case
    by (rule wp_mono [OF get_secret_wp [OF client]]) (use inv rest in \<open>auto simp: wp_ok wp_err wp_if\<close>)
qed

section \<open>A pass\<close>

lemma right_names:
  "right_name r WebhookServerCertSecretName (DNSName (cr_WebhookServiceName r) (cr_DeploymentsNamespace r))"
  "right_name r AuditScannerClientCertSecretName name"
  "n \<notin> controller_secrets \<Longrightarrow> right_name r n (DNSName n (cr_DeploymentsNamespace r))"
  by (auto simp: right_name_def controller_secrets_def)

lemma ensure_signed_wp:
  assumes client: "cert_client_laws c hist" and laws: "x509_laws L pair hist" and clock: "clock_near L t0 t"
    and inv: "bundled L t0 t r (hist w) s" and good: "good_root L pair t s"
  shows "wp (EnsureSignedCertificateSecrets L c (cr_DeploymentsNamespace r) (cr_WebhookServiceName r) s)
    (\<lambda>_ w'. bundled L t0 t r (hist w') s) (\<lambda>_ w'. bundled L t0 t r (hist w') s) w"
proof -
  obtain ca key where ca: "ExtractCARootFromSecret s = Ok (ca, key)" using good unfolding good_root_def by blast
  note ensure = ensure_cert_wp [OF client laws clock _ good ca]
  have audit: "wp (ensureSecret c (cr_DeploymentsNamespace r) AuditScannerClientCertSecretName (newCertData L ca key AuditScannerClientCertCommonName))
      (\<lambda>_ w'. bundled L t0 t r (hist w') s) (\<lambda>_ w'. bundled L t0 t r (hist w') s) w1" if "bundled L t0 t r (hist w1) s" for w1
    by (rule ensure [OF that _ right_names(2)]) simp
  show ?thesis
    by (simp add: EnsureSignedCertificateSecrets_def wp_simps ca)
      (rule wp_mono [OF ensure [OF inv _ right_names(1)]], use audit in simp_all)
qed

lemma rotate_each_wp:
  assumes client: "cert_client_laws c hist" and laws: "x509_laws L pair hist" and clock: "clock_near L t0 t" and good: "good_root L pair t s"
  shows "bundled L t0 t r (hist w) s \<Longrightarrow>
    (\<forall>x\<in>set ss. secret_key x = (cr_DeploymentsNamespace r, om_name (sec_meta x)) \<and> om_name (sec_meta x) \<notin> controller_secrets) \<Longrightarrow>
    wp (rotate_each L c r s ss errs) (\<lambda>_ w'. bundled L t0 t r (hist w') s) (\<lambda>_ w'. bundled L t0 t r (hist w') s) w"
proof (induction ss arbitrary: w errs)
  case Nil
  then show ?case by (simp add: wp_simps)
next
  case (Cons x ss)
  have "wp (reconcileServerCert L c r x s (om_name (sec_meta x))) (\<lambda>_ w'. bundled L t0 t r (hist w') s) (\<lambda>_ w'. bundled L t0 t r (hist w') s) w"
    unfolding reconcileServerCert_def Let_def
    by (rule rotate_cert_wp [OF client laws clock Cons.prems(1) good]) (use Cons.prems(2) in \<open>auto simp: controller_secrets_def intro!: right_names(3)\<close>)
  then show ?case unfolding rotate_each.simps wp_case by (rule wp_mono) (use Cons in auto)
qed

lemma reconcileServerCerts_wp:
  assumes client: "cert_client_laws c hist" and laws: "x509_laws L pair hist" and clock: "clock_near L t0 t"
    and inv: "bundled L t0 t r (hist w) s" and good: "good_root L pair t s"
  shows "wp (reconcileServerCerts L c r s) (\<lambda>_ w'. bundled L t0 t r (hist w') s) (\<lambda>_ w'. bundled L t0 t r (hist w') s) w"
proof -
  let ?post = "\<lambda>_ w'. bundled L t0 t r (hist w') s"
  note key = history_lawD(2) [OF cert_client_lawsD(1) [OF client]]
  have webhook: "wp (reconcileServerCert L c r x s (cr_WebhookServiceName r)) ?post ?post w1"
    if "hist w1 = hist w" "cs_secrets (hd (hist w)) (cr_DeploymentsNamespace r, WebhookServerCertSecretName) = Some x" for x w1
    unfolding reconcileServerCert_def Let_def
    by (rule rotate_cert_wp [OF client laws clock _ good key [OF that(2)] _ right_names(1)]) (use inv that(1) in simp_all)
  have join: "wp (errors_Join errs) ?post ?post w1 = bundled L t0 t r (hist w1) s" for errs w1 by (simp add: errors_Join_def wp_simps)
  have each: "wp (rotate_each L c r s ss errs) ?post ?post w2"
    if w1: "bundled L t0 t r (hist w1) s" and w2: "hist w2 = hist w1"
      and ss: "set ss = {x. \<exists>n. cs_secrets (hd (hist w1)) (cr_DeploymentsNamespace r, n) = Some x \<and> has_labels (sec_meta x) policyServerLabels}" for w1 w2 ss errs
  proof -
    have "secret_key x = (cr_DeploymentsNamespace r, om_name (sec_meta x)) \<and> om_name (sec_meta x) \<notin> controller_secrets" if x: "x \<in> set ss" for x
    proof -
      obtain n where n: "cs_secrets (hd (hist w1)) (cr_DeploymentsNamespace r, n) = Some x" "has_labels (sec_meta x) policyServerLabels" using x ss by blast
      have "secret_key x = (cr_DeploymentsNamespace r, n)" using key [OF n(1)] .
      moreover have "n \<notin> controller_secrets" using w1 n unfolding bundled_def ca_inv_def separate_def by blast
      ultimately show ?thesis by (simp add: secret_key_def)
    qed
    then show ?thesis using w1 w2 by (intro rotate_each_wp [OF client laws clock good]) simp_all
  qed
  have policies: "wp (act_case (cc_list_secrets c (cr_DeploymentsNamespace r) policyServerLabels)
      (\<lambda>e. errors_Join (errs @ [wrap_err ''failed to list policy server cert secrets'' e]))
      (\<lambda>ss. act_then (rotate_each L c r s ss errs) errors_Join)) ?post ?post w1" if w1: "bundled L t0 t r (hist w1) s" for errs w1
    unfolding wp_case wp_then join
    by (rule wp_mono [OF list_secrets_wp [OF client]]) (use each [OF w1] w1 in auto)
  have "wp (cc_get_secret c (cr_DeploymentsNamespace r) WebhookServerCertSecretName)
      (\<lambda>x. wp (reconcileServerCert L c r x s (cr_WebhookServiceName r)) ?post ?post) ?post w"
    by (rule wp_mono [OF get_secret_wp [OF client]]) (use webhook inv in auto)
  then have "wp (act_case (cc_get_secret c (cr_DeploymentsNamespace r) WebhookServerCertSecretName)
      (\<lambda>e. act_ok [wrap_err ''failed to get webhook server cert secret'' e])
      (\<lambda>x. act_case (reconcileServerCert L c r x s (cr_WebhookServiceName r)) (\<lambda>e. act_ok [''failed to rotate server cert: '' @ e]) (\<lambda>_. act_ok []))) ?post ?post w"
    by (simp only: wp_case wp_ok)
  then show ?thesis unfolding reconcileServerCerts_def wp_then by (rule wp_mono) (use policies in auto)
qed

lemma reconcileAuditScannerClientCert_wp:
  assumes client: "cert_client_laws c hist" and laws: "x509_laws L pair hist" and clock: "clock_near L t0 t"
    and inv: "bundled L t0 t r (hist w) s" and good: "good_root L pair t s"
  shows "wp (reconcileAuditScannerClientCert L c r s) (\<lambda>_ w'. bundled L t0 t r (hist w') s) (\<lambda>_ w'. bundled L t0 t r (hist w') s) w"
proof -
  have "wp (rotate_cert L c x s [] AuditScannerClientCertCommonName ''client'' ''failed to generate client cert: '')
      (\<lambda>_ w'. bundled L t0 t r (hist w') s) (\<lambda>_ w'. bundled L t0 t r (hist w') s) w1"
    if "hist w1 = hist w" "cs_secrets (hd (hist w)) (cr_DeploymentsNamespace r, AuditScannerClientCertSecretName) = Some x" for x w1
    by (rule rotate_cert_wp [OF client laws clock _ good history_lawD(2) [OF cert_client_lawsD(1) [OF client] that(2)] _ right_names(2)])
      (use inv that(1) in simp_all)
  then show ?thesis unfolding reconcileAuditScannerClientCert_def wp_case
    by (rule_tac wp_mono [OF get_secret_wp [OF client]]) (use inv in \<open>auto simp: wp_simps\<close>)
qed

lemma EnsureCARootSecret_wp:
  assumes client: "cert_client_laws c hist" and s: "cs_secrets (hd (hist w)) (ca_key r) = Some s"
  shows "wp (EnsureCARootSecret L c (cr_DeploymentsNamespace r)) (\<lambda>s' w'. s' = s \<and> hist w' = hist w) (\<lambda>_ w'. hist w' = hist w) w"
  unfolding EnsureCARootSecret_def ensureSecret_def wp_case
  by (rule wp_mono [OF get_secret_wp [OF client]]) (use s in \<open>auto simp: wp_simps ca_key_def\<close>)

lemma sign_all_wp:
  assumes client: "cert_client_laws c hist" and laws: "x509_laws L pair hist" and clock: "clock_near L t0 t"
    and inv: "bundled L t0 t r (hist w) s" and good: "good_root L pair t s"
  shows "wp (act_then (act_try (reconcileServerCerts L c r s)) (\<lambda>servers.
      act_then (act_try (reconcileAuditScannerClientCert L c r s)) (\<lambda>client. errors_Join (f servers client))))
    (\<lambda>_ w'. bundled L t0 t r (hist w') s) (\<lambda>_ w'. bundled L t0 t r (hist w') s) w"
proof -
  have join: "wp (errors_Join errs) (\<lambda>_ w'. bundled L t0 t r (hist w') s) (\<lambda>_ w'. bundled L t0 t r (hist w') s) w1 =
      bundled L t0 t r (hist w1) s" for errs w1 by (simp add: errors_Join_def wp_simps)
  have "wp (reconcileAuditScannerClientCert L c r s) (\<lambda>_ w'. bundled L t0 t r (hist w') s) (\<lambda>_ w'. bundled L t0 t r (hist w') s) w1"
    if "bundled L t0 t r (hist w1) s" for w1
    by (rule reconcileAuditScannerClientCert_wp [OF client laws clock that good])
  then show ?thesis unfolding act_try_def wp_simps join
    by (rule_tac wp_mono [OF reconcileServerCerts_wp [OF client laws clock inv good]]) auto
qed

lemma wp_chain:
  assumes "wp m P' Q' w" "\<And>a w'. P' a w' \<Longrightarrow> wp (f a) P Q w'" "\<And>e w'. Q' e w' \<Longrightarrow> Q (g e) w'"
  shows "wp (act_then (act_map_err g m) f) P Q w"
  unfolding wp_then wp_map_err by (rule wp_mono [OF assms])

lemma bundled_kept: "bundled L t0 t r h s \<Longrightarrow> trust_kept L t r h"
  unfolding bundled_def ca_inv_def by blast

lemma reconcile_certs_wp:
  assumes client: "cert_client_laws c hist" and laws: "x509_laws L pair hist" and clock: "clock_near L t0 t"
    and inv: "ca_inv L t0 t r (hist w) s" and ready: "root_ready L t0 t r (hist w) s"
  shows "wp (reconcile_certs L c r) (\<lambda>_ w'. \<exists>s'. bundled L t0 t r (hist w') s' \<and> good_root L pair t s') (\<lambda>_ w'. trust_kept L t r (hist w')) w"
proof -
  let ?P = "\<lambda>(_ :: unit) w'. \<exists>s'. bundled L t0 t r (hist w') s' \<and> good_root L pair t s'" and ?Q = "\<lambda>(_ :: string) w'. trust_kept L t r (hist w')"
  have sign: "wp (act_then (act_map_err g (EnsureSignedCertificateSecrets L c (cr_DeploymentsNamespace r) (cr_WebhookServiceName r) s')) (\<lambda>_.
      act_then (act_try (reconcileServerCerts L c r s')) (\<lambda>servers.
      act_then (act_try (reconcileAuditScannerClientCert L c r s')) (\<lambda>client. errors_Join (f servers client))))) ?P ?Q w1"
    if good: "good_root L pair t s'" and b: "bundled L t0 t r (hist w1) s'" for s' w1 f g
    unfolding wp_then [of "act_map_err _ _"] wp_map_err
    by (rule wp_mono [OF ensure_signed_wp [OF client laws clock b good]])
      (use good in \<open>auto intro: bundled_kept intro!: wp_mono [OF sign_all_wp [OF client laws clock _ good]]\<close>)
  note root = reconcileCARoot_wp [OF client laws clock, of r] and old = reconcileOldCARoot_wp [OF client laws clock, of r]
    and bun = reconcileCABundles_wp [OF client, of L t0 t r]
  have s: "cs_secrets (hd (hist w)) (ca_key r) = Some s" and kept: "trust_kept L t r (hist w)" using inv unfolding ca_inv_def by blast+
  show ?thesis
    unfolding reconcile_certs_def
    apply (rule wp_chain [OF EnsureCARootSecret_wp [OF client s]])
     apply (rule wp_chain [OF root], use inv in simp, use ready in simp)
      apply (rule wp_chain [OF old], simp, simp)
       apply (rule wp_chain [OF bun], simp)
        apply (rule sign, simp, simp)
       apply (simp_all add: kept)
    done
qed

end
