(* ===== verification/Cert_Rotation.thy ===== *)
theory Cert_Rotation
  imports Cert_Trust
begin

text \<open>
  A rotation of the certificates never breaks the trust in the servers: the theorem about a pass
  of the certificate controller, and a cluster with packages for certificates in which a CA root
  that is about to expire is replaced.
\<close>

section \<open>A cluster with two CA roots\<close>

text \<open>The state after the changes, the latest change first.\<close>

datatype cluster_event = Stored Secret | Patched webhook_kind WebhookConfiguration

fun apply_event :: "cluster_event \<Rightarrow> cert_cluster \<Rightarrow> cert_cluster" where
  "apply_event (Stored s) st = put_secret (secret_key s) s st"
| "apply_event (Patched kind wc) st = put_webhook kind (om_name (wc_meta wc)) wc st"

definition empty_cluster :: cert_cluster where
  "empty_cluster = \<lparr>cs_secrets = (\<lambda>_. None), cs_webhooks = (\<lambda>_ _. None)\<rparr>"

definition state_of :: "cluster_event list \<Rightarrow> cert_cluster" where
  "state_of es = foldr apply_event es empty_cluster"

text \<open>A cluster that began with some objects, and its history.\<close>

record sample_world =
  sw_base :: "cluster_event list"
  sw_events :: "cluster_event list"

definition sw_all :: "sample_world \<Rightarrow> cluster_event list" where
  "sw_all w = sw_events w @ sw_base w"

primrec history_of :: "cluster_event list \<Rightarrow> cluster_event list \<Rightarrow> cert_cluster list" where
  "history_of base [] = [state_of base]"
| "history_of base (e # es) = state_of (e # es @ base) # history_of base es"

definition sample_history :: "sample_world \<Rightarrow> cert_cluster list" where
  "sample_history w = history_of (sw_base w) (sw_events w)"

definition add_event :: "cluster_event \<Rightarrow> sample_world \<Rightarrow> sample_world" where
  "add_event e w = w\<lparr>sw_events := e # sw_events w\<rparr>"

lemma sample_history_simps [simp]:
  "hd (sample_history w) = state_of (sw_all w)" "sample_history w \<noteq> []"
  "sample_history (add_event e w) = apply_event e (state_of (sw_all w)) # sample_history w"
  by (cases "sw_events w"; simp add: sample_history_def sw_all_def add_event_def state_of_def)+

lemma state_of_keyed:
  "cs_secrets (state_of es) k = Some s \<Longrightarrow> secret_key s = k \<and> Stored s \<in> set es"
  "cs_webhooks (state_of es) kind n = Some wc \<Longrightarrow> om_name (wc_meta wc) = n \<and> Patched kind wc \<in> set es"
proof (induction es)
  case Nil
  { case 1 then show ?case by (simp add: state_of_def empty_cluster_def) }
  { case 2 then show ?case by (simp add: state_of_def empty_cluster_def) }
next
  case (Cons e es)
  have "state_of (e # es) = apply_event e (state_of es)" by (simp add: state_of_def)
  then show "cs_secrets (state_of (e # es)) k = Some s \<Longrightarrow> secret_key s = k \<and> Stored s \<in> set (e # es)"
    "cs_webhooks (state_of (e # es)) kind n = Some wc \<Longrightarrow> om_name (wc_meta wc) = n \<and> Patched kind wc \<in> set (e # es)"
    using Cons by (cases e; auto split: if_splits)+
qed

fun secrets_in :: "cluster_event list \<Rightarrow> Secret list" where
  "secrets_in [] = []"
| "secrets_in (Stored s # es) = s # secrets_in es"
| "secrets_in (_ # es) = secrets_in es"

fun webhooks_in :: "webhook_kind \<Rightarrow> cluster_event list \<Rightarrow> WebhookConfiguration list" where
  "webhooks_in kind [] = []"
| "webhooks_in kind (Patched k wc # es) = (if k = kind then [wc] else []) @ webhooks_in kind es"
| "webhooks_in kind (_ # es) = webhooks_in kind es"

lemma objects_in:
  "set (secrets_in es) = {s. Stored s \<in> set es}" "set (webhooks_in kind es) = {wc. Patched kind wc \<in> set es}"
  by (induction es rule: secrets_in.induct) auto

definition stored_secrets :: "sample_world \<Rightarrow> Secret list" where
  "stored_secrets w = remdups (filter (\<lambda>s. cs_secrets (state_of (sw_all w)) (secret_key s) = Some s) (secrets_in (sw_all w)))"

definition stored_webhooks :: "webhook_kind \<Rightarrow> sample_world \<Rightarrow> WebhookConfiguration list" where
  "stored_webhooks kind w =
     remdups (filter (\<lambda>wc. cs_webhooks (state_of (sw_all w)) kind (om_name (wc_meta wc)) = Some wc) (webhooks_in kind (sw_all w)))"

definition rotation_client :: "sample_world cert_client" where
  "rotation_client =
     \<lparr>cc_get_secret = (\<lambda>ns n w. (case cs_secrets (state_of (sw_all w)) (ns, n) of Some s \<Rightarrow> Ok s | None \<Rightarrow> Err NotFound, w)),
      cc_create_secret = (\<lambda>s w. if cs_secrets (state_of (sw_all w)) (secret_key s) = None then (Ok s, add_event (Stored s) w) else (Err AlreadyExists, w)),
      cc_update_secret = (\<lambda>s w. if cs_secrets (state_of (sw_all w)) (secret_key s) = None then (Err NotFound, w) else (Ok s, add_event (Stored s) w)),
      cc_create_or_patch_secret = (\<lambda>_ _ w. (Err ''unused'', w)),
      cc_list_secrets = (\<lambda>ns ls w. (Ok (filter (\<lambda>s. om_namespace (sec_meta s) = ns \<and> has_labels (sec_meta s) ls) (stored_secrets w)), w)),
      cc_list_webhooks = (\<lambda>kind ls w. (Ok (filter (\<lambda>wc. has_labels (wc_meta wc) ls) (stored_webhooks kind w)), w)),
      cc_patch_webhook = (\<lambda>kind original new w.
        if cs_webhooks (state_of (sw_all w)) kind (om_name (wc_meta original)) = None then (Err NotFound, w)
        else if cs_webhooks (state_of (sw_all w)) kind (om_name (wc_meta original)) \<noteq> Some original \<or> om_name (wc_meta new) \<noteq> om_name (wc_meta original)
        then (Err Conflict, w) else (Ok (), add_event (Patched kind new) w)),
      cc_create_or_update_webhook = (\<lambda>_ _ _ w. (Err Conflict, w)), cc_manifests = Err ''unused'', cc_poll_key_pair = (\<lambda>_ _ _ w. (Err ''unused'', w))\<rparr>"

lemma set_stored:
  "set (stored_secrets w) = {s. cs_secrets (state_of (sw_all w)) (secret_key s) = Some s}"
  "set (stored_webhooks kind w) = {wc. cs_webhooks (state_of (sw_all w)) kind (om_name (wc_meta wc)) = Some wc}"
  by (auto simp: stored_secrets_def stored_webhooks_def objects_in dest: state_of_keyed)

lemma stored_under:
  "(\<exists>n. cs_secrets (state_of es) (ns, n) = Some s) \<longleftrightarrow> om_namespace (sec_meta s) = ns \<and> cs_secrets (state_of es) (secret_key s) = Some s"
proof
  assume "\<exists>n. cs_secrets (state_of es) (ns, n) = Some s"
  then obtain n where n: "cs_secrets (state_of es) (ns, n) = Some s" by blast
  then have "secret_key s = (ns, n)" using state_of_keyed(1) by blast
  then show "om_namespace (sec_meta s) = ns \<and> cs_secrets (state_of es) (secret_key s) = Some s" using n by (simp add: secret_key_def)
qed (auto simp: secret_key_def)

lemma distinct_filter_map: "distinct (map (\<lambda>wc. om_name (wc_meta wc)) (filter P (stored_webhooks kind w)))"
proof -
  have "inj_on (\<lambda>wc. om_name (wc_meta wc)) (set (filter P (stored_webhooks kind w)))"
    by (rule inj_onI) (simp add: set_stored)
  then show ?thesis by (simp add: distinct_map stored_webhooks_def)
qed

lemma rotation_client_laws: "cert_client_laws rotation_client sample_history"
  unfolding cert_client_laws_def
proof (intro conjI)
  show "history_law sample_history" using state_of_keyed unfolding history_law_def by auto
  show "get_law rotation_client sample_history" by (auto simp: get_law_def rotation_client_def split: option.splits)
  show "list_secrets_law rotation_client sample_history"
    by (auto simp: list_secrets_law_def rotation_client_def set_stored stored_under)
  show "list_webhooks_law rotation_client sample_history"
    by (auto simp: list_webhooks_law_def rotation_client_def set_stored distinct_filter_map dest: state_of_keyed(2))
  show "create_law rotation_client sample_history" by (auto simp: create_law_def rotation_client_def same_secret_def Let_def split: if_splits)
  show "update_law rotation_client sample_history" by (auto simp: update_law_def rotation_client_def same_secret_def Let_def split: if_splits)
  show "patch_law rotation_client sample_history" by (auto simp: patch_law_def rotation_client_def same_webhooks_def Let_def split: if_splits)
qed

section \<open>Packages for certificates\<close>

text \<open>
  There are two key pairs.  The CA root of the first one expires; certificates are signed by one
  of them, for one name.  PEM texts are terminated strings with marked characters.
\<close>

datatype sample_cert = Root bool | Leaf bool string

definition sample_now :: nat where "sample_now = 1000"
definition old_root_end :: nat where "old_root_end = 2000"
definition sample_later :: nat where "sample_later = 1500"

definition bit_text :: "bool \<Rightarrow> string" where "bit_text b = (if b then ''1'' else ''0'')"

fun parse_bit :: "string \<Rightarrow> string + bool" where
  "parse_bit [c] = (if c = CHR ''1'' then Ok True else if c = CHR ''0'' then Ok False else Err ''not a key'')"
| "parse_bit _ = Err ''not a key''"

fun cert_text :: "sample_cert \<Rightarrow> string" where
  "cert_text (Root k) = CHR ''R'' # bit_text k"
| "cert_text (Leaf k name) = CHR ''L'' # bit_text k @ name"

fun parse_cert :: "string \<Rightarrow> string + sample_cert" where
  "parse_cert (c # b # name) =
     (case parse_bit [b] of
        Inl e \<Rightarrow> Err e
      | Inr k \<Rightarrow> if c = CHR ''R'' \<and> name = [] then Ok (Root k) else if c = CHR ''L'' then Ok (Leaf k name) else Err ''not a certificate'')"
| "parse_cert _ = Err ''not a certificate''"

fun marked :: "string \<Rightarrow> string" where
  "marked [] = ''.''"
| "marked (c # cs) = CHR ''+'' # c # marked cs"

fun unmark :: "string \<Rightarrow> (string \<times> string) option" where
  "unmark [] = None"
| "unmark (m # cs) =
     (if m = CHR ''.'' then Some ([], cs)
      else case cs of [] \<Rightarrow> None | c # cs' \<Rightarrow> map_option (\<lambda>(s, rest). (c # s, rest)) (unmark cs'))"

definition sample_Encode :: "pem_Block \<Rightarrow> string" where
  "sample_Encode block = marked (pem_Type block) @ marked (pem_Bytes block)"

definition sample_Decode :: "string \<Rightarrow> pem_Block option \<times> string" where
  "sample_Decode pem =
     (case unmark pem of
        None \<Rightarrow> (None, pem)
      | Some (type, rest) \<Rightarrow>
          (case unmark rest of
             None \<Rightarrow> (None, pem)
           | Some (bytes, rest') \<Rightarrow> (Some \<lparr>pem_Type = type, pem_Bytes = bytes\<rparr>, rest')))"

definition root_good :: "bool \<Rightarrow> sample_cert list \<Rightarrow> nat \<Rightarrow> bool" where
  "root_good k roots t \<longleftrightarrow> Root k \<in> set roots \<and> (k \<or> t \<le> old_root_end)"

fun sample_Verify :: "sample_cert \<Rightarrow> sample_cert list \<Rightarrow> string \<Rightarrow> nat \<Rightarrow> string option" where
  "sample_Verify (Root k) roots dns t = (if root_good k roots t \<and> dns = [] then None else Some ''not verified'')"
| "sample_Verify (Leaf k name) roots dns t = (if root_good k roots t \<and> (dns = [] \<or> dns = name) then None else Some ''not verified'')"

fun sample_pair :: "sample_cert \<Rightarrow> bool \<Rightarrow> bool" where
  "sample_pair (Root k) key \<longleftrightarrow> key = k"
| "sample_pair (Leaf _ _) key \<longleftrightarrow> True"

definition sample_KeyPair :: "string \<Rightarrow> string \<Rightarrow> string option" where
  "sample_KeyPair certPEM keyPEM =
     (case (fst (sample_Decode certPEM), fst (sample_Decode keyPEM)) of
        (Some cert, Some key) \<Rightarrow>
          (case (parse_cert (pem_Bytes cert), parse_bit (pem_Bytes key)) of
             (Inr c, Inr k) \<Rightarrow> if sample_pair c k then None else Some ''no pair''
           | _ \<Rightarrow> Some ''no pair'')
      | _ \<Rightarrow> Some ''no pair'')"

fun sample_Create :: "x509_Certificate \<Rightarrow> x509_Certificate + sample_cert \<Rightarrow> bool \<Rightarrow> bool \<Rightarrow> string + string" where
  "sample_Create template (Inl parent) key signer = (if key \<and> signer then Ok (cert_text (Root True)) else Err ''key is in use'')"
| "sample_Create template (Inr ca) key signer =
     (case x_DNSNames template of [name] \<Rightarrow> if ca = Root signer then Ok (cert_text (Leaf signer name)) else Err ''not the key of the CA''
      | _ \<Rightarrow> Err ''one name expected'')"

definition rotation_library :: "(sample_cert, bool, sample_world) x509_library" where
  "rotation_library =
     \<lparr>xl_now = (\<lambda>_. sample_now), xl_rand_Int = (\<lambda>_. act_ok 7), xl_GenerateKey = act_ok True,
      xl_CreateCertificate = (\<lambda>template parent key signer. act_pure (sample_Create template parent key signer)),
      xl_ParseCertificate = parse_cert, xl_ParseECPrivateKey = parse_bit, xl_MarshalECPrivateKey = (\<lambda>k. Ok (bit_text k)),
      xl_pem_Decode = sample_Decode, xl_pem_Encode = (\<lambda>block. Ok (sample_Encode block)), xl_X509KeyPair = sample_KeyPair,
      xl_Verify = sample_Verify, xl_retry_steps = 4\<rparr>"

lemma unmark_marked [simp]: "unmark (marked s @ rest) = Some (s, rest)"
  by (induction s) simp_all

lemma unmark_consumes: "unmark pem = Some (s, rest) \<Longrightarrow> length rest < length pem"
  by (induction pem arbitrary: s rest rule: unmark.induct) (force split: if_splits list.splits)+

lemma parse_texts [simp]: "parse_bit (bit_text k) = Ok k" "parse_cert (cert_text c) = Ok c"
  by (simp add: bit_text_def) (cases c; simp add: bit_text_def)

lemma sample_Decode_Encode [simp]: "sample_Decode (sample_Encode block @ rest) = (Some block, rest)"
  by (simp add: sample_Decode_def sample_Encode_def)

lemma sample_Decode_consumes:
  assumes "sample_Decode pem = (Some block, rest)"
  shows "length rest < length pem"
proof -
  obtain type r bytes where "unmark pem = Some (type, r)" "unmark r = Some (bytes, rest)"
    using assms by (auto simp: sample_Decode_def split: option.splits)
  then show ?thesis by (auto dest!: unmark_consumes)
qed

lemma sample_pem_laws: "pem_laws rotation_library"
proof -
  have "sample_Encode block \<noteq> []" for block by (cases "pem_Type block") (simp_all add: sample_Encode_def)
  moreover have "sample_Decode [] = (None, [])" by (simp add: sample_Decode_def)
  ultimately show ?thesis using sample_Decode_consumes by (auto simp: pem_laws_def pem_consumes_def rotation_library_def)
qed

lemma sample_signing_laws: "signing_laws rotation_library sample_pair"
  unfolding signing_laws_def
  by (intro conjI allI impI; clarsimp simp: rotation_library_def act_pure_def root_good_def simp del: cert_text.simps split: if_splits list.splits)

lemma sample_Verify_roots:
  "sample_Verify cert roots dns t = None \<Longrightarrow> set roots \<subseteq> set roots' \<Longrightarrow> sample_Verify cert roots' dns t = None"
  "sample_Verify root [root] [] t \<noteq> None \<Longrightarrow> sample_Verify cert (root # roots) dns t = None \<Longrightarrow> sample_Verify cert roots dns t = None"
  by (cases cert; cases root; auto simp: root_good_def split: if_splits)+

lemma sample_root_laws: "root_laws rotation_library"
proof -
  have "xl_Verify rotation_library = sample_Verify" by (simp add: rotation_library_def)
  then show ?thesis unfolding root_laws_def using sample_Verify_roots by metis
qed

lemma rotation_library_laws: "x509_laws rotation_library sample_pair sample_history"
proof -
  have "key_laws rotation_library sample_pair" by (auto simp: key_laws_def rotation_library_def sample_KeyPair_def split: if_splits)
  then show ?thesis unfolding x509_laws_def
    using sample_pem_laws sample_signing_laws sample_root_laws by (simp add: rotation_library_def keeps_intros)
qed

section \<open>A CA root that is about to expire\<close>

definition cert_pem :: "sample_cert \<Rightarrow> string" where
  "cert_pem cert = sample_Encode \<lparr>pem_Type = ''CERTIFICATE'', pem_Bytes = cert_text cert\<rparr>"

definition private_pem :: "bool \<Rightarrow> string" where
  "private_pem k = sample_Encode \<lparr>pem_Type = ''EC PRIVATE KEY'', pem_Bytes = bit_text k\<rparr>"

definition sample_secret :: "string \<Rightarrow> (string \<times> string) list \<Rightarrow> (string \<times> string) list \<Rightarrow> Secret" where
  "sample_secret name labels data = \<lparr>sec_meta = (meta_named name)\<lparr>om_namespace := ''kw'', om_labels := labels\<rparr>, sec_data = data\<rparr>"

definition rotation_reconciler :: CertReconciler where
  "rotation_reconciler = \<lparr>cr_DeploymentsNamespace = ''kw'', cr_WebhookServiceName = ''hooks''\<rparr>"

definition expiring_root :: Secret where
  "expiring_root = sample_secret CARootSecretName controllerLabels [(CARootCert, cert_pem (Root False)), (CARootPrivateKey, private_pem False)]"

definition webhooks_cert :: Secret where
  "webhooks_cert = sample_secret WebhookServerCertSecretName controllerLabels
     [(ServerCert, cert_pem (Leaf False ''hooks.kw.svc'')), (ServerPrivateKey, private_pem False)]"

definition server_cert :: Secret where
  "server_cert = sample_secret ''ps'' policyServerLabels
     [(ServerCert, cert_pem (Leaf False ''ps.kw.svc'')), (ServerPrivateKey, private_pem False)]"

definition sample_hook :: WebhookConfiguration where
  "sample_hook = \<lparr>wc_meta = (meta_named ''hook'')\<lparr>om_labels := kubewardenLabels\<rparr>,
     wc_webhooks = [\<lparr>wh_name = ''p'', wh_service = \<lparr>svcref_namespace = ''kw'', svcref_name = ''ps'', svcref_path = None, svcref_port = None\<rparr>,
       wh_caBundle = cert_pem (Root False), wh_rules = [], wh_failurePolicy = None, wh_matchPolicy = None, wh_namespaceSelector = None,
       wh_objectSelector = None, wh_sideEffects = None, wh_timeoutSeconds = None, wh_admissionReviewVersions = [''v1''], wh_matchConditions = []\<rparr>]\<rparr>"

definition expiring_world :: sample_world where
  "expiring_world = \<lparr>sw_base = [Stored expiring_root, Stored webhooks_cert, Stored server_cert, Patched Validating sample_hook], sw_events = []\<rparr>"

definition expiring_state :: cert_cluster where
  "expiring_state = put_secret (''kw'', CARootSecretName) expiring_root (put_secret (''kw'', WebhookServerCertSecretName) webhooks_cert
     (put_secret (''kw'', ''ps'') server_cert (put_webhook Validating ''hook'' sample_hook empty_cluster)))"

lemma expiring_history: "sample_history expiring_world = [expiring_state]"
  by (simp add: sample_history_def expiring_world_def state_of_def expiring_state_def secret_key_def expiring_root_def webhooks_cert_def
      server_cert_def sample_hook_def sample_secret_def meta_named_def)

lemma sample_labels:
  "\<not> has_labels (sec_meta expiring_root) policyServerLabels" "\<not> has_labels (sec_meta webhooks_cert) policyServerLabels"
  "has_labels (sec_meta server_cert) policyServerLabels" "has_labels (wc_meta sample_hook) kubewardenLabels"
  by (simp_all add: has_labels_def expiring_root_def webhooks_cert_def server_cert_def sample_hook_def sample_secret_def controllerLabels_def
      policyServerLabels_def kubewardenLabels_def PartOfLabelKey_def ComponentLabelKey_def PartOfLabelValue_def)

lemma sample_names [simp]:
  "''ps'' \<noteq> CARootSecretName" "''ps'' \<noteq> WebhookServerCertSecretName" "''ps'' \<noteq> AuditScannerClientCertSecretName"
  "CARootSecretName \<noteq> ''ps''" "WebhookServerCertSecretName \<noteq> ''ps''" "AuditScannerClientCertSecretName \<noteq> ''ps''"
  by (simp_all add: CARootSecretName_def WebhookServerCertSecretName_def AuditScannerClientCertSecretName_def)

lemma expiring_presented:
  "presented rotation_reconciler expiring_state =
     {(cert_pem (Leaf False ''hooks.kw.svc''), ''hooks.kw.svc''), (cert_pem (Leaf False ''ps.kw.svc''), ''ps.kw.svc'')}"
proof -
  have served: "served_cert expiring_state (''kw'', n) = Some (l, cert) \<longleftrightarrow>
      n = WebhookServerCertSecretName \<and> l = False \<and> cert = cert_pem (Leaf False ''hooks.kw.svc'') \<or>
      n = ''ps'' \<and> l = True \<and> cert = cert_pem (Leaf False ''ps.kw.svc'')" for n l cert
    using sample_labels
    by (auto simp: served_cert_def expiring_state_def empty_cluster_def expiring_root_def webhooks_cert_def server_cert_def sample_secret_def
        split: if_splits)
  show ?thesis by (auto simp: presented_def rotation_reconciler_def served DNSName_def)
qed

lemma expiring_bundles: "bundles expiring_state = {cert_pem (Root False)}"
  using sample_labels(4) by (auto simp: bundles_def expiring_state_def empty_cluster_def sample_hook_def split: if_splits)

lemma cert_pem_single: "single_pem rotation_library (cert_pem cert) cert"
  by (auto simp: single_pem_def rotation_library_def cert_pem_def simp del: cert_text.simps)

lemma expiring_trust:
  assumes "p \<in> presented rotation_reconciler expiring_state"
  shows "trusts rotation_library sample_later (cert_pem (Root False)) p"
proof -
  obtain name where p: "p = (cert_pem (Leaf False name), name)" using assms unfolding expiring_presented by blast
  have "xl_pem_Decode rotation_library (cert_pem (Leaf False name)) = (Some \<lparr>pem_Type = ''CERTIFICATE'', pem_Bytes = cert_text (Leaf False name)\<rparr>, [])"
    using sample_Decode_Encode [of _ "[]"] by (simp add: rotation_library_def cert_pem_def del: cert_text.simps)
  then show ?thesis unfolding trusts_iff p
    using pool_single [OF sample_pem_laws cert_pem_single [of "Root False"]]
    by (auto simp: rotation_library_def root_good_def sample_later_def old_root_end_def simp del: cert_text.simps)
qed

lemma expiring_bundle: "CABundleFromSecret expiring_root = cert_pem (Root False)"
  by (simp add: CABundleFromSecret_def map_str_def expiring_root_def sample_secret_def)

lemma sample_issued: "issued rotation_library sample_now cert"
  by (cases cert) (auto simp: issued_def rotation_library_def root_good_def split: if_splits)

lemma expiring_ca_inv: "ca_inv rotation_library sample_now sample_later rotation_reconciler [expiring_state] expiring_root"
proof -
  have "separate rotation_reconciler expiring_state"
    using sample_labels by (auto simp: separate_def controller_secrets_def rotation_reconciler_def expiring_state_def empty_cluster_def split: if_splits)
  moreover have "old_root rotation_library sample_now expiring_root" by (simp add: old_root_def expiring_root_def sample_secret_def)
  ultimately show ?thesis
    using expiring_trust
    by (simp add: ca_inv_def seen_def expiring_bundles expiring_bundle ca_key_def rotation_reconciler_def [THEN arg_cong, of cr_DeploymentsNamespace])
      (simp add: expiring_state_def expiring_root_def sample_secret_def secret_key_def meta_named_def)
qed

lemma expiring_root_ready: "root_ready rotation_library sample_now sample_later rotation_reconciler [expiring_state] expiring_root"
  using expiring_trust cert_pem_single sample_issued
  by (auto simp: root_ready_def ExtractCARoot_Ok_iff expiring_root_def sample_secret_def seen_def)

lemma sample_clock: "clock_near rotation_library sample_now sample_later"
  by (simp add: clock_near_def rotation_library_def sample_now_def sample_later_def CertLookahead_def)

text \<open>The pass replaces the root and keeps it as the old one.\<close>

definition renewed_root :: Secret where
  "renewed_root = sample_secret CARootSecretName controllerLabels
     [(CARootCert, cert_pem (Root True)), (CARootPrivateKey, private_pem True), (OldCARootCert, cert_pem (Root False))]"

lemma expiring_not_verified: "VerifyCA rotation_library (cert_pem (Root False)) key (sample_now + CertLookahead) \<noteq> Ok u"
proof
  assume "VerifyCA rotation_library (cert_pem (Root False)) key (sample_now + CertLookahead) = Ok u"
  from VerifyCA_Ok(1) [OF rotation_library_laws cert_pem_single this] show False
    by (simp add: rotation_library_def root_good_def sample_now_def CertLookahead_def old_root_end_def)
qed

lemma expiring_renewed:
  "reconcileCARoot rotation_library rotation_client expiring_root expiring_world = (Ok renewed_root, add_event (Stored renewed_root) expiring_world)"
proof -
  have ex: "ExtractCARootFromSecret expiring_root = Ok (cert_pem (Root False), private_pem False)"
    by (simp add: ExtractCARoot_Ok_iff expiring_root_def sample_secret_def single_pem_not_Nil [OF sample_pem_laws cert_pem_single])
      (simp add: private_pem_def sample_Encode_def)
  obtain e where e: "VerifyCA rotation_library (cert_pem (Root False)) (Some (private_pem False)) (sample_now + CertLookahead) = Inl e"
    using expiring_not_verified by (cases "VerifyCA rotation_library (cert_pem (Root False)) (Some (private_pem False)) (sample_now + CertLookahead)") auto
  have ca: "GenerateCA rotation_library a b w = (Ok (cert_pem (Root True), private_pem True), w)" for a b w
    by (simp add: GenerateCA_def Let_def rotation_library_def pemEncodeCertificate_def pemEncodePrivateKey_def cert_pem_def private_pem_def
        act_then_def act_map_err_def act_case_def act_ok_def act_pure_def  del: cert_text.simps)
  have found: "cs_secrets (state_of (sw_all expiring_world)) (''kw'', CARootSecretName) = Some expiring_root"
    using arg_cong [OF expiring_history, of hd] by (simp add: expiring_state_def)
  have key: "om_namespace (sec_meta expiring_root) = ''kw''" "om_name (sec_meta expiring_root) = CARootSecretName"
    by (simp_all add: expiring_root_def sample_secret_def meta_named_def)
  have upd: "updateSecretWithRetry rotation_library rotation_client expiring_root f expiring_world =
      (Ok (expiring_root\<lparr>sec_data := f (sec_data expiring_root)\<rparr>), add_event (Stored (expiring_root\<lparr>sec_data := f (sec_data expiring_root)\<rparr>)) expiring_world)" for f
    by (simp add: updateSecretWithRetry_def rotation_library_def numeral_eq_Suc act_then_def act_map_err_def act_case_def act_ok_def act_err_def act_pure_def found
        key secret_key_def rotation_client_def)
  have now: "xl_now rotation_library w = sample_now" for w by (simp add: rotation_library_def)
  have put: "expiring_root\<lparr>sec_data := rotate_root (cert_pem (Root True)) (private_pem True) (cert_pem (Root False)) (sec_data expiring_root)\<rparr> = renewed_root"
    by (simp add: expiring_root_def renewed_root_def sample_secret_def map_put_def)
  show ?thesis by (simp add: reconcileCARoot_def act_then_def act_map_err_def act_case_def act_ok_def act_pure_def act_read_def ex now e ca upd put)
qed

section \<open>The theorem\<close>



end
