(* ===== verification/Spec2Isabelle.thy ===== *)
theory Spec2Isabelle
  imports Field_Mask Server_Bootstrap Audit_Scanner Cert_Rotation
begin

text \<open>
  A verification development for the Kubewarden admission controller.

  \<^bold>\<open>The program.\<close>  Kubewarden evaluates Kubernetes admission requests with policies that are
  WebAssembly modules.  The repository holds the Rust crates of the policy server and its
  libraries under \<^verbatim>\<open>src/crates\<close> (\<^verbatim>\<open>policy-evaluator\<close>, \<^verbatim>\<open>policy-fetcher\<close>, \<^verbatim>\<open>policy-server\<close>,
  \<^verbatim>\<open>burrego\<close>, the command line tool \<^verbatim>\<open>kwctl\<close>), and the Go controller and audit scanner under
  \<^verbatim>\<open>src/api\<close>, \<^verbatim>\<open>src/internal\<close> and \<^verbatim>\<open>src/cmd\<close>.  When the policy server starts it reads its
  configuration, downloads the policies and verifies their signatures, compiles them, and
  registers them in an evaluation environment.  A request names a policy or a group of policies;
  it is evaluated by one of four runtimes, which can call back to the host for data of the
  cluster; the response is post-processed and sent back.  The controller validates the custom
  resources of policies and policy servers, writes for every policy server the config map and the
  deployment it runs from, and registers a webhook for every policy that its server serves.  The
  audit scanner evaluates the same policies on the resources that exist and stores reports.

  \<^bold>\<open>Conventions.\<close>  A \<^verbatim>\<open>Result\<close> is a sum with the error on the left (\<open>Ok\<close> and \<open>Err\<close> in \<open>Prelude\<close>),
  \<^verbatim>\<open>?\<close> is \<open>try_then\<close>, loops with early return are \<open>try_fold\<close> or \<open>collect_map\<close>.  Code with observable
  effects (requests on a channel, metrics, attempts to connect) returns a trace next to its result.
  Strings are UTF-8 byte strings.  Machine integers are words where they can wrap.  Maps that are
  iterated are association lists in the order of iteration.  Panics are error values.  Third-party
  libraries, the network, the file system and clocks are fields of library records that the
  operations take as a parameter; what a theorem needs of them is among its premises.  Asynchronous
  code is sequential where one task runs it, and a step relation where tasks interleave.

  \<^bold>\<open>Theories and what they model.\<close>
  \<^item> \<open>Prelude\<close>, \<open>Rust_Strings\<close>, \<open>Json\<close>: results, traces, string routines, JSON values.
  \<^item> \<open>Policy_Id\<close>, \<open>Admission_Response\<close>, \<open>Response_Handler\<close>, \<open>Policy_Request\<close>: identifiers, responses and
    their post-processing (\<^verbatim>\<open>admission_response.rs\<close>, \<^verbatim>\<open>admission_response_handler.rs\<close>,
    \<^verbatim>\<open>admission_request.rs\<close>).  The stages of post-processing are instances of a locale.
  \<^item> \<open>Host_Capabilities\<close>, \<open>Callback_Requests\<close>, \<open>Evaluation_Context\<close>, \<open>Callback_Gate\<close>: what a running policy may
    ask of the host and the gate in front of the callback channel (\<^verbatim>\<open>host_capabilities.rs\<close>,
    \<^verbatim>\<open>callback_requests.rs\<close>, \<^verbatim>\<open>evaluation_context.rs\<close>, \<^verbatim>\<open>runtimes/callback.rs\<close>).
  \<^item> \<open>Field_Mask\<close>: pruning of watched objects.
  \<^item> \<open>Rego_Context\<close>, \<open>Runtimes\<close>, \<open>Ferricel\<close>, \<open>Policy_Evaluator\<close>, \<open>Policy_Group\<close>: the runtimes, the evaluator of
    a policy and the evaluation of groups (\<^verbatim>\<open>runtimes/\<close>, \<^verbatim>\<open>policy_evaluator/\<close>,
    \<^verbatim>\<open>policy_group_evaluator/\<close>).
  \<^item> \<open>Policy_Metadata\<close>, \<open>Evaluator_Builder\<close>: metadata, precompiled policies, the builder of evaluators.
  \<^item> \<open>Config\<close>: the command line and the configuration of the server (\<^verbatim>\<open>cli.rs\<close>, \<^verbatim>\<open>config.rs\<close>).
  \<^item> \<open>Evaluation_Environment\<close>, \<open>Environment_Refinement\<close>: the environment
    (\<^verbatim>\<open>evaluation/evaluation_environment.rs\<close>) and its refinement of a specification that knows the
    configuration only.
  \<^item> \<open>Server_Api\<close>, \<open>Request_Pool\<close>: the service, the HTTP handlers, metrics, and concurrent requests
    (\<^verbatim>\<open>api/\<close>, \<^verbatim>\<open>metrics/\<close>).
  \<^item> \<open>Fetcher_Sources\<close>, \<open>Policy_Store\<close>, \<open>Policy_Fetcher\<close>, \<open>Signature_Verification\<close>, \<open>Fetcher_Errors\<close>: the crate
    \<^verbatim>\<open>policy-fetcher\<close>: sources and clients, the local store, fetching and registries, signatures.
  \<^item> \<open>Tls_Reload\<close>, \<open>Server_Bootstrap\<close>: the watch of the certificates, and the start and run of the server
    (\<^verbatim>\<open>certs.rs\<close>, \<^verbatim>\<open>policy_downloader.rs\<close>, \<^verbatim>\<open>lib.rs\<close>).
  \<^item> \<open>Kube_Policy\<close>, \<open>Policy_Validation\<close>, \<open>Allowed_Resources\<close>: the custom resources, the webhooks that
    default and validate them (\<^verbatim>\<open>src/api/policies/v1\<close>), and the allow list of namespaced policies
    (\<^verbatim>\<open>namespaced_policies_allowed_resources.go\<close>).
  \<^item> \<open>Config_Decode\<close>, \<open>Policies_ConfigMap\<close>, \<open>Policies_Deployment\<close>: the config map that the controller writes
    (\<^verbatim>\<open>policyserver_controller_configmap.go\<close>), the decoders with which the policy server reads it
    (\<^verbatim>\<open>config.rs\<close>), and the composition of the two.
  \<^item> \<open>Kube_Client\<close>, \<open>Policy_Reconciler\<close>, \<open>Policy_Enforcement\<close>: code that calls the API server, as actions on
    an unspecified state of the cluster with weakest preconditions; the reconciliation of policies
    (\<^verbatim>\<open>policy_subreconciler.go\<close>, \<^verbatim>\<open>policy_subreconciler_webhook.go\<close>); what a reconciliation achieves
    under the laws of the API server, with an in-memory API server as an instance.
  \<^item> \<open>Audit_Report\<close>, \<open>Audit_Policies\<close>, \<open>Audit_Scanner\<close>: the audit scanner
    (\<^verbatim>\<open>src/internal/audit-scanner\<close>): reports and their stores, the choice of the policies that are
    evaluated, and the scans.  The goroutines of a scan are a step relation in which the workers
    run in any order; the contract of a report store is a locale with both stores as instances.
  \<^item> \<open>Certificates\<close>, \<open>Cert_Controller\<close>: generation and verification of certificates and the preparation of
    the controller (\<^verbatim>\<open>internal/certs\<close>, \<^verbatim>\<open>internal/bootstrap\<close>), and the pass that rotates the CA root and
    the certificates (\<^verbatim>\<open>cert_controller.go\<close>).
  \<^item> \<open>Cert_Trust\<close>, \<open>Cert_Rotation\<close>: the history of the cluster in a pass, what the API server and the packages for
    certificates promise as hypotheses, the trust of the webhook configurations in the servers, and the invariant
    of each step of the pass.

  \<^bold>\<open>What is shown.\<close>  A policy reaches the host only as far as its allow lists permit.  Evaluation fails
  closed, in every runtime.  Groups decide by their expression.  The environment refines its
  configuration, and a request is admitted exactly if the configured policy admits it.  Only signed
  modules run once verification is configured and the trust root is available; verification accepts
  exactly what its configuration describes; fetching never downgrades TLS silently.  The TLS
  configuration in service is never a mixture of loads and never loses client authentication.
  The caches and shared data are transparent.  Parsers and printers are inverse.  Several theorems
  state where the code departs from its documentation; they are among the findings.
  For the controller: accepted objects stay well formed under updates; the webhook and the policy
  server agree on capabilities; the config map reaches the policy server with every policy under
  its own name, settings and grants, and is read back by the controller; a policy that is reported
  active is enforced, and one that is deleted, rejected or without its server is not.
  For the audit scanner: exactly the right policies are evaluated, a scan leaves exactly the reports
  with their verdicts, and it ends however its workers are scheduled.
  For the certificates: a pass that rotates them never breaks the trust of a webhook configuration in
  a server, not even if it fails half way.

  \<^bold>\<open>Bounds.\<close>  No definition uses fuel: loops are structural or have a termination proof.  Words have the
  width of the source (\<^verbatim>\<open>usize\<close> is 64 bits); counters that cannot overflow in practice are naturals.

  \<^bold>\<open>Not modelled.\<close>
  \<^item> The runtimes of WebAssembly, Rego and CEL, Sigstore, OCI and Kubernetes clients, TLS, YAML and PEM
    parsers: third-party code, parameters of the model.
  \<^item> The execution of callback requests in the callback handler (\<^verbatim>\<open>callback_handler/\<close>), whose answers
    are given by the callback channel; the pipes and host functions of the runtimes.
  \<^item> Logging, tracing set-up, profiling and daemonization: input and output without a decision.
  \<^item> The reconciliation of policy servers, and \<^verbatim>\<open>kwctl\<close>.
\<close>

end
